(* ===== verification/Prelude.thy ===== *)
theory Prelude
  imports Main "HOL-Library.Signed_Division" "HOL-Library.Multiset"
begin

text \<open>
  Shared ground of the development: the type of run-time faults, bytes and C strings, the
  32-bit range of a C \<open>int\<close>, the few list operations of the code's \<open>t_list\<close> that the
  library does not have under the shape the code uses (first index that satisfies a
  predicate, removal at an index), and the collections of simplification rules the
  component theories fill.
\<close>

section \<open>Results that may fail\<close>

text \<open>
  What stops a module of the program, or makes its behaviour undefined:
  \<open>Fuera_de_rango\<close> reads or writes outside an allocated block, \<open>Puntero_nulo\<close>
  dereferences NULL, \<open>Liberado\<close> uses a block after \<open>free\<close>, \<open>Salida\<close> is a call of
  \<open>exit(1)\<close>, \<open>Conexion\<close> is a socket that closes in the middle of a message,
  \<open>Sin_inicializar\<close> reads a variable nothing was written to.
\<close>

datatype fault = Fuera_de_rango | Puntero_nulo | Liberado | Salida | Conexion | Sin_inicializar

type_synonym 'a res = "fault + 'a"

definition es_ok :: "'a res \<Rightarrow> bool" where
  "es_ok r \<longleftrightarrow> (case r of Inl _ \<Rightarrow> False | Inr _ \<Rightarrow> True)"

lemma es_ok_simps [simp]:
  "es_ok (Inr x)" "\<not> es_ok (Inl e)"
  by (simp_all add: es_ok_def)

lemma es_ok_iff: "es_ok r \<longleftrightarrow> (\<exists>x. r = Inr x)"
  by (cases r) simp_all

text \<open>Sequencing: the next call runs on the value of the previous one, or not at all.\<close>

definition bind_res :: "'a res \<Rightarrow> ('a \<Rightarrow> 'b res) \<Rightarrow> 'b res" where
  "bind_res r f = (case r of Inl e \<Rightarrow> Inl e | Inr x \<Rightarrow> f x)"

lemma bind_res_simps [simp]:
  "bind_res (Inr x) f = f x" "bind_res (Inl e) f = Inl e"
  by (simp_all add: bind_res_def)

lemma bind_res_Inr_iff: "bind_res r f = Inr y \<longleftrightarrow> (\<exists>x. r = Inr x \<and> f x = Inr y)"
  by (cases r) simp_all

lemma bind_res_InrE:
  assumes "bind_res r f = Inr y"
  obtains x where "r = Inr x" "f x = Inr y"
  using assms by (auto simp: bind_res_Inr_iff)

section \<open>Bytes, C strings and C ints\<close>

type_synonym byte = char

abbreviation NUL :: byte where "NUL \<equiv> CHR 0x00"

text \<open>The block a C string occupies, and the string a block holds up to its first NUL.\<close>

definition bloque_de :: "string \<Rightarrow> byte list" where
  "bloque_de s = s @ [NUL]"

definition c_str :: "byte list \<Rightarrow> string" where
  "c_str b = takeWhile (\<lambda>c. c \<noteq> NUL) b"

definition es_c_str :: "string \<Rightarrow> bool" where
  "es_c_str s \<longleftrightarrow> NUL \<notin> set s"

lemma c_str_bloque_de [simp]: "es_c_str s \<Longrightarrow> c_str (bloque_de s) = s"
  by (induction s) (auto simp: c_str_def bloque_de_def es_c_str_def)

lemma length_bloque_de [simp]: "length (bloque_de s) = Suc (length s)"
  by (simp add: bloque_de_def)

definition int32_ok :: "int \<Rightarrow> bool" where
  "int32_ok i \<longleftrightarrow> - 2147483648 \<le> i \<and> i < 2147483648"

lemma int32_ok_numeral [simp]: "int32_ok (numeral n) \<longleftrightarrow> numeral n < (2147483648 :: int)"
  "int32_ok 0" "int32_ok 1" "int32_ok (- 1)"
  by (auto simp: int32_ok_def)

lemma int32_ok_bounds: "int32_ok i \<Longrightarrow> - 2147483648 \<le> i \<and> i < 2147483648"
  by (simp add: int32_ok_def)

section \<open>Decimal strings\<close>

text \<open>
  \<open>atoi\<close> of the C library: white space, an optional sign, then the digits up to the first
  other character (0 when there are none). The value is unbounded here; C leaves a numeral
  outside the \<open>int\<close> range undefined.
\<close>

definition es_digito :: "char \<Rightarrow> bool" where
  "es_digito c \<longleftrightarrow> 48 \<le> (of_char c :: int) \<and> (of_char c :: int) \<le> 57"

definition es_espacio :: "char \<Rightarrow> bool" where
  "es_espacio c \<longleftrightarrow> c = CHR '' '' \<or> (9 \<le> (of_char c :: int) \<and> (of_char c :: int) \<le> 13)"

fun digitos :: "int \<Rightarrow> string \<Rightarrow> int" where
  "digitos acc [] = acc"
| "digitos acc (c # cs) = (if es_digito c then digitos (acc * 10 + (of_char c - 48)) cs else acc)"

definition atoi :: "string \<Rightarrow> int" where
  "atoi s = (case dropWhile es_espacio s of
               [] \<Rightarrow> 0
             | c # cs \<Rightarrow> if c = CHR ''-'' then - digitos 0 cs
                        else if c = CHR ''+'' then digitos 0 cs
                        else digitos 0 (c # cs))"

text \<open>The usual decimal numeral of an integer, for which \<open>atoi\<close> is the inverse.\<close>

fun decimal_nat :: "nat \<Rightarrow> string" where
  "decimal_nat n = (if n < 10 then [char_of (48 + n)]
                    else decimal_nat (n div 10) @ [char_of (48 + n mod 10)])"

declare decimal_nat.simps [simp del]

definition decimal :: "int \<Rightarrow> string" where
  "decimal i = (if i < 0 then CHR ''-'' # decimal_nat (nat (- i)) else decimal_nat (nat i))"

lemma of_char_digito:
  "d < 10 \<Longrightarrow> (of_char (char_of (48 + d :: nat) :: char) :: int) = 48 + int d"
proof -
  assume "d < 10"
  have "(of_char (char_of (48 + d :: nat) :: char) :: int)
        = int (of_char (char_of (48 + d :: nat) :: char))" by (simp only: of_nat_of_char)
  also have "\<dots> = int ((48 + d) mod 256)" by (simp only: of_char_of)
  also have "\<dots> = 48 + int d" using \<open>d < 10\<close> by simp
  finally show ?thesis .
qed

lemma es_digito_digito: "d < 10 \<Longrightarrow> es_digito (char_of (48 + d :: nat))"
  by (simp add: es_digito_def of_char_digito)

lemma digitos_append:
  "\<forall>c \<in> set xs. es_digito c \<Longrightarrow> digitos acc (xs @ ys) = digitos (digitos acc xs) ys"
  by (induction xs arbitrary: acc) auto

lemma decimal_nat_digitos: "\<forall>c \<in> set (decimal_nat n). es_digito c"
proof (induction n rule: decimal_nat.induct)
  case (1 n)
  then show ?case
    by (subst decimal_nat.simps) (auto simp: es_digito_digito)
qed

lemma digitos_decimal_nat: "digitos 0 (decimal_nat n) = int n"
proof (induction n rule: decimal_nat.induct)
  case (1 n)
  show ?case
  proof (cases "n < 10")
    case True
    then show ?thesis
      by (subst decimal_nat.simps) (simp add: es_digito_digito of_char_digito)
  next
    case False
    have "digitos 0 (decimal_nat n)
          = digitos (digitos 0 (decimal_nat (n div 10))) [char_of (48 + n mod 10)]"
      using False digitos_append [OF decimal_nat_digitos [of "n div 10"]]
      by (subst decimal_nat.simps) (simp only: if_False)
    also have "\<dots> = int (n div 10) * 10 + int (n mod 10)"
      using False by (simp add: 1 es_digito_digito of_char_digito)
    also have "\<dots> = int n" by (simp flip: of_nat_mult of_nat_add add: zdiv_int zmod_int)
    finally show ?thesis .
  qed
qed

lemma decimal_nat_Cons: "\<exists>c cs. decimal_nat n = c # cs"
  by (subst decimal_nat.simps) (cases "decimal_nat (n div 10)"; simp)

lemma atoi_decimal: "atoi (decimal i) = i"
proof (cases "i < 0")
  case True
  have "\<not> es_espacio (CHR ''-'')" by (simp add: es_espacio_def)
  with True show ?thesis by (simp add: atoi_def decimal_def digitos_decimal_nat)
next
  case False
  obtain c cs where c: "decimal_nat (nat i) = c # cs" using decimal_nat_Cons by blast
  then have "es_digito c" using decimal_nat_digitos [of "nat i"] by simp
  then have "\<not> es_espacio c" "c \<noteq> CHR ''-''" "c \<noteq> CHR ''+''"
    by (auto simp: es_digito_def es_espacio_def)
  with False c show ?thesis
    using digitos_decimal_nat [of "nat i"] by (simp add: atoi_def decimal_def)
qed

lemma decimal_nat_largo: "n < 10 ^ Suc k \<Longrightarrow> length (decimal_nat n) \<le> Suc k"
proof (induction k arbitrary: n)
  case 0
  then show ?case by (subst decimal_nat.simps) simp
next
  case (Suc k)
  then have "length (decimal_nat (n div 10)) \<le> Suc k" by (simp add: div_less_iff_less_mult mult.commute)
  then show ?case by (subst decimal_nat.simps) simp
qed

lemma decimal_largo: "int32_ok i \<Longrightarrow> length (decimal i) \<le> 11"
  using decimal_nat_largo [of "nat i" 9] decimal_nat_largo [of "nat (- i)" 9]
  by (simp add: decimal_def int32_ok_def) linarith

lemma decimal_c_str: "es_c_str (decimal i)"
proof -
  have "\<not> es_digito NUL" by (simp add: es_digito_def)
  then have "NUL \<notin> set (decimal_nat n)" for n using decimal_nat_digitos [of n] by blast
  then show ?thesis by (auto simp: es_c_str_def decimal_def)
qed

section \<open>Lists by index\<close>

text \<open>The index of the first element that satisfies \<open>P\<close> (\<open>list_find\<close> keeps the pointer).\<close>

fun find_index :: "('a \<Rightarrow> bool) \<Rightarrow> 'a list \<Rightarrow> nat option" where
  "find_index P [] = None"
| "find_index P (x # xs) = (if P x then Some 0 else map_option Suc (find_index P xs))"

definition remove_nth :: "nat \<Rightarrow> 'a list \<Rightarrow> 'a list" where
  "remove_nth i xs = take i xs @ drop (Suc i) xs"

lemma find_index_None_iff: "find_index P xs = None \<longleftrightarrow> (\<forall>x \<in> set xs. \<not> P x)"
  by (induction xs) auto

lemma find_index_SomeD:
  "find_index P xs = Some i \<Longrightarrow> i < length xs \<and> P (xs ! i)"
  by (induction xs arbitrary: i) (auto split: if_splits)

lemma find_index_first:
  "find_index P xs = Some i \<Longrightarrow> j < i \<Longrightarrow> \<not> P (xs ! j)"
proof (induction xs arbitrary: i j)
  case (Cons x xs)
  then show ?case by (cases j) (auto split: if_splits)
qed simp

lemma length_remove_nth [simp]: "i < length xs \<Longrightarrow> length (remove_nth i xs) = length xs - 1"
  by (simp add: remove_nth_def)

lemma set_remove_nth_subset: "set (remove_nth i xs) \<subseteq> set xs"
  by (auto simp: remove_nth_def dest: in_set_takeD in_set_dropD)

lemma en_remove_nth: "x \<in> set (remove_nth i xs) \<Longrightarrow> x \<in> set xs"
  by (rule subsetD [OF set_remove_nth_subset])

lemma nth_en_remove_nth: "i < length xs \<Longrightarrow> j < length xs \<Longrightarrow> i \<noteq> j \<Longrightarrow> xs ! j \<in> set (remove_nth i xs)"
proof (induction xs arbitrary: i j)
  case (Cons x xs)
  then show ?case by (cases i; cases j) (auto simp: remove_nth_def)
qed simp

lemma mset_remove_nth: "i < length xs \<Longrightarrow> add_mset (xs ! i) (mset (remove_nth i xs)) = mset xs"
proof (induction xs arbitrary: i)
  case (Cons x xs)
  then show ?case by (cases i) (auto simp: remove_nth_def)
qed simp

lemma remove_nth_Suc [simp]: "remove_nth (Suc j) (x # xs) = x # remove_nth j xs"
  by (simp add: remove_nth_def)

lemma en_tl: "x \<in> set (tl xs) \<Longrightarrow> x \<in> set xs"
  by (cases xs) simp_all

lemma map_remove_nth: "map f (remove_nth i xs) = remove_nth i (map f xs)"
  by (simp add: remove_nth_def take_map drop_map)

lemma remove_nth_split:
  "i < length xs \<Longrightarrow> xs = take i xs @ xs ! i # drop (Suc i) xs"
  by (rule id_take_nth_drop)

lemma set_remove_nth_distinct:
  "distinct xs \<Longrightarrow> i < length xs \<Longrightarrow> set (remove_nth i xs) = set xs - {xs ! i}"
proof (induction xs arbitrary: i)
  case (Cons x xs)
  then show ?case by (cases i) (auto simp: remove_nth_def)
qed simp

lemma distinct_remove_nth: "distinct xs \<Longrightarrow> distinct (remove_nth i xs)"
proof (cases "i < length xs")
  case True
  assume "distinct xs"
  then have "distinct (take i xs @ xs ! i # drop (Suc i) xs)"
    using True by (simp add: id_take_nth_drop [symmetric])
  then show ?thesis by (auto simp: remove_nth_def)
next
  case False
  assume "distinct xs"
  with False show ?thesis by (simp add: remove_nth_def)
qed

section \<open>Integer division as C has it\<close>

text \<open>
  \<open>/\<close> and \<open>%\<close> of C truncate towards zero: \<open>sdiv\<close> and \<open>smod\<close> of the library on
  \<open>int\<close>. On non-negative operands they agree with \<open>div\<close> and \<open>mod\<close>.
\<close>

lemma sdiv_nonneg [simp]: "0 \<le> a \<Longrightarrow> 0 \<le> b \<Longrightarrow> (a::int) sdiv b = a div b"
  by (cases "a = 0"; cases "b = 0") (simp_all add: signed_divide_int_def)

lemma smod_nonneg [simp]: "0 \<le> a \<Longrightarrow> 0 \<le> b \<Longrightarrow> (a::int) smod b = a mod b"
  by (cases "a = 0") (simp_all add: signed_modulo_int_def)

section \<open>Collections filled by the component theories\<close>

named_theorems wire_simps \<open>encoders of the wire format, unfolded to their byte lists\<close>
named_theorems mem_simps \<open>projections and frame facts of the memory module\<close>
named_theorems fs_simps \<open>projections and frame facts of the file system module\<close>
named_theorems ker_simps \<open>projections and frame facts of the kernel module\<close>

end
