(* ===== verification/Commons.thy ===== *)
theory Commons
  imports Prelude "HOL-Library.AList" "HOL-Library.Multiset"
begin

text \<open>
  The containers of the so-commons library, which is not part of the repository. A
  \<open>t_list\<close> is the HOL list of its elements (of its pointers, where the code mutates the
  pointed objects) and a \<open>t_dictionary\<close> is an association list with distinct keys. Where
  the documentation leaves the result open (which of several minimal elements
  \<open>list_get_minimum\<close> returns, in which order a dictionary is enumerated) or the function is
  a string conversion, the operation is a parameter: a field of the record \<open>commons\<close> that
  every definition using it takes as an argument. \<open>commons_ok\<close> states what the code relies
  on, and \<open>commons_ej\<close> is a concrete library that satisfies it. \<open>malloc_util n\<close> is what
  \<open>malloc_usable_size\<close> gives for a block of \<open>malloc(n)\<close>: the strict reading of C is \<open>n\<close>, and
  an allocator rounds it up. It is used for the blocks through which the registers of a process
  go, where the code writes more than it asked for at every system call.
\<close>

record commons =
  list_get_minimum :: "(nat \<Rightarrow> nat \<Rightarrow> nat) \<Rightarrow> nat list \<Rightarrow> nat"
  list_get_maximum :: "(nat \<Rightarrow> nat \<Rightarrow> nat) \<Rightarrow> nat list \<Rightarrow> nat"
  dictionary_orden :: "(string \<times> nat list) list \<Rightarrow> (string \<times> nat list) list"
  string_itoa :: "int \<Rightarrow> string"
  string_split :: "string \<Rightarrow> string \<Rightarrow> string list"
  malloc_util :: "nat \<Rightarrow> nat"

text \<open>A comparator that returns the element with the smaller key, the first on a tie.\<close>

definition menor_por :: "('a \<Rightarrow> int) \<Rightarrow> 'a \<Rightarrow> 'a \<Rightarrow> 'a" where
  "menor_por key a b = (if key a \<le> key b then a else b)"

definition mayor_por :: "('a \<Rightarrow> int) \<Rightarrow> 'a \<Rightarrow> 'a \<Rightarrow> 'a" where
  "mayor_por key a b = (if key a \<ge> key b then a else b)"

text \<open>The words of a line, separated by one character.\<close>

fun unir :: "char \<Rightarrow> string list \<Rightarrow> string" where
  "unir c [] = []"
| "unir c [w] = w"
| "unir c (w # v # ws) = w @ c # unir c (v # ws)"

definition commons_ok :: "commons \<Rightarrow> bool" where
  "commons_ok cm \<longleftrightarrow>
     (\<forall>key xs. xs \<noteq> [] \<longrightarrow> list_get_minimum cm (menor_por key) xs \<in> set xs
        \<and> (\<forall>y \<in> set xs. key (list_get_minimum cm (menor_por key) xs) \<le> key y)) \<and>
     (\<forall>key xs. xs \<noteq> [] \<longrightarrow> list_get_maximum cm (mayor_por key) xs \<in> set xs
        \<and> (\<forall>y \<in> set xs. key (list_get_maximum cm (mayor_por key) xs) \<ge> key y)) \<and>
     (\<forall>d. mset (dictionary_orden cm d) = mset d) \<and>
     (\<forall>i. int32_ok i \<longrightarrow> atoi (string_itoa cm i) = i \<and> es_c_str (string_itoa cm i)
        \<and> length (string_itoa cm i) \<le> 11) \<and>
     (\<forall>ws. ws \<noteq> [] \<and> (\<forall>w \<in> set ws. w \<noteq> [] \<and> CHR '' '' \<notin> set w) \<longrightarrow>
        string_split cm (unir (CHR '' '') ws) '' '' = ws) \<and>
     (\<forall>n. n \<le> malloc_util cm n)"

lemma list_get_minimum_in:
  "commons_ok cm \<Longrightarrow> xs \<noteq> [] \<Longrightarrow> list_get_minimum cm (menor_por key) xs \<in> set xs"
  by (simp add: commons_ok_def)

lemma list_get_minimum_le:
  "commons_ok cm \<Longrightarrow> y \<in> set xs \<Longrightarrow> key (list_get_minimum cm (menor_por key) xs) \<le> key y"
  unfolding commons_ok_def by (metis empty_iff list.set(1))

lemma list_get_maximum_in:
  "commons_ok cm \<Longrightarrow> xs \<noteq> [] \<Longrightarrow> list_get_maximum cm (mayor_por key) xs \<in> set xs"
  by (simp add: commons_ok_def)

lemma list_get_maximum_ge:
  "commons_ok cm \<Longrightarrow> y \<in> set xs \<Longrightarrow> key y \<le> key (list_get_maximum cm (mayor_por key) xs)"
  unfolding commons_ok_def by (metis empty_iff list.set(1))

lemma mset_dictionary_orden: "commons_ok cm \<Longrightarrow> mset (dictionary_orden cm d) = mset d"
  by (simp add: commons_ok_def)

lemma atoi_string_itoa: "commons_ok cm \<Longrightarrow> int32_ok i \<Longrightarrow> atoi (string_itoa cm i) = i"
  by (simp add: commons_ok_def)

lemma string_itoa_c_str: "commons_ok cm \<Longrightarrow> int32_ok i \<Longrightarrow> es_c_str (string_itoa cm i)"
  by (simp add: commons_ok_def)

lemma string_split_unir:
  "commons_ok cm \<Longrightarrow> ws \<noteq> [] \<Longrightarrow> \<forall>w \<in> set ws. w \<noteq> [] \<and> CHR '' '' \<notin> set w \<Longrightarrow>
   string_split cm (unir (CHR '' '') ws) '' '' = ws"
  by (simp add: commons_ok_def)

lemma malloc_util_le: "commons_ok cm \<Longrightarrow> n \<le> malloc_util cm n"
  by (simp add: commons_ok_def)

lemma string_itoa_largo: "commons_ok cm \<Longrightarrow> int32_ok i \<Longrightarrow> length (string_itoa cm i) \<le> 11"
  by (simp add: commons_ok_def)

lemma string_itoa_inj:
  "commons_ok cm \<Longrightarrow> int32_ok i \<Longrightarrow> int32_ok j \<Longrightarrow> string_itoa cm i = string_itoa cm j \<longleftrightarrow> i = j"
  by (metis atoi_string_itoa)

section \<open>Dictionaries\<close>

type_synonym ('k, 'v) dict = "('k \<times> 'v) list"

definition dict_ok :: "('k, 'v) dict \<Rightarrow> bool" where
  "dict_ok d \<longleftrightarrow> distinct (map fst d)"

definition dictionary_get :: "('k, 'v) dict \<Rightarrow> 'k \<Rightarrow> 'v option" where
  "dictionary_get d k = map_of d k"

definition dictionary_has_key :: "('k, 'v) dict \<Rightarrow> 'k \<Rightarrow> bool" where
  "dictionary_has_key d k \<longleftrightarrow> map_of d k \<noteq> None"

definition dictionary_put :: "('k, 'v) dict \<Rightarrow> 'k \<Rightarrow> 'v \<Rightarrow> ('k, 'v) dict" where
  "dictionary_put d k v = AList.update k v d"

definition dictionary_remove :: "('k, 'v) dict \<Rightarrow> 'k \<Rightarrow> ('k, 'v) dict" where
  "dictionary_remove d k = AList.delete k d"

lemma dictionary_get_put [simp]:
  "dictionary_get (dictionary_put d k v) k' = (if k' = k then Some v else dictionary_get d k')"
  by (simp add: dictionary_get_def dictionary_put_def update_conv)

lemma dictionary_get_remove [simp]:
  "dictionary_get (dictionary_remove d k) k' = (if k' = k then None else dictionary_get d k')"
  by (simp add: dictionary_get_def dictionary_remove_def delete_conv)

lemma dictionary_get_Nil [simp]: "dictionary_get [] k = None"
  by (simp add: dictionary_get_def)

lemma dictionary_has_key_get: "dictionary_has_key d k \<longleftrightarrow> dictionary_get d k \<noteq> None"
  by (simp add: dictionary_has_key_def dictionary_get_def)

lemma set_dictionary_put: "set (dictionary_put d k v) \<subseteq> insert (k, v) (set d)"
proof -
  have "set (AList.update k v d) \<subseteq> insert (k, v) (set d)"
    by (induction d) auto
  then show ?thesis by (simp add: dictionary_put_def)
qed

lemma dict_ok_put [simp]: "dict_ok d \<Longrightarrow> dict_ok (dictionary_put d k v)"
  by (simp add: dict_ok_def dictionary_put_def distinct_update)

lemma dict_ok_remove [simp]: "dict_ok d \<Longrightarrow> dict_ok (dictionary_remove d k)"
  by (simp add: dict_ok_def dictionary_remove_def distinct_delete)

lemma dict_ok_Nil [simp]: "dict_ok []"
  by (simp add: dict_ok_def)

text \<open>A present entry can be isolated; both updates act on it alone.\<close>

lemma dictionary_split:
  assumes "dict_ok d" and "dictionary_get d k = Some v"
  obtains pre post where "d = pre @ (k, v) # post"
    "\<forall>w. dictionary_put d k w = pre @ (k, w) # post" "dictionary_remove d k = pre @ post"
proof -
  have "\<exists>pre post. d = pre @ (k, v) # post \<and> (\<forall>w. AList.update k w d = pre @ (k, w) # post)
                   \<and> AList.delete k d = pre @ post"
    using assms unfolding dict_ok_def dictionary_get_def
  proof (induction d)
    case (Cons e d)
    obtain k' v' where e: "e = (k', v')" by (cases e)
    show ?case
    proof (cases "k' = k")
      case True
      then have "k \<notin> fst ` set d" using Cons.prems(1) e by simp
      then have "AList.delete k d = d" by (simp add: delete_id)
      then show ?thesis using Cons.prems e True by (intro exI [of _ "[]"] exI [of _ d]) auto
    next
      case False
      then obtain pre post where "d = pre @ (k, v) # post"
        "\<forall>w. AList.update k w d = pre @ (k, w) # post" "AList.delete k d = pre @ post"
        using Cons e by auto
      then show ?thesis using False e
        by (intro exI [of _ "e # pre"] exI [of _ post]) auto
    qed
  qed simp
  then show thesis
    using that by (auto simp: dictionary_put_def dictionary_remove_def)
qed

lemma dictionary_put_new:
  "dictionary_get d k = None \<Longrightarrow> dictionary_put d k v = d @ [(k, v)]"
  unfolding dictionary_get_def dictionary_put_def
  by (induction d) (auto split: if_splits)

lemma claves_put: "dictionary_get d n \<noteq> None \<Longrightarrow> map fst (dictionary_put d n v) = map fst d"
  by (induction d) (auto simp: dictionary_get_def dictionary_put_def split: if_splits)

section \<open>A concrete library\<close>

fun fold1 :: "('a \<Rightarrow> 'a \<Rightarrow> 'a) \<Rightarrow> 'a list \<Rightarrow> 'a" where
  "fold1 f [x] = x"
| "fold1 f (x # y # ys) = fold1 f (f x y # ys)"
| "fold1 f [] = undefined"

fun partir :: "char \<Rightarrow> string \<Rightarrow> string list" where
  "partir c [] = [[]]"
| "partir c (x # xs) = (if x = c then [] # partir c xs
                        else (case partir c xs of w # ws \<Rightarrow> (x # w) # ws | [] \<Rightarrow> [[x]]))"

lemma partir_no_vacia: "partir c s \<noteq> []"
  by (induction s) (auto split: list.split)

lemma partir_palabra: "c \<notin> set w \<Longrightarrow> partir c w = [w]"
  by (induction w) auto

lemma partir_palabra_append: "c \<notin> set w \<Longrightarrow> partir c (w @ c # s) = w # partir c s"
  by (induction w) auto

lemma partir_unir:
  "ws \<noteq> [] \<Longrightarrow> \<forall>w \<in> set ws. c \<notin> set w \<Longrightarrow> partir c (unir c ws) = ws"
  by (induction c ws rule: unir.induct) (simp_all add: partir_palabra partir_palabra_append)

definition commons_ej :: commons where
  "commons_ej = \<lparr>list_get_minimum = fold1, list_get_maximum = fold1,
                 dictionary_orden = (\<lambda>d. d), string_itoa = decimal,
                 string_split = (\<lambda>s sep. partir (hd sep) s), malloc_util = (\<lambda>n. n)\<rparr>"

lemma fold1_min:
  "xs \<noteq> [] \<Longrightarrow> fold1 (menor_por key) xs \<in> set xs
    \<and> (\<forall>y \<in> set xs. key (fold1 (menor_por key) xs) \<le> key y)"
proof (induction "menor_por key" xs rule: fold1.induct)
  case (2 x y ys)
  then show ?case by (auto simp: menor_por_def split: if_splits)
qed simp_all

lemma fold1_max:
  "xs \<noteq> [] \<Longrightarrow> fold1 (mayor_por key) xs \<in> set xs
    \<and> (\<forall>y \<in> set xs. key (fold1 (mayor_por key) xs) \<ge> key y)"
proof (induction "mayor_por key" xs rule: fold1.induct)
  case (2 x y ys)
  then show ?case by (auto simp: mayor_por_def split: if_splits)
qed simp_all

lemma commons_ej_ok: "commons_ok commons_ej"
  unfolding commons_ok_def commons_ej_def
  by (simp add: fold1_min fold1_max atoi_decimal decimal_c_str decimal_largo partir_unir)

end
