(* ===== verification/Mem_Huecos.thy ===== *)
theory Mem_Huecos
  imports Commons
begin

text \<open>
  The free list of the memory module (\<open>Memoria/src/memoria.h\<close>): the \<open>Hueco\<close>s, how a freed
  range joins the list (\<open>alojar_nuevo_hueco\<close>), which hole each assignment algorithm picks
  and how the chosen hole shrinks (\<open>calloc_segment\<close>). The code mutates holes through
  pointers into \<open>huecos_libres\<close>; a pointer is here the index of the hole in that list.

  Every algorithm is an instance of the interface \<open>politica\<close> (it picks a hole that fits,
  whenever there is one), and the facts about reserving space are proved once there.
\<close>

section \<open>Definitions\<close>

record hueco =
  h_pos :: int
  h_size :: int

definition crear_hueco_libre :: "hueco list \<Rightarrow> int \<Rightarrow> int \<Rightarrow> hueco list" where
  "crear_hueco_libre hs pos tam = hs @ [\<lparr>h_pos = pos, h_size = tam\<rparr>]"

definition iniciar_lista_huecos_libres :: "int \<Rightarrow> hueco list" where
  "iniciar_lista_huecos_libres TAM_MEMORIA = [\<lparr>h_pos = 0, h_size = TAM_MEMORIA\<rparr>]"

definition alojar_nuevo_hueco :: "hueco list \<Rightarrow> int \<Rightarrow> int \<Rightarrow> hueco list" where
  "alojar_nuevo_hueco hs nueva_base nuevo_limite =
     (let inferior = find_index (\<lambda>a. h_pos a + h_size a = nueva_base) hs;
          superior = find_index (\<lambda>a. nueva_base + nuevo_limite = h_pos a) hs
      in case inferior of
           Some i \<Rightarrow>
             (case superior of
                Some j \<Rightarrow> remove_nth j
                  (hs[i := (hs ! i)\<lparr>h_size := h_size (hs ! i) + (nuevo_limite + h_size (hs ! j))\<rparr>])
              | None \<Rightarrow> hs[i := (hs ! i)\<lparr>h_size := h_size (hs ! i) + nuevo_limite\<rparr>])
         | None \<Rightarrow>
             (case superior of
                Some j \<Rightarrow> hs[j := (hs ! j)\<lparr>h_pos := nueva_base, h_size := h_size (hs ! j) + nuevo_limite\<rparr>]
              | None \<Rightarrow> crear_hueco_libre hs nueva_base nuevo_limite))"

text \<open>\<open>list_filter(huecos_libres, segment_fits)\<close>\<close>

definition huecos_utiles :: "hueco list \<Rightarrow> int \<Rightarrow> nat list" where
  "huecos_utiles hs tam = filter (\<lambda>i. h_size (hs ! i) \<ge> tam) [0..<length hs]"

definition best_fit :: "commons \<Rightarrow> hueco list \<Rightarrow> int \<Rightarrow> nat option" where
  "best_fit cm hs tam =
     (if huecos_utiles hs tam = [] then None
      else Some (list_get_minimum cm (menor_por (\<lambda>i. h_size (hs ! i))) (huecos_utiles hs tam)))"

definition first_fit :: "commons \<Rightarrow> hueco list \<Rightarrow> int \<Rightarrow> nat option" where
  "first_fit cm hs tam =
     (if huecos_utiles hs tam = [] then None
      else Some (list_get_minimum cm (menor_por (\<lambda>i. h_pos (hs ! i))) (huecos_utiles hs tam)))"

definition worst_fit :: "commons \<Rightarrow> hueco list \<Rightarrow> int \<Rightarrow> nat option" where
  "worst_fit cm hs tam =
     (if huecos_utiles hs tam = [] then None
      else Some (list_get_maximum cm (mayor_por (\<lambda>i. h_size (hs ! i))) (huecos_utiles hs tam)))"

text \<open>The chosen hole loses \<open>tam\<close> bytes at its front, and leaves the list when it is full.\<close>

definition ocupar_hueco :: "hueco list \<Rightarrow> nat \<Rightarrow> int \<Rightarrow> hueco list" where
  "ocupar_hueco hs i tam =
     (if h_size (hs ! i) - tam = 0 then remove_nth i hs
      else hs[i := \<lparr>h_pos = h_pos (hs ! i) + tam, h_size = h_size (hs ! i) - tam\<rparr>])"

text \<open>\<open>list_fold(huecos_libres_copy, 0, sumarSizes)\<close>\<close>

definition suma_huecos :: "hueco list \<Rightarrow> int" where
  "suma_huecos hs = foldl (\<lambda>acc h. acc + h_size h) 0 hs"

section \<open>Sums over lists\<close>

definition suma :: "('a \<Rightarrow> int) \<Rightarrow> 'a list \<Rightarrow> int" where
  "suma f xs = sum_list (map f xs)"

lemma suma_simps [simp]:
  "suma f [] = 0" "suma f (x # xs) = f x + suma f xs"
  "suma f (xs @ ys) = suma f xs + suma f ys"
  by (simp_all add: suma_def)

lemma suma_cong: "(\<And>x. x \<in> set xs \<Longrightarrow> f x = g x) \<Longrightarrow> suma f xs = suma g xs"
  by (simp add: suma_def cong: map_cong)

lemma suma_cero: "(\<And>x. x \<in> set xs \<Longrightarrow> f x = 0) \<Longrightarrow> suma f xs = 0"
  by (induction xs) (simp_all add: suma_def)

lemma suma_no_cero: "suma f xs \<noteq> 0 \<Longrightarrow> \<exists>x \<in> set xs. f x \<noteq> 0"
  using suma_cero [of xs f] by blast

lemma suma_update:
  "i < length xs \<Longrightarrow> suma f (xs[i := y]) = suma f xs - f (xs ! i) + f y"
proof (induction xs arbitrary: i)
  case (Cons x xs)
  then show ?case by (cases i) auto
qed simp

lemma suma_remove_nth:
  "i < length xs \<Longrightarrow> suma f (remove_nth i xs) = suma f xs - f (xs ! i)"
proof (induction xs arbitrary: i)
  case (Cons x xs)
  then show ?case by (cases i) (auto simp: remove_nth_def)
qed simp

lemma suma_nonneg: "(\<And>x. x \<in> set xs \<Longrightarrow> 0 \<le> f x) \<Longrightarrow> 0 \<le> suma f xs"
  by (induction xs) auto

lemma suma_ge: "(\<And>x. x \<in> set xs \<Longrightarrow> 0 \<le> f x) \<Longrightarrow> y \<in> set xs \<Longrightarrow> f y \<le> suma f xs"
proof (induction xs)
  case (Cons x xs)
  have "0 \<le> suma f xs" using Cons.prems(1) by (intro suma_nonneg) auto
  moreover have "0 \<le> f x" using Cons.prems(1) by simp
  moreover have "f y \<le> suma f xs" if "y \<in> set xs" using Cons that by auto
  ultimately show ?case using Cons.prems(2) by fastforce
qed simp

lemma suma_ge_dos:
  assumes "\<And>x. x \<in> set xs \<Longrightarrow> 0 \<le> f x" and "i < length xs" "j < length xs" "i \<noteq> j"
  shows "f (xs ! i) + f (xs ! j) \<le> suma f xs"
proof -
  have "xs ! j \<in> set (remove_nth i xs)"
  proof (cases "j < i")
    case True
    then have "remove_nth i xs ! j = xs ! j" and "j < length (remove_nth i xs)"
      using assms by (auto simp: remove_nth_def nth_append)
    then show ?thesis by (metis nth_mem)
  next
    case False
    then have "xs ! j = drop (Suc i) xs ! (j - Suc i)" and "j - Suc i < length (drop (Suc i) xs)"
      using assms by auto
    then show ?thesis by (metis remove_nth_def Un_iff nth_mem set_append)
  qed
  then have "f (xs ! j) \<le> suma f (remove_nth i xs)"
    using assms(1) set_remove_nth_subset [of i xs] by (intro suma_ge) auto
  then show ?thesis by (simp add: suma_remove_nth assms(2))
qed

lemma suma_huecos_suma: "suma_huecos hs = suma h_size hs"
proof -
  have "foldl (\<lambda>acc h. acc + h_size h) a hs = a + suma h_size hs" for a
    by (induction hs arbitrary: a) auto
  then show ?thesis by (simp add: suma_huecos_def)
qed

section \<open>Occupied addresses\<close>

text \<open>
  \<open>ocupa b l x\<close> is 1 when address \<open>x\<close> lies in the block of length \<open>l\<close> at \<open>b\<close>. Summed over
  the holes (and later the segments) it counts how many blocks hold \<open>x\<close>: disjointness is
  a count of at most 1, a partition of the memory is a count of exactly 1.
\<close>

definition ocupa :: "int \<Rightarrow> int \<Rightarrow> int \<Rightarrow> int" where
  "ocupa b l x = (if b \<le> x \<and> x < b + l then 1 else 0)"

definition cubre_h :: "hueco list \<Rightarrow> int \<Rightarrow> int" where
  "cubre_h hs x = suma (\<lambda>h. ocupa (h_pos h) (h_size h) x) hs"

lemma ocupa_nonneg [simp]: "0 \<le> ocupa b l x"
  by (simp add: ocupa_def)

lemma ocupa_parte: "0 \<le> l \<Longrightarrow> 0 \<le> k \<Longrightarrow> ocupa b (l + k) x = ocupa b l x + ocupa (b + l) k x"
  by (auto simp: ocupa_def)

lemma ocupa_inicio: "0 < l \<Longrightarrow> ocupa b l b = 1"
  by (simp add: ocupa_def)

lemma cubre_h_nonneg [simp]: "0 \<le> cubre_h hs x"
  by (simp add: cubre_h_def suma_nonneg)

text \<open>The free list is well formed: holes are not empty, do not overlap, and never touch.\<close>

definition huecos_ok :: "hueco list \<Rightarrow> bool" where
  "huecos_ok hs \<longleftrightarrow> (\<forall>h \<in> set hs. 0 < h_size h) \<and> (\<forall>x. cubre_h hs x \<le> 1) \<and>
     (\<forall>h \<in> set hs. \<forall>h' \<in> set hs. h_pos h + h_size h \<noteq> h_pos h')"

lemma huecos_okD:
  assumes "huecos_ok hs"
  shows "h \<in> set hs \<Longrightarrow> 0 < h_size h" and "cubre_h hs x \<le> 1"
    and "h \<in> set hs \<Longrightarrow> h' \<in> set hs \<Longrightarrow> h_pos h + h_size h \<noteq> h_pos h'"
  using assms by (auto simp: huecos_ok_def)

lemma huecos_ok_nth: "huecos_ok hs \<Longrightarrow> i < length hs \<Longrightarrow> 0 < h_size (hs ! i)"
  by (simp add: huecos_ok_def)

text \<open>Two holes of the list never share an address.\<close>

lemma huecos_disjuntos:
  assumes "huecos_ok hs" "i < length hs" "j < length hs" "i \<noteq> j"
  shows "\<not> (ocupa (h_pos (hs ! i)) (h_size (hs ! i)) x = 1
            \<and> ocupa (h_pos (hs ! j)) (h_size (hs ! j)) x = 1)"
proof
  assume *: "ocupa (h_pos (hs ! i)) (h_size (hs ! i)) x = 1
             \<and> ocupa (h_pos (hs ! j)) (h_size (hs ! j)) x = 1"
  have "ocupa (h_pos (hs ! i)) (h_size (hs ! i)) x + ocupa (h_pos (hs ! j)) (h_size (hs ! j)) x
        \<le> cubre_h hs x"
    unfolding cubre_h_def
    by (rule suma_ge_dos [where f = "\<lambda>h. ocupa (h_pos h) (h_size h) x"]) (use assms in auto)
  with * huecos_okD(2) [OF assms(1), of x] show False by simp
qed

lemma cubre_h_hueco: "h \<in> set hs \<Longrightarrow> ocupa (h_pos h) (h_size h) x \<le> cubre_h hs x"
  unfolding cubre_h_def by (rule suma_ge [where f = "\<lambda>h. ocupa (h_pos h) (h_size h) x"]) simp_all

lemma huecos_ok_iniciar: "0 < T \<Longrightarrow> huecos_ok (iniciar_lista_huecos_libres T)"
  by (auto simp: huecos_ok_def iniciar_lista_huecos_libres_def cubre_h_def ocupa_def)

section \<open>Returning a range to the free list\<close>

text \<open>The four ways a range joins the list, each with what the search found.\<close>

lemma alojar_casos:
  assumes ok: "huecos_ok hs" and l: "0 < l"
  obtains
    (ambos) i j where "i < length hs" "j < length hs" "i \<noteq> j"
      "h_pos (hs ! i) + h_size (hs ! i) = b" "b + l = h_pos (hs ! j)"
      "alojar_nuevo_hueco hs b l = remove_nth j
         (hs[i := (hs ! i)\<lparr>h_size := h_size (hs ! i) + (l + h_size (hs ! j))\<rparr>])"
  | (inferior) i where "i < length hs" "h_pos (hs ! i) + h_size (hs ! i) = b"
      "b + l \<notin> h_pos ` set hs"
      "alojar_nuevo_hueco hs b l = hs[i := (hs ! i)\<lparr>h_size := h_size (hs ! i) + l\<rparr>]"
  | (superior) j where "j < length hs" "b + l = h_pos (hs ! j)"
      "b \<notin> (\<lambda>h. h_pos h + h_size h) ` set hs"
      "alojar_nuevo_hueco hs b l
         = hs[j := (hs ! j)\<lparr>h_pos := b, h_size := h_size (hs ! j) + l\<rparr>]"
  | (ninguno) "b \<notin> (\<lambda>h. h_pos h + h_size h) ` set hs" "b + l \<notin> h_pos ` set hs"
      "alojar_nuevo_hueco hs b l = hs @ [\<lparr>h_pos = b, h_size = l\<rparr>]"
proof (cases "find_index (\<lambda>a. h_pos a + h_size a = b) hs")
  case inf: None
  then have b: "b \<notin> (\<lambda>h. h_pos h + h_size h) ` set hs" by (auto simp: find_index_None_iff)
  show thesis
  proof (cases "find_index (\<lambda>a. b + l = h_pos a) hs")
    case None
    then have "b + l \<notin> h_pos ` set hs" by (auto simp: find_index_None_iff)
    with b None inf show thesis
      by (intro ninguno) (simp_all add: alojar_nuevo_hueco_def crear_hueco_libre_def)
  next
    case (Some j)
    with find_index_SomeD [OF Some] b inf show thesis
      by (intro superior [of j]) (simp_all add: alojar_nuevo_hueco_def)
  qed
next
  case inf: (Some i)
  note i = find_index_SomeD [OF inf]
  show thesis
  proof (cases "find_index (\<lambda>a. b + l = h_pos a) hs")
    case None
    then have "b + l \<notin> h_pos ` set hs" by (auto simp: find_index_None_iff)
    with i None inf show thesis
      by (intro inferior [of i]) (simp_all add: alojar_nuevo_hueco_def)
  next
    case (Some j)
    note j = find_index_SomeD [OF Some]
    have "i \<noteq> j" using i j l huecos_ok_nth [OF ok, of i] by auto
    with i j Some inf show thesis
      by (intro ambos [of i j]) (simp_all add: alojar_nuevo_hueco_def)
  qed
qed

lemma cubre_alojar:
  assumes ok: "huecos_ok hs" and l: "0 < l"
  shows "cubre_h (alojar_nuevo_hueco hs b l) x = cubre_h hs x + ocupa b l x"
  using ok l
proof (cases rule: alojar_casos [where b = b])
  case (ambos i j)
  note pos = huecos_ok_nth [OF ok ambos(1)] huecos_ok_nth [OF ok ambos(2)]
  have "ocupa (h_pos (hs ! i)) (h_size (hs ! i) + (l + h_size (hs ! j))) x
        = ocupa (h_pos (hs ! i)) (h_size (hs ! i)) x + ocupa b (l + h_size (hs ! j)) x"
    using pos l ambos(4) by (subst ocupa_parte) simp_all
  also have "ocupa b (l + h_size (hs ! j)) x
             = ocupa b l x + ocupa (h_pos (hs ! j)) (h_size (hs ! j)) x"
    using pos l ambos(5) by (subst ocupa_parte) simp_all
  finally show ?thesis
    using ambos(1-3) by (simp add: ambos(6) cubre_h_def suma_update suma_remove_nth)
next
  case (inferior i)
  then show ?thesis
    using ocupa_parte [of "h_size (hs ! i)" l "h_pos (hs ! i)" x] l huecos_ok_nth [OF ok inferior(1)]
    by (simp add: cubre_h_def suma_update)
next
  case (superior j)
  then show ?thesis
    using ocupa_parte [of l "h_size (hs ! j)" b x] l huecos_ok_nth [OF ok superior(1)]
    by (simp add: cubre_h_def suma_update add.commute)
next
  case ninguno
  then show ?thesis by (simp add: cubre_h_def)
qed

lemma suma_alojar:
  assumes ok: "huecos_ok hs" and l: "0 < l"
  shows "suma h_size (alojar_nuevo_hueco hs b l) = suma h_size hs + l"
  using ok l
  by (cases rule: alojar_casos [where b = b]) (simp_all add: suma_update suma_remove_nth)

text \<open>Where the blocks of the new list begin and end.\<close>

definition inicios :: "hueco list \<Rightarrow> int set" where
  "inicios hs = h_pos ` set hs"

definition finales :: "hueco list \<Rightarrow> int set" where
  "finales hs = (\<lambda>h. h_pos h + h_size h) ` set hs"

lemma no_se_tocan_iff:
  "(\<forall>h \<in> set hs. \<forall>h' \<in> set hs. h_pos h + h_size h \<noteq> h_pos h') \<longleftrightarrow> finales hs \<inter> inicios hs = {}"
  by (auto simp: inicios_def finales_def)

lemma en_update: "h \<in> set (hs[i := k]) \<Longrightarrow> h = k \<or> h \<in> set hs"
  by (meson insertE set_update_subset_insert subsetD)

lemma inicios_update: "inicios (hs[i := k]) \<subseteq> insert (h_pos k) (inicios hs)"
  by (auto simp: inicios_def dest!: en_update)

lemma finales_update: "finales (hs[i := k]) \<subseteq> insert (h_pos k + h_size k) (finales hs)"
  by (auto simp: finales_def dest!: en_update)

lemma inicios_remove: "inicios (remove_nth i hs) \<subseteq> inicios hs"
  using set_remove_nth_subset [of i hs] by (auto simp: inicios_def)

lemma finales_remove: "finales (remove_nth i hs) \<subseteq> finales hs"
  using set_remove_nth_subset [of i hs] by (auto simp: finales_def)

lemma inicios_nth: "i < length hs \<Longrightarrow> h_pos (hs ! i) \<in> inicios hs"
  by (simp add: inicios_def)

lemma finales_nth: "i < length hs \<Longrightarrow> h_pos (hs ! i) + h_size (hs ! i) \<in> finales hs"
  unfolding finales_def by (rule image_eqI [OF refl]) simp

lemma alojar_no_se_tocan:
  assumes ok: "huecos_ok hs" and l: "0 < l"
  shows "finales (alojar_nuevo_hueco hs b l) \<inter> inicios (alojar_nuevo_hueco hs b l) = {}"
proof -
  have old: "finales hs \<inter> inicios hs = {}"
    using ok by (simp add: huecos_ok_def no_se_tocan_iff)
  from ok l show ?thesis
  proof (cases rule: alojar_casos [where b = b])
    case (ambos i j)
    let ?k = "(hs ! i)\<lparr>h_size := h_size (hs ! i) + (l + h_size (hs ! j))\<rparr>"
    have "h_pos ?k + h_size ?k = h_pos (hs ! j) + h_size (hs ! j)"
      using ambos(4,5) by simp
    then have "finales (hs[i := ?k]) \<subseteq> finales hs"
      using finales_update [of hs i ?k] by (simp only: insert_absorb [OF finales_nth [OF ambos(2)]])
    then have "finales (alojar_nuevo_hueco hs b l) \<subseteq> finales hs"
      using finales_remove [of j "hs[i := ?k]"] unfolding ambos(6) by blast
    moreover have "inicios (alojar_nuevo_hueco hs b l) \<subseteq> inicios hs"
      using inicios_remove [of j "hs[i := ?k]"] inicios_update [of hs i ?k]
        inicios_nth [OF ambos(1)] unfolding ambos(6) by auto
    ultimately show ?thesis using old by blast
  next
    case (inferior i)
    let ?k = "(hs ! i)\<lparr>h_size := h_size (hs ! i) + l\<rparr>"
    have "finales (alojar_nuevo_hueco hs b l) \<subseteq> insert (b + l) (finales hs)"
      using finales_update [of hs i ?k] inferior(2) unfolding inferior(4) by auto
    moreover have "inicios (alojar_nuevo_hueco hs b l) \<subseteq> inicios hs"
      using inicios_update [of hs i ?k] inicios_nth [OF inferior(1)] unfolding inferior(4) by auto
    ultimately show ?thesis using old inferior(3) [folded inicios_def] by blast
  next
    case (superior j)
    let ?k = "(hs ! j)\<lparr>h_pos := b, h_size := h_size (hs ! j) + l\<rparr>"
    have "h_pos ?k + h_size ?k = h_pos (hs ! j) + h_size (hs ! j)"
      using superior(2) by simp
    then have "finales (alojar_nuevo_hueco hs b l) \<subseteq> finales hs"
      using finales_update [of hs j ?k] unfolding superior(4)
      by (simp only: insert_absorb [OF finales_nth [OF superior(1)]])
    moreover have "inicios (alojar_nuevo_hueco hs b l) \<subseteq> insert b (inicios hs)"
      using inicios_update [of hs j ?k] unfolding superior(4) by auto
    ultimately show ?thesis using old superior(3) [folded finales_def] by blast
  next
    case ninguno
    then show ?thesis using old l by (auto simp: finales_def inicios_def)
  qed
qed

lemma alojar_tamanios:
  assumes ok: "huecos_ok hs" and l: "0 < l" and h: "h \<in> set (alojar_nuevo_hueco hs b l)"
  shows "0 < h_size h"
proof -
  note old = huecos_okD(1) [OF ok]
  from ok l show ?thesis
  proof (cases rule: alojar_casos [where b = b])
    case (ambos i j)
    then have "h \<in> set (hs[i := (hs ! i)\<lparr>h_size := h_size (hs ! i) + (l + h_size (hs ! j))\<rparr>])"
      using h set_remove_nth_subset by fastforce
    then show ?thesis
      using old l huecos_ok_nth [OF ok ambos(1)] huecos_ok_nth [OF ok ambos(2)]
      by (auto dest!: en_update)
  next
    case (inferior i)
    then show ?thesis using h old l by (auto dest!: en_update intro!: add_pos_pos)
  next
    case (superior j)
    then show ?thesis using h old l by (auto dest!: en_update intro!: add_pos_pos)
  next
    case ninguno
    then show ?thesis using h old l by auto
  qed
qed

lemma huecos_ok_alojar:
  assumes "huecos_ok hs" "0 < l" "\<And>x. cubre_h hs x + ocupa b l x \<le> 1"
  shows "huecos_ok (alojar_nuevo_hueco hs b l)"
  unfolding huecos_ok_def
  using alojar_tamanios [OF assms(1,2)] alojar_no_se_tocan [OF assms(1,2), of b]
    cubre_alojar [OF assms(1,2)] assms(3)
  by (simp add: no_se_tocan_iff)

section \<open>Reserving space\<close>

lemma cubre_ocupar:
  assumes "i < length hs" and "0 \<le> tam" and "tam \<le> h_size (hs ! i)"
  shows "cubre_h (ocupar_hueco hs i tam) x + ocupa (h_pos (hs ! i)) tam x = cubre_h hs x"
proof -
  have "ocupa (h_pos (hs ! i)) (tam + (h_size (hs ! i) - tam)) x
        = ocupa (h_pos (hs ! i)) tam x + ocupa (h_pos (hs ! i) + tam) (h_size (hs ! i) - tam) x"
    using assms by (intro ocupa_parte) simp_all
  then show ?thesis
    using assms by (simp add: ocupar_hueco_def cubre_h_def suma_update suma_remove_nth)
qed

lemma suma_ocupar:
  "i < length hs \<Longrightarrow> suma h_size (ocupar_hueco hs i tam) = suma h_size hs - tam"
  by (simp add: ocupar_hueco_def suma_update suma_remove_nth)

lemma huecos_ok_remove:
  assumes ok: "huecos_ok hs" and i: "i < length hs"
  shows "huecos_ok (remove_nth i hs)"
proof -
  have "cubre_h (remove_nth i hs) x \<le> 1" for x
    using huecos_okD(2) [OF ok, of x] ocupa_nonneg [of "h_pos (hs ! i)" "h_size (hs ! i)" x]
    unfolding cubre_h_def suma_remove_nth [OF i] by linarith
  moreover have "0 < h_size h" "h_pos h + h_size h \<noteq> h_pos h'"
    if "h \<in> set (remove_nth i hs)" "h' \<in> set (remove_nth i hs)" for h h'
    using huecos_okD(1,3) [OF ok] en_remove_nth [OF that(1)] en_remove_nth [OF that(2)] by blast+
  ultimately show ?thesis by (simp add: huecos_ok_def)
qed

lemma huecos_ok_ocupar:
  assumes ok: "huecos_ok hs" and i: "i < length hs" and tam: "0 < tam" "tam \<le> h_size (hs ! i)"
  shows "huecos_ok (ocupar_hueco hs i tam)"
proof (cases "h_size (hs ! i) - tam = 0")
  case True
  then have "ocupar_hueco hs i tam = remove_nth i hs" by (simp add: ocupar_hueco_def)
  then show ?thesis using huecos_ok_remove [OF ok i] by simp
next
  case False
  define k where "k = \<lparr>h_pos = h_pos (hs ! i) + tam, h_size = h_size (hs ! i) - tam\<rparr>"
  have oc: "ocupar_hueco hs i tam = hs[i := k]" using False by (simp add: ocupar_hueco_def k_def)
  have cub: "cubre_h (hs[i := k]) x \<le> 1" for x
    using cubre_ocupar [OF i less_imp_le [OF tam(1)] tam(2), of x] huecos_okD(2) [OF ok, of x]
      ocupa_nonneg [of "h_pos (hs ! i)" tam x] unfolding oc by linarith
  have fin: "finales (hs[i := k]) \<subseteq> finales hs"
    using finales_update [of hs i k] finales_nth [OF i] by (auto simp: k_def)
  have nuevo: "h_pos k \<notin> finales hs"
  proof
    assume "h_pos k \<in> finales hs"
    then obtain j where j: "j < length hs" "h_pos k = h_pos (hs ! j) + h_size (hs ! j)"
      by (auto simp: finales_def in_set_conv_nth)
    show False
    proof (cases "j = i")
      case True
      then show ?thesis using j False by (simp add: k_def)
    next
      case False
      then show ?thesis
        using huecos_disjuntos [OF ok i j(1), of "h_pos k - 1"] j(2) tam huecos_ok_nth [OF ok j(1)]
        by (auto simp: ocupa_def k_def split: if_splits)
    qed
  qed
  have "finales hs \<inter> inicios hs = {}"
    using ok by (simp add: huecos_ok_def no_se_tocan_iff)
  then have "finales (hs[i := k]) \<inter> inicios (hs[i := k]) = {}"
    using fin nuevo inicios_update [of hs i k] by blast
  moreover have "0 < h_size h" if "h \<in> set (hs[i := k])" for h
    using en_update [OF that] huecos_okD(1) [OF ok] False tam by (auto simp: k_def)
  ultimately show ?thesis
    using cub by (simp add: oc huecos_ok_def no_se_tocan_iff)
qed

section \<open>The interface of the assignment algorithms\<close>

locale politica =
  fixes elegir :: "commons \<Rightarrow> hueco list \<Rightarrow> int \<Rightarrow> nat option"
  assumes elegir_Some:
      "commons_ok cm \<Longrightarrow> elegir cm hs tam = Some i \<Longrightarrow> i < length hs \<and> tam \<le> h_size (hs ! i)"
    and elegir_None: "elegir cm hs tam = None \<longleftrightarrow> (\<forall>h \<in> set hs. h_size h < tam)"
begin

lemma reserva_ok:
  assumes "commons_ok cm" "huecos_ok hs" "0 < tam" "elegir cm hs tam = Some i"
  shows "huecos_ok (ocupar_hueco hs i tam)"
  using elegir_Some [OF assms(1,4)] assms(2,3) by (blast intro: huecos_ok_ocupar)

lemma reserva_cubre:
  assumes "commons_ok cm" "0 \<le> tam" "elegir cm hs tam = Some i"
  shows "cubre_h (ocupar_hueco hs i tam) x + ocupa (h_pos (hs ! i)) tam x = cubre_h hs x"
  using elegir_Some [OF assms(1,3)] assms(2) by (blast intro: cubre_ocupar)

lemma elige_si_cabe:
  "h \<in> set hs \<Longrightarrow> tam \<le> h_size h \<Longrightarrow> \<exists>i. elegir cm hs tam = Some i"
  using elegir_None [of cm hs tam] by (cases "elegir cm hs tam") fastforce+

end

lemma huecos_utiles_iff: "i \<in> set (huecos_utiles hs tam) \<longleftrightarrow> i < length hs \<and> tam \<le> h_size (hs ! i)"
  by (auto simp: huecos_utiles_def)

lemma huecos_utiles_Nil: "huecos_utiles hs tam = [] \<longleftrightarrow> (\<forall>h \<in> set hs. h_size h < tam)"
  unfolding huecos_utiles_def filter_empty_conv all_set_conv_all_nth by (auto simp: not_le)

interpretation best: politica best_fit
proof unfold_locales
  fix cm hs tam i
  assume "commons_ok cm" "best_fit cm hs tam = Some i"
  then show "i < length hs \<and> tam \<le> h_size (hs ! i)"
    unfolding best_fit_def huecos_utiles_iff [symmetric]
    by (auto split: if_splits intro: list_get_minimum_in)
qed (simp add: best_fit_def huecos_utiles_Nil)

interpretation first: politica first_fit
proof unfold_locales
  fix cm hs tam i
  assume "commons_ok cm" "first_fit cm hs tam = Some i"
  then show "i < length hs \<and> tam \<le> h_size (hs ! i)"
    unfolding first_fit_def huecos_utiles_iff [symmetric]
    by (auto split: if_splits intro: list_get_minimum_in)
qed (simp add: first_fit_def huecos_utiles_Nil)

interpretation worst: politica worst_fit
proof unfold_locales
  fix cm hs tam i
  assume "commons_ok cm" "worst_fit cm hs tam = Some i"
  then show "i < length hs \<and> tam \<le> h_size (hs ! i)"
    unfolding worst_fit_def huecos_utiles_iff [symmetric]
    by (auto split: if_splits intro: list_get_maximum_in)
qed (simp add: worst_fit_def huecos_utiles_Nil)

text \<open>What distinguishes the three algorithms.\<close>

lemma best_fit_minimo:
  assumes "commons_ok cm" "best_fit cm hs tam = Some i" "j < length hs" "tam \<le> h_size (hs ! j)"
  shows "h_size (hs ! i) \<le> h_size (hs ! j)"
proof -
  have "j \<in> set (huecos_utiles hs tam)" using assms(3,4) by (simp add: huecos_utiles_iff)
  from list_get_minimum_le [OF assms(1) this, of "\<lambda>i. h_size (hs ! i)"] assms(2)
  show ?thesis by (simp add: best_fit_def split: if_splits)
qed

lemma first_fit_minimo:
  assumes "commons_ok cm" "first_fit cm hs tam = Some i" "j < length hs" "tam \<le> h_size (hs ! j)"
  shows "h_pos (hs ! i) \<le> h_pos (hs ! j)"
proof -
  have "j \<in> set (huecos_utiles hs tam)" using assms(3,4) by (simp add: huecos_utiles_iff)
  from list_get_minimum_le [OF assms(1) this, of "\<lambda>i. h_pos (hs ! i)"] assms(2)
  show ?thesis by (simp add: first_fit_def split: if_splits)
qed

lemma worst_fit_maximo:
  assumes "commons_ok cm" "worst_fit cm hs tam = Some i" "j < length hs" "tam \<le> h_size (hs ! j)"
  shows "h_size (hs ! j) \<le> h_size (hs ! i)"
proof -
  have "j \<in> set (huecos_utiles hs tam)" using assms(3,4) by (simp add: huecos_utiles_iff)
  from list_get_maximum_ge [OF assms(1) this, of "\<lambda>i. h_size (hs ! i)"] assms(2)
  show ?thesis by (simp add: worst_fit_def split: if_splits)
qed

end
