(* ===== verification/Paquete.thy ===== *)
theory Paquete
  imports Prelude
begin

text \<open>
  The wire format of \<open>ganSOsLibrary/src/funciones.c\<close>: the operation codes and module
  identities of \<open>header.h\<close>, the packet a sender builds (\<open>crear_paquete\<close>,
  \<open>agregar_a_paquete\<close>, \<open>empaquetar_*\<close>, \<open>serializar_paquete\<close>) and what a receiver reads
  back (\<open>recibir_operacion\<close>, \<open>recibir_buffer\<close>, \<open>recibir_paquete\<close>, \<open>recv_*\<close>,
  \<open>recibir_paquete_contexto\<close>).

  A socket is the list of the bytes the peer writes on it before closing. A \<open>send\<close> is the
  byte list handed to it; a \<open>recv\<close> with \<open>MSG_WAITALL\<close> takes bytes off the front. An
  \<open>int\<close> is four bytes, least significant first, as the x86 hosts store it. A read
  that would leave the received block is the fault \<open>Fuera_de_rango\<close>.
\<close>

section \<open>Operation codes and identities (header.h)\<close>

datatype op_code =
  MENSAJE | PAQUETE | IDENTIDAD | RUNNING | YIELD | EXIT | I_O | F_OPEN | F_CLOSE | F_SEEK
| F_READ | F_WRITE | F_TRUNCATE | WAIT | SIGNAL | CREATE_SEGMENT | DELETE_SEGMENT | MOV_IN
| MOV_OUT | SET | ERROR | COMPACTION

primrec op_num :: "op_code \<Rightarrow> int" where
  "op_num MENSAJE = 0"
| "op_num PAQUETE = 1"
| "op_num IDENTIDAD = 2"
| "op_num RUNNING = 3"
| "op_num YIELD = 4"
| "op_num EXIT = 5"
| "op_num I_O = 6"
| "op_num F_OPEN = 7"
| "op_num F_CLOSE = 8"
| "op_num F_SEEK = 9"
| "op_num F_READ = 10"
| "op_num F_WRITE = 11"
| "op_num F_TRUNCATE = 12"
| "op_num WAIT = 13"
| "op_num SIGNAL = 14"
| "op_num CREATE_SEGMENT = 15"
| "op_num DELETE_SEGMENT = 16"
| "op_num MOV_IN = 17"
| "op_num MOV_OUT = 18"
| "op_num SET = 19"
| "op_num ERROR = 20"
| "op_num COMPACTION = 21"

datatype modulo = Kernel | Consola | CPU | FileSystem | Memoria

primrec modulo_num :: "modulo \<Rightarrow> int" where
  "modulo_num Kernel = 0"
| "modulo_num Consola = 1"
| "modulo_num CPU = 2"
| "modulo_num FileSystem = 3"
| "modulo_num Memoria = 4"

lemma op_num_inj [simp]: "op_num a = op_num b \<longleftrightarrow> a = b"
  by (cases a; cases b) simp_all

lemma op_num_range: "0 \<le> op_num a \<and> op_num a \<le> 21"
  by (cases a) simp_all

lemma int32_ok_op_num [simp]: "int32_ok (op_num a)"
  using op_num_range [of a] by (simp add: int32_ok_def)

lemma int32_ok_modulo_num [simp]: "int32_ok (modulo_num m)"
  by (cases m) (simp_all add: int32_ok_def)

text \<open>The enumerators are ordered by their number, as C compares them.\<close>

instantiation op_code :: linorder
begin

definition less_eq_op_code :: "op_code \<Rightarrow> op_code \<Rightarrow> bool" where
  "less_eq_op_code a b \<longleftrightarrow> op_num a \<le> op_num b"

definition less_op_code :: "op_code \<Rightarrow> op_code \<Rightarrow> bool" where
  "less_op_code a b \<longleftrightarrow> op_num a < op_num b"

instance
  by standard (auto simp: less_eq_op_code_def less_op_code_def)

end

section \<open>Integers on the wire\<close>

definition enc_int :: "int \<Rightarrow> byte list" where
  "enc_int i = [char_of (i mod 256), char_of (i div 256 mod 256),
                char_of (i div 65536 mod 256), char_of (i div 16777216 mod 256)]"

fun dec_int :: "byte list \<Rightarrow> int" where
  "dec_int [a, b, c, d] =
     (let u = of_char a + 256 * of_char b + 65536 * of_char c + 16777216 * of_char d
      in if u < 2147483648 then u else u - 4294967296)"
| "dec_int _ = 0"

text \<open>\<open>memcpy(&x, buffer + desplazamiento, sizeof(int)); desplazamiento += sizeof(int)\<close>\<close>

definition leer_int :: "byte list \<Rightarrow> (int \<times> byte list) res" where
  "leer_int bs = (if length bs < 4 then Inl Fuera_de_rango
                  else Inr (dec_int (take 4 bs), drop 4 bs))"

text \<open>\<open>p = malloc(n); memcpy(p, buffer + desplazamiento, n); desplazamiento += n\<close>\<close>

definition leer_bytes :: "int \<Rightarrow> byte list \<Rightarrow> (byte list \<times> byte list) res" where
  "leer_bytes n bs = (if n < 0 \<or> int (length bs) < n then Inl Fuera_de_rango
                      else Inr (take (nat n) bs, drop (nat n) bs))"

lemma length_enc_int [simp]: "length (enc_int i) = 4"
  by (simp add: enc_int_def)

lemma dec_enc_int:
  assumes "int32_ok i"
  shows "dec_int (enc_int i) = i"
proof -
  define u where "u = i mod 256 + 256 * (i div 256 mod 256) + 65536 * (i div 65536 mod 256)
                      + 16777216 * (i div 16777216 mod 256)"
  have "i mod 4294967296 = i mod (256 * (256 * (256 * 256)))" by simp
  also have "\<dots> = u"
    by (simp only: zmod_zmult2_eq div_mult2_eq [symmetric] zdiv_zmult2_eq [symmetric])
       (simp add: u_def zdiv_zmult2_eq [symmetric])
  finally have "u = i mod 4294967296" by simp
  moreover have "i mod 4294967296 = (if 0 \<le> i then i else i + 4294967296)"
  proof (cases "0 \<le> i")
    case True
    with assms show ?thesis by (simp add: int32_ok_def)
  next
    case False
    have "i mod 4294967296 = (i + 4294967296) mod 4294967296" by simp
    also have "\<dots> = i + 4294967296"
      using False assms by (intro mod_pos_pos_trivial) (auto simp: int32_ok_def)
    finally show ?thesis using False by simp
  qed
  moreover have "dec_int (enc_int i) = (if u < 2147483648 then u else u - 4294967296)"
    unfolding u_def enc_int_def by (simp only: dec_int.simps of_char_of Let_def mod_mod_trivial)
  ultimately show ?thesis
    using assms unfolding int32_ok_def by auto
qed

lemma dec_int_enc [simp]: "int32_ok i \<Longrightarrow> dec_int (enc_int i) = i"
  by (rule dec_enc_int)

lemma int32_ok_dec_int [simp]: "int32_ok (dec_int bs)"
proof (cases bs rule: dec_int.cases)
  case (1 a b c d)
  have "\<And>x. (of_char x :: int) < 256 \<and> 0 \<le> (of_char x :: int)"
    by (simp add: of_char_def)
  note * = this [of a] this [of b] this [of c] this [of d]
  show ?thesis
    using * by (simp add: 1 Let_def int32_ok_def)
qed (simp_all add: int32_ok_def)

lemma leer_int_enc [simp]: "int32_ok i \<Longrightarrow> leer_int (enc_int i @ rest) = Inr (i, rest)"
  by (simp add: leer_int_def)

lemma leer_bytes_append [simp]:
  "n = int (length b) \<Longrightarrow> leer_bytes n (b @ rest) = Inr (b, rest)"
  by (simp add: leer_bytes_def)

section \<open>Building a packet\<close>

text \<open>
  \<open>t_paquete\<close> with its \<open>t_buffer\<close>: the code, the size field and the stream. Every builder
  grows the stream with \<open>realloc\<close>, copies its bytes at offset \<open>size\<close> and adds their number
  to \<open>size\<close>: that is \<open>anexar\<close>.
\<close>

record t_paquete =
  codigo_operacion :: int
  buf_size :: int
  stream :: "byte list"

definition anexar :: "t_paquete \<Rightarrow> byte list \<Rightarrow> t_paquete" where
  "anexar p bs = p\<lparr>stream := take (nat (buf_size p)) (stream p) @ bs,
                  buf_size := buf_size p + int (length bs)\<rparr>"

definition crear_paquete_contexto :: "int \<Rightarrow> t_paquete" where
  "crear_paquete_contexto motivo = \<lparr>codigo_operacion = motivo, buf_size = 0, stream = []\<rparr>"

definition crear_paquete :: t_paquete where
  "crear_paquete = \<lparr>codigo_operacion = op_num PAQUETE, buf_size = 0, stream = []\<rparr>"

definition agregar_a_paquete :: "t_paquete \<Rightarrow> byte list \<Rightarrow> int \<Rightarrow> t_paquete" where
  "agregar_a_paquete p valor tamanio = anexar p (enc_int tamanio @ take (nat tamanio) valor)"

text \<open>A C string is sent with its NUL: \<open>agregar_a_paquete(p, s, strlen(s)+1)\<close>.\<close>

definition agregar_cadena :: "t_paquete \<Rightarrow> string \<Rightarrow> t_paquete" where
  "agregar_cadena p s = agregar_a_paquete p (bloque_de s) (int (length s) + 1)"

definition empaquetar_lista :: "t_paquete \<Rightarrow> string list \<Rightarrow> t_paquete" where
  "empaquetar_lista p lista =
     foldl agregar_cadena (anexar p (enc_int (int (length lista)))) lista"

definition CANTIDAD_REGISTROS_CPU :: nat where
  "CANTIDAD_REGISTROS_CPU = 12"

definition empaquetar_registros :: "t_paquete \<Rightarrow> string list \<Rightarrow> t_paquete" where
  "empaquetar_registros p registros =
     foldl (\<lambda>p i. agregar_cadena p (registros ! i)) p [0..<CANTIDAD_REGISTROS_CPU]"

record segmento =
  seg_ID :: int
  seg_base :: int
  seg_limite :: int

definition agregar_segmento_a_paquete :: "t_paquete \<Rightarrow> segmento \<Rightarrow> t_paquete" where
  "agregar_segmento_a_paquete p sgm =
     anexar p (enc_int (seg_ID sgm) @ enc_int (seg_base sgm) @ enc_int (seg_limite sgm))"

definition empaquetar_lista_segmentos :: "t_paquete \<Rightarrow> segmento list \<Rightarrow> t_paquete" where
  "empaquetar_lista_segmentos p lista =
     foldl agregar_segmento_a_paquete (anexar p (enc_int (int (length lista)))) lista"

text \<open>\<open>serializar_paquete\<close>: code, size and the \<open>size\<close> bytes of the stream, contiguous.\<close>

definition serializar_paquete :: "t_paquete \<Rightarrow> byte list" where
  "serializar_paquete p =
     enc_int (codigo_operacion p) @ enc_int (buf_size p) @ take (nat (buf_size p)) (stream p)"

text \<open>What \<open>enviar_paquete\<close> and \<open>enviar_paquete_contexto\<close> hand to \<open>send\<close>.\<close>

definition enviar_paquete :: "t_paquete \<Rightarrow> byte list" where
  "enviar_paquete p = serializar_paquete p"

definition enviar_paquete_contexto :: "t_paquete \<Rightarrow> byte list" where
  "enviar_paquete_contexto p = serializar_paquete p"

text \<open>\<open>send(socket, &x, sizeof(int), 0)\<close>, the one-integer answers of the modules.\<close>

definition enviar_int :: "int \<Rightarrow> byte list" where
  "enviar_int i = enc_int i"

section \<open>The messages\<close>

definition enviar_mensaje_razon :: "int \<Rightarrow> string \<Rightarrow> byte list" where
  "enviar_mensaje_razon codop mensaje = serializar_paquete
     \<lparr>codigo_operacion = codop, buf_size = int (length mensaje) + 1, stream = bloque_de mensaje\<rparr>"

definition enviar_mensaje :: "string \<Rightarrow> byte list" where
  "enviar_mensaje mensaje = serializar_paquete
     \<lparr>codigo_operacion = op_num MENSAJE, buf_size = int (length mensaje) + 1,
      stream = bloque_de mensaje\<rparr>"

definition enviarIdentidad :: "modulo \<Rightarrow> byte list" where
  "enviarIdentidad ident = enviar_paquete
     \<lparr>codigo_operacion = op_num IDENTIDAD, buf_size = 4, stream = enc_int (modulo_num ident)\<rparr>"

definition send_newsegment_petition :: "int \<Rightarrow> int \<Rightarrow> int \<Rightarrow> byte list" where
  "send_newsegment_petition PID segID tam =
     enviar_paquete (anexar (crear_paquete_contexto (op_num CREATE_SEGMENT))
       (enc_int PID @ enc_int segID @ enc_int tam))"

definition send_deletesegment_petition :: "int \<Rightarrow> int \<Rightarrow> byte list" where
  "send_deletesegment_petition PID segID =
     enviar_paquete (anexar (crear_paquete_contexto (op_num DELETE_SEGMENT))
       (enc_int PID @ enc_int segID))"

definition send_tabla_segmentos :: "segmento list \<Rightarrow> int \<Rightarrow> byte list" where
  "send_tabla_segmentos tabla rflag =
     enviar_paquete (empaquetar_lista_segmentos (crear_paquete_contexto rflag) tabla)"

record execContext =
  ctx_PID :: int
  instrucciones :: "string list"
  program_counter :: int
  registros :: "string list"
  parametros :: "string list"
  tablaSegmentos :: "segmento list"

definition paquete_contexto :: "execContext \<Rightarrow> int \<Rightarrow> byte list" where
  "paquete_contexto contexto motivo =
     (let p0 = crear_paquete_contexto motivo;
          p1 = agregar_a_paquete p0 (enc_int (ctx_PID contexto)) 4;
          p2 = empaquetar_lista p1 (instrucciones contexto);
          p3 = agregar_a_paquete p2 (enc_int (program_counter contexto)) 4;
          p4 = empaquetar_registros p3 (registros contexto);
          p5 = empaquetar_lista p4 (parametros contexto);
          p6 = empaquetar_lista_segmentos p5 (tablaSegmentos contexto)
      in enviar_paquete_contexto p6)"

section \<open>Reading a packet\<close>

definition recv_int :: "byte list \<Rightarrow> (int \<times> byte list) res" where
  "recv_int s = (if length s < 4 then Inl Conexion else Inr (dec_int (take 4 s), drop 4 s))"

text \<open>\<open>recibir_operacion\<close> gives -1 when \<open>recv\<close> finds the connection closed.\<close>

definition recibir_operacion :: "byte list \<Rightarrow> (int \<times> byte list) res" where
  "recibir_operacion s = (if s = [] then Inr (-1, []) else recv_int s)"

text \<open>The buffer and what is left on the socket; \<open>malloc\<close> of a negative size gives NULL.\<close>

definition recibir_buffer :: "byte list \<Rightarrow> (byte list \<times> byte list) res" where
  "recibir_buffer s = bind_res (recv_int s) (\<lambda>(tam, s').
     if tam < 0 then Inl Puntero_nulo
     else if int (length s') < tam then Inl Conexion
     else Inr (take (nat tam) s', drop (nat tam) s'))"

definition recibir_mensaje :: "byte list \<Rightarrow> (byte list \<times> byte list) res" where
  "recibir_mensaje s = recibir_buffer s"

definition recibirIdentidad :: "byte list \<Rightarrow> (int \<times> byte list) res" where
  "recibirIdentidad s = bind_res (recibir_buffer s) (\<lambda>(buffer, s').
     bind_res (leer_int buffer) (\<lambda>(valor, _). Inr (valor, s')))"

text \<open>A size, then that many bytes: one element of a list of strings.\<close>

definition leer_bloque :: "byte list \<Rightarrow> (byte list \<times> byte list) res" where
  "leer_bloque bs = bind_res (leer_int bs) (\<lambda>(tamanio, bs'). leer_bytes tamanio bs')"

lemma leer_int_length: "leer_int bs = Inr (n, r) \<Longrightarrow> length r < length bs"
  by (auto simp: leer_int_def split: if_splits)

lemma leer_bytes_length: "leer_bytes n bs = Inr (v, r) \<Longrightarrow> length r \<le> length bs"
  by (auto simp: leer_bytes_def split: if_splits)

lemma leer_bloque_length: "leer_bloque bs = Inr (v, r) \<Longrightarrow> length r < length bs"
  by (auto simp: leer_bloque_def bind_res_Inr_iff dest!: leer_int_length leer_bytes_length)

text \<open>The loop \<open>while(desplazamiento < size)\<close> of \<open>recibir_paquete\<close>.\<close>

function recibir_valores :: "byte list \<Rightarrow> byte list list res" where
  "recibir_valores bs =
     (if bs = [] then Inr []
      else case leer_bloque bs of
             Inl e \<Rightarrow> Inl e
           | Inr (v, r) \<Rightarrow> bind_res (recibir_valores r) (\<lambda>vs. Inr (v # vs)))"
  by pat_completeness auto
termination
  by (relation "measure length") (auto dest: leer_bloque_length)

declare recibir_valores.simps [simp del]

definition recibir_paquete :: "byte list \<Rightarrow> (byte list list \<times> byte list) res" where
  "recibir_paquete s = bind_res (recibir_buffer s) (\<lambda>(buffer, s').
     bind_res (recibir_valores buffer) (\<lambda>valores. Inr (valores, s')))"

text \<open>The loops \<open>for(i=0; i<cant; i++)\<close> over one element reader, and a count before it.\<close>

primrec leer_lista :: "(byte list \<Rightarrow> ('a \<times> byte list) res) \<Rightarrow> nat \<Rightarrow> byte list
                       \<Rightarrow> ('a list \<times> byte list) res" where
  "leer_lista rd 0 bs = Inr ([], bs)"
| "leer_lista rd (Suc n) bs = bind_res (rd bs) (\<lambda>(x, bs').
     bind_res (leer_lista rd n bs') (\<lambda>(xs, bs''). Inr (x # xs, bs'')))"

definition leer_contada :: "(byte list \<Rightarrow> ('a \<times> byte list) res) \<Rightarrow> byte list
                            \<Rightarrow> ('a list \<times> byte list) res" where
  "leer_contada rd bs = bind_res (leer_int bs) (\<lambda>(cant, bs'). leer_lista rd (nat cant) bs')"

definition leer_segmento :: "byte list \<Rightarrow> (segmento \<times> byte list) res" where
  "leer_segmento bs = bind_res (leer_int bs) (\<lambda>(ident, b1). bind_res (leer_int b1) (\<lambda>(base, b2).
     bind_res (leer_int b2) (\<lambda>(limite, b3).
       Inr (\<lparr>seg_ID = ident, seg_base = base, seg_limite = limite\<rparr>, b3))))"

definition recv_newsegment_petition :: "byte list \<Rightarrow> ((int \<times> int \<times> int) \<times> byte list) res" where
  "recv_newsegment_petition s = bind_res (recibir_buffer s) (\<lambda>(buffer, s').
     bind_res (leer_int buffer) (\<lambda>(PID, b1). bind_res (leer_int b1) (\<lambda>(segID, b2).
     bind_res (leer_int b2) (\<lambda>(tam, _). Inr ((PID, segID, tam), s')))))"

definition recv_deletesegment_petition :: "byte list \<Rightarrow> ((int \<times> int) \<times> byte list) res" where
  "recv_deletesegment_petition s = bind_res (recibir_buffer s) (\<lambda>(buffer, s').
     bind_res (leer_int buffer) (\<lambda>(PID, b1). bind_res (leer_int b1) (\<lambda>(segID, _).
       Inr ((PID, segID), s'))))"

text \<open>The flag (the packet's code) and the table.\<close>

definition recv_tabla_segmentos :: "byte list \<Rightarrow> ((int \<times> segmento list) \<times> byte list) res" where
  "recv_tabla_segmentos s = bind_res (recibir_operacion s) (\<lambda>(codOp, s1).
     bind_res (recibir_buffer s1) (\<lambda>(buffer, s2).
     bind_res (leer_contada leer_segmento buffer) (\<lambda>(tabla, _). Inr ((codOp, tabla), s2))))"

text \<open>
  \<open>memcpy(&tamanio, ...); memcpy(&x, ..., tamanio); desplazamiento += sizeof(int)\<close> into an
  \<open>int\<close>: any size but four overruns \<open>x\<close> or leaves part of it unset.
\<close>

definition leer_int_con_tamanio :: "byte list \<Rightarrow> (int \<times> byte list) res" where
  "leer_int_con_tamanio bs = bind_res (leer_int bs) (\<lambda>(tamanio, bs').
     if tamanio = 4 then leer_int bs' else Inl Fuera_de_rango)"

text \<open>The strings of the received context are the blocks as they were copied, NUL included.\<close>

definition recibir_paquete_contexto :: "byte list \<Rightarrow> (execContext \<times> byte list) res" where
  "recibir_paquete_contexto s = bind_res (recibir_buffer s) (\<lambda>(buffer, s').
     bind_res (leer_int_con_tamanio buffer) (\<lambda>(PID, b1).
     bind_res (leer_contada leer_bloque b1) (\<lambda>(instr, b2).
     bind_res (leer_int_con_tamanio b2) (\<lambda>(pc, b3).
     bind_res (leer_lista leer_bloque CANTIDAD_REGISTROS_CPU b3) (\<lambda>(regs, b4).
     bind_res (leer_contada leer_bloque b4) (\<lambda>(params, b5).
     bind_res (leer_contada leer_segmento b5) (\<lambda>(tabla, _).
       Inr (\<lparr>ctx_PID = PID, instrucciones = instr, program_counter = pc, registros = regs,
             parametros = params, tablaSegmentos = tabla\<rparr>, s'))))))))"

end
