(* ===== verification/Paquete_Leyes.thy ===== *)
theory Paquete_Leyes
  imports Paquete
begin

text \<open>
  What the wire format promises: every reader of \<open>Paquete\<close> gives back what the matching
  builder wrote, and leaves the rest of the socket alone. The law of one element is the
  interface \<open>codificador\<close>; the law of a counted list of elements is proved once inside it
  and used at integers, strings and segments.
\<close>

section \<open>Streams of packets under construction\<close>

definition paq_ok :: "t_paquete \<Rightarrow> bool" where
  "paq_ok p \<longleftrightarrow> buf_size p = int (length (stream p))"

lemma paq_ok_crear [simp]: "paq_ok (crear_paquete_contexto m)" "paq_ok crear_paquete"
  by (simp_all add: paq_ok_def crear_paquete_contexto_def crear_paquete_def)

lemma paq_ok_anexar [simp]: "paq_ok p \<Longrightarrow> paq_ok (anexar p bs)"
  by (simp add: paq_ok_def anexar_def)

lemma stream_anexar [wire_simps]: "paq_ok p \<Longrightarrow> stream (anexar p bs) = stream p @ bs"
  by (simp add: paq_ok_def anexar_def)

lemma codigo_anexar [wire_simps]: "codigo_operacion (anexar p bs) = codigo_operacion p"
  by (simp add: anexar_def)

text \<open>A builder that appends a fixed encoding of each element of a list.\<close>

lemma foldl_anexar:
  assumes "\<And>p x. g p x = anexar p (enc x)" and "paq_ok p"
  shows "paq_ok (foldl g p xs) \<and> stream (foldl g p xs) = stream p @ concat (map enc xs)
         \<and> codigo_operacion (foldl g p xs) = codigo_operacion p"
  using assms(2)
proof (induction xs arbitrary: p)
  case (Cons x xs)
  then show ?case
    using Cons.IH [of "anexar p (enc x)"] by (simp add: assms(1) wire_simps)
qed simp

lemma foldl_cong_map: "(\<And>p i. i \<in> set is \<Longrightarrow> f p i = g p (h i)) \<Longrightarrow>
  foldl f p is = foldl g p (map h is)"
  by (induction "is" arbitrary: p) auto

definition enc_bloque :: "string \<Rightarrow> byte list" where
  "enc_bloque s = enc_int (int (length s) + 1) @ bloque_de s"

definition enc_segmento :: "segmento \<Rightarrow> byte list" where
  "enc_segmento sgm = enc_int (seg_ID sgm) @ enc_int (seg_base sgm) @ enc_int (seg_limite sgm)"

lemma agregar_cadena_anexar: "agregar_cadena p s = anexar p (enc_bloque s)"
  by (simp add: agregar_cadena_def agregar_a_paquete_def enc_bloque_def bloque_de_def
      nat_add_distrib)

lemma agregar_segmento_anexar: "agregar_segmento_a_paquete p s = anexar p (enc_segmento s)"
  by (simp add: agregar_segmento_a_paquete_def enc_segmento_def)

lemma agregar_int_anexar: "agregar_a_paquete p (enc_int i) 4 = anexar p (enc_int 4 @ enc_int i)"
  by (simp add: agregar_a_paquete_def)

lemma empaquetar_lista_ok [wire_simps]:
  assumes "paq_ok p"
  shows "paq_ok (empaquetar_lista p xs)"
    and "stream (empaquetar_lista p xs)
         = stream p @ enc_int (int (length xs)) @ concat (map enc_bloque xs)"
    and "codigo_operacion (empaquetar_lista p xs) = codigo_operacion p"
  using foldl_anexar [of agregar_cadena enc_bloque "anexar p (enc_int (int (length xs)))" xs] assms
  by (simp_all add: empaquetar_lista_def agregar_cadena_anexar wire_simps)

lemma empaquetar_lista_segmentos_ok [wire_simps]:
  assumes "paq_ok p"
  shows "paq_ok (empaquetar_lista_segmentos p xs)"
    and "stream (empaquetar_lista_segmentos p xs)
         = stream p @ enc_int (int (length xs)) @ concat (map enc_segmento xs)"
    and "codigo_operacion (empaquetar_lista_segmentos p xs) = codigo_operacion p"
  using foldl_anexar [of agregar_segmento_a_paquete enc_segmento
      "anexar p (enc_int (int (length xs)))" xs] assms
  by (simp_all add: empaquetar_lista_segmentos_def agregar_segmento_anexar wire_simps)

lemma empaquetar_registros_lista:
  assumes "length regs = CANTIDAD_REGISTROS_CPU"
  shows "empaquetar_registros p regs = foldl agregar_cadena p regs"
proof -
  have "map (nth regs) [0..<length regs] = regs" by (rule map_nth)
  then show ?thesis
    unfolding empaquetar_registros_def
    by (subst foldl_cong_map [where g = agregar_cadena and h = "nth regs"]) (simp_all add: assms)
qed

lemma empaquetar_registros_ok [wire_simps]:
  assumes "paq_ok p" and "length regs = CANTIDAD_REGISTROS_CPU"
  shows "paq_ok (empaquetar_registros p regs)"
    and "stream (empaquetar_registros p regs) = stream p @ concat (map enc_bloque regs)"
    and "codigo_operacion (empaquetar_registros p regs) = codigo_operacion p"
  using foldl_anexar [of agregar_cadena enc_bloque p regs] assms
  by (simp_all add: empaquetar_registros_lista agregar_cadena_anexar wire_simps)

section \<open>The receiving end of a packet\<close>

lemma recv_int_enc [simp]: "int32_ok i \<Longrightarrow> recv_int (enc_int i @ rest) = Inr (i, rest)"
  by (simp add: recv_int_def)

lemma enc_int_not_Nil [simp]: "enc_int i \<noteq> []"
  by (simp add: enc_int_def)

lemma recibir_operacion_enc [simp]:
  "int32_ok i \<Longrightarrow> recibir_operacion (enc_int i @ rest) = Inr (i, rest)"
  by (simp add: recibir_operacion_def)

lemma recibir_buffer_enc [simp]:
  "int32_ok (int (length b)) \<Longrightarrow>
   recibir_buffer (enc_int (int (length b)) @ b @ rest) = Inr (b, rest)"
  by (simp add: recibir_buffer_def)

text \<open>A whole packet splits into its code and its buffer.\<close>

lemma serializar_paquete_ok [wire_simps]:
  "paq_ok p \<Longrightarrow> serializar_paquete p
     = enc_int (codigo_operacion p) @ enc_int (int (length (stream p))) @ stream p"
  by (simp add: serializar_paquete_def paq_ok_def)

section \<open>One element, then lists of elements\<close>

locale codificador =
  fixes enc :: "'a \<Rightarrow> byte list"
    and rd :: "byte list \<Rightarrow> ('b \<times> byte list) res"
    and vista :: "'a \<Rightarrow> 'b"
    and valido :: "'a \<Rightarrow> bool"
  assumes ida_vuelta: "valido x \<Longrightarrow> rd (enc x @ rest) = Inr (vista x, rest)"
begin

lemma lista_ida_vuelta:
  "\<forall>x \<in> set xs. valido x \<Longrightarrow>
   leer_lista rd (length xs) (concat (map enc xs) @ rest) = Inr (map vista xs, rest)"
  by (induction xs) (simp_all add: ida_vuelta)

lemma contada_ida_vuelta:
  assumes "\<forall>x \<in> set xs. valido x" and "int32_ok (int (length xs))"
  shows "leer_contada rd (enc_int (int (length xs)) @ concat (map enc xs) @ rest)
         = Inr (map vista xs, rest)"
  using assms by (simp add: leer_contada_def lista_ida_vuelta)

end

definition cadena_ok :: "string \<Rightarrow> bool" where
  "cadena_ok s \<longleftrightarrow> int32_ok (int (length s) + 1)"

definition segmento_ok :: "segmento \<Rightarrow> bool" where
  "segmento_ok s \<longleftrightarrow> int32_ok (seg_ID s) \<and> int32_ok (seg_base s) \<and> int32_ok (seg_limite s)"

interpretation cod_entero: codificador enc_int leer_int "\<lambda>i. i" int32_ok
  by unfold_locales simp

interpretation cod_cadena: codificador enc_bloque leer_bloque bloque_de cadena_ok
  by unfold_locales (simp add: enc_bloque_def leer_bloque_def cadena_ok_def)

interpretation cod_segmento: codificador enc_segmento leer_segmento "\<lambda>s. s" segmento_ok
  by unfold_locales (simp add: enc_segmento_def leer_segmento_def segmento_ok_def)

lemma leer_int_con_tamanio_enc [simp]:
  "int32_ok i \<Longrightarrow> leer_int_con_tamanio (enc_int 4 @ enc_int i @ rest) = Inr (i, rest)"
  by (simp add: leer_int_con_tamanio_def int32_ok_def)

section \<open>Round trips of whole messages\<close>

definition contexto_ok :: "execContext \<Rightarrow> bool" where
  "contexto_ok c \<longleftrightarrow> int32_ok (ctx_PID c) \<and> int32_ok (program_counter c) \<and>
     length (registros c) = CANTIDAD_REGISTROS_CPU \<and>
     (\<forall>s \<in> set (instrucciones c) \<union> set (registros c) \<union> set (parametros c). cadena_ok s) \<and>
     int32_ok (int (length (instrucciones c))) \<and> int32_ok (int (length (parametros c))) \<and>
     int32_ok (int (length (tablaSegmentos c))) \<and> (\<forall>s \<in> set (tablaSegmentos c). segmento_ok s)"

lemma length_bloques [wire_simps]:
  "length (concat (map enc_bloque xs)) = sum_list (map (\<lambda>s. length s + 5) xs)"
  by (induction xs) (simp_all add: enc_bloque_def bloque_de_def)

lemma length_segmentos [wire_simps]: "length (concat (map enc_segmento xs)) = 12 * length xs"
  by (induction xs) (simp_all add: enc_segmento_def)

text \<open>The buffer of a context packet, field by field.\<close>

definition buffer_contexto :: "execContext \<Rightarrow> byte list" where
  "buffer_contexto c = enc_int 4 @ enc_int (ctx_PID c)
     @ enc_int (int (length (instrucciones c))) @ concat (map enc_bloque (instrucciones c))
     @ enc_int 4 @ enc_int (program_counter c)
     @ concat (map enc_bloque (registros c))
     @ enc_int (int (length (parametros c))) @ concat (map enc_bloque (parametros c))
     @ enc_int (int (length (tablaSegmentos c))) @ concat (map enc_segmento (tablaSegmentos c))"

lemma paquete_contexto_bytes:
  assumes "length (registros c) = CANTIDAD_REGISTROS_CPU"
  shows "paquete_contexto c motivo
         = enc_int motivo @ enc_int (int (length (buffer_contexto c))) @ buffer_contexto c"
  using assms
  by (simp add: paquete_contexto_def enviar_paquete_contexto_def Let_def agregar_int_anexar
      wire_simps buffer_contexto_def) (simp add: crear_paquete_contexto_def)

lemma leer_contada_bloques [simp]:
  "\<forall>x \<in> set xs. cadena_ok x \<Longrightarrow> int32_ok (int (length xs)) \<Longrightarrow>
   leer_contada leer_bloque (enc_int (int (length xs)) @ concat (map enc_bloque xs) @ rest)
   = Inr (map bloque_de xs, rest)"
  by (rule cod_cadena.contada_ida_vuelta)

lemma leer_lista_bloques [simp]:
  "\<forall>x \<in> set xs. cadena_ok x \<Longrightarrow> length xs = n \<Longrightarrow>
   leer_lista leer_bloque n (concat (map enc_bloque xs) @ rest) = Inr (map bloque_de xs, rest)"
  using cod_cadena.lista_ida_vuelta [of xs rest] by simp

lemma leer_contada_segmentos [simp]:
  "\<forall>x \<in> set xs. segmento_ok x \<Longrightarrow> int32_ok (int (length xs)) \<Longrightarrow>
   leer_contada leer_segmento (enc_int (int (length xs)) @ concat (map enc_segmento xs) @ rest)
   = Inr (xs, rest)"
  using cod_segmento.contada_ida_vuelta [of xs rest] by simp

lemma leer_contada_segmentos_fin [simp]:
  "\<forall>x \<in> set xs. segmento_ok x \<Longrightarrow> int32_ok (int (length xs)) \<Longrightarrow>
   leer_contada leer_segmento (enc_int (int (length xs)) @ concat (map enc_segmento xs))
   = Inr (xs, [])"
  using leer_contada_segmentos [of xs "[]"] by simp

text \<open>
  An execution context survives the trip between the kernel and the CPU: the receiver
  of \<open>paquete_contexto\<close> reads the motive as the operation code and then the same context,
  each string as the block with its NUL, and leaves the rest of the socket unread.
\<close>

lemma contexto_ida_vuelta:
  assumes "contexto_ok c" "int32_ok motivo" "int32_ok (int (length (buffer_contexto c)))"
  shows "bind_res (recibir_operacion (paquete_contexto c motivo @ rest)) (\<lambda>(codop, s).
           bind_res (recibir_paquete_contexto s) (\<lambda>(c', s'). Inr (codop, c', s')))
         = Inr (motivo, c\<lparr>instrucciones := map bloque_de (instrucciones c),
                           registros := map bloque_de (registros c),
                           parametros := map bloque_de (parametros c)\<rparr>, rest)"
proof -
  have buf: "recibir_buffer (enc_int (int (length (buffer_contexto c))) @ buffer_contexto c @ rest)
      = Inr (buffer_contexto c, rest)"
    using assms(3) by simp
  show ?thesis
    using assms(1,2) unfolding contexto_ok_def
    by (simp add: paquete_contexto_bytes recibir_paquete_contexto_def buf)
       (simp add: buffer_contexto_def)
qed

definition contexto_ej :: execContext where
  "contexto_ej = \<lparr>ctx_PID = 7, instrucciones = [''SET AX HOLA'', ''EXIT''], program_counter = 1,
     registros = replicate 12 ''HOLA'', parametros = [''AX'', ''HOLA''],
     tablaSegmentos = [\<lparr>seg_ID = 0, seg_base = 0, seg_limite = 64\<rparr>]\<rparr>"

lemma contexto_ida_vuelta_witness:
  "bind_res (recibir_operacion (paquete_contexto contexto_ej (op_num SET) @ [])) (\<lambda>(codop, s).
     bind_res (recibir_paquete_contexto s) (\<lambda>(c', s'). Inr (codop, c', s')))
   = Inr (op_num SET, contexto_ej\<lparr>instrucciones := map bloque_de (instrucciones contexto_ej),
                        registros := map bloque_de (registros contexto_ej),
                        parametros := map bloque_de (parametros contexto_ej)\<rparr>, [])"
proof (rule contexto_ida_vuelta)
  show "contexto_ok contexto_ej"
    by (simp add: contexto_ok_def contexto_ej_def CANTIDAD_REGISTROS_CPU_def cadena_ok_def
        segmento_ok_def)
  show "int32_ok (int (length (buffer_contexto contexto_ej)))"
    by (simp add: buffer_contexto_def wire_simps) (simp add: contexto_ej_def sum_list_replicate)
qed simp

text \<open>The table the memory sends as an answer.\<close>

lemma send_tabla_bytes:
  "send_tabla_segmentos tabla rflag =
     enc_int rflag @ enc_int (4 + 12 * int (length tabla))
     @ enc_int (int (length tabla)) @ concat (map enc_segmento tabla)"
  by (simp add: send_tabla_segmentos_def enviar_paquete_def wire_simps)
    (simp add: crear_paquete_contexto_def)

definition tabla_ok :: "segmento list \<Rightarrow> bool" where
  "tabla_ok tabla \<longleftrightarrow> (\<forall>s \<in> set tabla. segmento_ok s) \<and> int32_ok (4 + 12 * int (length tabla))"

lemma recv_tabla_ok:
  assumes "tabla_ok tabla" "int32_ok rflag"
  shows "recv_tabla_segmentos (send_tabla_segmentos tabla rflag @ rest) = Inr ((rflag, tabla), rest)"
proof -
  let ?b = "enc_int (int (length tabla)) @ concat (map enc_segmento tabla)"
  have "int (length ?b) = 4 + 12 * int (length tabla)" by (simp add: wire_simps)
  then have "recibir_buffer (enc_int (4 + 12 * int (length tabla)) @ ?b @ rest) = Inr (?b, rest)"
    using assms(1) recibir_buffer_enc [of ?b rest] by (simp add: tabla_ok_def)
  moreover have "int32_ok (int (length tabla))"
    using assms(1) by (simp add: tabla_ok_def int32_ok_def)
  ultimately show ?thesis
    using assms by (simp add: send_tabla_bytes recv_tabla_segmentos_def tabla_ok_def)
qed

lemma newsegment_ida_vuelta:
  assumes "int32_ok PID" "int32_ok segID" "int32_ok tam"
  shows "bind_res (recibir_operacion (send_newsegment_petition PID segID tam @ rest)) (\<lambda>(codop, s).
           bind_res (recv_newsegment_petition s) (\<lambda>(p, s'). Inr (codop, p, s')))
         = Inr (op_num CREATE_SEGMENT, (PID, segID, tam), rest)"
proof -
  let ?b = "enc_int PID @ enc_int segID @ enc_int tam"
  have "recibir_buffer (enc_int 12 @ ?b @ rest) = Inr (?b, rest)"
    using recibir_buffer_enc [of ?b rest] by (simp add: int32_ok_def)
  moreover have "send_newsegment_petition PID segID tam
      = enc_int (op_num CREATE_SEGMENT) @ enc_int 12 @ ?b"
    by (simp add: send_newsegment_petition_def enviar_paquete_def wire_simps)
      (simp add: crear_paquete_contexto_def)
  moreover have "leer_int (enc_int tam) = Inr (tam, [])"
    using leer_int_enc [OF assms(3), of "[]"] by simp
  ultimately show ?thesis using assms by (simp add: recv_newsegment_petition_def)
qed

lemma deletesegment_ida_vuelta:
  assumes "int32_ok PID" "int32_ok segID"
  shows "bind_res (recibir_operacion (send_deletesegment_petition PID segID @ rest)) (\<lambda>(codop, s).
           bind_res (recv_deletesegment_petition s) (\<lambda>(p, s'). Inr (codop, p, s')))
         = Inr (op_num DELETE_SEGMENT, (PID, segID), rest)"
proof -
  let ?b = "enc_int PID @ enc_int segID"
  have "recibir_buffer (enc_int 8 @ ?b @ rest) = Inr (?b, rest)"
    using recibir_buffer_enc [of ?b rest] by (simp add: int32_ok_def)
  moreover have "send_deletesegment_petition PID segID
      = enc_int (op_num DELETE_SEGMENT) @ enc_int 8 @ ?b"
    by (simp add: send_deletesegment_petition_def enviar_paquete_def wire_simps)
      (simp add: crear_paquete_contexto_def)
  moreover have "leer_int (enc_int segID) = Inr (segID, [])"
    using leer_int_enc [OF assms(2), of "[]"] by simp
  ultimately show ?thesis using assms by (simp add: recv_deletesegment_petition_def)
qed

text \<open>A packet of strings, as every \<open>agregar_a_paquete\<close> client builds it.\<close>

lemma enc_bloque_no_vacio: "enc_bloque x \<noteq> []"
  by (simp add: enc_bloque_def)

lemma recibir_valores_bloques:
  "\<forall>x \<in> set xs. cadena_ok x \<Longrightarrow>
   recibir_valores (concat (map enc_bloque xs)) = Inr (map bloque_de xs)"
proof (induction xs)
  case (Cons x xs)
  have "leer_bloque (enc_bloque x @ concat (map enc_bloque xs)) = Inr (bloque_de x, concat (map enc_bloque xs))"
    using Cons.prems by (intro cod_cadena.ida_vuelta) simp
  then show ?case
    using Cons unfolding list.map concat.simps
    by (subst recibir_valores.simps) (simp add: enc_bloque_no_vacio)
qed (simp add: recibir_valores.simps)

lemma paquete_cadenas_ida_vuelta:
  assumes "\<forall>x \<in> set xs. cadena_ok x" and "int32_ok (int (length (concat (map enc_bloque xs))))"
  shows "bind_res (recibir_operacion (enviar_paquete (foldl agregar_cadena crear_paquete xs) @ rest))
           (\<lambda>(codop, s). bind_res (recibir_paquete s) (\<lambda>(vs, s'). Inr (codop, vs, s')))
         = Inr (op_num PAQUETE, map bloque_de xs, rest)"
proof -
  let ?b = "concat (map enc_bloque xs)"
  have "paq_ok (foldl agregar_cadena crear_paquete xs)
      \<and> stream (foldl agregar_cadena crear_paquete xs) = ?b
      \<and> codigo_operacion (foldl agregar_cadena crear_paquete xs) = op_num PAQUETE"
    using foldl_anexar [of agregar_cadena enc_bloque crear_paquete xs]
    by (simp add: agregar_cadena_anexar) (simp add: crear_paquete_def)
  then have "enviar_paquete (foldl agregar_cadena crear_paquete xs)
      = enc_int (op_num PAQUETE) @ enc_int (int (length ?b)) @ ?b"
    by (simp add: enviar_paquete_def wire_simps)
  moreover have "recibir_buffer (enc_int (int (length ?b)) @ ?b @ rest) = Inr (?b, rest)"
    using assms(2) by simp
  ultimately show ?thesis
    by (simp add: recibir_paquete_def recibir_valores_bloques [OF assms(1)])
qed

end
