(* ===== verification/Bytes.thy ===== *)
theory Bytes
  imports Prelude
begin

text \<open>
  Byte areas: the user space of the memory module and the mapped block file of the file
  system are both one \<open>malloc\<close>ed or \<open>mmap\<close>ed area the code reads and writes with
  \<open>memcpy\<close>, \<open>memmove\<close> and \<open>memset\<close> at an offset. An access outside the area is the fault
  \<open>Fuera_de_rango\<close>. The laws of reading after writing are the interface \<open>area_bytes\<close>.
\<close>

section \<open>Access at an offset\<close>

definition en_area :: "byte list \<Rightarrow> int \<Rightarrow> int \<Rightarrow> bool" where
  "en_area us dir n \<longleftrightarrow> 0 \<le> dir \<and> 0 \<le> n \<and> dir + n \<le> int (length us)"

text \<open>\<open>memcpy(destino, us + dir, n)\<close>\<close>

definition leer_area :: "byte list \<Rightarrow> int \<Rightarrow> int \<Rightarrow> byte list res" where
  "leer_area us dir n =
     (if en_area us dir n then Inr (take (nat n) (drop (nat dir) us)) else Inl Fuera_de_rango)"

text \<open>\<open>memcpy(us + dir, bs, |bs|)\<close>\<close>

definition escribir_area :: "byte list \<Rightarrow> int \<Rightarrow> byte list \<Rightarrow> byte list res" where
  "escribir_area us dir bs =
     (if en_area us dir (int (length bs))
      then Inr (take (nat dir) us @ bs @ drop (nat dir + length bs) us)
      else Inl Fuera_de_rango)"

text \<open>\<open>memset(us + dir, c, n)\<close> and \<open>memmove(us + destino, us + origen, n)\<close>\<close>

definition memset_area :: "byte list \<Rightarrow> int \<Rightarrow> byte \<Rightarrow> int \<Rightarrow> byte list res" where
  "memset_area us dir c n =
     (if n < 0 then Inl Fuera_de_rango else escribir_area us dir (replicate (nat n) c))"

definition memmove_area :: "byte list \<Rightarrow> int \<Rightarrow> int \<Rightarrow> int \<Rightarrow> byte list res" where
  "memmove_area us destino origen n =
     bind_res (leer_area us origen n) (\<lambda>bs. escribir_area us destino bs)"

section \<open>Facts about one access\<close>

text \<open>An access that fits, in natural numbers.\<close>

lemma en_areaE:
  assumes "en_area us dir n"
  obtains a k where "dir = int a" "n = int k" "a + k \<le> length us"
proof -
  from assms have "dir = int (nat dir)" "n = int (nat n)" "nat dir + nat n \<le> length us"
    by (auto simp: en_area_def)
  then show thesis by (rule that)
qed

lemma leer_area_int [simp]:
  "leer_area us (int a) (int k)
   = (if a + k \<le> length us then Inr (take k (drop a us)) else Inl Fuera_de_rango)"
proof -
  have "(int a + int k \<le> int (length us)) = (a + k \<le> length us)" by linarith
  then show ?thesis by (simp add: leer_area_def en_area_def)
qed

lemma escribir_area_int [simp]:
  "escribir_area us (int a) bs
   = (if a + length bs \<le> length us then Inr (take a us @ bs @ drop (a + length bs) us)
      else Inl Fuera_de_rango)"
proof -
  have "(int a + int (length bs) \<le> int (length us)) = (a + length bs \<le> length us)" by linarith
  then show ?thesis by (simp add: escribir_area_def en_area_def)
qed

lemma escribir_areaE:
  assumes "escribir_area us dir bs = Inr us'"
  obtains a where "dir = int a" "a + length bs \<le> length us"
    "us' = take a us @ bs @ drop (a + length bs) us"
proof -
  from assms have "en_area us dir (int (length bs))"
    by (simp add: escribir_area_def split: if_splits)
  then obtain a k where *: "dir = int a" "int (length bs) = int k" "a + k \<le> length us"
    by (rule en_areaE)
  show thesis
    by (rule that [of a]) (use * assms in simp_all)
qed

lemma leer_areaE:
  assumes "leer_area us dir n = Inr bs"
  obtains a where "dir = int a" "n = int (length bs)" "a + length bs \<le> length us"
    "bs = take (length bs) (drop a us)"
proof -
  from assms have "en_area us dir n"
    by (simp add: leer_area_def split: if_splits)
  then obtain a k where *: "dir = int a" "n = int k" "a + k \<le> length us"
    by (rule en_areaE)
  with assms have "bs = take k (drop a us)" by simp
  with * have "length bs = k" by simp
  show thesis
    by (rule that [of a]) (use * \<open>bs = _\<close> \<open>length bs = k\<close> in simp_all)
qed

lemma escribir_area_length: "escribir_area us dir bs = Inr us' \<Longrightarrow> length us' = length us"
  by (elim escribir_areaE) simp

lemma leer_area_length: "leer_area us dir n = Inr bs \<Longrightarrow> int (length bs) = n"
  by (elim leer_areaE) simp

text \<open>Byte by byte: the written range holds the new bytes, every other byte is as before.\<close>

lemma escribir_area_nth:
  assumes "escribir_area us (int a) bs = Inr us'" and "i < length us"
  shows "us' ! i = (if a \<le> i \<and> i < a + length bs then bs ! (i - a) else us ! i)"
  using assms by (auto simp: nth_append split: if_splits)

lemma leer_area_eqI:
  assumes "length us' = length us"
    and "\<And>i. a \<le> i \<Longrightarrow> i < a + k \<Longrightarrow> i < length us \<Longrightarrow> us' ! i = us ! i"
  shows "leer_area us' (int a) (int k) = leer_area us (int a) (int k)"
proof (cases "a + k \<le> length us")
  case True
  then have "take k (drop a us') = take k (drop a us)"
    using assms by (intro nth_equalityI) simp_all
  then show ?thesis using assms(1) by simp
qed (simp add: assms(1))

section \<open>The interface\<close>

locale area_bytes =
  fixes leer :: "'s \<Rightarrow> int \<Rightarrow> int \<Rightarrow> byte list res"
    and escribir :: "'s \<Rightarrow> int \<Rightarrow> byte list \<Rightarrow> 's res"
    and tam :: "'s \<Rightarrow> int"
  assumes escribir_ok_iff:
      "es_ok (escribir s dir bs) \<longleftrightarrow> 0 \<le> dir \<and> dir + int (length bs) \<le> tam s"
    and leer_ok_iff: "es_ok (leer s dir n) \<longleftrightarrow> 0 \<le> dir \<and> 0 \<le> n \<and> dir + n \<le> tam s"
    and leer_escrito: "escribir s dir bs = Inr s' \<Longrightarrow> leer s' dir (int (length bs)) = Inr bs"
    and leer_ajeno: "escribir s dir bs = Inr s' \<Longrightarrow>
      d + n \<le> dir \<or> dir + int (length bs) \<le> d \<Longrightarrow> leer s' d n = leer s d n"
    and escribir_tam: "escribir s dir bs = Inr s' \<Longrightarrow> tam s' = tam s"
begin

text \<open>Two writes at disjoint ranges: both are there afterwards.\<close>

lemma dos_escrituras:
  assumes "escribir s d1 b1 = Inr s1" and "escribir s1 d2 b2 = Inr s2"
    and "d1 + int (length b1) \<le> d2 \<or> d2 + int (length b2) \<le> d1"
  shows "leer s2 d1 (int (length b1)) = Inr b1" and "leer s2 d2 (int (length b2)) = Inr b2"
proof -
  have "leer s2 d1 (int (length b1)) = leer s1 d1 (int (length b1))"
    using assms(3) by (intro leer_ajeno [OF assms(2)]) auto
  with leer_escrito [OF assms(1)] show "leer s2 d1 (int (length b1)) = Inr b1" by simp
  show "leer s2 d2 (int (length b2)) = Inr b2" by (rule leer_escrito [OF assms(2)])
qed

lemma escribir_total:
  assumes "0 \<le> dir" and "dir + int (length bs) \<le> tam s"
  obtains s' where "escribir s dir bs = Inr s'"
proof -
  have "es_ok (escribir s dir bs)" using assms by (simp add: escribir_ok_iff)
  then show thesis using that by (auto simp: es_ok_iff)
qed

end

lemma leer_area_otro:
  assumes w: "escribir_area us dir bs = Inr us'"
    and "d + n \<le> dir \<or> dir + int (length bs) \<le> d"
  shows "leer_area us' d n = leer_area us d n"
proof (cases "en_area us d n")
  case True
  then obtain c k where ck: "d = int c" "n = int k" "c + k \<le> length us" by (rule en_areaE)
  from w obtain a where a: "dir = int a" "a + length bs \<le> length us" by (rule escribir_areaE)
  have dis: "c + k \<le> a \<or> a + length bs \<le> c" using assms(2) ck(1,2) a(1) by linarith
  have "us' ! i = us ! i" if i: "c \<le> i" "i < c + k" "i < length us" for i
  proof -
    have "\<not> (a \<le> i \<and> i < a + length bs)" using dis i by linarith
    with escribir_area_nth [OF w [unfolded a(1)] i(3)] show ?thesis by simp
  qed
  then have "leer_area us' (int c) (int k) = leer_area us (int c) (int k)"
    by (intro leer_area_eqI escribir_area_length [OF w])
  then show ?thesis by (simp only: ck)
next
  case False
  then have "\<not> en_area us' d n" by (simp add: en_area_def escribir_area_length [OF w])
  with False show ?thesis by (simp add: leer_area_def)
qed

interpretation area: area_bytes leer_area escribir_area "\<lambda>us. int (length us)"
proof unfold_locales
  fix us us' :: "byte list" and dir d n :: int and bs
  show "es_ok (escribir_area us dir bs) \<longleftrightarrow> 0 \<le> dir \<and> dir + int (length bs) \<le> int (length us)"
    by (simp add: escribir_area_def en_area_def)
  show "es_ok (leer_area us dir n) \<longleftrightarrow> 0 \<le> dir \<and> 0 \<le> n \<and> dir + n \<le> int (length us)"
    by (simp add: leer_area_def en_area_def)
  assume w: "escribir_area us dir bs = Inr us'"
  then show "leer_area us' dir (int (length bs)) = Inr bs"
    by (elim escribir_areaE) simp
  show "int (length us') = int (length us)" using escribir_area_length [OF w] by simp
  assume "d + n \<le> dir \<or> dir + int (length bs) \<le> d"
  with w show "leer_area us' d n = leer_area us d n" by (rule leer_area_otro)
qed

section \<open>Sliding a range down and blanking where it was\<close>

text \<open>
  \<open>memmove(us + q, us + q + g, l)\<close> and then \<open>memset(us + q + g, c, l)\<close>: when the range is
  longer than the gap \<open>g\<close>, the two ranges overlap and only the first \<open>g\<close> bytes survive.
\<close>

lemma deslizar_area:
  assumes mv: "memmove_area us (int q) (int (q + g)) (int l) = Inr us1"
    and st: "memset_area us1 (int (q + g)) c (int l) = Inr us2"
    and bs: "leer_area us (int (q + g)) (int l) = Inr bs"
  shows "leer_area us2 (int q) (int l) = Inr (take g bs @ replicate (l - g) c)"
proof -
  have lb: "length bs = l" "q + g + l \<le> length us"
    using leer_area_length [OF bs] bs unfolding leer_area_int by (auto split: if_splits)
  have w1: "escribir_area us (int q) bs = Inr us1"
    using mv bs by (simp only: memmove_area_def bind_res_simps)
  have w2: "escribir_area us1 (int (q + g)) (replicate l c) = Inr us2"
    using st by (simp add: memset_area_def)
  have l2: "length us2 = length us" "length us1 = length us"
    using escribir_area_length [OF w1] escribir_area_length [OF w2] by simp_all
  have "take l (drop q us2) = take g bs @ replicate (l - g) c"
  proof (rule nth_equalityI)
    show "length (take l (drop q us2)) = length (take g bs @ replicate (l - g) c)"
      using lb l2 by simp
    fix k assume "k < length (take l (drop q us2))"
    then have k: "k < l" by simp
    have "us2 ! (q + k) = (if g \<le> k then c else bs ! k)"
      using escribir_area_nth [OF w2, of "q + k"] escribir_area_nth [OF w1, of "q + k"] k lb l2
      by (auto simp: nth_replicate)
    then show "take l (drop q us2) ! k = (take g bs @ replicate (l - g) c) ! k"
      using k lb l2 by (auto simp: nth_append)
  qed
  then show ?thesis using lb l2 by simp
qed

lemma deslizar_area_otro:
  assumes mv: "memmove_area us q b l = Inr us1" and st: "memset_area us1 b c l = Inr us2"
    and "d + n \<le> q \<or> q + l \<le> d" "d + n \<le> b \<or> b + l \<le> d"
  shows "leer_area us2 d n = leer_area us d n"
proof -
  obtain bs where bs: "leer_area us b l = Inr bs" "escribir_area us q bs = Inr us1"
    using mv by (auto simp: memmove_area_def bind_res_Inr_iff)
  have "0 \<le> l" "escribir_area us1 b (replicate (nat l) c) = Inr us2"
    using st by (auto simp: memset_area_def split: if_splits)
  then have "leer_area us2 d n = leer_area us1 d n" using assms(4) by (intro leer_area_otro) auto
  also have "\<dots> = leer_area us d n"
    using assms(3) leer_area_length [OF bs(1)] by (intro leer_area_otro [OF bs(2)]) auto
  finally show ?thesis .
qed

end
