(* ===== verification/Mem_Segmentos.thy ===== *)
theory Mem_Segmentos
  imports Mem_Huecos Paquete_Leyes Bytes
begin

text \<open>
  The segment tables of the memory module (\<open>Memoria/src/memoria.h\<close>): the creation, the
  deletion and the end of a process. Tables hold pointers (\<open>Segmento*\<close>) and the pointer to
  segment 0 is shared by every table, because a new process gets \<open>list_duplicate\<close> of
  \<open>tabla_inicial\<close>. So the model has an explicit store: \<open>segmentos\<close> maps an address (a
  position of the list) to the \<open>Segmento\<close> there, \<open>None\<close> once it has been freed, and a
  table is the list of the addresses it holds.
\<close>

section \<open>State\<close>

record memConfig =
  TAM_MEMORIA :: int
  TAM_SEGMENTO_0 :: int
  ALGORITMO_ASIGNACION :: string

record memoria =
  user_space :: "byte list"
  huecos_libres :: "hueco list"
  segmentos :: "segmento option list"
  tabla_inicial :: "nat list"
  diccionario_tablas :: "(string, nat list) dict"

text \<open>Dereferencing a \<open>Segmento*\<close>, and all the pointers of a table in order.\<close>

definition segmento_en :: "segmento option list \<Rightarrow> nat \<Rightarrow> segmento res" where
  "segmento_en st a =
     (if a < length st then (case st ! a of Some s \<Rightarrow> Inr s | None \<Rightarrow> Inl Liberado)
      else Inl Liberado)"

primrec leer_tabla :: "segmento option list \<Rightarrow> nat list \<Rightarrow> segmento list res" where
  "leer_tabla st [] = Inr []"
| "leer_tabla st (a # t) = bind_res (segmento_en st a) (\<lambda>s.
     bind_res (leer_tabla st t) (\<lambda>ss. Inr (s # ss)))"

section \<open>Creation\<close>

text \<open>The pointer to the new block is the first unused address.\<close>

definition allocate_segment ::
    "memoria \<Rightarrow> nat list \<Rightarrow> int \<Rightarrow> int \<Rightarrow> int \<Rightarrow> memoria \<times> nat list" where
  "allocate_segment m tabla ident pos tam =
     (m\<lparr>segmentos := segmentos m @ [Some \<lparr>seg_ID = ident, seg_base = pos, seg_limite = tam\<rparr>]\<rparr>,
      tabla @ [length (segmentos m)])"

definition elegir_hueco :: "commons \<Rightarrow> string \<Rightarrow> hueco list \<Rightarrow> int \<Rightarrow> nat option res" where
  "elegir_hueco cm algoritmo hs tam =
     (if algoritmo = ''BEST'' then Inr (best_fit cm hs tam)
      else if algoritmo = ''FIRST'' then Inr (first_fit cm hs tam)
      else if algoritmo = ''WORST'' then Inr (worst_fit cm hs tam)
      else Inl Salida)"

text \<open>
  Returns 0 when the segment was created, 1 when only the sum of the holes is enough
  (compaction needed), -1 when there is no space. The block allocated for a segment that
  is not created is freed at once and is not kept in the store.
\<close>

definition calloc_segment ::
    "commons \<Rightarrow> memConfig \<Rightarrow> memoria \<Rightarrow> nat list \<Rightarrow> int \<Rightarrow> int
     \<Rightarrow> (memoria \<times> nat list \<times> int) res" where
  "calloc_segment cm cfg m tabla ident tam =
     bind_res (elegir_hueco cm (ALGORITMO_ASIGNACION cfg) (huecos_libres m) tam) (\<lambda>elegido.
     case elegido of
       None \<Rightarrow> Inr (m, tabla, if suma_huecos (huecos_libres m) \<ge> tam then 1 else -1)
     | Some i \<Rightarrow>
         (let (m', tabla') = allocate_segment m tabla ident (h_pos (huecos_libres m ! i)) tam
          in Inr (m'\<lparr>huecos_libres := ocupar_hueco (huecos_libres m) i tam\<rparr>, tabla', 0)))"

text \<open>The new state and the bytes sent to the kernel.\<close>

definition mem_create_segment ::
    "commons \<Rightarrow> memConfig \<Rightarrow> memoria \<Rightarrow> string \<Rightarrow> int \<Rightarrow> int \<Rightarrow> (memoria \<times> byte list) res" where
  "mem_create_segment cm cfg m PID segID tam =
     (case dictionary_get (diccionario_tablas m) PID of
        None \<Rightarrow>
          bind_res (leer_tabla (segmentos m) (tabla_inicial m)) (\<lambda>nueva.
            Inr (m\<lparr>diccionario_tablas :=
                     dictionary_put (diccionario_tablas m) PID (tabla_inicial m)\<rparr>,
                 send_tabla_segmentos nueva 0))
      | Some tabla \<Rightarrow>
          bind_res (calloc_segment cm cfg m tabla segID tam) (\<lambda>(m', tabla', ret).
          bind_res (leer_tabla (segmentos m') tabla') (\<lambda>ss.
            Inr (m'\<lparr>diccionario_tablas := dictionary_put (diccionario_tablas m') PID tabla'\<rparr>,
                 send_tabla_segmentos ss ret))))"

section \<open>Deletion\<close>

text \<open>An unknown process gets no answer; an unknown identifier dereferences NULL.\<close>

definition mem_delete_segment ::
    "memoria \<Rightarrow> string \<Rightarrow> int \<Rightarrow> (memoria \<times> byte list) res" where
  "mem_delete_segment m PID segID =
     (case dictionary_get (diccionario_tablas m) PID of
        None \<Rightarrow> Inr (m, [])
      | Some tabla \<Rightarrow>
          bind_res (leer_tabla (segmentos m) tabla) (\<lambda>ss.
          case find_index (\<lambda>s. seg_ID s = segID) ss of
            None \<Rightarrow> Inl Puntero_nulo
          | Some j \<Rightarrow>
              Inr (m\<lparr>diccionario_tablas :=
                       dictionary_put (diccionario_tablas m) PID (remove_nth j tabla),
                     huecos_libres :=
                       alojar_nuevo_hueco (huecos_libres m) (seg_base (ss ! j)) (seg_limite (ss ! j)),
                     segmentos := (segmentos m)[tabla ! j := None]\<rparr>,
                   send_tabla_segmentos (remove_nth j ss) 0)))"

section \<open>End of a process\<close>

definition liberar_segmento :: "memoria \<Rightarrow> nat \<Rightarrow> memoria res" where
  "liberar_segmento m a = bind_res (segmento_en (segmentos m) a) (\<lambda>s.
     Inr (m\<lparr>huecos_libres := alojar_nuevo_hueco (huecos_libres m) (seg_base s) (seg_limite s),
            segmentos := (segmentos m)[a := None]\<rparr>))"

primrec liberar_segmentos :: "memoria \<Rightarrow> nat list \<Rightarrow> memoria res" where
  "liberar_segmentos m [] = Inr m"
| "liberar_segmentos m (a # t) = bind_res (liberar_segmento m a) (\<lambda>m'. liberar_segmentos m' t)"

text \<open>The \<open>EXIT\<close> case of \<open>esperarKernel\<close>: every segment but the first of the table.\<close>

definition mem_exit :: "memoria \<Rightarrow> string \<Rightarrow> memoria res" where
  "mem_exit m PID =
     (case dictionary_get (diccionario_tablas m) PID of
        None \<Rightarrow> Inl Puntero_nulo
      | Some tabla \<Rightarrow>
          liberar_segmentos
            (m\<lparr>diccionario_tablas := dictionary_remove (diccionario_tablas m) PID\<rparr>) (tl tabla))"

section \<open>Start (memoria.c, main)\<close>

definition mem_inicial :: "commons \<Rightarrow> memConfig \<Rightarrow> memoria res" where
  "mem_inicial cm cfg =
     bind_res (calloc_segment cm cfg
       \<lparr>user_space = replicate (nat (TAM_MEMORIA cfg)) (CHR '' ''),
        huecos_libres = iniciar_lista_huecos_libres (TAM_MEMORIA cfg),
        segmentos = [], tabla_inicial = [], diccionario_tablas = []\<rparr> [] 0 (TAM_SEGMENTO_0 cfg))
       (\<lambda>(m, tabla, _). Inr (m\<lparr>tabla_inicial := tabla\<rparr>))"

section \<open>User space\<close>

text \<open>
  \<open>MOV_IN\<close> of \<open>esperarCPU\<close> and \<open>F_WRITE\<close> of \<open>esperarFileSystem\<close> read, \<open>MOV_OUT\<close> and
  \<open>F_READ\<close> write; both threads do it inside \<open>user_space_isFree\<close>.
\<close>

definition mem_leer :: "memoria \<Rightarrow> int \<Rightarrow> int \<Rightarrow> byte list res" where
  "mem_leer m dir_fisica bytes = leer_area (user_space m) dir_fisica bytes"

definition mem_escribir :: "memoria \<Rightarrow> int \<Rightarrow> byte list \<Rightarrow> memoria res" where
  "mem_escribir m dir_fisica valor =
     bind_res (escribir_area (user_space m) dir_fisica valor) (\<lambda>us. Inr (m\<lparr>user_space := us\<rparr>))"

interpretation uspace: area_bytes mem_leer mem_escribir "\<lambda>m. int (length (user_space m))"
proof unfold_locales
  fix m m' :: memoria and dir d n :: int and bs
  show "es_ok (mem_escribir m dir bs)
        \<longleftrightarrow> 0 \<le> dir \<and> dir + int (length bs) \<le> int (length (user_space m))"
    using area.escribir_ok_iff [of "user_space m" dir bs]
    by (cases "escribir_area (user_space m) dir bs") (simp_all add: mem_escribir_def)
  show "es_ok (mem_leer m dir n)
        \<longleftrightarrow> 0 \<le> dir \<and> 0 \<le> n \<and> dir + n \<le> int (length (user_space m))"
    unfolding mem_leer_def by (rule area.leer_ok_iff)
  assume w: "mem_escribir m dir bs = Inr m'"
  then have us: "escribir_area (user_space m) dir bs = Inr (user_space m')"
    by (auto simp: mem_escribir_def bind_res_Inr_iff)
  show "mem_leer m' dir (int (length bs)) = Inr bs"
    unfolding mem_leer_def by (rule area.leer_escrito [OF us])
  show "int (length (user_space m')) = int (length (user_space m))"
    by (rule area.escribir_tam [OF us])
  assume "d + n \<le> dir \<or> dir + int (length bs) \<le> d"
  then show "mem_leer m' d n = mem_leer m d n"
    unfolding mem_leer_def by (rule area.leer_ajeno [OF us])
qed

end
