(* ===== verification/Mem_Invariante.thy ===== *)
theory Mem_Invariante
  imports Mem_Segmentos
begin

text \<open>
  The invariant of the memory module and its preservation by every segment operation:
  holes and live segments partition the addresses \<open>0 .. TAM_MEMORIA - 1\<close>, the free list
  never holds two touching holes, segment 0 sits at base 0, and every other live segment is
  owned by exactly one position of exactly one table.
\<close>

section \<open>The invariant\<close>

definition cubre_s :: "segmento option list \<Rightarrow> int \<Rightarrow> int" where
  "cubre_s st x = suma (\<lambda>o'. case o' of None \<Rightarrow> 0 | Some s \<Rightarrow> ocupa (seg_base s) (seg_limite s) x) st"

definition particion :: "int \<Rightarrow> hueco list \<Rightarrow> segmento option list \<Rightarrow> bool" where
  "particion T hs st \<longleftrightarrow> (\<forall>x. cubre_h hs x + cubre_s st x = (if 0 \<le> x \<and> x < T then 1 else 0))"

definition segmentos_ok :: "segmento option list \<Rightarrow> bool" where
  "segmentos_ok st \<longleftrightarrow> (\<forall>s. Some s \<in> set st \<longrightarrow> 0 < seg_limite s \<and> int32_ok (seg_ID s)) \<and>
     (\<exists>s0 st'. st = Some s0 # st' \<and> seg_base s0 = 0 \<and> seg_ID s0 = 0)"

text \<open>Live addresses other than the shared segment 0, and the addresses the tables own.\<close>

definition vivos :: "segmento option list \<Rightarrow> nat set" where
  "vivos st = {a. 0 < a \<and> a < length st \<and> st ! a \<noteq> None}"

definition propias :: "(string, nat list) dict \<Rightarrow> nat multiset" where
  "propias d = mset (concat (map (\<lambda>e. tl (snd e)) d))"

definition tablas_ok :: "(string, nat list) dict \<Rightarrow> nat list \<Rightarrow> segmento option list \<Rightarrow> bool" where
  "tablas_ok d sueltos st \<longleftrightarrow> dict_ok d \<and> (\<forall>t \<in> snd ` set d. \<exists>r. t = 0 # r) \<and>
     propias d + mset sueltos = mset_set (vivos st)"

text \<open>\<open>sueltos\<close>: live segments no table holds any more, still to be freed.\<close>

definition mem_ok_con :: "nat list \<Rightarrow> memConfig \<Rightarrow> memoria \<Rightarrow> bool" where
  "mem_ok_con sueltos cfg m \<longleftrightarrow>
     int (length (user_space m)) = TAM_MEMORIA cfg \<and> TAM_MEMORIA cfg < 2147483648 \<and>
     huecos_ok (huecos_libres m) \<and> segmentos_ok (segmentos m) \<and>
     particion (TAM_MEMORIA cfg) (huecos_libres m) (segmentos m) \<and>
     tabla_inicial m = [0] \<and> tablas_ok (diccionario_tablas m) sueltos (segmentos m)"

definition mem_ok :: "memConfig \<Rightarrow> memoria \<Rightarrow> bool" where
  "mem_ok cfg m \<longleftrightarrow> mem_ok_con [] cfg m"

definition algoritmo_ok :: "string \<Rightarrow> bool" where
  "algoritmo_ok a \<longleftrightarrow> a = ''BEST'' \<or> a = ''FIRST'' \<or> a = ''WORST''"

definition cfg_ok :: "memConfig \<Rightarrow> bool" where
  "cfg_ok cfg \<longleftrightarrow> 0 < TAM_SEGMENTO_0 cfg \<and> TAM_SEGMENTO_0 cfg \<le> TAM_MEMORIA cfg \<and>
     TAM_MEMORIA cfg < 2147483648 \<and> algoritmo_ok (ALGORITMO_ASIGNACION cfg)"

section \<open>The store\<close>

lemma cubre_s_append [simp]: "cubre_s (st @ [Some s]) x = cubre_s st x + ocupa (seg_base s) (seg_limite s) x"
  by (simp add: cubre_s_def)

lemma cubre_s_update:
  "a < length st \<Longrightarrow> st ! a = Some s \<Longrightarrow>
   cubre_s (st[a := o']) x = cubre_s st x - ocupa (seg_base s) (seg_limite s) x
     + (case o' of None \<Rightarrow> 0 | Some s \<Rightarrow> ocupa (seg_base s) (seg_limite s) x)"
  by (simp add: cubre_s_def suma_update)

lemma cubre_s_nonneg [simp]: "0 \<le> cubre_s st x"
  by (auto simp: cubre_s_def intro!: suma_nonneg split: option.split)

lemma cubre_s_segmento:
  assumes "Some s \<in> set st"
  shows "ocupa (seg_base s) (seg_limite s) x \<le> cubre_s st x"
  unfolding cubre_s_def
  using suma_ge [of st "\<lambda>o'. case o' of None \<Rightarrow> 0 | Some s \<Rightarrow> ocupa (seg_base s) (seg_limite s) x" "Some s"]
    assms by (auto split: option.split)

lemma particion_cubre: "particion T hs st \<Longrightarrow> cubre_h hs x + cubre_s st x \<le> 1"
  by (simp add: particion_def)

text \<open>Everything a partition holds lies inside the memory.\<close>

lemma particion_rango_segmento:
  assumes p: "particion T hs st" and s: "Some s \<in> set st" and l: "0 < seg_limite s"
  shows "0 \<le> seg_base s \<and> seg_base s + seg_limite s \<le> T"
proof -
  have "0 \<le> x \<and> x < T" if "ocupa (seg_base s) (seg_limite s) x = 1" for x
  proof -
    have "1 \<le> cubre_h hs x + cubre_s st x"
      using cubre_s_segmento [OF s, of x] cubre_h_nonneg [of hs x] that by linarith
    then show ?thesis
      by - (rule ccontr, simp add: p [unfolded particion_def, rule_format])
  qed
  from this [of "seg_base s"] this [of "seg_base s + seg_limite s - 1"]
  show ?thesis using l by (simp add: ocupa_def)
qed

lemma particion_rango_hueco:
  assumes p: "particion T hs st" and h: "h \<in> set hs" and l: "0 < h_size h"
  shows "0 \<le> h_pos h \<and> h_pos h + h_size h \<le> T"
proof -
  have "0 \<le> x \<and> x < T" if "ocupa (h_pos h) (h_size h) x = 1" for x
  proof -
    have "1 \<le> cubre_h hs x + cubre_s st x"
      using cubre_h_hueco [OF h, of x] cubre_s_nonneg [of st x] that by linarith
    then show ?thesis
      by - (rule ccontr, simp add: p [unfolded particion_def, rule_format])
  qed
  from this [of "h_pos h"] this [of "h_pos h + h_size h - 1"]
  show ?thesis using l by (simp add: ocupa_def)
qed

text \<open>Two live segments, or a live segment and a hole, never share a byte.\<close>

lemma segmentos_disjuntos:
  assumes p: "particion T hs st" and a: "a < length st" "st ! a = Some s"
    and b: "b < length st" "st ! b = Some s'" and "a \<noteq> b" and l: "0 < seg_limite s" "0 < seg_limite s'"
  shows "seg_base s + seg_limite s \<le> seg_base s' \<or> seg_base s' + seg_limite s' \<le> seg_base s"
proof (rule ccontr)
  assume neg: "\<not> ?thesis"
  define x where "x = max (seg_base s) (seg_base s')"
  have "ocupa (seg_base s) (seg_limite s) x = 1" "ocupa (seg_base s') (seg_limite s') x = 1"
    using neg l by (auto simp: ocupa_def x_def)
  moreover have "ocupa (seg_base s) (seg_limite s) x + ocupa (seg_base s') (seg_limite s') x \<le> cubre_s st x"
    unfolding cubre_s_def
    using suma_ge_dos [of st "\<lambda>o'. case o' of None \<Rightarrow> 0 | Some s \<Rightarrow> ocupa (seg_base s) (seg_limite s) x" a b]
      a b \<open>a \<noteq> b\<close> by (simp add: option.split_sel)
  ultimately show False
    using particion_cubre [OF p, of x] cubre_h_nonneg [of hs x] by linarith
qed

lemma segmento_hueco_disjuntos:
  assumes p: "particion T hs st" and s: "Some s \<in> set st" and h: "h \<in> set hs"
    and l: "0 < seg_limite s" "0 < h_size h"
  shows "seg_base s + seg_limite s \<le> h_pos h \<or> h_pos h + h_size h \<le> seg_base s"
proof (rule ccontr)
  assume neg: "\<not> ?thesis"
  define x where "x = max (seg_base s) (h_pos h)"
  have "ocupa (seg_base s) (seg_limite s) x = 1" "ocupa (h_pos h) (h_size h) x = 1"
    using neg l by (auto simp: ocupa_def x_def)
  then show False
    using cubre_s_segmento [OF s, of x] cubre_h_hueco [OF h, of x] particion_cubre [OF p, of x]
    by linarith
qed

lemma finite_vivos [simp]: "finite (vivos st)"
  by (rule finite_subset [of _ "{..<length st}"]) (auto simp: vivos_def)

lemma vivos_append: "st \<noteq> [] \<Longrightarrow> vivos (st @ [Some s]) = insert (length st) (vivos st)"
  by (auto simp: vivos_def nth_append)

lemma vivos_update_None: "vivos (st[a := None]) = vivos st - {a}"
  by (cases "a < length st") (auto simp: vivos_def nth_list_update split: if_splits)

lemma vivos_update_Some: "a < length st \<Longrightarrow> st ! a \<noteq> None \<Longrightarrow> vivos (st[a := Some s]) = vivos st"
  by (auto simp: vivos_def nth_list_update)

lemma vivosD: "a \<in> vivos st \<Longrightarrow> 0 < a \<and> a < length st \<and> (\<exists>s. st ! a = Some s)"
  by (auto simp: vivos_def)

lemma segmento_en_Some: "a < length st \<Longrightarrow> st ! a = Some s \<Longrightarrow> segmento_en st a = Inr s"
  by (simp add: segmento_en_def)

lemma leer_tabla_vivos:
  "\<forall>a \<in> set t. a < length st \<and> st ! a \<noteq> None \<Longrightarrow>
   leer_tabla st t = Inr (map (\<lambda>a. the (st ! a)) t)"
  by (induction t) (auto simp: segmento_en_def)

section \<open>The tables\<close>

lemma tablas_ok_dict: "tablas_ok d sueltos st \<Longrightarrow> dict_ok d"
  by (simp add: tablas_ok_def)

lemma tablas_ok_tabla:
  assumes ok: "tablas_ok d sueltos st" and k: "dictionary_get d k = Some t"
  obtains r where "t = 0 # r" "set r \<subseteq> vivos st" "distinct r"
proof -
  obtain pre post where d: "d = pre @ (k, t) # post"
    "\<forall>w. dictionary_put d k w = pre @ (k, w) # post" "dictionary_remove d k = pre @ post"
    by (rule dictionary_split [OF tablas_ok_dict [OF ok] k])
  then obtain r where r: "t = 0 # r" using ok by (auto simp: tablas_ok_def)
  have "mset r \<subseteq># propias d + mset sueltos"
    by (auto simp: propias_def d r subset_mset.le_iff_add)
  then have sub: "mset r \<subseteq># mset_set (vivos st)" using ok by (simp add: tablas_ok_def)
  from set_mset_mono [OF this] have "set r \<subseteq> vivos st" by simp
  moreover have "distinct r"
    unfolding distinct_count_atmost_1
  proof
    fix a
    have "count (mset r) a \<le> count (mset_set (vivos st)) a" using sub by (rule mset_subset_eq_count)
    then show "count (mset r) a = (if a \<in> set r then 1 else 0)"
      by (auto simp: count_mset_set' count_mset_0_iff split: if_splits
          intro: le_antisym simp: Suc_le_eq count_mset_gt_0)
  qed
  ultimately show thesis using r that by blast
qed

lemma propias_split:
  "propias (pre @ (k, 0 # r) # post) = propias (pre @ post) + mset r"
  by (simp add: propias_def)

lemma tablas_ok_leer:
  assumes "tablas_ok d sueltos st" "segmentos_ok st" "dictionary_get d k = Some t"
  shows "leer_tabla st t = Inr (map (\<lambda>a. the (st ! a)) t)"
proof -
  obtain r where "t = 0 # r" "set r \<subseteq> vivos st" using tablas_ok_tabla [OF assms(1,3)] by blast
  moreover have "0 < length st" "st ! 0 \<noteq> None" using assms(2) by (auto simp: segmentos_ok_def)
  ultimately show ?thesis by (intro leer_tabla_vivos) (auto dest!: subsetD vivosD)
qed

lemma tablas_ok_agregar:
  assumes ok: "tablas_ok d [] st" and k: "dictionary_get d k = Some t" and st: "st \<noteq> []"
  shows "tablas_ok (dictionary_put d k (t @ [length st])) [] (st @ [Some s])"
proof -
  obtain pre post where d: "d = pre @ (k, t) # post"
    "\<forall>w. dictionary_put d k w = pre @ (k, w) # post" "dictionary_remove d k = pre @ post"
    by (rule dictionary_split [OF tablas_ok_dict [OF ok] k])
  obtain r where r: "t = 0 # r" using ok d by (auto simp: tablas_ok_def)
  have "length st \<notin> vivos st" by (simp add: vivos_def)
  then have "mset_set (vivos (st @ [Some s])) = mset_set (vivos st) + {# length st #}"
    by (simp add: vivos_append [OF st])
  moreover have "propias (dictionary_put d k (t @ [length st])) = propias d + {# length st #}"
    using propias_split [of pre k r post] propias_split [of pre k "r @ [length st]" post]
    by (simp add: d(2) r) (simp add: d(1) r)
  moreover have "\<forall>t' \<in> snd ` set (dictionary_put d k (t @ [length st])). \<exists>r. t' = 0 # r"
    using ok set_dictionary_put [of d k "t @ [length st]"] by (force simp: tablas_ok_def r)
  ultimately show ?thesis using ok by (simp add: tablas_ok_def)
qed

lemma tablas_ok_nueva:
  assumes "tablas_ok d [] st" "dictionary_get d k = None"
  shows "tablas_ok (dictionary_put d k [0]) [] st"
  using assms dict_ok_put [of d k "[0]"]
  by (auto simp: tablas_ok_def propias_def dictionary_put_new)

lemma tablas_ok_quitar:
  assumes ok: "tablas_ok d [] st" and k: "dictionary_get d k = Some (0 # r)" and j: "j < length r"
  shows "tablas_ok (dictionary_put d k (0 # remove_nth j r)) [r ! j] st"
proof -
  obtain pre post where d: "d = pre @ (k, 0 # r) # post"
    "\<forall>w. dictionary_put d k w = pre @ (k, w) # post" "dictionary_remove d k = pre @ post"
    by (rule dictionary_split [OF tablas_ok_dict [OF ok] k])
  have "propias (dictionary_put d k (0 # remove_nth j r)) + {# r ! j #} = propias d"
    using mset_remove_nth [OF j] propias_split [of pre k r post]
      propias_split [of pre k "remove_nth j r" post] by (simp add: d(2)) (simp add: d(1))
  moreover have "\<forall>t' \<in> snd ` set (dictionary_put d k (0 # remove_nth j r)). \<exists>r. t' = 0 # r"
    using ok set_dictionary_put [of d k "0 # remove_nth j r"] by (force simp: tablas_ok_def)
  moreover have "dict_ok (dictionary_put d k (0 # remove_nth j r))"
    using tablas_ok_dict [OF ok] by simp
  ultimately show ?thesis using ok by (simp add: tablas_ok_def)
qed

lemma tablas_ok_remove:
  assumes ok: "tablas_ok d [] st" and k: "dictionary_get d k = Some (0 # r)"
  shows "tablas_ok (dictionary_remove d k) r st"
proof -
  obtain pre post where d: "d = pre @ (k, 0 # r) # post"
    "\<forall>w. dictionary_put d k w = pre @ (k, w) # post" "dictionary_remove d k = pre @ post"
    by (rule dictionary_split [OF tablas_ok_dict [OF ok] k])
  have "dict_ok (dictionary_remove d k)" using tablas_ok_dict [OF ok] by simp
  moreover have "propias (dictionary_remove d k) + mset r = propias d"
    unfolding d(3) by (simp add: d(1) propias_split)
  moreover have "set (dictionary_remove d k) \<subseteq> set d" unfolding d(3) by (auto simp: d(1))
  ultimately show ?thesis using ok by (auto simp: tablas_ok_def)
qed

lemma tablas_ok_free:
  assumes "tablas_ok d (a # sueltos) st"
  shows "tablas_ok d sueltos (st[a := None])"
proof -
  have eq: "propias d + mset (a # sueltos) = mset_set (vivos st)"
    using assms by (simp add: tablas_ok_def)
  then have "a \<in># mset_set (vivos st)" by (metis mset.simps(2) union_iff union_single_eq_member)
  then have "a \<in> vivos st" by simp
  then have "mset_set (vivos st) = add_mset a (mset_set (vivos st - {a}))"
    by (simp add: mset_set.remove)
  with eq have "propias d + mset sueltos = mset_set (vivos st - {a})" by simp
  then show ?thesis using assms by (simp add: tablas_ok_def vivos_update_None)
qed

end
