(* ===== verification/Mem_Operaciones.thy ===== *)
theory Mem_Operaciones
  imports Mem_Invariante
begin

text \<open>
  Every operation on segments keeps the invariant of \<open>Mem_Invariante\<close> and answers as the
  code means it to: what \<open>calloc_segment\<close> returns and creates, what a deletion and the end
  of a process give back, and that the tables the kernel receives are the tables of the
  module.
\<close>

section \<open>Assignment\<close>

lemma calloc_casos:
  assumes cm: "commons_ok cm" and alg: "algoritmo_ok (ALGORITMO_ASIGNACION cfg)"
  obtains
    (creado) i where "i < length (huecos_libres m)" "tam \<le> h_size (huecos_libres m ! i)"
      "elegir_hueco cm (ALGORITMO_ASIGNACION cfg) (huecos_libres m) tam = Inr (Some i)"
      "calloc_segment cm cfg m tabla ident tam = Inr
         (m\<lparr>segmentos := segmentos m @ [Some \<lparr>seg_ID = ident, seg_base = h_pos (huecos_libres m ! i),
                                             seg_limite = tam\<rparr>],
            huecos_libres := ocupar_hueco (huecos_libres m) i tam\<rparr>,
          tabla @ [length (segmentos m)], 0)"
  | (compactar) "\<forall>h \<in> set (huecos_libres m). h_size h < tam"
      "tam \<le> suma h_size (huecos_libres m)"
      "calloc_segment cm cfg m tabla ident tam = Inr (m, tabla, 1)"
  | (lleno) "\<forall>h \<in> set (huecos_libres m). h_size h < tam"
      "suma h_size (huecos_libres m) < tam"
      "calloc_segment cm cfg m tabla ident tam = Inr (m, tabla, -1)"
proof -
  have "\<exists>elegir. politica elegir \<and> elegir_hueco cm (ALGORITMO_ASIGNACION cfg) (huecos_libres m) tam
          = Inr (elegir cm (huecos_libres m) tam)"
    using alg best.politica_axioms first.politica_axioms worst.politica_axioms
    by (auto simp: algoritmo_ok_def elegir_hueco_def)
  then obtain elegir where p: "politica elegir"
    and e: "elegir_hueco cm (ALGORITMO_ASIGNACION cfg) (huecos_libres m) tam
            = Inr (elegir cm (huecos_libres m) tam)" by blast
  show thesis
  proof (cases "elegir cm (huecos_libres m) tam")
    case None
    with politica.elegir_None [OF p, of cm "huecos_libres m" tam]
    have "\<forall>h \<in> set (huecos_libres m). h_size h < tam" by simp
    then show thesis
      using compactar lleno None e
      by (cases "tam \<le> suma h_size (huecos_libres m)")
        (simp_all add: calloc_segment_def suma_huecos_suma)
  next
    case (Some i)
    with politica.elegir_Some [OF p cm Some] e show thesis
      by (intro creado [of i]) (simp_all add: calloc_segment_def allocate_segment_def)
  qed
qed

lemma mem_ok_conD:
  assumes "mem_ok_con sueltos cfg m"
  shows "int (length (user_space m)) = TAM_MEMORIA cfg" "huecos_ok (huecos_libres m)"
    "segmentos_ok (segmentos m)" "particion (TAM_MEMORIA cfg) (huecos_libres m) (segmentos m)"
    "tabla_inicial m = [0]" "tablas_ok (diccionario_tablas m) sueltos (segmentos m)"
    "TAM_MEMORIA cfg < 2147483648"
  using assms by (auto simp: mem_ok_con_def)

lemmas mem_okD = mem_ok_conD [of "[]", folded mem_ok_def]

lemma segmentos_ok_append:
  "segmentos_ok st \<Longrightarrow> 0 < seg_limite s \<Longrightarrow> int32_ok (seg_ID s) \<Longrightarrow> segmentos_ok (st @ [Some s])"
  by (auto simp: segmentos_ok_def)

lemma segmentos_ok_no_vacio: "segmentos_ok st \<Longrightarrow> st \<noteq> []"
  by (auto simp: segmentos_ok_def)

lemma segmentos_ok_free:
  assumes "segmentos_ok st" "0 < a"
  shows "segmentos_ok (st[a := None])"
proof -
  obtain b where "a = Suc b" using assms(2) by (cases a) auto
  then show ?thesis using assms(1) by (auto simp: segmentos_ok_def dest!: en_update)
qed

lemma particion_reserva:
  assumes p: "particion T hs st" and i: "i < length hs" "tam \<le> h_size (hs ! i)" and tam: "0 < tam"
  shows "particion T (ocupar_hueco hs i tam)
           (st @ [Some \<lparr>seg_ID = ident, seg_base = h_pos (hs ! i), seg_limite = tam\<rparr>])"
  unfolding particion_def
proof
  fix x
  have "cubre_h (ocupar_hueco hs i tam) x + ocupa (h_pos (hs ! i)) tam x = cubre_h hs x"
    using i tam by (intro cubre_ocupar) simp_all
  then show "cubre_h (ocupar_hueco hs i tam) x
      + cubre_s (st @ [Some \<lparr>seg_ID = ident, seg_base = h_pos (hs ! i), seg_limite = tam\<rparr>]) x
      = (if 0 \<le> x \<and> x < T then 1 else 0)"
    using p [unfolded particion_def, rule_format, of x] by simp
qed

section \<open>Freeing one segment\<close>

lemma particion_libera:
  assumes p: "particion T hs st" and hs: "huecos_ok hs"
    and a: "a < length st" "st ! a = Some s" and l: "0 < seg_limite s"
  shows "particion T (alojar_nuevo_hueco hs (seg_base s) (seg_limite s)) (st[a := None])"
    and "huecos_ok (alojar_nuevo_hueco hs (seg_base s) (seg_limite s))"
proof -
  have x: "cubre_h hs x + ocupa (seg_base s) (seg_limite s) x \<le> 1" for x
    using cubre_s_segmento [of s st x] nth_mem [OF a(1)] a(2) particion_cubre [OF p, of x] by simp
  show "huecos_ok (alojar_nuevo_hueco hs (seg_base s) (seg_limite s))"
    by (rule huecos_ok_alojar [OF hs l x])
  show "particion T (alojar_nuevo_hueco hs (seg_base s) (seg_limite s)) (st[a := None])"
    using p unfolding particion_def cubre_alojar [OF hs l] cubre_s_update [OF a] by simp
qed

lemma liberar_segmento_ok:
  assumes ok: "mem_ok_con (a # sueltos) cfg m"
  obtains m' where "liberar_segmento m a = Inr m'" "mem_ok_con sueltos cfg m'"
    "diccionario_tablas m' = diccionario_tablas m" "user_space m' = user_space m"
    "segmentos m' = (segmentos m)[a := None]"
proof -
  note D = mem_ok_conD [OF ok]
  have "propias (diccionario_tablas m) + mset (a # sueltos) = mset_set (vivos (segmentos m))"
    using D(6) by (simp add: tablas_ok_def)
  then have "a \<in># mset_set (vivos (segmentos m))"
    by (metis mset.simps(2) union_iff union_single_eq_member)
  then have "a \<in> vivos (segmentos m)" by simp
  then obtain s where a: "0 < a" "a < length (segmentos m)" "segmentos m ! a = Some s"
    by (auto simp: vivos_def)
  have "Some s \<in> set (segmentos m)" using nth_mem [OF a(2)] a(3) by simp
  then have l: "0 < seg_limite s" using D(3) by (simp add: segmentos_ok_def)
  define m' where "m' = m\<lparr>huecos_libres := alojar_nuevo_hueco (huecos_libres m) (seg_base s) (seg_limite s),
                          segmentos := (segmentos m)[a := None]\<rparr>"
  have "liberar_segmento m a = Inr m'"
    using a by (simp add: liberar_segmento_def segmento_en_Some m'_def)
  moreover have "mem_ok_con sueltos cfg m'"
    using D particion_libera [OF D(4,2) a(2,3) l] segmentos_ok_free [OF D(3) a(1)]
      tablas_ok_free [OF D(6)] by (simp add: mem_ok_con_def m'_def)
  ultimately show thesis using that by (simp add: m'_def)
qed

lemma tablas_sin_liberado:
  assumes ok: "tablas_ok d sueltos (st[a := None])" and k: "dictionary_get d k = Some t" and a: "0 < a"
  shows "map (\<lambda>b. the (st[a := None] ! b)) t = map (\<lambda>b. the (st ! b)) t"
proof -
  obtain r where "t = 0 # r" "set r \<subseteq> vivos (st[a := None])" by (rule tablas_ok_tabla [OF ok k])
  then have "\<forall>b \<in> set t. b \<noteq> a" using a by (auto simp: vivos_update_None)
  then show ?thesis by (auto simp: nth_list_update)
qed

lemma liberar_segmentos_ok:
  assumes "mem_ok_con as cfg m"
  shows "\<exists>m'. liberar_segmentos m as = Inr m' \<and> mem_ok cfg m'
              \<and> diccionario_tablas m' = diccionario_tablas m \<and> user_space m' = user_space m"
  using assms
proof (induction as arbitrary: m)
  case Nil
  then show ?case by (simp add: mem_ok_def)
next
  case (Cons a as)
  obtain m1 where m1: "liberar_segmento m a = Inr m1" "mem_ok_con as cfg m1"
    "diccionario_tablas m1 = diccionario_tablas m" "user_space m1 = user_space m"
    using liberar_segmento_ok [OF Cons.prems] by blast
  from Cons.IH [OF m1(2)] show ?case using m1 by simp
qed

section \<open>The whole operations\<close>

text \<open>The segments of a process as the module sees them.\<close>

definition tabla_de :: "memoria \<Rightarrow> string \<Rightarrow> segmento list" where
  "tabla_de m PID = (case dictionary_get (diccionario_tablas m) PID of
                       None \<Rightarrow> [] | Some t \<Rightarrow> map (\<lambda>a. the (segmentos m ! a)) t)"

lemma mem_create_nueva:
  assumes ok: "mem_ok cfg m" and k: "dictionary_get (diccionario_tablas m) PID = None"
  obtains m' where "mem_create_segment cm cfg m PID segID tam
      = Inr (m', send_tabla_segmentos (tabla_de m' PID) 0)" "mem_ok cfg m'"
    "tabla_de m' PID = [the (segmentos m ! 0)]" "huecos_libres m' = huecos_libres m"
    "\<forall>k. k \<noteq> PID \<longrightarrow> tabla_de m' k = tabla_de m k"
proof -
  note D = mem_okD [OF ok]
  obtain s0 st' where st: "segmentos m = Some s0 # st'" using D(3) by (auto simp: segmentos_ok_def)
  define m' where "m' = m\<lparr>diccionario_tablas := dictionary_put (diccionario_tablas m) PID [0]\<rparr>"
  have t: "tabla_de m' PID = [the (segmentos m ! 0)]" by (simp add: tabla_de_def m'_def)
  show thesis
  proof (rule that [of m'])
    show "mem_create_segment cm cfg m PID segID tam = Inr (m', send_tabla_segmentos (tabla_de m' PID) 0)"
      by (simp add: mem_create_segment_def k D(5) st segmento_en_def t) (simp add: m'_def)
    show "mem_ok cfg m'"
      using D tablas_ok_nueva [OF D(6) k] by (simp add: mem_ok_def mem_ok_con_def m'_def)
    show "\<forall>k. k \<noteq> PID \<longrightarrow> tabla_de m' k = tabla_de m k" by (simp add: m'_def tabla_de_def split: option.split)
  qed (rule t, simp add: m'_def)
qed

lemma mem_create_creado:
  assumes cm: "commons_ok cm" and ok: "mem_ok cfg m"
    and k: "dictionary_get (diccionario_tablas m) PID = Some t"
    and ident: "int32_ok segID" and tam: "0 < tam"
    and i: "i < length (huecos_libres m)" "tam \<le> h_size (huecos_libres m ! i)"
    and c: "calloc_segment cm cfg m t segID tam = Inr
         (m\<lparr>segmentos := segmentos m @ [Some \<lparr>seg_ID = segID, seg_base = h_pos (huecos_libres m ! i),
                                             seg_limite = tam\<rparr>],
            huecos_libres := ocupar_hueco (huecos_libres m) i tam\<rparr>,
          t @ [length (segmentos m)], 0)"
  obtains m' where
    "mem_create_segment cm cfg m PID segID tam = Inr (m', send_tabla_segmentos (tabla_de m' PID) 0)"
    "mem_ok cfg m'"
    "tabla_de m' PID = tabla_de m PID @
       [\<lparr>seg_ID = segID, seg_base = h_pos (huecos_libres m ! i), seg_limite = tam\<rparr>]"
    "\<forall>k. k \<noteq> PID \<longrightarrow> tabla_de m' k = tabla_de m k"
proof -
  note D = mem_okD [OF ok]
  let ?s = "\<lparr>seg_ID = segID, seg_base = h_pos (huecos_libres m ! i), seg_limite = tam\<rparr>"
  let ?st = "segmentos m @ [Some ?s]"
  let ?d = "dictionary_put (diccionario_tablas m) PID (t @ [length (segmentos m)])"
  define m' where "m' = m\<lparr>segmentos := ?st, diccionario_tablas := ?d,
    huecos_libres := ocupar_hueco (huecos_libres m) i tam\<rparr>"
  have st: "segmentos m \<noteq> []" by (rule segmentos_ok_no_vacio [OF D(3)])
  have seg': "segmentos_ok ?st" using D(3) tam ident by (intro segmentos_ok_append) simp_all
  have tab': "tablas_ok ?d [] ?st" by (rule tablas_ok_agregar [OF D(6) k st])
  have menores: "a < length (segmentos m)" if kt: "dictionary_get (diccionario_tablas m) k = Some u"
    "a \<in> set u" for k u a
  proof -
    obtain r where "u = 0 # r" "set r \<subseteq> vivos (segmentos m)"
      using tablas_ok_tabla [OF D(6) kt(1)] by blast
    then show ?thesis using kt(2) st vivosD by auto
  qed
  have leer: "leer_tabla ?st (t @ [length (segmentos m)])
      = Inr (map (\<lambda>a. the (?st ! a)) (t @ [length (segmentos m)]))"
    by (rule tablas_ok_leer [OF tab' seg', of PID]) simp
  have tk: "tabla_de m' PID = map (\<lambda>a. the (?st ! a)) (t @ [length (segmentos m)])"
    by (simp add: tabla_de_def m'_def)
  show thesis
  proof (rule that [of m'])
    show "mem_create_segment cm cfg m PID segID tam = Inr (m', send_tabla_segmentos (tabla_de m' PID) 0)"
      unfolding mem_create_segment_def by (simp add: k c leer tk) (simp add: m'_def)
    show "mem_ok cfg m'"
      using D seg' tab' huecos_ok_ocupar [OF D(2) i(1) tam i(2)] particion_reserva [OF D(4) i tam]
      by (simp add: mem_ok_def mem_ok_con_def m'_def)
    show "tabla_de m' PID = tabla_de m PID @ [?s]"
      using menores [OF k] by (simp add: tk) (simp add: tabla_de_def k nth_append)
    show "\<forall>k. k \<noteq> PID \<longrightarrow> tabla_de m' k = tabla_de m k"
    proof (intro allI impI)
      fix k assume k: "k \<noteq> PID"
      show "tabla_de m' k = tabla_de m k"
        using menores [of k] k
        by (cases "dictionary_get (diccionario_tablas m) k") (simp_all add: tabla_de_def m'_def nth_append)
    qed
  qed
qed

lemma mem_create_sin_hueco:
  assumes ok: "mem_ok cfg m" and k: "dictionary_get (diccionario_tablas m) PID = Some t"
    and c: "calloc_segment cm cfg m t segID tam = Inr (m, t, ret)"
  obtains m' where
    "mem_create_segment cm cfg m PID segID tam = Inr (m', send_tabla_segmentos (tabla_de m' PID) ret)"
    "mem_ok cfg m'" "huecos_libres m' = huecos_libres m" "tabla_de m' = tabla_de m"
proof -
  note D = mem_okD [OF ok]
  let ?d = "dictionary_put (diccionario_tablas m) PID t"
  have d: "?d = diccionario_tablas m"
    using dictionary_split [OF tablas_ok_dict [OF D(6)] k] by metis
  define m' where "m' = m\<lparr>diccionario_tablas := ?d\<rparr>"
  have m: "m' = m" unfolding m'_def d by simp
  have "leer_tabla (segmentos m) t = Inr (tabla_de m PID)"
    using tablas_ok_leer [OF D(6,3) k] by (simp add: tabla_de_def k)
  then have "mem_create_segment cm cfg m PID segID tam
      = Inr (m', send_tabla_segmentos (tabla_de m PID) ret)"
    by (simp add: mem_create_segment_def k c m'_def)
  then show thesis using that [of m] ok by (simp add: m)
qed

text \<open>A deletion of an identifier the process has, other than that of segment 0.\<close>

lemma mem_delete_ok:
  assumes ok: "mem_ok cfg m" and k: "dictionary_get (diccionario_tablas m) PID = Some t"
    and j: "find_index (\<lambda>s. seg_ID s = segID) (tabla_de m PID) = Some (Suc j)"
  obtains m' where
    "mem_delete_segment m PID segID = Inr (m', send_tabla_segmentos (tabla_de m' PID) 0)"
    "mem_ok cfg m'" "tabla_de m' PID = remove_nth (Suc j) (tabla_de m PID)"
    "\<forall>k. k \<noteq> PID \<longrightarrow> tabla_de m' k = tabla_de m k"
    "huecos_libres m' = alojar_nuevo_hueco (huecos_libres m) (seg_base (tabla_de m PID ! Suc j))
       (seg_limite (tabla_de m PID ! Suc j))"
proof -
  note D = mem_okD [OF ok]
  let ?ss = "tabla_de m PID"
  obtain r where r: "t = 0 # r" "set r \<subseteq> vivos (segmentos m)" "distinct r"
    by (rule tablas_ok_tabla [OF D(6) k])
  have ss: "?ss = map (\<lambda>a. the (segmentos m ! a)) t" by (simp add: tabla_de_def k)
  have jl: "j < length r" using find_index_SomeD(1) [OF j] by (simp add: ss r(1))
  let ?m1 = "m\<lparr>diccionario_tablas := dictionary_put (diccionario_tablas m) PID (0 # remove_nth j r)\<rparr>"
  have "mem_ok_con [r ! j] cfg ?m1"
    using D tablas_ok_quitar [OF D(6) k [unfolded r(1)] jl] by (simp add: mem_ok_con_def)
  then obtain m' where m': "liberar_segmento ?m1 (r ! j) = Inr m'" "mem_ok_con [] cfg m'"
    "diccionario_tablas m' = diccionario_tablas ?m1" "user_space m' = user_space ?m1"
    "segmentos m' = (segmentos ?m1)[r ! j := None]"
    by (rule liberar_segmento_ok)
  have a: "0 < r ! j" "r ! j < length (segmentos m)" "segmentos m ! (r ! j) \<noteq> None"
    using subsetD [OF r(2) nth_mem [OF jl]] by (auto simp: vivos_def)
  then obtain s where s: "segmentos m ! (r ! j) = Some s" by blast
  have ssj: "?ss ! Suc j = s" using jl by (simp add: ss r(1) s)
  have m'1: "m' = ?m1\<lparr>huecos_libres := alojar_nuevo_hueco (huecos_libres m) (seg_base s) (seg_limite s),
      segmentos := (segmentos m)[r ! j := None]\<rparr>"
    using m'(1) a s by (simp add: liberar_segmento_def segmento_en_Some)
  have ok': "tablas_ok (diccionario_tablas m') [] ((segmentos m)[r ! j := None])"
    using mem_ok_conD(6) [OF m'(2)] by (simp add: m'1)
  have otras: "tabla_de m' k = (case dictionary_get (diccionario_tablas m') k of
      None \<Rightarrow> [] | Some u \<Rightarrow> map (\<lambda>b. the (segmentos m ! b)) u)" for k
  proof (cases "dictionary_get (diccionario_tablas m') k")
    case (Some u)
    have "segmentos m' = (segmentos m)[r ! j := None]" by (simp add: m'1)
    with Some tablas_sin_liberado [OF ok' Some a(1)] show ?thesis by (simp add: tabla_de_def)
  qed (simp add: tabla_de_def)
  have nueva: "tabla_de m' PID = remove_nth (Suc j) ?ss"
    unfolding otras by (simp add: m'1 ss r(1) map_remove_nth jl)
  have leer: "leer_tabla (segmentos m) t = Inr ?ss"
    using tablas_ok_leer [OF D(6,3) k] by (simp add: ss)
  show thesis
  proof (rule that [of m'])
    show "mem_delete_segment m PID segID = Inr (m', send_tabla_segmentos (tabla_de m' PID) 0)"
      unfolding mem_delete_segment_def nueva using k leer j ssj by (simp add: m'1 r(1))
    show "mem_ok cfg m'" using m'(2) by (simp add: mem_ok_def)
    show "\<forall>k. k \<noteq> PID \<longrightarrow> tabla_de m' k = tabla_de m k"
      unfolding otras by (simp add: m'1 tabla_de_def)
    show "huecos_libres m' = alojar_nuevo_hueco (huecos_libres m) (seg_base (?ss ! Suc j))
       (seg_limite (?ss ! Suc j))" by (simp add: m'1 ssj)
  qed (rule nueva)
qed

lemma liberar_segmento_suma:
  assumes ok: "mem_ok_con (a # sueltos) cfg m" and f: "liberar_segmento m a = Inr m'"
  shows "suma h_size (huecos_libres m')
         = suma h_size (huecos_libres m) + seg_limite (the (segmentos m ! a))"
    and "a \<notin> set sueltos"
proof -
  note D = mem_ok_conD [OF ok]
  have eq: "propias (diccionario_tablas m) + mset (a # sueltos) = mset_set (vivos (segmentos m))"
    using D(6) by (simp add: tablas_ok_def)
  have av: "a \<in> vivos (segmentos m)"
    using arg_cong [OF eq, of set_mset] by auto
  have "count (mset (a # sueltos)) a \<le> count (mset_set (vivos (segmentos m))) a"
    unfolding eq [symmetric] by simp
  then have "count (mset sueltos) a = 0" using av by simp
  then show "a \<notin> set sueltos" by (simp add: count_mset_0_iff)
  obtain s where s: "a < length (segmentos m)" "segmentos m ! a = Some s" using av vivosD by blast
  have "0 < seg_limite s" using D(3) nth_mem [OF s(1)] s(2) by (simp add: segmentos_ok_def)
  moreover have "huecos_libres m' = alojar_nuevo_hueco (huecos_libres m) (seg_base s) (seg_limite s)"
    using f s by (auto simp: liberar_segmento_def segmento_en_Some)
  ultimately show "suma h_size (huecos_libres m')
         = suma h_size (huecos_libres m) + seg_limite (the (segmentos m ! a))"
    by (simp add: suma_alojar [OF D(2)] s(2))
qed

lemma liberar_segmentos_suma:
  assumes "mem_ok_con as cfg m" "liberar_segmentos m as = Inr m'"
  shows "suma h_size (huecos_libres m')
         = suma h_size (huecos_libres m) + suma (\<lambda>a. seg_limite (the (segmentos m ! a))) as"
    and "b \<notin> set as \<Longrightarrow> segmentos m' ! b = segmentos m ! b"
  using assms
proof (induction as arbitrary: m)
  case (Cons a as)
  {
    case 1
    obtain m1 where m1: "liberar_segmento m a = Inr m1" "mem_ok_con as cfg m1"
      "diccionario_tablas m1 = diccionario_tablas m" "user_space m1 = user_space m"
      "segmentos m1 = (segmentos m)[a := None]"
      by (rule liberar_segmento_ok [OF 1(1)])
    note S = liberar_segmento_suma [OF 1(1) m1(1)]
    have "suma (\<lambda>b. seg_limite (the (segmentos m1 ! b))) as = suma (\<lambda>b. seg_limite (the (segmentos m ! b))) as"
      using S(2) by (intro suma_cong) (metis m1(5) nth_list_update_neq)
    then show ?case using Cons.IH(1) [OF m1(2)] S(1) 1(2) m1(1) by simp
  next
    case 2
    obtain m1 where m1: "liberar_segmento m a = Inr m1" "mem_ok_con as cfg m1"
      "diccionario_tablas m1 = diccionario_tablas m" "user_space m1 = user_space m"
      "segmentos m1 = (segmentos m)[a := None]"
      by (rule liberar_segmento_ok [OF 2(2)])
    then show ?case using Cons.IH(2) [OF _ m1(2)] 2(1,3) by simp
  }
qed simp_all

lemma liberar_segmentos_length:
  "liberar_segmentos m as = Inr m' \<Longrightarrow> length (segmentos m') = length (segmentos m)"
  by (induction as arbitrary: m) (auto simp: bind_res_Inr_iff liberar_segmento_def)

lemma liberar_segmentos_borra:
  assumes "mem_ok_con as cfg m" "liberar_segmentos m as = Inr m'" "b \<in> set as"
  shows "0 < b \<and> b < length (segmentos m') \<and> segmentos m' ! b = None"
  using assms
proof (induction as arbitrary: m)
  case (Cons a as)
  obtain m1 where m1: "liberar_segmento m a = Inr m1" "mem_ok_con as cfg m1"
    "diccionario_tablas m1 = diccionario_tablas m" "user_space m1 = user_space m"
    "segmentos m1 = (segmentos m)[a := None]"
    by (rule liberar_segmento_ok [OF Cons.prems(1)])
  show ?case
  proof (cases "b \<in> set as")
    case True
    then show ?thesis using Cons.IH [OF m1(2)] Cons.prems(2) m1(1) by simp
  next
    case False
    then have "b = a" using Cons.prems(3) by simp
    have "mset (a # as) \<subseteq># mset_set (vivos (segmentos m))"
      using mem_ok_conD(6) [OF Cons.prems(1)] unfolding tablas_ok_def
      by (metis mset_subset_eq_add_right)
    then have "a \<in> vivos (segmentos m)" by (auto dest: mset_subset_eqD)
    then have "0 < a" "a < length (segmentos m)" by (auto simp: vivos_def)
    moreover have "segmentos m' ! a = segmentos m1 ! a"
      using liberar_segmentos_suma(2) [OF m1(2), of m' a] Cons.prems(2) m1(1) False \<open>b = a\<close> by simp
    moreover have "length (segmentos m') = length (segmentos m1)"
      using liberar_segmentos_length [of m1 as m'] Cons.prems(2) m1(1) by simp
    ultimately show ?thesis by (simp add: \<open>b = a\<close> m1(5))
  qed
qed simp

text \<open>The end of a process frees its segments and forgets its table.\<close>

lemma mem_exit_ok:
  assumes ok: "mem_ok cfg m" and k: "dictionary_get (diccionario_tablas m) PID = Some t"
  obtains m' where "mem_exit m PID = Inr m'" "mem_ok cfg m'"
    "diccionario_tablas m' = dictionary_remove (diccionario_tablas m) PID"
    "user_space m' = user_space m"
    "suma h_size (huecos_libres m') = suma h_size (huecos_libres m) + suma seg_limite (tl (tabla_de m PID))"
    "\<forall>k. k \<noteq> PID \<longrightarrow> tabla_de m' k = tabla_de m k"
proof -
  note D = mem_okD [OF ok]
  obtain r where r: "t = 0 # r" by (rule tablas_ok_tabla [OF D(6) k])
  let ?m1 = "m\<lparr>diccionario_tablas := dictionary_remove (diccionario_tablas m) PID\<rparr>"
  have con: "mem_ok_con r cfg ?m1"
    using D tablas_ok_remove [OF D(6) k [unfolded r]] by (simp add: mem_ok_con_def)
  obtain m' where m': "liberar_segmentos ?m1 r = Inr m'" "mem_ok cfg m'"
    "diccionario_tablas m' = dictionary_remove (diccionario_tablas m) PID" "user_space m' = user_space m"
    using liberar_segmentos_ok [OF con] by auto
  note S = liberar_segmentos_suma [OF con m'(1)]
  have tr: "tl (tabla_de m PID) = map (\<lambda>a. the (segmentos m ! a)) r"
    by (simp add: tabla_de_def k r)
  show thesis
  proof (rule that [of m'])
    show "mem_exit m PID = Inr m'" using m'(1) by (simp add: mem_exit_def k r)
    show "suma h_size (huecos_libres m')
        = suma h_size (huecos_libres m) + suma seg_limite (tl (tabla_de m PID))"
      using S(1) by (simp add: tr suma_def comp_def)
    show "\<forall>k. k \<noteq> PID \<longrightarrow> tabla_de m' k = tabla_de m k"
    proof (intro allI impI)
      fix k' assume k': "k' \<noteq> PID"
      show "tabla_de m' k' = tabla_de m k'"
      proof (cases "dictionary_get (diccionario_tablas m) k'")
        case (Some u)
        have u: "dictionary_get (diccionario_tablas m') k' = Some u" using k' Some by (simp add: m'(3))
        obtain ru where ru: "u = 0 # ru" "set ru \<subseteq> vivos (segmentos m')"
          by (rule tablas_ok_tabla [OF mem_okD(6) [OF m'(2)] u])
        obtain rt where rt: "t = 0 # rt" "set rt \<subseteq> vivos (segmentos m)"
          by (rule tablas_ok_tabla [OF D(6) k])
        have "b \<notin> set r" if b: "b \<in> set u" for b
          using b ru rt liberar_segmentos_borra [OF con m'(1)] unfolding r vivos_def by auto
        then show ?thesis using S(2) by (auto simp: tabla_de_def Some u)
      qed (simp add: tabla_de_def k' m'(3))
    qed
  qed (use m' in simp_all)
qed

section \<open>Accounting\<close>

lemma suma_ocupa:
  assumes "0 \<le> b" "0 \<le> l" "b + l \<le> T"
  shows "(\<Sum>x \<in> {0..<T}. ocupa b l x) = l"
proof -
  have "(\<Sum>x \<in> {0..<T}. ocupa b l x) = (\<Sum>x \<in> {0..<T}. if x \<in> {b..<b + l} then 1 else 0)"
    by (rule sum.cong) (auto simp: ocupa_def)
  also have "\<dots> = int (card ({0..<T} \<inter> {b..<b + l}))"
    by (subst sum.inter_restrict [symmetric]) simp_all
  also have "{0..<T} \<inter> {b..<b + l} = {b..<b + l}" using assms by auto
  finally show ?thesis using assms by simp
qed

lemma suma_suma:
  "(\<Sum>x \<in> A. suma (\<lambda>e. f e x) xs) = suma (\<lambda>e. \<Sum>x \<in> A. f e x) xs"
  by (induction xs) (simp_all add: sum.distrib)

definition ocupado :: "segmento option list \<Rightarrow> int" where
  "ocupado st = suma (\<lambda>o'. case o' of None \<Rightarrow> 0 | Some s \<Rightarrow> seg_limite s) st"

text \<open>No byte is ever lost: holes and segments add up to the memory.\<close>

lemma particion_total:
  assumes p: "particion T hs st" and hs: "huecos_ok hs" and st: "segmentos_ok st" and T: "0 \<le> T"
  shows "suma h_size hs + ocupado st = T"
proof -
  have h: "(\<Sum>x \<in> {0..<T}. ocupa (h_pos h) (h_size h) x) = h_size h" if h: "h \<in> set hs" for h
    using huecos_okD(1) [OF hs h] particion_rango_hueco [OF p h] by (intro suma_ocupa) auto
  have s: "(\<Sum>x \<in> {0..<T}. ocupa (seg_base s) (seg_limite s) x) = seg_limite s"
    if s: "Some s \<in> set st" for s
    using st s particion_rango_segmento [OF p s] by (intro suma_ocupa) (auto simp: segmentos_ok_def)
  have "T = (\<Sum>x \<in> {0..<T}. 1)" using T by simp
  also have "\<dots> = (\<Sum>x \<in> {0..<T}. cubre_h hs x + cubre_s st x)"
    using p by (intro sum.cong) (auto simp: particion_def)
  also have "\<dots> = suma h_size hs + ocupado st"
    unfolding sum.distrib cubre_h_def cubre_s_def suma_suma ocupado_def
    by (intro arg_cong2 [where f = "(+)"] suma_cong) (auto simp: h s split: option.split)
  finally show ?thesis by simp
qed

section \<open>The initial state\<close>

lemma mem_inicial_ok:
  assumes cm: "commons_ok cm" and cfg: "cfg_ok cfg"
  obtains m where "mem_inicial cm cfg = Inr m" "mem_ok cfg m" "diccionario_tablas m = []"
    "segmentos m = [Some \<lparr>seg_ID = 0, seg_base = 0, seg_limite = TAM_SEGMENTO_0 cfg\<rparr>]"
proof -
  let ?T = "TAM_MEMORIA cfg" and ?t = "TAM_SEGMENTO_0 cfg"
  define m0 where "m0 = \<lparr>user_space = replicate (nat ?T) (CHR '' ''),
    huecos_libres = iniciar_lista_huecos_libres ?T, segmentos = [], tabla_inicial = [], diccionario_tablas = []\<rparr>"
  have c: "0 < ?t" "?t \<le> ?T" "?T < 2147483648" "algoritmo_ok (ALGORITMO_ASIGNACION cfg)"
    using cfg by (simp_all add: cfg_ok_def)
  have h0: "huecos_libres m0 = [\<lparr>h_pos = 0, h_size = ?T\<rparr>]"
    by (simp add: m0_def iniciar_lista_huecos_libres_def)
  have ok: "huecos_ok (huecos_libres m0)"
    using huecos_ok_iniciar [of ?T] c by (simp add: m0_def)
  have par: "particion ?T (huecos_libres m0) []"
    unfolding h0 by (simp add: particion_def cubre_h_def cubre_s_def ocupa_def)
  let ?s = "\<lparr>seg_ID = 0, seg_base = 0, seg_limite = ?t\<rparr>"
  let ?m = "m0\<lparr>segmentos := [Some ?s], huecos_libres := ocupar_hueco (huecos_libres m0) 0 ?t,
              tabla_inicial := [0]\<rparr>"
  have "mem_inicial cm cfg = Inr ?m"
  proof (cases rule: calloc_casos [OF cm c(4), of m0 ?t "[]" 0])
    case (1 i)
    then have "i = 0" by (simp add: h0)
    then show ?thesis
      using 1 h0 by (simp add: mem_inicial_def m0_def [symmetric]) (simp add: m0_def)
  qed (use c h0 in simp_all)
  moreover have "mem_ok cfg ?m"
    unfolding mem_ok_def mem_ok_con_def
  proof (intro conjI)
    show "huecos_ok (huecos_libres ?m)" using huecos_ok_ocupar [OF ok, of 0 ?t] c by (simp add: h0)
    have "vivos [Some ?s] = {}" by (auto simp: vivos_def)
    then show "tablas_ok (diccionario_tablas ?m) [] (segmentos ?m)"
      by (simp add: tablas_ok_def propias_def m0_def)
    show "particion ?T (huecos_libres ?m) (segmentos ?m)"
      using particion_reserva [OF par, of 0 ?t 0] c by (simp add: h0)
  qed (use c in \<open>auto simp: m0_def segmentos_ok_def\<close>)
  ultimately show thesis using that by (simp add: m0_def)
qed

end
