(* ===== verification/Mem_Compactacion.thy ===== *)
theory Mem_Compactacion
  imports Mem_Operaciones
begin

text \<open>
  Compaction in the memory module (\<open>realloc_segment\<close>, \<open>compactar_segmentos\<close>,
  \<open>enviar_tablas_actualizadas\<close> of \<open>Memoria/src/memoria.h\<close>). The code loops until no segment
  lies beyond the lowest hole, so the loop is a \<open>partial_function\<close>: that it ends is a
  theorem, with the sum of the bases of the segments as the measure.
\<close>

section \<open>Definitions\<close>

definition realloc_segment :: "memoria \<Rightarrow> nat \<Rightarrow> nat \<Rightarrow> memoria" where
  "realloc_segment m a i =
     (let h = huecos_libres m ! i; s = (the (segmentos m ! a))\<lparr>seg_base := h_pos h\<rparr>
      in m\<lparr>segmentos := (segmentos m)[a := Some s],
          huecos_libres := alojar_nuevo_hueco (remove_nth i (huecos_libres m))
            (seg_base s + seg_limite s) (h_size h)\<rparr>)"

definition primer_hueco :: "commons \<Rightarrow> hueco list \<Rightarrow> nat" where
  "primer_hueco cm hs = list_get_minimum cm (menor_por (\<lambda>i. h_pos (hs ! i))) [0..<length hs]"

definition base_en :: "segmento option list \<Rightarrow> nat \<Rightarrow> int" where
  "base_en st a = seg_base (the (st ! a))"

text \<open>
  One iteration of \<open>while(1)\<close>: \<open>None\<close> is the \<open>break\<close>. With no hole at all the
  minimum is NULL, dereferenced as soon as there is a segment to filter.
\<close>

definition compactar_paso :: "commons \<Rightarrow> nat list \<Rightarrow> memoria \<Rightarrow> memoria option res" where
  "compactar_paso cm tg m =
     (if huecos_libres m = [] then (if tg = [] then Inr None else Inl Puntero_nulo)
      else bind_res (leer_tabla (segmentos m) tg) (\<lambda>_.
        let i = primer_hueco cm (huecos_libres m);
            h = huecos_libres m ! i;
            utiles = filter (\<lambda>a. base_en (segmentos m) a > h_pos h) tg
        in if utiles = [] then Inr None
           else
             let a = list_get_minimum cm (menor_por (base_en (segmentos m))) utiles;
                 s = the (segmentos m ! a)
             in bind_res (memmove_area (user_space m) (h_pos h) (seg_base s) (seg_limite s)) (\<lambda>us.
                bind_res (memset_area us (seg_base s) (CHR '' '') (seg_limite s)) (\<lambda>us'.
                  Inr (Some (realloc_segment (m\<lparr>user_space := us'\<rparr>) a i))))))"

partial_function (option) compactar_bucle :: "commons \<Rightarrow> nat list \<Rightarrow> memoria \<Rightarrow> memoria res option" where
  "compactar_bucle cm tg m =
     (case compactar_paso cm tg m of
        Inl e \<Rightarrow> Some (Inl e)
      | Inr None \<Rightarrow> Some (Inr m)
      | Inr (Some m') \<Rightarrow> compactar_bucle cm tg m')"

declare compactar_bucle.simps [code]

text \<open>\<open>list_flatten(dictionary_elements(diccionario_tablas))\<close>\<close>

definition tabla_global :: "commons \<Rightarrow> memoria \<Rightarrow> nat list" where
  "tabla_global cm m = concat (map snd (dictionary_orden cm (diccionario_tablas m)))"

primrec empaquetar_tablas :: "memoria \<Rightarrow> t_paquete \<Rightarrow> string list \<Rightarrow> t_paquete res" where
  "empaquetar_tablas m p [] = Inr p"
| "empaquetar_tablas m p (k # ks) =
     (case dictionary_get (diccionario_tablas m) k of
        None \<Rightarrow> Inl Puntero_nulo
      | Some t \<Rightarrow> bind_res (leer_tabla (segmentos m) t) (\<lambda>ss.
          empaquetar_tablas m (empaquetar_lista_segmentos (anexar p (enc_int (atoi k))) ss) ks))"

definition enviar_tablas_actualizadas :: "commons \<Rightarrow> memoria \<Rightarrow> byte list res" where
  "enviar_tablas_actualizadas cm m =
     bind_res (empaquetar_tablas m
         (anexar crear_paquete (enc_int (int (length (diccionario_tablas m)))))
         (map fst (dictionary_orden cm (diccionario_tablas m))))
       (\<lambda>p. Inr (enviar_paquete p))"

definition compactar_segmentos :: "commons \<Rightarrow> memoria \<Rightarrow> (memoria \<times> byte list) res option" where
  "compactar_segmentos cm m =
     map_option (\<lambda>r. bind_res r (\<lambda>m'. bind_res (enviar_tablas_actualizadas cm m') (\<lambda>bs. Inr (m', bs))))
       (compactar_bucle cm (tabla_global cm m) m)"

section \<open>The lowest hole and the segment behind it\<close>

lemma primer_hueco_minimo:
  assumes "commons_ok cm" "hs \<noteq> []"
  shows "primer_hueco cm hs < length hs"
    and "j < length hs \<Longrightarrow> h_pos (hs ! primer_hueco cm hs) \<le> h_pos (hs ! j)"
  using list_get_minimum_in [OF assms(1), of "[0..<length hs]" "\<lambda>i. h_pos (hs ! i)"]
    list_get_minimum_le [OF assms(1), of j "[0..<length hs]" "\<lambda>i. h_pos (hs ! i)"] assms(2)
  by (auto simp: primer_hueco_def)

lemma set_tabla_global:
  assumes cm: "commons_ok cm" and ok: "mem_ok cfg m"
  shows "vivos (segmentos m) \<subseteq> set (tabla_global cm m)"
    and "set (tabla_global cm m) \<subseteq> insert 0 (vivos (segmentos m))"
proof -
  have set_eq: "set (tabla_global cm m) = (\<Union>e \<in> set (diccionario_tablas m). set (snd e))"
    using mset_eq_setD [OF mset_dictionary_orden [OF cm]] by (simp add: tabla_global_def)
  have t: "tablas_ok (diccionario_tablas m) [] (segmentos m)" by (rule mem_okD(6) [OF ok])
  have "set_mset (propias (diccionario_tablas m)) = vivos (segmentos m)"
    using t by (simp add: tablas_ok_def)
  then have v: "vivos (segmentos m) = (\<Union>e \<in> set (diccionario_tablas m). set (tl (snd e)))"
    by (simp add: propias_def)
  show "vivos (segmentos m) \<subseteq> set (tabla_global cm m)"
    unfolding set_eq v by (blast dest: en_tl)
  show "set (tabla_global cm m) \<subseteq> insert 0 (vivos (segmentos m))"
    unfolding set_eq v using t by (fastforce simp: tablas_ok_def)
qed

lemma cubre_tras_hueco:
  assumes hs: "huecos_ok hs" and i: "i < length hs"
  shows "cubre_h hs (h_pos (hs ! i) + h_size (hs ! i)) = 0"
proof -
  let ?x = "h_pos (hs ! i) + h_size (hs ! i)"
  have h: "0 < h_size (hs ! i)" by (rule huecos_ok_nth [OF hs i])
  have "ocupa (h_pos h') (h_size h') ?x = 0" if h': "h' \<in> set hs" for h'
  proof (rule ccontr)
    assume "ocupa (h_pos h') (h_size h') ?x \<noteq> 0"
    then have d: "h_pos h' \<le> ?x" "?x < h_pos h' + h_size h'"
      by (auto simp: ocupa_def split: if_splits)
    obtain j where j: "j < length hs" "h' = hs ! j" using h' by (auto simp: in_set_conv_nth)
    have "j \<noteq> i" using d j h by auto
    moreover have "h_pos h' \<noteq> ?x" using huecos_okD(3) [OF hs nth_mem [OF i] h'] by auto
    ultimately show False
      using huecos_disjuntos [OF hs i j(1), of "?x - 1"] d h j by (auto simp: ocupa_def)
  qed
  then show ?thesis unfolding cubre_h_def by (rule suma_cero)
qed

text \<open>No hole and no segment other than those beyond the lowest hole holds the address after it.\<close>

lemma tras_primer_hueco:
  assumes p: "particion T hs st" and hs: "huecos_ok hs" and st: "segmentos_ok st"
    and i: "i < length hs" "\<forall>j < length hs. h_pos (hs ! i) \<le> h_pos (hs ! j)"
    and fin: "h_pos (hs ! i) + h_size (hs ! i) < T"
  obtains a s where "a < length st" "st ! a = Some s" "h_pos (hs ! i) < seg_base s"
    "seg_base s \<le> h_pos (hs ! i) + h_size (hs ! i)"
proof -
  let ?h = "hs ! i" and ?x = "h_pos (hs ! i) + h_size (hs ! i)"
  have h: "0 < h_size ?h" by (rule huecos_ok_nth [OF hs i(1)])
  have hr: "0 \<le> h_pos ?h" using particion_rango_hueco [OF p nth_mem [OF i(1)] h] by simp
  have "cubre_h hs ?x = 0" by (rule cubre_tras_hueco [OF hs i(1)])
  moreover have "cubre_h hs ?x + cubre_s st ?x = 1"
    using p h hr fin by (simp add: particion_def)
  ultimately have "cubre_s st ?x \<noteq> 0" by simp
  then obtain s where s: "Some s \<in> set st" "ocupa (seg_base s) (seg_limite s) ?x \<noteq> 0"
    unfolding cubre_s_def by (auto dest!: suma_no_cero split: option.splits)
  then have d: "seg_base s \<le> ?x" "?x < seg_base s + seg_limite s"
    by (auto simp: ocupa_def split: if_splits)
  have "h_pos ?h < seg_base s"
  proof (rule ccontr)
    assume "\<not> h_pos ?h < seg_base s"
    then have "ocupa (seg_base s) (seg_limite s) (h_pos ?h) = 1" using d h by (simp add: ocupa_def)
    moreover have "ocupa (h_pos ?h) (h_size ?h) (h_pos ?h) = 1" using h by (simp add: ocupa_def)
    ultimately show False
      using cubre_s_segmento [OF s(1), of "h_pos ?h"] particion_cubre [OF p, of "h_pos ?h"]
        cubre_h_hueco [OF nth_mem [OF i(1)], of "h_pos ?h"] by linarith
  qed
  moreover obtain a where "a < length st" "st ! a = Some s" using s(1) by (auto simp: in_set_conv_nth)
  ultimately show thesis using that d(1) by blast
qed

section \<open>One iteration\<close>

definition suma_bases :: "segmento option list \<Rightarrow> int" where
  "suma_bases st = suma (\<lambda>o'. case o' of None \<Rightarrow> 0 | Some s \<Rightarrow> seg_base s) st"

text \<open>
  What an iteration that moves a segment does: the segment directly behind the lowest hole
  slides to the start of the hole, and the hole moves behind it.
\<close>

definition desliza :: "memoria \<Rightarrow> memoria \<Rightarrow> nat \<Rightarrow> nat \<Rightarrow> segmento \<Rightarrow> bool" where
  "desliza m m' i a s \<longleftrightarrow>
     i < length (huecos_libres m) \<and> 0 < a \<and> a < length (segmentos m) \<and> segmentos m ! a = Some s \<and>
     seg_base s = h_pos (huecos_libres m ! i) + h_size (huecos_libres m ! i) \<and>
     (\<forall>j < length (huecos_libres m). h_pos (huecos_libres m ! i) \<le> h_pos (huecos_libres m ! j)) \<and>
     (\<exists>us.
        bind_res (memmove_area (user_space m) (h_pos (huecos_libres m ! i)) (seg_base s) (seg_limite s))
          (\<lambda>us. memset_area us (seg_base s) (CHR '' '') (seg_limite s)) = Inr us \<and>
        m' = realloc_segment (m\<lparr>user_space := us\<rparr>) a i)"

lemma en_area_mono: "length us' = length us \<Longrightarrow> en_area us' d n = en_area us d n"
  by (simp add: en_area_def)

lemma memmove_memset_total:
  assumes "en_area us d n" "en_area us b n" "0 \<le> n"
  obtains us' us'' where "memmove_area us d b n = Inr us'" "memset_area us' b c n = Inr us''"
    "length us'' = length us"
proof -
  obtain bs where bs: "leer_area us b n = Inr bs" using assms(2) by (auto simp: leer_area_def)
  have l: "int (length bs) = n" by (rule leer_area_length [OF bs])
  obtain us' where us': "escribir_area us d bs = Inr us'"
    using assms(1) l by - (rule area.escribir_total [of d bs us], simp_all add: en_area_def)
  have "length us' = length us" by (rule escribir_area_length [OF us'])
  then obtain us'' where us'': "escribir_area us' b (replicate (nat n) c) = Inr us''"
    using assms(2,3) by - (rule area.escribir_total [of b "replicate (nat n) c" us'], simp_all add: en_area_def)
  show thesis
  proof (rule that [of us' us''])
    show "memmove_area us d b n = Inr us'" using bs us' by (simp add: memmove_area_def)
    show "memset_area us' b c n = Inr us''" using us'' assms(3) by (simp add: memset_area_def)
    show "length us'' = length us"
      using escribir_area_length [OF us'] escribir_area_length [OF us''] by simp
  qed
qed

lemma compactar_paso_casos:
  assumes cm: "commons_ok cm" and ok: "mem_ok cfg m" and hs: "huecos_libres m \<noteq> []"
    and tg: "vivos (segmentos m) \<subseteq> set tg" "set tg \<subseteq> insert 0 (vivos (segmentos m))"
  obtains
    (fin) "compactar_paso cm tg m = Inr None"
      "\<forall>a \<in> vivos (segmentos m). base_en (segmentos m) a
         \<le> h_pos (huecos_libres m ! primer_hueco cm (huecos_libres m))"
  | (mueve) m' a s where "compactar_paso cm tg m = Inr (Some m')"
      "desliza m m' (primer_hueco cm (huecos_libres m)) a s"
proof -
  note D = mem_okD [OF ok]
  let ?hs = "huecos_libres m" and ?st = "segmentos m"
  define i where "i = primer_hueco cm ?hs"
  have i: "i < length ?hs" "\<forall>j < length ?hs. h_pos (?hs ! i) \<le> h_pos (?hs ! j)"
    using primer_hueco_minimo [OF cm hs] by (simp_all add: i_def)
  obtain s0 st' where s0: "?st = Some s0 # st'" "seg_base s0 = 0"
    using D(3) by (auto simp: segmentos_ok_def)
  have h: "0 < h_size (?hs ! i)" by (rule huecos_ok_nth [OF D(2) i(1)])
  have hr: "0 \<le> h_pos (?hs ! i)" "h_pos (?hs ! i) + h_size (?hs ! i) \<le> TAM_MEMORIA cfg"
    using particion_rango_hueco [OF D(4) nth_mem [OF i(1)] h] by simp_all
  have "leer_tabla ?st tg = Inr (map (\<lambda>a. the (?st ! a)) tg)"
    using tg(2) s0(1) by (intro leer_tabla_vivos) (auto simp: vivos_def)
  then have paso: "compactar_paso cm tg m =
    (let utiles = filter (\<lambda>a. base_en ?st a > h_pos (?hs ! i)) tg
     in if utiles = [] then Inr None
        else let a = list_get_minimum cm (menor_por (base_en ?st)) utiles; s = the (?st ! a)
          in bind_res (memmove_area (user_space m) (h_pos (?hs ! i)) (seg_base s) (seg_limite s)) (\<lambda>us.
             bind_res (memset_area us (seg_base s) (CHR '' '') (seg_limite s)) (\<lambda>us'.
               Inr (Some (realloc_segment (m\<lparr>user_space := us'\<rparr>) a i)))))"
    using hs by (simp add: compactar_paso_def i_def Let_def)
  let ?u = "filter (\<lambda>a. base_en ?st a > h_pos (?hs ! i)) tg"
  show thesis
  proof (cases "?u = []")
    case True
    then show thesis using tg(1) by (intro fin) (auto simp: paso filter_empty_conv i_def not_less)
  next
    case False
    define a where "a = list_get_minimum cm (menor_por (base_en ?st)) ?u"
    have au: "a \<in> set ?u" unfolding a_def by (rule list_get_minimum_in [OF cm False])
    have min: "base_en ?st a \<le> base_en ?st b" if "b \<in> set ?u" for b
      unfolding a_def by (rule list_get_minimum_le [OF cm that])
    have "a \<noteq> 0"
    proof
      assume "a = 0"
      then have "base_en ?st a = 0" using s0 by (simp add: base_en_def)
      then show False using au hr(1) by simp
    qed
    then have av: "a \<in> vivos ?st" using au tg(2) by auto
    then obtain s where a: "0 < a" "a < length ?st" "?st ! a = Some s" using vivosD by blast
    have s: "Some s \<in> set ?st" using nth_mem [OF a(2)] a(3) by simp
    have l: "0 < seg_limite s" using D(3) s by (simp add: segmentos_ok_def)
    have sr: "0 \<le> seg_base s" "seg_base s + seg_limite s \<le> TAM_MEMORIA cfg"
      using particion_rango_segmento [OF D(4) s l] by simp_all
    have mayor: "h_pos (?hs ! i) < seg_base s" using au a(3) by (simp add: base_en_def)
    have ge: "h_pos (?hs ! i) + h_size (?hs ! i) \<le> seg_base s"
    proof (rule ccontr)
      assume "\<not> ?thesis"
      then have "ocupa (h_pos (?hs ! i)) (h_size (?hs ! i)) (seg_base s) = 1"
        using mayor by (simp add: ocupa_def)
      moreover have "ocupa (seg_base s) (seg_limite s) (seg_base s) = 1" using l by (simp add: ocupa_def)
      ultimately show False
        using cubre_s_segmento [OF s, of "seg_base s"] particion_cubre [OF D(4), of "seg_base s"]
          cubre_h_hueco [OF nth_mem [OF i(1)], of "seg_base s"] by linarith
    qed
    have "h_pos (?hs ! i) + h_size (?hs ! i) < TAM_MEMORIA cfg" using ge sr(2) l by linarith
    then obtain b s' where b: "b < length ?st" "?st ! b = Some s'" "h_pos (?hs ! i) < seg_base s'"
      "seg_base s' \<le> h_pos (?hs ! i) + h_size (?hs ! i)"
      by (rule tras_primer_hueco [OF D(4,2,3) i])
    have "b \<noteq> 0" using b(2,3) hr(1) s0 by (cases b) auto
    then have "b \<in> set ?u" using b tg(1) by (auto simp: vivos_def base_en_def)
    from min [OF this] have base: "seg_base s = h_pos (?hs ! i) + h_size (?hs ! i)"
      using ge a(3) b(2,4) by (simp add: base_en_def)
    have tam: "int (length (user_space m)) = TAM_MEMORIA cfg" by (rule D(1))
    obtain us us' where us: "memmove_area (user_space m) (h_pos (?hs ! i)) (seg_base s) (seg_limite s) = Inr us"
      "memset_area us (seg_base s) (CHR '' '') (seg_limite s) = Inr us'"
      "length us' = length (user_space m)"
      by (rule memmove_memset_total [of "user_space m" "h_pos (?hs ! i)" "seg_limite s" "seg_base s"
            "CHR '' ''"]) (use l sr hr(1) base h tam in \<open>auto simp: en_area_def\<close>)
    let ?m' = "realloc_segment (m\<lparr>user_space := us'\<rparr>) a i"
    have "compactar_paso cm tg m = Inr (Some ?m')"
      using False a(3) us(1,2) by (simp add: paso a_def [symmetric])
    moreover have "desliza m ?m' i a s"
      using a base i us(1,2) by (simp add: desliza_def realloc_segment_def Let_def)
    ultimately show thesis by (intro mueve) (simp_all add: i_def)
  qed
qed

lemma deslizaD:
  assumes "desliza m m' i a s"
  shows "i < length (huecos_libres m)" "0 < a" "a < length (segmentos m)" "segmentos m ! a = Some s"
    "seg_base s = h_pos (huecos_libres m ! i) + h_size (huecos_libres m ! i)"
    "segmentos m' = (segmentos m)[a := Some (s\<lparr>seg_base := h_pos (huecos_libres m ! i)\<rparr>)]"
    "huecos_libres m' = alojar_nuevo_hueco (remove_nth i (huecos_libres m))
       (h_pos (huecos_libres m ! i) + seg_limite s) (h_size (huecos_libres m ! i))"
    "diccionario_tablas m' = diccionario_tablas m" "tabla_inicial m' = tabla_inicial m"
    "bind_res (memmove_area (user_space m) (h_pos (huecos_libres m ! i)) (seg_base s) (seg_limite s))
       (\<lambda>us. memset_area us (seg_base s) (CHR '' '') (seg_limite s)) = Inr (user_space m')"
    "j < length (huecos_libres m) \<Longrightarrow> h_pos (huecos_libres m ! i) \<le> h_pos (huecos_libres m ! j)"
proof -
  from assms obtain us where us: "bind_res (memmove_area (user_space m) (h_pos (huecos_libres m ! i))
        (seg_base s) (seg_limite s)) (\<lambda>us. memset_area us (seg_base s) (CHR '' '') (seg_limite s)) = Inr us"
    and m': "m' = realloc_segment (m\<lparr>user_space := us\<rparr>) a i"
    unfolding desliza_def by blast
  have a: "segmentos m ! a = Some s" using assms by (simp add: desliza_def)
  show "segmentos m' = (segmentos m)[a := Some (s\<lparr>seg_base := h_pos (huecos_libres m ! i)\<rparr>)]"
    "huecos_libres m' = alojar_nuevo_hueco (remove_nth i (huecos_libres m))
       (h_pos (huecos_libres m ! i) + seg_limite s) (h_size (huecos_libres m ! i))"
    "diccionario_tablas m' = diccionario_tablas m" "tabla_inicial m' = tabla_inicial m"
    "bind_res (memmove_area (user_space m) (h_pos (huecos_libres m ! i)) (seg_base s) (seg_limite s))
       (\<lambda>us. memset_area us (seg_base s) (CHR '' '') (seg_limite s)) = Inr (user_space m')"
    unfolding m' realloc_segment_def by (simp_all add: a us Let_def)
qed (use assms in \<open>simp_all add: desliza_def\<close>)

lemma desliza_ocupa:
  assumes d: "desliza m m' i a s" and "0 \<le> seg_limite s" "0 \<le> h_size (huecos_libres m ! i)"
  shows "ocupa (h_pos (huecos_libres m ! i)) (h_size (huecos_libres m ! i)) x
           + ocupa (seg_base s) (seg_limite s) x
         = ocupa (h_pos (huecos_libres m ! i)) (seg_limite s) x
           + ocupa (h_pos (huecos_libres m ! i) + seg_limite s) (h_size (huecos_libres m ! i)) x"
  using assms(2,3) unfolding deslizaD(5) [OF d] by (auto simp: ocupa_def)

lemma desliza_ok:
  assumes d: "desliza m m' i a s" and ok: "mem_ok cfg m"
  shows "mem_ok cfg m'" "suma_bases (segmentos m') < suma_bases (segmentos m)"
    "vivos (segmentos m') = vivos (segmentos m)" "huecos_libres m' \<noteq> []"
    "cubre_h (huecos_libres m') x = cubre_h (huecos_libres m) x
       - ocupa (h_pos (huecos_libres m ! i)) (h_size (huecos_libres m ! i)) x
       + ocupa (h_pos (huecos_libres m ! i) + seg_limite s) (h_size (huecos_libres m ! i)) x"
proof -
  note D = mem_okD [OF ok] and E = deslizaD [OF d]
  let ?h = "huecos_libres m ! i"
  let ?q = "h_pos ?h + seg_limite s"
  have h: "0 < h_size ?h" by (rule huecos_ok_nth [OF D(2) E(1)])
  have s: "Some s \<in> set (segmentos m)" using nth_mem [OF E(3)] E(4) by simp
  have l: "0 < seg_limite s" using D(3) s by (simp add: segmentos_ok_def)
  note eq = desliza_ocupa [OF d less_imp_le [OF l] less_imp_le [OF h]]
  have q: "cubre_h (remove_nth i (huecos_libres m)) x
      = cubre_h (huecos_libres m) x - ocupa (h_pos ?h) (h_size ?h) x" for x
    by (simp add: cubre_h_def suma_remove_nth E(1))
  have r: "huecos_ok (remove_nth i (huecos_libres m))" by (rule huecos_ok_remove [OF D(2) E(1)])
  have le: "cubre_h (remove_nth i (huecos_libres m)) x + ocupa ?q (h_size ?h) x \<le> 1" for x
    using eq [of x] cubre_s_segmento [OF s, of x] particion_cubre [OF D(4), of x]
      ocupa_nonneg [of "h_pos ?h" "seg_limite s" x] unfolding q by linarith
  have hs': "huecos_ok (huecos_libres m')" unfolding E(7) by (rule huecos_ok_alojar [OF r h le])
  have cub: "cubre_h (huecos_libres m') x
      = cubre_h (huecos_libres m) x - ocupa (h_pos ?h) (h_size ?h) x + ocupa ?q (h_size ?h) x" for x
    unfolding E(7) cubre_alojar [OF r h] q by simp
  then show "cubre_h (huecos_libres m') x
      = cubre_h (huecos_libres m) x - ocupa (h_pos ?h) (h_size ?h) x + ocupa ?q (h_size ?h) x" .
  have par: "particion (TAM_MEMORIA cfg) (huecos_libres m') (segmentos m')"
    unfolding particion_def
  proof
    fix x
    have "cubre_s (segmentos m') x
        = cubre_s (segmentos m) x - ocupa (seg_base s) (seg_limite s) x + ocupa (h_pos ?h) (seg_limite s) x"
      unfolding E(6) by (simp add: cubre_s_update [OF E(3,4)])
    then show "cubre_h (huecos_libres m') x + cubre_s (segmentos m') x
        = (if 0 \<le> x \<and> x < TAM_MEMORIA cfg then 1 else 0)"
      using cub [of x] eq [of x] D(4) [unfolded particion_def, rule_format, of x] by linarith
  qed
  show v: "vivos (segmentos m') = vivos (segmentos m)"
    unfolding E(6) using E(3,4) by (intro vivos_update_Some) simp_all
  obtain b where b: "a = Suc b" using E(2) by (cases a) auto
  have seg: "segmentos_ok (segmentos m')"
    using D(3) s unfolding E(6) b by (auto simp: segmentos_ok_def dest!: en_update)
  have tab: "tablas_ok (diccionario_tablas m') [] (segmentos m')"
    using D(6) unfolding E(8) by (simp add: tablas_ok_def v)
  have "length (user_space m') = length (user_space m)"
    using E(10) by (auto simp: bind_res_Inr_iff memmove_area_def memset_area_def
        dest!: escribir_area_length split: if_splits)
  then show "mem_ok cfg m'"
    using D hs' par seg tab E(9) by (simp add: mem_ok_def mem_ok_con_def)
  show "suma_bases (segmentos m') < suma_bases (segmentos m)"
    using h unfolding E(6) by (simp add: suma_bases_def suma_update E(3,4,5))
  have "0 \<le> suma h_size (remove_nth i (huecos_libres m))"
    using huecos_okD(1) [OF r] by (intro suma_nonneg) (blast intro: less_imp_le)
  then have "suma h_size (huecos_libres m') \<noteq> 0"
    unfolding E(7) suma_alojar [OF r h] using h by simp
  then show "huecos_libres m' \<noteq> []" by auto
qed

section \<open>The loop ends\<close>

lemma suma_bases_nonneg:
  assumes "particion T hs st" "segmentos_ok st"
  shows "0 \<le> suma_bases st"
  unfolding suma_bases_def
  using particion_rango_segmento [OF assms(1)] assms(2)
  by (intro suma_nonneg) (auto simp: segmentos_ok_def split: option.split)

text \<open>
  Whatever holds at the start and is kept by every iteration holds at the end, and the loop
  ends, with no segment beyond the lowest hole.
\<close>

lemma compactar_bucle_invariante:
  assumes cm: "commons_ok cm" and "mem_ok cfg m" and "huecos_libres m \<noteq> []"
    and "vivos (segmentos m) \<subseteq> set tg" "set tg \<subseteq> insert 0 (vivos (segmentos m))"
    and "P m" and paso: "\<And>m m' i a s. mem_ok cfg m \<Longrightarrow> P m \<Longrightarrow> desliza m m' i a s \<Longrightarrow> P m'"
  shows "\<exists>m'. compactar_bucle cm tg m = Some (Inr m') \<and> mem_ok cfg m' \<and> P m' \<and> huecos_libres m' \<noteq> [] \<and>
    (\<forall>a \<in> vivos (segmentos m'). base_en (segmentos m') a
         \<le> h_pos (huecos_libres m' ! primer_hueco cm (huecos_libres m')))"
  using assms(2-6)
proof (induction "nat (suma_bases (segmentos m))" arbitrary: m rule: less_induct)
  case less
  note D = mem_okD [OF less.prems(1)]
  show ?case
  proof (cases rule: compactar_paso_casos [OF cm less.prems(1-4)])
    case 1
    then show ?thesis
      using less.prems by (subst compactar_bucle.simps) (auto intro!: exI [of _ m])
  next
    case (2 m' a s)
    note E = desliza_ok [OF 2(2) less.prems(1)]
    have "nat (suma_bases (segmentos m')) < nat (suma_bases (segmentos m))"
      using E(2) suma_bases_nonneg [OF D(4,3)]
        suma_bases_nonneg [OF mem_okD(4) [OF E(1)] mem_okD(3) [OF E(1)]] by linarith
    from less.hyps [OF this E(1,4)] less.prems(3,4) paso [OF less.prems(1,5) 2(2)]
    show ?thesis by (subst compactar_bucle.simps) (simp add: 2(1) E(3))
  qed
qed

text \<open>At the end there is one hole, at the top of the memory.\<close>

lemma hueco_final:
  assumes cm: "commons_ok cm" and ok: "mem_ok cfg m" and hs: "huecos_libres m \<noteq> []"
    and fin: "\<forall>a \<in> vivos (segmentos m). base_en (segmentos m) a
         \<le> h_pos (huecos_libres m ! primer_hueco cm (huecos_libres m))"
  shows "huecos_libres m = [\<lparr>h_pos = TAM_MEMORIA cfg - suma h_size (huecos_libres m),
                            h_size = suma h_size (huecos_libres m)\<rparr>]"
proof -
  note D = mem_okD [OF ok]
  let ?hs = "huecos_libres m"
  define i where "i = primer_hueco cm ?hs"
  have i: "i < length ?hs" "\<forall>j < length ?hs. h_pos (?hs ! i) \<le> h_pos (?hs ! j)"
    using primer_hueco_minimo [OF cm hs] by (simp_all add: i_def)
  have h: "0 < h_size (?hs ! i)" by (rule huecos_ok_nth [OF D(2) i(1)])
  obtain s0 st' where s0: "segmentos m = Some s0 # st'" "seg_base s0 = 0"
    using D(3) by (auto simp: segmentos_ok_def)
  have hr: "0 \<le> h_pos (?hs ! i)" "h_pos (?hs ! i) + h_size (?hs ! i) \<le> TAM_MEMORIA cfg"
    using particion_rango_hueco [OF D(4) nth_mem [OF i(1)] h] by simp_all
  have T: "h_pos (?hs ! i) + h_size (?hs ! i) = TAM_MEMORIA cfg"
  proof (rule ccontr)
    assume "\<not> ?thesis"
    with hr have "h_pos (?hs ! i) + h_size (?hs ! i) < TAM_MEMORIA cfg" by simp
    then obtain b s' where b: "b < length (segmentos m)" "segmentos m ! b = Some s'"
      "h_pos (?hs ! i) < seg_base s'"
      by (rule tras_primer_hueco [OF D(4,2,3) i])
    have "b \<noteq> 0" using b(2,3) hr(1) s0 by (cases b) auto
    then have "b \<in> vivos (segmentos m)" using b by (simp add: vivos_def)
    with fin b(2,3) show False by (auto simp: base_en_def i_def [symmetric])
  qed
  have "j = i" if j: "j < length ?hs" for j
  proof (rule ccontr)
    assume "j \<noteq> i"
    have hj: "0 < h_size (?hs ! j)" by (rule huecos_ok_nth [OF D(2) j])
    then have "h_pos (?hs ! j) + h_size (?hs ! j) \<le> TAM_MEMORIA cfg"
      using particion_rango_hueco [OF D(4) nth_mem [OF j]] by simp
    then show False
      using huecos_disjuntos [OF D(2) j i(1) \<open>j \<noteq> i\<close>, of "h_pos (?hs ! j)"] i(2) j T hj
      by (auto simp: ocupa_def)
  qed
  then have "length ?hs = 1" using i(1) hs
    by (metis One_nat_def Suc_lessI length_greater_0_conv less_numeral_extra(1) nat_neq_iff)
  then obtain h' where h': "?hs = [h']" by (auto simp: length_Suc_conv)
  then show ?thesis using T i(1) by (cases h') auto
qed

section \<open>What compaction keeps\<close>

text \<open>Identity and size of every block of the store.\<close>

definition perfil :: "segmento option list \<Rightarrow> (int \<times> int) option list" where
  "perfil st = map (map_option (\<lambda>s. (seg_ID s, seg_limite s))) st"

lemma perfil_desliza:
  assumes "desliza m m' i a s"
  shows "perfil (segmentos m') = perfil (segmentos m)"
  using deslizaD(3,4,6) [OF assms]
  by (simp add: perfil_def map_update list_update_same_conv)

lemma suma_ocupado_perfil: "ocupado st = suma (\<lambda>e. case e of None \<Rightarrow> 0 | Some (_, l) \<Rightarrow> l) (perfil st)"
  by (simp add: ocupado_def perfil_def suma_def comp_def option.case_eq_if option.map_sel
      cong: if_cong)

lemma perfil_tabla:
  assumes ok: "mem_ok cfg m" and p: "perfil (segmentos m') = perfil (segmentos m)"
    and d: "diccionario_tablas m' = diccionario_tablas m"
  shows "map (\<lambda>s. (seg_ID s, seg_limite s)) (tabla_de m' k)
         = map (\<lambda>s. (seg_ID s, seg_limite s)) (tabla_de m k)"
proof (cases "dictionary_get (diccionario_tablas m) k")
  case (Some t)
  note D = mem_okD [OF ok]
  obtain r where r: "t = 0 # r" "set r \<subseteq> vivos (segmentos m)" by (rule tablas_ok_tabla [OF D(6) Some])
  have l: "length (segmentos m') = length (segmentos m)"
    using arg_cong [OF p, of length] by (simp add: perfil_def)
  have "(seg_ID (the (segmentos m' ! a)), seg_limite (the (segmentos m' ! a)))
        = (seg_ID (the (segmentos m ! a)), seg_limite (the (segmentos m ! a)))" if a: "a \<in> set t" for a
  proof -
    have a': "a < length (segmentos m)" "segmentos m ! a \<noteq> None"
      using a r D(3) by (auto simp: segmentos_ok_def vivos_def)
    then have "perfil (segmentos m') ! a = perfil (segmentos m) ! a" using p by simp
    then show ?thesis using a' l by (auto simp: perfil_def)
  qed
  then show ?thesis using Some d by (simp add: tabla_de_def)
qed (simp add: tabla_de_def d)

lemma compactar_bucle_ok:
  assumes cm: "commons_ok cm" and ok: "mem_ok cfg m" and hs: "huecos_libres m \<noteq> []"
  obtains m' where "compactar_bucle cm (tabla_global cm m) m = Some (Inr m')" "mem_ok cfg m'"
    "diccionario_tablas m' = diccionario_tablas m" "perfil (segmentos m') = perfil (segmentos m)"
    "huecos_libres m' = [\<lparr>h_pos = TAM_MEMORIA cfg - suma h_size (huecos_libres m),
                          h_size = suma h_size (huecos_libres m)\<rparr>]"
proof -
  let ?P = "\<lambda>m1. diccionario_tablas m1 = diccionario_tablas m \<and> perfil (segmentos m1) = perfil (segmentos m)"
  have "\<exists>m'. compactar_bucle cm (tabla_global cm m) m = Some (Inr m') \<and> mem_ok cfg m' \<and> ?P m' \<and>
    huecos_libres m' \<noteq> [] \<and> (\<forall>a \<in> vivos (segmentos m'). base_en (segmentos m') a
         \<le> h_pos (huecos_libres m' ! primer_hueco cm (huecos_libres m')))"
  proof (rule compactar_bucle_invariante [OF cm ok hs set_tabla_global [OF cm ok]])
    fix m1 m2 i a s
    assume "?P m1" "desliza m1 m2 i a s"
    then show "?P m2" using perfil_desliza deslizaD(8) by metis
  qed simp
  then obtain m' where m': "compactar_bucle cm (tabla_global cm m) m = Some (Inr m')" "mem_ok cfg m'"
    "?P m'" "huecos_libres m' \<noteq> []"
    "\<forall>a \<in> vivos (segmentos m'). base_en (segmentos m') a
         \<le> h_pos (huecos_libres m' ! primer_hueco cm (huecos_libres m'))" by blast
  have T: "0 \<le> TAM_MEMORIA cfg" using mem_okD(1) [OF ok] by simp
  have "ocupado (segmentos m') = ocupado (segmentos m)" using m'(3) by (simp add: suma_ocupado_perfil)
  then have "suma h_size (huecos_libres m') = suma h_size (huecos_libres m)"
    using particion_total [OF mem_okD(4) [OF ok] mem_okD(2) [OF ok] mem_okD(3) [OF ok] T]
      particion_total [OF mem_okD(4) [OF m'(2)] mem_okD(2) [OF m'(2)] mem_okD(3) [OF m'(2)] T] by simp
  then have "huecos_libres m' = [\<lparr>h_pos = TAM_MEMORIA cfg - suma h_size (huecos_libres m),
                          h_size = suma h_size (huecos_libres m)\<rparr>]"
    using hueco_final [OF cm m'(2,4,5)] by simp
  then show thesis using that m'(1-3) by simp
qed

section \<open>The tables sent back\<close>

text \<open>The bytes of one entry: the process identifier and its table.\<close>

definition enc_entrada :: "int \<times> segmento list \<Rightarrow> byte list" where
  "enc_entrada e = enc_int (fst e) @ enc_int (int (length (snd e))) @ concat (map enc_segmento (snd e))"

lemma empaquetar_tablas_ok:
  assumes ok: "mem_ok cfg m" and "\<forall>k \<in> set ks. dictionary_get (diccionario_tablas m) k \<noteq> None"
    and "paq_ok p"
  shows "\<exists>p'. empaquetar_tablas m p ks = Inr p' \<and> paq_ok p' \<and> codigo_operacion p' = codigo_operacion p \<and>
     stream p' = stream p @ concat (map (\<lambda>k. enc_entrada (atoi k, tabla_de m k)) ks)"
  using assms(2,3)
proof (induction ks arbitrary: p)
  case (Cons k ks)
  then obtain t where t: "dictionary_get (diccionario_tablas m) k = Some t" by auto
  have leer: "leer_tabla (segmentos m) t = Inr (tabla_de m k)"
    using tablas_ok_leer [OF mem_okD(6,3) [OF ok] t] by (simp add: tabla_de_def t)
  let ?p = "empaquetar_lista_segmentos (anexar p (enc_int (atoi k))) (tabla_de m k)"
  have "paq_ok ?p" using Cons.prems(2) by (simp add: wire_simps)
  from Cons.IH [OF _ this] Cons.prems show ?case
    by (auto simp: t leer wire_simps enc_entrada_def)
qed simp

lemma enviar_tablas_ok:
  assumes cm: "commons_ok cm" and ok: "mem_ok cfg m"
  shows "\<exists>ks. mset ks = mset (map fst (diccionario_tablas m)) \<and>
     enviar_tablas_actualizadas cm m = Inr
       (let b = enc_int (int (length ks)) @ concat (map (\<lambda>k. enc_entrada (atoi k, tabla_de m k)) ks)
        in enc_int (op_num PAQUETE) @ enc_int (int (length b)) @ b)"
proof -
  let ?d = "diccionario_tablas m"
  let ?ks = "map fst (dictionary_orden cm ?d)"
  have ks: "mset ?ks = mset (map fst ?d)"
    using mset_dictionary_orden [OF cm, of ?d] by simp
  then have l: "length ?ks = length ?d" by (metis length_map mset_eq_length)
  have "set ?ks = set (map fst ?d)" using mset_eq_setD [OF ks] .
  then have k: "\<forall>k \<in> set ?ks. dictionary_get ?d k \<noteq> None"
    by (simp add: dictionary_get_def map_of_eq_None_iff)
  let ?p = "anexar crear_paquete (enc_int (int (length ?d)))"
  obtain p' where p': "empaquetar_tablas m ?p ?ks = Inr p'" "paq_ok p'"
    "codigo_operacion p' = codigo_operacion ?p"
    "stream p' = stream ?p @ concat (map (\<lambda>k. enc_entrada (atoi k, tabla_de m k)) ?ks)"
    using empaquetar_tablas_ok [OF ok k, of ?p] by auto
  have c: "codigo_operacion ?p = op_num PAQUETE" "stream ?p = enc_int (int (length ?ks))"
    unfolding l by (simp_all add: wire_simps crear_paquete_def anexar_def)
  show ?thesis
    by (intro exI [of _ ?ks])
      (use ks p' c in \<open>simp add: enviar_tablas_actualizadas_def enviar_paquete_def wire_simps Let_def\<close>)
qed

section \<open>What compaction does to the contents\<close>

definition contenido :: "memoria \<Rightarrow> nat \<Rightarrow> byte list res" where
  "contenido m a = leer_area (user_space m) (base_en (segmentos m) a) (seg_limite (the (segmentos m ! a)))"

text \<open>
  The moved segment keeps its first bytes, as many as the hole it jumps over has; the
  \<open>memset\<close> after the \<open>memmove\<close> blanks the others. Every other segment keeps all of them.
\<close>

lemma desliza_datos:
  assumes d: "desliza m m' i a s" and ok: "mem_ok cfg m"
  shows "contenido m a = Inr bs \<Longrightarrow> contenido m' a =
      Inr (take (nat (h_size (huecos_libres m ! i))) bs
           @ replicate (length bs - nat (h_size (huecos_libres m ! i))) (CHR '' ''))"
    and "b < length (segmentos m) \<Longrightarrow> segmentos m ! b \<noteq> None \<Longrightarrow> b \<noteq> a \<Longrightarrow> contenido m' b = contenido m b"
proof -
  note D = mem_okD [OF ok] and E = deslizaD [OF d]
  let ?h = "huecos_libres m ! i"
  have h: "0 < h_size ?h" by (rule huecos_ok_nth [OF D(2) E(1)])
  have s: "Some s \<in> set (segmentos m)" using nth_mem [OF E(3)] E(4) by simp
  have l: "0 < seg_limite s" using D(3) s by (simp add: segmentos_ok_def)
  have hr: "0 \<le> h_pos ?h" using particion_rango_hueco [OF D(4) nth_mem [OF E(1)] h] by simp
  obtain us where us: "memmove_area (user_space m) (h_pos ?h) (seg_base s) (seg_limite s) = Inr us"
    "memset_area us (seg_base s) (CHR '' '') (seg_limite s) = Inr (user_space m')"
    using E(10) by (auto simp: bind_res_Inr_iff)
  obtain q g l' where q: "h_pos ?h = int q" and g: "h_size ?h = int g" and l': "seg_limite s = int l'"
    using nonneg_int_cases [OF hr] nonneg_int_cases [OF less_imp_le [OF h]]
      nonneg_int_cases [OF less_imp_le [OF l]] by metis
  have n: "h_pos ?h = int q" "h_size ?h = int g" "seg_limite s = int l'" "seg_base s = int (q + g)"
    using E(5) by (simp_all add: q g l')
  {
    assume "contenido m a = Inr bs"
    then have bs: "leer_area (user_space m) (int (q + g)) (int l') = Inr bs"
      by (simp only: contenido_def base_en_def E(4) option.sel n)
    have lb: "length bs = l'" using leer_area_length [OF bs] by simp
    have "segmentos m' ! a = Some (s\<lparr>seg_base := int q\<rparr>)" using E(3) by (simp add: E(6) n(1))
    then have "contenido m' a = leer_area (user_space m') (int q) (int l')"
      by (simp add: contenido_def base_en_def n(3) del: leer_area_int)
    with deslizar_area [OF us(1) [unfolded n] us(2) [unfolded n] bs]
    show "contenido m' a = Inr (take (nat (h_size ?h)) bs
           @ replicate (length bs - nat (h_size ?h)) (CHR '' ''))"
      by (simp add: lb n(2) del: leer_area_int)
  next
    assume b: "b < length (segmentos m)" "segmentos m ! b \<noteq> None" "b \<noteq> a"
    then obtain s' where s': "segmentos m ! b = Some s'" by blast
    have s'm: "Some s' \<in> set (segmentos m)" using nth_mem [OF b(1)] s' by simp
    have l': "0 < seg_limite s'" using D(3) s'm by (simp add: segmentos_ok_def)
    have "seg_base s' + seg_limite s' \<le> seg_base s \<or> seg_base s + seg_limite s \<le> seg_base s'"
      by (rule segmentos_disjuntos [OF D(4) b(1) s' E(3,4) b(3) l' l])
    moreover have "seg_base s' + seg_limite s' \<le> h_pos ?h \<or> h_pos ?h + h_size ?h \<le> seg_base s'"
      by (rule segmento_hueco_disjuntos [OF D(4) s'm nth_mem [OF E(1)] l' h])
    ultimately have "leer_area (user_space m') (seg_base s') (seg_limite s')
        = leer_area (user_space m) (seg_base s') (seg_limite s')"
      using E(5) l l' h by (intro deslizar_area_otro [OF us]) linarith+
    moreover have "segmentos m' ! b = Some s'" using b(3) s' by (simp add: E(6))
    ultimately show "contenido m' b = contenido m b"
      by (simp add: contenido_def base_en_def s')
  }
qed

text \<open>The free addresses start at \<open>p\<close>, and at least \<open>g\<close> of them follow.\<close>

definition libre_desde :: "hueco list \<Rightarrow> int \<Rightarrow> int \<Rightarrow> bool" where
  "libre_desde hs p g \<longleftrightarrow> (\<forall>x < p. cubre_h hs x = 0) \<and> (\<forall>x. p \<le> x \<and> x < p + g \<longrightarrow> cubre_h hs x = 1)"

lemma libre_desde_hueco:
  assumes hs: "huecos_ok hs" and i: "i < length hs" "\<And>j. j < length hs \<Longrightarrow> h_pos (hs ! i) \<le> h_pos (hs ! j)"
    and lib: "libre_desde hs p g" and g: "0 < g"
  shows "h_pos (hs ! i) = p" and "g \<le> h_size (hs ! i)"
proof -
  have h: "0 < h_size (hs ! i)" by (rule huecos_ok_nth [OF hs i(1)])
  have "cubre_h hs p = 1" using lib g by (simp add: libre_desde_def)
  then obtain h' where h': "h' \<in> set hs" "ocupa (h_pos h') (h_size h') p \<noteq> 0"
    using suma_no_cero [of "\<lambda>h. ocupa (h_pos h) (h_size h) p" hs] by (auto simp: cubre_h_def)
  then have "h_pos (hs ! i) \<le> p" using i(2)
    by (auto simp: in_set_conv_nth ocupa_def split: if_splits intro: order_trans)
  moreover have "p \<le> h_pos (hs ! i)"
  proof (rule ccontr)
    assume "\<not> p \<le> h_pos (hs ! i)"
    then have "cubre_h hs (h_pos (hs ! i)) = 0" using lib by (simp add: libre_desde_def)
    then show False
      using cubre_h_hueco [OF nth_mem [OF i(1)], of "h_pos (hs ! i)"] h by (simp add: ocupa_inicio)
  qed
  ultimately show p: "h_pos (hs ! i) = p" by simp
  show "g \<le> h_size (hs ! i)"
  proof (rule ccontr)
    assume "\<not> ?thesis"
    then have "cubre_h hs (h_pos (hs ! i) + h_size (hs ! i)) = 1"
      using lib h p by (simp add: libre_desde_def)
    then show False using cubre_tras_hueco [OF hs i(1)] by simp
  qed
qed

definition cabe_en :: "int \<Rightarrow> memoria \<Rightarrow> bool" where
  "cabe_en g m \<longleftrightarrow> (\<exists>p. libre_desde (huecos_libres m) p g \<and>
     (\<forall>a \<in> vivos (segmentos m). p < base_en (segmentos m) a \<longrightarrow> seg_limite (the (segmentos m ! a)) \<le> g))"

lemma cabe_desliza:
  assumes d: "desliza m m' i a s" and ok: "mem_ok cfg m" and c: "cabe_en g m" and g: "0 < g"
  shows "cabe_en g m'" "seg_limite s \<le> h_size (huecos_libres m ! i)"
proof -
  note D = mem_okD [OF ok] and E = deslizaD [OF d] and F = desliza_ok [OF d ok]
  let ?h = "huecos_libres m ! i"
  have h: "0 < h_size ?h" by (rule huecos_ok_nth [OF D(2) E(1)])
  have s: "Some s \<in> set (segmentos m)" using nth_mem [OF E(3)] E(4) by simp
  have l: "0 < seg_limite s" using D(3) s by (simp add: segmentos_ok_def)
  obtain p where lib: "libre_desde (huecos_libres m) p g"
    and lim: "\<forall>a \<in> vivos (segmentos m). p < base_en (segmentos m) a \<longrightarrow> seg_limite (the (segmentos m ! a)) \<le> g"
    using c by (auto simp: cabe_en_def)
  have p: "h_pos ?h = p" and gh: "g \<le> h_size ?h"
    using libre_desde_hueco [OF D(2) E(1) E(11) lib g] by simp_all
  have a: "a \<in> vivos (segmentos m)" using E(2,3,4) by (simp add: vivos_def)
  then have "seg_limite s \<le> g" using lim E(4,5) p h by (auto simp: base_en_def)
  then show "seg_limite s \<le> h_size ?h" using gh by simp
  have cub: "cubre_h (huecos_libres m') x = cubre_h (huecos_libres m) x - ocupa p (h_size ?h) x
       + ocupa (p + seg_limite s) (h_size ?h) x" for x
    using F(5) [of x] by (simp add: p)
  have "libre_desde (huecos_libres m') (p + seg_limite s) g"
    unfolding libre_desde_def
  proof (intro conjI allI impI)
    fix x assume x: "x < p + seg_limite s"
    show "cubre_h (huecos_libres m') x = 0"
    proof (cases "x < p + h_size ?h")
      case True
      have "cubre_h (huecos_libres m) x = ocupa p (h_size ?h) x"
      proof (cases "x < p")
        case True
        then show ?thesis using lib by (simp add: libre_desde_def ocupa_def)
      next
        case False
        then have "ocupa p (h_size ?h) x = 1" using \<open>x < p + h_size ?h\<close> by (simp add: ocupa_def)
        then show ?thesis
          using cubre_h_hueco [OF nth_mem [OF E(1)], of x] huecos_okD(2) [OF D(2), of x] p by simp
      qed
      then show ?thesis using x by (simp add: cub ocupa_def)
    next
      case False
      have "ocupa (seg_base s) (seg_limite s) x = 1" using False x E(5) p h by (simp add: ocupa_def)
      then have "cubre_h (huecos_libres m) x = 0"
        using cubre_s_segmento [OF s, of x] particion_cubre [OF D(4), of x]
          cubre_h_nonneg [of "huecos_libres m" x] by linarith
      then show ?thesis using False x by (simp add: cub ocupa_def)
    qed
  next
    fix x assume x: "p + seg_limite s \<le> x \<and> x < p + seg_limite s + g"
    have "ocupa (p + seg_limite s) (h_size ?h) x = 1" using x gh by (simp add: ocupa_def)
    moreover have "ocupa p (h_size ?h) x \<le> cubre_h (huecos_libres m) x"
      using cubre_h_hueco [OF nth_mem [OF E(1)], of x] p by simp
    ultimately show "cubre_h (huecos_libres m') x = 1"
      using cub [of x] huecos_okD(2) [OF mem_okD(2) [OF F(1)], of x] by simp
  qed
  moreover have "seg_limite (the (segmentos m' ! b)) \<le> g"
    if b: "b \<in> vivos (segmentos m')" "p + seg_limite s < base_en (segmentos m') b" for b
  proof (cases "b = a")
    case True
    then show ?thesis using b(2) E(3) l by (simp add: E(6) base_en_def p)
  next
    case False
    then have "segmentos m' ! b = segmentos m ! b" by (simp add: E(6))
    then show ?thesis using b lim l unfolding F(3) by (simp add: base_en_def)
  qed
  ultimately show "cabe_en g m'" by (auto simp: cabe_en_def)
qed

lemma cabe_inicio:
  assumes hs: "huecos_ok (huecos_libres m)" and i: "i < length (huecos_libres m)"
    and min: "\<forall>j < length (huecos_libres m). h_pos (huecos_libres m ! i) \<le> h_pos (huecos_libres m ! j)"
    and c: "\<forall>a \<in> vivos (segmentos m). h_pos (huecos_libres m ! i) < base_en (segmentos m) a
          \<longrightarrow> seg_limite (the (segmentos m ! a)) \<le> h_size (huecos_libres m ! i)"
  shows "cabe_en (h_size (huecos_libres m ! i)) m"
proof -
  let ?h = "huecos_libres m ! i"
  have "libre_desde (huecos_libres m) (h_pos ?h) (h_size ?h)"
    unfolding libre_desde_def
  proof (intro conjI allI impI)
    fix x assume "x < h_pos ?h"
    then have "ocupa (h_pos h') (h_size h') x = 0" if "h' \<in> set (huecos_libres m)" for h'
      using that min by (auto simp: in_set_conv_nth ocupa_def)
    then show "cubre_h (huecos_libres m) x = 0" unfolding cubre_h_def by (rule suma_cero)
  next
    fix x assume "h_pos ?h \<le> x \<and> x < h_pos ?h + h_size ?h"
    then have "ocupa (h_pos ?h) (h_size ?h) x = 1" by (simp add: ocupa_def)
    then show "cubre_h (huecos_libres m) x = 1"
      using cubre_h_hueco [OF nth_mem [OF i], of x] huecos_okD(2) [OF hs, of x] by simp
  qed
  then show ?thesis using c by (auto simp: cabe_en_def)
qed

lemma compactar_bucle_datos:
  assumes cm: "commons_ok cm" and ok: "mem_ok cfg m" and i: "i < length (huecos_libres m)"
    and c: "cabe_en (h_size (huecos_libres m ! i)) m"
  shows "\<exists>m'. compactar_bucle cm (tabla_global cm m) m = Some (Inr m') \<and>
    (\<forall>a < length (segmentos m). segmentos m ! a \<noteq> None \<longrightarrow> contenido m' a = contenido m a)"
proof -
  let ?g = "h_size (huecos_libres m ! i)"
  let ?P = "\<lambda>m1. cabe_en ?g m1 \<and> perfil (segmentos m1) = perfil (segmentos m) \<and>
    (\<forall>a < length (segmentos m). segmentos m ! a \<noteq> None \<longrightarrow> contenido m1 a = contenido m a)"
  have g: "0 < ?g" by (rule huecos_ok_nth [OF mem_okD(2) [OF ok] i])
  have hs: "huecos_libres m \<noteq> []" using i by auto
  have "\<exists>m'. compactar_bucle cm (tabla_global cm m) m = Some (Inr m') \<and> mem_ok cfg m' \<and> ?P m' \<and>
    huecos_libres m' \<noteq> [] \<and> (\<forall>a \<in> vivos (segmentos m'). base_en (segmentos m') a
         \<le> h_pos (huecos_libres m' ! primer_hueco cm (huecos_libres m')))"
  proof (rule compactar_bucle_invariante [OF cm ok hs set_tabla_global [OF cm ok]])
    fix m1 m2 j a s
    assume ok1: "mem_ok cfg m1" and P: "?P m1" and d: "desliza m1 m2 j a s"
    note C = cabe_desliza [OF d ok1 _ g]
    have pf: "perfil (segmentos m2) = perfil (segmentos m)" using P perfil_desliza [OF d] by simp
    have "contenido m2 b = contenido m b" if b: "b < length (segmentos m)" "segmentos m ! b \<noteq> None" for b
    proof -
      have len: "length (segmentos m1) = length (segmentos m)"
        using arg_cong [OF conjunct1 [OF conjunct2 [OF P]], of length] by (simp add: perfil_def)
      have "perfil (segmentos m1) ! b = perfil (segmentos m) ! b" using P by simp
      then have b1: "b < length (segmentos m1)" "segmentos m1 ! b \<noteq> None"
        using b len by (auto simp: perfil_def)
      show ?thesis
      proof (cases "b = a")
        case True
        note D = mem_okD [OF ok1] and E = deslizaD [OF d]
        have s: "Some s \<in> set (segmentos m1)" using nth_mem [OF E(3)] E(4) by simp
        have l: "0 < seg_limite s" using D(3) s by (simp add: segmentos_ok_def)
        have r: "0 \<le> seg_base s \<and> seg_base s + seg_limite s \<le> int (length (user_space m1))"
          using particion_rango_segmento [OF D(4) s l] D(1) by simp
        then obtain bs where bs: "contenido m1 a = Inr bs"
          using l by (auto simp: contenido_def base_en_def E(4) leer_area_def en_area_def)
        have "int (length bs) = seg_limite s"
          using leer_area_length [OF bs [unfolded contenido_def]] by (simp add: E(4))
        then have "length bs \<le> nat (h_size (huecos_libres m1 ! j))" using C(2) P by linarith
        then have "contenido m2 a = contenido m1 a" using desliza_datos(1) [OF d ok1 bs] bs by simp
        then show ?thesis using P b True by simp
      next
        case False
        then show ?thesis using desliza_datos(2) [OF d ok1 b1 False] P b by simp
      qed
    qed
    then show "?P m2" using C(1) P pf by simp
  qed (simp add: c)
  then show ?thesis by blast
qed

end
