(* ===== verification/Mem_Servidor.thy ===== *)
theory Mem_Servidor
  imports Mem_Compactacion
begin

text \<open>
  The three service loops of the memory module (\<open>esperarKernel\<close>, \<open>esperarCPU\<close>,
  \<open>esperarFileSystem\<close> of \<open>Memoria/src/memoria.h\<close>), one iteration each, from the bytes on the
  socket to the bytes of the answer; then the module as a transition system driven by the
  requests its clients may send, its reachable states and its invariant.
\<close>

section \<open>Messages of the user space\<close>

definition recv_movout_petition :: "byte list \<Rightarrow> ((int \<times> byte list) \<times> byte list) res" where
  "recv_movout_petition s = bind_res (recibir_buffer s) (\<lambda>(buffer, s').
     bind_res (leer_int buffer) (\<lambda>(addr, b1). bind_res (leer_int b1) (\<lambda>(valorSize, b2).
     bind_res (leer_bytes valorSize b2) (\<lambda>(valor, _). Inr ((addr, valor), s')))))"

definition recv_movin_petition :: "byte list \<Rightarrow> ((int \<times> int) \<times> byte list) res" where
  "recv_movin_petition s = bind_res (recibir_buffer s) (\<lambda>(buffer, s').
     bind_res (leer_int buffer) (\<lambda>(addr, b1). bind_res (leer_int b1) (\<lambda>(bytes, _).
       Inr ((addr, bytes), s'))))"

text \<open>The string in a received block; a block without NUL is read past its end.\<close>

definition leer_c_str :: "byte list \<Rightarrow> string res" where
  "leer_c_str b = (if NUL \<in> set b then Inr (c_str b) else Inl Fuera_de_rango)"

section \<open>One iteration of each loop\<close>

text \<open>The new state, the answer, and what is left on the socket.\<close>

type_synonym atencion = "(memoria \<times> byte list \<times> byte list) res"

text \<open>
  The two handlers of the user space differ only in the codes: \<open>cod_lee\<close> asks for bytes,
  \<open>cod_escribe\<close> sends bytes and gets 1. Any other code is skipped, with no answer.
\<close>

definition atender_usuario :: "op_code \<Rightarrow> op_code \<Rightarrow> memoria \<Rightarrow> byte list \<Rightarrow> atencion" where
  "atender_usuario cod_lee cod_escribe m s = bind_res (recibir_operacion s) (\<lambda>(cod_op, s1).
     if cod_op = -1 then Inl Salida
     else if cod_op = op_num cod_lee then
       bind_res (recv_movin_petition s1) (\<lambda>((dir_fisica, bytes), s2).
       bind_res (mem_leer m dir_fisica bytes) (\<lambda>retVal. Inr (m, retVal, s2)))
     else if cod_op = op_num cod_escribe then
       bind_res (recv_movout_petition s1) (\<lambda>((dir_fisica, valor), s2).
       bind_res (mem_escribir m dir_fisica valor) (\<lambda>m'. Inr (m', enviar_int 1, s2)))
     else Inr (m, [], s1))"

definition atender_cpu :: "memoria \<Rightarrow> byte list \<Rightarrow> atencion" where
  "atender_cpu = atender_usuario MOV_IN MOV_OUT"

definition atender_filesystem :: "memoria \<Rightarrow> byte list \<Rightarrow> atencion" where
  "atender_filesystem = atender_usuario F_WRITE F_READ"

text \<open>\<open>None\<close>: the iteration does not end (only compaction has a loop that might not).\<close>

definition atender_kernel :: "commons \<Rightarrow> memConfig \<Rightarrow> memoria \<Rightarrow> byte list \<Rightarrow> atencion option" where
  "atender_kernel cm cfg m s =
     (case recibir_operacion s of
        Inl e \<Rightarrow> Some (Inl e)
      | Inr (cod_op, s1) \<Rightarrow>
          if cod_op = -1 then Some (Inl Salida)
          else if cod_op = op_num CREATE_SEGMENT then
            Some (bind_res (recv_newsegment_petition s1) (\<lambda>((PID, segID, tam), s2).
              bind_res (mem_create_segment cm cfg m (string_itoa cm PID) segID tam)
                (\<lambda>(m', r). Inr (m', r, s2))))
          else if cod_op = op_num DELETE_SEGMENT then
            Some (bind_res (recv_deletesegment_petition s1) (\<lambda>((PID, segID), s2).
              bind_res (mem_delete_segment m (string_itoa cm PID) segID)
                (\<lambda>(m', r). Inr (m', r, s2))))
          else if cod_op = op_num EXIT then
            Some (bind_res (recibir_mensaje s1) (\<lambda>(b, s2).
              bind_res (leer_c_str b) (\<lambda>charPID.
              bind_res (mem_exit m charPID) (\<lambda>m'. Inr (m', [], s2)))))
          else if cod_op = op_num COMPACTION then
            map_option (\<lambda>r. bind_res r (\<lambda>(m', bs). Inr (m', bs, s1))) (compactar_segmentos cm m)
          else Some (Inl Salida))"

section \<open>Requests\<close>

datatype peticion =
    Crear int int int
  | Borrar int int
  | Terminar int
  | Compactar
  | Leer_cpu int int
  | Escribir_cpu int "byte list"
  | Leer_fs int int
  | Escribir_fs int "byte list"

text \<open>
  How the clients write a request: the kernel with the functions of the library, the CPU
  (\<open>cpu.h\<close>) and the file system (\<open>filesys.h\<close>) with a packet of the address and then the
  number of bytes or the sized bytes.
\<close>

definition enviar_lectura :: "op_code \<Rightarrow> int \<Rightarrow> int \<Rightarrow> byte list" where
  "enviar_lectura cod dir bytes =
     enviar_paquete_contexto (anexar (crear_paquete_contexto (op_num cod)) (enc_int dir @ enc_int bytes))"

definition enviar_escritura :: "op_code \<Rightarrow> int \<Rightarrow> byte list \<Rightarrow> int \<Rightarrow> byte list" where
  "enviar_escritura cod dir valor tamanio =
     enviar_paquete_contexto (agregar_a_paquete
       (anexar (crear_paquete_contexto (op_num cod)) (enc_int dir)) valor tamanio)"

definition send_movin_petition :: "int \<Rightarrow> int \<Rightarrow> byte list" where
  "send_movin_petition addr bytes = enviar_lectura MOV_IN addr bytes"

definition send_fwrite_petition :: "int \<Rightarrow> int \<Rightarrow> byte list" where
  "send_fwrite_petition realAddr bytes = enviar_lectura F_WRITE realAddr bytes"

definition send_movout_petition :: "int \<Rightarrow> byte list \<Rightarrow> int \<Rightarrow> byte list" where
  "send_movout_petition addr valor tamanio = enviar_escritura MOV_OUT addr valor tamanio"

definition send_fread_petition :: "int \<Rightarrow> byte list \<Rightarrow> int \<Rightarrow> byte list" where
  "send_fread_petition realAddr datos bytes = enviar_escritura F_READ realAddr datos bytes"

fun atender :: "commons \<Rightarrow> memConfig \<Rightarrow> memoria \<Rightarrow> peticion \<Rightarrow> byte list \<Rightarrow> atencion option" where
  "atender cm cfg m (Crear PID segID tam) rest =
     atender_kernel cm cfg m (send_newsegment_petition PID segID tam @ rest)"
| "atender cm cfg m (Borrar PID segID) rest =
     atender_kernel cm cfg m (send_deletesegment_petition PID segID @ rest)"
| "atender cm cfg m (Terminar PID) rest =
     atender_kernel cm cfg m (enviar_mensaje_razon (op_num EXIT) (string_itoa cm PID) @ rest)"
| "atender cm cfg m Compactar rest = atender_kernel cm cfg m (enviar_int (op_num COMPACTION) @ rest)"
| "atender cm cfg m (Leer_cpu dir bytes) rest = Some (atender_cpu m (send_movin_petition dir bytes @ rest))"
| "atender cm cfg m (Escribir_cpu dir valor) rest =
     Some (atender_cpu m (send_movout_petition dir valor (int (length valor)) @ rest))"
| "atender cm cfg m (Leer_fs dir bytes) rest =
     Some (atender_filesystem m (send_fwrite_petition dir bytes @ rest))"
| "atender cm cfg m (Escribir_fs dir valor) rest =
     Some (atender_filesystem m (send_fread_petition dir valor (int (length valor)) @ rest))"

section \<open>The requests arrive as they were sent\<close>

lemma enviar_lectura_bytes:
  "enviar_lectura cod dir bytes = enc_int (op_num cod) @ enc_int 8 @ enc_int dir @ enc_int bytes"
  by (simp add: enviar_lectura_def enviar_paquete_contexto_def wire_simps)
    (simp add: crear_paquete_contexto_def)

lemma enviar_escritura_bytes:
  "enviar_escritura cod dir valor (int (length valor)) = enc_int (op_num cod)
     @ enc_int (8 + int (length valor)) @ enc_int dir @ enc_int (int (length valor)) @ valor"
  by (simp add: enviar_escritura_def enviar_paquete_contexto_def agregar_a_paquete_def wire_simps)
    (simp add: crear_paquete_contexto_def)

lemma recv_movin_enviada:
  assumes "int32_ok dir" "int32_ok bytes"
  shows "recv_movin_petition (enc_int 8 @ enc_int dir @ enc_int bytes @ rest) = Inr ((dir, bytes), rest)"
proof -
  let ?b = "enc_int dir @ enc_int bytes"
  have "recibir_buffer (enc_int 8 @ ?b @ rest) = Inr (?b, rest)"
    using recibir_buffer_enc [of ?b rest] by simp
  moreover have "leer_int (enc_int bytes) = Inr (bytes, [])"
    using leer_int_enc [OF assms(2), of "[]"] by simp
  ultimately show ?thesis using assms by (simp add: recv_movin_petition_def)
qed

lemma recv_movout_enviada:
  assumes "int32_ok dir" "int32_ok (8 + int (length valor))"
  shows "recv_movout_petition (enc_int (8 + int (length valor)) @ enc_int dir
           @ enc_int (int (length valor)) @ valor @ rest) = Inr ((dir, valor), rest)"
proof -
  let ?b = "enc_int dir @ enc_int (int (length valor)) @ valor"
  have "recibir_buffer (enc_int (8 + int (length valor)) @ ?b @ rest) = Inr (?b, rest)"
    using recibir_buffer_enc [of ?b rest] assms(2) by simp
  moreover have "int32_ok (int (length valor))" using assms(2) by (simp add: int32_ok_def)
  moreover have "leer_bytes (int (length valor)) valor = Inr (valor, [])"
    using leer_bytes_append [of _ valor "[]"] by simp
  ultimately show ?thesis using assms by (simp add: recv_movout_petition_def)
qed

lemma op_num_no_menos_uno [simp]: "op_num c \<noteq> - 1" "(- 1 = op_num c) = False"
  using op_num_range [of c] by auto

lemma atender_usuario_lee:
  assumes "int32_ok dir" "int32_ok bytes"
  shows "atender_usuario cl ce m (enviar_lectura cl dir bytes @ rest)
         = bind_res (mem_leer m dir bytes) (\<lambda>retVal. Inr (m, retVal, rest))"
  using assms recv_movin_enviada [OF assms, of rest]
  by (simp add: atender_usuario_def enviar_lectura_bytes del: op_num.simps)

lemma atender_usuario_escribe:
  assumes "int32_ok dir" "int32_ok (8 + int (length valor))" "cl \<noteq> ce"
  shows "atender_usuario cl ce m (enviar_escritura ce dir valor (int (length valor)) @ rest)
         = bind_res (mem_escribir m dir valor) (\<lambda>m'. Inr (m', enviar_int 1, rest))"
  using assms recv_movout_enviada [OF assms(1,2), of rest]
  by (simp add: atender_usuario_def enviar_escritura_bytes del: op_num.simps)

lemmas envios_usuario = send_movin_petition_def send_fwrite_petition_def send_movout_petition_def
  send_fread_petition_def atender_cpu_def atender_filesystem_def

lemma atender_crear:
  assumes "int32_ok PID" "int32_ok segID" "int32_ok tam"
  shows "atender cm cfg m (Crear PID segID tam) rest =
    Some (bind_res (mem_create_segment cm cfg m (string_itoa cm PID) segID tam)
      (\<lambda>(m', r). Inr (m', r, rest)))"
proof -
  obtain s where s: "recibir_operacion (send_newsegment_petition PID segID tam @ rest)
      = Inr (op_num CREATE_SEGMENT, s)" "recv_newsegment_petition s = Inr ((PID, segID, tam), rest)"
    using newsegment_ida_vuelta [OF assms, of rest] by (auto simp: bind_res_Inr_iff)
  then show ?thesis by (simp add: atender_kernel_def)
qed

lemma atender_borrar:
  assumes "int32_ok PID" "int32_ok segID"
  shows "atender cm cfg m (Borrar PID segID) rest =
    Some (bind_res (mem_delete_segment m (string_itoa cm PID) segID) (\<lambda>(m', r). Inr (m', r, rest)))"
proof -
  obtain s where s: "recibir_operacion (send_deletesegment_petition PID segID @ rest)
      = Inr (op_num DELETE_SEGMENT, s)" "recv_deletesegment_petition s = Inr ((PID, segID), rest)"
    using deletesegment_ida_vuelta [OF assms, of rest] by (auto simp: bind_res_Inr_iff)
  then show ?thesis by (simp add: atender_kernel_def)
qed

lemma enviar_mensaje_razon_bytes:
  "enviar_mensaje_razon cod msj = enc_int cod @ enc_int (int (length msj) + 1) @ bloque_de msj"
  by (simp add: enviar_mensaje_razon_def serializar_paquete_def bloque_de_def nat_add_distrib)

lemma atender_terminar:
  assumes cm: "commons_ok cm" and PID: "int32_ok PID" "cadena_ok (string_itoa cm PID)"
  shows "atender cm cfg m (Terminar PID) rest =
    Some (bind_res (mem_exit m (string_itoa cm PID)) (\<lambda>m'. Inr (m', [], rest)))"
proof -
  let ?s = "string_itoa cm PID"
  have "recibir_buffer (enc_int (int (length ?s) + 1) @ bloque_de ?s @ rest) = Inr (bloque_de ?s, rest)"
    using PID(2) recibir_buffer_enc [of "bloque_de ?s" rest] by (simp add: cadena_ok_def add.commute)
  moreover have "leer_c_str (bloque_de ?s) = Inr ?s"
    using string_itoa_c_str [OF cm PID(1)] by (simp add: leer_c_str_def) (simp add: bloque_de_def)
  ultimately show ?thesis
    by (simp add: atender_kernel_def enviar_mensaje_razon_bytes recibir_mensaje_def)
qed

lemma atender_compactar:
  "atender cm cfg m Compactar rest =
     map_option (\<lambda>r. bind_res r (\<lambda>(m', bs). Inr (m', bs, rest))) (compactar_segmentos cm m)"
  by (simp add: atender_kernel_def enviar_int_def)

section \<open>The module as a transition system\<close>

text \<open>
  What the clients may ask for: segments of positive size (or any size for a process without
  a table, which is how the kernel announces it), deletions of segments the process has other
  than segment 0, the end of known processes, compaction while there is a hole, and accesses
  inside the memory.
\<close>

fun permitida :: "commons \<Rightarrow> memConfig \<Rightarrow> memoria \<Rightarrow> peticion \<Rightarrow> bool" where
  "permitida cm cfg m (Crear PID segID tam) \<longleftrightarrow> int32_ok PID \<and> int32_ok segID \<and> int32_ok tam \<and>
     (0 < tam \<or> dictionary_get (diccionario_tablas m) (string_itoa cm PID) = None)"
| "permitida cm cfg m (Borrar PID segID) \<longleftrightarrow> int32_ok PID \<and> int32_ok segID \<and>
     (case find_index (\<lambda>s. seg_ID s = segID) (tabla_de m (string_itoa cm PID)) of
        Some (Suc _) \<Rightarrow> True | _ \<Rightarrow> False)"
| "permitida cm cfg m (Terminar PID) \<longleftrightarrow> int32_ok PID \<and> cadena_ok (string_itoa cm PID) \<and>
     dictionary_get (diccionario_tablas m) (string_itoa cm PID) \<noteq> None"
| "permitida cm cfg m Compactar \<longleftrightarrow> huecos_libres m \<noteq> []"
| "permitida cm cfg m (Leer_cpu dir bytes) \<longleftrightarrow> 0 \<le> dir \<and> 0 \<le> bytes \<and> dir + bytes \<le> TAM_MEMORIA cfg"
| "permitida cm cfg m (Escribir_cpu dir valor) \<longleftrightarrow> 0 \<le> dir \<and>
     dir + int (length valor) \<le> TAM_MEMORIA cfg \<and> int32_ok (8 + int (length valor))"
| "permitida cm cfg m (Leer_fs dir bytes) \<longleftrightarrow> 0 \<le> dir \<and> 0 \<le> bytes \<and> dir + bytes \<le> TAM_MEMORIA cfg"
| "permitida cm cfg m (Escribir_fs dir valor) \<longleftrightarrow> 0 \<le> dir \<and>
     dir + int (length valor) \<le> TAM_MEMORIA cfg \<and> int32_ok (8 + int (length valor))"

inductive mem_alcanzable :: "commons \<Rightarrow> memConfig \<Rightarrow> memoria \<Rightarrow> bool" for cm cfg where
  inicio: "mem_inicial cm cfg = Inr m \<Longrightarrow> mem_alcanzable cm cfg m"
| paso: "mem_alcanzable cm cfg m \<Longrightarrow> permitida cm cfg m p \<Longrightarrow>
         atender cm cfg m p rest = Some (Inr (m', r, rest')) \<Longrightarrow> mem_alcanzable cm cfg m'"

lemma mem_escribir_ok:
  assumes ok: "mem_ok cfg m" and w: "mem_escribir m dir bs = Inr m'"
  shows "mem_ok cfg m'"
proof -
  obtain us where us: "escribir_area (user_space m) dir bs = Inr us" "m' = m\<lparr>user_space := us\<rparr>"
    using w by (auto simp: mem_escribir_def bind_res_Inr_iff)
  then show ?thesis using ok escribir_area_length [OF us(1)] by (simp add: mem_ok_def mem_ok_con_def)
qed

lemma compactar_segmentos_ok:
  assumes cm: "commons_ok cm" and ok: "mem_ok cfg m" and hs: "huecos_libres m \<noteq> []"
  obtains m' ks where "compactar_segmentos cm m = Some (Inr (m',
      let b = enc_int (int (length ks)) @ concat (map (\<lambda>k. enc_entrada (atoi k, tabla_de m' k)) ks)
      in enc_int (op_num PAQUETE) @ enc_int (int (length b)) @ b))"
    "mem_ok cfg m'" "mset ks = mset (map fst (diccionario_tablas m))"
    "diccionario_tablas m' = diccionario_tablas m" "perfil (segmentos m') = perfil (segmentos m)"
    "huecos_libres m' = [\<lparr>h_pos = TAM_MEMORIA cfg - suma h_size (huecos_libres m),
                          h_size = suma h_size (huecos_libres m)\<rparr>]"
proof -
  obtain m' where m': "compactar_bucle cm (tabla_global cm m) m = Some (Inr m')" "mem_ok cfg m'"
    "diccionario_tablas m' = diccionario_tablas m" "perfil (segmentos m') = perfil (segmentos m)"
    "huecos_libres m' = [\<lparr>h_pos = TAM_MEMORIA cfg - suma h_size (huecos_libres m),
                          h_size = suma h_size (huecos_libres m)\<rparr>]"
    by (rule compactar_bucle_ok [OF cm ok hs])
  obtain ks where ks: "mset ks = mset (map fst (diccionario_tablas m'))"
    "enviar_tablas_actualizadas cm m' = Inr (let b = enc_int (int (length ks))
        @ concat (map (\<lambda>k. enc_entrada (atoi k, tabla_de m' k)) ks)
      in enc_int (op_num PAQUETE) @ enc_int (int (length b)) @ b)"
    using enviar_tablas_ok [OF cm m'(2)] by blast
  show thesis
    by (rule that [of m' ks]) (use m' ks in \<open>simp_all add: compactar_segmentos_def\<close>)
qed

text \<open>A permitted request is answered, and keeps the invariant.\<close>

lemma crear_responde:
  assumes cm: "commons_ok cm" and alg: "algoritmo_ok (ALGORITMO_ASIGNACION cfg)" and ok: "mem_ok cfg m"
    and p: "permitida cm cfg m (Crear PID segID tam)"
  obtains m' flag where "mem_create_segment cm cfg m (string_itoa cm PID) segID tam
      = Inr (m', send_tabla_segmentos (tabla_de m' (string_itoa cm PID)) flag)" "mem_ok cfg m'" "int32_ok flag"
proof -
  have i: "int32_ok segID" using p by simp
  let ?k = "string_itoa cm PID"
  show thesis
  proof (cases "dictionary_get (diccionario_tablas m) ?k")
    case None
    show thesis by (rule mem_create_nueva [OF ok None, of cm segID tam]) (use that in auto)
  next
    case (Some t)
    then have tam: "0 < tam" using p by simp
    show thesis
    proof (cases rule: calloc_casos [OF cm alg, of m tam t segID])
      case (1 j)
      show thesis by (rule mem_create_creado [OF cm ok Some i tam 1(1,2,4)]) (use that in auto)
    next
      case 2
      show thesis by (rule mem_create_sin_hueco [OF ok Some 2(3)]) (use that in auto)
    next
      case 3
      show thesis by (rule mem_create_sin_hueco [OF ok Some 3(3)]) (use that in auto)
    qed
  qed
qed

lemma crear_progreso:
  assumes cm: "commons_ok cm" and alg: "algoritmo_ok (ALGORITMO_ASIGNACION cfg)" and ok: "mem_ok cfg m"
    and p: "permitida cm cfg m (Crear PID segID tam)"
  shows "\<exists>m' r. atender cm cfg m (Crear PID segID tam) rest = Some (Inr (m', r, rest)) \<and> mem_ok cfg m'"
proof -
  have i: "int32_ok PID" "int32_ok segID" "int32_ok tam" using p by simp_all
  obtain m' flag where "mem_create_segment cm cfg m (string_itoa cm PID) segID tam
      = Inr (m', send_tabla_segmentos (tabla_de m' (string_itoa cm PID)) flag)" "mem_ok cfg m'"
    by (rule crear_responde [OF cm alg ok p])
  then show ?thesis by (simp only: atender_crear [OF i]) simp
qed

lemma borrar_responde:
  assumes ok: "mem_ok cfg m" and p: "permitida cm cfg m (Borrar PID segID)"
  obtains m' where "mem_delete_segment m (string_itoa cm PID) segID
      = Inr (m', send_tabla_segmentos (tabla_de m' (string_itoa cm PID)) 0)" "mem_ok cfg m'"
proof -
  let ?k = "string_itoa cm PID"
  obtain j where j: "find_index (\<lambda>s. seg_ID s = segID) (tabla_de m ?k) = Some (Suc j)"
    using p by (auto split: option.splits nat.splits)
  then obtain t where t: "dictionary_get (diccionario_tablas m) ?k = Some t"
    by (cases "dictionary_get (diccionario_tablas m) ?k") (simp_all add: tabla_de_def)
  show thesis by (rule mem_delete_ok [OF ok t j]) (rule that)
qed

lemma borrar_progreso:
  assumes ok: "mem_ok cfg m" and p: "permitida cm cfg m (Borrar PID segID)"
  shows "\<exists>m' r. atender cm cfg m (Borrar PID segID) rest = Some (Inr (m', r, rest)) \<and> mem_ok cfg m'"
proof -
  have i: "int32_ok PID" "int32_ok segID" using p by simp_all
  obtain m' where "mem_delete_segment m (string_itoa cm PID) segID
      = Inr (m', send_tabla_segmentos (tabla_de m' (string_itoa cm PID)) 0)" "mem_ok cfg m'"
    by (rule borrar_responde [OF ok p])
  then show ?thesis by (simp only: atender_borrar [OF i]) simp
qed

lemma usuario_progreso:
  assumes ok: "mem_ok cfg m" and "cl \<noteq> ce"
  shows "0 \<le> dir \<Longrightarrow> 0 \<le> n \<Longrightarrow> dir + n \<le> TAM_MEMORIA cfg \<Longrightarrow>
      \<exists>r. atender_usuario cl ce m (enviar_lectura cl dir n @ rest) = Inr (m, r, rest)"
    and "0 \<le> dir \<Longrightarrow> dir + int (length valor) \<le> TAM_MEMORIA cfg \<Longrightarrow> int32_ok (8 + int (length valor)) \<Longrightarrow>
      \<exists>m'. atender_usuario cl ce m (enviar_escritura ce dir valor (int (length valor)) @ rest)
             = Inr (m', enviar_int 1, rest) \<and> mem_ok cfg m'"
proof -
  note D = mem_okD [OF ok]
  {
    assume r: "0 \<le> dir" "0 \<le> n" "dir + n \<le> TAM_MEMORIA cfg"
    then have "int32_ok dir" "int32_ok n" using D(7) by (simp_all add: int32_ok_def)
    moreover have "es_ok (mem_leer m dir n)" using r D(1) by (simp add: uspace.leer_ok_iff)
    ultimately show "\<exists>r. atender_usuario cl ce m (enviar_lectura cl dir n @ rest) = Inr (m, r, rest)"
      by (auto simp: atender_usuario_lee es_ok_iff)
  next
    assume r: "0 \<le> dir" "dir + int (length valor) \<le> TAM_MEMORIA cfg" "int32_ok (8 + int (length valor))"
    then have "int32_ok dir" using D(7) by (simp add: int32_ok_def)
    moreover obtain m' where m': "mem_escribir m dir valor = Inr m'"
      using r D(1) uspace.escribir_total [of dir valor m] by auto
    ultimately show "\<exists>m'. atender_usuario cl ce m (enviar_escritura ce dir valor (int (length valor)) @ rest)
             = Inr (m', enviar_int 1, rest) \<and> mem_ok cfg m'"
      using r(3) assms(2) mem_escribir_ok [OF ok m'] by (simp add: atender_usuario_escribe)
  }
qed

lemma atender_progreso:
  assumes cm: "commons_ok cm" and alg: "algoritmo_ok (ALGORITMO_ASIGNACION cfg)" and ok: "mem_ok cfg m"
    and p: "permitida cm cfg m p"
  shows "\<exists>m' r. atender cm cfg m p rest = Some (Inr (m', r, rest)) \<and> mem_ok cfg m'"
proof (cases p)
  case (Crear PID segID tam)
  then show ?thesis using crear_progreso [OF cm alg ok] p by blast
next
  case (Borrar PID segID)
  then show ?thesis using borrar_progreso [OF ok] p by blast
next
  case (Terminar PID)
  then have t: "int32_ok PID" "cadena_ok (string_itoa cm PID)" using p by simp_all
  obtain ta where ta: "dictionary_get (diccionario_tablas m) (string_itoa cm PID) = Some ta"
    using p Terminar by (cases "dictionary_get (diccionario_tablas m) (string_itoa cm PID)") simp_all
  obtain m' where "mem_exit m (string_itoa cm PID) = Inr m'" "mem_ok cfg m'"
    by (rule mem_exit_ok [OF ok ta], rule that)
  then show ?thesis using atender_terminar [OF cm t] unfolding Terminar by simp
next
  case Compactar
  then have hs: "huecos_libres m \<noteq> []" using p by simp
  obtain m' bs where "compactar_segmentos cm m = Some (Inr (m', bs))" "mem_ok cfg m'"
    by (rule compactar_segmentos_ok [OF cm ok hs], rule that)
  then show ?thesis unfolding Compactar atender_compactar by simp
next
  case (Leer_cpu dir n)
  then show ?thesis using usuario_progreso(1) [OF ok, of MOV_IN MOV_OUT dir n rest] p ok
    by (auto simp: envios_usuario)
next
  case (Escribir_cpu dir valor)
  then show ?thesis using usuario_progreso(2) [OF ok, of MOV_IN MOV_OUT dir valor rest] p
    by (auto simp: envios_usuario)
next
  case (Leer_fs dir n)
  then show ?thesis using usuario_progreso(1) [OF ok, of F_WRITE F_READ dir n rest] p ok
    by (auto simp: envios_usuario)
next
  case (Escribir_fs dir valor)
  then show ?thesis using usuario_progreso(2) [OF ok, of F_WRITE F_READ dir valor rest] p
    by (auto simp: envios_usuario)
qed

lemma mem_alcanzable_ok:
  assumes "mem_alcanzable cm cfg m" and cm: "commons_ok cm" and cfg: "cfg_ok cfg"
  shows "mem_ok cfg m"
  using assms(1)
proof induction
  case (inicio m)
  then show ?case using mem_inicial_ok [OF cm cfg] by (metis sum.inject(2))
next
  case (paso m p rest m' r rest')
  have "algoritmo_ok (ALGORITMO_ASIGNACION cfg)" using cfg by (simp add: cfg_ok_def)
  from atender_progreso [OF cm this paso.IH paso.hyps(2), of rest] paso.hyps(3) show ?case by auto
qed

end
