(* ===== verification/Cpu_Registros.thy ===== *)
theory Cpu_Registros
  imports Mem_Servidor
begin

text \<open>
  The registers of the CPU and its address translation (\<open>cpu/src/cpu.h\<close>): the twelve
  registers in the order of \<open>lista_tokens\<close>, \<open>set\<close> and its variant without delay, loading and
  saving the registers of a context, and the \<open>MMU\<close>. The register a name stands for is its
  index in \<open>lista_tokens\<close>.
\<close>

section \<open>Registers\<close>

definition lista_tokens :: "string list" where
  "lista_tokens = [''AX'', ''BX'', ''CX'', ''DX'', ''EAX'', ''EBX'', ''ECX'', ''EDX'',
                   ''RAX'', ''RBX'', ''RCX'', ''RDX'']"

definition inicializarRegistros :: "string list" where
  "inicializarRegistros = replicate 4 (replicate 4 (CHR ''0'')) @ replicate 4 (replicate 8 (CHR ''0''))
     @ replicate 4 (replicate 16 (CHR ''0''))"

text \<open>\<open>dictionary_get(diccionario_reg, regName)\<close>\<close>

definition registro_de :: "string \<Rightarrow> nat option" where
  "registro_de regName = find_index (\<lambda>t. t = regName) lista_tokens"

text \<open>Fill with zeros, then copy the value without its NUL, when it fits.\<close>

definition cargar_valor :: "string \<Rightarrow> string \<Rightarrow> string" where
  "cargar_valor reg valor =
     (if length valor \<le> length reg
      then valor @ drop (length valor) (replicate (length reg) (CHR ''0'')) else reg)"

text \<open>\<open>set\<close>: \<open>None\<close> is an unknown register; otherwise the registers and the excess in bytes.\<close>

definition set_reg :: "string list \<Rightarrow> string \<Rightarrow> string \<Rightarrow> (string list \<times> int) option" where
  "set_reg regs regName valor =
     (case registro_de regName of
        None \<Rightarrow> None
      | Some i \<Rightarrow>
          (let regs' = regs[i := cargar_valor (regs ! i) valor]
           in Some (regs', if length valor \<le> length (regs' ! i) then 0
                           else int (length valor) - int (length (regs' ! i)))))"

definition set_sin_retardo :: "string list \<Rightarrow> string \<Rightarrow> string \<Rightarrow> string list res" where
  "set_sin_retardo regs regName valor =
     (case registro_de regName of
        None \<Rightarrow> Inl Puntero_nulo
      | Some i \<Rightarrow> Inr (regs[i := cargar_valor (regs ! i) valor]))"

text \<open>The loop \<open>for(i=0; i<CANTIDAD_REGISTROS_CPU; i++)\<close> over the tokens and the context.\<close>

fun cargar_desde :: "string list \<Rightarrow> string list \<Rightarrow> string list \<Rightarrow> string list res" where
  "cargar_desde regs (t # ts) (v # vs) =
     bind_res (set_sin_retardo regs t v) (\<lambda>regs'. cargar_desde regs' ts vs)"
| "cargar_desde regs [] vs = Inr regs"
| "cargar_desde regs (t # ts) [] = Inl Fuera_de_rango"

definition cargarRegistros :: "string list \<Rightarrow> string list \<Rightarrow> string list res" where
  "cargarRegistros regs registrosContext = cargar_desde regs lista_tokens registrosContext"

text \<open>
  \<open>strcpy(registrosContext[i], lista_registros[i])\<close>: the destination is the block received
  with the context, of \<open>caps ! i\<close> bytes; a longer string overruns it.
\<close>

definition cargarRegistrosContexto :: "nat list \<Rightarrow> string list \<Rightarrow> string list res" where
  "cargarRegistrosContexto caps regs =
     (if list_all2 (\<lambda>cap r. length r + 1 \<le> cap) caps regs then Inr regs else Inl Fuera_de_rango)"

section \<open>Address translation\<close>

text \<open>A 32-bit \<open>int\<close> addition as the machine does it.\<close>

definition suma32 :: "int \<Rightarrow> int \<Rightarrow> int" where
  "suma32 a b = (a + b + 2147483648) mod 4294967296 - 2147483648"

text \<open>The physical address, or -1, and the offset in the segment (\<open>*miBase\<close>).\<close>

definition MMU :: "int \<Rightarrow> segmento list \<Rightarrow> int \<Rightarrow> int \<Rightarrow> int \<times> int" where
  "MMU tam_max_segmento tabla logicAddr offset =
     (let num_segmento = logicAddr sdiv tam_max_segmento;
          desplazamiento = logicAddr smod tam_max_segmento
      in case find (\<lambda>s. seg_ID s = num_segmento) tabla of
           None \<Rightarrow> (-1, desplazamiento)
         | Some s \<Rightarrow>
             if suma32 (suma32 (seg_base s) desplazamiento) offset > suma32 (seg_base s) (seg_limite s)
             then (-1, desplazamiento)
             else (suma32 (seg_base s) desplazamiento, desplazamiento))"

section \<open>Facts about the registers\<close>

definition regs_ok :: "string list \<Rightarrow> bool" where
  "regs_ok regs \<longleftrightarrow> map length regs = replicate 4 4 @ replicate 4 8 @ replicate 4 16"

lemma regs_ok_length: "regs_ok regs \<Longrightarrow> length regs = 12"
  by (drule arg_cong [of _ _ length, OF regs_ok_def [THEN iffD1]]) simp

lemma regs_ok_reg:
  assumes "regs_ok regs" "i < 12"
  shows "length (regs ! i) = (if i < 4 then 4 else if i < 8 then 8 else 16)"
proof -
  have "length (regs ! i) = map length regs ! i" using regs_ok_length [OF assms(1)] assms(2) by simp
  also have "\<dots> = (replicate 4 4 @ replicate 4 8 @ replicate 4 16) ! i"
    using assms(1) by (simp add: regs_ok_def)
  finally show ?thesis using assms(2) by (auto simp: nth_append)
qed

lemma regs_ok_inicial: "regs_ok inicializarRegistros"
  by (simp add: regs_ok_def inicializarRegistros_def)

lemma length_cargar_valor [simp]: "length (cargar_valor reg valor) = length reg"
  by (simp add: cargar_valor_def)

lemma regs_ok_update: "regs_ok regs \<Longrightarrow> regs_ok (regs[i := cargar_valor (regs ! i) v])"
  by (simp add: regs_ok_def map_update) (metis list_update_id map_update)

lemma registro_de_less: "registro_de r = Some i \<Longrightarrow> i < 12 \<and> lista_tokens ! i = r"
  unfolding registro_de_def by (drule find_index_SomeD) (simp add: lista_tokens_def)

lemma distinct_lista_tokens: "distinct lista_tokens" "length lista_tokens = 12"
  by (simp_all add: lista_tokens_def)

lemma find_index_distinct: "distinct xs \<Longrightarrow> i < length xs \<Longrightarrow> find_index (\<lambda>t. t = xs ! i) xs = Some i"
proof (induction xs arbitrary: i)
  case (Cons x xs)
  then show ?case by (cases i) auto
qed simp

lemma registro_de_token: "i < 12 \<Longrightarrow> registro_de (lista_tokens ! i) = Some i"
  unfolding registro_de_def by (rule find_index_distinct) (simp_all add: distinct_lista_tokens)

text \<open>Loading a whole context: register \<open>i\<close> takes the value \<open>i\<close> of the context.\<close>

lemma cargar_desde_ok:
  assumes "j + length ts = 12" "ts = drop j lista_tokens" "length vs = length ts" "length regs = 12"
  shows "\<exists>regs'. cargar_desde regs ts vs = Inr regs' \<and> length regs' = 12 \<and>
    (\<forall>i < 12. regs' ! i = (if i < j then regs ! i else cargar_valor (regs ! i) (vs ! (i - j))))"
  using assms
proof (induction ts arbitrary: j vs regs)
  case (Cons t ts)
  then obtain v vs' where vs: "vs = v # vs'" by (cases vs) auto
  have j: "j < 12" using Cons.prems(1) by simp
  have t: "t = lista_tokens ! j" "ts = drop (Suc j) lista_tokens"
    using Cons.prems(2) j by (auto simp: distinct_lista_tokens Cons_nth_drop_Suc [symmetric])
  let ?r = "regs[j := cargar_valor (regs ! j) v]"
  have s: "set_sin_retardo regs t v = Inr ?r"
    by (simp add: set_sin_retardo_def t(1) registro_de_token j)
  obtain regs' where r: "cargar_desde ?r ts vs' = Inr regs'" "length regs' = 12"
    "\<forall>i < 12. regs' ! i = (if i < Suc j then ?r ! i else cargar_valor (?r ! i) (vs' ! (i - Suc j)))"
  proof -
    have "Suc j + length ts = 12" "length vs' = length ts" "length ?r = 12"
      using Cons.prems(1,3,4) vs by simp_all
    from Cons.IH [OF this(1) t(2) this(2,3)] show thesis using that by blast
  qed
  have "regs' ! i = (if i < j then regs ! i else cargar_valor (regs ! i) (vs ! (i - j)))" if "i < 12" for i
    using r(3) that Cons.prems(4) j by (cases "i = j") (auto simp: vs nth_Cons')
  then show ?case using r(1,2) by (simp add: vs s)
qed simp

lemma cargarRegistros_ok:
  assumes "length regs = 12" "length vs = 12"
  shows "cargarRegistros regs vs = Inr (map2 cargar_valor regs vs)"
proof -
  obtain regs' where r: "cargarRegistros regs vs = Inr regs'" "length regs' = 12"
    "\<forall>i < 12. regs' ! i = cargar_valor (regs ! i) (vs ! i)"
    using cargar_desde_ok [of 0 lista_tokens vs regs] assms
    by (auto simp: cargarRegistros_def distinct_lista_tokens)
  then have "regs' = map2 cargar_valor regs vs" using assms by (intro nth_equalityI) simp_all
  then show ?thesis using r(1) by simp
qed

lemma map2_cargar_valor_length: "length regs = length vs \<Longrightarrow>
  map length (map2 cargar_valor regs vs) = map length regs"
  by (induction regs vs rule: list_induct2) simp_all

lemma cargar_valor_mismo: "length v = length r \<Longrightarrow> cargar_valor r v = v"
  by (simp add: cargar_valor_def)

text \<open>What was saved is what is loaded back, whatever the registers held in between.\<close>

lemma cargarRegistros_restaura:
  assumes "regs_ok regs" "regs_ok guardados"
  shows "cargarRegistros regs guardados = Inr guardados"
proof -
  have l: "length regs = 12" "length guardados = 12" using assms by (simp_all add: regs_ok_length)
  have "map length guardados = map length regs" using assms by (simp add: regs_ok_def)
  then have "cargar_valor (regs ! i) (guardados ! i) = guardados ! i" if "i < 12" for i
    using that l by (intro cargar_valor_mismo) (metis nth_map)
  then have "map2 cargar_valor regs guardados = guardados" using l by (intro nth_equalityI) simp_all
  then show ?thesis using cargarRegistros_ok [OF l] by simp
qed

lemma cargarRegistros_regs_ok:
  assumes "regs_ok regs" "cargarRegistros regs vs = Inr regs'" "length vs = 12"
  shows "regs_ok regs'"
  using cargarRegistros_ok [OF regs_ok_length [OF assms(1)] assms(3)] assms
    map2_cargar_valor_length [of regs vs] by (simp add: regs_ok_def regs_ok_length)

section \<open>Facts about the translation\<close>

lemma suma32_igual: "int32_ok (a + b) \<Longrightarrow> suma32 a b = a + b"
  by (simp add: suma32_def int32_ok_def)

text \<open>A granted access lies inside the segment the address names.\<close>

lemma MMU_dentro:
  assumes T: "0 < tam_max" and la: "0 \<le> logicAddr" and off: "0 \<le> offset"
    and tabla: "\<forall>s \<in> set tabla. 0 \<le> seg_base s \<and> 0 < seg_limite s \<and> int32_ok (seg_base s + seg_limite s)
          \<and> int32_ok (seg_base s + tam_max + offset)"
    and m: "MMU tam_max tabla logicAddr offset = (dir, desp)" "dir \<noteq> -1"
  shows "\<exists>s. find (\<lambda>s. seg_ID s = logicAddr div tam_max) tabla = Some s \<and>
    dir = seg_base s + logicAddr mod tam_max \<and> seg_base s \<le> dir \<and>
    dir + offset \<le> seg_base s + seg_limite s \<and> desp = logicAddr mod tam_max"
proof -
  have d: "logicAddr sdiv tam_max = logicAddr div tam_max" "logicAddr smod tam_max = logicAddr mod tam_max"
    using T la by simp_all
  obtain s where s: "find (\<lambda>s. seg_ID s = logicAddr div tam_max) tabla = Some s"
    using m by (auto simp: MMU_def d Let_def split: option.splits)
  then have "s \<in> set tabla" by (auto simp: find_Some_iff)
  then have sb: "0 \<le> seg_base s" "0 < seg_limite s" "int32_ok (seg_base s + seg_limite s)"
    "int32_ok (seg_base s + tam_max + offset)" using tabla by auto
  define e where "e = logicAddr mod tam_max"
  have e: "0 \<le> e" "e < tam_max" using T by (simp_all add: e_def)
  have n: "suma32 (seg_base s) (seg_limite s) = seg_base s + seg_limite s"
    "suma32 (seg_base s) e = seg_base s + e" "suma32 (seg_base s + e) offset = seg_base s + e + offset"
    using sb e off by (auto intro!: suma32_igual simp: int32_ok_def)
  have "(dir, desp) = (if seg_base s + e + offset > seg_base s + seg_limite s then (-1, e) else (seg_base s + e, e))"
    using m(1) s by (simp add: MMU_def Let_def d e_def [symmetric] n split: if_splits)
  then show ?thesis using m(2) s e by (auto simp: e_def [symmetric] split: if_splits)
qed

end
