(* ===== verification/Cpu_Ciclo.thy ===== *)
theory Cpu_Ciclo
  imports Cpu_Registros
begin

text \<open>
  The instruction cycle of the CPU (\<open>cpu/src/cpu.h\<close>, \<open>cpu/src/cpu.c\<close>): one function per
  instruction, \<open>ciclo\<close> for fetch, decode and execute, \<open>cpu_bucle\<close> for
  \<open>while(!interrupted)\<close> and \<open>cpu_atender\<close> for one context received from the kernel. The CPU
  talks to the memory module through the messages of \<open>Mem_Servidor\<close>, answered by
  \<open>atender_cpu\<close>; what it sends to the kernel is the third component of every result.
\<close>

section \<open>State\<close>

record cpuConfig =
  TAM_MAX_SEGMENTO :: int

text \<open>\<open>caps\<close>: the sizes of the blocks that hold the registers of the received context.\<close>

record cpu =
  lista_registros :: "string list"
  contexto :: execContext
  caps :: "nat list"
  interrupted :: bool

type_synonym efecto = "(cpu \<times> memoria \<times> byte list) res"

section \<open>Giving the context back\<close>

definition poner_parametros :: "string list \<Rightarrow> cpu \<Rightarrow> cpu" where
  "poner_parametros ps c = c\<lparr>contexto := (contexto c)\<lparr>parametros := ps\<rparr>\<rparr>"

text \<open>\<open>cargarRegistrosContexto(contexto.registros)\<close>\<close>

definition guardar_registros :: "cpu \<Rightarrow> cpu res" where
  "guardar_registros c = bind_res (cargarRegistrosContexto (caps c) (lista_registros c)) (\<lambda>rs.
     Inr (c\<lparr>contexto := (contexto c)\<lparr>registros := rs\<rparr>\<rparr>))"

definition enviar_contexto :: "op_code \<Rightarrow> cpu \<Rightarrow> memoria \<Rightarrow> efecto" where
  "enviar_contexto motivo c m = Inr (c, m, paquete_contexto (contexto c) (op_num motivo))"

definition exit_process_error :: "string \<Rightarrow> cpu \<Rightarrow> memoria \<Rightarrow> efecto" where
  "exit_process_error mensaje c m =
     (let c' = poner_parametros [mensaje] c
      in Inr (c'\<lparr>interrupted := True\<rparr>, m, paquete_contexto (contexto c') (op_num ERROR)))"

definition devolver :: "op_code \<Rightarrow> (cpu \<Rightarrow> cpu) \<Rightarrow> cpu \<Rightarrow> memoria \<Rightarrow> efecto" where
  "devolver motivo f c m = bind_res (guardar_registros c) (\<lambda>c'. enviar_contexto motivo (f c') m)"

definition yield :: "cpu \<Rightarrow> memoria \<Rightarrow> efecto" where
  "yield = devolver YIELD (\<lambda>c. c)"

definition exit_process :: "cpu \<Rightarrow> memoria \<Rightarrow> efecto" where
  "exit_process = devolver EXIT (\<lambda>c. c)"

definition i_o :: "string \<Rightarrow> cpu \<Rightarrow> memoria \<Rightarrow> efecto" where
  "i_o tiempoBloqueo = devolver I_O (\<lambda>c. poner_parametros (parametros (contexto c) @ [tiempoBloqueo]) c)"

definition wait_process :: "string \<Rightarrow> cpu \<Rightarrow> memoria \<Rightarrow> efecto" where
  "wait_process recurso = devolver WAIT (poner_parametros [recurso])"

definition signal_process :: "string \<Rightarrow> cpu \<Rightarrow> memoria \<Rightarrow> efecto" where
  "signal_process recurso = devolver SIGNAL (poner_parametros [recurso])"

definition f_open :: "string \<Rightarrow> cpu \<Rightarrow> memoria \<Rightarrow> efecto" where
  "f_open fileName = devolver F_OPEN (poner_parametros [fileName])"

definition f_close :: "string \<Rightarrow> cpu \<Rightarrow> memoria \<Rightarrow> efecto" where
  "f_close fileName = devolver F_CLOSE (poner_parametros [fileName])"

definition f_seek :: "string \<Rightarrow> string \<Rightarrow> cpu \<Rightarrow> memoria \<Rightarrow> efecto" where
  "f_seek fileName position = devolver F_SEEK (poner_parametros [fileName, position])"

definition f_truncate :: "string \<Rightarrow> string \<Rightarrow> cpu \<Rightarrow> memoria \<Rightarrow> efecto" where
  "f_truncate fileName newSize = devolver F_TRUNCATE (poner_parametros [fileName, newSize])"

definition cpu_create_segment :: "string \<Rightarrow> string \<Rightarrow> cpu \<Rightarrow> memoria \<Rightarrow> efecto" where
  "cpu_create_segment segmentId tam = devolver CREATE_SEGMENT (poner_parametros [segmentId, tam])"

definition cpu_delete_segment :: "string \<Rightarrow> cpu \<Rightarrow> memoria \<Rightarrow> efecto" where
  "cpu_delete_segment segmentId = devolver DELETE_SEGMENT (poner_parametros [segmentId])"

section \<open>Instructions that translate an address\<close>

text \<open>\<open>"<instr>: SEG_FAULT - Segmento: <%d> - Offset: <%d> - Tamano: <%d>"\<close> (with n tilde, two bytes).\<close>

definition mensaje_seg_fault :: "string \<Rightarrow> int \<Rightarrow> int \<Rightarrow> int \<Rightarrow> string" where
  "mensaje_seg_fault instr num_segmento offset tam =
     instr @ '': SEG_FAULT - Segmento: <'' @ decimal num_segmento @ ''> - Offset: <'' @ decimal offset
       @ ''> - Tama'' @ [CHR 0xC3, CHR 0xB1] @ ''o: <'' @ decimal tam @ ''>''"

definition seg_fault :: "string \<Rightarrow> int \<Rightarrow> string \<Rightarrow> int \<Rightarrow> int \<Rightarrow> cpu \<Rightarrow> memoria \<Rightarrow> efecto" where
  "seg_fault instr tam_max logicAddr desp tam =
     exit_process_error (mensaje_seg_fault instr (atoi logicAddr sdiv tam_max) desp tam)"

text \<open>\<open>f_read\<close> and \<open>f_write\<close>, which differ in the name and the code only.\<close>

definition f_acceso :: "op_code \<Rightarrow> string \<Rightarrow> commons \<Rightarrow> cpuConfig \<Rightarrow> string \<Rightarrow> string \<Rightarrow> string
                        \<Rightarrow> cpu \<Rightarrow> memoria \<Rightarrow> efecto" where
  "f_acceso motivo nombre cm cfg fileName logicAddr bytes c m =
     bind_res (guardar_registros c) (\<lambda>c'.
       let (physicAddr, desp) = MMU (TAM_MAX_SEGMENTO cfg) (tablaSegmentos (contexto c')) (atoi logicAddr) (atoi bytes)
       in if physicAddr = -1 then seg_fault nombre (TAM_MAX_SEGMENTO cfg) logicAddr desp (atoi bytes) c' m
          else enviar_contexto motivo
                 (poner_parametros [fileName, string_itoa cm physicAddr, bytes] c') m)"

definition f_read :: "commons \<Rightarrow> cpuConfig \<Rightarrow> string \<Rightarrow> string \<Rightarrow> string \<Rightarrow> cpu \<Rightarrow> memoria \<Rightarrow> efecto" where
  "f_read = f_acceso F_READ ''F_READ''"

definition f_write :: "commons \<Rightarrow> cpuConfig \<Rightarrow> string \<Rightarrow> string \<Rightarrow> string \<Rightarrow> cpu \<Rightarrow> memoria \<Rightarrow> efecto" where
  "f_write = f_acceso F_WRITE ''F_WRITE''"

text \<open>
  \<open>leido=malloc(sizeof(bytes)+1)\<close> is a block of 5 bytes, and the answer and a NUL are written
  to it.
\<close>

definition mov_in :: "commons \<Rightarrow> cpuConfig \<Rightarrow> string \<Rightarrow> string \<Rightarrow> cpu \<Rightarrow> memoria \<Rightarrow> efecto" where
  "mov_in cm cfg registro memAddr c m =
     (case registro_de registro of
        None \<Rightarrow> Inl Puntero_nulo
      | Some i \<Rightarrow>
          (let bytes = int (length (lista_registros c ! i));
               (physicAddr, desp) = MMU (TAM_MAX_SEGMENTO cfg) (tablaSegmentos (contexto c)) (atoi memAddr) bytes
           in if physicAddr = -1 then seg_fault ''MOV_IN'' (TAM_MAX_SEGMENTO cfg) memAddr desp bytes c m
              else bind_res (atender_cpu m (send_movin_petition physicAddr bytes)) (\<lambda>(m', leido, _).
                if bytes + 1 > int (malloc_util cm 5) then Inl Fuera_de_rango
                else (case set_reg (lista_registros c) registro (c_str (leido @ [NUL])) of
                        None \<Rightarrow> Inl Puntero_nulo
                      | Some (regs, _) \<Rightarrow> Inr (c\<lparr>lista_registros := regs\<rparr>, m', [])))))"

definition mov_out :: "cpuConfig \<Rightarrow> string \<Rightarrow> string \<Rightarrow> cpu \<Rightarrow> memoria \<Rightarrow> efecto" where
  "mov_out cfg registro memAddr c m =
     (case registro_de registro of
        None \<Rightarrow> exit_process_error
          (''MOV_OUT: No se encontr'' @ [CHR 0xC3, CHR 0xB3] @ '' el registro '' @ registro) c m
      | Some i \<Rightarrow>
          (let reg = lista_registros c ! i;
               realOffset = int (length reg);
               (physicAddr, desp) = MMU (TAM_MAX_SEGMENTO cfg) (tablaSegmentos (contexto c)) (atoi memAddr) realOffset
           in if physicAddr = -1 then seg_fault ''MOV_OUT'' (TAM_MAX_SEGMENTO cfg) memAddr desp realOffset c m
              else bind_res (atender_cpu m (send_movout_petition physicAddr reg realOffset)) (\<lambda>(m', r, _).
                bind_res (recv_int r) (\<lambda>_. Inr (c, m', [])))))"

text \<open>Case 0 of the switch: \<open>set\<close> and the check of its result.\<close>

definition ejecutar_set :: "string \<Rightarrow> string \<Rightarrow> cpu \<Rightarrow> memoria \<Rightarrow> efecto" where
  "ejecutar_set regName valor c m =
     (case set_reg (lista_registros c) regName valor of
        None \<Rightarrow> exit_process_error
          (''SET: No se encontr'' @ [CHR 0xC3, CHR 0xB3] @ '' el registro '' @ regName) c m
      | Some (regs, retVal) \<Rightarrow>
          (if retVal > 0
           then exit_process_error (''SET: Overflow de registro '' @ regName) (c\<lparr>lista_registros := regs\<rparr>) m
           else Inr (c\<lparr>lista_registros := regs\<rparr>, m, [])))"

section \<open>Fetch, decode, execute\<close>

definition diccionario_functionsId :: "(string, nat) dict" where
  "diccionario_functionsId =
     [(''SET'', 0), (''YIELD'', 1), (''EXIT'', 2), (''I/O'', 3), (''WAIT'', 4), (''SIGNAL'', 5),
      (''MOV_IN'', 6), (''MOV_OUT'', 7), (''F_OPEN'', 8), (''F_CLOSE'', 9), (''F_SEEK'', 10),
      (''F_READ'', 11), (''F_WRITE'', 12), (''F_TRUNCATE'', 13), (''CREATE_SEGMENT'', 14),
      (''DELETE_SEGMENT'', 15)]"

text \<open>\<open>list_remove(contexto.parametros, 0)\<close>; the NULL of an empty list is used as a string.\<close>

definition con_parametro :: "cpu \<Rightarrow> (string \<Rightarrow> cpu \<Rightarrow> efecto) \<Rightarrow> efecto" where
  "con_parametro c f = (case parametros (contexto c) of
                          [] \<Rightarrow> Inl Puntero_nulo
                        | p # ps \<Rightarrow> f p (poner_parametros ps c))"

definition interrumpir :: "efecto \<Rightarrow> efecto" where
  "interrumpir r = bind_res r (\<lambda>(c, m, bs). Inr (c\<lparr>interrupted := True\<rparr>, m, bs))"

definition ejecutar :: "commons \<Rightarrow> cpuConfig \<Rightarrow> nat \<Rightarrow> cpu \<Rightarrow> memoria \<Rightarrow> efecto" where
  "ejecutar cm cfg functionId c m =
     (if functionId = 0 then con_parametro c (\<lambda>regName c. con_parametro c (\<lambda>valor c. ejecutar_set regName valor c m))
      else if functionId = 1 then interrumpir (yield c m)
      else if functionId = 2 then interrumpir (exit_process c m)
      else if functionId = 3 then con_parametro c (\<lambda>t c. interrumpir (i_o t c m))
      else if functionId = 4 then con_parametro c (\<lambda>r c. interrumpir (wait_process r c m))
      else if functionId = 5 then con_parametro c (\<lambda>r c. interrumpir (signal_process r c m))
      else if functionId = 6 then con_parametro c (\<lambda>r c. con_parametro c (\<lambda>a c. mov_in cm cfg r a c m))
      else if functionId = 7 then con_parametro c (\<lambda>a c. con_parametro c (\<lambda>r c. mov_out cfg r a c m))
      else if functionId = 8 then con_parametro c (\<lambda>f c. interrumpir (f_open f c m))
      else if functionId = 9 then con_parametro c (\<lambda>f c. interrumpir (f_close f c m))
      else if functionId = 10 then con_parametro c (\<lambda>f c. con_parametro c (\<lambda>p c. interrumpir (f_seek f p c m)))
      else if functionId = 11 then con_parametro c (\<lambda>f c. con_parametro c (\<lambda>a c. con_parametro c (\<lambda>b c.
        interrumpir (f_read cm cfg f a b c m))))
      else if functionId = 12 then con_parametro c (\<lambda>f c. con_parametro c (\<lambda>a c. con_parametro c (\<lambda>b c.
        interrumpir (f_write cm cfg f a b c m))))
      else if functionId = 13 then con_parametro c (\<lambda>f c. con_parametro c (\<lambda>b c. interrumpir (f_truncate f b c m)))
      else if functionId = 14 then con_parametro c (\<lambda>s c. con_parametro c (\<lambda>b c. interrumpir (cpu_create_segment s b c m)))
      else if functionId = 15 then con_parametro c (\<lambda>s c. interrumpir (cpu_delete_segment s c m))
      else Inl Salida)"

text \<open>\<open>list_get\<close> past the end gives NULL, and \<open>string_split\<close> reads it.\<close>

definition fetch :: "cpu \<Rightarrow> (string \<times> cpu) res" where
  "fetch c = (let ctx = contexto c; pc = program_counter ctx
     in if 0 \<le> pc \<and> pc < int (length (instrucciones ctx))
        then Inr (instrucciones ctx ! nat pc, c\<lparr>contexto := ctx\<lparr>program_counter := pc + 1\<rparr>\<rparr>)
        else Inl Puntero_nulo)"

definition ciclo :: "commons \<Rightarrow> cpuConfig \<Rightarrow> cpu \<Rightarrow> memoria \<Rightarrow> efecto" where
  "ciclo cm cfg c m = bind_res (fetch c) (\<lambda>(cadenaOp, c1).
     case string_split cm cadenaOp '' '' of
       [] \<Rightarrow> Inl Puntero_nulo
     | instrToken # operandos \<Rightarrow>
         (let c2 = poner_parametros (parametros (contexto c1) @ operandos) c1
          in case dictionary_get diccionario_functionsId instrToken of
               None \<Rightarrow> exit_process_error (''No se reconoci'' @ [CHR 0xC3, CHR 0xB3] @ '' la instrucci''
                          @ [CHR 0xC3, CHR 0xB3] @ ''n '' @ instrToken) c2 m
             | Some functionId \<Rightarrow> ejecutar cm cfg functionId c2 m))"

partial_function (option) cpu_bucle :: "commons \<Rightarrow> cpuConfig \<Rightarrow> cpu \<Rightarrow> memoria \<Rightarrow> byte list \<Rightarrow> efecto option" where
  "cpu_bucle cm cfg c m enviado =
     (if interrupted c then Some (Inr (c, m, enviado))
      else case ciclo cm cfg c m of
             Inl e \<Rightarrow> Some (Inl e)
           | Inr (c', m', bs) \<Rightarrow> cpu_bucle cm cfg c' m' (enviado @ bs))"

declare cpu_bucle.simps [code]

section \<open>One context of the kernel\<close>

primrec leer_c_strs :: "byte list list \<Rightarrow> string list res" where
  "leer_c_strs [] = Inr []"
| "leer_c_strs (b # bs) = bind_res (leer_c_str b) (\<lambda>s. bind_res (leer_c_strs bs) (\<lambda>ss. Inr (s # ss)))"

definition cargar_contexto :: "execContext \<Rightarrow> (execContext \<times> nat list) res" where
  "cargar_contexto recibido =
     bind_res (leer_c_strs (instrucciones recibido)) (\<lambda>instr.
     bind_res (leer_c_strs (registros recibido)) (\<lambda>regs.
     bind_res (leer_c_strs (parametros recibido)) (\<lambda>params.
       Inr (recibido\<lparr>instrucciones := instr, registros := regs, parametros := params\<rparr>,
            map length (registros recibido)))))"

text \<open>One iteration of \<open>while(1)\<close> of \<open>main\<close>, with the registers the CPU has by then.\<close>

definition cpu_atender :: "commons \<Rightarrow> cpuConfig \<Rightarrow> string list \<Rightarrow> memoria \<Rightarrow> byte list
                           \<Rightarrow> (cpu \<times> memoria \<times> byte list) res option" where
  "cpu_atender cm cfg regs m s =
     (case bind_res (recibir_operacion s) (\<lambda>(cod_op, s1).
             if cod_op = op_num RUNNING then
               bind_res (recibir_paquete_contexto s1) (\<lambda>(recibido, _).
               bind_res (cargar_contexto recibido) (\<lambda>(ctx, cs).
               bind_res (cargarRegistros regs (registros ctx)) (\<lambda>regs'.
                 Inr \<lparr>lista_registros = regs', contexto = ctx, caps = map (malloc_util cm) cs, interrupted = False\<rparr>)))
             else Inl Salida) of
        Inl e \<Rightarrow> Some (Inl e)
      | Inr c \<Rightarrow> cpu_bucle cm cfg c m [])"

end
