(* ===== verification/Cpu_Leyes.thy ===== *)
theory Cpu_Leyes
  imports Cpu_Ciclo
begin

text \<open>
  What every instruction of the CPU respects: it never touches the program or the program
  counter, keeps the sizes of the registers, and either goes on silently or interrupts the
  process after sending exactly one context to the kernel. The contract is \<open>efecto_ok\<close>;
  that the cycle ends follows from it.
\<close>

section \<open>The contract of an instruction\<close>

definition un_contexto :: "cpu \<Rightarrow> byte list \<Rightarrow> bool" where
  "un_contexto c bs \<longleftrightarrow> (if interrupted c then \<exists>motivo. bs = paquete_contexto (contexto c) (op_num motivo)
                        else bs = [])"

definition efecto_ok :: "cpu \<Rightarrow> efecto \<Rightarrow> bool" where
  "efecto_ok c r \<longleftrightarrow> (\<forall>c' m' bs. r = Inr (c', m', bs) \<longrightarrow>
     instrucciones (contexto c') = instrucciones (contexto c) \<and>
     program_counter (contexto c') = program_counter (contexto c) \<and>
     tablaSegmentos (contexto c') = tablaSegmentos (contexto c) \<and> ctx_PID (contexto c') = ctx_PID (contexto c) \<and>
     caps c' = caps c \<and>
     (regs_ok (lista_registros c) \<longrightarrow> regs_ok (lista_registros c')) \<and> un_contexto c' bs)"

lemma efecto_ok_Inl [simp]: "efecto_ok c (Inl e)"
  by (simp add: efecto_ok_def)

lemma efecto_ok_bind: "(\<And>x. r = Inr x \<Longrightarrow> efecto_ok c (f x)) \<Longrightarrow> efecto_ok c (bind_res r f)"
  by (cases r) simp_all

text \<open>A change of the parameters or of the saved registers does not matter to the contract.\<close>

definition igual_salvo_datos :: "cpu \<Rightarrow> cpu \<Rightarrow> bool" where
  "igual_salvo_datos c c1 \<longleftrightarrow> instrucciones (contexto c1) = instrucciones (contexto c) \<and>
     program_counter (contexto c1) = program_counter (contexto c) \<and>
     tablaSegmentos (contexto c1) = tablaSegmentos (contexto c) \<and> ctx_PID (contexto c1) = ctx_PID (contexto c) \<and>
     caps c1 = caps c \<and> (regs_ok (lista_registros c) \<longrightarrow> regs_ok (lista_registros c1))"

lemma efecto_ok_trans: "igual_salvo_datos c c1 \<Longrightarrow> efecto_ok c1 r \<Longrightarrow> efecto_ok c r"
  by (simp add: efecto_ok_def igual_salvo_datos_def)

lemma igual_poner_parametros: "igual_salvo_datos c (poner_parametros ps c)"
  by (simp add: igual_salvo_datos_def poner_parametros_def)

lemma interrupted_poner [simp]: "interrupted (poner_parametros ps c) = interrupted c"
  "lista_registros (poner_parametros ps c) = lista_registros c"
  by (simp_all add: poner_parametros_def)

lemma igual_guardar: "guardar_registros c = Inr c1 \<Longrightarrow> igual_salvo_datos c c1"
  by (auto simp: guardar_registros_def igual_salvo_datos_def bind_res_Inr_iff)

lemma exit_process_error_ok: "efecto_ok c (exit_process_error msj c m)"
  by (auto simp: exit_process_error_def efecto_ok_def un_contexto_def poner_parametros_def Let_def
      simp del: op_num.simps)

lemma seg_fault_ok: "efecto_ok c (seg_fault i tm la d t c m)"
  by (simp add: seg_fault_def exit_process_error_ok)

text \<open>An instruction that always interrupts after sending the context.\<close>

lemma interrumpir_ok:
  assumes "\<And>c' m' bs. r = Inr (c', m', bs) \<Longrightarrow>
     igual_salvo_datos c c' \<and> (\<exists>motivo. bs = paquete_contexto (contexto c') (op_num motivo))"
  shows "efecto_ok c (interrumpir r)"
  using assms by (auto simp: interrumpir_def efecto_ok_def un_contexto_def igual_salvo_datos_def bind_res_Inr_iff)

lemma devolver_ok:
  assumes "\<And>c1. igual_salvo_datos c c1 \<Longrightarrow> igual_salvo_datos c (f c1)"
  shows "efecto_ok c (interrumpir (devolver motivo f c m))"
  by (rule interrumpir_ok)
    (auto simp: devolver_def bind_res_Inr_iff enviar_contexto_def intro!: assms dest: igual_guardar)

lemma igual_trans: "igual_salvo_datos c c1 \<Longrightarrow> igual_salvo_datos c1 c2 \<Longrightarrow> igual_salvo_datos c c2"
  by (simp add: igual_salvo_datos_def)

lemma devolver_parametros_ok: "efecto_ok c (interrumpir (devolver motivo (\<lambda>c. poner_parametros (f c) c) c m))"
  by (rule devolver_ok) (blast intro: igual_trans igual_poner_parametros)

lemmas syscall_defs = yield_def exit_process_def i_o_def wait_process_def signal_process_def f_open_def
  f_close_def f_seek_def f_truncate_def cpu_create_segment_def cpu_delete_segment_def

lemma syscalls_ok:
  "efecto_ok c (interrumpir (yield c m))" "efecto_ok c (interrumpir (exit_process c m))"
  "efecto_ok c (interrumpir (i_o a c m))" "efecto_ok c (interrumpir (wait_process a c m))"
  "efecto_ok c (interrumpir (signal_process a c m))" "efecto_ok c (interrumpir (f_open a c m))"
  "efecto_ok c (interrumpir (f_close a c m))" "efecto_ok c (interrumpir (f_seek a b c m))"
  "efecto_ok c (interrumpir (f_truncate a b c m))" "efecto_ok c (interrumpir (cpu_create_segment a b c m))"
  "efecto_ok c (interrumpir (cpu_delete_segment a c m))"
  unfolding syscall_defs
  by (rule devolver_ok devolver_parametros_ok devolver_parametros_ok [where f = "\<lambda>_. ps" for ps], assumption?)+

lemma f_acceso_ok: "efecto_ok c (interrumpir (f_acceso mot n cm cfg f a b c m))"
proof (rule interrumpir_ok)
  fix c' m' bs
  assume r: "f_acceso mot n cm cfg f a b c m = Inr (c', m', bs)"
  then obtain c1 where c1: "guardar_registros c = Inr c1"
    by (auto simp: f_acceso_def bind_res_Inr_iff)
  obtain pa d where mmu: "MMU (TAM_MAX_SEGMENTO cfg) (tablaSegmentos (contexto c1)) (atoi a) (atoi b) = (pa, d)"
    by fastforce
  have i: "igual_salvo_datos c c1" by (rule igual_guardar [OF c1])
  have "igual_salvo_datos c1 c' \<and> (\<exists>motivo. bs = paquete_contexto (contexto c') (op_num motivo))"
  proof (cases "pa = -1")
    case True
    then show ?thesis
      using r c1 mmu by (auto simp: f_acceso_def seg_fault_def exit_process_error_def Let_def
          igual_salvo_datos_def poner_parametros_def simp del: op_num.simps)
  next
    case False
    then show ?thesis
      using r c1 mmu by (auto simp: f_acceso_def enviar_contexto_def igual_salvo_datos_def poner_parametros_def
          simp del: op_num.simps)
  qed
  then show "igual_salvo_datos c c' \<and> (\<exists>motivo. bs = paquete_contexto (contexto c') (op_num motivo))"
    using igual_trans [OF i] by blast
qed

lemma set_reg_regs_ok: "set_reg regs r v = Some (regs', n) \<Longrightarrow> regs_ok regs \<Longrightarrow> regs_ok regs'"
  by (auto simp: set_reg_def Let_def regs_ok_update split: option.splits)

lemma ejecutar_set_ok: "\<not> interrupted c \<Longrightarrow> efecto_ok c (ejecutar_set r v c m)"
proof (cases "set_reg (lista_registros c) r v")
  case (Some p)
  obtain regs n where p: "p = (regs, n)" by fastforce
  assume "\<not> interrupted c"
  have ig: "igual_salvo_datos c (c\<lparr>lista_registros := regs\<rparr>)"
    using Some p set_reg_regs_ok by (auto simp: igual_salvo_datos_def)
  show ?thesis
  proof (cases "n > 0")
    case True
    then have "ejecutar_set r v c m
        = exit_process_error (''SET: Overflow de registro '' @ r) (c\<lparr>lista_registros := regs\<rparr>) m"
      by (simp add: ejecutar_set_def Some p)
    then show ?thesis by (simp only:) (rule efecto_ok_trans [OF ig exit_process_error_ok])
  next
    case False
    then have "ejecutar_set r v c m = Inr (c\<lparr>lista_registros := regs\<rparr>, m, [])"
      by (simp add: ejecutar_set_def Some p)
    then show ?thesis using ig \<open>\<not> interrupted c\<close>
      by (simp add: efecto_ok_def igual_salvo_datos_def un_contexto_def)
  qed
qed (simp add: ejecutar_set_def exit_process_error_ok)

lemma mov_in_ok:
  assumes "\<not> interrupted c"
  shows "efecto_ok c (mov_in cm cfg r a c m)"
proof (cases "registro_de r")
  case (Some i)
  obtain pa d where mmu: "MMU (TAM_MAX_SEGMENTO cfg) (tablaSegmentos (contexto c)) (atoi a)
      (int (length (lista_registros c ! i))) = (pa, d)" by fastforce
  show ?thesis
  proof (cases "pa = -1")
    case True
    then show ?thesis by (simp add: mov_in_def Some mmu Let_def seg_fault_ok)
  next
    case False
    then show ?thesis
      using assms set_reg_regs_ok
      by (auto simp: mov_in_def Some mmu Let_def efecto_ok_def un_contexto_def bind_res_Inr_iff
          split: if_splits option.splits)
  qed
qed (simp add: mov_in_def)

lemma mov_out_ok:
  assumes "\<not> interrupted c"
  shows "efecto_ok c (mov_out cfg r a c m)"
proof (cases "registro_de r")
  case (Some i)
  obtain pa d where mmu: "MMU (TAM_MAX_SEGMENTO cfg) (tablaSegmentos (contexto c)) (atoi a)
      (int (length (lista_registros c ! i))) = (pa, d)" by fastforce
  show ?thesis
  proof (cases "pa = -1")
    case True
    then show ?thesis by (simp add: mov_out_def Some mmu Let_def seg_fault_ok)
  next
    case False
    then show ?thesis
      using assms
      by (auto simp: mov_out_def Some mmu Let_def efecto_ok_def un_contexto_def bind_res_Inr_iff)
  qed
qed (simp add: mov_out_def exit_process_error_ok)

lemma con_parametro_ok:
  assumes "\<not> interrupted c" "\<And>p c1. \<not> interrupted c1 \<Longrightarrow> efecto_ok c1 (f p c1)"
  shows "efecto_ok c (con_parametro c f)"
  using assms(1) efecto_ok_trans [OF igual_poner_parametros assms(2)]
  by (auto simp: con_parametro_def split: list.split)

lemma ejecutar_ok:
  assumes "\<not> interrupted c"
  shows "efecto_ok c (ejecutar cm cfg n c m)"
  unfolding ejecutar_def f_read_def f_write_def
  using assms
  by (auto intro!: con_parametro_ok syscalls_ok f_acceso_ok ejecutar_set_ok mov_in_ok mov_out_ok)

section \<open>The cycle\<close>

lemma ciclo_ok:
  assumes i: "\<not> interrupted c" and r: "ciclo cm cfg c m = Inr (c', m', bs)"
  shows "0 \<le> program_counter (contexto c)" "program_counter (contexto c) < int (length (instrucciones (contexto c)))"
    "instrucciones (contexto c') = instrucciones (contexto c)"
    "program_counter (contexto c') = program_counter (contexto c) + 1"
    "tablaSegmentos (contexto c') = tablaSegmentos (contexto c)" "ctx_PID (contexto c') = ctx_PID (contexto c)"
    "caps c' = caps c" "regs_ok (lista_registros c) \<Longrightarrow> regs_ok (lista_registros c')" "un_contexto c' bs"
proof -
  obtain op c1 where f: "fetch c = Inr (op, c1)" using r by (auto simp: ciclo_def bind_res_Inr_iff)
  then have pc: "0 \<le> program_counter (contexto c)"
    "program_counter (contexto c) < int (length (instrucciones (contexto c)))"
    and c1: "c1 = c\<lparr>contexto := (contexto c)\<lparr>program_counter := program_counter (contexto c) + 1\<rparr>\<rparr>"
    by (auto simp: fetch_def Let_def split: if_splits)
  have i1: "\<not> interrupted c1" using i by (simp add: c1)
  have "efecto_ok c1 (Inr (c', m', bs))"
  proof (cases "string_split cm op '' ''")
    case Nil
    then show ?thesis using r f by (simp add: ciclo_def)
  next
    case (Cons tok ops)
    let ?c2 = "poner_parametros (parametros (contexto c1) @ ops) c1"
    have ok: "efecto_ok ?c2 (Inr (c', m', bs))"
    proof (cases "dictionary_get diccionario_functionsId tok")
      case None
      have eq: "Inr (c', m', bs) = exit_process_error (''No se reconoci'' @ [CHR 0xC3, CHR 0xB3]
          @ '' la instrucci'' @ [CHR 0xC3, CHR 0xB3] @ ''n '' @ tok) ?c2 m"
        using r f Cons None by (simp add: ciclo_def Let_def)
      show ?thesis unfolding eq by (rule exit_process_error_ok)
    next
      case (Some n)
      have eq: "Inr (c', m', bs) = ejecutar cm cfg n ?c2 m"
        using r f Cons Some by (simp add: ciclo_def Let_def)
      show ?thesis unfolding eq by (rule ejecutar_ok) (simp add: i1)
    qed
    then show ?thesis by (rule efecto_ok_trans [OF igual_poner_parametros])
  qed
  then show "instrucciones (contexto c') = instrucciones (contexto c)"
    "program_counter (contexto c') = program_counter (contexto c) + 1"
    "tablaSegmentos (contexto c') = tablaSegmentos (contexto c)" "ctx_PID (contexto c') = ctx_PID (contexto c)"
    "caps c' = caps c" "regs_ok (lista_registros c) \<Longrightarrow> regs_ok (lista_registros c')" "un_contexto c' bs"
    by (simp_all add: efecto_ok_def c1)
  show "0 \<le> program_counter (contexto c)"
    "program_counter (contexto c) < int (length (instrucciones (contexto c)))" by (rule pc)+
qed

end
