(* ===== verification/Mem_Propiedades.thy ===== *)
theory Mem_Propiedades
  imports Mem_Servidor
begin

text \<open>
  What the memory module promises, stated over the service loops: which requests it answers,
  what the kernel reads back, that segments never overlap, and what compaction does. The
  small memory \<open>mem_ej\<close> (40 bytes, one process, one hole below its second segment) is where
  the statements are evaluated.
\<close>

section \<open>The answer fits in a packet\<close>

lemma vivos_ocupado:
  assumes "\<forall>s. Some s \<in> set st \<longrightarrow> 0 < seg_limite s"
  shows "int (length (filter (\<lambda>o'. o' \<noteq> None) st)) \<le> ocupado st"
  using assms by (induction st) (auto simp: ocupado_def split: option.splits)

lemma tabla_de_ok:
  assumes ok: "mem_ok cfg m" and T: "TAM_MEMORIA cfg \<le> 178956969"
  shows "tabla_ok (tabla_de m k)"
proof (cases "dictionary_get (diccionario_tablas m) k")
  case (Some t)
  note D = mem_okD [OF ok]
  obtain r where r: "t = 0 # r" "set r \<subseteq> vivos (segmentos m)" "distinct r"
    by (rule tablas_ok_tabla [OF D(6) Some])
  have "length r = card (set r)" using r(3) by (simp add: distinct_card)
  also have "\<dots> \<le> card {a. a < length (segmentos m) \<and> segmentos m ! a \<noteq> None}"
    using r(2) by (intro card_mono) (auto simp: vivos_def)
  also have "\<dots> = length (filter (\<lambda>o'. o' \<noteq> None) (segmentos m))"
    by (simp add: length_filter_conv_card)
  finally have "int (length r) \<le> ocupado (segmentos m)"
    using vivos_ocupado [of "segmentos m"] D(3) by (auto simp: segmentos_ok_def)
  moreover have "0 \<le> suma h_size (huecos_libres m)"
    using huecos_okD(1) [OF D(2)] by (intro suma_nonneg) (blast intro: less_imp_le)
  moreover have "suma h_size (huecos_libres m) + ocupado (segmentos m) = TAM_MEMORIA cfg"
    using D(1) by (intro particion_total [OF D(4,2,3)]) simp
  ultimately have "int (length r) \<le> TAM_MEMORIA cfg" by linarith
  then have l: "int32_ok (4 + 12 * int (length (tabla_de m k)))"
    using T by (simp add: tabla_de_def Some r(1) int32_ok_def)
  have "segmento_ok (the (segmentos m ! a))" if a: "a \<in> set t" for a
  proof -
    have "a < length (segmentos m)" "segmentos m ! a \<noteq> None"
      using a r(1,2) D(3) by (auto simp: segmentos_ok_def vivos_def)
    then obtain s where s: "Some s \<in> set (segmentos m)" "segmentos m ! a = Some s"
      using nth_mem by force
    then have "0 < seg_limite s" "int32_ok (seg_ID s)" using D(3) by (auto simp: segmentos_ok_def)
    with particion_rango_segmento [OF D(4) s(1)] D(7) show ?thesis
      by (simp add: s(2) segmento_ok_def int32_ok_def)
  qed
  then show ?thesis using l by (auto simp: tabla_ok_def tabla_de_def Some)
qed (simp add: tabla_de_def tabla_ok_def)

lemma tabla_de_positivo:
  assumes ok: "mem_ok cfg m" and t: "dictionary_get (diccionario_tablas m) k = Some t"
    and j: "j < length (tabla_de m k)"
  shows "0 < seg_limite (tabla_de m k ! j)"
proof -
  note D = mem_okD [OF ok]
  obtain r where r: "t = 0 # r" "set r \<subseteq> vivos (segmentos m)" by (rule tablas_ok_tabla [OF D(6) t])
  have jt: "j < length t" using j by (simp add: tabla_de_def t)
  have "t ! j < length (segmentos m)" "segmentos m ! (t ! j) \<noteq> None"
    using nth_mem [OF jt] r D(3) by (auto simp: segmentos_ok_def vivos_def)
  then obtain s where "Some s \<in> set (segmentos m)" "segmentos m ! (t ! j) = Some s"
    using nth_mem by force
  then show ?thesis using D(3) jt by (auto simp: segmentos_ok_def tabla_de_def t)
qed

section \<open>A small memory\<close>

definition cfg_ej :: memConfig where
  "cfg_ej = \<lparr>TAM_MEMORIA = 40, TAM_SEGMENTO_0 = 8, ALGORITMO_ASIGNACION = ''BEST''\<rparr>"

definition mem_ej :: "int \<Rightarrow> memoria" where
  "mem_ej l = \<lparr>user_space = replicate 12 (CHR '' '') @ ''ABCDEFGHIJ'' @ replicate 18 (CHR '' ''),
     huecos_libres = [\<lparr>h_pos = 8, h_size = 4\<rparr>, \<lparr>h_pos = 12 + l, h_size = 28 - l\<rparr>],
     segmentos = [Some \<lparr>seg_ID = 0, seg_base = 0, seg_limite = 8\<rparr>,
                  Some \<lparr>seg_ID = 1, seg_base = 12, seg_limite = l\<rparr>],
     tabla_inicial = [0], diccionario_tablas = [(''7'', [0, 1])]\<rparr>"

lemma cfg_ej_ok: "cfg_ok cfg_ej" "algoritmo_ok (ALGORITMO_ASIGNACION cfg_ej)" "TAM_MEMORIA cfg_ej = 40"
  by (simp_all add: cfg_ok_def cfg_ej_def algoritmo_ok_def)

lemma mem_ej_ok:
  assumes "0 < l" "l \<le> 10"
  shows "mem_ok cfg_ej (mem_ej l)"
  unfolding mem_ok_def mem_ok_con_def
proof (intro conjI)
  show "huecos_ok (huecos_libres (mem_ej l))"
    using assms by (auto simp: mem_ej_def huecos_ok_def cubre_h_def ocupa_def)
  show "segmentos_ok (segmentos (mem_ej l))"
    using assms by (auto simp: mem_ej_def segmentos_ok_def)
  show "particion (TAM_MEMORIA cfg_ej) (huecos_libres (mem_ej l)) (segmentos (mem_ej l))"
    using assms by (auto simp: mem_ej_def cfg_ej_def particion_def cubre_h_def cubre_s_def ocupa_def)
  have "vivos (segmentos (mem_ej l)) = {1}"
    by (auto simp: mem_ej_def vivos_def less_Suc_eq)
  then show "tablas_ok (diccionario_tablas (mem_ej l)) [] (segmentos (mem_ej l))"
    by (simp add: tablas_ok_def propias_def) (simp add: mem_ej_def dict_ok_def)
qed (simp_all add: mem_ej_def cfg_ej_def)

lemma string_itoa_ej: "string_itoa commons_ej 7 = ''7''"
  by code_simp

section \<open>Serving requests\<close>

text \<open>
  C6. Every permitted request, from the kernel, the CPU or the file system, is answered in
  one iteration of its service loop (compaction included: its loop ends), consumes exactly
  its own bytes of the socket, and leaves the memory well formed: holes and live segments
  partition the memory, no two holes touch, and each live segment but segment 0 is in exactly
  one table.
\<close>

theorem memoria_atiende:
  assumes "commons_ok cm" "algoritmo_ok (ALGORITMO_ASIGNACION cfg)" "mem_ok cfg m" "permitida cm cfg m p"
  shows "\<exists>m' r. atender cm cfg m p rest = Some (Inr (m', r, rest)) \<and> mem_ok cfg m'"
  by (rule atender_progreso [OF assms])

theorem memoria_atiende_witness:
  "\<exists>m' r. atender commons_ej cfg_ej (mem_ej 10) (Borrar 7 1) ''xyz'' = Some (Inr (m', r, ''xyz''))
     \<and> mem_ok cfg_ej m'"
  by (rule memoria_atiende [OF commons_ej_ok cfg_ej_ok(2) mem_ej_ok])
    (simp_all add: string_itoa_ej tabla_de_def, simp add: mem_ej_def dictionary_get_def)

text \<open>
  C8. In every state the module can reach from its start by permitted requests of its three
  clients (a creation has a positive size, and the process of a request has a table), in any
  order, two different live segments never share a byte, every segment lies inside the memory,
  and free and occupied bytes add up to \<open>TAM_MEMORIA\<close>. The module does not check the size: a
  creation with one that is not positive is accepted, and is outside this statement.
\<close>

theorem segmentos_no_se_solapan:
  assumes "mem_alcanzable cm cfg m" "commons_ok cm" "cfg_ok cfg"
    and "a < length (segmentos m)" "segmentos m ! a = Some s"
    and "b < length (segmentos m)" "segmentos m ! b = Some s'" "a \<noteq> b"
  shows "0 \<le> seg_base s \<and> seg_base s + seg_limite s \<le> TAM_MEMORIA cfg \<and>
    (seg_base s + seg_limite s \<le> seg_base s' \<or> seg_base s' + seg_limite s' \<le> seg_base s) \<and>
    suma_huecos (huecos_libres m) + ocupado (segmentos m) = TAM_MEMORIA cfg"
proof -
  note D = mem_okD [OF mem_alcanzable_ok [OF assms(1-3)]]
  have "Some s \<in> set (segmentos m)" "Some s' \<in> set (segmentos m)"
    using nth_mem [OF assms(4)] nth_mem [OF assms(6)] assms(5,7) by simp_all
  then have l: "0 < seg_limite s" "0 < seg_limite s'" and s: "Some s \<in> set (segmentos m)"
    using D(3) by (auto simp: segmentos_ok_def)
  have "0 \<le> TAM_MEMORIA cfg" using D(1) by simp
  with particion_rango_segmento [OF D(4) s l(1)] segmentos_disjuntos [OF D(4) assms(4-8) l]
    particion_total [OF D(4,2,3)] show ?thesis by (simp add: suma_huecos_suma)
qed

text \<open>The state after the start, the announcement of process 7 and its first segment.\<close>

definition mem_ej_creada :: memoria where
  "mem_ej_creada = \<lparr>user_space = replicate 40 (CHR '' ''),
     huecos_libres = [\<lparr>h_pos = 18, h_size = 22\<rparr>],
     segmentos = [Some \<lparr>seg_ID = 0, seg_base = 0, seg_limite = 8\<rparr>,
                  Some \<lparr>seg_ID = 1, seg_base = 8, seg_limite = 10\<rparr>],
     tabla_inicial = [0], diccionario_tablas = [(''7'', [0, 1])]\<rparr>"

lemma mem_inicial_ej: "mem_inicial commons_ej cfg_ej = Inr
  \<lparr>user_space = replicate 40 (CHR '' ''), huecos_libres = [\<lparr>h_pos = 8, h_size = 32\<rparr>],
     segmentos = [Some \<lparr>seg_ID = 0, seg_base = 0, seg_limite = 8\<rparr>],
     tabla_inicial = [0], diccionario_tablas = []\<rparr>"
  by code_simp

lemma mem_ej_creada_alcanzable: "mem_alcanzable commons_ej cfg_ej mem_ej_creada"
proof -
  let ?m0 = "\<lparr>user_space = replicate 40 (CHR '' ''), huecos_libres = [\<lparr>h_pos = 8, h_size = 32\<rparr>],
     segmentos = [Some \<lparr>seg_ID = 0, seg_base = 0, seg_limite = 8\<rparr>],
     tabla_inicial = [0], diccionario_tablas = []\<rparr>"
  let ?m1 = "?m0\<lparr>diccionario_tablas := [(''7'', [0])]\<rparr>"
  have 0: "mem_alcanzable commons_ej cfg_ej ?m0" by (rule inicio [OF mem_inicial_ej])
  have "mem_create_segment commons_ej cfg_ej ?m0 ''7'' 0 0
      = Inr (?m1, send_tabla_segmentos [\<lparr>seg_ID = 0, seg_base = 0, seg_limite = 8\<rparr>] 0)"
    by (simp add: mem_create_segment_def segmento_en_def dictionary_put_def)
  then have 1: "mem_alcanzable commons_ej cfg_ej ?m1"
    by (intro mem_alcanzable.paso [OF 0, of "Crear 7 0 0" "[]"]) (simp_all add: atender_crear string_itoa_ej del: atender.simps)
  have "mem_create_segment commons_ej cfg_ej ?m1 ''7'' 1 10 = Inr (mem_ej_creada,
      send_tabla_segmentos [\<lparr>seg_ID = 0, seg_base = 0, seg_limite = 8\<rparr>,
        \<lparr>seg_ID = 1, seg_base = 8, seg_limite = 10\<rparr>] 0)"
    by code_simp
  then show ?thesis
    by (intro mem_alcanzable.paso [OF 1, of "Crear 7 1 10" "[]"]) (simp_all add: atender_crear string_itoa_ej del: atender.simps)
qed

theorem segmentos_no_se_solapan_witness:
  "(0 :: int) \<le> 0 \<and> 0 + 8 \<le> TAM_MEMORIA cfg_ej \<and> ((0 :: int) + 8 \<le> 8 \<or> (8 :: int) + 10 \<le> 0) \<and>
   suma_huecos (huecos_libres mem_ej_creada) + ocupado (segmentos mem_ej_creada) = TAM_MEMORIA cfg_ej"
  using segmentos_no_se_solapan [OF mem_ej_creada_alcanzable commons_ej_ok cfg_ej_ok(1), of 0
      "\<lparr>seg_ID = 0, seg_base = 0, seg_limite = 8\<rparr>" 1 "\<lparr>seg_ID = 1, seg_base = 8, seg_limite = 10\<rparr>"]
  by (simp add: mem_ej_creada_def)

section \<open>Segments\<close>

lemma crear_segmento_ok:
  assumes cm: "commons_ok cm" and alg: "algoritmo_ok (ALGORITMO_ASIGNACION cfg)" and ok: "mem_ok cfg m"
    and T: "TAM_MEMORIA cfg \<le> 178956969"
    and k: "dictionary_get (diccionario_tablas m) (string_itoa cm PID) = Some t"
    and i: "int32_ok PID" "int32_ok segID" "int32_ok tam" "0 < tam"
  shows "\<exists>m' r flag. atender cm cfg m (Crear PID segID tam) rest = Some (Inr (m', r, rest)) \<and> mem_ok cfg m' \<and>
    recv_tabla_segmentos (r @ s) = Inr ((flag, tabla_de m' (string_itoa cm PID)), s) \<and>
    (\<forall>k. k \<noteq> string_itoa cm PID \<longrightarrow> tabla_de m' k = tabla_de m k) \<and>
    (if \<exists>h \<in> set (huecos_libres m). tam \<le> h_size h then
       flag = 0 \<and> (\<exists>h \<in> set (huecos_libres m). tam \<le> h_size h \<and> tabla_de m' (string_itoa cm PID)
         = tabla_de m (string_itoa cm PID) @ [\<lparr>seg_ID = segID, seg_base = h_pos h, seg_limite = tam\<rparr>])
     else flag = (if tam \<le> suma_huecos (huecos_libres m) then 1 else -1) \<and>
       tabla_de m' (string_itoa cm PID) = tabla_de m (string_itoa cm PID))"
proof -
  let ?k = "string_itoa cm PID"
  note tab = tabla_de_ok [OF _ T]
  show ?thesis
  proof (cases rule: calloc_casos [OF cm alg, of m tam t segID])
    case (1 j)
    obtain m' where m': "mem_create_segment cm cfg m ?k segID tam
        = Inr (m', send_tabla_segmentos (tabla_de m' ?k) 0)" "mem_ok cfg m'"
      "tabla_de m' ?k = tabla_de m ?k @
         [\<lparr>seg_ID = segID, seg_base = h_pos (huecos_libres m ! j), seg_limite = tam\<rparr>]"
      "\<forall>k. k \<noteq> ?k \<longrightarrow> tabla_de m' k = tabla_de m k"
      by (rule mem_create_creado [OF cm ok k i(2,4) 1(1,2,4)])
    have "\<exists>h \<in> set (huecos_libres m). tam \<le> h_size h \<and> tabla_de m' ?k
         = tabla_de m ?k @ [\<lparr>seg_ID = segID, seg_base = h_pos h, seg_limite = tam\<rparr>]"
      using m'(3) 1(1,2) nth_mem by blast
    then show ?thesis
      using m' recv_tabla_ok [OF tab [OF m'(2)], of 0 ?k s]
      by (intro exI [of _ m'] exI [of _ "send_tabla_segmentos (tabla_de m' ?k) 0"] exI [of _ 0])
        (simp add: atender_crear [OF i(1-3)] del: atender.simps, blast)
  next
    case 2
    obtain m' where m': "mem_create_segment cm cfg m ?k segID tam
        = Inr (m', send_tabla_segmentos (tabla_de m' ?k) 1)" "mem_ok cfg m'"
      "huecos_libres m' = huecos_libres m" "tabla_de m' = tabla_de m"
      by (rule mem_create_sin_hueco [OF ok k 2(3)])
    have "\<not> (\<exists>h \<in> set (huecos_libres m). tam \<le> h_size h)" using 2(1) by (simp add: not_le)
    then show ?thesis
      using m' 2(2) recv_tabla_ok [OF tab [OF m'(2)], of 1 ?k s]
      by (intro exI [of _ m'] exI [of _ "send_tabla_segmentos (tabla_de m' ?k) 1"] exI [of _ 1])
        (simp add: atender_crear [OF i(1-3)] suma_huecos_suma del: atender.simps)
  next
    case 3
    obtain m' where m': "mem_create_segment cm cfg m ?k segID tam
        = Inr (m', send_tabla_segmentos (tabla_de m' ?k) (-1))" "mem_ok cfg m'"
      "huecos_libres m' = huecos_libres m" "tabla_de m' = tabla_de m"
      by (rule mem_create_sin_hueco [OF ok k 3(3)])
    have "\<not> (\<exists>h \<in> set (huecos_libres m). tam \<le> h_size h)" using 3(1) by (simp add: not_le)
    then show ?thesis
      using m' 3(2) recv_tabla_ok [OF tab [OF m'(2)], of "-1" ?k s]
      by (intro exI [of _ m'] exI [of _ "send_tabla_segmentos (tabla_de m' ?k) (-1)"] exI [of _ "-1"])
        (simp add: atender_crear [OF i(1-3)] suma_huecos_suma del: atender.simps)
  qed
qed

text \<open>
  C22. \<open>CREATE_SEGMENT\<close> of a process with a table: the kernel reads back the flag and the table
  of the process. The flag is 0 exactly when some hole fits, and then the table ends with the
  new segment, at the start of a hole that fits; it is 1 when only the sum of the holes is
  enough, and -1 when not even that, and then no table changes. Other tables never change.
\<close>

theorem crear_segmento_resultado:
  assumes cm: "commons_ok cm" and alg: "algoritmo_ok (ALGORITMO_ASIGNACION cfg)" and ok: "mem_ok cfg m"
    and T: "TAM_MEMORIA cfg \<le> 178956969"
    and k: "dictionary_get (diccionario_tablas m) (string_itoa cm PID) = Some t"
    and i: "int32_ok PID" "int32_ok segID" "int32_ok tam" "0 < tam"
  shows "\<exists>m' r flag. atender cm cfg m (Crear PID segID tam) rest = Some (Inr (m', r, rest)) \<and> mem_ok cfg m' \<and>
    recv_tabla_segmentos (r @ s) = Inr ((flag, tabla_de m' (string_itoa cm PID)), s) \<and>
    (\<forall>k. k \<noteq> string_itoa cm PID \<longrightarrow> tabla_de m' k = tabla_de m k) \<and>
    (if \<exists>h \<in> set (huecos_libres m). tam \<le> h_size h then
       flag = 0 \<and> (\<exists>h \<in> set (huecos_libres m). tam \<le> h_size h \<and> tabla_de m' (string_itoa cm PID)
         = tabla_de m (string_itoa cm PID) @ [\<lparr>seg_ID = segID, seg_base = h_pos h, seg_limite = tam\<rparr>])
     else flag = (if tam \<le> suma_huecos (huecos_libres m) then 1 else -1) \<and>
       tabla_de m' (string_itoa cm PID) = tabla_de m (string_itoa cm PID))"
  by (rule crear_segmento_ok [OF assms])

lemma mem_ej_get: "dictionary_get (diccionario_tablas (mem_ej l)) (string_itoa commons_ej 7) = Some [0, 1]"
  unfolding string_itoa_ej by (simp add: mem_ej_def dictionary_get_def)

theorem crear_segmento_resultado_witness:
  "\<exists>m' r flag. atender commons_ej cfg_ej (mem_ej 10) (Crear 7 2 20) ''q'' = Some (Inr (m', r, ''q''))
     \<and> mem_ok cfg_ej m' \<and>
    recv_tabla_segmentos (r @ ''z'') = Inr ((flag, tabla_de m' (string_itoa commons_ej 7)), ''z'') \<and>
    (\<forall>k. k \<noteq> string_itoa commons_ej 7 \<longrightarrow> tabla_de m' k = tabla_de (mem_ej 10) k) \<and>
    (if \<exists>h \<in> set (huecos_libres (mem_ej 10)). 20 \<le> h_size h then
       flag = 0 \<and> (\<exists>h \<in> set (huecos_libres (mem_ej 10)). 20 \<le> h_size h
         \<and> tabla_de m' (string_itoa commons_ej 7) = tabla_de (mem_ej 10) (string_itoa commons_ej 7)
             @ [\<lparr>seg_ID = 2, seg_base = h_pos h, seg_limite = 20\<rparr>])
     else flag = (if 20 \<le> suma_huecos (huecos_libres (mem_ej 10)) then 1 else -1) \<and>
       tabla_de m' (string_itoa commons_ej 7) = tabla_de (mem_ej 10) (string_itoa commons_ej 7))"
  by (rule crear_segmento_resultado [OF commons_ej_ok cfg_ej_ok(2) mem_ej_ok _ mem_ej_get])
    (simp_all add: cfg_ej_ok)

text \<open>
  C36. \<open>DELETE_SEGMENT\<close> of a segment the process has (not segment 0): the kernel reads back 0
  and its table without that segment, no other table changes, and exactly the bytes of the
  segment become free.
\<close>

theorem borrar_segmento_resultado:
  assumes cm: "commons_ok cm" and ok: "mem_ok cfg m" and T: "TAM_MEMORIA cfg \<le> 178956969"
    and i: "int32_ok PID" "int32_ok segID"
    and j: "find_index (\<lambda>s. seg_ID s = segID) (tabla_de m (string_itoa cm PID)) = Some (Suc j)"
  shows "\<exists>m' r. atender cm cfg m (Borrar PID segID) rest = Some (Inr (m', r, rest)) \<and> mem_ok cfg m' \<and>
    recv_tabla_segmentos (r @ s)
      = Inr ((0, remove_nth (Suc j) (tabla_de m (string_itoa cm PID))), s) \<and>
    (\<forall>k. k \<noteq> string_itoa cm PID \<longrightarrow> tabla_de m' k = tabla_de m k) \<and>
    (\<forall>x. cubre_h (huecos_libres m') x = cubre_h (huecos_libres m) x
       + ocupa (seg_base (tabla_de m (string_itoa cm PID) ! Suc j))
           (seg_limite (tabla_de m (string_itoa cm PID) ! Suc j)) x)"
proof -
  let ?k = "string_itoa cm PID"
  obtain t where t: "dictionary_get (diccionario_tablas m) ?k = Some t"
    using j by (cases "dictionary_get (diccionario_tablas m) ?k") (simp_all add: tabla_de_def)
  obtain m' where m': "mem_delete_segment m ?k segID = Inr (m', send_tabla_segmentos (tabla_de m' ?k) 0)"
    "mem_ok cfg m'" "tabla_de m' ?k = remove_nth (Suc j) (tabla_de m ?k)"
    "\<forall>k. k \<noteq> ?k \<longrightarrow> tabla_de m' k = tabla_de m k"
    "huecos_libres m' = alojar_nuevo_hueco (huecos_libres m) (seg_base (tabla_de m ?k ! Suc j))
       (seg_limite (tabla_de m ?k ! Suc j))"
    by (rule mem_delete_ok [OF ok t j])
  have "0 < seg_limite (tabla_de m ?k ! Suc j)" 
    by (rule tabla_de_positivo [OF ok t conjunct1 [OF find_index_SomeD [OF j]]])
  from cubre_alojar [OF mem_okD(2) [OF ok] this] m'
  show ?thesis
    using recv_tabla_ok [OF tabla_de_ok [OF m'(2) T], of 0 ?k s]
    by (intro exI [of _ m'] exI [of _ "send_tabla_segmentos (tabla_de m' ?k) 0"])
      (simp add: atender_borrar [OF i] del: atender.simps)
qed

theorem borrar_segmento_resultado_witness:
  "\<exists>m' r. atender commons_ej cfg_ej (mem_ej 10) (Borrar 7 1) ''q'' = Some (Inr (m', r, ''q'')) \<and>
    mem_ok cfg_ej m' \<and>
    recv_tabla_segmentos (r @ ''z'')
      = Inr ((0, remove_nth (Suc 0) (tabla_de (mem_ej 10) (string_itoa commons_ej 7))), ''z'') \<and>
    (\<forall>k. k \<noteq> string_itoa commons_ej 7 \<longrightarrow> tabla_de m' k = tabla_de (mem_ej 10) k) \<and>
    (\<forall>x. cubre_h (huecos_libres m') x = cubre_h (huecos_libres (mem_ej 10)) x
       + ocupa (seg_base (tabla_de (mem_ej 10) (string_itoa commons_ej 7) ! Suc 0))
           (seg_limite (tabla_de (mem_ej 10) (string_itoa commons_ej 7) ! Suc 0)) x)"
  by (rule borrar_segmento_resultado [OF commons_ej_ok mem_ej_ok])
    (simp_all add: cfg_ej_ok tabla_de_def mem_ej_get, simp_all add: mem_ej_def)

text \<open>
  \<open>EXIT\<close> of a process with a table: the module answers nothing, forgets the table and
  frees every segment of it but segment 0, and no other process notices.
\<close>

lemma terminar_proceso_resultado:
  assumes cm: "commons_ok cm" and ok: "mem_ok cfg m"
    and i: "int32_ok PID" "cadena_ok (string_itoa cm PID)"
    and k: "dictionary_get (diccionario_tablas m) (string_itoa cm PID) = Some t"
  shows "\<exists>m'. atender cm cfg m (Terminar PID) rest = Some (Inr (m', [], rest)) \<and> mem_ok cfg m' \<and>
    tabla_de m' (string_itoa cm PID) = [] \<and> user_space m' = user_space m \<and>
    (\<forall>k. k \<noteq> string_itoa cm PID \<longrightarrow> tabla_de m' k = tabla_de m k) \<and>
    suma_huecos (huecos_libres m') = suma_huecos (huecos_libres m)
      + suma seg_limite (tl (tabla_de m (string_itoa cm PID)))"
proof -
  obtain m' where m': "mem_exit m (string_itoa cm PID) = Inr m'" "mem_ok cfg m'"
    "diccionario_tablas m' = dictionary_remove (diccionario_tablas m) (string_itoa cm PID)"
    "user_space m' = user_space m" "suma h_size (huecos_libres m') = suma h_size (huecos_libres m)
      + suma seg_limite (tl (tabla_de m (string_itoa cm PID)))"
    "\<forall>k. k \<noteq> string_itoa cm PID \<longrightarrow> tabla_de m' k = tabla_de m k"
    by (rule mem_exit_ok [OF ok k])
  have "tabla_de m' (string_itoa cm PID) = []" by (simp add: tabla_de_def m'(3))
  then show ?thesis
    using m' by (intro exI [of _ m']) (simp add: atender_terminar [OF cm i] suma_huecos_suma del: atender.simps)
qed

lemma terminar_proceso_resultado_witness:
  "\<exists>m'. atender commons_ej cfg_ej (mem_ej 10) (Terminar 7) ''q'' = Some (Inr (m', [], ''q'')) \<and>
    mem_ok cfg_ej m' \<and>
    tabla_de m' (string_itoa commons_ej 7) = [] \<and> user_space m' = user_space (mem_ej 10) \<and>
    (\<forall>k. k \<noteq> string_itoa commons_ej 7 \<longrightarrow> tabla_de m' k = tabla_de (mem_ej 10) k) \<and>
    suma_huecos (huecos_libres m') = suma_huecos (huecos_libres (mem_ej 10))
      + suma seg_limite (tl (tabla_de (mem_ej 10) (string_itoa commons_ej 7)))"
  by (rule terminar_proceso_resultado [OF commons_ej_ok mem_ej_ok _ _ mem_ej_get])
    (simp_all add: string_itoa_ej cadena_ok_def)

section \<open>Compaction\<close>

text \<open>
  C15. Compaction ends. Afterwards all the free bytes are one hole at the top of the memory,
  every table holds the same segments with the same sizes, and the bytes sent to the kernel
  are the identifier and the table of each process, once each.
\<close>

theorem compactacion_termina:
  assumes cm: "commons_ok cm" and ok: "mem_ok cfg m" and hs: "huecos_libres m \<noteq> []"
  shows "\<exists>m' ks. compactar_segmentos cm m = Some (Inr (m',
      let b = enc_int (int (length ks)) @ concat (map (\<lambda>k. enc_entrada (atoi k, tabla_de m' k)) ks)
      in enc_int (op_num PAQUETE) @ enc_int (int (length b)) @ b)) \<and>
    mem_ok cfg m' \<and> mset ks = mset (map fst (diccionario_tablas m)) \<and>
    huecos_libres m' = [\<lparr>h_pos = TAM_MEMORIA cfg - suma_huecos (huecos_libres m),
                          h_size = suma_huecos (huecos_libres m)\<rparr>] \<and>
    (\<forall>k. map (\<lambda>s. (seg_ID s, seg_limite s)) (tabla_de m' k)
         = map (\<lambda>s. (seg_ID s, seg_limite s)) (tabla_de m k))"
  by (rule compactar_segmentos_ok [OF cm ok hs])
    (use perfil_tabla [OF ok] in \<open>unfold suma_huecos_suma, blast\<close>)

theorem compactacion_termina_witness:
  "\<exists>m' ks. compactar_segmentos commons_ej (mem_ej 10) = Some (Inr (m',
      let b = enc_int (int (length ks)) @ concat (map (\<lambda>k. enc_entrada (atoi k, tabla_de m' k)) ks)
      in enc_int (op_num PAQUETE) @ enc_int (int (length b)) @ b)) \<and>
    mem_ok cfg_ej m' \<and> mset ks = mset (map fst (diccionario_tablas (mem_ej 10))) \<and>
    huecos_libres m' = [\<lparr>h_pos = TAM_MEMORIA cfg_ej - suma_huecos (huecos_libres (mem_ej 10)),
                          h_size = suma_huecos (huecos_libres (mem_ej 10))\<rparr>] \<and>
    (\<forall>k. map (\<lambda>s. (seg_ID s, seg_limite s)) (tabla_de m' k)
         = map (\<lambda>s. (seg_ID s, seg_limite s)) (tabla_de (mem_ej 10) k))"
  by (rule compactacion_termina [OF commons_ej_ok mem_ej_ok]) (simp_all add: mem_ej_def)

text \<open>
  A creation answered with 1 succeeds after one compaction: the same request then gets 0.
\<close>

lemma compactacion_satisface:
  assumes cm: "commons_ok cm" and alg: "algoritmo_ok (ALGORITMO_ASIGNACION cfg)" and ok: "mem_ok cfg m"
    and tam: "0 < tam" and r: "calloc_segment cm cfg m tabla ident tam = Inr (m, tabla, 1)"
  shows "\<exists>m' bs m'' tabla''. compactar_segmentos cm m = Some (Inr (m', bs)) \<and>
    calloc_segment cm cfg m' tabla ident tam = Inr (m'', tabla'', 0)"
proof -
  have le: "tam \<le> suma h_size (huecos_libres m)"
    by (cases rule: calloc_casos [OF cm alg, of m tam tabla ident]) (use r in simp_all)
  then have hs: "huecos_libres m \<noteq> []" using tam by auto
  obtain m' bs where m': "compactar_segmentos cm m = Some (Inr (m', bs))"
    "huecos_libres m' = [\<lparr>h_pos = TAM_MEMORIA cfg - suma h_size (huecos_libres m),
                          h_size = suma h_size (huecos_libres m)\<rparr>]"
    by (rule compactar_segmentos_ok [OF cm ok hs], rule that)
  have "\<exists>m'' tabla''. calloc_segment cm cfg m' tabla ident tam = Inr (m'', tabla'', 0)"
    by (cases rule: calloc_casos [OF cm alg, of m' tam tabla ident]) (use le m'(2) in simp_all)
  then show ?thesis using m'(1) by blast
qed

lemma calloc_ej: "calloc_segment commons_ej cfg_ej (mem_ej 10) [0, 1] 2 20 = Inr (mem_ej 10, [0, 1], 1)"
  by code_simp

lemma compactacion_satisface_witness:
  "\<exists>m' bs m'' tabla''. compactar_segmentos commons_ej (mem_ej 10) = Some (Inr (m', bs)) \<and>
    calloc_segment commons_ej cfg_ej m' [0, 1] 2 20 = Inr (m'', tabla'', 0)"
  by (rule compactacion_satisface [OF commons_ej_ok cfg_ej_ok(2) mem_ej_ok _ calloc_ej]) simp_all

text \<open>
  C37. When no segment beyond the lowest hole is longer than that hole, compaction keeps the
  contents of every segment of every process, byte for byte.
\<close>

theorem compactacion_conserva_datos:
  assumes cm: "commons_ok cm" and ok: "mem_ok cfg m" and i: "i < length (huecos_libres m)"
    and min: "\<forall>j < length (huecos_libres m). h_pos (huecos_libres m ! i) \<le> h_pos (huecos_libres m ! j)"
    and c: "\<forall>a \<in> vivos (segmentos m). h_pos (huecos_libres m ! i) < base_en (segmentos m) a
          \<longrightarrow> seg_limite (the (segmentos m ! a)) \<le> h_size (huecos_libres m ! i)"
  shows "\<exists>m' bs. compactar_segmentos cm m = Some (Inr (m', bs)) \<and>
    (\<forall>a < length (segmentos m). segmentos m ! a \<noteq> None \<longrightarrow> contenido m' a = contenido m a)"
proof -
  have hs: "huecos_libres m \<noteq> []" using i by auto
  obtain m1 where m1: "compactar_bucle cm (tabla_global cm m) m = Some (Inr m1)"
    "\<forall>a < length (segmentos m). segmentos m ! a \<noteq> None \<longrightarrow> contenido m1 a = contenido m a"
    using compactar_bucle_datos [OF cm ok i cabe_inicio [OF mem_okD(2) [OF ok] i min c]] by blast
  obtain m' bs where m': "compactar_segmentos cm m = Some (Inr (m', bs))"
    by (rule compactar_segmentos_ok [OF cm ok hs], rule that)
  then have "m' = m1" by (auto simp: compactar_segmentos_def m1(1) bind_res_Inr_iff)
  then show ?thesis using m' m1(2) by blast
qed

theorem compactacion_conserva_datos_witness:
  "\<exists>m' bs. compactar_segmentos commons_ej (mem_ej 4) = Some (Inr (m', bs)) \<and>
    (\<forall>a < length (segmentos (mem_ej 4)). segmentos (mem_ej 4) ! a \<noteq> None
       \<longrightarrow> contenido m' a = contenido (mem_ej 4) a)"
proof (rule compactacion_conserva_datos [OF commons_ej_ok mem_ej_ok])
  show "0 < length (huecos_libres (mem_ej 4))" by (simp add: mem_ej_def)
  show "\<forall>j < length (huecos_libres (mem_ej 4)). h_pos (huecos_libres (mem_ej 4) ! 0)
          \<le> h_pos (huecos_libres (mem_ej 4) ! j)"
    by (simp add: mem_ej_def All_less_Suc)
  show "\<forall>a \<in> vivos (segmentos (mem_ej 4)). h_pos (huecos_libres (mem_ej 4) ! 0) < base_en (segmentos (mem_ej 4)) a
          \<longrightarrow> seg_limite (the (segmentos (mem_ej 4) ! a)) \<le> h_size (huecos_libres (mem_ej 4) ! 0)"
    by (auto simp: mem_ej_def vivos_def less_Suc_eq)
qed simp_all

text \<open>
  What an iteration of the compaction loop does to a longer segment: the \<open>memset\<close> of the
  old place blanks every byte of the moved segment from the size of the hole on, although
  the bytes are already at their new place. No other segment changes.
\<close>

lemma compactacion_paso_datos:
  assumes cm: "commons_ok cm" and ok: "mem_ok cfg m" and hs: "huecos_libres m \<noteq> []"
    and p: "compactar_paso cm (tabla_global cm m) m = Inr (Some m')"
  shows "\<exists>a bs. 0 < a \<and> a < length (segmentos m) \<and> contenido m a = Inr bs \<and>
    (let g = nat (h_size (huecos_libres m ! primer_hueco cm (huecos_libres m))) in
       contenido m' a = Inr (take g bs @ replicate (length bs - g) (CHR '' ''))) \<and>
    (\<forall>b < length (segmentos m). segmentos m ! b \<noteq> None \<and> b \<noteq> a \<longrightarrow> contenido m' b = contenido m b)"
proof (cases rule: compactar_paso_casos [OF cm ok hs set_tabla_global [OF cm ok]])
  case 1
  then show ?thesis using p by simp
next
  case (2 m1 a s)
  then have d: "desliza m m' (primer_hueco cm (huecos_libres m)) a s" using p by simp
  note D = mem_okD [OF ok] and E = deslizaD [OF d]
  have s: "Some s \<in> set (segmentos m)" using nth_mem [OF E(3)] E(4) by simp
  have l: "0 < seg_limite s" using D(3) s by (simp add: segmentos_ok_def)
  have "0 \<le> seg_base s \<and> seg_base s + seg_limite s \<le> int (length (user_space m))"
    using particion_rango_segmento [OF D(4) s l] D(1) by simp
  then obtain bs where bs: "contenido m a = Inr bs"
    using l by (auto simp: contenido_def base_en_def E(4) leer_area_def en_area_def)
  show ?thesis
    using E(2,3) bs desliza_datos(1) [OF d ok bs] desliza_datos(2) [OF d ok] by (auto simp: Let_def)
qed

lemma compactacion_paso_datos_witness:
  "\<exists>m'. compactar_paso commons_ej (tabla_global commons_ej (mem_ej 10)) (mem_ej 10) = Inr (Some m') \<and>
   (\<exists>a bs. 0 < a \<and> a < length (segmentos (mem_ej 10)) \<and> contenido (mem_ej 10) a = Inr bs \<and>
    (let g = nat (h_size (huecos_libres (mem_ej 10) ! primer_hueco commons_ej (huecos_libres (mem_ej 10)))) in
       contenido m' a = Inr (take g bs @ replicate (length bs - g) (CHR '' ''))) \<and>
    (\<forall>b < length (segmentos (mem_ej 10)). segmentos (mem_ej 10) ! b \<noteq> None \<and> b \<noteq> a
       \<longrightarrow> contenido m' b = contenido (mem_ej 10) b))"
proof -
  have ok: "mem_ok cfg_ej (mem_ej 10)" by (rule mem_ej_ok) simp_all
  have hs: "huecos_libres (mem_ej 10) \<noteq> []" by (simp add: mem_ej_def)
  have "\<exists>m'. compactar_paso commons_ej (tabla_global commons_ej (mem_ej 10)) (mem_ej 10) = Inr (Some m')"
    unfolding mem_ej_def by (intro exI) code_simp
  then show ?thesis using compactacion_paso_datos [OF commons_ej_ok ok hs] by blast
qed

text \<open>
  C38. Compaction loses data: in a reachable kind of memory (a well-formed one, with a hole of
  4 bytes below a segment of 10) it ends with the last 6 bytes of the segment blanked.
\<close>

theorem compactacion_pierde_datos:
  "mem_ok cfg_ej (mem_ej 10) \<and> contenido (mem_ej 10) 1 = Inr ''ABCDEFGHIJ'' \<and>
   (\<exists>m' bs. compactar_segmentos commons_ej (mem_ej 10) = Some (Inr (m', bs)) \<and>
      contenido m' 1 = Inr ''ABCD      '')"
proof (intro conjI)
  let ?m' = "(mem_ej 10)\<lparr>user_space := replicate 8 (CHR '' '') @ ''ABCD'' @ replicate 28 (CHR '' ''),
     huecos_libres := [\<lparr>h_pos = 18, h_size = 22\<rparr>],
     segmentos := [Some \<lparr>seg_ID = 0, seg_base = 0, seg_limite = 8\<rparr>,
                   Some \<lparr>seg_ID = 1, seg_base = 8, seg_limite = 10\<rparr>]\<rparr>"
  let ?tg = "tabla_global commons_ej (mem_ej 10)"
  have ok: "mem_ok cfg_ej (mem_ej 10)" by (rule mem_ej_ok) simp_all
  then show "mem_ok cfg_ej (mem_ej 10)" .
  have hs: "huecos_libres (mem_ej 10) \<noteq> []" by (simp add: mem_ej_def)
  show "contenido (mem_ej 10) 1 = Inr ''ABCDEFGHIJ''" by code_simp
  have paso: "compactar_paso commons_ej ?tg (mem_ej 10) = Inr (Some ?m')" by code_simp
  have fin: "compactar_paso commons_ej ?tg ?m' = Inr None" by code_simp
  have "compactar_bucle commons_ej ?tg ?m' = Some (Inr ?m')"
    by (subst compactar_bucle.simps) (simp only: fin sum.case option.case)
  then have bucle: "compactar_bucle commons_ej ?tg (mem_ej 10) = Some (Inr ?m')"
    by (subst compactar_bucle.simps) (simp only: paso sum.case option.case)
  obtain m' bs where m': "compactar_segmentos commons_ej (mem_ej 10) = Some (Inr (m', bs))"
    by (rule compactar_segmentos_ok [OF commons_ej_ok ok hs], rule that)
  then have "m' = ?m'" by (auto simp: compactar_segmentos_def bucle bind_res_Inr_iff)
  moreover have "contenido ?m' 1 = Inr ''ABCD      ''" by code_simp
  ultimately show "\<exists>m' bs. compactar_segmentos commons_ej (mem_ej 10) = Some (Inr (m', bs)) \<and>
      contenido m' 1 = Inr ''ABCD      ''" using m' by blast
qed

section \<open>User space\<close>

text \<open>
  What the CPU writes with \<open>MOV_OUT\<close> is what the file system thread reads with
  \<open>F_WRITE\<close> at the same address, whatever the file system wrote in between with \<open>F_READ\<close> at
  addresses that do not touch it; each write is acknowledged with 1.
\<close>

lemma espacio_de_usuario_compartido:
  assumes ok: "mem_ok cfg m"
    and d1: "0 \<le> d1" "d1 + int (length v1) \<le> TAM_MEMORIA cfg" "int32_ok (8 + int (length v1))"
    and d2: "0 \<le> d2" "d2 + int (length v2) \<le> TAM_MEMORIA cfg" "int32_ok (8 + int (length v2))"
    and dis: "d1 + int (length v1) \<le> d2 \<or> d2 + int (length v2) \<le> d1"
  shows "\<exists>m1 m2. atender cm cfg m (Escribir_cpu d1 v1) [] = Some (Inr (m1, enviar_int 1, [])) \<and>
    atender cm cfg m1 (Escribir_fs d2 v2) [] = Some (Inr (m2, enviar_int 1, [])) \<and>
    atender cm cfg m2 (Leer_fs d1 (int (length v1))) [] = Some (Inr (m2, v1, []))"
proof -
  have T: "TAM_MEMORIA cfg = int (length (user_space m))" "TAM_MEMORIA cfg < 2147483648"
    using mem_okD(1,7) [OF ok] by simp_all
  have i: "int32_ok d1" "int32_ok d2" "int32_ok (int (length v1))"
    using d1 d2 T(2) by (auto simp: int32_ok_def)
  obtain m1 where m1: "mem_escribir m d1 v1 = Inr m1"
    using d1 T uspace.escribir_total [of d1 v1 m] by auto
  obtain m2 where m2: "mem_escribir m1 d2 v2 = Inr m2"
    using d2 T uspace.escribir_total [of d2 v2 m1] uspace.escribir_tam [OF m1] by auto
  have "mem_leer m2 d1 (int (length v1)) = Inr v1" by (rule uspace.dos_escrituras(1) [OF m1 m2 dis])
  then show ?thesis
    using m1 m2 i d1(3) d2(3) atender_usuario_lee [of d1 "int (length v1)" F_WRITE F_READ m2 "[]"]
      atender_usuario_escribe [of d1 v1 MOV_IN MOV_OUT m "[]"]
      atender_usuario_escribe [of d2 v2 F_WRITE F_READ m1 "[]"]
    by (intro exI [of _ m1] exI [of _ m2]) (simp add: envios_usuario)
qed

lemma espacio_de_usuario_compartido_witness:
  "\<exists>m1 m2. atender commons_ej cfg_ej (mem_ej 10) (Escribir_cpu 12 ''HOLA'') [] = Some (Inr (m1, enviar_int 1, [])) \<and>
    atender commons_ej cfg_ej m1 (Escribir_fs 16 ''CHAU'') [] = Some (Inr (m2, enviar_int 1, [])) \<and>
    atender commons_ej cfg_ej m2 (Leer_fs 12 (int (length ''HOLA''))) [] = Some (Inr (m2, ''HOLA'', []))"
  by (rule espacio_de_usuario_compartido [OF mem_ej_ok]) (simp_all add: cfg_ej_def)

section \<open>Holes\<close>

text \<open>
  Returning a range to a well-formed free list (no empty, overlapping or touching holes)
  keeps it well formed, whichever of the four ways it joins (alone, after a hole, before a
  hole, between two), frees exactly the addresses of the range, and no byte more.
\<close>

lemma alojar_hueco_correcto:
  assumes "huecos_ok hs" "0 < l" "\<forall>x. cubre_h hs x + ocupa b l x \<le> 1"
  shows "huecos_ok (alojar_nuevo_hueco hs b l) \<and>
    (\<forall>x. cubre_h (alojar_nuevo_hueco hs b l) x = cubre_h hs x + ocupa b l x) \<and>
    suma_huecos (alojar_nuevo_hueco hs b l) = suma_huecos hs + l"
  using huecos_ok_alojar [OF assms(1,2)] assms(3) cubre_alojar [OF assms(1,2)] suma_alojar [OF assms(1,2)]
  by (simp add: suma_huecos_suma)

lemma alojar_hueco_correcto_witness:
  "huecos_ok (alojar_nuevo_hueco (huecos_libres (mem_ej 10)) 12 10) \<and>
    (\<forall>x. cubre_h (alojar_nuevo_hueco (huecos_libres (mem_ej 10)) 12 10) x
        = cubre_h (huecos_libres (mem_ej 10)) x + ocupa 12 10 x) \<and>
    suma_huecos (alojar_nuevo_hueco (huecos_libres (mem_ej 10)) 12 10) = suma_huecos (huecos_libres (mem_ej 10)) + 10"
  by (rule alojar_hueco_correcto [OF mem_okD(2) [OF mem_ej_ok]])
    (simp_all add: mem_ej_def cubre_h_def ocupa_def)

text \<open>
  The three assignment algorithms. Each finds a hole exactly when one fits, and it fits;
  \<open>BEST\<close> takes one of the smallest that fit, \<open>FIRST\<close> the one of lowest address, \<open>WORST\<close> one of
  the largest.
\<close>

lemma algoritmos_de_asignacion:
  assumes "commons_ok cm" "h \<in> set hs" "tam \<le> h_size h"
  shows "\<exists>b f w. best_fit cm hs tam = Some b \<and> first_fit cm hs tam = Some f \<and> worst_fit cm hs tam = Some w \<and>
    b < length hs \<and> f < length hs \<and> w < length hs \<and>
    tam \<le> h_size (hs ! b) \<and> tam \<le> h_size (hs ! f) \<and> tam \<le> h_size (hs ! w) \<and>
    h_size (hs ! b) \<le> h_size h \<and> h_pos (hs ! f) \<le> h_pos h \<and> h_size h \<le> h_size (hs ! w)"
proof -
  obtain j where j: "j < length hs" "h = hs ! j" using assms(2) by (auto simp: in_set_conv_nth)
  obtain b where b: "best_fit cm hs tam = Some b" using best.elige_si_cabe [OF assms(2,3)] by blast
  obtain f where f: "first_fit cm hs tam = Some f" using first.elige_si_cabe [OF assms(2,3)] by blast
  obtain w where w: "worst_fit cm hs tam = Some w" using worst.elige_si_cabe [OF assms(2,3)] by blast
  show ?thesis
    using b f w best.elegir_Some [OF assms(1) b] first.elegir_Some [OF assms(1) f]
      worst.elegir_Some [OF assms(1) w] best_fit_minimo [OF assms(1) b j(1)]
      first_fit_minimo [OF assms(1) f j(1)] worst_fit_maximo [OF assms(1) w j(1)] assms(3) j(2)
    by simp
qed

lemma algoritmos_de_asignacion_witness:
  "\<exists>b f w. best_fit commons_ej (huecos_libres (mem_ej 10)) 3 = Some b \<and>
    first_fit commons_ej (huecos_libres (mem_ej 10)) 3 = Some f \<and>
    worst_fit commons_ej (huecos_libres (mem_ej 10)) 3 = Some w \<and>
    b < length (huecos_libres (mem_ej 10)) \<and> f < length (huecos_libres (mem_ej 10)) \<and>
    w < length (huecos_libres (mem_ej 10)) \<and>
    3 \<le> h_size (huecos_libres (mem_ej 10) ! b) \<and> 3 \<le> h_size (huecos_libres (mem_ej 10) ! f) \<and>
    3 \<le> h_size (huecos_libres (mem_ej 10) ! w) \<and>
    h_size (huecos_libres (mem_ej 10) ! b) \<le> h_size \<lparr>h_pos = 22, h_size = 18\<rparr> \<and>
    h_pos (huecos_libres (mem_ej 10) ! f) \<le> h_pos \<lparr>h_pos = 22, h_size = 18\<rparr> \<and>
    h_size \<lparr>h_pos = 22, h_size = 18\<rparr> \<le> h_size (huecos_libres (mem_ej 10) ! w)"
  by (rule algoritmos_de_asignacion [OF commons_ej_ok]) (simp_all add: mem_ej_def)

text \<open>
  A size that is not positive is not rejected: \<open>CREATE_SEGMENT\<close> with size -4, which any
  program can ask for, is answered with 0 and leaves a free list that is no longer well
  formed, with more free bytes than the memory has left.
\<close>

lemma crear_segmento_negativo:
  "mem_ok cfg_ej mem_ej_creada \<and>
   (\<exists>m' r. atender commons_ej cfg_ej mem_ej_creada (Crear 7 2 (-4)) [] = Some (Inr (m', r, [])) \<and>
      suma_huecos (huecos_libres m') = 26 \<and> \<not> mem_ok cfg_ej m')"
proof (intro conjI exI)
  let ?m' = "mem_ej_creada\<lparr>huecos_libres := [\<lparr>h_pos = 14, h_size = 26\<rparr>],
     segmentos := segmentos mem_ej_creada @ [Some \<lparr>seg_ID = 2, seg_base = 18, seg_limite = -4\<rparr>],
     diccionario_tablas := [(''7'', [0, 1, 2])]\<rparr>"
  let ?r = "send_tabla_segmentos [\<lparr>seg_ID = 0, seg_base = 0, seg_limite = 8\<rparr>,
      \<lparr>seg_ID = 1, seg_base = 8, seg_limite = 10\<rparr>, \<lparr>seg_ID = 2, seg_base = 18, seg_limite = -4\<rparr>] 0"
  show "mem_ok cfg_ej mem_ej_creada"
    by (rule mem_alcanzable_ok [OF mem_ej_creada_alcanzable commons_ej_ok cfg_ej_ok(1)])
  have "mem_create_segment commons_ej cfg_ej mem_ej_creada ''7'' 2 (-4) = Inr (?m', ?r)" by code_simp
  then show "atender commons_ej cfg_ej mem_ej_creada (Crear 7 2 (-4)) [] = Some (Inr (?m', ?r, []))"
    by (simp add: atender_crear string_itoa_ej int32_ok_def del: atender.simps)
  show "suma_huecos (huecos_libres ?m') = 26" by (simp add: suma_huecos_def)
  have "\<not> segmentos_ok (segmentos ?m')" by (auto simp: segmentos_ok_def)
  then show "\<not> mem_ok cfg_ej ?m'" using mem_okD(3) by blast
qed

end
