(* ===== verification/Cpu_Propiedades.thy ===== *)
theory Cpu_Propiedades
  imports Cpu_Leyes Mem_Propiedades
begin

text \<open>
  What the CPU promises: the cycle of a context always ends, with one context sent back; the
  registers survive a context switch; a program reaches memory only through its own segments;
  and where the code does not keep these promises (blocks too small for the wide registers,
  negative addresses).
\<close>

section \<open>The cycle ends\<close>

lemma cpu_bucle_fin:
  "\<exists>r. cpu_bucle cm cfg c m enviado = Some r \<and>
     (\<forall>c' m' bs. r = Inr (c', m', bs) \<longrightarrow> interrupted c' \<and>
        instrucciones (contexto c') = instrucciones (contexto c) \<and>
        (regs_ok (lista_registros c) \<longrightarrow> regs_ok (lista_registros c')) \<and>
        (if interrupted c then bs = enviado
         else program_counter (contexto c) < program_counter (contexto c') \<and>
           program_counter (contexto c') \<le> int (length (instrucciones (contexto c))) \<and>
           (\<exists>motivo. bs = enviado @ paquete_contexto (contexto c') (op_num motivo))))"
proof (induction "nat (int (length (instrucciones (contexto c))) - program_counter (contexto c))"
    arbitrary: c m enviado rule: less_induct)
  case less
  show ?case
  proof (cases "interrupted c")
    case True
    then show ?thesis by (subst cpu_bucle.simps) simp
  next
    case False
    show ?thesis
    proof (cases "ciclo cm cfg c m")
      case (Inl e)
      then show ?thesis using False by (subst cpu_bucle.simps) simp
    next
      case (Inr p)
      obtain c1 m1 b1 where p: "ciclo cm cfg c m = Inr (c1, m1, b1)" using Inr by (cases p) auto
      note C = ciclo_ok [OF False p]
      have "nat (int (length (instrucciones (contexto c1))) - program_counter (contexto c1))
          < nat (int (length (instrucciones (contexto c))) - program_counter (contexto c))"
        using C(1-4) by simp
      from less.hyps [OF this, of m1 "enviado @ b1"] obtain r where
        r: "cpu_bucle cm cfg c1 m1 (enviado @ b1) = Some r"
        "\<forall>c' m' bs. r = Inr (c', m', bs) \<longrightarrow> interrupted c' \<and>
          instrucciones (contexto c') = instrucciones (contexto c1) \<and>
          (regs_ok (lista_registros c1) \<longrightarrow> regs_ok (lista_registros c')) \<and>
          (if interrupted c1 then bs = enviado @ b1
           else program_counter (contexto c1) < program_counter (contexto c') \<and>
             program_counter (contexto c') \<le> int (length (instrucciones (contexto c1))) \<and>
             (\<exists>motivo. bs = (enviado @ b1) @ paquete_contexto (contexto c') (op_num motivo)))"
        by blast
      have eq: "cpu_bucle cm cfg c m enviado = Some r"
        using False p r(1) by (subst cpu_bucle.simps) simp
      show ?thesis
      proof (cases "interrupted c1")
        case True
        then have "cpu_bucle cm cfg c1 m1 (enviado @ b1) = Some (Inr (c1, m1, enviado @ b1))"
          by (subst cpu_bucle.simps) simp
        then have "r = Inr (c1, m1, enviado @ b1)" using r(1) by simp
        then show ?thesis
          using eq False True C by (auto simp: un_contexto_def simp del: op_num.simps)
      next
        case c1: False
        then have "b1 = []" using C(9) by (simp add: un_contexto_def)
        then show ?thesis using eq r(2) False c1 C(2-4,8) by auto
      qed
    qed
  qed
qed

text \<open>
  C20. Executing a context always ends, with a fault of the program or with the process
  interrupted; in the second case exactly one packet was sent to the kernel, the context of
  the process as it is then with one of the operation codes; the program is unchanged, at
  least one instruction was executed, the program counter stays within the program, and the
  registers keep their sizes.
\<close>

theorem cpu_devuelve_un_contexto:
  assumes "\<not> interrupted c"
  shows "\<exists>r. cpu_bucle cm cfg c m [] = Some r \<and>
    (\<forall>c' m' bs. r = Inr (c', m', bs) \<longrightarrow> interrupted c' \<and>
       instrucciones (contexto c') = instrucciones (contexto c) \<and>
       (regs_ok (lista_registros c) \<longrightarrow> regs_ok (lista_registros c')) \<and>
       program_counter (contexto c) < program_counter (contexto c') \<and>
       program_counter (contexto c') \<le> int (length (instrucciones (contexto c))) \<and>
       (\<exists>motivo. bs = paquete_contexto (contexto c') (op_num motivo)))"
  using cpu_bucle_fin [of cm cfg c m "[]"] assms by simp

definition cpu_ej :: cpu where
  "cpu_ej = \<lparr>lista_registros = inicializarRegistros,
     contexto = \<lparr>ctx_PID = 7, instrucciones = [''SET AX HOLA'', ''MOV_OUT 128 AX'', ''EXIT''],
       program_counter = 0, registros = replicate 12 ''0000'', parametros = [],
       tablaSegmentos = tabla_de (mem_ej 10) ''7''\<rparr>,
     caps = replicate 12 17, interrupted = False\<rparr>"

definition cpu_cfg_ej :: cpuConfig where
  "cpu_cfg_ej = \<lparr>TAM_MAX_SEGMENTO = 128\<rparr>"

theorem cpu_devuelve_un_contexto_witness:
  "\<exists>r. cpu_bucle commons_ej cpu_cfg_ej cpu_ej (mem_ej 10) [] = Some r \<and>
    (\<forall>c' m' bs. r = Inr (c', m', bs) \<longrightarrow> interrupted c' \<and>
       instrucciones (contexto c') = instrucciones (contexto cpu_ej) \<and>
       (regs_ok (lista_registros cpu_ej) \<longrightarrow> regs_ok (lista_registros c')) \<and>
       program_counter (contexto cpu_ej) < program_counter (contexto c') \<and>
       program_counter (contexto c') \<le> int (length (instrucciones (contexto cpu_ej))) \<and>
       (\<exists>motivo. bs = paquete_contexto (contexto c') (op_num motivo)))"
  by (rule cpu_devuelve_un_contexto) (simp add: cpu_ej_def)

section \<open>Registers\<close>

text \<open>
  \<open>SET\<close> on a known register: a value that fits becomes the register, padded with zeros
  on the right; a longer one leaves the register as it was and is reported by its excess; no
  other register changes, and no register changes its size.
\<close>

lemma set_correcto:
  assumes "regs_ok regs" "registro_de r = Some i"
  shows "\<exists>regs' n. set_reg regs r v = Some (regs', n) \<and> regs_ok regs' \<and>
    (\<forall>j < 12. j \<noteq> i \<longrightarrow> regs' ! j = regs ! j) \<and>
    (if length v \<le> length (regs ! i)
     then n = 0 \<and> regs' ! i = v @ replicate (length (regs ! i) - length v) (CHR ''0'')
     else n = int (length v) - int (length (regs ! i)) \<and> regs' = regs)"
proof -
  have i: "i < length regs" using registro_de_less [OF assms(2)] regs_ok_length [OF assms(1)] by simp
  have "set_reg regs r v = Some (regs[i := cargar_valor (regs ! i) v],
      if length v \<le> length (regs ! i) then 0 else int (length v) - int (length (regs ! i)))"
    using assms(2) i by (simp add: set_reg_def Let_def)
  then show ?thesis
    using regs_ok_update [OF assms(1)] i by (simp add: cargar_valor_def)
qed

lemma set_correcto_witness:
  "\<exists>regs' n. set_reg inicializarRegistros ''EBX'' ''HOLA'' = Some (regs', n) \<and> regs_ok regs' \<and>
    (\<forall>j < 12. j \<noteq> 5 \<longrightarrow> regs' ! j = inicializarRegistros ! j) \<and>
    (if length ''HOLA'' \<le> length (inicializarRegistros ! 5)
     then n = 0 \<and> regs' ! 5 = ''HOLA'' @ replicate (length (inicializarRegistros ! 5) - length ''HOLA'') (CHR ''0'')
     else n = int (length ''HOLA'') - int (length (inicializarRegistros ! 5)) \<and> regs' = inicializarRegistros)"
  by (rule set_correcto [OF regs_ok_inicial]) (simp add: registro_de_def lista_tokens_def)

text \<open>
  Registers survive a context switch: when the blocks of the context are large enough,
  what \<open>cargarRegistrosContexto\<close> saves is what \<open>cargarRegistros\<close> loads back, whatever other
  processes left in the registers in between.
\<close>

lemma registros_sobreviven_cambio:
  assumes "regs_ok regs" "regs_ok otros" "list_all2 (\<lambda>cap r. length r + 1 \<le> cap) cs regs"
  shows "bind_res (cargarRegistrosContexto cs regs) (cargarRegistros otros) = Inr regs"
  using assms cargarRegistros_restaura [OF assms(2,1)] by (simp add: cargarRegistrosContexto_def)

lemma registros_sobreviven_cambio_witness:
  "bind_res (cargarRegistrosContexto (replicate 12 17) (inicializarRegistros[0 := ''HOLA'']))
     (cargarRegistros inicializarRegistros) = Inr (inicializarRegistros[0 := ''HOLA''])"
  by (rule registros_sobreviven_cambio [OF _ regs_ok_inicial])
    (simp_all add: regs_ok_def inicializarRegistros_def eval_nat_numeral)

text \<open>
  C40. The blocks are not large enough: the kernel starts every register of a process as
  \<open>"0000"\<close>, so the context of a new process arrives with twelve blocks of 5 bytes, and saving
  registers of 8 and 16 bytes into them, as every system call does, writes past their end.
\<close>

theorem registros_desbordan:
  assumes "regs_ok (lista_registros c)" "caps c = map (\<lambda>s. length (bloque_de s)) (replicate 12 ''0000'')"
  shows "yield c m = Inl Fuera_de_rango \<and> exit_process c m = Inl Fuera_de_rango \<and>
    wait_process r c m = Inl Fuera_de_rango \<and> f_open f c m = Inl Fuera_de_rango"
proof -
  have l: "length (lista_registros c) = 12" by (rule regs_ok_length [OF assms(1)])
  have "map length (lista_registros c) ! 4 = 8" using assms(1) by (simp add: regs_ok_def nth_append)
  then have "length (lista_registros c ! 4) = 8" using l by simp
  then have "\<not> list_all2 (\<lambda>cap r. length r + 1 \<le> cap) (caps c) (lista_registros c)"
    using l by (auto simp: list_all2_conv_all_nth assms(2) intro!: exI [of _ 4])
  then have "guardar_registros c = Inl Fuera_de_rango"
    by (simp add: guardar_registros_def cargarRegistrosContexto_def)
  then show ?thesis by (simp add: syscall_defs devolver_def)
qed

theorem registros_desbordan_witness:
  "yield (cpu_ej\<lparr>caps := replicate 12 5\<rparr>) (mem_ej 10) = Inl Fuera_de_rango \<and>
   exit_process (cpu_ej\<lparr>caps := replicate 12 5\<rparr>) (mem_ej 10) = Inl Fuera_de_rango \<and>
   wait_process ''DISCO'' (cpu_ej\<lparr>caps := replicate 12 5\<rparr>) (mem_ej 10) = Inl Fuera_de_rango \<and>
   f_open ''a'' (cpu_ej\<lparr>caps := replicate 12 5\<rparr>) (mem_ej 10) = Inl Fuera_de_rango"
  by (rule registros_desbordan) (simp_all add: cpu_ej_def regs_ok_inicial)

section \<open>Access to memory\<close>

lemma paquete_contexto_no_vacio: "paquete_contexto ctx n \<noteq> []"
  by (simp add: paquete_contexto_def enviar_paquete_contexto_def serializar_paquete_def Let_def)

text \<open>The segments of a table in a well-formed memory, and where the MMU lands in them.\<close>

definition direcciones_ok :: "cpuConfig \<Rightarrow> memConfig \<Rightarrow> int \<Rightarrow> bool" where
  "direcciones_ok cfg mcfg n \<longleftrightarrow> 0 < TAM_MAX_SEGMENTO cfg \<and> 0 \<le> n \<and>
     TAM_MAX_SEGMENTO cfg + TAM_MEMORIA mcfg + n < 2147483648"

lemma tabla_de_segmento:
  assumes ok: "mem_ok mcfg m" and s: "s \<in> set (tabla_de m k)"
  obtains a where "a < length (segmentos m)" "segmentos m ! a = Some s" "0 < seg_limite s"
    "0 \<le> seg_base s" "seg_base s + seg_limite s \<le> TAM_MEMORIA mcfg"
    "\<exists>t. dictionary_get (diccionario_tablas m) k = Some t \<and> a \<in> set t"
proof -
  note D = mem_okD [OF ok]
  obtain t where t: "dictionary_get (diccionario_tablas m) k = Some t"
    using s by (cases "dictionary_get (diccionario_tablas m) k") (simp_all add: tabla_de_def)
  then obtain a where a: "a \<in> set t" "s = the (segmentos m ! a)" using s by (auto simp: tabla_de_def)
  obtain r where r: "t = 0 # r" "set r \<subseteq> vivos (segmentos m)" by (rule tablas_ok_tabla [OF D(6) t])
  have l: "a < length (segmentos m)" "segmentos m ! a \<noteq> None"
    using a(1) r D(3) by (auto simp: segmentos_ok_def vivos_def)
  then have sm: "segmentos m ! a = Some s" using a(2) by auto
  then have "Some s \<in> set (segmentos m)" using nth_mem [OF l(1)] by simp
  then have "0 < seg_limite s" "Some s \<in> set (segmentos m)" using D(3) by (auto simp: segmentos_ok_def)
  then show thesis using that l(1) sm particion_rango_segmento [OF D(4)] t a(1) by blast
qed

lemma MMU_en_memoria:
  assumes ok: "mem_ok mcfg m" and d: "direcciones_ok cfg mcfg n" and la: "0 \<le> la"
    and mmu: "MMU (TAM_MAX_SEGMENTO cfg) (tabla_de m k) la n = (dir, desp)" "dir \<noteq> -1"
  obtains a s where "a < length (segmentos m)" "segmentos m ! a = Some s" "0 < seg_limite s"
    "\<exists>t. dictionary_get (diccionario_tablas m) k = Some t \<and> a \<in> set t"
    "0 \<le> seg_base s" "seg_base s \<le> dir" "dir + n \<le> seg_base s + seg_limite s"
    "seg_base s + seg_limite s \<le> TAM_MEMORIA mcfg"
proof -
  have "\<forall>s \<in> set (tabla_de m k). 0 \<le> seg_base s \<and> 0 < seg_limite s \<and> int32_ok (seg_base s + seg_limite s)
          \<and> int32_ok (seg_base s + TAM_MAX_SEGMENTO cfg + n)"
  proof
    fix s assume s: "s \<in> set (tabla_de m k)"
    obtain "0 < seg_limite s" "0 \<le> seg_base s" "seg_base s + seg_limite s \<le> TAM_MEMORIA mcfg"
      by (rule tabla_de_segmento [OF ok s], rule that)
    then show "0 \<le> seg_base s \<and> 0 < seg_limite s \<and> int32_ok (seg_base s + seg_limite s)
          \<and> int32_ok (seg_base s + TAM_MAX_SEGMENTO cfg + n)"
      using d by (simp add: direcciones_ok_def int32_ok_def)
  qed
  from MMU_dentro [OF _ la _ this mmu] d obtain s where
    s: "find (\<lambda>s. seg_ID s = la div TAM_MAX_SEGMENTO cfg) (tabla_de m k) = Some s"
    "seg_base s \<le> dir" "dir + n \<le> seg_base s + seg_limite s"
    by (auto simp: direcciones_ok_def)
  then have "s \<in> set (tabla_de m k)" by (auto simp: find_Some_iff)
  then show thesis by (rule tabla_de_segmento [OF ok]) (use that s in blast)
qed

lemma atender_movout:
  assumes ok: "mem_ok mcfg m" and r: "0 \<le> dir" "dir + int (length v) \<le> TAM_MEMORIA mcfg"
    and l: "int (length v) \<le> 16"
  obtains m' where "mem_escribir m dir v = Inr m'" "mem_ok mcfg m'"
    "atender_cpu m (send_movout_petition dir v (int (length v))) = Inr (m', enviar_int 1, [])"
proof -
  note D = mem_okD [OF ok]
  obtain m' where m': "mem_escribir m dir v = Inr m'"
    using r D(1) uspace.escribir_total [of dir v m] by auto
  have "int32_ok dir" "int32_ok (8 + int (length v))" using r l D(7) by (simp_all add: int32_ok_def)
  from atender_usuario_escribe [OF this, of MOV_IN MOV_OUT m "[]"] m' mem_escribir_ok [OF ok m'] that
  show thesis by (simp add: envios_usuario)
qed

text \<open>A write inside a live segment leaves the contents of the others.\<close>

lemma escritura_aislada:
  assumes ok: "mem_ok mcfg m" and w: "mem_escribir m pa v = Inr m'"
    and s: "a < length (segmentos m)" "segmentos m ! a = Some s" "0 < seg_limite s"
      "seg_base s \<le> pa" "pa + int (length v) \<le> seg_base s + seg_limite s"
    and b: "b < length (segmentos m)" "segmentos m ! b = Some s'" "a \<noteq> b"
  shows "contenido m' b = contenido m b"
proof -
  note D = mem_okD [OF ok]
  have "0 < seg_limite s'" using D(3) nth_mem [OF b(1)] b(2) by (simp add: segmentos_ok_def)
  then have "seg_base s + seg_limite s \<le> seg_base s' \<or> seg_base s' + seg_limite s' \<le> seg_base s"
    using segmentos_disjuntos [OF D(4) s(1,2) b(1,2) _ s(3)] b(3) by blast
  then have "mem_leer m' (seg_base s') (seg_limite s') = mem_leer m (seg_base s') (seg_limite s')"
    using s by (intro uspace.leer_ajeno [OF w]) linarith
  moreover have "segmentos m' = segmentos m" using w by (auto simp: mem_escribir_def bind_res_Inr_iff)
  ultimately show ?thesis by (simp add: contenido_def base_en_def b(2) mem_leer_def)
qed

lemma mov_out_positivo:
  assumes ok: "mem_ok mcfg m" and d: "direcciones_ok cfg mcfg 16"
    and c: "regs_ok (lista_registros c)" "tablaSegmentos (contexto c) = tabla_de m k"
    and r: "registro_de r = Some i" and la: "0 \<le> atoi memAddr"
  shows "\<exists>c' m' bs. mov_out cfg r memAddr c m = Inr (c', m', bs) \<and> mem_ok mcfg m' \<and>
    (if interrupted c' \<and> bs \<noteq> [] then m' = m \<and> bs = paquete_contexto (contexto c') (op_num ERROR) else c' = c) \<and>
    (\<forall>b < length (segmentos m). segmentos m ! b \<noteq> None \<and>
       (\<forall>t. dictionary_get (diccionario_tablas m) k = Some t \<longrightarrow> b \<notin> set t) \<longrightarrow> contenido m' b = contenido m b)"
proof -
  let ?reg = "lista_registros c ! i"
  have l: "0 < length ?reg" "length ?reg \<le> 16"
    using regs_ok_reg [OF c(1), of i] registro_de_less [OF r] by (auto split: if_splits)
  have d': "direcciones_ok cfg mcfg (int (length ?reg))" using d l by (simp add: direcciones_ok_def)
  obtain pa desp where mmu: "MMU (TAM_MAX_SEGMENTO cfg) (tabla_de m k) (atoi memAddr) (int (length ?reg)) = (pa, desp)"
    by fastforce
  show ?thesis
  proof (cases "pa = -1")
    case True
    have "mov_out cfg r memAddr c m
        = seg_fault ''MOV_OUT'' (TAM_MAX_SEGMENTO cfg) memAddr desp (int (length ?reg)) c m"
      using mmu True by (simp add: mov_out_def r c(2) Let_def)
    then show ?thesis using ok
      by (simp add: seg_fault_def exit_process_error_def Let_def del: op_num.simps)
        (simp add: paquete_contexto_no_vacio del: op_num.simps)
  next
    case False
    obtain a s where s: "a < length (segmentos m)" "segmentos m ! a = Some s" "0 < seg_limite s"
      "\<exists>t. dictionary_get (diccionario_tablas m) k = Some t \<and> a \<in> set t"
      "0 \<le> seg_base s" "seg_base s \<le> pa" "pa + int (length ?reg) \<le> seg_base s + seg_limite s"
      "seg_base s + seg_limite s \<le> TAM_MEMORIA mcfg"
      by (rule MMU_en_memoria [OF ok d' la mmu False])
    obtain m' where m': "mem_escribir m pa ?reg = Inr m'" "mem_ok mcfg m'"
      "atender_cpu m (send_movout_petition pa ?reg (int (length ?reg))) = Inr (m', enviar_int 1, [])"
      by (rule atender_movout [OF ok, of pa ?reg]) (use s l in auto)
    have "mov_out cfg r memAddr c m = Inr (c, m', [])"
      using mmu False m'(3) recv_int_enc [of 1 "[]"]
      by (simp add: mov_out_def r c(2) Let_def enviar_int_def)
    moreover have "contenido m' b = contenido m b"
      if b: "b < length (segmentos m)" "segmentos m ! b \<noteq> None"
        "\<forall>t. dictionary_get (diccionario_tablas m) k = Some t \<longrightarrow> b \<notin> set t" for b
    proof -
      obtain s' where s': "segmentos m ! b = Some s'" using b(2) by blast
      have "a \<noteq> b" using s(4) b(3) by blast
      then show ?thesis by (rule escritura_aislada [OF ok m'(1) s(1-3,6,7) b(1) s'])
    qed
    ultimately show ?thesis using m'(2) by auto
  qed
qed

lemma mov_out_negativo:
  assumes ok: "mem_ok mcfg m" and d: "direcciones_ok cfg mcfg 16"
    and c: "regs_ok (lista_registros c)" "tablaSegmentos (contexto c) = tabla_de m k"
    and r: "registro_de r = Some i" and la: "atoi memAddr < 0"
    and s: "mov_out cfg r memAddr c m = Inr (c', m', bs)"
  shows "m' = m \<or> (\<exists>s \<in> set (tabla_de m k). seg_ID s = atoi memAddr sdiv TAM_MAX_SEGMENTO cfg \<and>
    mem_escribir m (seg_base s + atoi memAddr smod TAM_MAX_SEGMENTO cfg) (lista_registros c ! i) = Inr m')"
proof -
  let ?reg = "lista_registros c ! i" and ?T = "TAM_MAX_SEGMENTO cfg"
  have l: "0 < length ?reg" "length ?reg \<le> 16"
    using regs_ok_reg [OF c(1), of i] registro_de_less [OF r] by (auto split: if_splits)
  obtain pa desp where mmu: "MMU ?T (tabla_de m k) (atoi memAddr) (int (length ?reg)) = (pa, desp)" by fastforce
  show ?thesis
  proof (cases "pa = -1")
    case True
    then show ?thesis using mmu s
      by (simp add: mov_out_def r c(2) Let_def seg_fault_def exit_process_error_def del: op_num.simps)
  next
    case False
    obtain g where g: "find (\<lambda>s. seg_ID s = atoi memAddr sdiv ?T) (tabla_de m k) = Some g"
      and pa: "pa = suma32 (seg_base g) (atoi memAddr smod ?T)"
      using mmu False by (auto simp: MMU_def Let_def split: option.splits if_splits)
    have G: "g \<in> set (tabla_de m k)" "seg_ID g = atoi memAddr sdiv ?T" using g by (auto simp: find_Some_iff)
    obtain "0 \<le> seg_base g" "seg_base g \<le> TAM_MEMORIA mcfg"
      by (rule tabla_de_segmento [OF ok G(1)], rule that) simp_all
    moreover have "- ?T < atoi memAddr smod ?T" "atoi memAddr smod ?T \<le> 0"
      using d la unfolding direcciones_ok_def by (auto simp: signed_modulo_int_def)
    ultimately have pa': "pa = seg_base g + atoi memAddr smod ?T" "int32_ok pa"
      using d unfolding pa suma32_def direcciones_ok_def int32_ok_def by auto
    have "int32_ok (8 + int (length ?reg))" using l by (simp add: int32_ok_def)
    from atender_usuario_escribe [OF pa'(2) this, of MOV_IN MOV_OUT m "[]"]
    have "mem_escribir m pa ?reg = Inr m'"
      using s mmu False by (auto simp: mov_out_def r c(2) Let_def envios_usuario bind_res_Inr_iff)
    then show ?thesis using G pa'(1) by blast
  qed
qed

text \<open>
  C33. What \<open>MOV_OUT\<close> of a known register writes. At a logical address that is not negative it
  either reports the segmentation fault, interrupts the process and leaves memory as it was, or
  changes no register and no byte outside one segment of the process: every live segment that is
  not in its table keeps its contents. A negative address is not rejected as such: then what it
  writes, if anything, starts as many bytes before the base of a segment of the process as the
  displacement says, so it is not isolated.
\<close>

theorem mov_out_aislado:
  assumes ok: "mem_ok mcfg m" and d: "direcciones_ok cfg mcfg 16"
    and c: "regs_ok (lista_registros c)" "tablaSegmentos (contexto c) = tabla_de m k"
    and r: "registro_de r = Some i"
  shows "(0 \<le> atoi memAddr \<longrightarrow> (\<exists>c' m' bs. mov_out cfg r memAddr c m = Inr (c', m', bs) \<and> mem_ok mcfg m' \<and>
      (if interrupted c' \<and> bs \<noteq> [] then m' = m \<and> bs = paquete_contexto (contexto c') (op_num ERROR) else c' = c) \<and>
      (\<forall>b < length (segmentos m). segmentos m ! b \<noteq> None \<and>
         (\<forall>t. dictionary_get (diccionario_tablas m) k = Some t \<longrightarrow> b \<notin> set t) \<longrightarrow> contenido m' b = contenido m b))) \<and>
    (atoi memAddr < 0 \<longrightarrow> (\<forall>c' m' bs. mov_out cfg r memAddr c m = Inr (c', m', bs) \<longrightarrow>
      m' = m \<or> (\<exists>s \<in> set (tabla_de m k). seg_ID s = atoi memAddr sdiv TAM_MAX_SEGMENTO cfg \<and>
        mem_escribir m (seg_base s + atoi memAddr smod TAM_MAX_SEGMENTO cfg) (lista_registros c ! i) = Inr m')))"
  using mov_out_positivo [OF assms] mov_out_negativo [OF assms] by blast

theorem mov_out_aislado_witness:
  "\<exists>c' m' bs. mov_out cpu_cfg_ej ''AX'' ''128'' cpu_ej (mem_ej 10) = Inr (c', m', bs) \<and> mem_ok cfg_ej m' \<and>
    (if interrupted c' \<and> bs \<noteq> [] then m' = mem_ej 10 \<and> bs = paquete_contexto (contexto c') (op_num ERROR)
     else c' = cpu_ej) \<and>
    (\<forall>b < length (segmentos (mem_ej 10)). segmentos (mem_ej 10) ! b \<noteq> None \<and>
       (\<forall>t. dictionary_get (diccionario_tablas (mem_ej 10)) ''7'' = Some t \<longrightarrow> b \<notin> set t) \<longrightarrow>
       contenido m' b = contenido (mem_ej 10) b)"
proof -
  have ok: "mem_ok cfg_ej (mem_ej 10)" by (rule mem_ej_ok) simp_all
  have d: "direcciones_ok cpu_cfg_ej cfg_ej 16" by (simp add: direcciones_ok_def cpu_cfg_ej_def cfg_ej_def)
  have r: "registro_de ''AX'' = Some 0" by (simp add: registro_de_def lista_tokens_def)
  have la: "0 \<le> atoi ''128''" by code_simp
  have c: "regs_ok (lista_registros cpu_ej)" "tablaSegmentos (contexto cpu_ej) = tabla_de (mem_ej 10) ''7''"
    by (simp_all add: cpu_ej_def regs_ok_inicial)
  show ?thesis using mov_out_aislado [OF ok d c r, of "''128''"] la by blast
qed

text \<open>
  A register of 4 bytes written with \<open>MOV_OUT\<close> is read back by \<open>MOV_IN\<close> at the same logical
  address into any register of 4 bytes, and nothing else of the CPU changes.
\<close>

lemma mov_out_mov_in:
  assumes ok: "mem_ok mcfg m" and d: "direcciones_ok cfg mcfg 16"
    and c: "regs_ok (lista_registros c)" "tablaSegmentos (contexto c) = tabla_de m k"
    and r: "registro_de r = Some i" "registro_de r2 = Some j" "i < 4" "j < 4"
    and cs: "es_c_str (lista_registros c ! i)" and la: "0 \<le> atoi memAddr" and cap: "5 \<le> malloc_util cm 5"
    and seg: "fst (MMU (TAM_MAX_SEGMENTO cfg) (tablaSegmentos (contexto c)) (atoi memAddr) 4) \<noteq> -1"
  shows "bind_res (mov_out cfg r memAddr c m) (\<lambda>(c', m', _). bind_res (mov_in cm cfg r2 memAddr c' m') (\<lambda>(c'', _, bs).
           Inr (c'', bs)))
         = Inr (c\<lparr>lista_registros := (lista_registros c)[j := lista_registros c ! i]\<rparr>, [])"
proof -
  note D = mem_okD [OF ok]
  let ?reg = "lista_registros c ! i"
  have l: "length ?reg = 4" "length (lista_registros c ! j) = 4"
    using regs_ok_reg [OF c(1), of i] regs_ok_reg [OF c(1), of j] r(3,4) by simp_all
  obtain pa desp where mmu: "MMU (TAM_MAX_SEGMENTO cfg) (tabla_de m k) (atoi memAddr) 4 = (pa, desp)"
    by fastforce
  have pa: "pa \<noteq> -1" using seg mmu c(2) by simp
  have d': "direcciones_ok cfg mcfg 4" using d by (simp add: direcciones_ok_def)
  obtain a s where "a < length (segmentos m)" "segmentos m ! a = Some s" "0 < seg_limite s"
      "\<exists>t. dictionary_get (diccionario_tablas m) k = Some t \<and> a \<in> set t"
    and s: "0 \<le> seg_base s" "seg_base s \<le> pa" "pa + 4 \<le> seg_base s + seg_limite s"
      "seg_base s + seg_limite s \<le> TAM_MEMORIA mcfg"
    by (rule MMU_en_memoria [OF ok d' la mmu pa])
  obtain m' where m': "mem_escribir m pa ?reg = Inr m'" "mem_ok mcfg m'"
    "atender_cpu m (send_movout_petition pa ?reg (int (length ?reg))) = Inr (m', enviar_int 1, [])"
    by (rule atender_movout [OF ok, of pa ?reg]) (use s l in auto)
  have out: "mov_out cfg r memAddr c m = Inr (c, m', [])"
    using mmu pa m'(3) recv_int_enc [of 1 "[]"]
    by (simp add: mov_out_def r(1) c(2) Let_def enviar_int_def l)
  have leer: "mem_leer m' pa 4 = Inr ?reg" using uspace.leer_escrito [OF m'(1)] l by simp
  have "int32_ok pa" using s D(7) by (simp add: int32_ok_def)
  then have at: "atender_cpu m' (send_movin_petition pa 4) = Inr (m', ?reg, [])"
    using atender_usuario_lee [of pa 4 MOV_IN MOV_OUT m' "[]"] leer by (simp add: envios_usuario)
  have cstr: "c_str (?reg @ [NUL]) = ?reg" using c_str_bloque_de [OF cs] by (simp add: bloque_de_def)
  have "set_reg (lista_registros c) r2 ?reg = Some ((lista_registros c)[j := ?reg], 0)"
    using r(2,4) l regs_ok_length [OF c(1)] by (simp add: set_reg_def Let_def cargar_valor_mismo)
  then have "mov_in cm cfg r2 memAddr c m' = Inr (c\<lparr>lista_registros := (lista_registros c)[j := ?reg]\<rparr>, m', [])"
    using mmu pa cap by (simp add: mov_in_def r(2) c(2) Let_def l at cstr)
  then show ?thesis by (simp add: out)
qed

lemma mov_out_mov_in_witness:
  "bind_res (mov_out cpu_cfg_ej ''AX'' ''128'' cpu_ej (mem_ej 10)) (\<lambda>(c', m', _).
      bind_res (mov_in commons_ej cpu_cfg_ej ''BX'' ''128'' c' m') (\<lambda>(c'', _, bs). Inr (c'', bs)))
   = Inr (cpu_ej\<lparr>lista_registros := (lista_registros cpu_ej)[1 := lista_registros cpu_ej ! 0]\<rparr>, [])"
proof (rule mov_out_mov_in)
  show "mem_ok cfg_ej (mem_ej 10)" by (rule mem_ej_ok) simp_all
  show "direcciones_ok cpu_cfg_ej cfg_ej 16" by (simp add: direcciones_ok_def cpu_cfg_ej_def cfg_ej_def)
  show "registro_de ''AX'' = Some 0" "registro_de ''BX'' = Some 1"
    by (simp_all add: registro_de_def lista_tokens_def)
  show "0 \<le> atoi ''128''" by code_simp
  show "fst (MMU (TAM_MAX_SEGMENTO cpu_cfg_ej) (tablaSegmentos (contexto cpu_ej)) (atoi ''128'') 4) \<noteq> -1"
    by code_simp
  show "es_c_str (lista_registros cpu_ej ! 0)" by code_simp
qed (simp_all add: cpu_ej_def regs_ok_inicial commons_ej_def)

text \<open>
  \<open>MOV_IN\<close> into a register of 8 or 16 bytes overruns the block of
  \<open>malloc(sizeof(bytes)+1)\<close> bytes it reads into, whenever the address is valid.
\<close>

lemma mov_in_desborda:
  assumes ok: "mem_ok mcfg m" and d: "direcciones_ok cfg mcfg 16"
    and c: "regs_ok (lista_registros c)" "tablaSegmentos (contexto c) = tabla_de m k"
    and r: "registro_de r = Some i" "4 \<le> i" and la: "0 \<le> atoi memAddr" and cap: "malloc_util cm 5 \<le> 8"
    and seg: "fst (MMU (TAM_MAX_SEGMENTO cfg) (tablaSegmentos (contexto c)) (atoi memAddr)
               (int (length (lista_registros c ! i)))) \<noteq> -1"
  shows "mov_in cm cfg r memAddr c m = Inl Fuera_de_rango"
proof -
  note D = mem_okD [OF ok]
  let ?n = "int (length (lista_registros c ! i))"
  have n: "8 \<le> ?n" "?n \<le> 16"
    using regs_ok_reg [OF c(1), of i] registro_de_less [OF r(1)] r(2) by (auto split: if_splits)
  obtain pa desp where mmu: "MMU (TAM_MAX_SEGMENTO cfg) (tabla_de m k) (atoi memAddr) ?n = (pa, desp)"
    by fastforce
  have pa: "pa \<noteq> -1" using seg mmu c(2) by simp
  have d': "direcciones_ok cfg mcfg ?n" using d n by (simp add: direcciones_ok_def)
  obtain a s where "a < length (segmentos m)" "segmentos m ! a = Some s" "0 < seg_limite s"
      "\<exists>t. dictionary_get (diccionario_tablas m) k = Some t \<and> a \<in> set t"
    and s: "0 \<le> seg_base s" "seg_base s \<le> pa" "pa + ?n \<le> seg_base s + seg_limite s"
      "seg_base s + seg_limite s \<le> TAM_MEMORIA mcfg"
    by (rule MMU_en_memoria [OF ok d' la mmu pa])
  then have "int32_ok pa" "int32_ok ?n" using D(7) n by (simp_all add: int32_ok_def)
  moreover obtain v where "mem_leer m pa ?n = Inr v"
    using s n D(1) uspace.leer_ok_iff [of m pa ?n] by (auto simp: es_ok_iff)
  ultimately have "atender_cpu m (send_movin_petition pa ?n) = Inr (m, v, [])"
    using atender_usuario_lee [of pa ?n MOV_IN MOV_OUT m "[]"] by (simp add: envios_usuario)
  then show ?thesis using mmu pa n(1) cap by (simp add: mov_in_def r(1) c(2) Let_def)
qed

lemma mov_in_desborda_witness:
  "mov_in commons_ej cpu_cfg_ej ''EAX'' ''128'' cpu_ej (mem_ej 10) = Inl Fuera_de_rango"
proof (rule mov_in_desborda)
  show "mem_ok cfg_ej (mem_ej 10)" by (rule mem_ej_ok) simp_all
  show "direcciones_ok cpu_cfg_ej cfg_ej 16" by (simp add: direcciones_ok_def cpu_cfg_ej_def cfg_ej_def)
  show "registro_de ''EAX'' = Some 4" by (simp add: registro_de_def lista_tokens_def)
  show "0 \<le> atoi ''128''" by code_simp
  show "fst (MMU (TAM_MAX_SEGMENTO cpu_cfg_ej) (tablaSegmentos (contexto cpu_ej)) (atoi ''128'')
      (int (length (lista_registros cpu_ej ! 4)))) \<noteq> -1" by code_simp
qed (simp_all add: cpu_ej_def regs_ok_inicial commons_ej_def)

text \<open>
  A negative logical address is not rejected: division truncates towards zero, so -4 names
  segment 0 with offset -4, which passes the limit check; and an access of \<open>INT_MAX\<close> bytes
  passes it too, because the sum wraps around.
\<close>

lemma mmu_no_rechaza:
  "MMU 128 [\<lparr>seg_ID = 0, seg_base = 64, seg_limite = 8\<rparr>] (-4) 4 = (60, -4) \<and>
   MMU 128 [\<lparr>seg_ID = 0, seg_base = 64, seg_limite = 8\<rparr>] 0 2147483647 = (64, 0)"
  by code_simp

end
