(* ===== verification/Fs_Bloques.thy ===== *)
theory Fs_Bloques
  imports Mem_Servidor "HOL-Library.Word"
begin

text \<open>
  The file system module (\<open>FileSystem/src/filesys.h\<close>): the block file and the bitmap, the
  control block (\<open>FCB\<close>) of each file with its direct pointer, its block of indirect pointers
  and their number, and the operations the kernel asks for. Sizes and pointers of an FCB are
  \<open>uint32_t\<close>, so they are 32-bit words here and \<open>-1\<close> is the largest one; a pointer to an FCB
  is its index in \<open>listaFCB\<close>.

  Of the so-commons \<open>t_config\<close> files that hold the FCBs on disk the model keeps what is
  written: a dictionary from path to keys and values. \<open>config_save_ok\<close> says whether
  \<open>config_save\<close> works.
\<close>

section \<open>State\<close>

record fsConfig =
  block_size :: int
  PATH_FCB :: string
  config_save_ok :: bool

record fcb =
  nombre_archivo :: string
  tamanio :: "32 word"
  punteroDir :: "32 word"
  punteroIn :: "32 word"
  cantidad_indirectos :: int

record filesys =
  datos_bloques :: "byte list"
  bitmap :: "bool list"
  listaFCB :: "fcb list"
  directorio :: "(string, (string, string) dict) dict"

definition cambiar_fcb :: "nat \<Rightarrow> (fcb \<Rightarrow> fcb) \<Rightarrow> filesys \<Rightarrow> filesys" where
  "cambiar_fcb k f fs = fs\<lparr>listaFCB := (listaFCB fs)[k := f (listaFCB fs ! k)]\<rparr>"

section \<open>Blocks\<close>

definition escribirBloque :: "filesys \<Rightarrow> int \<Rightarrow> int \<Rightarrow> byte list \<Rightarrow> filesys res" where
  "escribirBloque fs block_pointer offset valor =
     bind_res (escribir_area (datos_bloques fs) (block_pointer + offset) valor) (\<lambda>d.
       Inr (fs\<lparr>datos_bloques := d\<rparr>))"

text \<open>\<open>value=malloc(sizeof(size))\<close> is a block of 4 bytes, whatever the size.\<close>

definition leerBloque :: "filesys \<Rightarrow> int \<Rightarrow> int \<Rightarrow> int \<Rightarrow> byte list res" where
  "leerBloque fs block_pointer offset tam =
     (if tam > 4 then Inl Fuera_de_rango
      else leer_area (datos_bloques fs) (block_pointer + offset) tam)"

definition borrarContenido :: "filesys \<Rightarrow> int \<Rightarrow> int \<Rightarrow> int \<Rightarrow> filesys res" where
  "borrarContenido fs block_pointer offset tam =
     bind_res (memset_area (datos_bloques fs) (block_pointer + offset) NUL tam) (\<lambda>d.
       Inr (fs\<lparr>datos_bloques := d\<rparr>))"

definition limpiarBloque :: "fsConfig \<Rightarrow> filesys \<Rightarrow> int \<Rightarrow> filesys res" where
  "limpiarBloque cfg fs block_pointer = borrarContenido fs block_pointer 0 (block_size cfg)"

definition bitarray_clean_bit :: "filesys \<Rightarrow> int \<Rightarrow> filesys res" where
  "bitarray_clean_bit fs i =
     (if 0 \<le> i \<and> i < int (length (bitmap fs)) then Inr (fs\<lparr>bitmap := (bitmap fs)[nat i := False]\<rparr>)
      else Inl Fuera_de_rango)"

section \<open>The FCB files\<close>

definition adressFromName :: "fsConfig \<Rightarrow> string \<Rightarrow> string" where
  "adressFromName cfg nombre = PATH_FCB cfg @ ''/'' @ nombre @ ''.config''"

text \<open>Some values set in the configuration of a path; without the file \<open>config_create\<close> gives NULL.\<close>

definition guardar_config :: "fsConfig \<Rightarrow> (string \<times> string) list \<Rightarrow> string \<Rightarrow> filesys \<Rightarrow> filesys res" where
  "guardar_config cfg valores ruta fs =
     (case dictionary_get (directorio fs) ruta of
        None \<Rightarrow> Inl Puntero_nulo
      | Some conf \<Rightarrow>
          Inr (if config_save_ok cfg
               then fs\<lparr>directorio := dictionary_put (directorio fs) ruta
                       (foldl (\<lambda>d (k, v). dictionary_put d k v) conf valores)\<rparr>
               else fs))"

definition asentarFCB :: "commons \<Rightarrow> fsConfig \<Rightarrow> nat \<Rightarrow> filesys \<Rightarrow> filesys res" where
  "asentarFCB cm cfg k fs =
     (let f = listaFCB fs ! k
      in guardar_config cfg
           [(''TAMANIO_ARCHIVO'', string_itoa cm (sint (tamanio f))),
            (''PUNTERO_DIRECTO'', string_itoa cm (sint (punteroDir f))),
            (''PUNTERO_INDIRECTO'', string_itoa cm (sint (punteroIn f))),
            (''CANTIDAD_INDIRECTOS'', string_itoa cm (cantidad_indirectos f))]
           (adressFromName cfg (nombre_archivo f)) fs)"

text \<open>\<open>open\<close> with \<open>O_CREAT\<close>: an existing file keeps its contents.\<close>

definition crearArchivoFCB :: "commons \<Rightarrow> fsConfig \<Rightarrow> fcb \<Rightarrow> filesys \<Rightarrow> filesys res" where
  "crearArchivoFCB cm cfg f fs =
     (let ruta = adressFromName cfg (nombre_archivo f);
          fs' = (case dictionary_get (directorio fs) ruta of
                   None \<Rightarrow> fs\<lparr>directorio := dictionary_put (directorio fs) ruta []\<rparr> | Some _ \<Rightarrow> fs)
      in guardar_config cfg
           [(''NOMBRE_ARCHIVO'', nombre_archivo f),
            (''TAMANIO_ARCHIVO'', string_itoa cm (sint (tamanio f))),
            (''PUNTERO_DIRECTO'', ''-1''), (''PUNTERO_INDIRECTO'', ''-1''),
            (''CANTIDAD_INDIRECTOS'', ''0'')] ruta fs')"

definition crearFCB :: "commons \<Rightarrow> fsConfig \<Rightarrow> string \<Rightarrow> filesys \<Rightarrow> filesys res" where
  "crearFCB cm cfg nombre fs =
     (let f = \<lparr>nombre_archivo = nombre, tamanio = 0, punteroDir = -1, punteroIn = -1,
              cantidad_indirectos = 0\<rparr>
      in crearArchivoFCB cm cfg f (fs\<lparr>listaFCB := listaFCB fs @ [f]\<rparr>))"

definition encontrarFCB :: "filesys \<Rightarrow> string \<Rightarrow> nat option" where
  "encontrarFCB fs nombre = find_index (\<lambda>f. nombre_archivo f = nombre) (listaFCB fs)"

section \<open>Taking and giving back blocks\<close>

lemma libres_menos:
  "find_index Not b = Some i \<Longrightarrow> length (filter Not (b[i := True])) < length (filter Not b)"
  by (induction b arbitrary: i) (auto split: if_splits)

text \<open>
  The first free block of the bitmap becomes the direct block, the block of pointers (and
  then another one is taken for the data) or one more indirect block. The result is the
  block taken, or -1.
\<close>

function ocuparBloqueLibre :: "commons \<Rightarrow> fsConfig \<Rightarrow> nat \<Rightarrow> filesys \<Rightarrow> (filesys \<times> int) res" where
  "ocuparBloqueLibre cm cfg k fs =
     (case find_index Not (bitmap fs) of
        None \<Rightarrow> Inr (fs, -1)
      | Some i \<Rightarrow>
          bind_res
            (let fs1 = fs\<lparr>bitmap := (bitmap fs)[i := True]\<rparr>;
                 f = listaFCB fs1 ! k;
                 p = int i * block_size cfg
             in if punteroDir f = -1 then Inr (cambiar_fcb k (punteroDir_update (\<lambda>_. word_of_int p)) fs1)
                else if punteroIn f = -1 then
                  bind_res (ocuparBloqueLibre cm cfg k
                      (cambiar_fcb k (punteroIn_update (\<lambda>_. word_of_int p)) (fs\<lparr>bitmap := (bitmap fs)[i := True]\<rparr>)))
                    (\<lambda>(fs2, _). Inr fs2)
                else bind_res (escribirBloque fs1 (sint (punteroIn f)) (4 * cantidad_indirectos f) (enc_int p))
                       (\<lambda>fs2. Inr (cambiar_fcb k (cantidad_indirectos_update (\<lambda>n. n + 1)) fs2)))
            (\<lambda>fs3. bind_res (asentarFCB cm cfg k fs3) (\<lambda>fs4. Inr (fs4, int i))))"
  by pat_completeness auto

termination ocuparBloqueLibre
  by (relation "measure (\<lambda>(cm, cfg, k, fs). length (filter Not (bitmap fs)))")
    (auto simp: cambiar_fcb_def libres_menos)

declare ocuparBloqueLibre.simps [simp del]

definition liberarUltimoBloqueFCB :: "commons \<Rightarrow> fsConfig \<Rightarrow> nat \<Rightarrow> filesys \<Rightarrow> filesys res" where
  "liberarUltimoBloqueFCB cm cfg k fs =
     (let f = listaFCB fs ! k; bs = block_size cfg
      in bind_res
           (if punteroIn f \<noteq> -1 then
              (let cant = cantidad_indirectos f
               in bind_res (leer_area (datos_bloques fs) (sint (punteroIn f) + 4 * (cant - 1)) 4) (\<lambda>b.
                  let ultimo = dec_int b in
                  bind_res (limpiarBloque cfg fs ultimo) (\<lambda>fs1.
                  bind_res (bitarray_clean_bit fs1 (ultimo sdiv bs)) (\<lambda>fs2.
                  bind_res (borrarContenido fs2 (sint (punteroIn f)) (4 * (cant - 1)) 4) (\<lambda>fs3.
                  bind_res (if cant = 1
                            then bind_res (bitarray_clean_bit fs3 (uint (punteroIn f) div bs)) (\<lambda>fs4.
                                   Inr (cambiar_fcb k (punteroIn_update (\<lambda>_. -1)) fs4))
                            else Inr fs3) (\<lambda>fs5.
                  Inr (cambiar_fcb k (cantidad_indirectos_update (\<lambda>n. n - 1)) fs5)))))))
            else
              bind_res (limpiarBloque cfg fs (sint (punteroDir f))) (\<lambda>fs1.
              bind_res (bitarray_clean_bit fs1 (uint (punteroDir f) div bs)) (\<lambda>fs2.
              Inr (cambiar_fcb k (punteroDir_update (\<lambda>_. -1)) fs2))))
         (\<lambda>fs6. asentarFCB cm cfg k
                  (cambiar_fcb k (tamanio_update (\<lambda>t. t - word_of_int bs)) fs6)))"

section \<open>Opening and truncating\<close>

definition crearOAbrirArchivo :: "commons \<Rightarrow> fsConfig \<Rightarrow> string \<Rightarrow> filesys \<Rightarrow> (filesys \<times> byte list) res" where
  "crearOAbrirArchivo cm cfg nombre fs =
     bind_res (case encontrarFCB fs nombre of None \<Rightarrow> crearFCB cm cfg nombre fs | Some _ \<Rightarrow> Inr fs)
       (\<lambda>fs'. Inr (fs', enviar_int 1))"

primrec liberar_bloques :: "commons \<Rightarrow> fsConfig \<Rightarrow> nat \<Rightarrow> nat \<Rightarrow> filesys \<Rightarrow> filesys res" where
  "liberar_bloques cm cfg k 0 fs = Inr fs"
| "liberar_bloques cm cfg k (Suc n) fs =
     bind_res (liberarUltimoBloqueFCB cm cfg k fs) (\<lambda>fs'. liberar_bloques cm cfg k n fs')"

text \<open>\<open>False\<close>: some call returned -1 and the loop returned.\<close>

primrec ocupar_bloques :: "commons \<Rightarrow> fsConfig \<Rightarrow> nat \<Rightarrow> nat \<Rightarrow> filesys \<Rightarrow> (filesys \<times> bool) res" where
  "ocupar_bloques cm cfg k 0 fs = Inr (fs, True)"
| "ocupar_bloques cm cfg k (Suc n) fs =
     bind_res (ocuparBloqueLibre cm cfg k fs) (\<lambda>(fs', r).
       if r = -1 then Inr (fs', False) else ocupar_bloques cm cfg k n fs')"

text \<open>\<open>ceil(1.0*n/block_size)\<close>, exact on 32-bit operands.\<close>

definition techo :: "int \<Rightarrow> int \<Rightarrow> int" where
  "techo n bs = (n + bs - 1) div bs"

definition truncarArchivo ::
    "commons \<Rightarrow> fsConfig \<Rightarrow> string \<Rightarrow> 32 word \<Rightarrow> filesys \<Rightarrow> (filesys \<times> byte list) res" where
  "truncarArchivo cm cfg nombre nuevo_tamanio fs =
     (case encontrarFCB fs nombre of
        None \<Rightarrow> Inr (fs, enviar_int 2)
      | Some k \<Rightarrow>
          (let bloques_necesarios = techo (uint nuevo_tamanio) (block_size cfg);
               actuales = techo (uint (tamanio (listaFCB fs ! k))) (block_size cfg)
           in bind_res
                (if actuales > bloques_necesarios
                 then bind_res (liberar_bloques cm cfg k (nat (actuales - bloques_necesarios)) fs)
                        (\<lambda>fs'. Inr (fs', True))
                 else ocupar_bloques cm cfg k (nat (bloques_necesarios - actuales)) fs)
                (\<lambda>(fs1, completo).
                   if completo then
                     bind_res (guardar_config cfg
                         [(''TAMANIO_ARCHIVO'', string_itoa cm (sint nuevo_tamanio))] (adressFromName cfg nombre)
                         (cambiar_fcb k (tamanio_update (\<lambda>_. nuevo_tamanio)) fs1))
                       (\<lambda>fs2. Inr (fs2, enviar_int (if config_save_ok cfg then 1 else -1)))
                   else Inr (fs1, enviar_int (-1)))))"

section \<open>Reading and writing\<close>

definition block_pointer_from_number :: "filesys \<Rightarrow> fcb \<Rightarrow> int \<Rightarrow> int res" where
  "block_pointer_from_number fs f block_number =
     (if block_number = 0 then Inr (sint (punteroDir f))
      else if block_number > 0 then
        bind_res (leerBloque fs (sint (punteroIn f)) (4 * (block_number - 1)) 4) (\<lambda>b. Inr (dec_int b))
      else Inl Salida)"

text \<open>The bytes at file position \<open>puntero\<close>, in the block that holds it and the next one.\<close>

definition escribir_datos :: "fsConfig \<Rightarrow> filesys \<Rightarrow> fcb \<Rightarrow> int \<Rightarrow> byte list \<Rightarrow> filesys res" where
  "escribir_datos cfg fs f puntero buffer =
     (let bs = block_size cfg; bytes = int (length buffer);
          block_number = puntero sdiv bs
      in bind_res (block_pointer_from_number fs f block_number) (\<lambda>block_pointer.
         let offset = puntero smod bs
         in if offset + bytes \<ge> bs then
              (let exceded_bytes = offset + bytes - bs + 1; first_bytes = bytes - exceded_bytes
               in bind_res (block_pointer_from_number fs f (block_number + 1)) (\<lambda>scnd_block_pointer.
                  if first_bytes < 0 then Inl Fuera_de_rango
                  else
                    bind_res (escribirBloque fs block_pointer offset (take (nat first_bytes) buffer)) (\<lambda>fs1.
                      escribirBloque fs1 scnd_block_pointer 0 (drop (nat first_bytes) buffer))))
            else escribirBloque fs block_pointer offset buffer))"

definition leer_datos :: "fsConfig \<Rightarrow> filesys \<Rightarrow> fcb \<Rightarrow> int \<Rightarrow> int \<Rightarrow> byte list res" where
  "leer_datos cfg fs f puntero bytes =
     (let bs = block_size cfg; block_number = puntero sdiv bs
      in bind_res (block_pointer_from_number fs f block_number) (\<lambda>block_pointer.
         let inblock_offset = puntero smod bs
         in if inblock_offset + bytes \<ge> bs then
              bind_res (block_pointer_from_number fs f (block_number + 1)) (\<lambda>scnd_block_pointer.
                let exceded_bytes = inblock_offset + bytes - bs + 1; first_bytes = bytes - exceded_bytes
                in bind_res (leerBloque fs block_pointer inblock_offset first_bytes) (\<lambda>b1.
                   bind_res (leerBloque fs scnd_block_pointer 0 exceded_bytes) (\<lambda>b2. Inr (b1 @ b2))))
            else leerBloque fs block_pointer inblock_offset bytes))"

text \<open>The memory module answers \<open>F_WRITE\<close> with the bytes, and \<open>F_READ\<close> with 1.\<close>

definition escribirArchivo ::
    "fsConfig \<Rightarrow> string \<Rightarrow> int \<Rightarrow> int \<Rightarrow> int \<Rightarrow> filesys \<Rightarrow> memoria \<Rightarrow> (filesys \<times> memoria \<times> byte list) res" where
  "escribirArchivo cfg nombre realAddr bytes puntero fs m =
     (case encontrarFCB fs nombre of
        None \<Rightarrow> Inr (fs, m, enviar_int (-1))
      | Some k \<Rightarrow>
          bind_res (atender_filesystem m (send_fwrite_petition realAddr bytes)) (\<lambda>(m', buffer, _).
          bind_res (escribir_datos cfg fs (listaFCB fs ! k) puntero buffer) (\<lambda>fs'.
            Inr (fs', m', enviar_int 1))))"

definition leerArchivo ::
    "fsConfig \<Rightarrow> string \<Rightarrow> int \<Rightarrow> int \<Rightarrow> int \<Rightarrow> filesys \<Rightarrow> memoria \<Rightarrow> (filesys \<times> memoria \<times> byte list) res" where
  "leerArchivo cfg nombre realAddr bytes puntero fs m =
     (case encontrarFCB fs nombre of
        None \<Rightarrow> Inr (fs, m, [])
      | Some k \<Rightarrow>
          bind_res (leer_datos cfg fs (listaFCB fs ! k) puntero bytes) (\<lambda>datos.
          bind_res (atender_filesystem m (send_fread_petition realAddr datos bytes)) (\<lambda>(m', r, _).
          bind_res (recv_int r) (\<lambda>(buffer, _).
            Inr (fs, m', enviar_int (if buffer \<noteq> -1 then 1 else -1))))))"

section \<open>The requests of the kernel\<close>

definition leer_nombre :: "byte list \<Rightarrow> (string \<times> byte list) res" where
  "leer_nombre buffer = bind_res (leer_bloque buffer) (\<lambda>(b, r). bind_res (leer_c_str b) (\<lambda>s. Inr (s, r)))"

definition recv_open_petition :: "byte list \<Rightarrow> (string \<times> byte list) res" where
  "recv_open_petition s = bind_res (recibir_buffer s) (\<lambda>(buffer, s').
     bind_res (leer_nombre buffer) (\<lambda>(nombre, _). Inr (nombre, s')))"

definition recv_truncate_petition :: "byte list \<Rightarrow> ((string \<times> 32 word) \<times> byte list) res" where
  "recv_truncate_petition s = bind_res (recibir_buffer s) (\<lambda>(buffer, s').
     bind_res (leer_nombre buffer) (\<lambda>(nombre, b1). bind_res (leer_int b1) (\<lambda>(n, _).
       Inr ((nombre, word_of_int n), s'))))"

definition recv_readwrite_petition :: "byte list \<Rightarrow> ((string \<times> int \<times> int \<times> int) \<times> byte list) res" where
  "recv_readwrite_petition s = bind_res (recibir_buffer s) (\<lambda>(buffer, s').
     bind_res (leer_nombre buffer) (\<lambda>(nombre, b1). bind_res (leer_int b1) (\<lambda>(realAddr, b2).
     bind_res (leer_int b2) (\<lambda>(bytes, b3). bind_res (leer_int b3) (\<lambda>(fsPointer, _).
       Inr ((nombre, realAddr, bytes, fsPointer), s'))))))"

text \<open>One iteration of \<open>manejarConexionesFS\<close>; last, what is left on the socket.\<close>

definition fs_atender :: "commons \<Rightarrow> fsConfig \<Rightarrow> filesys \<Rightarrow> memoria \<Rightarrow> byte list
    \<Rightarrow> (filesys \<times> memoria \<times> byte list \<times> byte list) res" where
  "fs_atender cm cfg fs m s = bind_res (recibir_operacion s) (\<lambda>(cod_op, s1).
     if cod_op = op_num F_OPEN then
       bind_res (recv_open_petition s1) (\<lambda>(nombre, s2).
       bind_res (crearOAbrirArchivo cm cfg nombre fs) (\<lambda>(fs', r). Inr (fs', m, r, s2)))
     else if cod_op = op_num F_TRUNCATE then
       bind_res (recv_truncate_petition s1) (\<lambda>((nombre, tam), s2).
       bind_res (truncarArchivo cm cfg nombre tam fs) (\<lambda>(fs', r). Inr (fs', m, r, s2)))
     else if cod_op = op_num F_READ then
       bind_res (recv_readwrite_petition s1) (\<lambda>((nombre, realAddr, bytes, puntero), s2).
       bind_res (leerArchivo cfg nombre realAddr bytes puntero fs m) (\<lambda>(fs', m', r). Inr (fs', m', r, s2)))
     else if cod_op = op_num F_WRITE then
       bind_res (recv_readwrite_petition s1) (\<lambda>((nombre, realAddr, bytes, puntero), s2).
       bind_res (escribirArchivo cfg nombre realAddr bytes puntero fs m) (\<lambda>(fs', m', r). Inr (fs', m', r, s2)))
     else Inl Salida)"

end
