(* ===== verification/Fs_Invariante.thy ===== *)
theory Fs_Invariante
  imports Fs_Bloques
begin

text \<open>
  The invariant of the file system: every used bit of the bitmap is one block of exactly one
  file (its direct block, its block of pointers, or an indirect data block), pointers are in
  range and aligned, and the block of pointers has room for its pointers. \<open>fs_base\<close> allows a
  file whose block of pointers is still empty, which happens in the middle of
  \<open>ocuparBloqueLibre\<close>; \<open>fs_medio\<close> does not, and \<open>fs_ok\<close> also ties the blocks of a file to
  its size, which \<open>truncarArchivo\<close> sets only at the end.
\<close>

section \<open>Words and pointers\<close>

lemma sint_word_of_int: "0 \<le> p \<Longrightarrow> p < 2147483648 \<Longrightarrow> sint (word_of_int p :: 32 word) = p"
  by (simp add: int_word_sint)

lemma word_of_int_no_menos_uno:
  assumes "0 \<le> p" "p < 2147483648"
  shows "(word_of_int p :: 32 word) \<noteq> -1"
proof
  assume "(word_of_int p :: 32 word) = -1"
  then have "sint (word_of_int p :: 32 word) = sint (-1 :: 32 word)" by simp
  then show False using sint_word_of_int [OF assms] assms(1) by simp
qed

lemma uint_igual_sint:
  assumes "0 \<le> sint (w :: 32 word)"
  shows "uint w = sint w"
proof -
  have "sint w < 2147483648" using sint_less [of w] by simp
  then have "sint w mod 4294967296 = sint w" using assms by simp
  then show ?thesis using uint_word_of_int [of "sint w", where 'a = 32] by simp
qed

section \<open>The blocks of a file\<close>

definition num_bloque :: "fsConfig \<Rightarrow> int \<Rightarrow> nat" where
  "num_bloque cfg p = nat (p div block_size cfg)"

text \<open>The bytes of a range, none when it is not inside the area.\<close>

definition leido :: "byte list \<Rightarrow> int \<Rightarrow> int \<Rightarrow> byte list" where
  "leido d p n = (case leer_area d p n of Inr b \<Rightarrow> b | Inl _ \<Rightarrow> [])"

definition puntero_ind :: "byte list \<Rightarrow> fcb \<Rightarrow> nat \<Rightarrow> int" where
  "puntero_ind d f j = dec_int (leido d (sint (punteroIn f) + 4 * int j) 4)"

definition bloques_datos :: "fsConfig \<Rightarrow> byte list \<Rightarrow> fcb \<Rightarrow> nat list" where
  "bloques_datos cfg d f = (if punteroDir f = -1 then [] else [num_bloque cfg (sint (punteroDir f))])
     @ map (\<lambda>j. num_bloque cfg (puntero_ind d f j)) [0..<nat (cantidad_indirectos f)]"

definition bloques_fcb :: "fsConfig \<Rightarrow> byte list \<Rightarrow> fcb \<Rightarrow> nat list" where
  "bloques_fcb cfg d f = (if punteroIn f = -1 then [] else [num_bloque cfg (sint (punteroIn f))])
     @ bloques_datos cfg d f"

definition puntero_ok :: "fsConfig \<Rightarrow> nat \<Rightarrow> int \<Rightarrow> bool" where
  "puntero_ok cfg n p \<longleftrightarrow> 0 \<le> p \<and> p mod block_size cfg = 0 \<and> p div block_size cfg < int n"

definition fcb_base :: "fsConfig \<Rightarrow> nat \<Rightarrow> byte list \<Rightarrow> fcb \<Rightarrow> bool" where
  "fcb_base cfg n d f \<longleftrightarrow>
     (punteroDir f = -1 \<longrightarrow> punteroIn f = -1) \<and> (punteroDir f \<noteq> -1 \<longrightarrow> puntero_ok cfg n (sint (punteroDir f))) \<and>
     (punteroIn f = -1 \<longrightarrow> cantidad_indirectos f = 0) \<and>
     (punteroIn f \<noteq> -1 \<longrightarrow> puntero_ok cfg n (sint (punteroIn f))) \<and>
     0 \<le> cantidad_indirectos f \<and> 4 * cantidad_indirectos f \<le> block_size cfg \<and>
     (\<forall>j < nat (cantidad_indirectos f). puntero_ok cfg n (puntero_ind d f j))"

definition usados :: "bool list \<Rightarrow> nat set" where
  "usados b = {i. i < length b \<and> b ! i}"

lemma usados_code [code]: "usados b = set (filter ((!) b) [0..<length b])"
  by (auto simp: usados_def)

definition archivos_en_disco :: "fsConfig \<Rightarrow> filesys \<Rightarrow> bool" where
  "archivos_en_disco cfg fs \<longleftrightarrow> (\<forall>f \<in> set (listaFCB fs).
     dictionary_get (directorio fs) (adressFromName cfg (nombre_archivo f)) \<noteq> None)"

definition fs_base :: "fsConfig \<Rightarrow> filesys \<Rightarrow> bool" where
  "fs_base cfg fs \<longleftrightarrow> 4 \<le> block_size cfg \<and> int (length (datos_bloques fs)) < 2147483648 \<and>
     block_size cfg * int (length (bitmap fs)) \<le> int (length (datos_bloques fs)) \<and>
     (\<forall>f \<in> set (listaFCB fs). fcb_base cfg (length (bitmap fs)) (datos_bloques fs) f) \<and>
     distinct (map nombre_archivo (listaFCB fs)) \<and> archivos_en_disco cfg fs \<and>
     mset (concat (map (bloques_fcb cfg (datos_bloques fs)) (listaFCB fs))) = mset_set (usados (bitmap fs))"

definition fs_medio :: "fsConfig \<Rightarrow> filesys \<Rightarrow> bool" where
  "fs_medio cfg fs \<longleftrightarrow> fs_base cfg fs \<and> (\<forall>f \<in> set (listaFCB fs). punteroIn f \<noteq> -1 \<longrightarrow> 1 \<le> cantidad_indirectos f)"

text \<open>Between two requests, every file also has the data blocks its size needs.\<close>

definition fs_ok :: "fsConfig \<Rightarrow> filesys \<Rightarrow> bool" where
  "fs_ok cfg fs \<longleftrightarrow> fs_medio cfg fs \<and> (\<forall>f \<in> set (listaFCB fs).
     int (length (bloques_datos cfg (datos_bloques fs) f)) = techo (uint (tamanio f)) (block_size cfg))"

section \<open>Bitmap and lists\<close>

lemma finite_usados [simp]: "finite (usados b)"
  by (rule finite_subset [of _ "{..<length b}"]) (auto simp: usados_def)

lemma usados_True: "i < length b \<Longrightarrow> usados (b[i := True]) = insert i (usados b)"
  by (auto simp: usados_def nth_list_update)

lemma usados_False: "usados (b[i := False]) = usados b - {i}"
  by (cases "i < length b") (auto simp: usados_def nth_list_update split: if_splits)

lemma mset_usados_True:
  "find_index Not b = Some i \<Longrightarrow> mset_set (usados (b[i := True])) = add_mset i (mset_set (usados b))"
  using find_index_SomeD [of Not b i] by (simp add: usados_True) (simp add: usados_def)

lemma mset_usados_False:
  "i \<in> usados b \<Longrightarrow> mset_set (usados b) = add_mset i (mset_set (usados (b[i := False])))"
  by (simp add: usados_False mset_set.remove)

lemma remove_nth_update: "remove_nth k (xs[k := y]) = remove_nth k xs"
  by (simp add: remove_nth_def)

lemma mset_concat_nth:
  assumes "k < length xs"
  shows "mset (concat (map g xs)) = mset (g (xs ! k)) + mset (concat (map g (remove_nth k xs)))"
proof -
  have "mset (concat (map g ys)) = (\<Sum>y \<in># mset ys. mset (g y))" for ys
    by (induction ys) simp_all
  then show ?thesis using mset_remove_nth [OF assms] by (metis (no_types, lifting) sum_mset.insert image_mset_add_mset)
qed

lemma mset_balance:
  assumes "x' = a' + r" "x = a + r" "a' + u = a + (u' :: 'a multiset)" "x = u"
  shows "x' = u'"
proof -
  have "a + (a' + r) = a + u'" using assms by (metis add.left_commute)
  then show ?thesis using assms(1) by simp
qed

lemma map_cong_remove:
  "(\<And>y. y \<in> set (remove_nth k xs) \<Longrightarrow> g y = h y) \<Longrightarrow> map g (remove_nth k xs) = map h (remove_nth k xs)"
  by simp

section \<open>Files on disk\<close>

lemma guardar_config_ok:
  assumes "dictionary_get (directorio fs) ruta \<noteq> None"
  obtains dir' where "guardar_config cfg vs ruta fs = Inr (fs\<lparr>directorio := dir'\<rparr>)"
    "\<forall>r. dictionary_get dir' r = None \<longleftrightarrow> dictionary_get (directorio fs) r = None"
proof -
  obtain conf where conf: "dictionary_get (directorio fs) ruta = Some conf" using assms by blast
  show thesis
  proof (cases "config_save_ok cfg")
    case True
    show thesis
      by (rule that [of "dictionary_put (directorio fs) ruta (foldl (\<lambda>d (k, v). dictionary_put d k v) conf vs)"])
        (simp_all add: guardar_config_def conf True)
  next
    case False
    show thesis by (rule that [of "directorio fs"]) (simp_all add: guardar_config_def conf False)
  qed
qed

lemma asentarFCB_ok:
  assumes "archivos_en_disco cfg fs" "k < length (listaFCB fs)"
  obtains dir' where "asentarFCB cm cfg k fs = Inr (fs\<lparr>directorio := dir'\<rparr>)"
    "\<forall>r. dictionary_get dir' r = None \<longleftrightarrow> dictionary_get (directorio fs) r = None"
proof -
  have "dictionary_get (directorio fs) (adressFromName cfg (nombre_archivo (listaFCB fs ! k))) \<noteq> None"
    using assms by (simp add: archivos_en_disco_def)
  then obtain dir' where "\<forall>r. dictionary_get dir' r = None \<longleftrightarrow> dictionary_get (directorio fs) r = None"
    "guardar_config cfg
           [(''TAMANIO_ARCHIVO'', string_itoa cm (sint (tamanio (listaFCB fs ! k)))),
            (''PUNTERO_DIRECTO'', string_itoa cm (sint (punteroDir (listaFCB fs ! k)))),
            (''PUNTERO_INDIRECTO'', string_itoa cm (sint (punteroIn (listaFCB fs ! k)))),
            (''CANTIDAD_INDIRECTOS'', string_itoa cm (cantidad_indirectos (listaFCB fs ! k)))]
           (adressFromName cfg (nombre_archivo (listaFCB fs ! k))) fs = Inr (fs\<lparr>directorio := dir'\<rparr>)"
    by (rule guardar_config_ok)
  then show thesis using that by (simp add: asentarFCB_def Let_def)
qed

lemma fs_base_directorio:
  assumes "fs_base cfg fs" "\<forall>r. dictionary_get dir' r = None \<longleftrightarrow> dictionary_get (directorio fs) r = None"
  shows "fs_base cfg (fs\<lparr>directorio := dir'\<rparr>)"
  using assms by (simp add: fs_base_def archivos_en_disco_def)

section \<open>Changes of one file\<close>

lemma fs_baseD:
  assumes "fs_base cfg fs"
  shows "4 \<le> block_size cfg" "int (length (datos_bloques fs)) < 2147483648"
    "block_size cfg * int (length (bitmap fs)) \<le> int (length (datos_bloques fs))"
    "f \<in> set (listaFCB fs) \<Longrightarrow> fcb_base cfg (length (bitmap fs)) (datos_bloques fs) f"
    "distinct (map nombre_archivo (listaFCB fs))" "archivos_en_disco cfg fs"
    "mset (concat (map (bloques_fcb cfg (datos_bloques fs)) (listaFCB fs))) = mset_set (usados (bitmap fs))"
  using assms by (auto simp: fs_base_def)

lemma fs_base_cambio:
  assumes ok: "fs_base cfg fs" and k: "k < length (listaFCB fs)"
    and lista: "listaFCB fs' = (listaFCB fs)[k := f']" and nom: "nombre_archivo f' = nombre_archivo (listaFCB fs ! k)"
    and len: "length (datos_bloques fs') = length (datos_bloques fs)" "length (bitmap fs') = length (bitmap fs)"
    and dir: "directorio fs' = directorio fs"
    and f': "fcb_base cfg (length (bitmap fs)) (datos_bloques fs') f'"
    and otros: "\<And>g. g \<in> set (remove_nth k (listaFCB fs)) \<Longrightarrow>
      bloques_fcb cfg (datos_bloques fs') g = bloques_fcb cfg (datos_bloques fs) g \<and>
      fcb_base cfg (length (bitmap fs)) (datos_bloques fs') g"
    and bal: "mset (bloques_fcb cfg (datos_bloques fs') f') + mset_set (usados (bitmap fs))
      = mset (bloques_fcb cfg (datos_bloques fs) (listaFCB fs ! k)) + mset_set (usados (bitmap fs'))"
  shows "fs_base cfg fs'"
proof -
  note D = fs_baseD [OF ok]
  let ?l = "listaFCB fs" and ?g = "bloques_fcb cfg (datos_bloques fs)"
    and ?g' = "bloques_fcb cfg (datos_bloques fs')"
  have nombres: "map nombre_archivo (listaFCB fs') = map nombre_archivo ?l"
    unfolding lista map_update nom using k by (metis list_update_id length_map nth_map)
  have resto: "mset (concat (map ?g' (remove_nth k ?l))) = mset (concat (map ?g (remove_nth k ?l)))"
    using otros by (auto intro!: arg_cong [where f = "\<lambda>x. mset (concat x)"])
  have "mset (concat (map ?g' (listaFCB fs'))) = mset (?g' f') + mset (concat (map ?g' (remove_nth k ?l)))"
    using mset_concat_nth [of k "listaFCB fs'" ?g'] k by (simp add: lista remove_nth_update)
  moreover have "mset (concat (map ?g ?l)) = mset (?g (?l ! k)) + mset (concat (map ?g (remove_nth k ?l)))"
    by (rule mset_concat_nth [OF k])
  ultimately have m: "mset (concat (map ?g' (listaFCB fs'))) = mset_set (usados (bitmap fs'))"
    using bal D(7) unfolding resto by (rule mset_balance)
  have todos: "fcb_base cfg (length (bitmap fs')) (datos_bloques fs') g" if en: "g \<in> set (listaFCB fs')" for g
  proof -
    obtain i where "i < length (listaFCB fs')" "listaFCB fs' ! i = g"
      using en unfolding in_set_conv_nth by blast
    then have i: "i < length ?l" "g = (?l[k := f']) ! i" by (simp_all add: lista)
    show ?thesis
    proof (cases "i = k")
      case True
      then show ?thesis using i f' len(2) by simp
    next
      case False
      then have "g \<in> set (remove_nth k ?l)" using i k by (auto intro: nth_en_remove_nth)
      then show ?thesis using otros len(2) by simp
    qed
  qed
  have "archivos_en_disco cfg fs'"
  proof -
    have "nombre_archivo ` set (listaFCB fs') = nombre_archivo ` set ?l"
      using arg_cong [OF nombres, of set] by simp
    then show ?thesis using D(6) unfolding archivos_en_disco_def dir by (metis (no_types, lifting) image_iff)
  qed
  then show ?thesis using D len m todos nombres by (simp add: fs_base_def)
qed

section \<open>Blocks do not overlap\<close>

lemma num_bloque_int [simp]: "0 < block_size cfg \<Longrightarrow> num_bloque cfg (int i * block_size cfg) = i"
  by (simp add: num_bloque_def)

lemma puntero_num:
  assumes "puntero_ok cfg n p" "0 < block_size cfg"
  shows "p = int (num_bloque cfg p) * block_size cfg" "num_bloque cfg p < n"
  using assms pos_imp_zdiv_nonneg_iff [of "block_size cfg" p]
  by (auto simp: puntero_ok_def num_bloque_def nat_less_iff)

lemma bloques_distintos:
  assumes "fs_base cfg fs" "k < length (listaFCB fs)"
  shows "distinct (bloques_fcb cfg (datos_bloques fs) (listaFCB fs ! k))"
    "g \<in> set (remove_nth k (listaFCB fs)) \<Longrightarrow>
      set (bloques_fcb cfg (datos_bloques fs) (listaFCB fs ! k)) \<inter> set (bloques_fcb cfg (datos_bloques fs) g) = {}"
    "set (bloques_fcb cfg (datos_bloques fs) (listaFCB fs ! k)) \<subseteq> usados (bitmap fs)"
proof -
  let ?b = "bloques_fcb cfg (datos_bloques fs)"
  have eq: "mset (?b (listaFCB fs ! k) @ concat (map ?b (remove_nth k (listaFCB fs)))) = mset_set (usados (bitmap fs))"
    using fs_baseD(7) [OF assms(1)] mset_concat_nth [OF assms(2), of ?b] by simp
  then have d: "distinct (?b (listaFCB fs ! k) @ concat (map ?b (remove_nth k (listaFCB fs))))"
    by (metis distinct_count_atmost_1 count_mset_set' finite_usados set_mset_mset finite_set_mset_mset_set)
  then show "distinct (?b (listaFCB fs ! k))" by simp
  show "g \<in> set (remove_nth k (listaFCB fs)) \<Longrightarrow> set (?b (listaFCB fs ! k)) \<inter> set (?b g) = {}"
    using d by auto
  show "set (?b (listaFCB fs ! k)) \<subseteq> usados (bitmap fs)"
    using arg_cong [OF eq, of set_mset] by auto
qed

lemma ind_escritura:
  assumes "escribir_area d p w = Inr d'"
    "sint (punteroIn f) + 4 * int j + 4 \<le> p \<or> p + int (length w) \<le> sint (punteroIn f) + 4 * int j"
  shows "puntero_ind d' f j = puntero_ind d f j"
  using leer_area_otro [OF assms] by (simp add: puntero_ind_def leido_def)

lemma ind_cambio:
  assumes "\<forall>j < nat (cantidad_indirectos f). puntero_ind d' f j = puntero_ind d f j"
  shows "bloques_fcb cfg d' f = bloques_fcb cfg d f" "bloques_datos cfg d' f = bloques_datos cfg d f"
    "fcb_base cfg n d' f \<longleftrightarrow> fcb_base cfg n d f"
proof -
  show 2: "bloques_datos cfg d' f = bloques_datos cfg d f"
    using assms by (auto simp: bloques_datos_def)
  then show "bloques_fcb cfg d' f = bloques_fcb cfg d f" by (simp add: bloques_fcb_def)
  show "fcb_base cfg n d' f \<longleftrightarrow> fcb_base cfg n d f" using assms by (simp add: fcb_base_def)
qed

text \<open>A range inside block \<open>b\<close>, and a write to it seen from a file that has another block of pointers.\<close>

definition dentro :: "fsConfig \<Rightarrow> nat \<Rightarrow> int \<Rightarrow> int \<Rightarrow> bool" where
  "dentro cfg b p n \<longleftrightarrow> int b * block_size cfg \<le> p \<and> p + n \<le> int b * block_size cfg + block_size cfg"

lemma dentro_separado:
  assumes "dentro cfg b p n" "dentro cfg c q m" "b \<noteq> c" "0 < block_size cfg" "0 \<le> n" "0 \<le> m"
  shows "q + m \<le> p \<or> p + n \<le> q"
proof (cases "b < c")
  case True
  then have "int b + 1 \<le> int c" by simp
  then have "(int b + 1) * block_size cfg \<le> int c * block_size cfg" using assms(4) by (intro mult_right_mono) simp_all
  then show ?thesis using assms by (auto simp: dentro_def distrib_right)
next
  case False
  then have "int c + 1 \<le> int b" using assms(3) by simp
  then have "(int c + 1) * block_size cfg \<le> int b * block_size cfg" using assms(4) by (intro mult_right_mono) simp_all
  then show ?thesis using assms by (auto simp: dentro_def distrib_right)
qed

lemma escritura_ajena:
  assumes w: "escribir_area d p w = Inr d'" and b: "dentro cfg b p (int (length w))" "0 < block_size cfg"
    and f: "fcb_base cfg n d f" and aj: "punteroIn f = -1 \<or> num_bloque cfg (sint (punteroIn f)) \<noteq> b"
  shows "bloques_fcb cfg d' f = bloques_fcb cfg d f" "bloques_datos cfg d' f = bloques_datos cfg d f"
    "fcb_base cfg n d' f"
proof -
  have "puntero_ind d' f j = puntero_ind d f j" if j: "j < nat (cantidad_indirectos f)" for j
  proof -
    have In: "punteroIn f \<noteq> -1" using f j by (auto simp: fcb_base_def)
    let ?c = "num_bloque cfg (sint (punteroIn f))"
    have "sint (punteroIn f) = int ?c * block_size cfg"
      using In f b(2) by (intro puntero_num(1) [of cfg n]) (simp_all add: fcb_base_def)
    then have "dentro cfg ?c (sint (punteroIn f) + 4 * int j) 4"
      using f j by (auto simp: dentro_def fcb_base_def)
    from dentro_separado [OF b(1) this] In aj b(2) show ?thesis
      by (intro ind_escritura [OF w]) auto
  qed
  then have *: "\<forall>j < nat (cantidad_indirectos f). puntero_ind d' f j = puntero_ind d f j" by blast
  show "bloques_fcb cfg d' f = bloques_fcb cfg d f" "bloques_datos cfg d' f = bloques_datos cfg d f"
    "fcb_base cfg n d' f"
    using ind_cambio [OF *, of cfg] f by blast+
qed

end
