(* ===== verification/Fs_Truncar.thy ===== *)
theory Fs_Truncar
  imports Fs_Invariante
begin

text \<open>
  Taking and giving back blocks keep the invariant of the file system and leave every other
  file as it is, its control block, its blocks and their contents; the file that grows keeps
  the contents of the blocks it had.
\<close>

section \<open>What a change to one file leaves alone\<close>

definition bloque :: "fsConfig \<Rightarrow> byte list \<Rightarrow> nat \<Rightarrow> byte list res" where
  "bloque cfg d b = leer_area d (int b * block_size cfg) (block_size cfg)"

definition mismos_bloques :: "fsConfig \<Rightarrow> byte list \<Rightarrow> byte list \<Rightarrow> fcb \<Rightarrow> bool" where
  "mismos_bloques cfg d d' f \<longleftrightarrow> bloques_fcb cfg d' f = bloques_fcb cfg d f \<and>
     bloques_datos cfg d' f = bloques_datos cfg d f \<and>
     (\<forall>b \<in> set (bloques_fcb cfg d f). bloque cfg d' b = bloque cfg d b)"

definition intacto :: "fsConfig \<Rightarrow> nat \<Rightarrow> filesys \<Rightarrow> filesys \<Rightarrow> bool" where
  "intacto cfg k fs fs' \<longleftrightarrow>
     map nombre_archivo (listaFCB fs') = map nombre_archivo (listaFCB fs) \<and>
     length (datos_bloques fs') = length (datos_bloques fs) \<and> length (bitmap fs') = length (bitmap fs) \<and>
     (\<forall>j < length (listaFCB fs). j \<noteq> k \<longrightarrow> listaFCB fs' ! j = listaFCB fs ! j \<and>
        mismos_bloques cfg (datos_bloques fs) (datos_bloques fs') (listaFCB fs ! j))"

lemma intacto_refl [simp]: "intacto cfg k fs fs"
  by (simp add: intacto_def mismos_bloques_def)

lemma intacto_length: "intacto cfg k fs fs' \<Longrightarrow> length (listaFCB fs') = length (listaFCB fs)"
  unfolding intacto_def by (metis length_map)

lemma intacto_nombre:
  "intacto cfg k fs fs' \<Longrightarrow> j < length (listaFCB fs) \<Longrightarrow>
    nombre_archivo (listaFCB fs' ! j) = nombre_archivo (listaFCB fs ! j)"
  unfolding intacto_def by (metis length_map nth_map)

lemma intacto_trans:
  assumes "intacto cfg k fs fs1" "intacto cfg k fs1 fs2"
  shows "intacto cfg k fs fs2"
proof -
  note l = intacto_length [OF assms(1)]
  show ?thesis using assms unfolding intacto_def l mismos_bloques_def
    by (simp del: map_eq_conv)
qed

lemma intacto_directorio:
  "intacto cfg k fs fs' \<Longrightarrow> intacto cfg k fs (fs'\<lparr>directorio := dir'\<rparr>)"
  by (simp add: intacto_def)

section \<open>Free blocks\<close>

definition libres :: "filesys \<Rightarrow> nat" where
  "libres fs = length (filter Not (bitmap fs))"

lemma libres_tomar:
  "find_index Not b = Some i \<Longrightarrow> length (filter Not b) = Suc (length (filter Not (b[i := True])))"
  by (induction b arbitrary: i) (auto split: if_splits)

lemma hay_libre:
  assumes "0 < libres fs"
  obtains i where "find_index Not (bitmap fs) = Some i"
proof -
  have "find_index Not (bitmap fs) \<noteq> None"
    using assms by (auto simp: libres_def find_index_None_iff filter_empty_conv)
  then show thesis using that by blast
qed

lemma libre_puntero:
  assumes "fs_base cfg fs" "find_index Not (bitmap fs) = Some i"
  shows "puntero_ok cfg (length (bitmap fs)) (int i * block_size cfg)"
    "0 \<le> int i * block_size cfg" "int i * block_size cfg < 2147483648" "i \<notin> usados (bitmap fs)"
    "dentro cfg i (int i * block_size cfg) (block_size cfg)"
    "int i * block_size cfg + block_size cfg \<le> int (length (datos_bloques fs))"
proof -
  have i: "i < length (bitmap fs)" "\<not> bitmap fs ! i" using find_index_SomeD [OF assms(2)] by auto
  note D = fs_baseD [OF assms(1)]
  show "puntero_ok cfg (length (bitmap fs)) (int i * block_size cfg)"
    using i D(1) by (simp add: puntero_ok_def)
  have "(int i + 1) * block_size cfg \<le> int (length (bitmap fs)) * block_size cfg"
    using i D(1) by (intro mult_right_mono) simp_all
  then show *: "int i * block_size cfg + block_size cfg \<le> int (length (datos_bloques fs))"
    using D(3) by (simp add: algebra_simps)
  show "0 \<le> int i * block_size cfg" using D(1) by simp
  show "int i * block_size cfg < 2147483648" using * D(1,2) by linarith
  show "i \<notin> usados (bitmap fs)" using i by (simp add: usados_def)
  show "dentro cfg i (int i * block_size cfg) (block_size cfg)" by (simp add: dentro_def)
qed

section \<open>Taking a block\<close>

definition crece :: "fsConfig \<Rightarrow> nat \<Rightarrow> nat \<Rightarrow> filesys \<Rightarrow> filesys \<Rightarrow> bool" where
  "crece cfg k n fs fs' \<longleftrightarrow> fs_base cfg fs' \<and> intacto cfg k fs fs' \<and>
     tamanio (listaFCB fs' ! k) = tamanio (listaFCB fs ! k) \<and>
     (\<exists>xs. length xs = n \<and> bloques_datos cfg (datos_bloques fs') (listaFCB fs' ! k)
        = bloques_datos cfg (datos_bloques fs) (listaFCB fs ! k) @ xs) \<and>
     (\<forall>b \<in> set (bloques_datos cfg (datos_bloques fs) (listaFCB fs ! k)).
        bloque cfg (datos_bloques fs') b = bloque cfg (datos_bloques fs) b)"

lemma intacto_sin_datos:
  assumes "listaFCB fs' = (listaFCB fs)[k := f']" "nombre_archivo f' = nombre_archivo (listaFCB fs ! k)"
    "datos_bloques fs' = datos_bloques fs" "length (bitmap fs') = length (bitmap fs)" "k < length (listaFCB fs)"
  shows "intacto cfg k fs fs'"
proof -
  have "map nombre_archivo (listaFCB fs') = map nombre_archivo (listaFCB fs)"
    unfolding assms(1) map_update assms(2) using assms(5) by (metis list_update_id nth_map)
  then show ?thesis using assms by (simp add: intacto_def mismos_bloques_def)
qed

lemma tomar_directo:
  assumes ok: "fs_base cfg fs" "k < length (listaFCB fs)" and i: "find_index Not (bitmap fs) = Some i"
    and f: "punteroDir (listaFCB fs ! k) = -1"
  defines "fs' \<equiv> cambiar_fcb k (punteroDir_update (\<lambda>_. word_of_int (int i * block_size cfg)))
      (fs\<lparr>bitmap := (bitmap fs)[i := True]\<rparr>)"
  shows "crece cfg k 1 fs fs'"
proof -
  let ?f = "listaFCB fs ! k" and ?f' = "(listaFCB fs ! k)\<lparr>punteroDir := word_of_int (int i * block_size cfg)\<rparr>"
    and ?d = "datos_bloques fs"
  note D = fs_baseD [OF ok(1)] and L = libre_puntero [OF ok(1) i]
  have lista: "listaFCB fs' = (listaFCB fs)[k := ?f']" by (simp add: fs'_def cambiar_fcb_def)
  have resto: "datos_bloques fs' = ?d" "bitmap fs' = (bitmap fs)[i := True]" "directorio fs' = directorio fs"
    by (simp_all add: fs'_def cambiar_fcb_def)
  have bf: "fcb_base cfg (length (bitmap fs)) ?d ?f" using D(4) ok(2) by simp
  have dirn: "punteroDir ?f' \<noteq> -1" "sint (punteroDir ?f') = int i * block_size cfg"
    using word_of_int_no_menos_uno [OF L(2,3)] sint_word_of_int [OF L(2,3)] by simp_all
  have bf': "fcb_base cfg (length (bitmap fs)) ?d ?f'"
    using bf f dirn L(1) by (simp add: fcb_base_def)
  have In: "punteroIn ?f = -1" "cantidad_indirectos ?f = 0" using bf f by (simp_all add: fcb_base_def)
  have bd: "bloques_datos cfg ?d ?f' = [i]" "bloques_datos cfg ?d ?f = []"
    using dirn In f D(1) by (simp_all add: bloques_datos_def)
  have "fs_base cfg fs'"
    using bf' bd In mset_usados_True [OF i] D(4)
    by (intro fs_base_cambio [OF ok lista]) (auto simp: resto bloques_fcb_def dest: en_remove_nth)
  moreover have "intacto cfg k fs fs'"
    by (rule intacto_sin_datos [OF lista]) (use ok(2) in \<open>simp_all add: resto\<close>)
  ultimately show ?thesis using ok(2) bd by (simp add: crece_def lista resto)
qed

lemma tomar_punteros:
  assumes ok: "fs_base cfg fs" "k < length (listaFCB fs)" and i: "find_index Not (bitmap fs) = Some i"
    and f: "punteroDir (listaFCB fs ! k) \<noteq> -1" "punteroIn (listaFCB fs ! k) = -1"
  defines "fs' \<equiv> cambiar_fcb k (punteroIn_update (\<lambda>_. word_of_int (int i * block_size cfg)))
      (fs\<lparr>bitmap := (bitmap fs)[i := True]\<rparr>)"
  shows "crece cfg k 0 fs fs'" "cantidad_indirectos (listaFCB fs' ! k) = 0"
    "punteroIn (listaFCB fs' ! k) \<noteq> -1"
proof -
  let ?f = "listaFCB fs ! k" and ?f' = "(listaFCB fs ! k)\<lparr>punteroIn := word_of_int (int i * block_size cfg)\<rparr>"
    and ?d = "datos_bloques fs"
  note D = fs_baseD [OF ok(1)] and L = libre_puntero [OF ok(1) i]
  have lista: "listaFCB fs' = (listaFCB fs)[k := ?f']" by (simp add: fs'_def cambiar_fcb_def)
  have resto: "datos_bloques fs' = ?d" "bitmap fs' = (bitmap fs)[i := True]" "directorio fs' = directorio fs"
    by (simp_all add: fs'_def cambiar_fcb_def)
  have bf: "fcb_base cfg (length (bitmap fs)) ?d ?f" using D(4) ok(2) by simp
  have inn: "punteroIn ?f' \<noteq> -1" "sint (punteroIn ?f') = int i * block_size cfg"
    using word_of_int_no_menos_uno [OF L(2,3)] sint_word_of_int [OF L(2,3)] by simp_all
  have c0: "cantidad_indirectos ?f = 0" using bf f by (simp add: fcb_base_def)
  have bf': "fcb_base cfg (length (bitmap fs)) ?d ?f'"
    using bf f inn L(1) c0 by (simp add: fcb_base_def)
  have bd: "bloques_datos cfg ?d ?f' = bloques_datos cfg ?d ?f"
    using c0 by (simp add: bloques_datos_def)
  have "fs_base cfg fs'"
    using bf' bd inn f mset_usados_True [OF i] D(1,4)
    by (intro fs_base_cambio [OF ok lista]) (auto simp: resto bloques_fcb_def dest: en_remove_nth)
  moreover have "intacto cfg k fs fs'"
    by (rule intacto_sin_datos [OF lista]) (use ok(2) in \<open>simp_all add: resto\<close>)
  ultimately show "crece cfg k 0 fs fs'" using ok(2) bd by (simp add: crece_def lista resto)
  show "cantidad_indirectos (listaFCB fs' ! k) = 0" "punteroIn (listaFCB fs' ! k) \<noteq> -1"
    using ok(2) c0 inn by (simp_all add: lista)
qed

text \<open>A write inside one block of file \<open>k\<close>, seen from the other files and from its other blocks.\<close>

lemma bloque_ajeno:
  assumes "escribir_area d p w = Inr d'" "dentro cfg b p (int (length w))" "0 < block_size cfg" "c \<noteq> b"
  shows "bloque cfg d' c = bloque cfg d c"
proof -
  have "dentro cfg c (int c * block_size cfg) (block_size cfg)" by (simp add: dentro_def)
  from dentro_separado [OF assms(2) this] assms(3,4) show ?thesis
    unfolding bloque_def by (intro leer_area_otro [OF assms(1)]) auto
qed

lemma escritura_otros_archivos:
  assumes ok: "fs_base cfg fs" "k < length (listaFCB fs)"
    and w: "escribir_area (datos_bloques fs) p w = Inr d'" "dentro cfg b p (int (length w))"
    and b: "b \<in> set (bloques_fcb cfg (datos_bloques fs) (listaFCB fs ! k)) \<or> b \<notin> usados (bitmap fs)"
    and g: "g \<in> set (remove_nth k (listaFCB fs))"
  shows "mismos_bloques cfg (datos_bloques fs) d' g" "fcb_base cfg (length (bitmap fs)) d' g"
proof -
  note D = fs_baseD [OF ok(1)]
  have bs: "0 < block_size cfg" using D(1) by simp
  obtain j where j: "j < length (listaFCB fs)" "g = listaFCB fs ! j"
    using en_remove_nth [OF g] by (auto simp: in_set_conv_nth)
  have aj: "b \<notin> set (bloques_fcb cfg (datos_bloques fs) g)"
    using b bloques_distintos(2) [OF ok g] bloques_distintos(3) [OF ok(1) j(1)] j(2) by blast
  then have "punteroIn g = -1 \<or> num_bloque cfg (sint (punteroIn g)) \<noteq> b"
    by (auto simp: bloques_fcb_def split: if_splits)
  note E = escritura_ajena [OF w bs D(4) [OF en_remove_nth [OF g]] this]
  show "fcb_base cfg (length (bitmap fs)) d' g" by (rule E(3))
  have "bloque cfg d' c = bloque cfg (datos_bloques fs) c"
    if "c \<in> set (bloques_fcb cfg (datos_bloques fs) g)" for c
    using aj that by (intro bloque_ajeno [OF w bs]) auto
  then show "mismos_bloques cfg (datos_bloques fs) d' g" using E(1,2) by (simp add: mismos_bloques_def)
qed

lemma punteros_en_bloque:
  assumes "fcb_base cfg n d f" "punteroIn f \<noteq> -1" "0 < block_size cfg" "0 \<le> j" "4 * j + 4 \<le> block_size cfg"
  shows "dentro cfg (num_bloque cfg (sint (punteroIn f))) (sint (punteroIn f) + 4 * j) 4"
    "num_bloque cfg (sint (punteroIn f)) < n"
proof -
  have "puntero_ok cfg n (sint (punteroIn f))" using assms by (simp add: fcb_base_def)
  note P = puntero_num [OF this assms(3)]
  show "num_bloque cfg (sint (punteroIn f)) < n" by (rule P(2))
  show "dentro cfg (num_bloque cfg (sint (punteroIn f))) (sint (punteroIn f) + 4 * j) 4"
    using P(1) assms(4,5) by (simp add: dentro_def)
qed

lemma dentro_area:
  assumes "fs_base cfg fs" "dentro cfg b p n" "b < length (bitmap fs)" "0 \<le> n"
  shows "en_area (datos_bloques fs) p n"
proof -
  note D = fs_baseD [OF assms(1)]
  have "(int b + 1) * block_size cfg \<le> int (length (bitmap fs)) * block_size cfg"
    using assms(3) D(1) by (intro mult_right_mono) simp_all
  moreover have "0 \<le> int b * block_size cfg" using D(1) by simp
  moreover have "int (length (bitmap fs)) * block_size cfg \<le> int (length (datos_bloques fs))"
    using D(3) by (simp only: mult.commute)
  ultimately show ?thesis using assms(2,4) unfolding en_area_def dentro_def distrib_right by linarith
qed

lemma cantidad_suma: "cantidad_indirectos_update (\<lambda>n. n + 1) f = f\<lparr>cantidad_indirectos := cantidad_indirectos f + 1\<rparr>"
  by (cases f) simp

lemma cantidad_resta: "cantidad_indirectos_update (\<lambda>n. n - 1) f = f\<lparr>cantidad_indirectos := cantidad_indirectos f - 1\<rparr>"
  by (cases f) simp

lemma tomar_indirecto:
  assumes ok: "fs_base cfg fs" "k < length (listaFCB fs)" and i: "find_index Not (bitmap fs) = Some i"
    and f: "punteroIn (listaFCB fs ! k) \<noteq> -1" "4 * cantidad_indirectos (listaFCB fs ! k) + 4 \<le> block_size cfg"
  obtains d' where "escribirBloque (fs\<lparr>bitmap := (bitmap fs)[i := True]\<rparr>) (sint (punteroIn (listaFCB fs ! k)))
        (4 * cantidad_indirectos (listaFCB fs ! k)) (enc_int (int i * block_size cfg))
      = Inr (fs\<lparr>bitmap := (bitmap fs)[i := True], datos_bloques := d'\<rparr>)"
    "crece cfg k 1 fs (cambiar_fcb k (cantidad_indirectos_update (\<lambda>n. n + 1))
       (fs\<lparr>bitmap := (bitmap fs)[i := True], datos_bloques := d'\<rparr>))"
proof -
  let ?f = "listaFCB fs ! k" and ?d = "datos_bloques fs" and ?p = "int i * block_size cfg"
  let ?c = "cantidad_indirectos ?f"
  let ?q = "sint (punteroIn ?f) + 4 * ?c" and ?b = "num_bloque cfg (sint (punteroIn ?f))"
  let ?f' = "?f\<lparr>cantidad_indirectos := ?c + 1\<rparr>"
  note D = fs_baseD [OF ok(1)] and L = libre_puntero [OF ok(1) i]
  have bs: "0 < block_size cfg" using D(1) by simp
  have bf: "fcb_base cfg (length (bitmap fs)) ?d ?f" using D(4) ok(2) by simp
  have c: "0 \<le> ?c" "punteroDir ?f \<noteq> -1" using bf f by (auto simp: fcb_base_def)
  note E = punteros_en_bloque [OF bf f(1) bs c(1) f(2)]
  have "en_area ?d ?q 4" by (rule dentro_area [OF ok(1) E]) simp
  then obtain d' where w: "escribir_area ?d ?q (enc_int ?p) = Inr d'" by (simp add: escribir_area_def)
  have dq: "dentro cfg ?b ?q (int (length (enc_int ?p)))" using E by simp
  define fs2 where "fs2 = fs\<lparr>bitmap := (bitmap fs)[i := True], datos_bloques := d'\<rparr>"
  define fs' where "fs' = cambiar_fcb k (cantidad_indirectos_update (\<lambda>n. n + 1)) fs2"
  have lista: "listaFCB fs' = (listaFCB fs)[k := ?f']" by (simp add: fs'_def fs2_def cambiar_fcb_def cantidad_suma)
  have resto: "datos_bloques fs' = d'" "bitmap fs' = (bitmap fs)[i := True]" "directorio fs' = directorio fs"
    by (simp_all add: fs'_def fs2_def cambiar_fcb_def)
  have len: "length d' = length ?d" by (rule escribir_area_length [OF w])
  have viejos: "puntero_ind d' ?f j = puntero_ind ?d ?f j" if "j < nat ?c" for j
    using that by (intro ind_escritura [OF w]) auto
  have igual: "puntero_ind d' ?f' j = puntero_ind d' ?f j" for j by (simp add: puntero_ind_def)
  have "leer_area d' ?q (int (length (enc_int ?p))) = Inr (enc_int ?p)" by (rule area.leer_escrito [OF w])
  then have "puntero_ind d' ?f (nat ?c) = dec_int (enc_int ?p)" using c by (simp add: puntero_ind_def leido_def)
  then have nuevo: "puntero_ind d' ?f (nat ?c) = ?p" using L(2,3) by (simp add: int32_ok_def)
  have suc: "nat (?c + 1) = Suc (nat ?c)" using c by simp
  have bd: "bloques_datos cfg d' ?f' = bloques_datos cfg ?d ?f @ [i]"
    using viejos nuevo c bs by (simp add: bloques_datos_def suc igual)
  have bff: "bloques_fcb cfg d' ?f' = bloques_fcb cfg ?d ?f @ [i]"
    using bd by (simp add: bloques_fcb_def)
  have bf': "fcb_base cfg (length (bitmap fs)) d' ?f'"
    using bf f viejos nuevo L(1) c unfolding fcb_base_def by (auto simp: suc igual less_Suc_eq)
  have enb: "?b \<in> set (bloques_fcb cfg ?d ?f) \<or> ?b \<notin> usados (bitmap fs)"
    using f(1) by (simp add: bloques_fcb_def)
  note O = escritura_otros_archivos [OF ok w dq enb]
  have "fs_base cfg fs'"
  proof (rule fs_base_cambio [OF ok lista])
    show "mset (bloques_fcb cfg (datos_bloques fs') ?f') + mset_set (usados (bitmap fs)) =
      mset (bloques_fcb cfg ?d ?f) + mset_set (usados (bitmap fs'))"
      using mset_usados_True [OF i] by (simp add: resto bff)
    show "\<And>g. g \<in> set (remove_nth k (listaFCB fs)) \<Longrightarrow>
       bloques_fcb cfg (datos_bloques fs') g = bloques_fcb cfg ?d g \<and> fcb_base cfg (length (bitmap fs)) (datos_bloques fs') g"
      using O by (simp add: resto mismos_bloques_def)
  qed (use bf' len in \<open>simp_all add: resto\<close>)
  moreover have "intacto cfg k fs fs'"
  proof -
    have "map nombre_archivo (listaFCB fs') = map nombre_archivo (listaFCB fs)"
      unfolding lista map_update using ok(2)
      by (metis fcb.ext_inject fcb.surjective fcb.update_convs(5) list_update_id nth_map)
    then show ?thesis using O(1) ok(2) len
      by (simp add: intacto_def resto lista nth_en_remove_nth)
  qed
  moreover have "bloque cfg d' x = bloque cfg ?d x" if "x \<in> set (bloques_datos cfg ?d ?f)" for x
  proof -
    have "x \<noteq> ?b" using bloques_distintos(1) [OF ok] f(1) that by (auto simp: bloques_fcb_def)
    then show ?thesis by (rule bloque_ajeno [OF w dq bs])
  qed
  ultimately have cr: "crece cfg k 1 fs fs'" using ok(2) bd by (simp add: crece_def lista resto)
  have e: "escribirBloque (fs\<lparr>bitmap := (bitmap fs)[i := True]\<rparr>) (sint (punteroIn ?f)) (4 * ?c) (enc_int ?p) = Inr fs2"
    using w by (simp add: escribirBloque_def fs2_def)
  show thesis by (rule that [OF e [unfolded fs2_def] cr [unfolded fs'_def fs2_def]])
qed

lemma crece_trans:
  assumes a: "crece cfg k n fs fs1" and b: "crece cfg k m fs1 fs2"
  shows "crece cfg k (n + m) fs fs2"
proof -
  let ?b = "\<lambda>fs. bloques_datos cfg (datos_bloques fs) (listaFCB fs ! k)"
  obtain xs where xs: "length xs = n" "?b fs1 = ?b fs @ xs" using a by (auto simp: crece_def)
  obtain ys where ys: "length ys = m" "?b fs2 = ?b fs1 @ ys" using b by (auto simp: crece_def)
  have "?b fs2 = ?b fs @ (xs @ ys)" "length (xs @ ys) = n + m" using xs ys by simp_all
  then have e: "\<exists>zs. length zs = n + m \<and> ?b fs2 = ?b fs @ zs" by blast
  have "\<forall>x \<in> set (?b fs). bloque cfg (datos_bloques fs2) x = bloque cfg (datos_bloques fs) x"
    using a b xs(2) by (simp add: crece_def)
  with e show ?thesis using a b by (auto simp: crece_def intro: intacto_trans)
qed

lemma crece_directorio:
  assumes "crece cfg k n fs fs'" "\<forall>r. dictionary_get dir' r = None \<longleftrightarrow> dictionary_get (directorio fs') r = None"
  shows "crece cfg k n fs (fs'\<lparr>directorio := dir'\<rparr>)"
  using assms by (simp add: crece_def intacto_directorio fs_base_directorio)

text \<open>Writing the control block to its file keeps all of this.\<close>

lemma asentar_crece:
  assumes "crece cfg k n fs fs'" "k < length (listaFCB fs)"
  obtains dir' where "asentarFCB cm cfg k fs' = Inr (fs'\<lparr>directorio := dir'\<rparr>)"
    "crece cfg k n fs (fs'\<lparr>directorio := dir'\<rparr>)"
proof -
  have "archivos_en_disco cfg fs'" "k < length (listaFCB fs')"
    using assms intacto_length [of cfg k fs fs'] fs_baseD(6) [of cfg fs'] by (simp_all add: crece_def)
  then obtain dir' where d: "asentarFCB cm cfg k fs' = Inr (fs'\<lparr>directorio := dir'\<rparr>)"
    "\<forall>r. dictionary_get dir' r = None \<longleftrightarrow> dictionary_get (directorio fs') r = None"
    by (rule asentarFCB_ok)
  then show thesis using that crece_directorio [OF assms(1)] by blast
qed

lemma ocupar_sin_libres:
  "libres fs = 0 \<Longrightarrow> ocuparBloqueLibre cm cfg k fs = Inr (fs, -1)"
proof -
  assume "libres fs = 0"
  then have "find_index Not (bitmap fs) = None" by (simp add: libres_def find_index_None_iff filter_empty_conv)
  then show ?thesis by (simp add: ocuparBloqueLibre.simps)
qed

text \<open>One block, when the block of pointers is not needed or is already there.\<close>

lemma ocupar_simple:
  assumes ok: "fs_base cfg fs" "k < length (listaFCB fs)" "0 < libres fs"
    and f: "punteroDir (listaFCB fs ! k) = -1 \<or> punteroIn (listaFCB fs ! k) \<noteq> -1 \<and>
      4 * cantidad_indirectos (listaFCB fs ! k) + 4 \<le> block_size cfg"
  obtains fs' i where "ocuparBloqueLibre cm cfg k fs = Inr (fs', int i)" "crece cfg k 1 fs fs'"
    "libres fs = Suc (libres fs')"
    "punteroIn (listaFCB fs' ! k) = punteroIn (listaFCB fs ! k)"
    "punteroDir (listaFCB fs ! k) \<noteq> -1 \<longrightarrow>
      cantidad_indirectos (listaFCB fs' ! k) = cantidad_indirectos (listaFCB fs ! k) + 1"
proof -
  obtain i where i: "find_index Not (bitmap fs) = Some i" using ok(3) by (rule hay_libre)
  let ?p = "int i * block_size cfg" and ?f = "listaFCB fs ! k"
  show thesis
  proof (cases "punteroDir ?f = -1")
    case True
    let ?fs = "cambiar_fcb k (punteroDir_update (\<lambda>_. word_of_int ?p)) (fs\<lparr>bitmap := (bitmap fs)[i := True]\<rparr>)"
    have cr: "crece cfg k 1 fs ?fs" by (rule tomar_directo [OF ok(1,2) i True])
    obtain dir' where d: "asentarFCB cm cfg k ?fs = Inr (?fs\<lparr>directorio := dir'\<rparr>)"
      "crece cfg k 1 fs (?fs\<lparr>directorio := dir'\<rparr>)" by (rule asentar_crece [OF cr ok(2)])
    have "ocuparBloqueLibre cm cfg k fs = Inr (?fs\<lparr>directorio := dir'\<rparr>, int i)"
      using True d(1) by (subst ocuparBloqueLibre.simps) (simp add: i Let_def cambiar_fcb_def)
    then show thesis
      by (rule that [OF _ d(2)]) (use ok(2) True libres_tomar [OF i] in \<open>simp_all add: cambiar_fcb_def libres_def\<close>)
  next
    case False
    then have In: "punteroIn ?f \<noteq> -1" "4 * cantidad_indirectos ?f + 4 \<le> block_size cfg" using f by auto
    obtain d' where w: "escribirBloque (fs\<lparr>bitmap := (bitmap fs)[i := True]\<rparr>) (sint (punteroIn ?f))
          (4 * cantidad_indirectos ?f) (enc_int ?p) = Inr (fs\<lparr>bitmap := (bitmap fs)[i := True], datos_bloques := d'\<rparr>)"
      and cr: "crece cfg k 1 fs (cambiar_fcb k (cantidad_indirectos_update (\<lambda>n. n + 1))
         (fs\<lparr>bitmap := (bitmap fs)[i := True], datos_bloques := d'\<rparr>))"
      by (rule tomar_indirecto [OF ok(1,2) i In])
    let ?fs = "cambiar_fcb k (cantidad_indirectos_update (\<lambda>n. n + 1))
         (fs\<lparr>bitmap := (bitmap fs)[i := True], datos_bloques := d'\<rparr>)"
    obtain dir' where d: "asentarFCB cm cfg k ?fs = Inr (?fs\<lparr>directorio := dir'\<rparr>)"
      "crece cfg k 1 fs (?fs\<lparr>directorio := dir'\<rparr>)" by (rule asentar_crece [OF cr ok(2)])
    have "ocuparBloqueLibre cm cfg k fs = Inr (?fs\<lparr>directorio := dir'\<rparr>, int i)"
      using False In(1) d(1) w by (subst ocuparBloqueLibre.simps) (simp add: i Let_def)
    then show thesis
      by (rule that [OF _ d(2)]) (use ok(2) False libres_tomar [OF i] in \<open>simp_all add: cambiar_fcb_def libres_def\<close>)
  qed
qed

text \<open>The direct block is there and the block of pointers is not: two blocks are taken.\<close>

lemma ocupar_doble:
  assumes ok: "fs_base cfg fs" "k < length (listaFCB fs)" "2 \<le> libres fs"
    and f: "punteroDir (listaFCB fs ! k) \<noteq> -1" "punteroIn (listaFCB fs ! k) = -1"
  obtains fs' i where "ocuparBloqueLibre cm cfg k fs = Inr (fs', int i)" "crece cfg k 1 fs fs'"
    "libres fs = libres fs' + 2" "punteroIn (listaFCB fs' ! k) \<noteq> -1" "cantidad_indirectos (listaFCB fs' ! k) = 1"
proof -
  obtain i where i: "find_index Not (bitmap fs) = Some i" using ok(3) by (auto intro: hay_libre [of fs])
  let ?f = "listaFCB fs ! k"
  let ?fs = "cambiar_fcb k (punteroIn_update (\<lambda>_. word_of_int (int i * block_size cfg)))
      (fs\<lparr>bitmap := (bitmap fs)[i := True]\<rparr>)"
  note T = tomar_punteros [OF ok(1,2) i f]
  have l1: "libres fs = Suc (libres ?fs)" using libres_tomar [OF i] by (simp add: libres_def cambiar_fcb_def)
  have b1: "fs_base cfg ?fs" "k < length (listaFCB ?fs)" using T(1) ok(2) by (auto simp: crece_def cambiar_fcb_def)
  have dir: "punteroDir (listaFCB ?fs ! k) \<noteq> -1" using f ok(2) by (simp add: cambiar_fcb_def)
  have listo: "punteroDir (listaFCB ?fs ! k) = -1 \<or> punteroIn (listaFCB ?fs ! k) \<noteq> -1 \<and>
      4 * cantidad_indirectos (listaFCB ?fs ! k) + 4 \<le> block_size cfg"
    using T(2,3) fs_baseD(1) [OF ok(1)] by simp
  have "0 < libres ?fs" using l1 ok(3) by simp
  from ocupar_simple [OF b1 this listo, of cm] obtain fs2 i2 where
    s: "ocuparBloqueLibre cm cfg k ?fs = Inr (fs2, int i2)" "crece cfg k 1 ?fs fs2"
      "libres ?fs = Suc (libres fs2)" "punteroIn (listaFCB fs2 ! k) = punteroIn (listaFCB ?fs ! k)"
      "punteroDir (listaFCB ?fs ! k) \<noteq> -1 \<longrightarrow>
        cantidad_indirectos (listaFCB fs2 ! k) = cantidad_indirectos (listaFCB ?fs ! k) + 1"
    by blast
  have cr: "crece cfg k 1 fs fs2" using crece_trans [OF T(1) s(2)] by simp
  obtain dir' where d: "asentarFCB cm cfg k fs2 = Inr (fs2\<lparr>directorio := dir'\<rparr>)"
    "crece cfg k 1 fs (fs2\<lparr>directorio := dir'\<rparr>)" by (rule asentar_crece [OF cr ok(2)])
  have "ocuparBloqueLibre cm cfg k fs = Inr (fs2\<lparr>directorio := dir'\<rparr>, int i)"
    using f s(1) d(1) by (subst ocuparBloqueLibre.simps) (simp add: i Let_def)
  then show thesis
    by (rule that [OF _ d(2)]) (use l1 s dir T in \<open>simp_all add: libres_def\<close>)
qed

section \<open>Growing\<close>

text \<open>The blocks a file with \<open>a\<close> data blocks takes to have \<open>b\<close>: one more for the pointers.\<close>

definition necesita :: "nat \<Rightarrow> nat \<Rightarrow> nat" where
  "necesita a b = (b - a) + (if a \<le> 1 \<and> 2 \<le> b then 1 else 0)"

definition datos_de :: "fsConfig \<Rightarrow> filesys \<Rightarrow> nat \<Rightarrow> nat list" where
  "datos_de cfg fs k = bloques_datos cfg (datos_bloques fs) (listaFCB fs ! k)"

lemma datos_de_length:
  assumes "fs_medio cfg fs" "k < length (listaFCB fs)"
  shows "punteroDir (listaFCB fs ! k) = -1 \<longleftrightarrow> length (datos_de cfg fs k) = 0"
    "punteroIn (listaFCB fs ! k) = -1 \<longleftrightarrow> length (datos_de cfg fs k) \<le> 1"
    "1 \<le> length (datos_de cfg fs k) \<Longrightarrow>
      int (length (datos_de cfg fs k)) = 1 + cantidad_indirectos (listaFCB fs ! k)"
proof -
  have "fcb_base cfg (length (bitmap fs)) (datos_bloques fs) (listaFCB fs ! k)"
    using assms fs_baseD(4) [of cfg fs] by (simp add: fs_medio_def)
  moreover have "punteroIn (listaFCB fs ! k) \<noteq> -1 \<longrightarrow> 1 \<le> cantidad_indirectos (listaFCB fs ! k)"
    using assms by (simp add: fs_medio_def)
  ultimately show "punteroDir (listaFCB fs ! k) = -1 \<longleftrightarrow> length (datos_de cfg fs k) = 0"
    "punteroIn (listaFCB fs ! k) = -1 \<longleftrightarrow> length (datos_de cfg fs k) \<le> 1"
    "1 \<le> length (datos_de cfg fs k) \<Longrightarrow>
      int (length (datos_de cfg fs k)) = 1 + cantidad_indirectos (listaFCB fs ! k)"
    by (auto simp: fcb_base_def datos_de_def bloques_datos_def)
qed

lemma crece_datos: "crece cfg k n fs fs' \<Longrightarrow> length (datos_de cfg fs' k) = length (datos_de cfg fs k) + n"
  by (auto simp: crece_def datos_de_def)

lemma medio_crece:
  assumes "fs_medio cfg fs" "crece cfg k n fs fs'" "k < length (listaFCB fs)"
    "punteroIn (listaFCB fs' ! k) \<noteq> -1 \<longrightarrow> 1 \<le> cantidad_indirectos (listaFCB fs' ! k)"
  shows "fs_medio cfg fs'"
proof -
  have "punteroIn f \<noteq> -1 \<longrightarrow> 1 \<le> cantidad_indirectos f" if "f \<in> set (listaFCB fs')" for f
  proof -
    from that obtain j where j: "j < length (listaFCB fs)" "f = listaFCB fs' ! j"
      using assms(2) intacto_length [of cfg k fs fs'] by (auto simp: in_set_conv_nth crece_def)
    then show ?thesis using assms by (cases "j = k") (auto simp: fs_medio_def crece_def intacto_def)
  qed
  then show ?thesis using assms(2) by (simp add: fs_medio_def crece_def)
qed

lemma ocupar_ok:
  assumes ok: "fs_medio cfg fs" "k < length (listaFCB fs)" and a: "a = length (datos_de cfg fs k)"
    and li: "necesita a (Suc a) \<le> libres fs" and tope: "4 * int a \<le> block_size cfg"
  shows "\<exists>fs' i. ocuparBloqueLibre cm cfg k fs = Inr (fs', int i) \<and> crece cfg k 1 fs fs' \<and>
    fs_medio cfg fs' \<and> libres fs = libres fs' + necesita a (Suc a)"
proof -
  have b: "fs_base cfg fs" using ok(1) by (simp add: fs_medio_def)
  note L = datos_de_length [OF ok, folded a]
  show ?thesis
  proof (cases "a = 1")
    case True
    then have f: "punteroDir (listaFCB fs ! k) \<noteq> -1" "punteroIn (listaFCB fs ! k) = -1" "2 \<le> libres fs"
      using L li by (simp_all add: necesita_def)
    obtain fs' i where "ocuparBloqueLibre cm cfg k fs = Inr (fs', int i)" "crece cfg k 1 fs fs'"
      "libres fs = libres fs' + 2" "punteroIn (listaFCB fs' ! k) \<noteq> -1" "cantidad_indirectos (listaFCB fs' ! k) = 1"
      by (rule ocupar_doble [OF b ok(2) f(3,1,2)])
    then show ?thesis using True medio_crece [OF ok(1) _ ok(2)] by (auto simp: necesita_def)
  next
    case False
    have f: "punteroDir (listaFCB fs ! k) = -1 \<or> punteroIn (listaFCB fs ! k) \<noteq> -1 \<and>
      4 * cantidad_indirectos (listaFCB fs ! k) + 4 \<le> block_size cfg"
      using L False tope by auto
    have "0 < libres fs" using li False by (simp add: necesita_def)
    from ocupar_simple [OF b ok(2) this f, of cm] obtain fs' i where
      s: "ocuparBloqueLibre cm cfg k fs = Inr (fs', int i)" "crece cfg k 1 fs fs'" "libres fs = Suc (libres fs')"
        "punteroIn (listaFCB fs' ! k) = punteroIn (listaFCB fs ! k)"
        "punteroDir (listaFCB fs ! k) \<noteq> -1 \<longrightarrow>
          cantidad_indirectos (listaFCB fs' ! k) = cantidad_indirectos (listaFCB fs ! k) + 1"
      by blast
    have "punteroIn (listaFCB fs' ! k) \<noteq> -1 \<longrightarrow> 1 \<le> cantidad_indirectos (listaFCB fs' ! k)"
      using s(4,5) L False by auto
    then show ?thesis using s False medio_crece [OF ok(1) s(2) ok(2)] by (auto simp: necesita_def)
  qed
qed

lemma ocupar_bloques_ok:
  assumes "fs_medio cfg fs" "k < length (listaFCB fs)" "a = length (datos_de cfg fs k)"
    "necesita a (a + n) \<le> libres fs" "4 * int (a + n) \<le> block_size cfg + 4"
  shows "\<exists>fs'. ocupar_bloques cm cfg k n fs = Inr (fs', True) \<and> crece cfg k n fs fs' \<and> fs_medio cfg fs'
    \<and> libres fs = libres fs' + necesita a (a + n)"
  using assms
proof (induction n arbitrary: fs a)
  case 0
  then show ?case by (simp add: crece_def necesita_def fs_medio_def)
next
  case (Suc n)
  have "necesita a (Suc a) \<le> libres fs" "4 * int a \<le> block_size cfg"
    using Suc.prems by (auto simp: necesita_def split: if_splits)
  from ocupar_ok [OF Suc.prems(1-3) this, of cm] obtain fs1 i where
    s: "ocuparBloqueLibre cm cfg k fs = Inr (fs1, int i)" "crece cfg k 1 fs fs1" "fs_medio cfg fs1"
      "libres fs = libres fs1 + necesita a (Suc a)" by blast
  have a1: "Suc a = length (datos_de cfg fs1 k)" using crece_datos [OF s(2)] Suc.prems(3) by simp
  have k1: "k < length (listaFCB fs1)"
    using s(2) Suc.prems(2) intacto_length [of cfg k fs fs1] by (simp add: crece_def)
  have suma: "necesita a (a + Suc n) = necesita a (Suc a) + necesita (Suc a) (Suc a + n)"
    by (auto simp: necesita_def)
  have "necesita (Suc a) (Suc a + n) \<le> libres fs1" "4 * int (Suc a + n) \<le> block_size cfg + 4"
    using Suc.prems(4,5) s(4) suma by simp_all
  from Suc.IH [OF s(3) k1 a1 this] obtain fs2 where
    "ocupar_bloques cm cfg k n fs1 = Inr (fs2, True)" "crece cfg k n fs1 fs2" "fs_medio cfg fs2"
      "libres fs1 = libres fs2 + necesita (Suc a) (Suc a + n)" by blast
  moreover from this have "crece cfg k (Suc n) fs fs2" using crece_trans [OF s(2)] by fastforce
  ultimately show ?case using s suma by simp
qed

section \<open>Writing data\<close>

text \<open>A write inside one data block keeps the invariant and every other block.\<close>

lemma escritura_datos_ok:
  assumes ok: "fs_base cfg fs" "k < length (listaFCB fs)" and b: "b \<in> set (datos_de cfg fs k)"
    and w: "escribir_area (datos_bloques fs) p w = Inr d'" "dentro cfg b p (int (length w))"
  shows "fs_base cfg (fs\<lparr>datos_bloques := d'\<rparr>)" "intacto cfg k fs (fs\<lparr>datos_bloques := d'\<rparr>)"
    "bloques_fcb cfg d' (listaFCB fs ! k) = bloques_fcb cfg (datos_bloques fs) (listaFCB fs ! k)"
    "bloques_datos cfg d' (listaFCB fs ! k) = bloques_datos cfg (datos_bloques fs) (listaFCB fs ! k)"
    "c \<noteq> b \<Longrightarrow> bloque cfg d' c = bloque cfg (datos_bloques fs) c"
    "fcb_base cfg (length (bitmap fs)) d' (listaFCB fs ! k)"
proof -
  let ?f = "listaFCB fs ! k" and ?d = "datos_bloques fs"
  note D = fs_baseD [OF ok(1)]
  have bs: "0 < block_size cfg" using D(1) by simp
  have bf: "fcb_base cfg (length (bitmap fs)) ?d ?f" using D(4) ok(2) by simp
  have "punteroIn ?f = -1 \<or> num_bloque cfg (sint (punteroIn ?f)) \<noteq> b"
    using bloques_distintos(1) [OF ok] b by (auto simp: bloques_fcb_def datos_de_def)
  note E = escritura_ajena [OF w bs bf this]
  show "bloques_fcb cfg d' ?f = bloques_fcb cfg ?d ?f" "bloques_datos cfg d' ?f = bloques_datos cfg ?d ?f"
    "fcb_base cfg (length (bitmap fs)) d' ?f" by (rule E)+
  show "c \<noteq> b \<Longrightarrow> bloque cfg d' c = bloque cfg ?d c" by (rule bloque_ajeno [OF w bs])
  have "b \<in> set (bloques_fcb cfg ?d ?f) \<or> b \<notin> usados (bitmap fs)"
    using b by (simp add: datos_de_def bloques_fcb_def)
  note O = escritura_otros_archivos [OF ok w this]
  have len: "length d' = length ?d" by (rule escribir_area_length [OF w(1)])
  show "fs_base cfg (fs\<lparr>datos_bloques := d'\<rparr>)"
    by (rule fs_base_cambio [OF ok, of _ ?f]) (use O E len in \<open>simp_all add: mismos_bloques_def\<close>)
  show "intacto cfg k fs (fs\<lparr>datos_bloques := d'\<rparr>)"
    using O(1) ok(2) len by (simp add: intacto_def nth_en_remove_nth)
qed

section \<open>Giving back a block\<close>

definition encoge :: "fsConfig \<Rightarrow> nat \<Rightarrow> nat \<Rightarrow> filesys \<Rightarrow> filesys \<Rightarrow> bool" where
  "encoge cfg k n fs fs' \<longleftrightarrow> fs_medio cfg fs' \<and> intacto cfg k fs fs' \<and>
     (\<exists>xs. length xs = n \<and> datos_de cfg fs k = datos_de cfg fs' k @ xs) \<and>
     (\<forall>b \<in> set (datos_de cfg fs' k). bloque cfg (datos_bloques fs') b = bloque cfg (datos_bloques fs) b)"

lemma encoge_trans:
  assumes a: "encoge cfg k n fs fs1" and b: "encoge cfg k m fs1 fs2"
  shows "encoge cfg k (m + n) fs fs2"
proof -
  obtain xs where xs: "length xs = n" "datos_de cfg fs k = datos_de cfg fs1 k @ xs" using a by (auto simp: encoge_def)
  obtain ys where ys: "length ys = m" "datos_de cfg fs1 k = datos_de cfg fs2 k @ ys" using b by (auto simp: encoge_def)
  have "datos_de cfg fs k = datos_de cfg fs2 k @ (ys @ xs)" "length (ys @ xs) = m + n" using xs ys by simp_all
  then have e: "\<exists>zs. length zs = m + n \<and> datos_de cfg fs k = datos_de cfg fs2 k @ zs" by blast
  have "\<forall>x \<in> set (datos_de cfg fs2 k). bloque cfg (datos_bloques fs2) x = bloque cfg (datos_bloques fs) x"
    using a b ys(2) by (simp add: encoge_def)
  with e show ?thesis using a b by (auto simp: encoge_def intro: intacto_trans)
qed

lemma memset_bloque:
  assumes "fs_base cfg fs" "dentro cfg b p n" "b < length (bitmap fs)" "0 \<le> n"
  obtains d' where "memset_area (datos_bloques fs) p NUL n = Inr d'"
    "escribir_area (datos_bloques fs) p (replicate (nat n) NUL) = Inr d'"
  using dentro_area [OF assms] assms(4) that by (simp add: memset_area_def escribir_area_def)

lemma datos_en_disco:
  assumes "fs_base cfg fs" "k < length (listaFCB fs)" "b \<in> set (datos_de cfg fs k)"
  shows "b < length (bitmap fs)" "bitmap fs ! b"
  using bloques_distintos(3) [OF assms(1,2)] assms(3) by (auto simp: datos_de_def bloques_fcb_def usados_def)

lemma limpiar_ok:
  assumes ok: "fs_base cfg fs" "k < length (listaFCB fs)" and b: "b \<in> set (datos_de cfg fs k)"
  obtains d' where "limpiarBloque cfg fs (int b * block_size cfg) = Inr (fs\<lparr>datos_bloques := d'\<rparr>)"
    "escribir_area (datos_bloques fs) (int b * block_size cfg) (replicate (nat (block_size cfg)) NUL) = Inr d'"
    "dentro cfg b (int b * block_size cfg) (int (length (replicate (nat (block_size cfg)) NUL)))"
proof -
  have bs: "0 < block_size cfg" using fs_baseD(1) [OF ok(1)] by simp
  have d: "dentro cfg b (int b * block_size cfg) (block_size cfg)" by (simp add: dentro_def)
  obtain d' where "memset_area (datos_bloques fs) (int b * block_size cfg) NUL (block_size cfg) = Inr d'"
    "escribir_area (datos_bloques fs) (int b * block_size cfg) (replicate (nat (block_size cfg)) NUL) = Inr d'"
    by (rule memset_bloque [OF ok(1) d datos_en_disco(1) [OF ok b]]) (use bs in simp_all)
  then show thesis
    by (intro that [of d']) (use d bs in \<open>simp_all add: limpiarBloque_def borrarContenido_def\<close>)
qed

lemma limpiar_bit_ok:
  assumes "b < length (bitmap fs)" "0 < block_size cfg"
  shows "bitarray_clean_bit fs (int b * block_size cfg sdiv block_size cfg) = Inr (fs\<lparr>bitmap := (bitmap fs)[b := False]\<rparr>)"
    "bitarray_clean_bit fs (int b * block_size cfg div block_size cfg) = Inr (fs\<lparr>bitmap := (bitmap fs)[b := False]\<rparr>)"
  using assms by (simp_all add: bitarray_clean_bit_def)

lemma medio_encoge:
  assumes "fs_medio cfg fs" "fs_base cfg fs'" "intacto cfg k fs fs'" "k < length (listaFCB fs)"
    "punteroIn (listaFCB fs' ! k) \<noteq> -1 \<longrightarrow> 1 \<le> cantidad_indirectos (listaFCB fs' ! k)"
  shows "fs_medio cfg fs'"
proof -
  have "punteroIn f \<noteq> -1 \<longrightarrow> 1 \<le> cantidad_indirectos f" if "f \<in> set (listaFCB fs')" for f
  proof -
    from that obtain j where j: "j < length (listaFCB fs)" "f = listaFCB fs' ! j"
      using assms(3) intacto_length [of cfg k fs fs'] by (auto simp: in_set_conv_nth)
    then show ?thesis using assms by (cases "j = k") (auto simp: fs_medio_def intacto_def)
  qed
  then show ?thesis using assms(2) by (simp add: fs_medio_def)
qed

text \<open>The direct block is the only one.\<close>

lemma liberar_directo:
  assumes ok: "fs_medio cfg fs" "k < length (listaFCB fs)"
    and f: "punteroIn (listaFCB fs ! k) = -1" "punteroDir (listaFCB fs ! k) \<noteq> -1"
  obtains fs6 where "bind_res (limpiarBloque cfg fs (sint (punteroDir (listaFCB fs ! k)))) (\<lambda>fs1.
       bind_res (bitarray_clean_bit fs1 (uint (punteroDir (listaFCB fs ! k)) div block_size cfg)) (\<lambda>fs2.
       Inr (cambiar_fcb k (punteroDir_update (\<lambda>_. -1)) fs2))) = Inr fs6"
    "encoge cfg k 1 fs fs6"
proof -
  let ?f = "listaFCB fs ! k" and ?b = "num_bloque cfg (sint (punteroDir (listaFCB fs ! k)))"
  have base: "fs_base cfg fs" using ok(1) by (simp add: fs_medio_def)
  note D = fs_baseD [OF base]
  have bs: "0 < block_size cfg" using D(1) by simp
  have bf: "fcb_base cfg (length (bitmap fs)) (datos_bloques fs) ?f" using D(4) ok(2) by simp
  have c0: "cantidad_indirectos ?f = 0" using bf f by (simp add: fcb_base_def)
  have p: "puntero_ok cfg (length (bitmap fs)) (sint (punteroDir ?f))" using bf f by (simp add: fcb_base_def)
  note P = puntero_num [OF p bs]
  have u: "uint (punteroDir ?f) = sint (punteroDir ?f)"
    using p by (intro uint_igual_sint) (simp add: puntero_ok_def)
  have dat: "datos_de cfg fs k = [?b]" using f c0 by (simp add: datos_de_def bloques_datos_def)
  then have enb: "?b \<in> set (datos_de cfg fs k)" by simp
  obtain d' where l: "limpiarBloque cfg fs (int ?b * block_size cfg) = Inr (fs\<lparr>datos_bloques := d'\<rparr>)"
    "escribir_area (datos_bloques fs) (int ?b * block_size cfg) (replicate (nat (block_size cfg)) NUL) = Inr d'"
    "dentro cfg ?b (int ?b * block_size cfg) (int (length (replicate (nat (block_size cfg)) NUL)))"
    by (rule limpiar_ok [OF base ok(2) enb])
  note E = escritura_datos_ok [OF base ok(2) enb l(2,3)]
  let ?fs1 = "fs\<lparr>datos_bloques := d'\<rparr>" and ?f' = "?f\<lparr>punteroDir := -1\<rparr>"
  define fs6 where "fs6 = cambiar_fcb k (punteroDir_update (\<lambda>_. -1)) (?fs1\<lparr>bitmap := (bitmap fs)[?b := False]\<rparr>)"
  have lista: "listaFCB fs6 = (listaFCB ?fs1)[k := ?f']" by (simp add: fs6_def cambiar_fcb_def)
  have resto: "datos_bloques fs6 = d'" "bitmap fs6 = (bitmap fs)[?b := False]" "directorio fs6 = directorio fs"
    by (simp_all add: fs6_def cambiar_fcb_def)
  have k1: "k < length (listaFCB ?fs1)" using ok(2) by simp
  have vacio: "bloques_fcb cfg d' ?f' = []" "bloques_fcb cfg d' ?f = [?b]" "bloques_datos cfg d' ?f' = []"
    using f c0 by (simp_all add: bloques_fcb_def bloques_datos_def)
  have us: "?b \<in> usados (bitmap fs)"
    using datos_en_disco [OF base ok(2) enb] by (simp add: usados_def)
  have b6: "fs_base cfg fs6"
    using E(6) f c0 vacio mset_usados_False [OF us] fs_baseD(4) [OF E(1)]
    by (intro fs_base_cambio [OF E(1) k1 lista])
      (auto simp: resto fcb_base_def dest: en_remove_nth)
  have "intacto cfg k ?fs1 fs6"
    by (rule intacto_sin_datos [OF lista]) (use ok(2) in \<open>simp_all add: resto\<close>)
  then have i6: "intacto cfg k fs fs6" by (rule intacto_trans [OF E(2)])
  have d6: "datos_de cfg fs6 k = []" using ok(2) vacio(3) by (simp add: datos_de_def lista resto)
  have "fs_medio cfg fs6" by (rule medio_encoge [OF ok(1) b6 i6 ok(2)]) (use ok(2) f in \<open>simp add: lista\<close>)
  then have "encoge cfg k 1 fs fs6" using i6 d6 dat by (simp add: encoge_def)
  moreover have "bitarray_clean_bit ?fs1 (int ?b * block_size cfg div block_size cfg)
      = Inr (?fs1\<lparr>bitmap := (bitmap fs)[?b := False]\<rparr>)"
    using limpiar_bit_ok(2) [OF _ bs, of ?b ?fs1] P(2) by simp
  ultimately show thesis
    using l(1) P(1) u by (intro that [of fs6]) (simp_all add: fs6_def)
qed

text \<open>
  The last indirect block: its pointer is blanked after its data, and with the last pointer
  the block of pointers is given back too.
\<close>

definition sin_ultimo :: "fcb \<Rightarrow> fcb" where
  "sin_ultimo f = (if cantidad_indirectos f = 1 then f\<lparr>punteroIn := -1, cantidad_indirectos := 0\<rparr>
     else f\<lparr>cantidad_indirectos := cantidad_indirectos f - 1\<rparr>)"

lemma sin_ultimo_sel [simp]:
  "nombre_archivo (sin_ultimo f) = nombre_archivo f" "punteroDir (sin_ultimo f) = punteroDir f"
  "cantidad_indirectos (sin_ultimo f) = cantidad_indirectos f - 1"
  by (simp_all add: sin_ultimo_def)

lemma sin_ultimo_bloques:
  assumes b: "fcb_base cfg n d f" "punteroIn f \<noteq> -1" "1 \<le> cantidad_indirectos f"
    and iguales: "\<forall>j < nat (cantidad_indirectos f - 1). puntero_ind d' f j = puntero_ind d f j"
  defines "x \<equiv> num_bloque cfg (puntero_ind d f (nat (cantidad_indirectos f - 1)))"
  shows "bloques_datos cfg d f = bloques_datos cfg d' (sin_ultimo f) @ [x]" "fcb_base cfg n d' (sin_ultimo f)"
    "mset (bloques_fcb cfg d f) = mset (bloques_fcb cfg d' (sin_ultimo f)) + {#x#}
       + (if cantidad_indirectos f = 1 then {#num_bloque cfg (sint (punteroIn f))#} else {#})"
proof -
  let ?m = "nat (cantidad_indirectos f - 1)"
  have suc: "nat (cantidad_indirectos f) = Suc ?m" using b(3) by simp
  have igual: "puntero_ind d' (sin_ultimo f) j = puntero_ind d' f j" if "j < ?m" for j
    using that by (auto simp: sin_ultimo_def puntero_ind_def)
  have "map (\<lambda>j. num_bloque cfg (puntero_ind d f j)) [0..<?m]
      = map (\<lambda>j. num_bloque cfg (puntero_ind d' (sin_ultimo f) j)) [0..<?m]"
    using igual iguales by simp
  then show datos: "bloques_datos cfg d f = bloques_datos cfg d' (sin_ultimo f) @ [x]"
    by (simp add: bloques_datos_def suc x_def)
  show "fcb_base cfg n d' (sin_ultimo f)"
  proof (cases "cantidad_indirectos f = 1")
    case True
    then show ?thesis using b by (auto simp: fcb_base_def sin_ultimo_def)
  next
    case False
    have "\<forall>j < ?m. puntero_ok cfg n (puntero_ind d' (sin_ultimo f) j)"
      using igual iguales b(1) by (simp add: fcb_base_def suc)
    moreover have "punteroIn (sin_ultimo f) = punteroIn f" using False by (simp add: sin_ultimo_def)
    ultimately show ?thesis using b by (auto simp: fcb_base_def)
  qed
  show "mset (bloques_fcb cfg d f) = mset (bloques_fcb cfg d' (sin_ultimo f)) + {#x#}
       + (if cantidad_indirectos f = 1 then {#num_bloque cfg (sint (punteroIn f))#} else {#})"
    using b(2) by (auto simp: bloques_fcb_def datos sin_ultimo_def)
qed

lemma liberar_indirecto:
  assumes ok: "fs_medio cfg fs" "k < length (listaFCB fs)" and f: "punteroIn (listaFCB fs ! k) \<noteq> -1"
  defines "f \<equiv> listaFCB fs ! k"
  defines "cant \<equiv> cantidad_indirectos f"
  obtains b fs1 fs2 fs3 fs5 where
    "leer_area (datos_bloques fs) (sint (punteroIn f) + 4 * (cant - 1)) 4 = Inr b"
    "limpiarBloque cfg fs (dec_int b) = Inr fs1"
    "bitarray_clean_bit fs1 (dec_int b sdiv block_size cfg) = Inr fs2"
    "borrarContenido fs2 (sint (punteroIn f)) (4 * (cant - 1)) 4 = Inr fs3"
    "(if cant = 1
      then bind_res (bitarray_clean_bit fs3 (uint (punteroIn f) div block_size cfg)) (\<lambda>fs4.
             Inr (cambiar_fcb k (punteroIn_update (\<lambda>_. -1)) fs4))
      else Inr fs3) = Inr fs5"
    "encoge cfg k 1 fs (cambiar_fcb k (cantidad_indirectos_update (\<lambda>n. n - 1)) fs5)"
proof -
  let ?d = "datos_bloques fs" and ?In = "num_bloque cfg (sint (punteroIn f))"
  let ?q = "sint (punteroIn f) + 4 * (cant - 1)"
  have base: "fs_base cfg fs" using ok(1) by (simp add: fs_medio_def)
  note D = fs_baseD [OF base]
  have bs: "0 < block_size cfg" using D(1) by simp
  have bf: "fcb_base cfg (length (bitmap fs)) ?d f" using D(4) ok(2) by (simp add: f_def)
  have cant: "1 \<le> cant" "4 * cant \<le> block_size cfg" "punteroDir f \<noteq> -1"
    using ok assms(3) bf by (auto simp: fs_medio_def cant_def f_def fcb_base_def)
  have fin: "punteroIn f \<noteq> -1" using assms(3) by (simp add: f_def)
  have pin: "puntero_ok cfg (length (bitmap fs)) (sint (punteroIn f))" using bf fin by (simp add: fcb_base_def)
  note PIN = puntero_num [OF pin bs]
  have qd: "dentro cfg ?In ?q 4" using punteros_en_bloque(1) [OF bf fin bs, of "cant - 1"] cant by simp
  have "en_area ?d ?q 4" by (rule dentro_area [OF base qd PIN(2)]) simp
  then obtain b where b: "leer_area ?d ?q 4 = Inr b" by (simp add: leer_area_def)
  let ?m = "nat (cant - 1)"
  have ub: "dec_int b = puntero_ind ?d f ?m" using b cant by (simp add: puntero_ind_def leido_def)
  have px: "puntero_ok cfg (length (bitmap fs)) (dec_int b)"
    using bf cant by (simp add: ub fcb_base_def cant_def)
  note PX = puntero_num [OF px bs]
  let ?x = "num_bloque cfg (dec_int b)"
  have suc: "nat cant = Suc ?m" using cant by simp
  have "?x \<in> set (bloques_datos cfg ?d f)"
    unfolding bloques_datos_def cant_def [symmetric] suc by (simp add: ub)
  then have enb: "?x \<in> set (datos_de cfg fs k)" by (simp add: datos_de_def f_def)
  obtain d1 where l: "limpiarBloque cfg fs (int ?x * block_size cfg) = Inr (fs\<lparr>datos_bloques := d1\<rparr>)"
    "escribir_area ?d (int ?x * block_size cfg) (replicate (nat (block_size cfg)) NUL) = Inr d1"
    "dentro cfg ?x (int ?x * block_size cfg) (int (length (replicate (nat (block_size cfg)) NUL)))"
    by (rule limpiar_ok [OF base ok(2) enb])
  note E = escritura_datos_ok [OF base ok(2) enb l(2,3)]
  let ?fs1 = "fs\<lparr>datos_bloques := d1\<rparr>"
  have k1: "k < length (listaFCB ?fs1)" using ok(2) by simp
  obtain d2 where m: "memset_area (datos_bloques ?fs1) ?q NUL 4 = Inr d2"
    "escribir_area (datos_bloques ?fs1) ?q (replicate (nat 4) NUL) = Inr d2"
    by (rule memset_bloque [OF E(1) qd]) (use PIN(2) in simp_all)
  define bits where "bits = (if cant = 1 then (bitmap fs)[?x := False, ?In := False] else (bitmap fs)[?x := False])"
  define fs5 where "fs5 = (if cant = 1 then cambiar_fcb k (punteroIn_update (\<lambda>_. -1))
      (?fs1\<lparr>datos_bloques := d2, bitmap := bits\<rparr>) else ?fs1\<lparr>bitmap := bits, datos_bloques := d2\<rparr>)"
  define fs6 where "fs6 = cambiar_fcb k (cantidad_indirectos_update (\<lambda>n. n - 1)) fs5"
  have lista: "listaFCB fs6 = (listaFCB ?fs1)[k := sin_ultimo f]"
    using ok(2) by (auto simp: fs6_def fs5_def cambiar_fcb_def cantidad_resta sin_ultimo_def f_def cant_def)
  have resto: "datos_bloques fs6 = d2" "bitmap fs6 = bits" "directorio fs6 = directorio fs"
    by (simp_all add: fs6_def fs5_def cambiar_fcb_def)
  have f1: "listaFCB ?fs1 ! k = f" by (simp add: f_def)
  have viejos: "\<forall>j < ?m. puntero_ind d2 f j = puntero_ind d1 f j"
    using m(2) by (auto intro!: ind_escritura [where p = ?q])
  note S = sin_ultimo_bloques [OF E(6) [folded f_def] fin cant(1) [unfolded cant_def] viejos [unfolded cant_def],
      folded cant_def]
  have "bloques_datos cfg ?d f = map (\<lambda>j. num_bloque cfg (puntero_ind ?d f j)) [] @
      (if punteroDir f = -1 then [] else [num_bloque cfg (sint (punteroDir f))])
     @ map (\<lambda>j. num_bloque cfg (puntero_ind ?d f j)) [0..<?m] @ [?x]"
    by (simp add: bloques_datos_def cant_def [symmetric] suc ub)
  then have x1: "num_bloque cfg (puntero_ind d1 f ?m) = ?x"
    using S(1) E(4) [folded f_def] by simp
  have dist: "distinct (bloques_fcb cfg d1 f)" using bloques_distintos(1) [OF E(1) k1] by (simp add: f_def)
  have Inb: "?In \<in> set (bloques_fcb cfg d1 f)" using fin by (simp add: bloques_fcb_def)
  have us: "?In \<in> usados (bitmap fs)" "?x \<in> usados (bitmap fs)" "?In \<noteq> ?x"
  proof -
    show "?In \<in> usados (bitmap fs)" using Inb bloques_distintos(3) [OF E(1) k1] by (auto simp: f_def)
    show "?x \<in> usados (bitmap fs)" using datos_en_disco [OF base ok(2) enb] by (simp add: usados_def)
    show "?In \<noteq> ?x" using dist fin S(1) x1 by (auto simp: bloques_fcb_def)
  qed
  have bal: "mset (bloques_fcb cfg d2 (sin_ultimo f)) + mset_set (usados (bitmap fs))
      = mset (bloques_fcb cfg d1 f) + mset_set (usados bits)"
  proof (cases "cant = 1")
    case True
    have "?In \<in> usados ((bitmap fs)[?x := False])" using us by (simp add: usados_False)
    then show ?thesis using True S(3) x1 mset_usados_False [OF us(2)] mset_usados_False
      by (simp add: bits_def)
  next
    case False
    then show ?thesis using S(3) x1 mset_usados_False [OF us(2)] by (simp add: bits_def)
  qed
  have enIn: "?In \<in> set (bloques_fcb cfg (datos_bloques ?fs1) (listaFCB ?fs1 ! k)) \<or> ?In \<notin> usados (bitmap ?fs1)"
    using Inb by (simp add: f_def)
  have qd4: "dentro cfg ?In ?q (int (length (replicate (nat 4) NUL)))" using qd by simp
  note O = escritura_otros_archivos [OF E(1) k1 m(2) qd4 enIn]
  have len: "length d2 = length d1" using escribir_area_length [OF m(2)] by simp
  have lb: "length bits = length (bitmap fs)" by (simp add: bits_def)
  have b6: "fs_base cfg fs6"
    by (rule fs_base_cambio [OF E(1) k1 lista]) (use O S(2) len lb bal in \<open>simp_all add: resto mismos_bloques_def f_def\<close>)
  have i16: "intacto cfg k ?fs1 fs6"
  proof -
    have "map nombre_archivo (listaFCB fs6) = map nombre_archivo (listaFCB ?fs1)"
      unfolding lista map_update sin_ultimo_sel f_def using ok(2) by (simp add: list_update_same_conv)
    then show ?thesis using O(1) ok(2) len lb
      by (simp add: intacto_def resto lista nth_en_remove_nth)
  qed
  have i6: "intacto cfg k fs fs6" by (rule intacto_trans [OF E(2) i16])
  have d6: "datos_de cfg fs6 k = bloques_datos cfg d2 (sin_ultimo f)"
    using ok(2) by (simp add: datos_de_def resto lista)
  have dd: "datos_de cfg fs k = datos_de cfg fs6 k @ [?x]"
    using S(1) E(4) x1 by (simp add: d6) (simp add: datos_de_def f_def)
  have med: "fs_medio cfg fs6"
    by (rule medio_encoge [OF ok(1) b6 i6 ok(2)]) (use ok(2) cant(1) in \<open>auto simp: lista sin_ultimo_def cant_def\<close>)
  have cont: "bloque cfg d2 y = bloque cfg ?d y" if y: "y \<in> set (datos_de cfg fs6 k)" for y
  proof -
    have "y \<noteq> ?x" using dist S(1) x1 y by (auto simp: bloques_fcb_def d6)
    moreover have "y \<noteq> ?In" using dist fin S(1) y by (auto simp: bloques_fcb_def d6)
    ultimately show ?thesis using bloque_ajeno [OF m(2) qd4 bs] E(5) by simp
  qed
  have enc: "encoge cfg k 1 fs fs6" using med i6 dd cont by (simp add: encoge_def resto)
  let ?fs2 = "?fs1\<lparr>bitmap := (bitmap fs)[?x := False]\<rparr>"
  let ?fs3 = "?fs2\<lparr>datos_bloques := d2\<rparr>"
  have p1: "limpiarBloque cfg fs (dec_int b) = Inr ?fs1" using l(1) PX(1) by simp
  have p2: "bitarray_clean_bit ?fs1 (dec_int b sdiv block_size cfg) = Inr ?fs2"
    using limpiar_bit_ok(1) [OF _ bs, of ?x ?fs1] PX by simp
  have p3: "borrarContenido ?fs2 (sint (punteroIn f)) (4 * (cant - 1)) 4 = Inr ?fs3"
    using m(1) by (simp add: borrarContenido_def)
  have u: "uint (punteroIn f) = sint (punteroIn f)"
    using pin by (intro uint_igual_sint) (simp add: puntero_ok_def)
  have "bitarray_clean_bit ?fs3 (uint (punteroIn f) div block_size cfg)
      = Inr (?fs3\<lparr>bitmap := (bitmap fs)[?x := False, ?In := False]\<rparr>)"
    using limpiar_bit_ok(2) [OF _ bs, of ?In ?fs3] PIN u by simp
  then have p5: "(if cant = 1
      then bind_res (bitarray_clean_bit ?fs3 (uint (punteroIn f) div block_size cfg)) (\<lambda>fs4.
             Inr (cambiar_fcb k (punteroIn_update (\<lambda>_. -1)) fs4))
      else Inr ?fs3) = Inr fs5"
    by (simp add: fs5_def bits_def)
  show thesis by (rule that [OF b p1 p2 p3 p5 enc [unfolded fs6_def]])
qed

text \<open>What is left of the call: the size goes down by one block and the FCB goes to its file.\<close>

lemma encoge_tamanio:
  assumes e: "encoge cfg k n fs fs'" and k: "k < length (listaFCB fs)"
  shows "encoge cfg k n fs (cambiar_fcb k (tamanio_update g) fs')"
proof -
  let ?fs = "cambiar_fcb k (tamanio_update g) fs'" and ?f = "listaFCB fs' ! k"
  have ok: "fs_medio cfg fs'" "fs_base cfg fs'" "intacto cfg k fs fs'" using e by (auto simp: encoge_def fs_medio_def)
  have k': "k < length (listaFCB fs')" using k intacto_length [OF ok(3)] by simp
  have lista: "listaFCB ?fs = (listaFCB fs')[k := tamanio_update g ?f]" by (simp add: cambiar_fcb_def)
  have resto: "datos_bloques ?fs = datos_bloques fs'" "bitmap ?fs = bitmap fs'" "directorio ?fs = directorio fs'"
    by (simp_all add: cambiar_fcb_def)
  have t: "bloques_fcb cfg d (tamanio_update g ?f) = bloques_fcb cfg d ?f"
    "bloques_datos cfg d (tamanio_update g ?f) = bloques_datos cfg d ?f"
    "fcb_base cfg m d (tamanio_update g ?f) = fcb_base cfg m d ?f" for d m
    by (simp_all add: bloques_fcb_def bloques_datos_def fcb_base_def puntero_ind_def)
  have b: "fs_base cfg ?fs"
    by (rule fs_base_cambio [OF ok(2) k' lista])
      (use fs_baseD(4) [OF ok(2)] k' in \<open>auto simp: resto t dest: en_remove_nth\<close>)
  have i: "intacto cfg k fs ?fs"
    by (rule intacto_trans [OF ok(3) intacto_sin_datos [OF lista]]) (use k' in \<open>simp_all add: resto\<close>)
  have "fs_medio cfg ?fs"
    by (rule medio_encoge [OF ok(1) b intacto_sin_datos [OF lista] k'])
      (use k' ok(1) in \<open>simp_all add: resto lista fs_medio_def\<close>)
  moreover have "datos_de cfg ?fs k = datos_de cfg fs' k" using k' by (simp add: datos_de_def resto lista t)
  ultimately show ?thesis using e i by (simp add: encoge_def resto)
qed

lemma encoge_directorio:
  assumes "encoge cfg k n fs fs'" "\<forall>r. dictionary_get dir' r = None \<longleftrightarrow> dictionary_get (directorio fs') r = None"
  shows "encoge cfg k n fs (fs'\<lparr>directorio := dir'\<rparr>)"
  using assms by (simp add: encoge_def fs_medio_def intacto_directorio fs_base_directorio datos_de_def)

lemma liberar_ok:
  assumes ok: "fs_medio cfg fs" "k < length (listaFCB fs)" "1 \<le> length (datos_de cfg fs k)"
  shows "\<exists>fs'. liberarUltimoBloqueFCB cm cfg k fs = Inr fs' \<and> encoge cfg k 1 fs fs'"
proof -
  let ?f = "listaFCB fs ! k"
  have fin: "\<exists>fs'. bind_res (Inr fs6) (\<lambda>fs6. asentarFCB cm cfg k
        (cambiar_fcb k (tamanio_update (\<lambda>t. t - word_of_int (block_size cfg))) fs6)) = Inr fs' \<and> encoge cfg k 1 fs fs'"
    if e: "encoge cfg k 1 fs fs6" for fs6
  proof -
    let ?fs = "cambiar_fcb k (tamanio_update (\<lambda>t. t - word_of_int (block_size cfg))) fs6"
    note e' = encoge_tamanio [OF e ok(2), of "\<lambda>t. t - word_of_int (block_size cfg)"]
    have "archivos_en_disco cfg ?fs" "k < length (listaFCB ?fs)"
      using e' ok(2) fs_baseD(6) [of cfg ?fs] intacto_length [of cfg k fs ?fs]
      by (simp_all add: encoge_def fs_medio_def)
    then obtain dir' where "asentarFCB cm cfg k ?fs = Inr (?fs\<lparr>directorio := dir'\<rparr>)"
      "\<forall>r. dictionary_get dir' r = None \<longleftrightarrow> dictionary_get (directorio ?fs) r = None"
      by (rule asentarFCB_ok)
    then show ?thesis using encoge_directorio [OF e'] by simp
  qed
  show ?thesis
  proof (cases "punteroIn ?f = -1")
    case True
    have "punteroDir ?f \<noteq> -1" using datos_de_length(1) [OF ok(1,2)] ok(3) by auto
    from liberar_directo [OF ok(1,2) True this] obtain fs6 where
      "bind_res (limpiarBloque cfg fs (sint (punteroDir ?f))) (\<lambda>fs1.
       bind_res (bitarray_clean_bit fs1 (uint (punteroDir ?f) div block_size cfg)) (\<lambda>fs2.
       Inr (cambiar_fcb k (punteroDir_update (\<lambda>_. -1)) fs2))) = Inr fs6" "encoge cfg k 1 fs fs6" by blast
    then show ?thesis using True fin [of fs6] by (simp add: liberarUltimoBloqueFCB_def Let_def)
  next
    case False
    obtain b fs1 fs2 fs3 fs5 where
      p: "leer_area (datos_bloques fs) (sint (punteroIn ?f) + 4 * (cantidad_indirectos ?f - 1)) 4 = Inr b"
        "limpiarBloque cfg fs (dec_int b) = Inr fs1"
        "bitarray_clean_bit fs1 (dec_int b sdiv block_size cfg) = Inr fs2"
        "borrarContenido fs2 (sint (punteroIn ?f)) (4 * (cantidad_indirectos ?f - 1)) 4 = Inr fs3"
        "(if cantidad_indirectos ?f = 1
          then bind_res (bitarray_clean_bit fs3 (uint (punteroIn ?f) div block_size cfg)) (\<lambda>fs4.
             Inr (cambiar_fcb k (punteroIn_update (\<lambda>_. -1)) fs4))
          else Inr fs3) = Inr fs5"
        "encoge cfg k 1 fs (cambiar_fcb k (cantidad_indirectos_update (\<lambda>n. n - 1)) fs5)"
      by (rule liberar_indirecto [OF ok(1,2) False])
    then show ?thesis using False fin [OF p(6)] by (simp add: liberarUltimoBloqueFCB_def Let_def)
  qed
qed

lemma liberar_bloques_ok:
  assumes "fs_medio cfg fs" "k < length (listaFCB fs)" "n \<le> length (datos_de cfg fs k)"
  shows "\<exists>fs'. liberar_bloques cm cfg k n fs = Inr fs' \<and> encoge cfg k n fs fs'"
  using assms
proof (induction n arbitrary: fs)
  case 0
  then show ?case by (simp add: encoge_def)
next
  case (Suc n)
  from Suc.prems obtain fs1 where s: "liberarUltimoBloqueFCB cm cfg k fs = Inr fs1" "encoge cfg k 1 fs fs1"
    using liberar_ok [of cfg fs k cm] by auto
  have "fs_medio cfg fs1" "k < length (listaFCB fs1)" "n \<le> length (datos_de cfg fs1 k)"
    using s(2) Suc.prems intacto_length [of cfg k fs fs1] by (auto simp: encoge_def)
  from Suc.IH [OF this] obtain fs2 where
    "liberar_bloques cm cfg k n fs1 = Inr fs2" "encoge cfg k n fs1 fs2" by blast
  then show ?case using s encoge_trans [OF s(2)] by auto
qed

end
