(* ===== verification/Fs_Archivos.thy ===== *)
theory Fs_Archivos
  imports Fs_Truncar
begin

text \<open>
  The abstract file: the bytes of its data blocks, one after the other
  (\<open>contenido_archivo\<close>). Reading at a file position is reading those bytes, and writing is
  replacing them, as long as the range ends before the last byte of its block; every other
  file keeps its blocks.
\<close>

section \<open>The bytes of a file\<close>

definition contenido_archivo :: "fsConfig \<Rightarrow> filesys \<Rightarrow> nat \<Rightarrow> byte list" where
  "contenido_archivo cfg fs k =
     concat (map (\<lambda>b. leido (datos_bloques fs) (int b * block_size cfg) (block_size cfg)) (datos_de cfg fs k))"

lemma concat_uniforme_length:
  "\<forall>x \<in> set xs. length x = m \<Longrightarrow> length (concat xs) = length xs * m"
  by (induction xs) simp_all

lemma concat_uniforme_nth:
  "\<forall>x \<in> set xs. length x = m \<Longrightarrow> i < length xs * m \<Longrightarrow> concat xs ! i = xs ! (i div m) ! (i mod m)"
proof (induction xs arbitrary: i)
  case (Cons x xs)
  show ?case
  proof (cases "i < m")
    case True
    then show ?thesis using Cons.prems by (simp add: nth_append)
  next
    case False
    have "0 < m" using Cons.prems by (cases m) simp_all
    then have "i div m = Suc ((i - m) div m)" "i mod m = (i - m) mod m"
      using False by (simp_all add: le_div_geq le_mod_geq)
    then show ?thesis using Cons.IH [of "i - m"] Cons.prems False by (simp add: nth_append)
  qed
qed simp

lemma leido_area:
  "en_area d p n \<Longrightarrow> leer_area d p n = Inr (leido d p n)"
  "en_area d p n \<Longrightarrow> leido d p n = take (nat n) (drop (nat p) d)"
  "en_area d p n \<Longrightarrow> length (leido d p n) = nat n"
  by (auto simp: leido_def leer_area_def en_area_def)

lemma bloque_area:
  assumes "fs_base cfg fs" "k < length (listaFCB fs)" "b \<in> set (datos_de cfg fs k)"
    and "0 \<le> p" "0 \<le> n" "p + n \<le> block_size cfg"
  shows "en_area (datos_bloques fs) (int b * block_size cfg + p) n" "dentro cfg b (int b * block_size cfg + p) n"
proof -
  show "dentro cfg b (int b * block_size cfg + p) n" using assms(4-6) by (simp add: dentro_def)
  then show "en_area (datos_bloques fs) (int b * block_size cfg + p) n"
    using datos_en_disco(1) [OF assms(1-3)] assms(5) by (intro dentro_area [OF assms(1)])
qed

lemma contenido_nth:
  assumes ok: "fs_base cfg fs" "k < length (listaFCB fs)"
    and i: "i < length (datos_de cfg fs k) * nat (block_size cfg)"
  shows "length (contenido_archivo cfg fs k) = length (datos_de cfg fs k) * nat (block_size cfg)"
    "contenido_archivo cfg fs k ! i = datos_bloques fs !
       (datos_de cfg fs k ! (i div nat (block_size cfg)) * nat (block_size cfg) + i mod nat (block_size cfg))"
proof -
  let ?B = "nat (block_size cfg)" and ?xs = "datos_de cfg fs k"
  let ?g = "\<lambda>b. leido (datos_bloques fs) (int b * block_size cfg) (block_size cfg)"
  have bs: "4 \<le> block_size cfg" using fs_baseD(1) [OF ok(1)] .
  have area: "en_area (datos_bloques fs) (int b * block_size cfg) (block_size cfg)" if "b \<in> set ?xs" for b
    using bloque_area(1) [OF ok that, of 0 "block_size cfg"] bs by simp
  then have u: "\<forall>x \<in> set (map ?g ?xs). length x = ?B" by (auto simp: leido_area(3))
  show "length (contenido_archivo cfg fs k) = length ?xs * ?B"
    using concat_uniforme_length [OF u] by (simp add: contenido_archivo_def)
  have d: "i div ?B < length ?xs" using i by (simp add: less_mult_imp_div_less)
  then have "contenido_archivo cfg fs k ! i = ?g (?xs ! (i div ?B)) ! (i mod ?B)"
    using concat_uniforme_nth [OF u] i by (simp add: contenido_archivo_def)
  also have "\<dots> = datos_bloques fs ! (?xs ! (i div ?B) * ?B + i mod ?B)"
  proof -
    let ?b = "?xs ! (i div ?B)"
    have a: "en_area (datos_bloques fs) (int ?b * block_size cfg) (block_size cfg)" using area d by simp
    then have "nat (int ?b * block_size cfg) + ?B \<le> length (datos_bloques fs)"
      using bs unfolding en_area_def by linarith
    moreover have "nat (int ?b * block_size cfg) = ?b * ?B" using bs by (simp add: nat_mult_distrib)
    ultimately show ?thesis using bs by (simp add: leido_area(2) [OF a])
  qed
  finally show "contenido_archivo cfg fs k ! i = datos_bloques fs ! (?xs ! (i div ?B) * ?B + i mod ?B)" .
qed

section \<open>The block of a file position\<close>

lemma puntero_de_bloque:
  assumes ok: "fs_base cfg fs" "k < length (listaFCB fs)" and n: "n < length (datos_de cfg fs k)"
    and d0: "punteroDir (listaFCB fs ! k) \<noteq> -1"
  shows "block_pointer_from_number fs (listaFCB fs ! k) (int n) = Inr (int (datos_de cfg fs k ! n) * block_size cfg)"
proof -
  let ?f = "listaFCB fs ! k" and ?d = "datos_bloques fs"
  have bs: "0 < block_size cfg" using fs_baseD(1) [OF ok(1)] by simp
  have bf: "fcb_base cfg (length (bitmap fs)) ?d ?f" using fs_baseD(4) [OF ok(1)] ok(2) by simp
  have dat: "datos_de cfg fs k = num_bloque cfg (sint (punteroDir ?f)) #
      map (\<lambda>j. num_bloque cfg (puntero_ind ?d ?f j)) [0..<nat (cantidad_indirectos ?f)]"
    using d0 by (simp add: datos_de_def bloques_datos_def)
  show ?thesis
  proof (cases n)
    case 0
    have "puntero_ok cfg (length (bitmap fs)) (sint (punteroDir ?f))" using bf d0 by (simp add: fcb_base_def)
    then show ?thesis using 0 puntero_num(1) [OF _ bs] by (simp add: block_pointer_from_number_def dat)
  next
    case (Suc j)
    then have j: "j < nat (cantidad_indirectos ?f)" using n by (simp add: dat)
    then have In: "punteroIn ?f \<noteq> -1" "4 * int j + 4 \<le> block_size cfg" using bf by (auto simp: fcb_base_def)
    note E = punteros_en_bloque [OF bf In(1) bs _ In(2)]
    have "en_area ?d (sint (punteroIn ?f) + 4 * int j) 4" using dentro_area [OF ok(1) E] by simp
    note L = leido_area(1) [OF this]
    have "puntero_ok cfg (length (bitmap fs)) (puntero_ind ?d ?f j)" using bf j by (simp add: fcb_base_def)
    then have "puntero_ind ?d ?f j = int (datos_de cfg fs k ! n) * block_size cfg"
      using puntero_num(1) [OF _ bs] j Suc by (simp add: dat)
    then show ?thesis using L Suc
      by (simp add: block_pointer_from_number_def leerBloque_def puntero_ind_def)
  qed
qed

lemma con_directo:
  assumes "fs_base cfg fs" "k < length (listaFCB fs)" "n < length (datos_de cfg fs k)"
  shows "punteroDir (listaFCB fs ! k) \<noteq> -1"
proof
  assume d: "punteroDir (listaFCB fs ! k) = -1"
  have "fcb_base cfg (length (bitmap fs)) (datos_bloques fs) (listaFCB fs ! k)"
    using fs_baseD(4) [OF assms(1)] assms(2) by simp
  then have "datos_de cfg fs k = []" using d by (simp add: fcb_base_def datos_de_def bloques_datos_def)
  then show False using assms(3) by simp
qed

section \<open>A range inside one block\<close>

lemma mismo_bloque:
  "p mod B + i < (B :: nat) \<Longrightarrow> (p + i) div B = p div B \<and> (p + i) mod B = p mod B + i"
proof -
  assume h: "p mod B + i < B"
  define q where "q = p div B"
  define r where "r = p mod B"
  note e = q_def r_def
  have p: "p = B * q + r" unfolding e by simp
  have r: "r + i < B" using h by (simp add: r_def)
  have "(p + i) div B = q" using r by (intro div_nat_eqI) (simp_all add: p algebra_simps)
  moreover from this have "(p + i) mod B = p + i - B * q"
    using minus_mult_div_eq_mod [of "p + i" B] by simp
  moreover have "p + i - B * q = r + i" by (simp add: p)
  ultimately show ?thesis by (simp add: e)
qed

lemma pos_div:
  "0 < bs \<Longrightarrow> int p sdiv bs = int (p div nat bs)" "0 < bs \<Longrightarrow> int p smod bs = int (p mod nat bs)"
  by (simp_all add: zdiv_int zmod_int)

lemma leer_dentro:
  assumes ok: "fs_base cfg fs" "k < length (listaFCB fs)"
    and p: "p div nat (block_size cfg) < length (datos_de cfg fs k)" "p mod nat (block_size cfg) + n < nat (block_size cfg)"
    and n: "n \<le> 4"
  shows "leer_datos cfg fs (listaFCB fs ! k) (int p) (int n) = Inr (take n (drop p (contenido_archivo cfg fs k)))"
proof -
  let ?B = "nat (block_size cfg)" and ?d = "datos_bloques fs"
  let ?b = "datos_de cfg fs k ! (p div ?B)" and ?off = "p mod ?B"
  have bs: "4 \<le> block_size cfg" using fs_baseD(1) [OF ok(1)] .
  have B: "int ?B = block_size cfg" using bs by simp
  have b: "?b \<in> set (datos_de cfg fs k)" using p(1) by simp
  have div: "int p sdiv block_size cfg = int (p div ?B)" "int p smod block_size cfg = int ?off"
    using pos_div bs by simp_all
  have ptr: "block_pointer_from_number fs (listaFCB fs ! k) (int (p div ?B)) = Inr (int ?b * block_size cfg)"
    by (rule puntero_de_bloque [OF ok p(1) con_directo [OF ok p(1)]])
  have "en_area ?d (int ?b * block_size cfg + int ?off) (int n)"
    using p(2) B by (intro bloque_area(1) [OF ok b]) linarith+
  then have ar: "en_area ?d (int (?b * ?B + ?off)) (int n)" using B by simp
  then have fit: "?b * ?B + ?off + n \<le> length ?d" unfolding en_area_def by linarith
  have pos: "p + i < length (datos_de cfg fs k) * ?B" if "i < n" for i
  proof -
    have "(p + i) div ?B < length (datos_de cfg fs k)" using mismo_bloque [of p ?B i] p that by simp
    moreover have "0 < ?B" using bs by simp
    ultimately show ?thesis by (simp add: div_less_iff_less_mult)
  qed
  have "take n (drop (?b * ?B + ?off) ?d) = take n (drop p (contenido_archivo cfg fs k))"
  proof (rule nth_equalityI)
    show "length (take n (drop (?b * ?B + ?off) ?d)) = length (take n (drop p (contenido_archivo cfg fs k)))"
    proof (cases n)
      case (Suc j)
      then have "p + n \<le> length (contenido_archivo cfg fs k)"
        using pos [of j] contenido_nth(1) [OF ok pos [of j]] by simp
      then show ?thesis using fit by simp
    qed simp
    fix i assume "i < length (take n (drop (?b * ?B + ?off) ?d))"
    then have i: "i < n" by simp
    have "(p + i) div ?B = p div ?B \<and> (p + i) mod ?B = ?off + i"
      using p(2) i by (intro mismo_bloque) simp
    then have "contenido_archivo cfg fs k ! (p + i) = ?d ! (?b * ?B + (?off + i))"
      using contenido_nth(2) [OF ok pos [OF i]] by simp
    then show "take n (drop (?b * ?B + ?off) ?d) ! i = take n (drop p (contenido_archivo cfg fs k)) ! i"
      using i fit contenido_nth(1) [OF ok pos [OF i]] pos [OF i] by (simp add: add.assoc)
  qed
  moreover have "leer_area ?d (int ?b * block_size cfg + int ?off) (int n) = Inr (take n (drop (?b * ?B + ?off) ?d))"
    using leer_area_int [of ?d "?b * ?B + ?off" n] fit B by simp
  moreover have "\<not> block_size cfg \<le> int ?off + int n" using p(2) B by linarith
  ultimately show ?thesis using n ptr by (simp add: leer_datos_def Let_def div leerBloque_def)
qed

lemma cruzar_sumas: "i = a + m \<Longrightarrow> p = a + f \<Longrightarrow> i + f = p + (m :: nat)"
  by simp

lemma rango_bloque:
  assumes "r < B" "off + n \<le> (B :: nat)"
  shows "b * B + off \<le> x * B + r \<and> x * B + r < b * B + off + n \<longleftrightarrow> x = b \<and> off \<le> r \<and> r < off + n"
proof -
  consider "x = b" | "Suc x \<le> b" | "Suc b \<le> x" by linarith
  then show ?thesis
  proof cases
    case 2
    then have "Suc x * B \<le> b * B" by (intro mult_right_mono) simp_all
    then show ?thesis using assms 2 by simp
  next
    case 3
    then have "Suc b * B \<le> x * B" by (intro mult_right_mono) simp_all
    then show ?thesis using assms 3 by simp
  qed auto
qed

lemma escribir_en_bloque:
  assumes ok: "fs_base cfg fs" "k < length (listaFCB fs)"
    and p: "p div nat (block_size cfg) < length (datos_de cfg fs k)"
      "p mod nat (block_size cfg) + length buffer \<le> nat (block_size cfg)"
  shows "\<exists>d'. escribirBloque fs (int (datos_de cfg fs k ! (p div nat (block_size cfg))) * block_size cfg)
      (int (p mod nat (block_size cfg))) buffer = Inr (fs\<lparr>datos_bloques := d'\<rparr>) \<and>
    fs_base cfg (fs\<lparr>datos_bloques := d'\<rparr>) \<and> intacto cfg k fs (fs\<lparr>datos_bloques := d'\<rparr>) \<and>
    datos_de cfg (fs\<lparr>datos_bloques := d'\<rparr>) k = datos_de cfg fs k \<and>
    contenido_archivo cfg (fs\<lparr>datos_bloques := d'\<rparr>) k = take p (contenido_archivo cfg fs k) @ buffer
      @ drop (p + length buffer) (contenido_archivo cfg fs k)"
proof -
  let ?B = "nat (block_size cfg)" and ?d = "datos_bloques fs" and ?n = "length buffer"
  let ?xs = "datos_de cfg fs k" and ?j = "p div nat (block_size cfg)" and ?off = "p mod nat (block_size cfg)"
  let ?b = "?xs ! ?j"
  have bs: "4 \<le> block_size cfg" using fs_baseD(1) [OF ok(1)] .
  have B: "int ?B = block_size cfg" using bs by simp
  have b: "?b \<in> set ?xs" using p(1) by simp
  have fits: "0 \<le> int ?off" "0 \<le> int ?n" "int ?off + int ?n \<le> block_size cfg" using p(2) B by linarith+
  note A = bloque_area [OF ok b fits]
  then obtain d' where w: "escribir_area ?d (int ?b * block_size cfg + int ?off) buffer = Inr d'"
    by (simp add: escribir_area_def)
  note E = escritura_datos_ok [OF ok b w A(2)]
  let ?fs = "fs\<lparr>datos_bloques := d'\<rparr>"
  have dd: "datos_de cfg ?fs k = ?xs" using E(4) by (simp add: datos_de_def)
  have k': "k < length (listaFCB ?fs)" using ok(2) by simp
  have w': "escribir_area ?d (int (?b * ?B + ?off)) buffer = Inr d'" using w B by simp
  let ?c = "contenido_archivo cfg fs k" and ?c' = "contenido_archivo cfg ?fs k"
  have pos: "p + i < length ?xs * ?B" if "i < ?n" for i
  proof -
    have "(p + i) div ?B < length ?xs" using mismo_bloque [of p ?B i] p that by simp
    then show ?thesis using bs by (simp add: div_less_iff_less_mult)
  qed
  have pos0: "p < length ?xs * ?B" using p(1) bs by (simp add: div_less_iff_less_mult)
  have lc: "length ?c = length ?xs * ?B" "length ?c' = length ?xs * ?B"
    using contenido_nth(1) [OF ok pos0] contenido_nth(1) [OF E(1) k', unfolded dd, OF pos0] by simp_all
  have pn: "p + ?n \<le> length ?xs * ?B" using pos [of "?n - 1"] pos0 by (cases "?n = 0") auto
  have dist: "distinct ?xs" using bloques_distintos(1) [OF ok] by (simp add: bloques_fcb_def datos_de_def)
  have "?c' = take p ?c @ buffer @ drop (p + ?n) ?c"
  proof (rule nth_equalityI)
    show "length ?c' = length (take p ?c @ buffer @ drop (p + ?n) ?c)" using lc pn by simp
    fix i assume "i < length ?c'"
    then have i: "i < length ?xs * ?B" by (simp add: lc)
    let ?q = "?xs ! (i div ?B) * ?B + i mod ?B"
    have d: "i div ?B < length ?xs" using i by (simp add: less_mult_imp_div_less)
    have r: "i mod ?B < ?B" using bs by simp
    have "?xs ! (i div ?B) \<in> set ?xs" using d by simp
    from bloque_area(1) [OF ok this, of "int (i mod ?B)" 1]
    have "en_area ?d (int (?xs ! (i div ?B)) * block_size cfg + int (i mod ?B)) 1" using r B by linarith
    then have "en_area ?d (int ?q) 1" using B by simp
    then have ql: "?q < length ?d" unfolding en_area_def by linarith
    have on: "?off + ?n \<le> ?B" using p(2) by simp
    have e: "?xs ! (i div ?B) = ?b \<longleftrightarrow> i div ?B = ?j" using dist d p(1) by (simp add: nth_eq_iff_index_eq)
    have ip: "i = i div ?B * ?B + i mod ?B" "p = ?j * ?B + ?off" by simp_all
    have r1: "?b * ?B + ?off \<le> ?q \<and> ?q < ?b * ?B + ?off + ?n \<longleftrightarrow>
        i div ?B = ?j \<and> ?off \<le> i mod ?B \<and> i mod ?B < ?off + ?n"
      using rango_bloque [OF r on] e by simp
    have r2: "p \<le> i \<and> i < p + ?n \<longleftrightarrow> i div ?B = ?j \<and> ?off \<le> i mod ?B \<and> i mod ?B < ?off + ?n"
      using rango_bloque [OF r on, of ?j "i div ?B"] unfolding ip [symmetric] .
    have resta: "?q - (?b * ?B + ?off) = i - p" if "i div ?B = ?j"
    proof -
      have "i = ?j * ?B + i mod ?B" using ip(1) that by metis
      then have "i + ?off = p + i mod ?B" using ip(2) by (rule cruzar_sumas)
      then show ?thesis using that by simp
    qed
    have "?c' ! i = d' ! ?q" using contenido_nth(2) [OF E(1) k', unfolded dd, OF i] by simp
    also have "\<dots> = (if p \<le> i \<and> i < p + ?n then buffer ! (i - p) else ?d ! ?q)"
      using escribir_area_nth [OF w' ql] r1 r2 resta by auto
    also have "\<dots> = (take p ?c @ buffer @ drop (p + ?n) ?c) ! i"
      using contenido_nth(2) [OF ok i] lc pn i by (auto simp: nth_append)
    finally show "?c' ! i = (take p ?c @ buffer @ drop (p + ?n) ?c) ! i" .
  qed
  moreover have "escribirBloque fs (int ?b * block_size cfg) (int ?off) buffer = Inr ?fs"
    using w by (simp add: escribirBloque_def)
  ultimately show ?thesis using E(1,2) dd by blast
qed

lemma escribir_dentro:
  assumes ok: "fs_base cfg fs" "k < length (listaFCB fs)"
    and p: "p div nat (block_size cfg) < length (datos_de cfg fs k)"
      "p mod nat (block_size cfg) + length buffer < nat (block_size cfg)"
  shows "\<exists>d'. escribir_datos cfg fs (listaFCB fs ! k) (int p) buffer = Inr (fs\<lparr>datos_bloques := d'\<rparr>) \<and>
    fs_base cfg (fs\<lparr>datos_bloques := d'\<rparr>) \<and> intacto cfg k fs (fs\<lparr>datos_bloques := d'\<rparr>) \<and>
    datos_de cfg (fs\<lparr>datos_bloques := d'\<rparr>) k = datos_de cfg fs k \<and>
    contenido_archivo cfg (fs\<lparr>datos_bloques := d'\<rparr>) k = take p (contenido_archivo cfg fs k) @ buffer
      @ drop (p + length buffer) (contenido_archivo cfg fs k)"
proof -
  have bs: "0 < block_size cfg" using fs_baseD(1) [OF ok(1)] by simp
  note ptr = puntero_de_bloque [OF ok p(1) con_directo [OF ok p(1)]]
  have "\<not> block_size cfg \<le> int (p mod nat (block_size cfg)) + int (length buffer)" using p(2) bs by linarith
  then show ?thesis
    using escribir_en_bloque [OF ok p(1), of buffer] p(2) ptr pos_div [OF bs]
    by (simp add: escribir_datos_def Let_def)
qed

section \<open>A range that reaches the end of its block\<close>

text \<open>The bytes after replacing a range, and then another one that starts one byte further.\<close>

lemma reemplazo_con_salto:
  assumes "p + length a + 1 + length b \<le> length c"
  shows "take (p + length a + 1) (take p c @ a @ drop (p + length a) c) @ b
      @ drop (p + length a + 1 + length b) (take p c @ a @ drop (p + length a) c)
    = take p c @ a @ [c ! (p + length a)] @ b @ drop (p + length a + 1 + length b) c"
proof -
  have "take 1 (drop (p + length a) c) = [c ! (p + length a)]"
    using assms by (simp add: take_Suc_conv_app_nth hd_drop_conv_nth take_Suc)
  then show ?thesis using assms by (simp add: min_absorb1 min_absorb2 ac_simps)
qed

lemma escribir_cruzando:
  assumes ok: "fs_base cfg fs" "k < length (listaFCB fs)"
    and p: "p div nat (block_size cfg) + 1 < length (datos_de cfg fs k)"
      "nat (block_size cfg) \<le> p mod nat (block_size cfg) + length buffer"
      "p mod nat (block_size cfg) + length buffer < 2 * nat (block_size cfg)"
  defines "n1 \<equiv> nat (block_size cfg) - 1 - p mod nat (block_size cfg)"
  shows "\<exists>fs'. escribir_datos cfg fs (listaFCB fs ! k) (int p) buffer = Inr fs' \<and> (\<exists>d. fs' = fs\<lparr>datos_bloques := d\<rparr>) \<and>
    fs_base cfg fs' \<and> intacto cfg k fs fs' \<and> datos_de cfg fs' k = datos_de cfg fs k \<and>
    contenido_archivo cfg fs' k = take p (contenido_archivo cfg fs k) @ take n1 buffer
      @ [contenido_archivo cfg fs k ! (p + n1)] @ drop n1 buffer @ drop (p + length buffer + 1) (contenido_archivo cfg fs k)"
proof -
  let ?B = "nat (block_size cfg)" and ?xs = "datos_de cfg fs k" and ?c = "contenido_archivo cfg fs k"
  let ?j = "p div ?B" and ?o = "p mod ?B" and ?n = "length buffer"
  have bs: "0 < block_size cfg" using fs_baseD(1) [OF ok(1)] by simp
  have B: "int ?B = block_size cfg" using bs by simp
  have o: "?o < ?B" using bs by simp
  have n1: "?o + n1 + 1 = ?B" "n1 \<le> ?n" using o p(2) by (simp_all add: n1_def)
  define p2 where "p2 = p + n1 + 1"
  have "p = ?j * ?B + ?o" by simp
  then have "p2 = ?j * ?B + (?o + n1 + 1)" unfolding p2_def by linarith
  then have p2': "p2 = (?j + 1) * ?B" unfolding n1(1) by simp
  then have p2: "p2 div ?B = ?j + 1" "p2 mod ?B = 0" using bs by simp_all
  have j: "?j < length ?xs" using p(1) by simp
  have l1: "length (take n1 buffer) = n1" using n1(2) by simp
  obtain d1 where w1: "escribirBloque fs (int (?xs ! ?j) * block_size cfg) (int ?o) (take n1 buffer) = Inr (fs\<lparr>datos_bloques := d1\<rparr>)"
    "fs_base cfg (fs\<lparr>datos_bloques := d1\<rparr>)" "intacto cfg k fs (fs\<lparr>datos_bloques := d1\<rparr>)"
    "datos_de cfg (fs\<lparr>datos_bloques := d1\<rparr>) k = ?xs"
    "contenido_archivo cfg (fs\<lparr>datos_bloques := d1\<rparr>) k = take p ?c @ take n1 buffer @ drop (p + n1) ?c"
    using escribir_en_bloque [OF ok j, of "take n1 buffer"] n1(1) unfolding l1 by auto
  let ?fs1 = "fs\<lparr>datos_bloques := d1\<rparr>"
  have k1: "k < length (listaFCB ?fs1)" using ok(2) by simp
  have l2: "length (drop n1 buffer) \<le> ?B" using p(3) n1 by simp
  obtain d2 where w2: "escribirBloque ?fs1 (int (?xs ! (?j + 1)) * block_size cfg) 0 (drop n1 buffer) = Inr (fs\<lparr>datos_bloques := d2\<rparr>)"
    "fs_base cfg (fs\<lparr>datos_bloques := d2\<rparr>)" "intacto cfg k ?fs1 (fs\<lparr>datos_bloques := d2\<rparr>)"
    "datos_de cfg (fs\<lparr>datos_bloques := d2\<rparr>) k = ?xs"
    "contenido_archivo cfg (fs\<lparr>datos_bloques := d2\<rparr>) k = take p2 (contenido_archivo cfg ?fs1 k) @ drop n1 buffer
      @ drop (p2 + length (drop n1 buffer)) (contenido_archivo cfg ?fs1 k)"
    using escribir_en_bloque [OF w1(2) k1, of p2 "drop n1 buffer"] p(1) l2 unfolding p2 w1(4) by auto
  note ptr = puntero_de_bloque [OF ok _ con_directo [OF ok j]]
  have "block_size cfg \<le> int ?o + int ?n" using p(2) B by linarith
  moreover have "int ?n - (int ?o + int ?n - block_size cfg + 1) = int n1" using n1(1) B by linarith
  ultimately have "escribir_datos cfg fs (listaFCB fs ! k) (int p) buffer = Inr (fs\<lparr>datos_bloques := d2\<rparr>)"
    using ptr [OF j] ptr [OF p(1)] w1(1) w2(1) pos_div [OF bs]
    by (simp add: escribir_datos_def Let_def add.commute)
  moreover have "contenido_archivo cfg (fs\<lparr>datos_bloques := d2\<rparr>) k = take p ?c @ take n1 buffer
      @ [?c ! (p + n1)] @ drop n1 buffer @ drop (p + ?n + 1) ?c"
  proof -
    have "p2 < length ?xs * ?B" using p2(1) p(1) bs by (simp add: div_less_iff_less_mult [symmetric])
    moreover have "p2 + length (drop n1 buffer) \<le> (?j + 1) * ?B + ?B" using l2 p2' by simp
    moreover have "(?j + 1) * ?B + ?B \<le> length ?xs * ?B"
      using mult_le_mono1 [of "?j + 2" "length ?xs" ?B] p(1) by (simp add: algebra_simps)
    ultimately have "p + length (take n1 buffer) + 1 + length (drop n1 buffer) \<le> length ?c"
      using contenido_nth(1) [OF ok, of p2] unfolding l1 p2_def by simp
    from reemplazo_con_salto [OF this] show ?thesis
      using n1(2) unfolding w2(5) w1(5) l1 p2_def by (simp add: algebra_simps)
  qed
  ultimately show ?thesis using w2(2,4) intacto_trans [OF w1(3) w2(3)] by blast
qed

text \<open>A file of one block has no block of pointers to look in.\<close>

lemma escribir_sin_siguiente:
  assumes ok: "fs_base cfg fs" "k < length (listaFCB fs)" and x: "punteroIn (listaFCB fs ! k) = -1"
    and p: "p div nat (block_size cfg) < length (datos_de cfg fs k)"
      "nat (block_size cfg) \<le> p mod nat (block_size cfg) + length buffer"
  shows "escribir_datos cfg fs (listaFCB fs ! k) (int p) buffer = Inl Fuera_de_rango"
proof -
  have bs: "0 < block_size cfg" using fs_baseD(1) [OF ok(1)] by simp
  have "fcb_base cfg (length (bitmap fs)) (datos_bloques fs) (listaFCB fs ! k)" using fs_baseD(4) [OF ok(1)] ok(2) by simp
  then have "cantidad_indirectos (listaFCB fs ! k) = 0" using x by (simp add: fcb_base_def)
  then have j: "p div nat (block_size cfg) = 0"
    using p(1) by (simp add: datos_de_def bloques_datos_def split: if_splits)
  note ptr = puntero_de_bloque [OF ok p(1) con_directo [OF ok p(1)]]
  have "block_size cfg \<le> int (p mod nat (block_size cfg)) + int (length buffer)" using p(2) bs by linarith
  moreover have "block_pointer_from_number fs (listaFCB fs ! k) 1 = Inl Fuera_de_rango"
    by (simp add: block_pointer_from_number_def leerBloque_def leer_area_def en_area_def x)
  ultimately show ?thesis using ptr pos_div [OF bs] j by (simp add: escribir_datos_def Let_def)
qed

end
