(* ===== verification/Fs_Propiedades.thy ===== *)
theory Fs_Propiedades
  imports Fs_Archivos Mem_Propiedades
begin

text \<open>
  What the file system promises to the kernel: opening and truncating keep the invariant and
  never touch another file, reading and writing move bytes between a file and the memory
  module, and where they do not.
\<close>

section \<open>Finding files\<close>

lemma encontrarFCB_Some:
  assumes "encontrarFCB fs nombre = Some k"
  shows "k < length (listaFCB fs)" "nombre_archivo (listaFCB fs ! k) = nombre"
  using find_index_SomeD [OF assms [unfolded encontrarFCB_def]] by simp_all

lemma encontrar_intacto:
  assumes "encontrarFCB fs nombre = Some k" "intacto cfg j fs fs'"
  shows "encontrarFCB fs' nombre = Some k"
proof -
  have fi: "find_index (\<lambda>f. g f = x) xs = find_index (\<lambda>y. y = x) (map g xs)" for g x and xs :: "'z list"
    by (induction xs) simp_all
  have "map nombre_archivo (listaFCB fs') = map nombre_archivo (listaFCB fs)"
    using assms(2) by (simp add: intacto_def)
  then show ?thesis using assms(1) by (simp only: encontrarFCB_def fi [of nombre_archivo])
qed

lemma techo_cota: "0 \<le> n \<Longrightarrow> 0 < bs \<Longrightarrow> 0 \<le> techo n bs"
  by (simp add: techo_def pos_imp_zdiv_nonneg_iff)

lemma fs_okD:
  assumes "fs_ok cfg fs"
  shows "fs_medio cfg fs" "fs_base cfg fs"
    "k < length (listaFCB fs) \<Longrightarrow> length (datos_de cfg fs k) = nat (techo (uint (tamanio (listaFCB fs ! k))) (block_size cfg))"
proof -
  show "fs_medio cfg fs" "fs_base cfg fs" using assms by (auto simp: fs_ok_def fs_medio_def)
  assume "k < length (listaFCB fs)"
  then have "int (length (datos_de cfg fs k)) = techo (uint (tamanio (listaFCB fs ! k))) (block_size cfg)"
    using assms by (simp add: fs_ok_def datos_de_def)
  then show "length (datos_de cfg fs k) = nat (techo (uint (tamanio (listaFCB fs ! k))) (block_size cfg))"
    by linarith
qed

text \<open>After a change of file \<open>k\<close> alone, only its own size has to be checked.\<close>

lemma fs_ok_intacto:
  assumes "fs_ok cfg fs" "fs_medio cfg fs'" "intacto cfg k fs fs'" "k < length (listaFCB fs)"
    "int (length (datos_de cfg fs' k)) = techo (uint (tamanio (listaFCB fs' ! k))) (block_size cfg)"
  shows "fs_ok cfg fs'"
proof -
  have "int (length (bloques_datos cfg (datos_bloques fs') f)) = techo (uint (tamanio f)) (block_size cfg)"
    if f: "f \<in> set (listaFCB fs')" for f
  proof -
    obtain j where j: "j < length (listaFCB fs)" "f = listaFCB fs' ! j"
      using f intacto_length [OF assms(3)] by (auto simp: in_set_conv_nth)
    show ?thesis
    proof (cases "j = k")
      case True
      then show ?thesis using assms(5) j by (simp add: datos_de_def)
    next
      case False
      then show ?thesis using assms(1,3) j by (simp add: intacto_def mismos_bloques_def fs_ok_def)
    qed
  qed
  then show ?thesis using assms(2) by (simp add: fs_ok_def)
qed

lemma guardar_tamanio:
  assumes ok: "fs_medio cfg fs" "k < length (listaFCB fs)" and n: "nombre = nombre_archivo (listaFCB fs ! k)"
  obtains fs' where "guardar_config cfg vs (adressFromName cfg nombre)
      (cambiar_fcb k (tamanio_update (\<lambda>_. t)) fs) = Inr fs'"
    "encoge cfg k 0 fs fs'" "tamanio (listaFCB fs' ! k) = t"
proof -
  let ?fs = "cambiar_fcb k (tamanio_update (\<lambda>_. t)) fs"
  have "encoge cfg k 0 fs fs" using ok(1) by (simp add: encoge_def)
  note e = encoge_tamanio [OF this ok(2), of "\<lambda>_. t"]
  have "dictionary_get (directorio ?fs) (adressFromName cfg nombre) \<noteq> None"
    using ok fs_baseD(6) [of cfg fs] n
    by (simp add: fs_medio_def archivos_en_disco_def cambiar_fcb_def)
  then obtain dir' where g: "guardar_config cfg vs (adressFromName cfg nombre) ?fs = Inr (?fs\<lparr>directorio := dir'\<rparr>)"
    and d: "\<forall>r. dictionary_get dir' r = None \<longleftrightarrow> dictionary_get (directorio ?fs) r = None"
    by (rule guardar_config_ok)
  have "tamanio (listaFCB (?fs\<lparr>directorio := dir'\<rparr>) ! k) = t" using ok(2) by (simp add: cambiar_fcb_def)
  then show thesis by (rule that [OF g encoge_directorio [OF e d]])
qed

section \<open>Truncating\<close>

definition contenido_bloques :: "fsConfig \<Rightarrow> filesys \<Rightarrow> nat \<Rightarrow> byte list res list" where
  "contenido_bloques cfg fs k = map (bloque cfg (datos_bloques fs)) (datos_de cfg fs k)"

lemma truncar_ok:
  assumes ok: "fs_ok cfg fs" and k: "encontrarFCB fs nombre = Some k" and save: "config_save_ok cfg"
    and b: "b = nat (techo (uint nuevo) (block_size cfg))" and a: "a = length (datos_de cfg fs k)"
    and cabe: "4 * int b \<le> block_size cfg + 4" and li: "necesita a b \<le> libres fs"
  shows "\<exists>fs'. truncarArchivo cm cfg nombre nuevo fs = Inr (fs', enviar_int 1) \<and> fs_ok cfg fs' \<and>
    intacto cfg k fs fs' \<and> tamanio (listaFCB fs' ! k) = nuevo \<and> length (datos_de cfg fs' k) = b \<and>
    take (min a b) (datos_de cfg fs' k) = take (min a b) (datos_de cfg fs k) \<and>
    take (min a b) (contenido_bloques cfg fs' k) = take (min a b) (contenido_bloques cfg fs k)"
proof -
  note K = encontrarFCB_Some [OF k] and O = fs_okD [OF ok]
  have bs: "0 < block_size cfg" using fs_baseD(1) [OF O(2)] by simp
  have tb: "int b = techo (uint nuevo) (block_size cfg)" using b techo_cota [OF _ bs, of "uint nuevo"] by simp
  have ta: "int a = techo (uint (tamanio (listaFCB fs ! k))) (block_size cfg)"
    using a O(3) [OF K(1)] techo_cota [OF _ bs, of "uint (tamanio (listaFCB fs ! k))"] by simp
  have paso: "\<exists>fs1. (if int a > int b
        then bind_res (liberar_bloques cm cfg k (nat (int a - int b)) fs) (\<lambda>fs'. Inr (fs', True))
        else ocupar_bloques cm cfg k (nat (int b - int a)) fs) = Inr (fs1, True) \<and>
      fs_medio cfg fs1 \<and> intacto cfg k fs fs1 \<and> length (datos_de cfg fs1 k) = b \<and>
      take (min a b) (datos_de cfg fs1 k) = take (min a b) (datos_de cfg fs k) \<and>
      take (min a b) (contenido_bloques cfg fs1 k) = take (min a b) (contenido_bloques cfg fs k)"
  proof (cases "b < a")
    case True
    have n: "nat (int a - int b) = a - b" by simp
    obtain fs1 where f: "liberar_bloques cm cfg k (a - b) fs = Inr fs1" "encoge cfg k (a - b) fs fs1"
      using liberar_bloques_ok [OF O(1) K(1), of "a - b" cm] a by auto
    from f(2) obtain xs where "length xs = a - b" "datos_de cfg fs k = datos_de cfg fs1 k @ xs"
      by (auto simp: encoge_def)
    then show ?thesis using f True a unfolding n
      by (intro exI [of _ fs1]) (auto simp: encoge_def contenido_bloques_def)
  next
    case False
    have n: "nat (int b - int a) = b - a" by simp
    have "necesita a (a + (b - a)) \<le> libres fs" "4 * int (a + (b - a)) \<le> block_size cfg + 4"
      using li cabe False by simp_all
    from ocupar_bloques_ok [OF O(1) K(1) a this, of cm] obtain fs1 where
      f: "ocupar_bloques cm cfg k (b - a) fs = Inr (fs1, True)" "crece cfg k (b - a) fs fs1" "fs_medio cfg fs1"
      by blast
    from f(2) obtain xs where xs: "length xs = b - a" "datos_de cfg fs1 k = datos_de cfg fs k @ xs"
      by (auto simp: crece_def datos_de_def)
    then show ?thesis using f False a unfolding n
      by (intro exI [of _ fs1]) (auto simp: crece_def contenido_bloques_def datos_de_def)
  qed
  then obtain fs1 where p: "(if int a > int b
        then bind_res (liberar_bloques cm cfg k (nat (int a - int b)) fs) (\<lambda>fs'. Inr (fs', True))
        else ocupar_bloques cm cfg k (nat (int b - int a)) fs) = Inr (fs1, True)"
      "fs_medio cfg fs1" "intacto cfg k fs fs1" "length (datos_de cfg fs1 k) = b"
      "take (min a b) (datos_de cfg fs1 k) = take (min a b) (datos_de cfg fs k)"
      "take (min a b) (contenido_bloques cfg fs1 k) = take (min a b) (contenido_bloques cfg fs k)" by blast
  have k1: "k < length (listaFCB fs1)" "nombre = nombre_archivo (listaFCB fs1 ! k)"
    using K intacto_length [OF p(3)] intacto_nombre [OF p(3) K(1)] by simp_all
  obtain fs2 where g: "guardar_config cfg [(''TAMANIO_ARCHIVO'', string_itoa cm (sint nuevo))] (adressFromName cfg nombre)
      (cambiar_fcb k (tamanio_update (\<lambda>_. nuevo)) fs1) = Inr fs2"
    "encoge cfg k 0 fs1 fs2" "tamanio (listaFCB fs2 ! k) = nuevo"
    by (rule guardar_tamanio [OF p(2) k1])
  have d2: "datos_de cfg fs2 k = datos_de cfg fs1 k" using g(2) by (simp add: encoge_def)
  have c2: "contenido_bloques cfg fs2 k = contenido_bloques cfg fs1 k"
    using g(2) d2 by (simp add: encoge_def contenido_bloques_def)
  have i2: "intacto cfg k fs fs2" using p(3) g(2) by (auto simp: encoge_def intro: intacto_trans)
  have "fs_ok cfg fs2"
    by (rule fs_ok_intacto [OF ok _ i2 K(1)]) (use g p(4) d2 tb in \<open>simp_all add: encoge_def\<close>)
  moreover have "truncarArchivo cm cfg nombre nuevo fs = Inr (fs2, enviar_int 1)"
    using p(1) g(1) k save unfolding ta tb by (simp add: truncarArchivo_def Let_def)
  ultimately show ?thesis using g(3) i2 d2 c2 p(4-6) by auto
qed

section \<open>A small file system\<close>

text \<open>Eight blocks of 16 bytes: file \<open>a\<close> has three data blocks and a block of pointers, \<open>b\<close> has one.\<close>

definition fscfg_ej :: fsConfig where
  "fscfg_ej = \<lparr>block_size = 16, PATH_FCB = ''f'', config_save_ok = True\<rparr>"

definition fcb_a :: fcb where
  "fcb_a = \<lparr>nombre_archivo = ''a'', tamanio = 40, punteroDir = 0, punteroIn = 16, cantidad_indirectos = 2\<rparr>"

definition fcb_b :: fcb where
  "fcb_b = \<lparr>nombre_archivo = ''b'', tamanio = 10, punteroDir = 64, punteroIn = -1, cantidad_indirectos = 0\<rparr>"

definition fs_ej :: filesys where
  "fs_ej = \<lparr>datos_bloques = ''abcdefghijklmnop'' @ (enc_int 32 @ enc_int 48 @ replicate 8 NUL) @ ''ABCDEFGHIJKLMNOP''
       @ ''0123456789012345'' @ ''zyxwvutsrqponmlk'' @ replicate 48 NUL,
     bitmap = [True, True, True, True, True, False, False, False],
     listaFCB = [fcb_a, fcb_b], directorio = [(''f/a.config'', []), (''f/b.config'', [])]\<rparr>"

lemma fs_ej_bloques:
  "bloques_fcb fscfg_ej (datos_bloques fs_ej) fcb_a = [1, 0, 2, 3]"
  "bloques_fcb fscfg_ej (datos_bloques fs_ej) fcb_b = [4]"
  "bloques_datos fscfg_ej (datos_bloques fs_ej) fcb_a = [0, 2, 3]"
  "bloques_datos fscfg_ej (datos_bloques fs_ej) fcb_b = [4]"
  "puntero_ind (datos_bloques fs_ej) fcb_a 0 = 32" "puntero_ind (datos_bloques fs_ej) fcb_a 1 = 48"
  "length (datos_bloques fs_ej) = 128"
  "encontrarFCB fs_ej ''a'' = Some 0" "encontrarFCB fs_ej ''b'' = Some 1"
  by code_simp+

lemma fs_ej_fcb: "fcb_base fscfg_ej 8 (datos_bloques fs_ej) fcb_a" "fcb_base fscfg_ej 8 (datos_bloques fs_ej) fcb_b"
proof -
  have "puntero_ok fscfg_ej 8 (puntero_ind (datos_bloques fs_ej) fcb_a j)" if "j < 2" for j
    using that fs_ej_bloques(5,6) by (cases j) (auto simp: puntero_ok_def fscfg_ej_def)
  then show "fcb_base fscfg_ej 8 (datos_bloques fs_ej) fcb_a"
    by (simp add: fcb_base_def fcb_a_def puntero_ok_def fscfg_ej_def)
  show "fcb_base fscfg_ej 8 (datos_bloques fs_ej) fcb_b"
    by (simp add: fcb_base_def fcb_b_def puntero_ok_def fscfg_ej_def)
qed

lemma fs_ej_ok: "fs_ok fscfg_ej fs_ej"
proof -
  have u: "usados (bitmap fs_ej) = {0, 1, 2, 3, 4}"
    by code_simp
  have l: "listaFCB fs_ej = [fcb_a, fcb_b]" "length (bitmap fs_ej) = 8" by (simp_all add: fs_ej_def)
  have c: "block_size fscfg_ej = 16" by (simp add: fscfg_ej_def)
  have "archivos_en_disco fscfg_ej fs_ej"
    by (simp add: archivos_en_disco_def l) (simp add: adressFromName_def fscfg_ej_def fcb_a_def fcb_b_def fs_ej_def dictionary_get_def)
  moreover have "mset [1, 0, 2, 3, 4] = mset_set {0, 1, 2, 3, 4 :: nat}" by simp
  ultimately have b: "fs_base fscfg_ej fs_ej"
    using fs_ej_bloques(1,2,7) fs_ej_fcb by (simp add: fs_base_def l u c fcb_a_def fcb_b_def)
  then have "fs_medio fscfg_ej fs_ej" by (simp add: fs_medio_def l) (simp add: fcb_a_def fcb_b_def)
  then show ?thesis using fs_ej_bloques(3,4)
    by (simp add: fs_ok_def l c) (simp add: fcb_a_def fcb_b_def techo_def)
qed

text \<open>
  C17. Truncating a file of a well-formed file system, with enough free blocks (one more when
  its block of pointers has to be taken) and a size its pointers can reach, answers 1: the file has
  the new size and exactly the data blocks that size needs, the blocks it keeps are the same
  ones with the same bytes, every other file keeps its control block, its blocks and their
  bytes, and the result is well formed again.
\<close>

theorem truncar_correcto:
  assumes "fs_ok cfg fs" "encontrarFCB fs nombre = Some k" "config_save_ok cfg"
    and "b = nat (techo (uint nuevo) (block_size cfg))" "a = length (datos_de cfg fs k)"
    and "4 * int b \<le> block_size cfg + 4" "necesita a b \<le> libres fs"
  shows "\<exists>fs'. truncarArchivo cm cfg nombre nuevo fs = Inr (fs', enviar_int 1) \<and> fs_ok cfg fs' \<and>
    intacto cfg k fs fs' \<and> tamanio (listaFCB fs' ! k) = nuevo \<and> length (datos_de cfg fs' k) = b \<and>
    take (min a b) (datos_de cfg fs' k) = take (min a b) (datos_de cfg fs k) \<and>
    take (min a b) (contenido_bloques cfg fs' k) = take (min a b) (contenido_bloques cfg fs k)"
  by (rule truncar_ok [OF assms])

theorem truncar_correcto_witness:
  "\<exists>fs'. truncarArchivo commons_ej fscfg_ej ''b'' 30 fs_ej = Inr (fs', enviar_int 1) \<and> fs_ok fscfg_ej fs' \<and>
    intacto fscfg_ej 1 fs_ej fs' \<and> tamanio (listaFCB fs' ! 1) = 30 \<and> length (datos_de fscfg_ej fs' 1) = 2 \<and>
    take (min 1 2) (datos_de fscfg_ej fs' 1) = take (min 1 2) (datos_de fscfg_ej fs_ej 1) \<and>
    take (min 1 2) (contenido_bloques fscfg_ej fs' 1) = take (min 1 2) (contenido_bloques fscfg_ej fs_ej 1)"
  by (rule truncar_correcto [OF fs_ej_ok fs_ej_bloques(9)])
    (simp_all add: fscfg_ej_def techo_def necesita_def, simp_all add: datos_de_def fs_ej_def libres_def fcb_b_def bloques_datos_def)

section \<open>Opening\<close>

definition fcb_nuevo :: "string \<Rightarrow> fcb" where
  "fcb_nuevo nombre = \<lparr>nombre_archivo = nombre, tamanio = 0, punteroDir = -1, punteroIn = -1, cantidad_indirectos = 0\<rparr>"

lemma crearFCB_ok:
  obtains dir' where "crearFCB cm cfg nombre fs = Inr (fs\<lparr>listaFCB := listaFCB fs @ [fcb_nuevo nombre], directorio := dir'\<rparr>)"
    "\<forall>r. dictionary_get dir' r = None \<longleftrightarrow> dictionary_get (directorio fs) r = None \<and> r \<noteq> adressFromName cfg nombre"
proof -
  let ?r = "adressFromName cfg nombre" and ?f = "fcb_nuevo nombre"
  let ?fs = "fs\<lparr>listaFCB := listaFCB fs @ [?f]\<rparr>"
  let ?fs' = "case dictionary_get (directorio ?fs) ?r of
     None \<Rightarrow> ?fs\<lparr>directorio := dictionary_put (directorio ?fs) ?r []\<rparr> | Some _ \<Rightarrow> ?fs"
  have d: "dictionary_get (directorio ?fs') r = None \<longleftrightarrow> dictionary_get (directorio fs) r = None \<and> r \<noteq> ?r" for r
    by (auto split: option.splits)
  have eq: "?fs'\<lparr>directorio := dir'\<rparr> = ?fs\<lparr>directorio := dir'\<rparr>" for dir'
    by (simp split: option.splits)
  have "dictionary_get (directorio ?fs') ?r \<noteq> None" using d by blast
  then obtain dir' where g: "guardar_config cfg [(''NOMBRE_ARCHIVO'', nombre_archivo ?f),
            (''TAMANIO_ARCHIVO'', string_itoa cm (sint (tamanio ?f))),
            (''PUNTERO_DIRECTO'', ''-1''), (''PUNTERO_INDIRECTO'', ''-1''),
            (''CANTIDAD_INDIRECTOS'', ''0'')] ?r ?fs' = Inr (?fs'\<lparr>directorio := dir'\<rparr>)"
    and h: "\<forall>r. dictionary_get dir' r = None \<longleftrightarrow> dictionary_get (directorio ?fs') r = None"
    by (rule guardar_config_ok)
  have "crearFCB cm cfg nombre fs = guardar_config cfg [(''NOMBRE_ARCHIVO'', nombre_archivo ?f),
            (''TAMANIO_ARCHIVO'', string_itoa cm (sint (tamanio ?f))),
            (''PUNTERO_DIRECTO'', ''-1''), (''PUNTERO_INDIRECTO'', ''-1''),
            (''CANTIDAD_INDIRECTOS'', ''0'')] ?r ?fs'"
    by (simp add: crearFCB_def crearArchivoFCB_def Let_def fcb_nuevo_def split: option.split)
  then have c: "crearFCB cm cfg nombre fs = Inr (?fs\<lparr>directorio := dir'\<rparr>)" by (simp only: g eq)
  show thesis by (rule that [OF c]) (use d h in blast)
qed

lemma find_index_ultimo: "find_index P xs = None \<Longrightarrow> P y \<Longrightarrow> find_index P (xs @ [y]) = Some (length xs)"
  by (induction xs) (auto split: if_splits)

text \<open>
  Opening a file answers 1 and leaves the file system well formed, with the same blocks:
  a file that exists is left as it is, and one that does not is added as an empty file,
  without blocks, that is found afterwards.
\<close>

lemma abrir_correcto:
  assumes "fs_ok cfg fs"
  shows "\<exists>fs' k. crearOAbrirArchivo cm cfg nombre fs = Inr (fs', enviar_int 1) \<and> fs_ok cfg fs' \<and>
    encontrarFCB fs' nombre = Some k \<and> datos_bloques fs' = datos_bloques fs \<and> bitmap fs' = bitmap fs \<and>
    (case encontrarFCB fs nombre of
       Some j \<Rightarrow> fs' = fs \<and> k = j
     | None \<Rightarrow> listaFCB fs' = listaFCB fs @ [fcb_nuevo nombre] \<and> datos_de cfg fs' k = [])"
proof (cases "encontrarFCB fs nombre")
  case None
  obtain dir' where c: "crearFCB cm cfg nombre fs = Inr (fs\<lparr>listaFCB := listaFCB fs @ [fcb_nuevo nombre], directorio := dir'\<rparr>)"
    "\<forall>r. dictionary_get dir' r = None \<longleftrightarrow> dictionary_get (directorio fs) r = None \<and> r \<noteq> adressFromName cfg nombre"
    by (rule crearFCB_ok)
  let ?fs = "fs\<lparr>listaFCB := listaFCB fs @ [fcb_nuevo nombre], directorio := dir'\<rparr>"
  note O = fs_okD [OF assms]
  note D = fs_baseD [OF O(2)]
  have nom: "nombre_archivo (fcb_nuevo nombre) = nombre" by (simp add: fcb_nuevo_def)
  have nuevo: "nombre \<notin> nombre_archivo ` set (listaFCB fs)"
    using None by (auto simp: encontrarFCB_def find_index_None_iff)
  have v: "bloques_fcb cfg d (fcb_nuevo nombre) = []" "bloques_datos cfg d (fcb_nuevo nombre) = []"
    "fcb_base cfg n d (fcb_nuevo nombre)" for d n
    using D(1) by (simp_all add: bloques_fcb_def bloques_datos_def fcb_base_def fcb_nuevo_def)
  have "archivos_en_disco cfg ?fs"
    using D(6) c(2) by (auto simp: archivos_en_disco_def nom)
  then have "fs_base cfg ?fs" using D nuevo v by (simp add: fs_base_def nom)
  then have "fs_medio cfg ?fs" using O(1) by (simp add: fs_medio_def) (simp add: fcb_nuevo_def)
  then have "fs_ok cfg ?fs" using assms v D(1)
    by (simp add: fs_ok_def) (simp add: fcb_nuevo_def techo_def)
  moreover have "encontrarFCB ?fs nombre = Some (length (listaFCB fs))"
    using None nom by (simp add: encontrarFCB_def find_index_ultimo)
  ultimately show ?thesis using None c(1) v(2) by (simp add: crearOAbrirArchivo_def datos_de_def)
next
  case (Some j)
  then show ?thesis using assms by (simp add: crearOAbrirArchivo_def)
qed

lemma abrir_correcto_witness:
  "\<exists>fs' k. crearOAbrirArchivo commons_ej fscfg_ej ''c'' fs_ej = Inr (fs', enviar_int 1) \<and> fs_ok fscfg_ej fs' \<and>
    encontrarFCB fs' ''c'' = Some k \<and> datos_bloques fs' = datos_bloques fs_ej \<and> bitmap fs' = bitmap fs_ej \<and>
    (case encontrarFCB fs_ej ''c'' of
       Some j \<Rightarrow> fs' = fs_ej \<and> k = j
     | None \<Rightarrow> listaFCB fs' = listaFCB fs_ej @ [fcb_nuevo ''c''] \<and> datos_de fscfg_ej fs' k = [])"
  by (rule abrir_correcto [OF fs_ej_ok])

section \<open>Reading and writing\<close>

lemma atender_f_write:
  assumes m: "mem_ok mcfg m" "0 \<le> realAddr" "realAddr + int n \<le> TAM_MEMORIA mcfg"
  obtains bs where "mem_leer m realAddr (int n) = Inr bs" "length bs = n"
    "atender_filesystem m (send_fwrite_petition realAddr (int n)) = Inr (m, bs, [])"
proof -
  note D = mem_okD [OF m(1)]
  have "es_ok (mem_leer m realAddr (int n))" using m D(1) by (simp add: uspace.leer_ok_iff)
  then obtain bs where bs: "mem_leer m realAddr (int n) = Inr bs" by (auto simp: es_ok_iff)
  then have len: "length bs = n" by (auto simp: mem_leer_def dest: leer_area_length)
  have "int32_ok realAddr" "int32_ok (int n)" using m D(7) by (simp_all add: int32_ok_def)
  then have "atender_filesystem m (send_fwrite_petition realAddr (int n)) = Inr (m, bs, [])"
    using atender_usuario_lee [of realAddr "int n" F_WRITE F_READ m "[]"] bs by (simp add: envios_usuario)
  then show thesis using that bs len by blast
qed

lemma escribir_archivo_ok:
  assumes ok: "fs_ok cfg fs" and k: "encontrarFCB fs nombre = Some k"
    and p: "p div nat (block_size cfg) < length (datos_de cfg fs k)" "p mod nat (block_size cfg) + n < nat (block_size cfg)"
    and m: "mem_ok mcfg m" "0 \<le> realAddr" "realAddr + int n \<le> TAM_MEMORIA mcfg"
  shows "\<exists>fs' bs. escribirArchivo cfg nombre realAddr (int n) (int p) fs m = Inr (fs', m, enviar_int 1) \<and>
    mem_leer m realAddr (int n) = Inr bs \<and> fs_ok cfg fs' \<and> intacto cfg k fs fs' \<and>
    datos_de cfg fs' k = datos_de cfg fs k \<and>
    contenido_archivo cfg fs' k = take p (contenido_archivo cfg fs k) @ bs @ drop (p + n) (contenido_archivo cfg fs k)"
proof -
  note K = encontrarFCB_Some [OF k] and O = fs_okD [OF ok]
  obtain bs where bs: "mem_leer m realAddr (int n) = Inr bs" and len: "length bs = n"
    and at: "atender_filesystem m (send_fwrite_petition realAddr (int n)) = Inr (m, bs, [])"
    by (rule atender_f_write [OF m])
  from escribir_dentro [OF O(2) K(1) p(1), of bs] p(2) len obtain d' where
    w: "escribir_datos cfg fs (listaFCB fs ! k) (int p) bs = Inr (fs\<lparr>datos_bloques := d'\<rparr>)"
      "fs_base cfg (fs\<lparr>datos_bloques := d'\<rparr>)" "intacto cfg k fs (fs\<lparr>datos_bloques := d'\<rparr>)"
      "datos_de cfg (fs\<lparr>datos_bloques := d'\<rparr>) k = datos_de cfg fs k"
      "contenido_archivo cfg (fs\<lparr>datos_bloques := d'\<rparr>) k = take p (contenido_archivo cfg fs k) @ bs
        @ drop (p + n) (contenido_archivo cfg fs k)" by auto
  let ?fs = "fs\<lparr>datos_bloques := d'\<rparr>"
  have "fs_medio cfg ?fs" using O(1) w(2) by (simp add: fs_medio_def)
  then have "fs_ok cfg ?fs"
    by (rule fs_ok_intacto [OF ok _ w(3) K(1)]) (use ok K(1) in \<open>simp add: w(4), simp add: fs_ok_def datos_de_def\<close>)
  moreover have "escribirArchivo cfg nombre realAddr (int n) (int p) fs m = Inr (?fs, m, enviar_int 1)"
    using k at w(1) by (simp add: escribirArchivo_def)
  ultimately show ?thesis using bs w by blast
qed

text \<open>
  C32. Writing to a file takes the bytes from the memory module and puts them at that position
  of the file, which does not grow; the rest of its bytes, every other file and the memory
  are as before, and the answer is 1. The range has to end before the last byte of its block.
\<close>

theorem escribir_correcto:
  assumes ok: "fs_ok cfg fs" and k: "encontrarFCB fs nombre = Some k"
    and p: "p div nat (block_size cfg) < length (datos_de cfg fs k)" "p mod nat (block_size cfg) + n < nat (block_size cfg)"
    and m: "mem_ok mcfg m" "0 \<le> realAddr" "realAddr + int n \<le> TAM_MEMORIA mcfg"
  shows "\<exists>fs' bs. escribirArchivo cfg nombre realAddr (int n) (int p) fs m = Inr (fs', m, enviar_int 1) \<and>
    mem_leer m realAddr (int n) = Inr bs \<and> fs_ok cfg fs' \<and> intacto cfg k fs fs' \<and>
    datos_de cfg fs' k = datos_de cfg fs k \<and>
    contenido_archivo cfg fs' k = take p (contenido_archivo cfg fs k) @ bs @ drop (p + n) (contenido_archivo cfg fs k)"
  by (rule escribir_archivo_ok [OF assms])

theorem escribir_correcto_witness:
  "\<exists>fs' bs. escribirArchivo fscfg_ej ''a'' 12 (int 10) (int 20) fs_ej (mem_ej 10) = Inr (fs', mem_ej 10, enviar_int 1) \<and>
    mem_leer (mem_ej 10) 12 (int 10) = Inr bs \<and> fs_ok fscfg_ej fs' \<and> intacto fscfg_ej 0 fs_ej fs' \<and>
    datos_de fscfg_ej fs' 0 = datos_de fscfg_ej fs_ej 0 \<and>
    contenido_archivo fscfg_ej fs' 0 = take 20 (contenido_archivo fscfg_ej fs_ej 0) @ bs
      @ drop (20 + 10) (contenido_archivo fscfg_ej fs_ej 0)"
proof -
  have d: "datos_de fscfg_ej fs_ej 0 = [0, 2, 3]" by code_simp
  show ?thesis
    by (rule escribir_correcto [OF fs_ej_ok fs_ej_bloques(8) _ _ mem_ej_ok])
      (simp_all add: d, simp_all add: fscfg_ej_def cfg_ej_def)
qed

lemma leer_archivo_ok:
  assumes ok: "fs_ok cfg fs" and k: "encontrarFCB fs nombre = Some k"
    and p: "p div nat (block_size cfg) < length (datos_de cfg fs k)" "p mod nat (block_size cfg) + n < nat (block_size cfg)"
    and n: "n \<le> 4" and m: "mem_ok mcfg m" "0 \<le> realAddr" "realAddr + int n \<le> TAM_MEMORIA mcfg"
  shows "\<exists>m'. leerArchivo cfg nombre realAddr (int n) (int p) fs m = Inr (fs, m', enviar_int 1) \<and> mem_ok mcfg m' \<and>
    mem_escribir m realAddr (take n (drop p (contenido_archivo cfg fs k))) = Inr m' \<and>
    length (take n (drop p (contenido_archivo cfg fs k))) = n"
proof -
  note K = encontrarFCB_Some [OF k] and O = fs_okD [OF ok] and D = mem_okD [OF m(1)]
  let ?bs = "take n (drop p (contenido_archivo cfg fs k))"
  let ?B = "nat (block_size cfg)"
  have L: "leer_datos cfg fs (listaFCB fs ! k) (int p) (int n) = Inr ?bs"
    by (rule leer_dentro [OF O(2) K(1) p n])
  have B: "0 < ?B" using fs_baseD(1) [OF O(2)] by simp
  have len: "length ?bs = n"
  proof -
    have 1: "p + n < length (datos_de cfg fs k) * ?B"
      using mismo_bloque [OF p(2)] p(1) B by (simp add: div_less_iff_less_mult [symmetric])
    then have "p < length (datos_de cfg fs k) * ?B" by simp
    from contenido_nth(1) [OF O(2) K(1) this] 1 show ?thesis by simp
  qed
  have "realAddr + int (length ?bs) \<le> int (length (user_space m))" using m(3) D(1) len by simp
  then obtain m' where m': "mem_escribir m realAddr ?bs = Inr m'"
    using uspace.escribir_total [OF m(2)] by blast
  have "int32_ok realAddr" "int32_ok (8 + int (length ?bs))" using m D(7) n len by (simp_all add: int32_ok_def)
  from atender_usuario_escribe [OF this, of F_WRITE F_READ m "[]"] m' len
  have at: "atender_filesystem m (send_fread_petition realAddr ?bs (int n)) = Inr (m', enviar_int 1, [])"
    by (simp add: envios_usuario)
  have "recv_int (enviar_int 1) = Inr (1, [])" using recv_int_enc [of 1 "[]"] by (simp add: enviar_int_def)
  then have "leerArchivo cfg nombre realAddr (int n) (int p) fs m = Inr (fs, m', enviar_int 1)"
    using k L at by (simp add: leerArchivo_def)
  then show ?thesis using m' len mem_escribir_ok [OF m(1) m'] by blast
qed

text \<open>
  Reading up to four bytes of a file puts exactly the bytes at that position of the file
  into the memory module, at the address asked for and nowhere else, answers 1 and changes
  nothing in the file system.
\<close>

lemma leer_correcto:
  assumes "fs_ok cfg fs" "encontrarFCB fs nombre = Some k"
    "p div nat (block_size cfg) < length (datos_de cfg fs k)" "p mod nat (block_size cfg) + n < nat (block_size cfg)"
    "n \<le> 4" "mem_ok mcfg m" "0 \<le> realAddr" "realAddr + int n \<le> TAM_MEMORIA mcfg"
  shows "\<exists>m'. leerArchivo cfg nombre realAddr (int n) (int p) fs m = Inr (fs, m', enviar_int 1) \<and> mem_ok mcfg m' \<and>
    mem_leer m' realAddr (int n) = Inr (take n (drop p (contenido_archivo cfg fs k))) \<and>
    (\<forall>d c. d + c \<le> realAddr \<or> realAddr + int n \<le> d \<longrightarrow> mem_leer m' d c = mem_leer m d c)"
proof -
  obtain m' where m': "leerArchivo cfg nombre realAddr (int n) (int p) fs m = Inr (fs, m', enviar_int 1)" "mem_ok mcfg m'"
    "mem_escribir m realAddr (take n (drop p (contenido_archivo cfg fs k))) = Inr m'"
    "length (take n (drop p (contenido_archivo cfg fs k))) = n"
    using leer_archivo_ok [OF assms] by blast
  have "mem_leer m' realAddr (int n) = Inr (take n (drop p (contenido_archivo cfg fs k)))"
    using uspace.leer_escrito [OF m'(3)] unfolding m'(4) .
  moreover have "\<forall>d c. d + c \<le> realAddr \<or> realAddr + int n \<le> d \<longrightarrow> mem_leer m' d c = mem_leer m d c"
    using uspace.leer_ajeno [OF m'(3)] unfolding m'(4) by blast
  ultimately show ?thesis using m'(1,2) by blast
qed

lemma leer_correcto_witness:
  "\<exists>m'. leerArchivo fscfg_ej ''a'' 14 (int 4) (int 18) fs_ej (mem_ej 10) = Inr (fs_ej, m', enviar_int 1) \<and> mem_ok cfg_ej m' \<and>
    mem_leer m' 14 (int 4) = Inr (take 4 (drop 18 (contenido_archivo fscfg_ej fs_ej 0))) \<and>
    (\<forall>d c. d + c \<le> 14 \<or> 14 + int 4 \<le> d \<longrightarrow> mem_leer m' d c = mem_leer (mem_ej 10) d c)"
proof -
  have d: "datos_de fscfg_ej fs_ej 0 = [0, 2, 3]" by code_simp
  show ?thesis
    by (rule leer_correcto [OF fs_ej_ok fs_ej_bloques(8) _ _ _ mem_ej_ok])
      (simp_all add: d, simp_all add: fscfg_ej_def cfg_ej_def)
qed

text \<open>
  Up to four bytes written to a file from one address of the memory and read back to
  another one are copied between the two: the file keeps them.
\<close>

lemma archivo_ida_vuelta:
  assumes ok: "fs_ok cfg fs" and k: "encontrarFCB fs nombre = Some k"
    and p: "p div nat (block_size cfg) < length (datos_de cfg fs k)" "p mod nat (block_size cfg) + n < nat (block_size cfg)"
    and n: "n \<le> 4" and m: "mem_ok mcfg m" "0 \<le> a" "a + int n \<le> TAM_MEMORIA mcfg" "0 \<le> c" "c + int n \<le> TAM_MEMORIA mcfg"
  shows "\<exists>fs' m' bs. escribirArchivo cfg nombre a (int n) (int p) fs m = Inr (fs', m, enviar_int 1) \<and>
    leerArchivo cfg nombre c (int n) (int p) fs' m = Inr (fs', m', enviar_int 1) \<and>
    mem_leer m a (int n) = Inr bs \<and> mem_leer m' c (int n) = Inr bs"
proof -
  let ?B = "nat (block_size cfg)" and ?c = "contenido_archivo cfg fs k"
  obtain fs' bs where w: "escribirArchivo cfg nombre a (int n) (int p) fs m = Inr (fs', m, enviar_int 1)"
    "mem_leer m a (int n) = Inr bs" "fs_ok cfg fs'" "intacto cfg k fs fs'" "datos_de cfg fs' k = datos_de cfg fs k"
    "contenido_archivo cfg fs' k = take p ?c @ bs @ drop (p + n) ?c"
    using escribir_archivo_ok [OF ok k p m(1-3)] by blast
  have len: "length bs = n" using w(2) by (auto simp: mem_leer_def dest: leer_area_length)
  note K = encontrar_intacto [OF k w(4)] and K0 = encontrarFCB_Some [OF k] and O = fs_okD [OF ok]
  obtain m' where r: "leerArchivo cfg nombre c (int n) (int p) fs' m = Inr (fs', m', enviar_int 1)"
    "mem_escribir m c (take n (drop p (contenido_archivo cfg fs' k))) = Inr m'"
    using leer_archivo_ok [OF w(3) K _ p(2) n m(1,4,5)] p(1) w(5) by auto
  have "0 < ?B" using fs_baseD(1) [OF O(2)] by simp
  then have "p < length (datos_de cfg fs k) * ?B" using p(1) by (simp add: div_less_iff_less_mult)
  then have "p \<le> length ?c" using contenido_nth(1) [OF O(2) K0(1)] by simp
  then have "take n (drop p (contenido_archivo cfg fs' k)) = bs" using len by (simp add: w(6))
  then have "mem_leer m' c (int n) = Inr bs" using uspace.leer_escrito [OF r(2)] len by simp
  then show ?thesis using w(1,2) r(1) by blast
qed

lemma archivo_ida_vuelta_witness:
  "\<exists>fs' m' bs. escribirArchivo fscfg_ej ''b'' 13 (int 3) (int 5) fs_ej (mem_ej 10) = Inr (fs', mem_ej 10, enviar_int 1) \<and>
    leerArchivo fscfg_ej ''b'' 30 (int 3) (int 5) fs' (mem_ej 10) = Inr (fs', m', enviar_int 1) \<and>
    mem_leer (mem_ej 10) 13 (int 3) = Inr bs \<and> mem_leer m' 30 (int 3) = Inr bs"
proof -
  have d: "datos_de fscfg_ej fs_ej 1 = [4]" by code_simp
  show ?thesis
    by (rule archivo_ida_vuelta [OF fs_ej_ok fs_ej_bloques(9) _ _ _ mem_ej_ok])
      (simp_all add: d [unfolded One_nat_def], simp_all add: fscfg_ej_def cfg_ej_def)
qed

section \<open>Errors and limits\<close>

text \<open>
  A file that does not exist: truncating it answers 2 and writing it answers -1, both with
  the file system and the memory as they were; reading it sends no answer at all, so the
  kernel, which waits for one, is left waiting.
\<close>

lemma archivo_inexistente:
  assumes "\<forall>f \<in> set (listaFCB fs). nombre_archivo f \<noteq> nombre"
  shows "truncarArchivo cm cfg nombre nuevo fs = Inr (fs, enviar_int 2) \<and>
    escribirArchivo cfg nombre dir bytes puntero fs m = Inr (fs, m, enviar_int (-1)) \<and>
    leerArchivo cfg nombre dir bytes puntero fs m = Inr (fs, m, [])"
proof -
  have "encontrarFCB fs nombre = None" using assms by (simp add: encontrarFCB_def find_index_None_iff)
  then show ?thesis by (simp add: truncarArchivo_def escribirArchivo_def leerArchivo_def)
qed

lemma archivo_inexistente_witness:
  "truncarArchivo commons_ej fscfg_ej ''z'' 5 fs_ej = Inr (fs_ej, enviar_int 2) \<and>
    escribirArchivo fscfg_ej ''z'' 0 1 0 fs_ej (mem_ej 10) = Inr (fs_ej, mem_ej 10, enviar_int (-1)) \<and>
    leerArchivo fscfg_ej ''z'' 0 1 0 fs_ej (mem_ej 10) = Inr (fs_ej, mem_ej 10, [])"
  by (rule archivo_inexistente) (simp add: fs_ej_def fcb_a_def fcb_b_def)

definition fcb_uno :: "string \<Rightarrow> int \<Rightarrow> fcb" where
  "fcb_uno nombre p = \<lparr>nombre_archivo = nombre, tamanio = 10, punteroDir = word_of_int p, punteroIn = -1,
     cantidad_indirectos = 0\<rparr>"

definition fs_lleno :: filesys where
  "fs_lleno = fs_ej\<lparr>bitmap := [True, True, True, True, True, True, True, False],
     listaFCB := [fcb_a, fcb_b, fcb_uno ''c'' 80, fcb_uno ''d'' 96],
     directorio := [(''f/a.config'', []), (''f/b.config'', []), (''f/c.config'', []), (''f/d.config'', [])]\<rparr>"

lemma fs_lleno_ok: "fs_ok fscfg_ej fs_lleno"
proof -
  have u: "usados (bitmap fs_lleno) = {0, 1, 2, 3, 4, 5, 6}" by code_simp
  have l: "listaFCB fs_lleno = [fcb_a, fcb_b, fcb_uno ''c'' 80, fcb_uno ''d'' 96]" "length (bitmap fs_lleno) = 8"
    "datos_bloques fs_lleno = datos_bloques fs_ej" by (simp_all add: fs_lleno_def)
  have c: "block_size fscfg_ej = 16" by (simp add: fscfg_ej_def)
  have f: "fcb_base fscfg_ej 8 (datos_bloques fs_ej) (fcb_uno ''c'' 80)"
    "fcb_base fscfg_ej 8 (datos_bloques fs_ej) (fcb_uno ''d'' 96)"
    by (simp_all add: fcb_base_def fcb_uno_def puntero_ok_def fscfg_ej_def)
  have b: "bloques_fcb fscfg_ej (datos_bloques fs_ej) (fcb_uno ''c'' 80) = [5]"
    "bloques_fcb fscfg_ej (datos_bloques fs_ej) (fcb_uno ''d'' 96) = [6]"
    "bloques_datos fscfg_ej (datos_bloques fs_ej) (fcb_uno ''c'' 80) = [5]"
    "bloques_datos fscfg_ej (datos_bloques fs_ej) (fcb_uno ''d'' 96) = [6]"
    by code_simp+
  have "archivos_en_disco fscfg_ej fs_lleno"
    by (simp add: archivos_en_disco_def l)
      (simp add: adressFromName_def fscfg_ej_def fcb_a_def fcb_b_def fcb_uno_def fs_lleno_def dictionary_get_def)
  then have "fs_base fscfg_ej fs_lleno"
    using fs_ej_bloques(1,2,7) fs_ej_fcb f b(1,2) by (simp add: fs_base_def l u c) (simp add: fcb_a_def fcb_b_def fcb_uno_def)
  then have "fs_medio fscfg_ej fs_lleno" by (simp add: fs_medio_def l) (simp add: fcb_a_def fcb_b_def fcb_uno_def)
  then show ?thesis using fs_ej_bloques(3,4) b(3,4)
    by (simp add: fs_ok_def l c) (simp add: fcb_a_def fcb_b_def fcb_uno_def techo_def)
qed

lemma fs_lleno_truncar:
  "case truncarArchivo commons_ej fscfg_ej ''b'' 30 fs_lleno of
     Inl _ \<Rightarrow> False
   | Inr (fs', r) \<Rightarrow> r = enviar_int 1 \<and> tamanio (listaFCB fs' ! 1) = 30 \<and>
       datos_de fscfg_ej fs' 1 = [4] \<and> cantidad_indirectos (listaFCB fs' ! 1) = 0 \<and> punteroIn (listaFCB fs' ! 1) = 112"
  by code_simp

text \<open>
  When growing a file runs out of blocks only for the data that follows a fresh block of
  pointers, the failure is lost: with one free block, truncating a one-block file to two
  blocks answers 1 and records the new size, but the file still has one data block and
  a block of pointers without any pointer.
\<close>

lemma truncar_sin_lugar_responde_bien:
  "fs_ok fscfg_ej fs_lleno \<and> (case truncarArchivo commons_ej fscfg_ej ''b'' 30 fs_lleno of
     Inl _ \<Rightarrow> False
   | Inr (fs', r) \<Rightarrow> r = enviar_int 1 \<and> tamanio (listaFCB fs' ! 1) = 30 \<and>
       datos_de fscfg_ej fs' 1 = [4] \<and> cantidad_indirectos (listaFCB fs' ! 1) = 0 \<and> punteroIn (listaFCB fs' ! 1) = 112)"
  using fs_lleno_ok fs_lleno_truncar by blast

text \<open>
  \<open>leerBloque\<close> copies into a block of 4 bytes whatever the size: a read of more than four
  bytes of a file inside one block writes past the end of it, for every file and position.
\<close>

lemma lectura_larga_desborda:
  assumes ok: "fs_ok cfg fs" and k: "encontrarFCB fs nombre = Some k"
    and p: "p div nat (block_size cfg) < length (datos_de cfg fs k)" "p mod nat (block_size cfg) + n < nat (block_size cfg)"
    and n: "4 < n"
  shows "leerArchivo cfg nombre realAddr (int n) (int p) fs m = Inl Fuera_de_rango"
proof -
  note K = encontrarFCB_Some [OF k] and O = fs_okD [OF ok]
  have bs: "0 < block_size cfg" using fs_baseD(1) [OF O(2)] by simp
  note ptr = puntero_de_bloque [OF O(2) K(1) p(1) con_directo [OF O(2) K(1) p(1)]]
  have "\<not> block_size cfg \<le> int (p mod nat (block_size cfg)) + int n" using p(2) bs by linarith
  then show ?thesis using k n ptr pos_div [OF bs] by (simp add: leerArchivo_def leer_datos_def Let_def leerBloque_def)
qed

lemma lectura_larga_desborda_witness:
  "leerArchivo fscfg_ej ''b'' 12 (int 8) (int 2) fs_ej (mem_ej 10) = Inl Fuera_de_rango"
proof -
  have d: "datos_de fscfg_ej fs_ej 1 = [4]" by code_simp
  show ?thesis
    by (rule lectura_larga_desborda [OF fs_ej_ok fs_ej_bloques(9)]) (simp_all add: d [unfolded One_nat_def], simp_all add: fscfg_ej_def)
qed



end
