(* ===== verification/Fs_Arranque.thy ===== *)
theory Fs_Arranque
  imports Fs_Propiedades
begin

text \<open>
  The start of the file system module (\<open>FileSystem/src/filesys.h\<close>, \<open>FileSystem/src/filesys.c\<close>):
  the bitmap and block files are created or mapped and the control blocks are loaded from the
  directory of FCBs. A \<open>disco\<close> is what the files hold before the start; a file mapped with
  \<open>MAP_SHARED\<close> holds what the running module has in memory (\<open>disco_de\<close>), so a restart is a
  start on \<open>disco_de\<close> of the state the module was in.
\<close>

section \<open>The files\<close>

record disco =
  archivo_bitmap :: "byte list option"
  archivo_bloques :: "byte list option"
  directorio_fcb :: "(string, (string, string) dict) dict option"

text \<open>A bit array in mode \<open>LSB_FIRST\<close>: bit \<open>i\<close> is bit \<open>i mod 8\<close> of byte \<open>i div 8\<close>.\<close>

definition bits_de_byte :: "byte \<Rightarrow> bool list" where
  "bits_de_byte b = [digit0 b, digit1 b, digit2 b, digit3 b, digit4 b, digit5 b, digit6 b, digit7 b]"

definition bits_de :: "byte list \<Rightarrow> bool list" where
  "bits_de bs = concat (map bits_de_byte bs)"

fun bytes_de :: "bool list \<Rightarrow> byte list" where
  "bytes_de (b0 # b1 # b2 # b3 # b4 # b5 # b6 # b7 # bs) = Char b0 b1 b2 b3 b4 b5 b6 b7 # bytes_de bs"
| "bytes_de _ = []"

text \<open>
  \<open>n\<close> bytes of a mapped file. The rest of the last page of the file reads as zeros; a page
  beyond it cannot be accessed.
\<close>

definition pagina :: int where
  "pagina = 4096"

definition mapear :: "byte list \<Rightarrow> int \<Rightarrow> byte list res" where
  "mapear bs n = (if n > techo (int (length bs)) pagina * pagina then Inl Fuera_de_rango
     else Inr (take (nat n) (bs @ replicate (nat n) NUL)))"

text \<open>\<open>ceil(block_count/8)\<close>: the division is of integers. \<open>ftruncate\<close> and \<open>mmap\<close> fail on a size that is not positive.\<close>

definition tamanio_bitmap :: "int \<Rightarrow> int" where
  "tamanio_bitmap block_count = block_count sdiv 8"

definition crearArchivoBitmap :: "int \<Rightarrow> byte list option \<Rightarrow> bool list res" where
  "crearArchivoBitmap block_count archivo =
     (let tam = tamanio_bitmap block_count
      in if tam \<le> 0 then Inl Salida
         else case archivo of
           None \<Rightarrow> Inr (bits_de (replicate (nat tam) NUL))
         | Some bs \<Rightarrow> bind_res (mapear bs tam) (\<lambda>datos. Inr (bits_de datos)))"

text \<open>The block file gets its size first, with zeros at the end when it grows.\<close>

definition rdwrArchivoBloques :: "int \<Rightarrow> int \<Rightarrow> byte list option \<Rightarrow> byte list res" where
  "rdwrArchivoBloques block_count tam_bloque archivo =
     (let total = block_count * tam_bloque
      in if total < 0 then Inl Salida
         else case archivo of
           None \<Rightarrow> Inr (replicate (nat total) NUL)
         | Some bs \<Rightarrow> Inr (take (nat total) (bs @ replicate (nat total) NUL)))"

section \<open>The control blocks\<close>

definition adressFromConfigName :: "fsConfig \<Rightarrow> string \<Rightarrow> string" where
  "adressFromConfigName cfg entrada = PATH_FCB cfg @ ''/'' @ entrada"

text \<open>The names of the entries of the directory.\<close>

definition entradas :: "fsConfig \<Rightarrow> (string, 'a) dict \<Rightarrow> string list" where
  "entradas cfg d = map (drop (length (PATH_FCB cfg) + 1)) (map fst d)"

text \<open>\<open>config_get_string_value\<close> gives NULL for a missing key, which is copied or converted all the same.\<close>

definition config_valor :: "(string, string) dict \<Rightarrow> string \<Rightarrow> string res" where
  "config_valor conf clave = (case dictionary_get conf clave of None \<Rightarrow> Inl Puntero_nulo | Some v \<Rightarrow> Inr v)"

text \<open>
  One entry. \<open>CANTIDAD_INDIRECTOS\<close> is not loaded: the field keeps \<open>basura\<close>, what the block
  from \<open>malloc\<close> had.
\<close>

definition cargarFCB :: "fsConfig \<Rightarrow> (string, (string, string) dict) dict \<Rightarrow> string \<Rightarrow> int \<Rightarrow> fcb res" where
  "cargarFCB cfg dir entrada basura =
     (case dictionary_get dir (adressFromConfigName cfg entrada) of
        None \<Rightarrow> Inl Puntero_nulo
      | Some conf \<Rightarrow>
          bind_res (config_valor conf ''NOMBRE_ARCHIVO'') (\<lambda>nombre.
          bind_res (config_valor conf ''TAMANIO_ARCHIVO'') (\<lambda>tam.
          bind_res (config_valor conf ''PUNTERO_DIRECTO'') (\<lambda>directo.
          bind_res (config_valor conf ''PUNTERO_INDIRECTO'') (\<lambda>indirecto.
            Inr \<lparr>nombre_archivo = nombre, tamanio = word_of_int (atoi tam), punteroDir = word_of_int (atoi directo),
                 punteroIn = word_of_int (atoi indirecto), cantidad_indirectos = basura\<rparr>)))))"

fun cargarFCBs :: "fsConfig \<Rightarrow> (string, (string, string) dict) dict \<Rightarrow> string list \<Rightarrow> (nat \<Rightarrow> int) \<Rightarrow> nat \<Rightarrow> fcb list res" where
  "cargarFCBs cfg dir [] basura i = Inr []"
| "cargarFCBs cfg dir (e # es) basura i = bind_res (cargarFCB cfg dir e (basura i)) (\<lambda>f.
     bind_res (cargarFCBs cfg dir es basura (Suc i)) (\<lambda>fs. Inr (f # fs)))"

text \<open>\<open>readdir\<close> gives the entries in some order; without the directory an empty one is made.\<close>

definition inicializarListaFCB ::
    "fsConfig \<Rightarrow> (string list \<Rightarrow> string list) \<Rightarrow> (nat \<Rightarrow> int) \<Rightarrow> (string, (string, string) dict) dict option
     \<Rightarrow> (fcb list \<times> (string, (string, string) dict) dict) res" where
  "inicializarListaFCB cfg readdir basura directorioFCBs =
     (case directorioFCBs of
        None \<Rightarrow> Inr ([], [])
      | Some dir \<Rightarrow> bind_res (cargarFCBs cfg dir (readdir (entradas cfg dir)) basura 0) (\<lambda>fcbs. Inr (fcbs, dir)))"

text \<open>The start, in the order of \<open>main\<close>.\<close>

definition fs_arrancar ::
    "fsConfig \<Rightarrow> int \<Rightarrow> (string list \<Rightarrow> string list) \<Rightarrow> (nat \<Rightarrow> int) \<Rightarrow> disco \<Rightarrow> filesys res" where
  "fs_arrancar cfg block_count readdir basura d =
     bind_res (crearArchivoBitmap block_count (archivo_bitmap d)) (\<lambda>bits.
     bind_res (rdwrArchivoBloques block_count (block_size cfg) (archivo_bloques d)) (\<lambda>datos.
     bind_res (inicializarListaFCB cfg readdir basura (directorio_fcb d)) (\<lambda>(fcbs, dir).
       Inr \<lparr>datos_bloques = datos, bitmap = bits, listaFCB = fcbs, directorio = dir\<rparr>)))"

definition disco_de :: "filesys \<Rightarrow> disco" where
  "disco_de fs = \<lparr>archivo_bitmap = Some (bytes_de (bitmap fs)), archivo_bloques = Some (datos_bloques fs),
     directorio_fcb = Some (directorio fs)\<rparr>"

section \<open>Bits and bytes\<close>

lemma bits_de_Nil [simp]: "bits_de [] = []"
  by (simp add: bits_de_def)

lemma bits_de_Cons [simp]: "bits_de (b # bs) = bits_de_byte b @ bits_de bs"
  by (simp add: bits_de_def)

lemma bits_de_NUL: "bits_de (replicate n NUL) = replicate (8 * n) False"
  by (induction n) (simp_all add: bits_de_byte_def numeral_eq_Suc)

lemma bits_bytes_de:
  assumes "length bs = 8 * n"
  shows "bits_de (bytes_de bs) = bs" "length (bytes_de bs) = n"
proof -
  have "bits_de (bytes_de bs) = bs \<and> length (bytes_de bs) = n"
    using assms
  proof (induction bs arbitrary: n rule: bytes_de.induct)
    case (1 b0 b1 b2 b3 b4 b5 b6 b7 bs)
    then obtain n' where "n = Suc n'" by (cases n) auto
    then show ?case using 1 by (simp add: bits_de_byte_def)
  qed (auto, presburger+)
  then show "bits_de (bytes_de bs) = bs" "length (bytes_de bs) = n" by simp_all
qed

section \<open>A first start\<close>

lemma arranque_vacio_ok:
  assumes "8 \<le> n" "4 \<le> block_size cfg" "n * block_size cfg < 2147483648"
  shows "fs_arrancar cfg n readdir basura \<lparr>archivo_bitmap = None, archivo_bloques = None, directorio_fcb = None\<rparr>
    = Inr \<lparr>datos_bloques = replicate (nat (n * block_size cfg)) NUL, bitmap = replicate (8 * nat (n div 8)) False,
         listaFCB = [], directorio = []\<rparr>"
    "fs_ok cfg \<lparr>datos_bloques = replicate (nat (n * block_size cfg)) NUL, bitmap = replicate (8 * nat (n div 8)) False,
         listaFCB = [], directorio = []\<rparr>"
proof -
  have d: "n sdiv 8 = n div 8" using assms(1) by (simp add: signed_divide_int_def)
  have p: "0 < n * block_size cfg" using assms by simp
  show "fs_arrancar cfg n readdir basura \<lparr>archivo_bitmap = None, archivo_bloques = None, directorio_fcb = None\<rparr>
    = Inr \<lparr>datos_bloques = replicate (nat (n * block_size cfg)) NUL, bitmap = replicate (8 * nat (n div 8)) False,
         listaFCB = [], directorio = []\<rparr>"
    using assms(1) p by (simp add: fs_arrancar_def crearArchivoBitmap_def tamanio_bitmap_def d rdwrArchivoBloques_def
        inicializarListaFCB_def bits_de_NUL Let_def)
  have "block_size cfg * (8 * (n div 8)) \<le> block_size cfg * n"
    using assms by (intro mult_left_mono) simp_all
  moreover have "usados (replicate k False) = {}" for k by (auto simp: usados_def)
  ultimately show "fs_ok cfg \<lparr>datos_bloques = replicate (nat (n * block_size cfg)) NUL,
      bitmap = replicate (8 * nat (n div 8)) False, listaFCB = [], directorio = []\<rparr>"
    using assms p by (simp add: fs_ok_def fs_medio_def fs_base_def archivos_en_disco_def mult.commute [of n])
qed

section \<open>The control blocks on disk are those in memory\<close>

text \<open>
  With \<open>ind\<close> the number of indirect blocks too, an \<open>int\<close> in the code; without it only what
  \<open>inicializarListaFCB\<close> reads back, so that the files of a module that has just restarted are
  up to date in this weaker sense.
\<close>

definition fcb_en_disco :: "bool \<Rightarrow> fcb \<Rightarrow> (string, string) dict \<Rightarrow> bool" where
  "fcb_en_disco ind f conf \<longleftrightarrow> dictionary_get conf ''NOMBRE_ARCHIVO'' = Some (nombre_archivo f) \<and>
     map_option atoi (dictionary_get conf ''TAMANIO_ARCHIVO'') = Some (sint (tamanio f)) \<and>
     map_option atoi (dictionary_get conf ''PUNTERO_DIRECTO'') = Some (sint (punteroDir f)) \<and>
     map_option atoi (dictionary_get conf ''PUNTERO_INDIRECTO'') = Some (sint (punteroIn f)) \<and>
     (ind \<longrightarrow> (\<exists>v. dictionary_get conf ''CANTIDAD_INDIRECTOS'' = Some v \<and>
        (int32_ok (cantidad_indirectos f) \<longrightarrow> atoi v = cantidad_indirectos f)))"

definition al_dia_salvo :: "fsConfig \<Rightarrow> bool \<Rightarrow> nat set \<Rightarrow> filesys \<Rightarrow> bool" where
  "al_dia_salvo cfg ind K fs \<longleftrightarrow> distinct (map nombre_archivo (listaFCB fs)) \<and> dict_ok (directorio fs) \<and>
     set (map fst (directorio fs)) = (\<lambda>f. adressFromName cfg (nombre_archivo f)) ` set (listaFCB fs) \<and>
     (\<forall>k < length (listaFCB fs). \<exists>conf. dictionary_get (directorio fs) (adressFromName cfg (nombre_archivo (listaFCB fs ! k))) = Some conf \<and>
        dictionary_get conf ''NOMBRE_ARCHIVO'' = Some (nombre_archivo (listaFCB fs ! k)) \<and>
        (k \<notin> K \<longrightarrow> fcb_en_disco ind (listaFCB fs ! k) conf))"

abbreviation al_dia :: "fsConfig \<Rightarrow> bool \<Rightarrow> filesys \<Rightarrow> bool" where
  "al_dia cfg ind fs \<equiv> al_dia_salvo cfg ind {} fs"

lemma ruta_inj [simp]: "adressFromName cfg a = adressFromName cfg b \<longleftrightarrow> a = b"
  by (simp add: adressFromName_def)










abbreviation nombres :: "filesys \<Rightarrow> string list" where
  "nombres fs \<equiv> map nombre_archivo (listaFCB fs)"

lemma nombres_cambiar [simp]: "(\<And>f. nombre_archivo (g f) = nombre_archivo f) \<Longrightarrow> nombres (cambiar_fcb k g x) = nombres x"
  by (cases "k < length (listaFCB x)")
    (auto simp: cambiar_fcb_def list_eq_iff_nth_eq nth_list_update list_update_beyond)

lemma length_cambiar_fcb [simp]: "length (listaFCB (cambiar_fcb k g x)) = length (listaFCB x)"
  by (simp add: cambiar_fcb_def)













lemma directorio_cambiar_fcb [simp]: "directorio (cambiar_fcb k g fs) = directorio fs"
  by (simp add: cambiar_fcb_def)







section \<open>A restart\<close>

lemma cargarFCB_ok:
  assumes "dictionary_get dir (adressFromName cfg (nombre_archivo f)) = Some conf" "fcb_en_disco ind f conf"
  shows "cargarFCB cfg dir (nombre_archivo f @ ''.config'') b = Inr (f\<lparr>cantidad_indirectos := b\<rparr>)"
proof -
  have "adressFromConfigName cfg (nombre_archivo f @ ''.config'') = adressFromName cfg (nombre_archivo f)"
    by (simp add: adressFromConfigName_def adressFromName_def)
  moreover obtain t d i where "dictionary_get conf ''TAMANIO_ARCHIVO'' = Some t" "atoi t = sint (tamanio f)"
    "dictionary_get conf ''PUNTERO_DIRECTO'' = Some d" "atoi d = sint (punteroDir f)"
    "dictionary_get conf ''PUNTERO_INDIRECTO'' = Some i" "atoi i = sint (punteroIn f)"
    "dictionary_get conf ''NOMBRE_ARCHIVO'' = Some (nombre_archivo f)"
    using assms(2) by (auto simp: fcb_en_disco_def)
  ultimately show ?thesis using assms(1) by (simp add: cargarFCB_def config_valor_def)
qed

lemma cargarFCBs_ok:
  assumes "\<forall>f \<in> set fs. \<exists>conf. dictionary_get dir (adressFromName cfg (nombre_archivo f)) = Some conf \<and> fcb_en_disco ind f conf"
  shows "cargarFCBs cfg dir (map (\<lambda>f. nombre_archivo f @ ''.config'') fs) b i =
    Inr (map (\<lambda>(f, j). f\<lparr>cantidad_indirectos := b j\<rparr>) (zip fs [i..<i + length fs]))"
  using assms
proof (induction fs arbitrary: i)
  case (Cons f fs)
  then obtain conf where "cargarFCB cfg dir (nombre_archivo f @ ''.config'') (b i) = Inr (f\<lparr>cantidad_indirectos := b i\<rparr>)"
    using cargarFCB_ok by fastforce
  then show ?case using Cons by (simp add: upt_conv_Cons del: upt_Suc)
qed simp

lemma mset_map_lista:
  "mset xs = mset (map g ys) \<Longrightarrow> \<exists>zs. mset zs = mset ys \<and> xs = map g zs"
proof (induction xs arbitrary: ys)
  case (Cons x xs)
  then have "x \<in> set (map g ys)" by (metis list.set_intros(1) mset_eq_setD)
  then obtain y a b where y: "x = g y" "ys = a @ y # b" by (auto simp: in_set_conv_decomp)
  then have "mset xs = mset (map g (a @ b))" using Cons.prems by simp
  then obtain zs where "mset zs = mset (a @ b)" "xs = map g zs" using Cons.IH by blast
  then show ?case using y by (intro exI [of _ "y # zs"]) simp
qed simp

lemma techo_ge: "0 < b \<Longrightarrow> n \<le> techo n b * b"
proof -
  assume b: "0 < b"
  have "n + b - 1 = (n + b - 1) div b * b + (n + b - 1) mod b" by simp
  moreover have "(n + b - 1) mod b < b" using b by simp
  ultimately show "n \<le> techo n b * b" unfolding techo_def by linarith
qed

lemma entradas_al_dia:
  assumes "al_dia cfg ind fs"
  shows "mset (entradas cfg (directorio fs)) = mset (map (\<lambda>f. nombre_archivo f @ ''.config'') (listaFCB fs))"
proof -
  let ?r = "\<lambda>f. adressFromName cfg (nombre_archivo f)"
  have "distinct (map fst (directorio fs))" "set (map fst (directorio fs)) = set (map ?r (listaFCB fs))"
    using assms by (simp_all add: al_dia_salvo_def dict_ok_def)
  moreover have "distinct (map ?r (listaFCB fs))"
    using assms by (auto simp: al_dia_salvo_def distinct_map inj_on_def)
  ultimately have "mset (map fst (directorio fs)) = mset (map ?r (listaFCB fs))"
    by (simp only: set_eq_iff_mset_eq_distinct)
  then have "mset (entradas cfg (directorio fs)) = mset (map (\<lambda>f. drop (length (PATH_FCB cfg) + 1) (?r f)) (listaFCB fs))"
    unfolding entradas_def by (metis (no_types, lifting) map_map comp_apply map_eq_conv mset_map)
  then show ?thesis by (simp add: adressFromName_def)
qed

text \<open>
  C18. A restart gives back the blocks, the bitmap and the directory as they were, and the same
  files with their sizes and pointers, in the order of the directory; but the number of
  indirect blocks of every file is whatever its new control block had in memory.
\<close>

theorem reinicio:
  assumes ok: "al_dia cfg False fs" and n: "8 \<le> n" "int (length (bitmap fs)) = 8 * (n div 8)"
    and d: "int (length (datos_bloques fs)) = n * block_size cfg" and r: "mset (readdir (entradas cfg (directorio fs))) = mset (entradas cfg (directorio fs))"
  shows "\<exists>lista. mset lista = mset (listaFCB fs) \<and>
    fs_arrancar cfg n readdir basura (disco_de fs) =
      Inr (fs\<lparr>listaFCB := map (\<lambda>(f, j). f\<lparr>cantidad_indirectos := basura j\<rparr>) (zip lista [0..<length lista])\<rparr>)"
proof -
  have "mset (readdir (entradas cfg (directorio fs))) = mset (map (\<lambda>f. nombre_archivo f @ ''.config'') (listaFCB fs))"
    using r entradas_al_dia [OF ok] by simp
  then obtain lista where lista: "mset lista = mset (listaFCB fs)"
    "readdir (entradas cfg (directorio fs)) = map (\<lambda>f. nombre_archivo f @ ''.config'') lista"
    using mset_map_lista by blast
  have "\<forall>f \<in> set lista. \<exists>conf. dictionary_get (directorio fs) (adressFromName cfg (nombre_archivo f)) = Some conf \<and> fcb_en_disco False f conf"
    using ok mset_eq_setD [OF lista(1)] unfolding al_dia_salvo_def by (metis empty_iff in_set_conv_nth)
  from cargarFCBs_ok [OF this, of basura 0]
  have l: "inicializarListaFCB cfg readdir basura (Some (directorio fs)) =
      Inr (map (\<lambda>(f, j). f\<lparr>cantidad_indirectos := basura j\<rparr>) (zip lista [0..<length lista]), directorio fs)"
    by (simp add: inicializarListaFCB_def lista(2))
  have nb: "length (bitmap fs) = 8 * nat (n div 8)" using n by linarith
  have s: "tamanio_bitmap n = n div 8" using n(1) by (simp add: tamanio_bitmap_def signed_divide_int_def)
  have "0 < n div 8" using n(1) by simp
  moreover have "n div 8 \<le> techo (n div 8) pagina * pagina" by (rule techo_ge) (simp add: pagina_def)
  ultimately have b: "crearArchivoBitmap n (Some (bytes_de (bitmap fs))) = Inr (bitmap fs)"
    using bits_bytes_de [OF nb] by (simp add: crearArchivoBitmap_def s mapear_def Let_def)
  have "rdwrArchivoBloques n (block_size cfg) (Some (datos_bloques fs)) = Inr (datos_bloques fs)"
    by (simp add: rdwrArchivoBloques_def Let_def flip: d)
  then show ?thesis using lista(1) l b by (intro exI [of _ lista]) (simp add: fs_arrancar_def disco_de_def)
qed

text \<open>
  The first start, with no files: it establishes the invariant of the file system, with no
  file and every block free. The bitmap has a bit for each block of the first
  \<open>block_count div 8\<close> bytes only.
\<close>

lemma primer_arranque:
  assumes "8 \<le> n" "4 \<le> block_size cfg" "n * block_size cfg < 2147483648"
  shows "\<exists>fs. fs_arrancar cfg n readdir basura \<lparr>archivo_bitmap = None, archivo_bloques = None, directorio_fcb = None\<rparr> = Inr fs \<and>
    fs_ok cfg fs \<and> al_dia cfg ind fs \<and> listaFCB fs = [] \<and> usados (bitmap fs) = {} \<and>
    int (length (bitmap fs)) = 8 * (n div 8) \<and> int (length (datos_bloques fs)) = n * block_size cfg"
proof -
  have "0 \<le> n * block_size cfg" using assms by simp
  moreover have "usados (replicate k False) = {}" for k by (auto simp: usados_def)
  ultimately show ?thesis using assms by (simp add: arranque_vacio_ok al_dia_salvo_def)
qed

lemma primer_arranque_witness:
  "\<exists>fs. fs_arrancar fscfg_ej 12 rev (\<lambda>_. 0) \<lparr>archivo_bitmap = None, archivo_bloques = None, directorio_fcb = None\<rparr> = Inr fs \<and>
    fs_ok fscfg_ej fs \<and> al_dia fscfg_ej ind fs \<and> listaFCB fs = [] \<and> usados (bitmap fs) = {} \<and>
    int (length (bitmap fs)) = 8 * (12 div 8) \<and> int (length (datos_bloques fs)) = 12 * block_size fscfg_ej"
  by (rule primer_arranque) (simp_all add: fscfg_ej_def)

text \<open>A file system with one file, on disk too.\<close>

definition fs_disco_ej :: filesys where
  "fs_disco_ej = fs_ej\<lparr>listaFCB := [fcb_a], directorio := [(''f/a.config'', [(''NOMBRE_ARCHIVO'', ''a''),
     (''TAMANIO_ARCHIVO'', ''40''), (''PUNTERO_DIRECTO'', ''0''), (''PUNTERO_INDIRECTO'', ''16''), (''CANTIDAD_INDIRECTOS'', ''2'')])]\<rparr>"

lemma fs_disco_ej_ok: "al_dia fscfg_ej ind fs_disco_ej"
proof -
  have a: "atoi ''2'' = 2" "atoi ''40'' = 40" "atoi ''0'' = 0" "atoi ''16'' = 16" by code_simp+
  show ?thesis
    by (simp add: al_dia_salvo_def fs_disco_ej_def fcb_en_disco_def fcb_a_def dictionary_get_def a adressFromName_def fscfg_ej_def dict_ok_def)
qed

theorem reinicio_witness:
  "\<exists>lista. mset lista = mset [fcb_a] \<and>
    fs_arrancar fscfg_ej 8 rev (\<lambda>_. 7) (disco_de fs_disco_ej) =
      Inr (fs_disco_ej\<lparr>listaFCB := map (\<lambda>(f, j). f\<lparr>cantidad_indirectos := 7\<rparr>) (zip lista [0..<length lista])\<rparr>)"
  using reinicio [OF fs_disco_ej_ok, of 8 rev "\<lambda>_. 7"] fs_ej_bloques(7)
  by (simp add: fs_disco_ej_def fscfg_ej_def) (simp add: fs_ej_def)




end
