(* ===== verification/Mem_Conexiones.thy ===== *)
theory Mem_Conexiones
  imports Paquete_Leyes
begin

text \<open>
  The connections of the memory module at its start (\<open>manejarConexionesIniciales\<close> of
  \<open>Memoria/src/memoria.h\<close>) with the list of identified sockets of
  \<open>ganSOsLibrary/src/funciones.c\<close>. The thread that accepts connections gives each client, its
  socket and the bytes it sends, in the order of their arrival; \<open>modConectado\<close> is the array
  of flags indexed by the numbers of the modules, and \<open>respuestas\<close> the answers sent.
\<close>

section \<open>Identified sockets\<close>

record structIdent =
  socketConn :: int
  identidad :: int

definition addConnectionToList :: "structIdent list \<Rightarrow> int \<Rightarrow> int \<Rightarrow> structIdent list" where
  "addConnectionToList lista ident socket_comm = lista @ [\<lparr>socketConn = socket_comm, identidad = ident\<rparr>]"

text \<open>The node is removed and freed, and its identity read afterwards.\<close>

definition deleteConnectionFromList :: "structIdent list \<Rightarrow> int \<Rightarrow> (structIdent list \<times> int) res" where
  "deleteConnectionFromList lista socket_comm =
     (case find_index (\<lambda>nodo. socketConn nodo = socket_comm) lista of
        None \<Rightarrow> Inl Puntero_nulo
      | Some _ \<Rightarrow> Inl Liberado)"

definition identidadDelSocket :: "structIdent list \<Rightarrow> int \<Rightarrow> int res" where
  "identidadDelSocket lista socket =
     (case find (\<lambda>nodo. socketConn nodo = socket) lista of None \<Rightarrow> Inl Puntero_nulo | Some nodo \<Rightarrow> Inr (identidad nodo))"

section \<open>The first connections\<close>

record conexiones =
  modConectado :: "bool list"
  connectedSockets :: "structIdent list"
  socketCPU :: int
  socketFS :: int
  socketKer :: int
  respuestas :: "(int \<times> int) list"

definition conexiones_iniciales :: conexiones where
  "conexiones_iniciales = \<lparr>modConectado = replicate 5 False, connectedSockets = [], socketCPU = 0, socketFS = 0,
     socketKer = 0, respuestas = []\<rparr>"

text \<open>One client: an identity outside the array writes out of its bounds.\<close>

definition atender_conexion :: "int \<Rightarrow> byte list \<Rightarrow> conexiones \<Rightarrow> conexiones res" where
  "atender_conexion client_socket s c = bind_res (recibir_operacion s) (\<lambda>(cod_op, s1).
     if cod_op = op_num IDENTIDAD then
       bind_res (recibirIdentidad s1) (\<lambda>(ident, _).
         if ident < 0 \<or> 5 \<le> ident then Inl Fuera_de_rango
         else
           let c1 = c\<lparr>connectedSockets := addConnectionToList (connectedSockets c) ident client_socket,
                      modConectado := (modConectado c)[nat ident := True],
                      respuestas := respuestas c @ [(client_socket, 1)]\<rparr>
           in if ident = modulo_num CPU then Inr (c1\<lparr>socketCPU := client_socket\<rparr>)
              else if ident = modulo_num FileSystem then Inr (c1\<lparr>socketFS := client_socket\<rparr>)
              else if ident = modulo_num Kernel then Inr (c1\<lparr>socketKer := client_socket\<rparr>)
              else bind_res (deleteConnectionFromList (connectedSockets c1) client_socket) (\<lambda>(lista, desconocido).
                     Inr (c1\<lparr>connectedSockets := lista, modConectado := (modConectado c1)[nat desconocido := False],
                             respuestas := respuestas c1 @ [(client_socket, -1)]\<rparr>)))
     else if cod_op = -1 then Inr (c\<lparr>respuestas := respuestas c @ [(client_socket, -1)]\<rparr>)
     else Inr c)"

definition todos_conectados :: "conexiones \<Rightarrow> bool" where
  "todos_conectados c \<longleftrightarrow> modConectado c ! nat (modulo_num Kernel) \<and> modConectado c ! nat (modulo_num CPU) \<and>
     modConectado c ! nat (modulo_num FileSystem)"

text \<open>The loop, with whether it has ended; otherwise it waits for one more client.\<close>

fun manejarConexionesIniciales :: "(int \<times> byte list) list \<Rightarrow> conexiones \<Rightarrow> (conexiones \<times> bool) res" where
  "manejarConexionesIniciales [] c = Inr (c, todos_conectados c)"
| "manejarConexionesIniciales ((client_socket, s) # clientes) c =
     (if todos_conectados c then Inr (c, True)
      else bind_res (atender_conexion client_socket s c) (manejarConexionesIniciales clientes))"

section \<open>What they do\<close>

definition esperado :: "modulo \<Rightarrow> bool" where
  "esperado m \<longleftrightarrow> m = Kernel \<or> m = CPU \<or> m = FileSystem"

lemma identidad_recibida:
  "recibir_operacion (enviarIdentidad m @ rest) = Inr (op_num IDENTIDAD, enc_int 4 @ enc_int (modulo_num m) @ rest)"
  "recibirIdentidad (enc_int 4 @ enc_int (modulo_num m) @ rest) = Inr (modulo_num m, rest)"
proof -
  have "recibir_buffer (enc_int 4 @ enc_int (modulo_num m) @ rest) = Inr (enc_int (modulo_num m), rest)"
    using recibir_buffer_enc [of "enc_int (modulo_num m)" rest] by (simp add: int32_ok_def)
  then show "recibirIdentidad (enc_int 4 @ enc_int (modulo_num m) @ rest) = Inr (modulo_num m, rest)"
    using leer_int_enc [of "modulo_num m" "[]"] by (simp add: recibirIdentidad_def)
qed (simp add: enviarIdentidad_def enviar_paquete_def serializar_paquete_def del: op_num.simps)

text \<open>The state after some modules have identified themselves.\<close>

definition ultimo :: "modulo \<Rightarrow> (int \<times> modulo) list \<Rightarrow> int" where
  "ultimo m cs = (case map_of (rev (map prod.swap cs)) m of None \<Rightarrow> 0 | Some s \<Rightarrow> s)"

definition tras :: "(int \<times> modulo) list \<Rightarrow> conexiones" where
  "tras cs = \<lparr>modConectado = map (\<lambda>i. i \<in> (\<lambda>e. nat (modulo_num (snd e))) ` set cs) [0..<5],
     connectedSockets = map (\<lambda>(s, m). \<lparr>socketConn = s, identidad = modulo_num m\<rparr>) cs,
     socketCPU = ultimo CPU cs, socketFS = ultimo FileSystem cs, socketKer = ultimo Kernel cs,
     respuestas = map (\<lambda>(s, m). (s, 1)) cs\<rparr>"

lemma todos_tras: "todos_conectados (tras cs) \<longleftrightarrow> {Kernel, CPU, FileSystem} \<subseteq> snd ` set cs"
proof -
  have "nat (modulo_num m) = nat (modulo_num m') \<longleftrightarrow> m = m'" for m m' by (cases m; cases m') simp_all
  moreover have "nat (modulo_num m) < 5" for m by (cases m) simp_all
  ultimately have "modConectado (tras cs) ! nat (modulo_num m) \<longleftrightarrow> m \<in> snd ` set cs" for m
    by (auto simp: tras_def simp del: modulo_num.simps)
  then show ?thesis by (auto simp: todos_conectados_def simp del: modulo_num.simps)
qed

lemma atender_esperado:
  assumes "esperado m"
  shows "atender_conexion s (enviarIdentidad m) (tras cs) = Inr (tras (cs @ [(s, m)]))"
proof -
  have "modConectado (tras (cs @ [(s, m)])) = (modConectado (tras cs))[nat (modulo_num m) := True]"
  proof (rule nth_equalityI)
    fix i assume i: "i < length (modConectado (tras (cs @ [(s, m)])))"
    then show "modConectado (tras (cs @ [(s, m)])) ! i = (modConectado (tras cs))[nat (modulo_num m) := True] ! i"
      by (cases "i = nat (modulo_num m)") (simp_all add: tras_def del: modulo_num.simps upt_Suc)
  qed (simp add: tras_def)
  moreover have "ultimo k (cs @ [(s, m)]) = (if k = m then s else ultimo k cs)" for k by (simp add: ultimo_def)
  ultimately show ?thesis
    using assms identidad_recibida(1) [of m "[]"] identidad_recibida(2) [of m "[]"]
    by (auto simp: atender_conexion_def esperado_def addConnectionToList_def tras_def Let_def)
qed

lemma manejar_prefijo:
  assumes "\<forall>e \<in> set cs. esperado (snd e)"
    and "\<forall>i < length cs. \<not> {Kernel, CPU, FileSystem} \<subseteq> snd ` set (pre @ take i cs)"
  shows "manejarConexionesIniciales (map (\<lambda>(s, m). (s, enviarIdentidad m)) cs @ otros) (tras pre) =
    manejarConexionesIniciales otros (tras (pre @ cs))"
  using assms
proof (induction cs arbitrary: pre)
  case (Cons e cs)
  obtain s m where e: "e = (s, m)" by (cases e)
  have "\<not> todos_conectados (tras pre)" using Cons.prems(2) [rule_format, of 0] by (simp add: todos_tras)
  moreover have "\<forall>i < length cs. \<not> {Kernel, CPU, FileSystem} \<subseteq> snd ` set ((pre @ [e]) @ take i cs)"
    using Cons.prems(2) by (metis Suc_less_eq append.assoc append_Cons append_Nil length_Cons take_Suc_Cons)
  ultimately show ?case
    using Cons.IH [of "pre @ [e]"] Cons.prems(1) by (simp add: e atender_esperado)
qed simp

text \<open>
  The memory module waits until the kernel, the CPU and the file system have identified
  themselves, and no longer: the client that completes them is the last one served, every
  client served got the answer 1, and each module is served on the last socket that gave its
  name.
\<close>

lemma conexiones_completas:
  assumes "\<forall>e \<in> set (cs @ [e]). esperado (snd e)" "{Kernel, CPU, FileSystem} \<subseteq> snd ` set (cs @ [e])"
    and "\<not> {Kernel, CPU, FileSystem} \<subseteq> snd ` set cs"
  shows "\<exists>c. manejarConexionesIniciales (map (\<lambda>(s, m). (s, enviarIdentidad m)) (cs @ [e]) @ otros) conexiones_iniciales = Inr (c, True) \<and>
    respuestas c = map (\<lambda>x. (fst x, 1)) (cs @ [e]) \<and> map socketConn (connectedSockets c) = map fst (cs @ [e]) \<and>
    socketKer c = ultimo Kernel (cs @ [e]) \<and> socketCPU c = ultimo CPU (cs @ [e]) \<and> socketFS c = ultimo FileSystem (cs @ [e])"
proof -
  have i: "conexiones_iniciales = tras []"
    by (simp add: conexiones_iniciales_def tras_def ultimo_def map_replicate_const)
  have "manejarConexionesIniciales (map (\<lambda>(s, m). (s, enviarIdentidad m)) (cs @ [e]) @ otros) (tras []) =
      manejarConexionesIniciales otros (tras ([] @ cs @ [e]))"
  proof (rule manejar_prefijo [OF assms(1)], intro allI impI notI)
    fix i assume "i < length (cs @ [e])" "{Kernel, CPU, FileSystem} \<subseteq> snd ` set ([] @ take i (cs @ [e]))"
    then show False using assms(3) set_take_subset [of i cs] by (simp add: image_iff) blast
  qed
  moreover have "manejarConexionesIniciales otros (tras (cs @ [e])) = Inr (tras (cs @ [e]), True)"
  proof -
    have "todos_conectados (tras (cs @ [e]))" unfolding todos_tras by (rule assms(2))
    then show ?thesis by (cases otros) (auto simp del: set_append)
  qed
  ultimately show ?thesis
    by (simp add: i case_prod_beta) (simp add: tras_def case_prod_beta comp_def)
qed

lemma conexiones_completas_witness:
  "\<exists>c. manejarConexionesIniciales (map (\<lambda>(s, m). (s, enviarIdentidad m)) ([(4, FileSystem), (5, CPU)] @ [(6, Kernel)]) @ []) conexiones_iniciales = Inr (c, True) \<and>
    respuestas c = [(4, 1), (5, 1), (6, 1)] \<and> socketKer c = 6 \<and> socketCPU c = 5 \<and> socketFS c = 4"
  using conexiones_completas [of "[(4, FileSystem), (5, CPU)]" "(6, Kernel)" "[]"]
  by (auto simp: esperado_def ultimo_def)

text \<open>A console that connects to the memory module: the node of its socket is read after it was freed.\<close>

lemma conexion_inesperada:
  assumes "\<not> esperado m"
  shows "atender_conexion s (enviarIdentidad m) c = Inl Liberado"
proof -
  have "find_index (\<lambda>n. socketConn n = s) (l @ [\<lparr>socketConn = s, identidad = i\<rparr>]) \<noteq> None" for l i
    by (simp add: find_index_None_iff)
  then show ?thesis
    using assms identidad_recibida(1) [of m "[]"] identidad_recibida(2) [of m "[]"]
    by (cases m) (auto simp: atender_conexion_def esperado_def addConnectionToList_def deleteConnectionFromList_def
        Let_def split: option.splits)
qed

end
