(* ===== verification/Mem_Recepcion.thy ===== *)
theory Mem_Recepcion
  imports Mem_Conexiones
begin

text \<open>
  The two threads that share \<open>listaWaitingSockets\<close> at the start of the memory module
  (\<open>recibirConexionesIniciales\<close>, \<open>manejarConexionesIniciales\<close>, \<open>esperarConexiones\<close> of
  \<open>Memoria/src/memoria.h\<close>): one accepts a client and queues its socket, the other takes it and
  serves it. Two semaphores order them. Every operation on a semaphore or on the list is a
  step of its own, in any interleaving; the threads together implement the loop over the
  clients of \<open>Mem_Conexiones\<close>.
\<close>

section \<open>The threads\<close>

type_synonym cliente = "int \<times> byte list"

datatype recepcionista = R_espera | R_acepta | R_avisa

datatype atendedor = A_mira | A_espera | A_saca | A_avisa cliente | A_atiende cliente | A_fin

text \<open>\<open>llegadas\<close> and \<open>atendidos\<close> record the clients accepted and served so far.\<close>

record recepcion =
  faltanConexiones :: nat
  hayConexion :: nat
  listaWaitingSockets :: "cliente list"
  hilo_rec :: recepcionista
  hilo_ate :: atendedor
  variables :: conexiones
  llegadas :: "cliente list"
  atendidos :: "cliente list"

definition esperarConexiones :: recepcion where
  "esperarConexiones = \<lparr>faltanConexiones = 1, hayConexion = 0, listaWaitingSockets = [], hilo_rec = R_espera,
     hilo_ate = A_mira, variables = conexiones_iniciales, llegadas = [], atendidos = []\<rparr>"

inductive recepcion_paso :: "recepcion \<Rightarrow> recepcion \<Rightarrow> bool" where
  r_toma: "hilo_rec r = R_espera \<Longrightarrow> 0 < faltanConexiones r \<Longrightarrow>
    recepcion_paso r (r\<lparr>faltanConexiones := faltanConexiones r - 1, hilo_rec := R_acepta\<rparr>)"
| r_acepta: "hilo_rec r = R_acepta \<Longrightarrow>
    recepcion_paso r (r\<lparr>listaWaitingSockets := listaWaitingSockets r @ [e], llegadas := llegadas r @ [e], hilo_rec := R_avisa\<rparr>)"
| r_avisa: "hilo_rec r = R_avisa \<Longrightarrow>
    recepcion_paso r (r\<lparr>hayConexion := hayConexion r + 1, hilo_rec := R_espera\<rparr>)"
| a_mira: "hilo_ate r = A_mira \<Longrightarrow>
    recepcion_paso r (r\<lparr>hilo_ate := if todos_conectados (variables r) then A_fin else A_espera\<rparr>)"
| a_toma: "hilo_ate r = A_espera \<Longrightarrow> 0 < hayConexion r \<Longrightarrow>
    recepcion_paso r (r\<lparr>hayConexion := hayConexion r - 1, hilo_ate := A_saca\<rparr>)"
| a_saca: "hilo_ate r = A_saca \<Longrightarrow> listaWaitingSockets r = e # es \<Longrightarrow>
    recepcion_paso r (r\<lparr>listaWaitingSockets := es, hilo_ate := A_avisa e\<rparr>)"
| a_avisa: "hilo_ate r = A_avisa e \<Longrightarrow>
    recepcion_paso r (r\<lparr>faltanConexiones := faltanConexiones r + 1, hilo_ate := A_atiende e\<rparr>)"
| a_atiende: "hilo_ate r = A_atiende e \<Longrightarrow> atender_conexion (fst e) (snd e) (variables r) = Inr c \<Longrightarrow>
    recepcion_paso r (r\<lparr>variables := c, atendidos := atendidos r @ [e], hilo_ate := A_mira\<rparr>)"

inductive recepcion_alcanzable :: "recepcion \<Rightarrow> bool" where
  rec_inicio: "recepcion_alcanzable esperarConexiones"
| rec_paso: "recepcion_alcanzable r \<Longrightarrow> recepcion_paso r r' \<Longrightarrow> recepcion_alcanzable r'"

section \<open>Their invariant\<close>

text \<open>The client in the hands of the serving thread.\<close>

fun en_mano :: "atendedor \<Rightarrow> cliente list" where
  "en_mano (A_avisa e) = [e]"
| "en_mano (A_atiende e) = [e]"
| "en_mano _ = []"

text \<open>
  One permit goes round: it is in a semaphore or with a thread. The list has the client of a
  permit that was queued and not yet taken. The clients served are the first to arrive, and
  the loop over them has the present state; the serving thread only waits while modules are
  missing.
\<close>

definition recepcion_ok :: "recepcion \<Rightarrow> bool" where
  "recepcion_ok r \<longleftrightarrow>
     faltanConexiones r + hayConexion r + of_bool (hilo_rec r \<noteq> R_espera)
       + of_bool (hilo_ate r = A_saca \<or> (\<exists>e. hilo_ate r = A_avisa e)) = 1 \<and>
     length (listaWaitingSockets r) = of_bool (hilo_rec r = R_avisa) + hayConexion r + of_bool (hilo_ate r = A_saca) \<and>
     llegadas r = atendidos r @ en_mano (hilo_ate r) @ listaWaitingSockets r \<and>
     (\<forall>otros. manejarConexionesIniciales (atendidos r @ otros) conexiones_iniciales
        = manejarConexionesIniciales otros (variables r)) \<and>
     (hilo_ate r = A_fin \<longrightarrow> todos_conectados (variables r)) \<and>
     (hilo_ate r \<notin> {A_fin, A_mira} \<longrightarrow> \<not> todos_conectados (variables r))"

lemma recepcion_ok_inicio: "recepcion_ok esperarConexiones"
  by (simp add: recepcion_ok_def esperarConexiones_def)

lemma recepcion_ok_paso:
  assumes "recepcion_paso r r'" "recepcion_ok r"
  shows "recepcion_ok r'"
  using assms
proof (cases rule: recepcion_paso.cases)
  case (a_atiende e c)
  obtain s bs where "e = (s, bs)" by (cases e)
  then show ?thesis using a_atiende assms(2) by (simp add: recepcion_ok_def)
next
  case a_toma
  then show ?thesis using assms(2) by (cases "hilo_rec r = R_espera") (auto simp: recepcion_ok_def)
qed (auto simp: recepcion_ok_def split: if_splits)

lemma recepcion_ok_alcanzable: "recepcion_alcanzable r \<Longrightarrow> recepcion_ok r"
  by (induction rule: recepcion_alcanzable.induct) (auto intro: recepcion_ok_inicio recepcion_ok_paso)

lemma manejar_completo: "todos_conectados c \<Longrightarrow> manejarConexionesIniciales otros c = Inr (c, True)"
  by (cases otros) auto

text \<open>
  C31. The threads of the start, in any interleaving: at most one socket waits in the list and
  none is taken from an empty one; they are never both stopped before every module is
  connected, unless serving a client fails; and when the serving thread ends, the state is
  that of the loop over the clients in the order in which they were accepted.
\<close>

theorem recepcion_ordenada:
  assumes "recepcion_alcanzable r"
  shows "length (listaWaitingSockets r) \<le> 1 \<and>
    (hilo_ate r = A_saca \<longrightarrow> listaWaitingSockets r \<noteq> []) \<and>
    (hilo_ate r = A_fin \<or> (\<exists>r'. recepcion_paso r r') \<or>
      (\<exists>e x. hilo_ate r = A_atiende e \<and> atender_conexion (fst e) (snd e) (variables r) = Inl x)) \<and>
    (hilo_ate r = A_fin \<longrightarrow> manejarConexionesIniciales (llegadas r) conexiones_iniciales = Inr (variables r, True))"
proof -
  have ok: "recepcion_ok r" by (rule recepcion_ok_alcanzable [OF assms])
  have lista: "length (listaWaitingSockets r) = of_bool (hilo_rec r = R_avisa) + hayConexion r + of_bool (hilo_ate r = A_saca)"
    and permiso: "faltanConexiones r + hayConexion r + of_bool (hilo_rec r \<noteq> R_espera)
       + of_bool (hilo_ate r = A_saca \<or> (\<exists>e. hilo_ate r = A_avisa e)) = 1"
    using ok by (simp_all add: recepcion_ok_def)
  have "length (listaWaitingSockets r) \<le> 1" using lista permiso by (cases "hilo_rec r") (auto split: if_splits)
  moreover have "listaWaitingSockets r \<noteq> []" if "hilo_ate r = A_saca" using lista that by auto
  moreover have "hilo_ate r = A_fin \<or> (\<exists>r'. recepcion_paso r r') \<or>
      (\<exists>e x. hilo_ate r = A_atiende e \<and> atender_conexion (fst e) (snd e) (variables r) = Inl x)"
  proof (cases "hilo_ate r")
    case A_espera
    then have "hilo_rec r = R_espera \<and> 0 < faltanConexiones r \<or> 0 < hayConexion r \<or> hilo_rec r \<noteq> R_espera"
      using permiso by (cases "hilo_rec r = R_espera") auto
    then show ?thesis using A_espera by (cases "hilo_rec r") (blast intro: recepcion_paso.intros)+
  next
    case A_saca
    then have "listaWaitingSockets r \<noteq> []" using lista by auto
    then show ?thesis using A_saca by (metis a_saca neq_Nil_conv)
  next
    case (A_atiende e)
    then show ?thesis by (cases "atender_conexion (fst e) (snd e) (variables r)") (auto intro: recepcion_paso.intros)
  qed (auto intro: recepcion_paso.intros)
  moreover have "manejarConexionesIniciales (llegadas r) conexiones_iniciales = Inr (variables r, True)" if "hilo_ate r = A_fin"
    using ok that manejar_completo by (auto simp: recepcion_ok_def)
  ultimately show ?thesis by blast
qed

section \<open>A run of the threads\<close>

definition entre_clientes :: "conexiones \<Rightarrow> cliente list \<Rightarrow> recepcion" where
  "entre_clientes c es = \<lparr>faltanConexiones = 1, hayConexion = 0, listaWaitingSockets = [], hilo_rec = R_espera,
     hilo_ate = A_mira, variables = c, llegadas = es, atendidos = es\<rparr>"

lemma una_vuelta:
  assumes a: "recepcion_alcanzable (entre_clientes c es)" and c: "\<not> todos_conectados c"
    and s: "atender_conexion (fst e) (snd e) c = Inr c'"
  shows "recepcion_alcanzable (entre_clientes c' (es @ [e]))"
proof -
  let ?r = "entre_clientes c es"
  have "recepcion_alcanzable (?r\<lparr>faltanConexiones := 0, hilo_rec := R_acepta\<rparr>)"
    using rec_paso [OF a r_toma] by (simp add: entre_clientes_def)
  from rec_paso [OF this r_acepta [of _ e]]
  have "recepcion_alcanzable (?r\<lparr>faltanConexiones := 0, listaWaitingSockets := [e], llegadas := es @ [e], hilo_rec := R_avisa\<rparr>)"
    by (simp add: entre_clientes_def)
  from rec_paso [OF this r_avisa]
  have "recepcion_alcanzable (?r\<lparr>faltanConexiones := 0, listaWaitingSockets := [e], llegadas := es @ [e], hayConexion := 1\<rparr>)"
    by (simp add: entre_clientes_def)
  from rec_paso [OF this a_mira]
  have "recepcion_alcanzable (?r\<lparr>faltanConexiones := 0, listaWaitingSockets := [e], llegadas := es @ [e], hayConexion := 1, hilo_ate := A_espera\<rparr>)"
    using c by (simp add: entre_clientes_def)
  from rec_paso [OF this a_toma]
  have "recepcion_alcanzable (?r\<lparr>faltanConexiones := 0, listaWaitingSockets := [e], llegadas := es @ [e], hilo_ate := A_saca\<rparr>)"
    by (simp add: entre_clientes_def)
  from rec_paso [OF this a_saca [of _ e "[]"]]
  have "recepcion_alcanzable (?r\<lparr>faltanConexiones := 0, llegadas := es @ [e], hilo_ate := A_avisa e\<rparr>)"
    by (simp add: entre_clientes_def)
  from rec_paso [OF this a_avisa [of _ e]]
  have "recepcion_alcanzable (?r\<lparr>llegadas := es @ [e], hilo_ate := A_atiende e\<rparr>)" by (simp add: entre_clientes_def)
  from rec_paso [OF this a_atiende [of _ e c']] show ?thesis using s by (simp add: entre_clientes_def)
qed

lemma vueltas:
  assumes "\<forall>e \<in> set (cs @ [e]). esperado (snd e)" "\<not> {Kernel, CPU, FileSystem} \<subseteq> snd ` set cs"
  shows "recepcion_alcanzable (entre_clientes (tras (cs @ [e])) (map (\<lambda>(s, m). (s, enviarIdentidad m)) (cs @ [e])))"
  using assms
proof (induction cs arbitrary: e rule: rev_induct)
  case Nil
  have "recepcion_alcanzable (entre_clientes (tras []) [])"
    using rec_inicio by (simp add: esperarConexiones_def entre_clientes_def conexiones_iniciales_def tras_def ultimo_def map_replicate_const)
  moreover have "\<not> todos_conectados (tras [])" by (simp add: todos_tras)
  ultimately show ?case
    using una_vuelta [of "tras []" "[]" "(fst e, enviarIdentidad (snd e))"] atender_esperado [of "snd e" "fst e" "[]"] Nil
    by (simp add: case_prod_beta)
next
  case (snoc d cs)
  have d: "\<not> {Kernel, CPU, FileSystem} \<subseteq> snd ` set (cs @ [d])" by (rule snoc.prems(2))
  then have "\<not> {Kernel, CPU, FileSystem} \<subseteq> snd ` set cs" by auto
  then have "recepcion_alcanzable (entre_clientes (tras (cs @ [d])) (map (\<lambda>(s, m). (s, enviarIdentidad m)) (cs @ [d])))"
    using snoc.prems(1) by (intro snoc.IH) auto
  moreover have "\<not> todos_conectados (tras (cs @ [d]))" unfolding todos_tras by (rule d)
  moreover obtain s m where e: "e = (s, m)" by (cases e)
  ultimately have "recepcion_alcanzable (entre_clientes (tras ((cs @ [d]) @ [e]))
      (map (\<lambda>(s, m). (s, enviarIdentidad m)) (cs @ [d]) @ [(s, enviarIdentidad m)]))"
    using snoc.prems(1) by (intro una_vuelta) (auto simp: atender_esperado simp del: append_assoc)
  then show ?case by (simp add: e)
qed

theorem recepcion_ordenada_witness:
  "\<exists>r :: recepcion. hilo_ate r = A_fin \<and> llegadas r = [(4, enviarIdentidad FileSystem), (5, enviarIdentidad CPU), (6, enviarIdentidad Kernel)] \<and>
    manejarConexionesIniciales (llegadas r) conexiones_iniciales = Inr (variables r, True)"
proof -
  let ?cs = "[(4, FileSystem), (5, CPU)] @ [(6, Kernel)]"
  let ?r = "entre_clientes (tras ?cs) (map (\<lambda>(s, m). (s, enviarIdentidad m)) ?cs)"
  have "recepcion_alcanzable ?r" by (rule vueltas) (auto simp: esperado_def)
  moreover have "todos_conectados (tras ?cs)" unfolding todos_tras by auto
  ultimately have "recepcion_alcanzable (?r\<lparr>hilo_ate := A_fin\<rparr>)"
    using rec_paso [OF _ a_mira, of ?r] by (simp add: entre_clientes_def)
  note fin = recepcion_ordenada [OF this]
  show ?thesis
    by (rule exI [where x = "?r\<lparr>hilo_ate := A_fin\<rparr>"]) (use fin in \<open>simp add: entre_clientes_def\<close>)
qed

end
