(* ===== verification/Mem_Ideal.thy ===== *)
theory Mem_Ideal
  imports Mem_Propiedades
begin

text \<open>
  A reference for compaction: every segment goes to the address that follows the segments
  that were below it. The loop of \<open>compactar_segmentos\<close>, which moves one segment at a time
  and mends the free list after each move, computes exactly that.
\<close>

section \<open>The reference\<close>

definition base_ideal :: "segmento option list \<Rightarrow> int \<Rightarrow> int" where
  "base_ideal st b = suma (\<lambda>o'. case o' of None \<Rightarrow> 0 | Some s \<Rightarrow> if seg_base s < b then seg_limite s else 0) st"

definition compactar_ideal :: "segmento option list \<Rightarrow> segmento option list" where
  "compactar_ideal st = map (map_option (\<lambda>s. s\<lparr>seg_base := base_ideal st (seg_base s)\<rparr>)) st"

text \<open>In a memory whose only hole is at the top every base is already where the reference puts it.\<close>

lemma base_compacta:
  assumes p: "particion T [\<lparr>h_pos = T - n, h_size = n\<rparr>] st" and st: "segmentos_ok st" and s: "Some s \<in> set st"
    and n: "0 \<le> n"
  shows "seg_base s = base_ideal st (seg_base s)"
proof -
  let ?b = "seg_base s" and ?st = "map (\<lambda>o'. case o' of Some x \<Rightarrow> if seg_base x < seg_base s then Some x else None | None \<Rightarrow> None) st"
  have l: "0 < seg_limite x" if "Some x \<in> set st" for x using st that by (simp add: segmentos_ok_def)
  have r: "0 \<le> seg_base x \<and> seg_base x + seg_limite x \<le> T" if "Some x \<in> set st" for x
    by (rule particion_rango_segmento [OF p that l [OF that]])
  have hueco: "ocupa (T - n) n x = 0" if "x \<le> ?b" for x
  proof (rule ccontr)
    assume "ocupa (T - n) n x \<noteq> 0"
    then have "ocupa (T - n) n ?b = 1" using that r [OF s] l [OF s] by (auto simp: ocupa_def split: if_splits)
    moreover have "1 \<le> cubre_s st ?b" using cubre_s_segmento [OF s, of ?b] l [OF s] by (simp add: ocupa_def)
    ultimately show False using particion_cubre [OF p, of ?b] by (simp add: cubre_h_def)
  qed
  have otro: "seg_base x + seg_limite x \<le> ?b" if x: "Some x \<in> set st" "seg_base x < ?b" for x
  proof -
    obtain a where a: "a < length st" "st ! a = Some s" using s by (auto simp: in_set_conv_nth)
    obtain c where c: "c < length st" "st ! c = Some x" using x(1) by (auto simp: in_set_conv_nth)
    have "a \<noteq> c" using a c x(2) by auto
    from segmentos_disjuntos [OF p a c this l [OF s] l [OF x(1)]] x(2) l [OF s] show ?thesis by linarith
  qed
  have cub: "cubre_s ?st x = (if 0 \<le> x \<and> x < ?b then 1 else 0)" for x
  proof (cases "x < ?b")
    case True
    have "cubre_s ?st x = cubre_s st x"
      unfolding cubre_s_def suma_def map_map comp_def
      by (rule arg_cong [where f = sum_list], rule map_cong [OF HOL.refl])
        (use True in \<open>auto simp: ocupa_def split: option.split\<close>)
    moreover have "cubre_s st x = (if 0 \<le> x \<and> x < T then 1 else 0)"
      using p [unfolded particion_def, rule_format, of x] hueco [of x] True by (simp add: cubre_h_def split: if_splits)
    ultimately show ?thesis using True r [OF s] l [OF s] by auto
  next
    case False
    have "cubre_s ?st x = 0"
      unfolding cubre_s_def
      by (rule suma_cero) (use False otro in \<open>fastforce simp: ocupa_def split: option.splits if_splits\<close>)
    then show ?thesis using False by simp
  qed
  have "?b = (\<Sum>x \<in> {0..<?b}. 1)" using r [OF s] by simp
  also have "\<dots> = (\<Sum>x \<in> {0..<?b}. cubre_s ?st x)" by (intro sum.cong) (auto simp: cub)
  also have "\<dots> = suma (\<lambda>o'. \<Sum>x \<in> {0..<?b}. case o' of None \<Rightarrow> 0 | Some s \<Rightarrow> ocupa (seg_base s) (seg_limite s) x) ?st"
    unfolding cubre_s_def suma_suma ..
  also have "\<dots> = suma (\<lambda>o'. case o' of None \<Rightarrow> 0 | Some x \<Rightarrow> seg_limite x) ?st"
  proof (rule suma_cong)
    fix o' assume o': "o' \<in> set ?st"
    show "(\<Sum>x \<in> {0..<?b}. case o' of None \<Rightarrow> 0 | Some s \<Rightarrow> ocupa (seg_base s) (seg_limite s) x)
        = (case o' of None \<Rightarrow> 0 | Some x \<Rightarrow> seg_limite x)"
    proof (cases o')
      case (Some x)
      then have x: "Some x \<in> set st" "seg_base x < ?b" using o' by (auto split: option.splits if_splits)
      show ?thesis using r [OF x(1)] l [OF x(1)] otro [OF x] by (simp add: Some suma_ocupa)
    qed simp
  qed
  also have "\<dots> = base_ideal st ?b"
    unfolding base_ideal_def suma_def map_map comp_def
    by (rule arg_cong [where f = sum_list], rule map_cong [OF HOL.refl]) (auto split: option.split)
  finally show ?thesis .
qed

section \<open>The order of the segments\<close>

definition mismo_orden :: "segmento option list \<Rightarrow> segmento option list \<Rightarrow> bool" where
  "mismo_orden st st' \<longleftrightarrow> (\<forall>a < length st. \<forall>b < length st. st ! a \<noteq> None \<longrightarrow> st ! b \<noteq> None \<longrightarrow>
     (base_en st' a < base_en st' b \<longleftrightarrow> base_en st a < base_en st b))"

lemma perfil_length: "perfil st' = perfil st \<Longrightarrow> length st' = length st"
  by (drule arg_cong [where f = length]) (simp add: perfil_def)

lemma perfil_nth:
  assumes "perfil st' = perfil st" "a < length st"
  shows "map_option (\<lambda>s. (seg_ID s, seg_limite s)) (st' ! a) = map_option (\<lambda>s. (seg_ID s, seg_limite s)) (st ! a)"
  using arg_cong [OF assms(1), of "\<lambda>l. l ! a"] perfil_length [OF assms(1)] assms(2) by (simp add: perfil_def)

lemma mismo_orden_trans:
  assumes "mismo_orden st st1" "mismo_orden st1 st2" "perfil st1 = perfil st"
  shows "mismo_orden st st2"
proof -
  have "st1 ! a \<noteq> None" if "a < length st" "st ! a \<noteq> None" for a
    using perfil_nth [OF assms(3) that(1)] that(2) by auto
  then show ?thesis using assms(1,2) perfil_length [OF assms(3)] by (simp add: mismo_orden_def)
qed

text \<open>The segment that slides jumps over a hole, so it passes no other segment.\<close>

lemma desliza_orden:
  assumes d: "desliza m m' i a s" and ok: "mem_ok cfg m"
  shows "mismo_orden (segmentos m) (segmentos m')"
proof -
  note D = mem_okD [OF ok] and E = deslizaD [OF d]
  let ?h = "huecos_libres m ! i"
  have h: "0 < h_size ?h" by (rule huecos_ok_nth [OF D(2) E(1)])
  have s: "Some s \<in> set (segmentos m)" using nth_mem [OF E(3)] E(4) by simp
  have l: "0 < seg_limite s" using D(3) s by (simp add: segmentos_ok_def)
  have a: "base_en (segmentos m) a = h_pos ?h + h_size ?h" "base_en (segmentos m') a = h_pos ?h"
    using E(3,4,5,6) by (simp_all add: base_en_def)
  have otro: "base_en (segmentos m') b = base_en (segmentos m) b \<and>
      (base_en (segmentos m) b < h_pos ?h \<or> h_pos ?h + h_size ?h < base_en (segmentos m) b)"
    if b: "b < length (segmentos m)" "segmentos m ! b \<noteq> None" "b \<noteq> a" for b
  proof -
    obtain x where x: "segmentos m ! b = Some x" using b(2) by blast
    have xm: "Some x \<in> set (segmentos m)" using nth_mem [OF b(1)] x by simp
    have lx: "0 < seg_limite x" using D(3) xm by (simp add: segmentos_ok_def)
    have "seg_base x + seg_limite x \<le> h_pos ?h \<or> h_pos ?h + h_size ?h \<le> seg_base x"
      by (rule segmento_hueco_disjuntos [OF D(4) xm nth_mem [OF E(1)] lx h])
    moreover have "seg_base x + seg_limite x \<le> seg_base s \<or> seg_base s + seg_limite s \<le> seg_base x"
      by (rule segmentos_disjuntos [OF D(4) b(1) x E(3,4) b(3) lx l])
    ultimately show ?thesis using b(3) x l lx E(5) by (simp add: E(6) base_en_def) linarith
  qed
  show ?thesis
    unfolding mismo_orden_def
  proof (intro allI impI)
    fix b c assume bc: "b < length (segmentos m)" "c < length (segmentos m)"
      "segmentos m ! b \<noteq> None" "segmentos m ! c \<noteq> None"
    show "base_en (segmentos m') b < base_en (segmentos m') c \<longleftrightarrow> base_en (segmentos m) b < base_en (segmentos m) c"
      using a h otro [OF bc(1,3)] otro [OF bc(2,4)] by (cases "b = a"; cases "c = a") auto
  qed
qed

lemma base_ideal_invariante:
  assumes o: "mismo_orden st st'" and p: "perfil st' = perfil st" and a: "a < length st" "st ! a \<noteq> None"
  shows "base_ideal st' (base_en st' a) = base_ideal st (base_en st a)"
  unfolding base_ideal_def suma_def
proof (rule arg_cong [where f = sum_list], rule nth_equalityI)
  fix b assume "b < length (map (\<lambda>o'. case o' of None \<Rightarrow> 0 | Some s \<Rightarrow>
    if seg_base s < base_en st' a then seg_limite s else 0) st')"
  then have b: "b < length st" "b < length st'" using perfil_length [OF p] by simp_all
  show "map (\<lambda>o'. case o' of None \<Rightarrow> 0 | Some s \<Rightarrow> if seg_base s < base_en st' a then seg_limite s else 0) st' ! b
      = map (\<lambda>o'. case o' of None \<Rightarrow> 0 | Some s \<Rightarrow> if seg_base s < base_en st a then seg_limite s else 0) st ! b"
  proof (cases "st ! b")
    case None
    then show ?thesis using perfil_nth [OF p b(1)] b by simp
  next
    case (Some x)
    then obtain x' where x': "st' ! b = Some x'" "seg_limite x' = seg_limite x"
      using perfil_nth [OF p b(1)] by auto
    have "base_en st' b < base_en st' a \<longleftrightarrow> base_en st b < base_en st a"
      using o a b(1) Some by (simp add: mismo_orden_def)
    then show ?thesis using b Some x' by (simp add: base_en_def)
  qed
qed (simp add: perfil_length [OF p])

lemma compactado_es_ideal:
  assumes p: "particion T [\<lparr>h_pos = T - n, h_size = n\<rparr>] st'" and st: "segmentos_ok st'" and n: "0 \<le> n"
    and o: "mismo_orden st st'" and pf: "perfil st' = perfil st"
  shows "st' = compactar_ideal st"
proof (rule nth_equalityI)
  show "length st' = length (compactar_ideal st)" by (simp add: compactar_ideal_def perfil_length [OF pf])
  fix a assume "a < length st'"
  then have a: "a < length st" "a < length st'" using perfil_length [OF pf] by simp_all
  show "st' ! a = compactar_ideal st ! a"
  proof (cases "st ! a")
    case None
    then show ?thesis using perfil_nth [OF pf a(1)] a by (simp add: compactar_ideal_def)
  next
    case (Some x)
    then obtain x' where x': "st' ! a = Some x'" "seg_ID x' = seg_ID x" "seg_limite x' = seg_limite x"
      using perfil_nth [OF pf a(1)] by auto
    have "Some x' \<in> set st'" using nth_mem [OF a(2)] x'(1) by simp
    from base_compacta [OF p st this n] have "seg_base x' = base_ideal st' (base_en st' a)"
      by (simp add: base_en_def x'(1))
    also have "\<dots> = base_ideal st (seg_base x)"
      using base_ideal_invariante [OF o pf a(1)] by (simp add: Some base_en_def)
    finally show ?thesis using Some x' a(1) by (simp add: compactar_ideal_def)
  qed
qed

section \<open>The loop computes the reference\<close>

text \<open>
  C16. Compaction equals its reference: every segment goes to the sum of the sizes of the
  segments that were below it, its identifier and its size stay, the freed entries of the
  store stay free, and one hole is left, at the top, with the bytes that were free.
\<close>

theorem compactacion_ideal:
  assumes cm: "commons_ok cm" and ok: "mem_ok cfg m" and hs: "huecos_libres m \<noteq> []"
  shows "\<exists>m' bs. compactar_segmentos cm m = Some (Inr (m', bs)) \<and>
    segmentos m' = compactar_ideal (segmentos m) \<and>
    huecos_libres m' = [\<lparr>h_pos = TAM_MEMORIA cfg - suma_huecos (huecos_libres m),
                          h_size = suma_huecos (huecos_libres m)\<rparr>]"
proof -
  let ?P = "\<lambda>m1. mismo_orden (segmentos m) (segmentos m1) \<and> perfil (segmentos m1) = perfil (segmentos m)"
  have "\<exists>m'. compactar_bucle cm (tabla_global cm m) m = Some (Inr m') \<and> mem_ok cfg m' \<and> ?P m' \<and>
    huecos_libres m' \<noteq> [] \<and> (\<forall>a \<in> vivos (segmentos m'). base_en (segmentos m') a
         \<le> h_pos (huecos_libres m' ! primer_hueco cm (huecos_libres m')))"
  proof (rule compactar_bucle_invariante [OF cm ok hs set_tabla_global [OF cm ok]])
    fix m1 m2 i a s
    assume ok1: "mem_ok cfg m1" and P: "?P m1" and d: "desliza m1 m2 i a s"
    show "?P m2"
      using mismo_orden_trans [OF _ desliza_orden [OF d ok1]] P perfil_desliza [OF d] by metis
  qed (simp add: mismo_orden_def)
  then obtain m1 where m1: "compactar_bucle cm (tabla_global cm m) m = Some (Inr m1)" "mem_ok cfg m1" "?P m1"
    by blast
  obtain m' bs where m': "compactar_segmentos cm m = Some (Inr (m', bs))"
    "huecos_libres m' = [\<lparr>h_pos = TAM_MEMORIA cfg - suma h_size (huecos_libres m),
                          h_size = suma h_size (huecos_libres m)\<rparr>]"
    by (rule compactar_segmentos_ok [OF cm ok hs], rule that)
  then have eq: "m' = m1" by (auto simp: compactar_segmentos_def m1(1) bind_res_Inr_iff)
  have n: "0 \<le> suma h_size (huecos_libres m)"
    using huecos_okD(1) [OF mem_okD(2) [OF ok]] by (intro suma_nonneg) (blast intro: less_imp_le)
  have "segmentos m' = compactar_ideal (segmentos m)"
    using m1(3) mem_okD(3) [OF m1(2)] mem_okD(4) [OF m1(2)] m'(2) n
    by (intro compactado_es_ideal [of "TAM_MEMORIA cfg" "suma h_size (huecos_libres m)"]) (simp_all add: eq)
  then show ?thesis using m' by (simp add: suma_huecos_suma)
qed

theorem compactacion_ideal_witness:
  "\<exists>m' bs. compactar_segmentos commons_ej (mem_ej 10) = Some (Inr (m', bs)) \<and>
    segmentos m' = compactar_ideal (segmentos (mem_ej 10)) \<and>
    huecos_libres m' = [\<lparr>h_pos = TAM_MEMORIA cfg_ej - suma_huecos (huecos_libres (mem_ej 10)),
                          h_size = suma_huecos (huecos_libres (mem_ej 10))\<rparr>]"
  by (rule compactacion_ideal [OF commons_ej_ok mem_ej_ok]) (simp_all add: mem_ej_def)

end
