(* ===== verification/Ker_Estado.thy ===== *)
theory Ker_Estado
  imports Cpu_Ciclo Fs_Bloques
begin

text \<open>
  The state of the kernel module (\<open>Kernel/src/kernel.h\<close>): process control blocks, the queues
  of the process states, the resources of \<open>WAIT\<close> and \<open>SIGNAL\<close>, the table of open files and
  the flags of compaction, together with the modules at the other end of its sockets; then
  the operations on resources and the exchange with the CPU.

  A pointer to a PCB is its PID, the socket of its console: PIDs of allocated PCBs are
  distinct. A pointer to a \<open>Descriptor\<close> is its index in \<open>descriptores\<close>. The estimate and the
  arrival time of a PCB serve the HRRN scheduler only and are in the \<open>plan\<close> of \<open>Ker_Hrrn\<close>.
\<close>

section \<open>State\<close>

record pcb =
  pcb_instrucciones :: "string list"
  pcb_program_counter :: int
  pcb_registros :: "string list"
  pcb_tablaSegmentos :: "segmento list"
  pcb_tablaArchivos :: "nat list"

record descriptor =
  file_name :: string
  pointer :: int

record blockedNode =
  un_pcb :: int
  nodo_parametros :: "string list"
  nodo_cod_op :: int
  impide_compactacion :: bool

text \<open>
  Where the short-term scheduler thread is: waiting for a ready process, for the CPU to give
  back the process it runs, or for \<open>compaction_permission\<close> inside \<open>create_segment\<close>.
\<close>

datatype hilo = Libre | En_cpu int | Esperando_permiso int int int

record kernel =
  pcbs :: "(int, pcb) dict"
  global_PCB_list :: "int list"
  consolasNew :: "int list"
  consolasReady :: "int list"
  consolasExit :: "int list"
  consolasBlocked :: "blockedNode list"
  en_io :: "int list"
  running :: hilo
  recursosDisponibles :: "(string, int) dict"
  recursosEnUso :: "(string, int list) dict"
  recursos_por_proceso :: "(string, string list option) dict"
  descriptores :: "descriptor option list"
  GDT :: "nat list"
  diccionario_colas_archivos :: "(string, int list) dict"
  compactionBlockers :: int
  compaction_required :: bool
  compaction_permission :: nat
  hayEspacioReady :: nat
  a_consolas :: "(int \<times> byte list) list"
  memoria_mod :: memoria
  fs_mod :: filesys

definition pcb_de :: "kernel \<Rightarrow> int \<Rightarrow> pcb res" where
  "pcb_de k p = (case dictionary_get (pcbs k) p of None \<Rightarrow> Inl Liberado | Some b \<Rightarrow> Inr b)"

definition cambiar_pcb :: "int \<Rightarrow> (pcb \<Rightarrow> pcb) \<Rightarrow> kernel \<Rightarrow> kernel res" where
  "cambiar_pcb p f k = bind_res (pcb_de k p) (\<lambda>b. Inr (k\<lparr>pcbs := dictionary_put (pcbs k) p (f b)\<rparr>))"

text \<open>\<open>list_add\<close> and \<open>list_add_in_index(.., 0, ..)\<close> on the ready queue; \<open>list_get\<close> of a parameter.\<close>

definition ready_al_final :: "int \<Rightarrow> kernel \<Rightarrow> kernel" where
  "ready_al_final p k = k\<lparr>consolasReady := consolasReady k @ [p]\<rparr>"

definition ready_al_inicio :: "int \<Rightarrow> kernel \<Rightarrow> kernel" where
  "ready_al_inicio p k = k\<lparr>consolasReady := p # consolasReady k\<rparr>"

definition parametro :: "string list \<Rightarrow> nat \<Rightarrow> string res" where
  "parametro ps i = (if i < length ps then Inr (ps ! i) else Inl Puntero_nulo)"

definition enviar_consola :: "int \<Rightarrow> byte list \<Rightarrow> kernel \<Rightarrow> kernel" where
  "enviar_consola p bs k = k\<lparr>a_consolas := a_consolas k @ [(p, bs)]\<rparr>"

text \<open>The end of a process with an error: the code and the message go to its console.\<close>

definition finalizar_con_error :: "string \<Rightarrow> int \<Rightarrow> kernel \<Rightarrow> kernel" where
  "finalizar_con_error mensaje p k =
     (let k' = enviar_consola p (enviar_mensaje mensaje) (enviar_consola p (enviar_int (op_num ERROR)) k)
      in k'\<lparr>consolasExit := consolasExit k' @ [p]\<rparr>)"

section \<open>Resources\<close>

text \<open>\<open>nombreRecurso=malloc(sizeof(RECURSOS[k]))\<close> is a block of 8 bytes, and the name is copied to it.\<close>

fun init_count_recursos :: "(string \<times> string) list \<Rightarrow> (string, int) dict \<Rightarrow> (string, int) dict res" where
  "init_count_recursos [] d = Inr d"
| "init_count_recursos ((nombre, instancias) # rs) d =
     (if length nombre + 1 > 8 then Inl Fuera_de_rango
      else init_count_recursos rs (dictionary_put d nombre (atoi instancias)))"

text \<open>
  The copy of the name takes 9 bytes: a longer name loses its NUL and is read past its end as
  a string. A name that is a key of \<open>recursosDisponibles\<close> has at most 7 characters. A list
  that was destroyed by the end of an earlier process with the same PID is \<open>None\<close>.
\<close>

definition registrarRecursosDelProceso :: "commons \<Rightarrow> string \<Rightarrow> int \<Rightarrow> kernel \<Rightarrow> kernel res" where
  "registrarRecursosDelProceso cm recurso p k =
     (let PIDchar = string_itoa cm p;
          agregar = (\<lambda>rs. k\<lparr>recursos_por_proceso := dictionary_put (recursos_por_proceso k) PIDchar (Some (rs @ [recurso]))\<rparr>)
      in if length recurso > 8 then Inl Fuera_de_rango
         else case dictionary_get (recursos_por_proceso k) PIDchar of
                None \<Rightarrow> Inr (agregar [])
              | Some None \<Rightarrow> Inl Liberado
              | Some (Some rs) \<Rightarrow> Inr (agregar rs))"

text \<open>The queue of a key, a new one when the key is absent.\<close>

definition cola_o_nada :: "('k, 'v list) dict \<Rightarrow> 'k \<Rightarrow> 'v list" where
  "cola_o_nada d n = (case dictionary_get d n of None \<Rightarrow> [] | Some q \<Rightarrow> q)"

definition wait_recurso_lista :: "commons \<Rightarrow> string \<Rightarrow> int \<Rightarrow> kernel \<Rightarrow> kernel res" where
  "wait_recurso_lista cm recurso p k =
     (case dictionary_get (recursosDisponibles k) recurso of
        None \<Rightarrow> Inr (finalizar_con_error (''WAIT: '' @ recurso @ '' inexistente'') p k)
      | Some instancias \<Rightarrow>
          bind_res (registrarRecursosDelProceso cm recurso p k) (\<lambda>k1.
            Inr (if instancias \<ge> 1 then
                   ready_al_inicio p (k1\<lparr>recursosDisponibles := dictionary_put (recursosDisponibles k1) recurso (instancias - 1)\<rparr>)
                 else
                   k1\<lparr>recursosEnUso := dictionary_put (recursosEnUso k1) recurso (cola_o_nada (recursosEnUso k1) recurso @ [p])\<rparr>)))"

text \<open>The list without the first copy of the name, if there is one; the dictionary keeps the list.\<close>

definition quitarRecursoDelProceso :: "commons \<Rightarrow> string \<Rightarrow> int \<Rightarrow> kernel \<Rightarrow> kernel res" where
  "quitarRecursoDelProceso cm recurso p k =
     (case dictionary_get (recursos_por_proceso k) (string_itoa cm p) of
        None \<Rightarrow> Inl Puntero_nulo
      | Some None \<Rightarrow> Inl Liberado
      | Some (Some rs) \<Rightarrow>
          Inr (k\<lparr>recursos_por_proceso := dictionary_put (recursos_por_proceso k) (string_itoa cm p) (Some (remove1 recurso rs))\<rparr>))"

definition liberar_recurso_y_actualizar_ready :: "string \<Rightarrow> kernel \<Rightarrow> kernel res" where
  "liberar_recurso_y_actualizar_ready recurso k =
     (case dictionary_get (recursosDisponibles k) recurso of
        None \<Rightarrow> Inl Puntero_nulo
      | Some instancias \<Rightarrow>
          (case dictionary_get (recursosEnUso k) recurso of
             Some [] \<Rightarrow> Inl Puntero_nulo
           | Some (q # qs) \<Rightarrow>
               Inr (ready_al_final q (k\<lparr>recursosEnUso :=
                  if qs = [] then dictionary_remove (recursosEnUso k) recurso
                  else dictionary_put (recursosEnUso k) recurso qs\<rparr>))
           | None \<Rightarrow> Inr (k\<lparr>recursosDisponibles := dictionary_put (recursosDisponibles k) recurso (instancias + 1)\<rparr>)))"

definition signal_recurso_lista :: "commons \<Rightarrow> string \<Rightarrow> int \<Rightarrow> kernel \<Rightarrow> kernel res" where
  "signal_recurso_lista cm recurso p k =
     (if dictionary_has_key (recursosDisponibles k) recurso then
        bind_res (quitarRecursoDelProceso cm recurso p k) (\<lambda>k1.
          liberar_recurso_y_actualizar_ready recurso (ready_al_inicio p k1))
      else Inr (finalizar_con_error (''SIGNAL: '' @ recurso @ '' inexistente'') p k))"

text \<open>
  When the process has resources, the list of them is destroyed after the loop and stays in
  the dictionary.
\<close>

fun liberar_recursos :: "string list \<Rightarrow> kernel \<Rightarrow> kernel res" where
  "liberar_recursos [] k = Inr k"
| "liberar_recursos (r # rs) k = bind_res (liberar_recurso_y_actualizar_ready r k) (liberar_recursos rs)"

definition liberarRecursosDelProceso :: "string \<Rightarrow> kernel \<Rightarrow> kernel res" where
  "liberarRecursosDelProceso PIDchar k =
     (case dictionary_get (recursos_por_proceso k) PIDchar of
        None \<Rightarrow> Inr k
      | Some None \<Rightarrow> Inl Liberado
      | Some (Some []) \<Rightarrow> Inr k
      | Some (Some rs) \<Rightarrow>
          bind_res (liberar_recursos rs k) (\<lambda>k1.
            Inr (k1\<lparr>recursos_por_proceso := dictionary_put (recursos_por_proceso k1) PIDchar None\<rparr>)))"

section \<open>Exchange with the CPU\<close>

text \<open>The bytes \<open>enviar_PCB\<close> sends.\<close>

definition contexto_de :: "int \<Rightarrow> pcb \<Rightarrow> execContext" where
  "contexto_de p b = \<lparr>ctx_PID = p, instrucciones = pcb_instrucciones b, program_counter = pcb_program_counter b,
     registros = pcb_registros b, parametros = [], tablaSegmentos = pcb_tablaSegmentos b\<rparr>"

definition enviar_PCB :: "int \<Rightarrow> kernel \<Rightarrow> byte list res" where
  "enviar_PCB p k = bind_res (pcb_de k p) (\<lambda>b. Inr (paquete_contexto (contexto_de p b) (op_num RUNNING)))"

text \<open>
  The register blocks of a PCB are made by \<open>string_from_format("0000")\<close>, 5 bytes, and the
  received registers are copied to them with \<open>strcpy\<close>. The result has the operation code and
  the parameters.
\<close>

definition recibir_PCB :: "commons \<Rightarrow> int \<Rightarrow> byte list \<Rightarrow> kernel \<Rightarrow> (int \<times> string list \<times> kernel) res" where
  "recibir_PCB cm p s k =
     bind_res (recibir_operacion s) (\<lambda>(cod_op, s1).
     bind_res (recibir_paquete_contexto s1) (\<lambda>(ctx, _).
     bind_res (leer_c_strs (parametros ctx)) (\<lambda>ps.
     bind_res (leer_c_strs (registros ctx)) (\<lambda>rs.
       if \<exists>r \<in> set rs. length r + 1 > malloc_util cm 5 then Inl Fuera_de_rango
       else bind_res (cambiar_pcb p (\<lambda>b. b\<lparr>pcb_program_counter := program_counter ctx, pcb_registros := rs,
              pcb_tablaSegmentos := tablaSegmentos ctx\<rparr>) k) (\<lambda>k'. Inr (cod_op, ps, k'))))))"

end
