(* ===== verification/Ker_Servicios.thy ===== *)
theory Ker_Servicios
  imports Ker_Estado
begin

text \<open>
  What the kernel asks of the other modules (\<open>Kernel/src/kernel.h\<close>): segments and compaction
  of the memory module, files of the file system, with the tables the kernel keeps of them.
  Every call is composed with the service loop of the module that answers it.
\<close>

section \<open>Memory\<close>

definition pedir_memoria :: "commons \<Rightarrow> memConfig \<Rightarrow> byte list \<Rightarrow> kernel \<Rightarrow> (kernel \<times> byte list) res option" where
  "pedir_memoria cm mcfg bs k = map_option (\<lambda>r. bind_res r (\<lambda>(m', resp, _). Inr (k\<lparr>memoria_mod := m'\<rparr>, resp)))
     (atender_kernel cm mcfg (memoria_mod k) bs)"

definition map_res :: "('a \<Rightarrow> 'b res) \<Rightarrow> 'a res option \<Rightarrow> 'b res option" where
  "map_res f = map_option (\<lambda>r. bind_res r f)"

text \<open>A request whose answer is a table: the table becomes the one of the PCB.\<close>

definition pedir_tabla :: "commons \<Rightarrow> memConfig \<Rightarrow> byte list \<Rightarrow> int \<Rightarrow> kernel \<Rightarrow> (kernel \<times> int) res option" where
  "pedir_tabla cm mcfg bs p k = map_res (\<lambda>(k1, resp).
     bind_res (recv_tabla_segmentos resp) (\<lambda>((flag, tabla), _).
     bind_res (cambiar_pcb p (\<lambda>b. b\<lparr>pcb_tablaSegmentos := tabla\<rparr>) k1) (\<lambda>k2. Inr (k2, flag))))
     (pedir_memoria cm mcfg bs k)"

definition pedirTablaSegmentosInicial :: "commons \<Rightarrow> memConfig \<Rightarrow> int \<Rightarrow> kernel \<Rightarrow> kernel res option" where
  "pedirTablaSegmentosInicial cm mcfg p k =
     map_res (\<lambda>(k', _). Inr k') (pedir_tabla cm mcfg (send_newsegment_petition p 0 0) p k)"

definition ker_delete_segment :: "commons \<Rightarrow> memConfig \<Rightarrow> int \<Rightarrow> int \<Rightarrow> kernel \<Rightarrow> kernel res option" where
  "ker_delete_segment cm mcfg p segID k =
     map_res (\<lambda>(k', _). Inr k') (pedir_tabla cm mcfg (send_deletesegment_petition p segID) p k)"

text \<open>The tables after a compaction, each with the PID it belongs to.\<close>

definition leer_tabla_pid :: "byte list \<Rightarrow> ((int \<times> segmento list) \<times> byte list) res" where
  "leer_tabla_pid bs = bind_res (leer_int bs) (\<lambda>(PID, b1).
     bind_res (leer_contada leer_segmento b1) (\<lambda>(tabla, b2). Inr ((PID, tabla), b2)))"

fun actualizar_tablas :: "(int \<times> segmento list) list \<Rightarrow> kernel \<Rightarrow> kernel res" where
  "actualizar_tablas [] k = Inr k"
| "actualizar_tablas ((PID, tabla) # ts) k =
     (if PID \<in> set (global_PCB_list k)
      then bind_res (cambiar_pcb PID (\<lambda>b. b\<lparr>pcb_tablaSegmentos := tabla\<rparr>) k) (actualizar_tablas ts)
      else Inl Puntero_nulo)"

definition recibir_tablas_compactadas :: "byte list \<Rightarrow> kernel \<Rightarrow> kernel res" where
  "recibir_tablas_compactadas s k = bind_res (recibir_operacion s) (\<lambda>(_, s1).
     bind_res (recibir_buffer s1) (\<lambda>(buffer, _).
     bind_res (leer_contada leer_tabla_pid buffer) (\<lambda>(tablas, _). actualizar_tablas tablas k)))"

definition compactar_memoria :: "commons \<Rightarrow> memConfig \<Rightarrow> kernel \<Rightarrow> kernel res option" where
  "compactar_memoria cm mcfg k = map_res (\<lambda>(k1, resp). recibir_tablas_compactadas resp k1)
     (pedir_memoria cm mcfg (enviar_int (op_num COMPACTION)) k)"

text \<open>
  \<open>create_segment\<close> with \<open>compaction_manager\<close>. When the memory asks for a compaction while reads
  or writes of files are pending and no permission was given, the thread stops at
  \<open>sem_wait(&compaction_permission)\<close>; it goes on from there in \<open>seguir_compactacion\<close>.
\<close>

partial_function (option) ker_create_segment ::
    "commons \<Rightarrow> memConfig \<Rightarrow> int \<Rightarrow> int \<Rightarrow> int \<Rightarrow> kernel \<Rightarrow> kernel res option" where
  "ker_create_segment cm mcfg p segID tam k =
     Option.bind (pedir_tabla cm mcfg (send_newsegment_petition p segID tam) p k) (\<lambda>r.
       case r of
         Inl e \<Rightarrow> Some (Inl e)
       | Inr (k1, flag) \<Rightarrow>
           if flag = 1 then
             (let k2 = k1\<lparr>compaction_required := True\<rparr>
              in if compactionBlockers k2 > 0 \<and> compaction_permission k2 = 0
                 then Some (Inr (k2\<lparr>running := Esperando_permiso p segID tam\<rparr>))
                 else Option.bind (compactar_memoria cm mcfg
                        (if compactionBlockers k2 > 0 then k2\<lparr>compaction_permission := compaction_permission k2 - 1\<rparr> else k2))
                      (\<lambda>r. case r of Inl e \<Rightarrow> Some (Inl e)
                          | Inr k3 \<Rightarrow> ker_create_segment cm mcfg p segID tam k3))
           else if flag = 0 then Some (Inr (ready_al_inicio p k1))
           else if flag = -1 then Some (Inr (finalizar_con_error ''Out of Memory'' p k1))
           else Some (Inr k1))"

declare ker_create_segment.simps [code]

definition seguir_compactacion :: "commons \<Rightarrow> memConfig \<Rightarrow> int \<Rightarrow> int \<Rightarrow> int \<Rightarrow> kernel \<Rightarrow> kernel res option" where
  "seguir_compactacion cm mcfg p segID tam k =
     Option.bind (compactar_memoria cm mcfg
         (k\<lparr>compaction_permission := compaction_permission k - 1, running := Libre\<rparr>)) (\<lambda>r.
       case r of Inl e \<Rightarrow> Some (Inl e) | Inr k1 \<Rightarrow> ker_create_segment cm mcfg p segID tam k1)"

section \<open>Files\<close>

definition pedir_fs :: "commons \<Rightarrow> fsConfig \<Rightarrow> byte list \<Rightarrow> kernel \<Rightarrow> (kernel \<times> int) res" where
  "pedir_fs cm fcfg bs k = bind_res (fs_atender cm fcfg (fs_mod k) (memoria_mod k) bs) (\<lambda>(fs', m', resp, _).
     bind_res (recv_int resp) (\<lambda>(rta, _). Inr (k\<lparr>fs_mod := fs', memoria_mod := m'\<rparr>, rta)))"

definition consulting_file_system :: "string \<Rightarrow> byte list" where
  "consulting_file_system fileName = enviar_paquete (anexar (crear_paquete_contexto (op_num F_OPEN))
     (enc_int (int (length fileName) + 1) @ bloque_de fileName))"

definition truncate_petition :: "string \<Rightarrow> int \<Rightarrow> byte list" where
  "truncate_petition name tam = enviar_paquete (anexar (crear_paquete_contexto (op_num F_TRUNCATE))
     (enc_int (int (length name) + 1) @ bloque_de name @ enc_int tam))"

definition send_freadwrite_petition :: "string \<Rightarrow> int \<Rightarrow> int \<Rightarrow> int \<Rightarrow> op_code \<Rightarrow> byte list" where
  "send_freadwrite_petition filename memAddr bytes fsPointer codOp =
     enviar_paquete (anexar (crear_paquete_contexto (op_num codOp))
       (enc_int (int (length filename) + 1) @ bloque_de filename @ enc_int memAddr @ enc_int bytes @ enc_int fsPointer))"

text \<open>\<open>list_find\<close> of a descriptor by its name, in a list of pointers to descriptors.\<close>

definition descriptor_de :: "kernel \<Rightarrow> nat \<Rightarrow> descriptor res" where
  "descriptor_de k i = (if i < length (descriptores k)
     then (case descriptores k ! i of None \<Rightarrow> Inl Liberado | Some d \<Rightarrow> Inr d) else Inl Liberado)"

fun buscar_descriptor :: "kernel \<Rightarrow> string \<Rightarrow> nat list \<Rightarrow> nat option res" where
  "buscar_descriptor k name [] = Inr None"
| "buscar_descriptor k name (i # is) = bind_res (descriptor_de k i) (\<lambda>d.
     if file_name d = name then Inr (Some i) else buscar_descriptor k name is)"

definition cola_de_archivo :: "kernel \<Rightarrow> string \<Rightarrow> int list res" where
  "cola_de_archivo k name = (case dictionary_get (diccionario_colas_archivos k) name of
     None \<Rightarrow> Inl Puntero_nulo | Some q \<Rightarrow> Inr q)"

definition liberar_archivo :: "nat \<Rightarrow> kernel \<Rightarrow> kernel res" where
  "liberar_archivo i k = bind_res (descriptor_de k i) (\<lambda>d. bind_res (cola_de_archivo k (file_name d)) (\<lambda>cola.
     case cola of
       [] \<Rightarrow> Inr (k\<lparr>GDT := remove1 i (GDT k),
                 diccionario_colas_archivos := dictionary_remove (diccionario_colas_archivos k) (file_name d),
                 descriptores := (descriptores k)[i := None]\<rparr>)
     | q # qs \<Rightarrow> Inr (ready_al_final q (k\<lparr>diccionario_colas_archivos :=
                 dictionary_put (diccionario_colas_archivos k) (file_name d) qs\<rparr>))))"

definition process_f_close :: "string list \<Rightarrow> int \<Rightarrow> kernel \<Rightarrow> kernel res" where
  "process_f_close params p k = bind_res (parametro params 0) (\<lambda>name. bind_res (pcb_de k p) (\<lambda>b.
     bind_res (buscar_descriptor k name (pcb_tablaArchivos b)) (\<lambda>encontrado.
     case encontrado of
       None \<Rightarrow> Inr (finalizar_con_error (''F_CLOSE: '' @ name @ '' no abierto'') p k)
     | Some i \<Rightarrow> bind_res (cambiar_pcb p (\<lambda>b. b\<lparr>pcb_tablaArchivos := remove1 i (pcb_tablaArchivos b)\<rparr>) k) (\<lambda>k1.
                 liberar_archivo i (ready_al_final p k1)))))"

definition process_f_open :: "commons \<Rightarrow> fsConfig \<Rightarrow> string list \<Rightarrow> int \<Rightarrow> kernel \<Rightarrow> kernel res" where
  "process_f_open cm fcfg params p k = bind_res (parametro params 0) (\<lambda>name.
     bind_res (buscar_descriptor k name (GDT k)) (\<lambda>encontrado.
     case encontrado of
       None \<Rightarrow>
         (let i = length (descriptores k);
              k1 = k\<lparr>diccionario_colas_archivos := dictionary_put (diccionario_colas_archivos k) name [],
                     descriptores := descriptores k @ [Some \<lparr>file_name = name, pointer = 0\<rparr>]\<rparr>
          in bind_res (pedir_fs cm fcfg (consulting_file_system name) k1) (\<lambda>(k2, answer).
             if answer \<noteq> 1 then Inl Salida
             else bind_res (cambiar_pcb p (\<lambda>b. b\<lparr>pcb_tablaArchivos := i # pcb_tablaArchivos b\<rparr>)
                    (k2\<lparr>GDT := GDT k2 @ [i]\<rparr>)) (\<lambda>k3. Inr (ready_al_inicio p k3))))
     | Some i \<Rightarrow>
         bind_res (cambiar_pcb p (\<lambda>b. b\<lparr>pcb_tablaArchivos := i # pcb_tablaArchivos b\<rparr>) k) (\<lambda>k1.
         bind_res (cola_de_archivo k1 name) (\<lambda>cola.
           Inr (k1\<lparr>diccionario_colas_archivos := dictionary_put (diccionario_colas_archivos k1) name (cola @ [p])\<rparr>)))))"

definition f_truncate_process :: "commons \<Rightarrow> fsConfig \<Rightarrow> string list \<Rightarrow> int \<Rightarrow> kernel \<Rightarrow> kernel res" where
  "f_truncate_process cm fcfg params p k = bind_res (parametro params 0) (\<lambda>name. bind_res (parametro params 1) (\<lambda>tam.
     bind_res (pedir_fs cm fcfg (truncate_petition name (atoi tam)) k) (\<lambda>(k1, confirmation).
       Inr (if confirmation = -1 then finalizar_con_error ''F_TRUNCATE: OUT_OF_SPACE'' p k1
            else if confirmation = 2 then finalizar_con_error (''F_TRUNCATE: '' @ name @ '' not found'') p k1
            else ready_al_inicio p k1))))"

definition process_fseek :: "string list \<Rightarrow> int \<Rightarrow> kernel \<Rightarrow> kernel res" where
  "process_fseek params p k = bind_res (parametro params 0) (\<lambda>name. bind_res (parametro params 1) (\<lambda>puntero.
     bind_res (pcb_de k p) (\<lambda>b. bind_res (buscar_descriptor k name (pcb_tablaArchivos b)) (\<lambda>encontrado.
     case encontrado of
       None \<Rightarrow> Inl Puntero_nulo
     | Some i \<Rightarrow> Inr (ready_al_inicio p (k\<lparr>descriptores := (descriptores k)[i :=
                   map_option (\<lambda>d. d\<lparr>pointer := atoi puntero\<rparr>) (descriptores k ! i)]\<rparr>))))))"

text \<open>\<open>process_fwrite\<close> and \<open>process_fread\<close>, which differ in the code only.\<close>

definition process_fs_acceso :: "op_code \<Rightarrow> commons \<Rightarrow> fsConfig \<Rightarrow> string list \<Rightarrow> int \<Rightarrow> kernel \<Rightarrow> kernel res" where
  "process_fs_acceso cod cm fcfg params p k = bind_res (parametro params 0) (\<lambda>filename.
     bind_res (parametro params 1) (\<lambda>memAddr. bind_res (parametro params 2) (\<lambda>bytes.
     bind_res (buscar_descriptor k filename (GDT k)) (\<lambda>encontrado.
     case encontrado of
       None \<Rightarrow> Inl Puntero_nulo
     | Some i \<Rightarrow> bind_res (descriptor_de k i) (\<lambda>d.
         bind_res (pedir_fs cm fcfg (send_freadwrite_petition filename (atoi memAddr) (atoi bytes) (pointer d) cod) k)
           (\<lambda>(k1, rta). Inr (ready_al_inicio p k1)))))))"

definition process_fwrite :: "commons \<Rightarrow> fsConfig \<Rightarrow> string list \<Rightarrow> int \<Rightarrow> kernel \<Rightarrow> kernel res" where
  "process_fwrite = process_fs_acceso F_WRITE"

definition process_fread :: "commons \<Rightarrow> fsConfig \<Rightarrow> string list \<Rightarrow> int \<Rightarrow> kernel \<Rightarrow> kernel res" where
  "process_fread = process_fs_acceso F_READ"

end
