(* ===== verification/Ker_Hilos.thy ===== *)
theory Ker_Hilos
  imports Ker_Servicios
begin

text \<open>
  The threads of the kernel (\<open>Kernel/src/kernel.h\<close>): the receiver of a console, the long-term
  scheduler (\<open>gestionadorReady\<close>), the short-term scheduler with FIFO (\<open>fifoRunning\<close>, \<open>readOp\<close>),
  the thread of the file system operations (\<open>operarFS\<close>), the timers of \<open>I/O\<close> and the thread that
  ends processes (\<open>gestionadorExit\<close>). One iteration of a thread is one step; a wait on an
  empty queue or a semaphore at zero is a step that is not enabled.

  So the runs here are those whose iterations do not overlap. The code protects the ready, new,
  blocked and exit queues with mutexes, but not \<open>recursosDisponibles\<close>, \<open>recursosEnUso\<close>,
  \<open>recursos_por_proceso\<close>, \<open>GDT\<close>, the descriptors, \<open>diccionario_colas_archivos\<close> and
  \<open>global_PCB_list\<close>, which the schedulers, the thread of the file system and the one that ends
  processes share: \<open>Ker_Carreras\<close> takes the iterations on resources and on files apart and
  has the runs that overlap, \<open>Ker_Socket\<close> those on the socket of the memory module, and
  \<open>Ker_Acepta\<close> those of the receivers.
\<close>

section \<open>System calls\<close>

definition es_operacion_de_FS :: "int \<Rightarrow> bool" where
  "es_operacion_de_FS cod_op \<longleftrightarrow>
     cod_op \<in> set (map op_num [F_OPEN, F_CLOSE, F_READ, F_WRITE, F_TRUNCATE, F_SEEK])"

definition recieves_filesystem_petition :: "int \<Rightarrow> int \<Rightarrow> string list \<Rightarrow> kernel \<Rightarrow> kernel" where
  "recieves_filesystem_petition cod_op p params k =
     (let impide = (cod_op = op_num F_WRITE \<or> cod_op = op_num F_READ);
          nodo = \<lparr>un_pcb = p, nodo_parametros = params, nodo_cod_op = cod_op, impide_compactacion = impide\<rparr>
      in k\<lparr>compactionBlockers := compactionBlockers k + (if impide then 1 else 0),
           consolasBlocked := consolasBlocked k @ [nodo]\<rparr>)"

text \<open>The timer thread of \<open>i_o\<close> holds the process.\<close>

definition ker_i_o :: "string \<Rightarrow> int \<Rightarrow> kernel \<Rightarrow> kernel" where
  "ker_i_o tiempoBloqueo p k = k\<lparr>en_io := en_io k @ [p]\<rparr>"

definition retenerPCB :: "int \<Rightarrow> kernel \<Rightarrow> kernel" where
  "retenerPCB p k = ready_al_final p (k\<lparr>en_io := remove1 p (en_io k)\<rparr>)"

definition readOp :: "commons \<Rightarrow> memConfig \<Rightarrow> int \<Rightarrow> int \<Rightarrow> string list \<Rightarrow> kernel \<Rightarrow> kernel res option" where
  "readOp cm mcfg cod_op p params k =
     (if es_operacion_de_FS cod_op then Some (Inr (recieves_filesystem_petition cod_op p params k))
      else if cod_op = op_num YIELD then Some (Inr (ready_al_final p k))
      else if cod_op = op_num EXIT then Some (Inr (k\<lparr>consolasExit := consolasExit k @ [p]\<rparr>))
      else if cod_op = op_num WAIT then
        Some (bind_res (parametro params 0) (\<lambda>recurso. wait_recurso_lista cm recurso p k))
      else if cod_op = op_num SIGNAL then
        Some (bind_res (parametro params 0) (\<lambda>recurso. signal_recurso_lista cm recurso p k))
      else if cod_op = op_num I_O then
        Some (bind_res (parametro params 0) (\<lambda>tiempo. Inr (ker_i_o tiempo p k)))
      else if cod_op = op_num ERROR then
        Some (bind_res (parametro params 0) (\<lambda>mensaje. Inr (finalizar_con_error mensaje p k)))
      else if cod_op = op_num CREATE_SEGMENT then
        (case bind_res (parametro params 0) (\<lambda>segID. bind_res (parametro params 1) (\<lambda>tam. Inr (atoi segID, atoi tam))) of
           Inl e \<Rightarrow> Some (Inl e)
         | Inr (segID, tam) \<Rightarrow> ker_create_segment cm mcfg p segID tam k)
      else if cod_op = op_num DELETE_SEGMENT then
        (case parametro params 0 of
           Inl e \<Rightarrow> Some (Inl e)
         | Inr segID \<Rightarrow> map_res (\<lambda>k'. Inr (ready_al_inicio p k')) (ker_delete_segment cm mcfg p (atoi segID) k))
      else Some (Inl Salida))"

section \<open>One iteration of each thread\<close>

text \<open>
  A new console: its socket is the PID, and the handshake is answered whatever it says. A
  message that is not a packet of instructions makes no process.
\<close>

definition gestionarNuevasConexiones :: "int \<Rightarrow> byte list \<Rightarrow> kernel \<Rightarrow> kernel res" where
  "gestionarNuevasConexiones p s k =
     bind_res (recv_int s) (\<lambda>(handshake, s1).
     let k1 = enviar_consola p (enviar_int (if handshake = 1 then 1 else -1)) k in
     bind_res (recibir_operacion s1) (\<lambda>(cod_op, s2).
       if cod_op = op_num PAQUETE then
         bind_res (recibir_paquete s2) (\<lambda>(valores, _). bind_res (leer_c_strs valores) (\<lambda>instr.
           Inr (k1\<lparr>pcbs := dictionary_put (pcbs k1) p \<lparr>pcb_instrucciones = instr, pcb_program_counter = 0,
                        pcb_registros = replicate CANTIDAD_REGISTROS_CPU ''0000'', pcb_tablaSegmentos = [],
                        pcb_tablaArchivos = []\<rparr>,
                   consolasNew := consolasNew k1 @ [p]\<rparr>)))
       else if cod_op = -1 then Inr (enviar_consola p (enviar_int (-1)) k1)
       else Inr k1))"

definition gestionadorReady :: "commons \<Rightarrow> memConfig \<Rightarrow> kernel \<Rightarrow> kernel res option" where
  "gestionadorReady cm mcfg k =
     (case consolasNew k of
        [] \<Rightarrow> Some (Inl Puntero_nulo)
      | p # ps \<Rightarrow>
          map_res (\<lambda>k1. Inr (let k2 = ready_al_final p k1 in k2\<lparr>global_PCB_list := global_PCB_list k2 @ [p]\<rparr>))
            (pedirTablaSegmentosInicial cm mcfg p (k\<lparr>consolasNew := ps, hayEspacioReady := hayEspacioReady k - 1\<rparr>)))"

text \<open>\<open>fifoRunning\<close> in two steps: the process leaves for the CPU, and it comes back.\<close>

definition fifo_despachar :: "kernel \<Rightarrow> (kernel \<times> byte list) res" where
  "fifo_despachar k =
     (case consolasReady k of
        [] \<Rightarrow> Inl Puntero_nulo
      | p # ps \<Rightarrow> bind_res (enviar_PCB p k) (\<lambda>bs. Inr (k\<lparr>consolasReady := ps, running := En_cpu p\<rparr>, bs)))"

definition fifo_volver :: "commons \<Rightarrow> memConfig \<Rightarrow> int \<Rightarrow> byte list \<Rightarrow> kernel \<Rightarrow> kernel res option" where
  "fifo_volver cm mcfg p s k =
     (case recibir_PCB cm p s (k\<lparr>running := Libre\<rparr>) of
        Inl e \<Rightarrow> Some (Inl e)
      | Inr (cod_op, params, k1) \<Rightarrow> readOp cm mcfg cod_op p params k1)"

text \<open>
  The permission for a compaction is given at the top of the loop, before the next operation
  is taken: here, after the operation of this iteration.
\<close>

definition dar_permiso :: "kernel \<Rightarrow> kernel" where
  "dar_permiso k = (if compactionBlockers k = 0 \<and> compaction_required k
     then k\<lparr>compaction_permission := compaction_permission k + 1, compaction_required := False\<rparr> else k)"

definition operar_nodo :: "commons \<Rightarrow> fsConfig \<Rightarrow> blockedNode \<Rightarrow> kernel \<Rightarrow> kernel res" where
  "operar_nodo cm fcfg n k =
     (let ps = nodo_parametros n; p = un_pcb n; cod = nodo_cod_op n;
          menos = (\<lambda>k. Inr (k\<lparr>compactionBlockers := compactionBlockers k - 1\<rparr>))
      in if cod = op_num F_OPEN then process_f_open cm fcfg ps p k
         else if cod = op_num F_CLOSE then process_f_close ps p k
         else if cod = op_num F_TRUNCATE then f_truncate_process cm fcfg ps p k
         else if cod = op_num F_SEEK then process_fseek ps p k
         else if cod = op_num F_WRITE then bind_res (process_fwrite cm fcfg ps p k) menos
         else if cod = op_num F_READ then bind_res (process_fread cm fcfg ps p k) menos
         else Inl Salida)"

definition operarFS :: "commons \<Rightarrow> fsConfig \<Rightarrow> kernel \<Rightarrow> kernel res" where
  "operarFS cm fcfg k =
     (case consolasBlocked k of
        [] \<Rightarrow> Inl Puntero_nulo
      | n # ns \<Rightarrow> bind_res (operar_nodo cm fcfg n (k\<lparr>consolasBlocked := ns\<rparr>)) (\<lambda>k1. Inr (dar_permiso k1)))"

fun cerrar_archivos :: "nat list \<Rightarrow> kernel \<Rightarrow> kernel res" where
  "cerrar_archivos [] k = Inr k"
| "cerrar_archivos (i # is) k = bind_res (liberar_archivo i k) (cerrar_archivos is)"

definition cerrarArchivosDelProceso :: "pcb \<Rightarrow> kernel \<Rightarrow> kernel res" where
  "cerrarArchivosDelProceso b k = cerrar_archivos (pcb_tablaArchivos b) k"

text \<open>The PCB is freed at the end, and the memory module frees the segments on its own.\<close>

definition gestionadorExit :: "commons \<Rightarrow> memConfig \<Rightarrow> kernel \<Rightarrow> kernel res option" where
  "gestionadorExit cm mcfg k =
     (case consolasExit k of
        [] \<Rightarrow> Some (Inl Puntero_nulo)
      | p # ps \<Rightarrow>
          (case pcb_de k p of
             Inl e \<Rightarrow> Some (Inl e)
           | Inr b \<Rightarrow>
               map_res (\<lambda>(k1, _).
                 bind_res (liberarRecursosDelProceso (string_itoa cm p) k1) (\<lambda>k2.
                 bind_res (cerrarArchivosDelProceso b k2) (\<lambda>k3.
                 let k4 = enviar_consola p (enviar_int (op_num EXIT)) k3
                 in Inr (k4\<lparr>pcbs := dictionary_remove (pcbs k4) p, hayEspacioReady := hayEspacioReady k4 + 1\<rparr>))))
               (pedir_memoria cm mcfg (enviar_mensaje_razon (op_num EXIT) (string_itoa cm p))
                  (k\<lparr>consolasExit := ps, global_PCB_list := remove1 p (global_PCB_list k)\<rparr>))))"

section \<open>The kernel as a transition system\<close>

definition ker_inicial :: "nat \<Rightarrow> (string, int) dict \<Rightarrow> memoria \<Rightarrow> filesys \<Rightarrow> kernel" where
  "ker_inicial grado recursos m fs = \<lparr>pcbs = [], global_PCB_list = [], consolasNew = [], consolasReady = [],
     consolasExit = [], consolasBlocked = [], en_io = [], running = Libre, recursosDisponibles = recursos,
     recursosEnUso = [], recursos_por_proceso = [], descriptores = [], GDT = [], diccionario_colas_archivos = [],
     compactionBlockers = 0, compaction_required = False, compaction_permission = 0, hayEspacioReady = grado,
     a_consolas = [], memoria_mod = m, fs_mod = fs\<rparr>"

text \<open>
  While a process is in the CPU, the CPU may read and write the memory, with any request; when
  the process comes back, the CPU may send any context. A step is a whole iteration, and the
  receiver of a console has read its own socket from the variable of the accepting loop.
\<close>

inductive ker_paso :: "commons \<Rightarrow> memConfig \<Rightarrow> fsConfig \<Rightarrow> kernel \<Rightarrow> kernel \<Rightarrow> bool"
  for cm mcfg fcfg where
  consola: "dictionary_get (pcbs k) p = None \<Longrightarrow> 0 < p \<Longrightarrow> int32_ok p \<Longrightarrow>
    gestionarNuevasConexiones p s k = Inr k' \<Longrightarrow> ker_paso cm mcfg fcfg k k'"
| admitir: "consolasNew k \<noteq> [] \<Longrightarrow> 0 < hayEspacioReady k \<Longrightarrow>
    gestionadorReady cm mcfg k = Some (Inr k') \<Longrightarrow> ker_paso cm mcfg fcfg k k'"
| despachar: "running k = Libre \<Longrightarrow> consolasReady k \<noteq> [] \<Longrightarrow>
    fifo_despachar k = Inr (k', bs) \<Longrightarrow> ker_paso cm mcfg fcfg k k'"
| volver: "running k = En_cpu p \<Longrightarrow> fifo_volver cm mcfg p s k = Some (Inr k') \<Longrightarrow> ker_paso cm mcfg fcfg k k'"
| cpu: "running k = En_cpu p \<Longrightarrow> atender_cpu (memoria_mod k) s = Inr (m', r, s') \<Longrightarrow>
    ker_paso cm mcfg fcfg k (k\<lparr>memoria_mod := m'\<rparr>)"
| compactar: "running k = Esperando_permiso p segID tam \<Longrightarrow> 0 < compaction_permission k \<Longrightarrow>
    seguir_compactacion cm mcfg p segID tam k = Some (Inr k') \<Longrightarrow> ker_paso cm mcfg fcfg k k'"
| archivos: "consolasBlocked k \<noteq> [] \<Longrightarrow> operarFS cm fcfg k = Inr k' \<Longrightarrow> ker_paso cm mcfg fcfg k k'"
| fin_io: "p \<in> set (en_io k) \<Longrightarrow> ker_paso cm mcfg fcfg k (retenerPCB p k)"
| terminar: "consolasExit k \<noteq> [] \<Longrightarrow> gestionadorExit cm mcfg k = Some (Inr k') \<Longrightarrow> ker_paso cm mcfg fcfg k k'"

inductive ker_alcanzable :: "commons \<Rightarrow> memConfig \<Rightarrow> fsConfig \<Rightarrow> kernel \<Rightarrow> kernel \<Rightarrow> bool"
  for cm mcfg fcfg k0 where
  inicio: "ker_alcanzable cm mcfg fcfg k0 k0"
| paso: "ker_alcanzable cm mcfg fcfg k0 k \<Longrightarrow> ker_paso cm mcfg fcfg k k' \<Longrightarrow> ker_alcanzable cm mcfg fcfg k0 k'"

inductive_cases ker_pasoE: "ker_paso cm mcfg fcfg k k'"

end
