(* ===== verification/Con_Consola.thy ===== *)
theory Con_Consola
  imports Ker_Hilos
begin

text \<open>
  The console (\<open>Consola/src/Consola.h\<close>, \<open>Consola/src/Consola.c\<close>): it reads the file of
  instructions with \<open>fgets\<close> (\<open>leer_pseudocodigo\<close>), sends them to the kernel in one packet
  (\<open>paquete_instrucciones\<close>) and waits for the verdict of the process (\<open>main\<close>). The contents of
  the file and the bytes of the socket are arguments.
\<close>

section \<open>Reading the program\<close>

definition MAX_LINE_LENGTH :: nat where
  "MAX_LINE_LENGTH = 256"

abbreviation LF :: char where "LF \<equiv> CHR 0x0A"

text \<open>
  \<open>fgets\<close> with room for \<open>n\<close> characters: it stops after a newline, when the room is used up, or
  at the end of the file, which is the only case that sets the end-of-file indicator.
\<close>

fun fgets :: "nat \<Rightarrow> string \<Rightarrow> string \<times> string \<times> bool" where
  "fgets 0 s = ([], s, False)"
| "fgets (Suc n) [] = ([], [], True)"
| "fgets (Suc n) (c # s) =
     (if c = LF then ([c], s, False) else let (tomado, queda, eof) = fgets n s in (c # tomado, queda, eof))"

text \<open>Each call takes at least one character or sets the indicator.\<close>

lemma fgets_avanza:
  "fgets n s = (tomado, queda, eof) \<Longrightarrow> length tomado + length queda = length s"
  by (induction n s arbitrary: tomado queda eof rule: fgets.induct) (auto split: if_splits prod.splits)

lemma fgets_fin: "fgets (Suc n) s = ([], queda, eof) \<Longrightarrow> eof"
  by (cases s) (auto split: if_splits prod.splits)

text \<open>
  The loop: \<open>linea\<close> is the array, \<open>None\<close> while nothing was written to it. When \<open>fgets\<close> reads
  nothing the array keeps the previous line.
\<close>

function leer_lineas :: "string \<Rightarrow> bool \<Rightarrow> string option \<Rightarrow> string list \<Rightarrow> string list res" where
  "leer_lineas archivo eof linea lista =
     (if eof then Inr lista
      else case fgets (MAX_LINE_LENGTH - 1) archivo of
        (tomado, queda, eof') \<Rightarrow>
          (case (if tomado = [] then linea else Some tomado) of
             None \<Rightarrow> Inl Sin_inicializar
           | Some l \<Rightarrow>
               if take 1 l = [LF] then leer_lineas queda eof' (Some l) lista
               else let instruccion = takeWhile (\<lambda>c. c \<noteq> LF) (c_str l)
                    in leer_lineas queda eof' (Some instruccion) (lista @ [instruccion])))"
  by pat_completeness auto

lemma fgets_medida:
  assumes "(tomado, queda, eof') = fgets (MAX_LINE_LENGTH - Suc 0) archivo"
  shows "length queda < Suc (length archivo)" "\<not> eof' \<Longrightarrow> length queda < length archivo"
proof -
  have l: "length tomado + length queda = length archivo" by (rule fgets_avanza [OF assms [symmetric]])
  then show "length queda < Suc (length archivo)" by simp
  assume "\<not> eof'"
  moreover have "eof'" if "tomado = []"
    by (rule fgets_fin [of 254 archivo queda]) (use assms that in \<open>simp add: MAX_LINE_LENGTH_def\<close>)
  ultimately have "0 < length tomado" by (cases tomado) auto
  then show "length queda < length archivo" using l by linarith
qed

termination leer_lineas
  by (relation "measure (\<lambda>(archivo, eof, _, _). length archivo + of_bool (\<not> eof))")
    (auto intro: fgets_medida split: if_splits simp del: fgets.simps)

declare leer_lineas.simps [simp del]

definition leer_pseudocodigo :: "string option \<Rightarrow> string list res" where
  "leer_pseudocodigo archivo = (case archivo of None \<Rightarrow> Inl Salida | Some s \<Rightarrow> leer_lineas s False None [])"

section \<open>Sending it and waiting\<close>

definition paquete_instrucciones :: "string list \<Rightarrow> byte list" where
  "paquete_instrucciones lista = enviar_paquete (foldl agregar_cadena crear_paquete lista)"

datatype veredicto = Con_exito | Con_error string | Sin_veredicto

text \<open>What the console sends, and how it ends, from the bytes the kernel sends to it.\<close>

definition consola_main :: "string option \<Rightarrow> byte list \<Rightarrow> (byte list \<times> veredicto) res" where
  "consola_main archivo s =
     bind_res (leer_pseudocodigo archivo) (\<lambda>instrucciones.
     bind_res (recv_int s) (\<lambda>(respuesta, s1).
       if respuesta \<noteq> 1 then Inl Salida
       else bind_res (recibir_operacion s1) (\<lambda>(cod_op, s2).
         let enviado = enviar_int 1 @ paquete_instrucciones instrucciones
         in if cod_op = op_num EXIT then Inr (enviado, Con_exito)
            else if cod_op = op_num ERROR then
              bind_res (recv_int s2) (\<lambda>(_, s3). bind_res (recibir_mensaje s3) (\<lambda>(b, _).
                bind_res (leer_c_str b) (\<lambda>mensaje. Inr (enviado, Con_error mensaje))))
            else Inr (enviado, Sin_veredicto))))"

section \<open>Lines\<close>

definition linea_ok :: "string \<Rightarrow> bool" where
  "linea_ok w \<longleftrightarrow> LF \<notin> set w \<and> es_c_str w \<and> length w < MAX_LINE_LENGTH - 1"

text \<open>A file: its lines, and what comes after the last newline.\<close>

definition texto_de :: "string list \<Rightarrow> string \<Rightarrow> string" where
  "texto_de ws u = concat (map (\<lambda>w. w @ [LF]) ws) @ u"

lemma fgets_linea: "LF \<notin> set w \<Longrightarrow> length w < n \<Longrightarrow> fgets n (w @ LF # s) = (w @ [LF], s, False)"
  by (induction n w rule: fgets.induct) auto

lemma fgets_ultima: "LF \<notin> set w \<Longrightarrow> length w < n \<Longrightarrow> fgets n w = (w, [], True)"
  by (induction n w rule: fgets.induct) auto

lemma linea_sin_LF:
  assumes "linea_ok w"
  shows "takeWhile (\<lambda>c. c \<noteq> LF) (c_str w) = w" "takeWhile (\<lambda>c. c \<noteq> LF) (c_str (w @ [LF])) = w"
proof -
  have n: "\<forall>c \<in> set w. c \<noteq> NUL" "\<forall>c \<in> set w. c \<noteq> LF" using assms by (auto simp: linea_ok_def es_c_str_def)
  then have "c_str w = w" "c_str (w @ [LF]) = w @ [LF]" by (simp_all add: c_str_def takeWhile_eq_all_conv)
  then show "takeWhile (\<lambda>c. c \<noteq> LF) (c_str w) = w" "takeWhile (\<lambda>c. c \<noteq> LF) (c_str (w @ [LF])) = w"
    using n by (simp_all add: takeWhile_eq_all_conv)
qed

lemma leer_lineas_fin: "leer_lineas s True linea lista = Inr lista"
  by (simp add: leer_lineas.simps)

lemma leer_lineas_linea:
  assumes "linea_ok w"
  shows "leer_lineas (w @ LF # s) False linea lista =
    (if w = [] then leer_lineas s False (Some [LF]) lista else leer_lineas s False (Some w) (lista @ [w]))"
proof -
  have f: "fgets (MAX_LINE_LENGTH - Suc 0) (w @ LF # s) = (w @ [LF], s, False)"
    using assms by (intro fgets_linea) (simp_all add: linea_ok_def)
  moreover have "take (Suc 0) (w @ [LF]) = [LF] \<longleftrightarrow> w = []"
    using assms by (cases w) (auto simp: linea_ok_def)
  ultimately show ?thesis
    by (subst leer_lineas.simps) (simp add: linea_sin_LF [OF assms] del: take_append)
qed

lemma leer_lineas_ultima:
  assumes "linea_ok u"
  shows "leer_lineas u False linea lista =
    (if u \<noteq> [] then Inr (lista @ [u])
     else case linea of None \<Rightarrow> Inl Sin_inicializar
       | Some l \<Rightarrow> Inr (if take 1 l = [LF] then lista else lista @ [takeWhile (\<lambda>c. c \<noteq> LF) (c_str l)]))"
proof -
  have f: "fgets (MAX_LINE_LENGTH - 1) u = (u, [], True)"
    using assms by (intro fgets_ultima) (simp_all add: linea_ok_def)
  have "take 1 u \<noteq> [LF]" using assms by (cases u) (auto simp: linea_ok_def)
  then show ?thesis
    by (subst leer_lineas.simps, subst f)
      (simp add: leer_lineas_fin linea_sin_LF [OF assms] split: option.split)
qed

lemma leer_lineas_texto:
  assumes "\<forall>w \<in> set ws. linea_ok w" "linea_ok u" "ws \<noteq> [] \<or> u \<noteq> []"
  shows "leer_lineas (texto_de ws u) False linea lista =
    Inr (lista @ filter (\<lambda>w. w \<noteq> []) (ws @ [u] @ (if u = [] then [last ws] else [])))"
  using assms
proof (induction ws arbitrary: linea lista)
  case Nil
  then show ?case by (simp add: texto_de_def leer_lineas_ultima)
next
  case (Cons w ws)
  have w: "linea_ok w" using Cons.prems by simp
  have t: "texto_de (w # ws) u = w @ LF # texto_de ws u" by (simp add: texto_de_def)
  show ?case
  proof (cases "ws = [] \<and> u = []")
    case True
    have "take 1 w \<noteq> [LF]" using w by (cases w) (auto simp: linea_ok_def)
    then show ?thesis using True leer_lineas_ultima [OF Cons.prems(2)] linea_sin_LF(1) [OF w]
      by (simp add: t texto_de_def leer_lineas_linea [OF w, of "[]", simplified])
  next
    case False
    then show ?thesis using Cons.IH Cons.prems by (simp add: t leer_lineas_linea [OF w])
  qed
qed

section \<open>What the console promises\<close>

text \<open>
  The program the console reads: the lines of the file that are not empty, in order. A file
  that ends with a newline gives its last line twice, because the end of the file is only seen
  by one more \<open>fgets\<close>, which leaves the array as it was.
\<close>

lemma leer_pseudocodigo_lineas:
  assumes "\<forall>w \<in> set ws. linea_ok w" "linea_ok u" "ws \<noteq> [] \<or> u \<noteq> []"
  shows "leer_pseudocodigo (Some (texto_de ws u)) =
    Inr (filter (\<lambda>w. w \<noteq> []) (ws @ [u] @ (if u = [] then [last ws] else [])))"
  using leer_lineas_texto [OF assms, of None "[]"] by (simp add: leer_pseudocodigo_def)

lemma leer_pseudocodigo_lineas_witness:
  "leer_pseudocodigo (Some ([CHR ''A'', LF, LF, CHR ''E'', LF])) = Inr [''A'', ''E'', ''E'']"
  using leer_pseudocodigo_lineas [of "[''A'', '''', ''E'']" "''''"]
  by (simp add: linea_ok_def es_c_str_def MAX_LINE_LENGTH_def texto_de_def)

text \<open>What \<open>leer_pseudocodigo\<close> gives has no NUL.\<close>

lemma leer_lineas_c_str:
  "leer_lineas s eof linea lista = Inr ws \<Longrightarrow> \<forall>w \<in> set lista. es_c_str w \<Longrightarrow> \<forall>w \<in> set ws. es_c_str w"
proof (induction s eof linea lista rule: leer_lineas.induct)
  case (1 s eof linea lista)
  obtain tomado queda eof' where f: "fgets (MAX_LINE_LENGTH - 1) s = (tomado, queda, eof')" by (metis prod_cases3)
  show ?case
  proof (cases "eof \<or> (if tomado = [] then linea else Some tomado) = None")
    case True
    then show ?thesis using 1(3,4) by (subst (asm) leer_lineas.simps) (auto simp: f simp del: One_nat_def split: if_splits)
  next
    case False
    then obtain l where l: "(if tomado = [] then linea else Some tomado) = Some l" by auto
    have "es_c_str (takeWhile (\<lambda>c. c \<noteq> LF) (c_str l))"
      by (auto simp: es_c_str_def c_str_def dest!: set_takeWhileD)
    then show ?thesis
      using 1(1) [OF _ f [symmetric] HOL.refl l] 1(2) [OF _ f [symmetric] HOL.refl l] 1(3,4) False
      by (subst (asm) leer_lineas.simps) (auto simp: f l Let_def simp del: One_nat_def split: if_splits)
  qed
qed

definition para_consola :: "int \<Rightarrow> kernel \<Rightarrow> byte list" where
  "para_consola p k = concat (map snd (filter (\<lambda>e. fst e = p) (a_consolas k)))"

lemma leer_c_strs_bloques: "\<forall>w \<in> set ws. es_c_str w \<Longrightarrow> leer_c_strs (map bloque_de ws) = Inr ws"
  by (induction ws) (simp_all add: leer_c_str_def, simp add: bloque_de_def)

lemma recibir_mensaje_enc:
  assumes "cadena_ok msj"
  shows "recv_int (enviar_mensaje msj) = Inr (op_num MENSAJE, enc_int (int (length msj) + 1) @ bloque_de msj)"
    "recibir_mensaje (enc_int (int (length msj) + 1) @ bloque_de msj) = Inr (bloque_de msj, [])"
proof -
  have "enviar_mensaje msj = enc_int (op_num MENSAJE) @ enc_int (int (length msj) + 1) @ bloque_de msj"
    by (simp add: enviar_mensaje_def serializar_paquete_def)
  then show "recv_int (enviar_mensaje msj) = Inr (op_num MENSAJE, enc_int (int (length msj) + 1) @ bloque_de msj)"
    by simp
  show "recibir_mensaje (enc_int (int (length msj) + 1) @ bloque_de msj) = Inr (bloque_de msj, [])"
    using recibir_buffer_enc [of "bloque_de msj" "[]"] assms by (simp add: recibir_mensaje_def cadena_ok_def add.commute)
qed

lemma cadenas_cortas:
  assumes "int32_ok (int (length (concat (map enc_bloque ws))))"
  shows "\<forall>w \<in> set ws. cadena_ok w"
proof
  fix w assume "w \<in> set ws"
  then have "length w + 5 \<le> sum_list (map (\<lambda>s. length s + 5) ws)" by (intro member_le_sum_list) auto
  then show "cadena_ok w" using assms by (simp add: wire_simps int32_ok_def cadena_ok_def)
qed

lemma programa_recibido:
  assumes "\<forall>w \<in> set ws. es_c_str w" "int32_ok (int (length (concat (map enc_bloque ws))))"
  obtains s2 where "recv_int (enviar_int 1 @ paquete_instrucciones ws) = Inr (1, paquete_instrucciones ws)"
    "recibir_operacion (paquete_instrucciones ws) = Inr (op_num PAQUETE, s2)"
    "recibir_paquete s2 = Inr (map bloque_de ws, [])" "leer_c_strs (map bloque_de ws) = Inr ws"
proof -
  obtain s2 where "recibir_operacion (paquete_instrucciones ws) = Inr (op_num PAQUETE, s2)"
    "recibir_paquete s2 = Inr (map bloque_de ws, [])"
    using paquete_cadenas_ida_vuelta [OF cadenas_cortas [OF assms(2)] assms(2), of "[]"]
    by (auto simp: paquete_instrucciones_def bind_res_Inr_iff simp del: op_num.simps)
  then show thesis using that leer_c_strs_bloques [OF assms(1)] by (simp add: enviar_int_def del: op_num.simps)
qed

lemma recibir_programa:
  assumes "leer_pseudocodigo archivo = Inr ws" "int32_ok (int (length (concat (map enc_bloque ws))))"
  shows "gestionarNuevasConexiones p (enviar_int 1 @ paquete_instrucciones ws) k =
    (let k1 = enviar_consola p (enviar_int 1) k
     in Inr (k1\<lparr>pcbs := dictionary_put (pcbs k1) p \<lparr>pcb_instrucciones = ws, pcb_program_counter = 0,
               pcb_registros = replicate CANTIDAD_REGISTROS_CPU ''0000'', pcb_tablaSegmentos = [], pcb_tablaArchivos = []\<rparr>,
             consolasNew := consolasNew k1 @ [p]\<rparr>))"
proof -
  have c: "\<forall>w \<in> set ws. es_c_str w"
    using assms(1) by (auto simp: leer_pseudocodigo_def split: option.splits dest!: leer_lineas_c_str)
  show ?thesis by (rule programa_recibido [OF c assms(2)]) (simp add: gestionarNuevasConexiones_def Let_def)
qed

text \<open>
  C19. A program from its file to the kernel and back: the kernel makes a new process with
  exactly the instructions the console read, and the console ends with the message of the
  error the kernel ends the process with, or with success when the process exits.
\<close>

theorem consola_de_punta_a_punta:
  assumes ws: "leer_pseudocodigo archivo = Inr ws" "int32_ok (int (length (concat (map enc_bloque ws))))"
    and nueva: "para_consola p k = []" and msj: "es_c_str msj" "cadena_ok msj"
  shows "\<exists>k' envio. gestionarNuevasConexiones p envio k = Inr k' \<and>
    map_option pcb_instrucciones (dictionary_get (pcbs k') p) = Some ws \<and> consolasNew k' = consolasNew k @ [p] \<and>
    consola_main archivo (para_consola p (finalizar_con_error msj p k')) = Inr (envio, Con_error msj) \<and>
    consola_main archivo (para_consola p (enviar_consola p (enviar_int (op_num EXIT)) k')) = Inr (envio, Con_exito)"
proof -
  let ?envio = "enviar_int 1 @ paquete_instrucciones ws"
  obtain k' where k': "gestionarNuevasConexiones p ?envio k = Inr k'"
    "map_option pcb_instrucciones (dictionary_get (pcbs k') p) = Some ws" "consolasNew k' = consolasNew k @ [p]"
    "para_consola p k' = enviar_int 1"
    using recibir_programa [OF ws, of p k] nueva
    by (auto simp: Let_def enviar_consola_def para_consola_def)
  have e: "para_consola p (enviar_consola p bs k0) = para_consola p k0 @ bs"
    "para_consola p (k0\<lparr>consolasExit := q\<rparr>) = para_consola p k0" for bs k0 q
    by (simp_all add: para_consola_def enviar_consola_def)
  have "leer_c_str (bloque_de msj) = Inr msj" using msj(1) by (simp add: leer_c_str_def) (simp add: bloque_de_def)
  then have "consola_main archivo (para_consola p (finalizar_con_error msj p k')) = Inr (?envio, Con_error msj)"
    using ws(1) recibir_mensaje_enc [OF msj(2)]
    by (simp add: finalizar_con_error_def Let_def e k'(4) consola_main_def enviar_int_def [of 1] enviar_int_def [of "op_num ERROR"] del: op_num.simps)
  moreover have "consola_main archivo (para_consola p (enviar_consola p (enviar_int (op_num EXIT)) k')) = Inr (?envio, Con_exito)"
    using ws(1) recibir_operacion_enc [of "op_num EXIT" "[]"]
    by (simp add: e k'(4) consola_main_def enviar_int_def del: op_num.simps)
  ultimately show ?thesis using k' by blast
qed

definition ker_vacio :: kernel where
  "ker_vacio = ker_inicial 2 [] \<lparr>user_space = replicate 40 (CHR '' ''), huecos_libres = [\<lparr>h_pos = 0, h_size = 40\<rparr>],
     segmentos = [], tabla_inicial = [], diccionario_tablas = []\<rparr>
     \<lparr>datos_bloques = [], bitmap = [], listaFCB = [], directorio = []\<rparr>"

theorem consola_de_punta_a_punta_witness:
  "\<exists>k' envio. gestionarNuevasConexiones 5 envio ker_vacio = Inr k' \<and>
    map_option pcb_instrucciones (dictionary_get (pcbs k') 5) = Some [''EXIT''] \<and> consolasNew k' = consolasNew ker_vacio @ [5] \<and>
    consola_main (Some ''EXIT'') (para_consola 5 (finalizar_con_error ''Out of Memory'' 5 k')) = Inr (envio, Con_error ''Out of Memory'') \<and>
    consola_main (Some ''EXIT'') (para_consola 5 (enviar_consola 5 (enviar_int (op_num EXIT)) k')) = Inr (envio, Con_exito)"
proof (rule consola_de_punta_a_punta)
  show "leer_pseudocodigo (Some ''EXIT'') = Inr [''EXIT'']"
    using leer_lineas_texto [of "[]" "''EXIT''"]
    by (simp add: linea_ok_def es_c_str_def MAX_LINE_LENGTH_def texto_de_def leer_pseudocodigo_def)
qed (simp_all add: enc_bloque_def para_consola_def ker_vacio_def ker_inicial_def es_c_str_def cadena_ok_def)

end
