(* ===== verification/Ker_Lugares.thy ===== *)
theory Ker_Lugares
  imports Ker_Hilos
begin

text \<open>
  Where every process is. \<open>lugares\<close> counts, for each PID, its occurrences in the queues of the
  kernel, the queues of resources and files, the timers and the scheduler thread; \<open>mueve M k k'\<close>
  says that a call adds the processes \<open>M\<close> to them and takes none out. A handler that has a
  process in hand always puts it back in exactly one place.
\<close>

section \<open>Dictionaries of queues\<close>

definition miembros :: "('k, 'v list) dict \<Rightarrow> 'v multiset" where
  "miembros d = mset (concat (map snd d))"

lemma dictionary_remove_new: "dictionary_get d n = None \<Longrightarrow> dictionary_remove d n = d"
  by (induction d) (auto simp: dictionary_get_def dictionary_remove_def split: if_splits)

lemma miembros_put:
  assumes "dict_ok d"
  shows "miembros (dictionary_put d n q) + mset (cola_o_nada d n) = miembros d + mset q"
proof (cases "dictionary_get d n")
  case None
  then show ?thesis by (simp add: cola_o_nada_def miembros_def dictionary_put_new)
next
  case (Some l)
  from dictionary_split [OF assms Some] obtain pre post where "d = pre @ (n, l) # post"
    "\<forall>w. dictionary_put d n w = pre @ (n, w) # post" by metis
  then show ?thesis using Some by (simp add: miembros_def cola_o_nada_def)
qed

lemma miembros_remove:
  assumes "dict_ok d"
  shows "miembros (dictionary_remove d n) + mset (cola_o_nada d n) = miembros d"
proof (cases "dictionary_get d n")
  case None
  then show ?thesis by (simp add: cola_o_nada_def dictionary_remove_new)
next
  case (Some l)
  from dictionary_split [OF assms Some] obtain pre post where "d = pre @ (n, l) # post"
    "dictionary_remove d n = pre @ post" by metis
  then show ?thesis using Some by (simp add: miembros_def cola_o_nada_def)
qed

section \<open>The places of a process\<close>

definition en_hilo :: "hilo \<Rightarrow> int multiset" where
  "en_hilo h = (case h of Libre \<Rightarrow> {#} | En_cpu p \<Rightarrow> {#p#} | Esperando_permiso p _ _ \<Rightarrow> {#p#})"

lemma en_hilo_simps [simp]:
  "en_hilo Libre = {#}" "en_hilo (En_cpu p) = {#p#}" "en_hilo (Esperando_permiso p i t) = {#p#}"
  by (simp_all add: en_hilo_def)

definition lugares :: "kernel \<Rightarrow> int multiset" where
  "lugares k = mset (consolasNew k) + mset (consolasReady k) + mset (consolasExit k)
     + mset (map un_pcb (consolasBlocked k)) + mset (en_io k) + en_hilo (running k)
     + miembros (recursosEnUso k) + miembros (diccionario_colas_archivos k)"

text \<open>
  Every queue of a file belongs to a file in the table of open files: opening a file makes a new
  queue for it, and overwriting one that is in use would lose the processes in it.
\<close>

definition colas_cubiertas :: "kernel \<Rightarrow> bool" where
  "colas_cubiertas k \<longleftrightarrow> (\<forall>n. dictionary_get (diccionario_colas_archivos k) n \<noteq> None \<longrightarrow>
     (\<exists>i \<in> set (GDT k). i < length (descriptores k) \<and> (\<exists>d. descriptores k ! i = Some d \<and> file_name d = n)))"

definition dicts_ok :: "kernel \<Rightarrow> bool" where
  "dicts_ok k \<longleftrightarrow> dict_ok (recursosEnUso k) \<and> dict_ok (diccionario_colas_archivos k) \<and> colas_cubiertas k"

lemma colas_cubiertas_igual:
  "GDT k' = GDT k \<Longrightarrow> descriptores k' = descriptores k \<Longrightarrow>
    diccionario_colas_archivos k' = diccionario_colas_archivos k \<Longrightarrow> colas_cubiertas k' = colas_cubiertas k"
  by (simp add: colas_cubiertas_def)

definition mueve :: "int multiset \<Rightarrow> kernel \<Rightarrow> kernel \<Rightarrow> bool" where
  "mueve M k k' \<longleftrightarrow> (dicts_ok k \<longrightarrow> dicts_ok k' \<and> lugares k' = lugares k + M) \<and>
     map fst (pcbs k') = map fst (pcbs k) \<and> global_PCB_list k' = global_PCB_list k \<and>
     consolasNew k' = consolasNew k \<and> hayEspacioReady k' = hayEspacioReady k"

lemma mueve_trans: "mueve M k k1 \<Longrightarrow> mueve N k1 k2 \<Longrightarrow> mueve (M + N) k k2"
  by (auto simp: mueve_def)

lemma mueve_luego: "mueve {#} k k1 \<Longrightarrow> mueve N k1 k2 \<Longrightarrow> mueve N k k2"
  using mueve_trans [of "{#}"] by fastforce

lemma mueve_antes: "mueve M k k1 \<Longrightarrow> mueve {#} k1 k2 \<Longrightarrow> mueve M k k2"
  using mueve_trans [of M k k1 "{#}"] by fastforce

lemma mueve_refl [simp]: "mueve {#} k k"
  by (simp add: mueve_def)

text \<open>Updates of fields that no place depends on, and the rules to chain the steps of a handler.\<close>

lemma mueve_campos [simp]:
  "mueve {#} k (k\<lparr>memoria_mod := m\<rparr>)" "mueve {#} k (k\<lparr>fs_mod := f\<rparr>)"
  "mueve {#} k (k\<lparr>fs_mod := f, memoria_mod := m\<rparr>)"
  "mueve {#} k (k\<lparr>a_consolas := a\<rparr>)"
  "mueve {#} k (k\<lparr>recursosDisponibles := r\<rparr>)" "mueve {#} k (k\<lparr>recursos_por_proceso := rp\<rparr>)"
  "mueve {#} k (k\<lparr>compaction_required := c\<rparr>)" "mueve {#} k (k\<lparr>compaction_permission := n\<rparr>)"
  "mueve {#} k (k\<lparr>compactionBlockers := b\<rparr>)"
  by (simp_all add: mueve_def lugares_def dicts_ok_def colas_cubiertas_def)

lemma mueve_ready [simp]:
  "mueve {#p#} k (ready_al_final p k)" "mueve {#p#} k (ready_al_inicio p k)"
  by (simp_all add: mueve_def lugares_def dicts_ok_def colas_cubiertas_def ready_al_final_def ready_al_inicio_def)

lemma mueve_exit [simp]: "mueve {#p#} k (k\<lparr>consolasExit := consolasExit k @ [p]\<rparr>)"
  by (simp add: mueve_def lugares_def dicts_ok_def colas_cubiertas_def)

lemma mueve_error [simp]: "mueve {#p#} k (finalizar_con_error msj p k)"
  unfolding finalizar_con_error_def Let_def enviar_consola_def
  by (intro mueve_luego [OF mueve_campos(4) mueve_luego [OF mueve_campos(4) mueve_exit]])

lemma mueve_pcb:
  assumes "cambiar_pcb p f k = Inr k'"
  shows "mueve {#} k k'" "running k' = running k"
  using assms
  by (auto simp: cambiar_pcb_def bind_res_Inr_iff pcb_de_def mueve_def lugares_def dicts_ok_def colas_cubiertas_def claves_put
      split: option.splits)

lemma mueve_mas [intro]:
  "mueve {#} k k1 \<Longrightarrow> mueve {#p#} k (ready_al_final p k1)" "mueve {#} k k1 \<Longrightarrow> mueve {#p#} k (ready_al_inicio p k1)"
  "mueve {#} k k1 \<Longrightarrow> mueve {#p#} k (finalizar_con_error msj p k1)"
  "mueve {#} k k1 \<Longrightarrow> mueve {#p#} k (k1\<lparr>consolasExit := consolasExit k1 @ [p]\<rparr>)"
  by (auto intro: mueve_luego)

lemma mueve_campo [intro]:
  "mueve M k k1 \<Longrightarrow> mueve M k (k1\<lparr>memoria_mod := m\<rparr>)" "mueve M k k1 \<Longrightarrow> mueve M k (k1\<lparr>fs_mod := f, memoria_mod := m\<rparr>)"
  "mueve M k k1 \<Longrightarrow> mueve M k (k1\<lparr>a_consolas := a\<rparr>)"
  "mueve M k k1 \<Longrightarrow> mueve M k (k1\<lparr>recursosDisponibles := r\<rparr>)"
  "mueve M k k1 \<Longrightarrow> mueve M k (k1\<lparr>recursos_por_proceso := rp\<rparr>)" "mueve M k k1 \<Longrightarrow> mueve M k (k1\<lparr>compaction_required := c\<rparr>)"
  "mueve M k k1 \<Longrightarrow> mueve M k (k1\<lparr>compaction_permission := n\<rparr>)" "mueve M k k1 \<Longrightarrow> mueve M k (k1\<lparr>compactionBlockers := b\<rparr>)"
  by (auto intro: mueve_antes)

section \<open>Resources\<close>

lemma mueve_encolar_recurso:
  "mueve {#p#} k (k\<lparr>recursosEnUso := dictionary_put (recursosEnUso k) r (cola_o_nada (recursosEnUso k) r @ [p])\<rparr>)"
proof -
  have "miembros (dictionary_put (recursosEnUso k) r (cola_o_nada (recursosEnUso k) r @ [p]))
      = add_mset p (miembros (recursosEnUso k))" if "dict_ok (recursosEnUso k)"
    using miembros_put [OF that, of r "cola_o_nada (recursosEnUso k) r @ [p]"] by simp
  then show ?thesis by (simp add: mueve_def lugares_def dicts_ok_def colas_cubiertas_def)
qed

lemma mueve_registrar: "registrarRecursosDelProceso cm r p k = Inr k' \<Longrightarrow> mueve {#} k k'"
  by (auto simp: registrarRecursosDelProceso_def Let_def split: if_splits option.splits)

lemma mueve_wait:
  assumes "wait_recurso_lista cm r p k = Inr k'"
  shows "mueve {#p#} k k'"
proof (cases "dictionary_get (recursosDisponibles k) r")
  case None
  then show ?thesis using assms by (auto simp: wait_recurso_lista_def)
next
  case (Some n)
  obtain k1 where k1: "registrarRecursosDelProceso cm r p k = Inr k1"
    using assms Some by (auto simp: wait_recurso_lista_def bind_res_Inr_iff)
  note m = mueve_registrar [OF k1]
  show ?thesis
  proof (cases "1 \<le> n")
    case True
    then have "k' = ready_al_inicio p (k1\<lparr>recursosDisponibles := dictionary_put (recursosDisponibles k1) r (n - 1)\<rparr>)"
      using assms Some k1 by (simp add: wait_recurso_lista_def)
    then show ?thesis using mueve_campo(4) [OF m] by auto
  next
    case False
    then show ?thesis using assms Some k1 mueve_luego [OF m mueve_encolar_recurso, of p r]
      by (simp add: wait_recurso_lista_def)
  qed
qed

lemma mueve_quitar: "quitarRecursoDelProceso cm r p k = Inr k' \<Longrightarrow> mueve {#} k k'"
  by (auto simp: quitarRecursoDelProceso_def split: option.splits)

lemma mueve_liberar_recurso:
  assumes "liberar_recurso_y_actualizar_ready r k = Inr k'"
  shows "mueve {#} k k'"
proof (cases "dictionary_get (recursosEnUso k) r")
  case None
  then show ?thesis using assms by (auto simp: liberar_recurso_y_actualizar_ready_def split: option.splits)
next
  case (Some q)
  obtain x xs where q: "q = x # xs" and k': "k' = ready_al_final x (k\<lparr>recursosEnUso :=
      if xs = [] then dictionary_remove (recursosEnUso k) r else dictionary_put (recursosEnUso k) r xs\<rparr>)"
    using assms Some by (auto simp: liberar_recurso_y_actualizar_ready_def split: option.splits list.splits)
  have c: "cola_o_nada (recursosEnUso k) r = x # xs" using Some q by (simp add: cola_o_nada_def)
  have "dict_ok (recursosEnUso k) \<Longrightarrow> dict_ok (recursosEnUso k') \<and>
      add_mset x (miembros (recursosEnUso k')) = miembros (recursosEnUso k)"
    using miembros_put [of "recursosEnUso k" r xs] miembros_remove [of "recursosEnUso k" r]
    by (auto simp: k' c ready_al_final_def)
  then show ?thesis
    by (auto simp: mueve_def lugares_def dicts_ok_def colas_cubiertas_def k' ready_al_final_def)
qed

lemma mueve_signal: "signal_recurso_lista cm r p k = Inr k' \<Longrightarrow> mueve {#p#} k k'"
  by (auto simp: signal_recurso_lista_def bind_res_Inr_iff split: if_splits
      intro: mueve_antes [OF mueve_mas(2) [OF mueve_quitar] mueve_liberar_recurso])

lemma mueve_liberar_recursos: "liberar_recursos rs k = Inr k' \<Longrightarrow> mueve {#} k k'"
  by (induction rs arbitrary: k)
    (auto simp: bind_res_Inr_iff intro: mueve_luego [OF mueve_liberar_recurso])

lemma mueve_liberar_proceso: "liberarRecursosDelProceso c k = Inr k' \<Longrightarrow> mueve {#} k k'"
  by (auto simp: liberarRecursosDelProceso_def bind_res_Inr_iff simp del: liberar_recursos.simps
      split: option.splits list.splits intro: mueve_liberar_recursos)

section \<open>Memory\<close>

lemma map_res_Some: "map_res f x = Some (Inr y) \<longleftrightarrow> (\<exists>z. x = Some (Inr z) \<and> f z = Inr y)"
  by (auto simp: map_res_def bind_res_Inr_iff)

lemma mueve_pedir_memoria:
  assumes "pedir_memoria cm mcfg bs k = Some (Inr (k', r))"
  shows "mueve {#} k k'" "running k' = running k"
  using assms by (auto simp: pedir_memoria_def bind_res_Inr_iff)

lemma mueve_pedir_tabla:
  assumes "pedir_tabla cm mcfg bs p k = Some (Inr (k', flag))"
  shows "mueve {#} k k'" "running k' = running k"
proof -
  obtain k1 resp f where a: "pedir_memoria cm mcfg bs k = Some (Inr (k1, resp))" "cambiar_pcb p f k1 = Inr k'"
    using assms by (auto simp: pedir_tabla_def map_res_Some bind_res_Inr_iff)
  then show "mueve {#} k k'" "running k' = running k"
    using mueve_pedir_memoria [OF a(1)] mueve_pcb [OF a(2)] by (auto intro: mueve_luego)
qed

lemma mueve_actualizar:
  assumes "actualizar_tablas ts k = Inr k'"
  shows "mueve {#} k k' \<and> running k' = running k"
  using assms
proof (induction ts k rule: actualizar_tablas.induct)
  case (2 PID tabla ts k)
  then obtain k1 where k1: "cambiar_pcb PID (\<lambda>b. b\<lparr>pcb_tablaSegmentos := tabla\<rparr>) k = Inr k1" "actualizar_tablas ts k1 = Inr k'"
    and "PID \<in> set (global_PCB_list k)"
    by (auto simp: bind_res_Inr_iff split: if_splits)
  then show ?case using 2(1) [of k1] mueve_pcb [OF k1(1)] by (auto intro: mueve_luego)
qed simp

lemma mueve_compactar:
  assumes "compactar_memoria cm mcfg k = Some (Inr k')"
  shows "mueve {#} k k'" "running k' = running k"
proof -
  obtain k1 resp ts where a: "pedir_memoria cm mcfg (enviar_int (op_num COMPACTION)) k = Some (Inr (k1, resp))"
    "actualizar_tablas ts k1 = Inr k'"
    using assms by (auto simp: compactar_memoria_def map_res_Some recibir_tablas_compactadas_def bind_res_Inr_iff)
  then show "mueve {#} k k'" "running k' = running k"
    using mueve_pedir_memoria [OF a(1)] mueve_actualizar [OF a(2)] by (auto intro: mueve_luego)
qed

text \<open>
  The answers of the memory module to \<open>CREATE_SEGMENT\<close> are 0, 1 or -1: with another one the
  process would be lost.
\<close>

lemma crear_segmento_flag:
  assumes "mem_create_segment cm mcfg m c segID tam = Inr (m', resp)"
  obtains tabla flag where "resp = send_tabla_segmentos tabla flag" "flag \<in> {0, 1, -1}"
proof (cases "dictionary_get (diccionario_tablas m) c")
  case None
  then show thesis using assms that by (auto simp: mem_create_segment_def bind_res_Inr_iff)
next
  case (Some t)
  then obtain m1 t1 ret ss where c: "calloc_segment cm mcfg m t segID tam = Inr (m1, t1, ret)"
    "resp = send_tabla_segmentos ss ret"
    using assms by (auto simp: mem_create_segment_def bind_res_Inr_iff)
  have "ret \<in> {0, 1, -1}"
    using c(1) by (auto simp: calloc_segment_def bind_res_Inr_iff Let_def case_prod_beta split: option.splits if_splits)
  then show thesis using c(2) that by blast
qed

lemma newsegment_operacion:
  "\<exists>s. recibir_operacion (send_newsegment_petition p segID tam) = Inr (op_num CREATE_SEGMENT, s)"
proof -
  have "send_newsegment_petition p segID tam = enc_int (op_num CREATE_SEGMENT) @ enc_int 12 @ enc_int p @ enc_int segID @ enc_int tam"
    by (simp add: send_newsegment_petition_def enviar_paquete_def wire_simps) (simp add: crear_paquete_contexto_def)
  then show ?thesis by (simp del: op_num.simps)
qed

lemma atender_crear_flag:
  assumes "atender_kernel cm mcfg m (send_newsegment_petition p segID tam) = Some (Inr (m', resp, s))"
    "recv_tabla_segmentos resp = Inr ((flag, tabla), s')"
  shows "flag \<in> {0, 1, -1}"
proof -
  obtain s1 where "recibir_operacion (send_newsegment_petition p segID tam) = Inr (op_num CREATE_SEGMENT, s1)"
    using newsegment_operacion by blast
  then obtain c i t where "mem_create_segment cm mcfg m c i t = Inr (m', resp)"
    using assms(1) by (auto simp: atender_kernel_def bind_res_Inr_iff simp del: op_num.simps)
  then obtain ta f where f: "resp = send_tabla_segmentos ta f" "f \<in> {0, 1, -1}"
    by (rule crear_segmento_flag)
  then have "int32_ok f" by (auto simp: int32_ok_def)
  then have "recibir_operacion resp = Inr (f, enc_int (4 + 12 * int (length ta)) @ enc_int (int (length ta)) @ concat (map enc_segmento ta))"
    unfolding f(1) send_tabla_bytes by (rule recibir_operacion_enc)
  then show ?thesis using assms(2) f(2) by (auto simp: recv_tabla_segmentos_def bind_res_Inr_iff)
qed

lemma pedir_tabla_flag:
  assumes "pedir_tabla cm mcfg (send_newsegment_petition p segID tam) p k = Some (Inr (k', flag))"
  shows "flag \<in> {0, 1, -1}"
  using assms by (auto simp: pedir_tabla_def pedir_memoria_def map_res_Some bind_res_Inr_iff dest: atender_crear_flag)

text \<open>
  \<open>create_segment\<close>, whatever the number of compactions: when it ends, the process is in the
  ready queue, at its end, or the thread waits with it.
\<close>

lemma mueve_esperando: "running k = Libre \<Longrightarrow> mueve {#p#} k (k\<lparr>running := Esperando_permiso p i t\<rparr>)"
  by (simp add: mueve_def lugares_def dicts_ok_def colas_cubiertas_def)

text \<open>One call of \<open>create_segment\<close>, from its result.\<close>

definition pide_compactacion :: "kernel \<Rightarrow> kernel" where
  "pide_compactacion k = (let k2 = k\<lparr>compaction_required := True\<rparr>
     in if compactionBlockers k2 > 0 then k2\<lparr>compaction_permission := compaction_permission k2 - 1\<rparr> else k2)"

lemma pide_compactacion_ok: "mueve {#} k (pide_compactacion k)" "running (pide_compactacion k) = running k"
  by (auto simp: pide_compactacion_def Let_def)

lemma create_segment_casos:
  assumes b: "Option.bind (pedir_tabla cm mcfg (send_newsegment_petition p segID tam) p k) (\<lambda>r.
       case r of
         Inl e \<Rightarrow> Some (Inl e)
       | Inr (k1, flag) \<Rightarrow>
           if flag = 1 then
             (let k2 = k1\<lparr>compaction_required := True\<rparr>
              in if compactionBlockers k2 > 0 \<and> compaction_permission k2 = 0
                 then Some (Inr (k2\<lparr>running := Esperando_permiso p segID tam\<rparr>))
                 else Option.bind (compactar_memoria cm mcfg
                        (if compactionBlockers k2 > 0 then k2\<lparr>compaction_permission := compaction_permission k2 - 1\<rparr> else k2))
                      (\<lambda>r. case r of Inl e \<Rightarrow> Some (Inl e) | Inr k3 \<Rightarrow> F k3))
           else if flag = 0 then Some (Inr (ready_al_inicio p k1))
           else if flag = -1 then Some (Inr (finalizar_con_error ''Out of Memory'' p k1))
           else Some (Inr k1)) = Some (Inr k')"
  obtains (listo) k1 where "pedir_tabla cm mcfg (send_newsegment_petition p segID tam) p k = Some (Inr (k1, 0))"
      "k' = ready_al_inicio p k1"
    | (sin_memoria) k1 where "pedir_tabla cm mcfg (send_newsegment_petition p segID tam) p k = Some (Inr (k1, -1))"
      "k' = finalizar_con_error ''Out of Memory'' p k1"
    | (espera) k1 where "pedir_tabla cm mcfg (send_newsegment_petition p segID tam) p k = Some (Inr (k1, 1))"
      "0 < compactionBlockers k1" "compaction_permission k1 = 0"
      "k' = k1\<lparr>compaction_required := True, running := Esperando_permiso p segID tam\<rparr>"
    | (compacta) k1 k3 where "pedir_tabla cm mcfg (send_newsegment_petition p segID tam) p k = Some (Inr (k1, 1))"
      "compactar_memoria cm mcfg (pide_compactacion k1) = Some (Inr k3)" "F k3 = Some (Inr k')"
proof -
  obtain y where y: "pedir_tabla cm mcfg (send_newsegment_petition p segID tam) p k = Some y"
    using b by (cases "pedir_tabla cm mcfg (send_newsegment_petition p segID tam) p k") simp_all
  obtain k1 flag where "y = Inr (k1, flag)" using b y by (cases y) auto
  then have t: "pedir_tabla cm mcfg (send_newsegment_petition p segID tam) p k = Some (Inr (k1, flag))" using y by simp
  have f: "flag \<in> {0, 1, -1}" by (rule pedir_tabla_flag [OF t])
  show thesis
  proof (cases "flag = 1")
    case True
    show thesis
    proof (cases "compactionBlockers k1 > 0 \<and> compaction_permission k1 = 0")
      case espera: True
      then show thesis using that(3) t True b by simp
    next
      case False
      then have c: "Option.bind (compactar_memoria cm mcfg (pide_compactacion k1))
          (\<lambda>r. case r of Inl e \<Rightarrow> Some (Inl e) | Inr k3 \<Rightarrow> F k3) = Some (Inr k')"
        using b by (auto simp: t True Let_def pide_compactacion_def split: if_splits)
      then obtain z where z: "compactar_memoria cm mcfg (pide_compactacion k1) = Some z"
        by (cases "compactar_memoria cm mcfg (pide_compactacion k1)") simp_all
      then obtain k3 where "compactar_memoria cm mcfg (pide_compactacion k1) = Some (Inr k3)" "F k3 = Some (Inr k')"
        using c by (cases z) simp_all
      then show thesis using that(4) t True by simp
    qed
  next
    case False
    then show thesis using that(1,2) f t b by auto
  qed
qed

lemma mueve_create_segment_ind:
  assumes "ker_create_segment cm mcfg p segID tam k = Some r"
  shows "running k = Libre \<longrightarrow> (\<forall>k'. r = Inr k' \<longrightarrow> mueve {#p#} k k')"
  using assms
proof (rule ker_create_segment.raw_induct [where P = "\<lambda>cm mcfg p segID tam k r.
    running k = Libre \<longrightarrow> (\<forall>k'. r = Inr k' \<longrightarrow> mueve {#p#} k k')", rotated], goal_cases)
  case (1 F cm mcfg p segID tam k r)
  show ?case
  proof (intro impI allI)
    fix k' assume lib: "running k = Libre" and r: "r = Inr k'"
    note t = mueve_pedir_tabla
    from 1(2) [unfolded r] show "mueve {#p#} k k'"
    proof (cases rule: create_segment_casos)
      case (listo k1)
      then show ?thesis using t [OF listo(1)] by auto
    next
      case (sin_memoria k1)
      then show ?thesis using t [OF sin_memoria(1)] by auto
    next
      case (espera k1)
      have "mueve {#} k (k1\<lparr>compaction_required := True\<rparr>)" using t(1) [OF espera(1)] by auto
      moreover have "running (k1\<lparr>compaction_required := True\<rparr>) = Libre" using t(2) [OF espera(1)] lib by simp
      ultimately show ?thesis using mueve_luego mueve_esperando espera(4) by fastforce
    next
      case (compacta k1 k3)
      have m: "mueve {#} k k3" "running k3 = Libre"
        using t [OF compacta(1)] mueve_compactar [OF compacta(2)] pide_compactacion_ok [of k1] lib
        by (auto intro: mueve_luego)
      then show ?thesis using 1(1) [OF compacta(3)] by (auto intro: mueve_luego)
    qed
  qed
qed

lemma mueve_create_segment:
  "ker_create_segment cm mcfg p segID tam k = Some (Inr k') \<Longrightarrow> running k = Libre \<Longrightarrow> mueve {#p#} k k'"
  using mueve_create_segment_ind by blast

section \<open>Files\<close>

lemma mueve_pedir_fs: "pedir_fs cm fcfg bs k = Inr (k', r) \<Longrightarrow> mueve {#} k k'"
  by (auto simp: pedir_fs_def bind_res_Inr_iff)

lemma colas_cubiertasI:
  assumes "\<And>n. dictionary_get (diccionario_colas_archivos k) n \<noteq> None \<Longrightarrow>
     \<exists>i d. i \<in> set (GDT k) \<and> i < length (descriptores k) \<and> descriptores k ! i = Some d \<and> file_name d = n"
  shows "colas_cubiertas k"
  unfolding colas_cubiertas_def using assms by blast

lemma colas_cubiertasD:
  assumes "colas_cubiertas k" "dictionary_get (diccionario_colas_archivos k) n \<noteq> None"
  obtains i d where "i \<in> set (GDT k)" "i < length (descriptores k)" "descriptores k ! i = Some d" "file_name d = n"
  using assms unfolding colas_cubiertas_def by blast

lemma mueve_abrir_nuevo:
  assumes nuevo: "\<forall>i \<in> set (GDT k). \<exists>d. descriptor_de k i = Inr d \<and> file_name d \<noteq> name"
  shows "mueve {#} k (k\<lparr>diccionario_colas_archivos := dictionary_put (diccionario_colas_archivos k) name [],
     descriptores := descriptores k @ [Some \<lparr>file_name = name, pointer = 0\<rparr>],
     fs_mod := f, memoria_mod := m, GDT := GDT k @ [length (descriptores k)]\<rparr>)" (is "mueve {#} k ?k")
proof -
  have sin: "dictionary_get (diccionario_colas_archivos k) name = None" if c: "colas_cubiertas k"
  proof (rule ccontr)
    assume "dictionary_get (diccionario_colas_archivos k) name \<noteq> None"
    with c obtain i d where "i \<in> set (GDT k)" "i < length (descriptores k)" "descriptores k ! i = Some d" "file_name d = name"
      by (rule colas_cubiertasD)
    moreover from this obtain d' where "descriptor_de k i = Inr d'" "file_name d' \<noteq> name" using nuevo by blast
    ultimately show False by (simp add: descriptor_de_def)
  qed
  have "colas_cubiertas ?k" if c: "colas_cubiertas k"
  proof (rule colas_cubiertasI)
    fix n assume n: "dictionary_get (diccionario_colas_archivos ?k) n \<noteq> None"
    show "\<exists>i d. i \<in> set (GDT ?k) \<and> i < length (descriptores ?k) \<and> descriptores ?k ! i = Some d \<and> file_name d = n"
    proof (cases "n = name")
      case True
      then show ?thesis by (intro exI [of _ "length (descriptores k)"]) simp
    next
      case False
      then have "dictionary_get (diccionario_colas_archivos k) n \<noteq> None" using n by simp
      with c obtain i d where "i \<in> set (GDT k)" "i < length (descriptores k)" "descriptores k ! i = Some d" "file_name d = n"
        by (rule colas_cubiertasD)
      then show ?thesis by (intro exI [of _ i] exI [of _ d]) (simp add: nth_append)
    qed
  qed
  moreover have "miembros (diccionario_colas_archivos ?k) = miembros (diccionario_colas_archivos k)"
    if "dicts_ok k"
    using miembros_put [of "diccionario_colas_archivos k" name "[]"] sin that by (simp add: dicts_ok_def cola_o_nada_def)
  ultimately show ?thesis by (auto simp: mueve_def lugares_def dicts_ok_def)
qed

lemma mueve_encolar_archivo:
  assumes "dictionary_get (diccionario_colas_archivos k) n = Some q"
  shows "mueve {#p#} k (k\<lparr>diccionario_colas_archivos := dictionary_put (diccionario_colas_archivos k) n (q @ [p])\<rparr>)"
  using miembros_put [of "diccionario_colas_archivos k" n "q @ [p]"] assms
  by (auto simp: mueve_def lugares_def dicts_ok_def colas_cubiertas_def cola_o_nada_def)

lemma mueve_liberar_archivo:
  assumes "liberar_archivo i k = Inr k'"
  shows "mueve {#} k k'"
proof -
  obtain d q where d: "descriptor_de k i = Inr d" "dictionary_get (diccionario_colas_archivos k) (file_name d) = Some q"
    using assms by (auto simp: liberar_archivo_def cola_de_archivo_def bind_res_Inr_iff split: option.splits)
  let ?c = "diccionario_colas_archivos k" and ?n = "file_name d"
  have di: "descriptores k ! i = Some d" using d(1) by (auto simp: descriptor_de_def split: if_splits option.splits)
  show ?thesis
  proof (cases q)
    case Nil
    then have k': "k' = k\<lparr>GDT := remove1 i (GDT k), diccionario_colas_archivos := dictionary_remove ?c ?n,
        descriptores := (descriptores k)[i := None]\<rparr>"
      using assms d by (simp add: liberar_archivo_def cola_de_archivo_def)
    have "colas_cubiertas k'" if c: "colas_cubiertas k"
      unfolding colas_cubiertas_def
    proof (intro allI impI)
      fix n assume "dictionary_get (diccionario_colas_archivos k') n \<noteq> None"
      then have n: "n \<noteq> ?n" "dictionary_get ?c n \<noteq> None" by (auto simp: k' split: if_splits)
      then obtain j e where j: "j \<in> set (GDT k)" "j < length (descriptores k)" "descriptores k ! j = Some e" "file_name e = n"
        using c by (auto simp: colas_cubiertas_def)
      then have "j \<noteq> i" using di n(1) by auto
      then show "\<exists>i \<in> set (GDT k'). i < length (descriptores k') \<and> (\<exists>d. descriptores k' ! i = Some d \<and> file_name d = n)"
        using j by (auto simp: k' intro!: bexI [of _ j])
    qed
    then show ?thesis using miembros_remove [of ?c ?n] d(2) Nil
      by (auto simp: mueve_def lugares_def dicts_ok_def cola_o_nada_def k')
  next
    case (Cons x xs)
    then have k': "k' = ready_al_final x (k\<lparr>diccionario_colas_archivos := dictionary_put ?c ?n xs\<rparr>)"
      using assms d by (simp add: liberar_archivo_def cola_de_archivo_def)
    have "colas_cubiertas k'" if "colas_cubiertas k"
      using that d(2) by (auto simp: colas_cubiertas_def k' ready_al_final_def)
    then show ?thesis using miembros_put [of ?c ?n xs] d(2) Cons
      by (auto simp: mueve_def lugares_def dicts_ok_def cola_o_nada_def k' ready_al_final_def)
  qed
qed

lemma mueve_cerrar_archivos: "cerrar_archivos is k = Inr k' \<Longrightarrow> mueve {#} k k'"
  by (induction "is" arbitrary: k) (auto simp: bind_res_Inr_iff intro: mueve_luego [OF mueve_liberar_archivo])

lemma mueve_f_close: "process_f_close params p k = Inr k' \<Longrightarrow> mueve {#p#} k k'"
  by (auto simp: process_f_close_def bind_res_Inr_iff split: option.splits
      intro: mueve_antes [OF mueve_mas(1) [OF mueve_pcb(1)] mueve_liberar_archivo])

lemma buscar_descriptor_None:
  "buscar_descriptor k name is = Inr None \<Longrightarrow> i \<in> set is \<Longrightarrow> \<exists>d. descriptor_de k i = Inr d \<and> file_name d \<noteq> name"
  by (induction "is") (auto simp: bind_res_Inr_iff split: if_splits)

lemma buscar_descriptor_Some:
  "buscar_descriptor k name is = Inr (Some i) \<Longrightarrow> i \<in> set is \<and> (\<exists>d. descriptor_de k i = Inr d \<and> file_name d = name)"
  by (induction "is") (auto simp: bind_res_Inr_iff split: if_splits)

lemma mueve_f_open:
  assumes o: "process_f_open cm fcfg params p k = Inr k'"
  shows "mueve {#p#} k k'"
proof -
  obtain name encontrado where n: "parametro params 0 = Inr name" "buscar_descriptor k name (GDT k) = Inr encontrado"
    using o by (auto simp: process_f_open_def bind_res_Inr_iff)
  show ?thesis
  proof (cases encontrado)
    case None
    let ?k1 = "k\<lparr>diccionario_colas_archivos := dictionary_put (diccionario_colas_archivos k) name [],
         descriptores := descriptores k @ [Some \<lparr>file_name = name, pointer = 0\<rparr>]\<rparr>"
    obtain k2 f k3 where a: "pedir_fs cm fcfg (consulting_file_system name) ?k1 = Inr (k2, 1)"
      "cambiar_pcb p f (k2\<lparr>GDT := GDT k2 @ [length (descriptores k)]\<rparr>) = Inr k3" "k' = ready_al_inicio p k3"
      using o n None by (auto simp: process_f_open_def Let_def bind_res_Inr_iff split: if_splits)
    obtain f' m' where k2: "k2 = ?k1\<lparr>fs_mod := f', memoria_mod := m'\<rparr>"
      using a(1) by (auto simp: pedir_fs_def bind_res_Inr_iff)
    have "mueve {#} k (k2\<lparr>GDT := GDT k2 @ [length (descriptores k)]\<rparr>)"
      using mueve_abrir_nuevo [of k name, where f = f' and m = m'] buscar_descriptor_None [OF n(2) [unfolded None]] unfolding k2 by simp
    from mueve_luego [OF this mueve_pcb(1) [OF a(2)]] show ?thesis unfolding a(3) by (rule mueve_mas(2))
  next
    case (Some i)
    obtain k1 f q where "cambiar_pcb p f k = Inr k1" "dictionary_get (diccionario_colas_archivos k1) name = Some q"
      "k' = k1\<lparr>diccionario_colas_archivos := dictionary_put (diccionario_colas_archivos k1) name (q @ [p])\<rparr>"
      using o n Some by (auto simp: process_f_open_def cola_de_archivo_def bind_res_Inr_iff split: option.splits)
    then show ?thesis using mueve_luego [OF mueve_pcb(1) mueve_encolar_archivo] by simp
  qed
qed

lemma mueve_f_truncate: "f_truncate_process cm fcfg params p k = Inr k' \<Longrightarrow> mueve {#p#} k k'"
  by (auto simp: f_truncate_process_def bind_res_Inr_iff intro!: mueve_mas dest: mueve_pedir_fs)

lemma mueve_puntero:
  "mueve {#} k (k\<lparr>descriptores := (descriptores k)[i := map_option (\<lambda>d. d\<lparr>pointer := x\<rparr>) (descriptores k ! i)]\<rparr>)"
  (is "mueve {#} k ?k")
proof -
  have n: "(\<exists>d. descriptores ?k ! j = Some d \<and> file_name d = nm) \<longleftrightarrow> (\<exists>d. descriptores k ! j = Some d \<and> file_name d = nm)" for j nm
  proof (cases "i = j \<and> i < length (descriptores k)")
    case True
    then show ?thesis by (cases "descriptores k ! i") simp_all
  next
    case False
    then show ?thesis by (cases "i = j") (simp_all add: list_update_beyond)
  qed
  have "colas_cubiertas ?k = colas_cubiertas k" unfolding colas_cubiertas_def n by simp
  then show ?thesis by (simp add: mueve_def lugares_def dicts_ok_def)
qed

lemma mueve_fseek: "process_fseek params p k = Inr k' \<Longrightarrow> mueve {#p#} k k'"
  by (auto simp: process_fseek_def bind_res_Inr_iff intro!: mueve_mas mueve_puntero split: option.splits)

lemma mueve_fs_acceso: "process_fs_acceso cod cm fcfg params p k = Inr k' \<Longrightarrow> mueve {#p#} k k'"
  by (auto simp: process_fs_acceso_def bind_res_Inr_iff split: option.splits intro!: mueve_mas dest: mueve_pedir_fs)

lemma mueve_operar_nodo:
  "operar_nodo cm fcfg n k = Inr k' \<Longrightarrow> mueve {#un_pcb n#} k k'"
  by (auto simp: operar_nodo_def Let_def process_fwrite_def process_fread_def bind_res_Inr_iff simp del: op_num.simps
      split: if_splits intro: mueve_f_open mueve_f_close mueve_f_truncate mueve_fseek mueve_fs_acceso)

end
