(* ===== verification/Ker_Invariante.thy ===== *)
theory Ker_Invariante
  imports Ker_Lugares
begin

text \<open>
  Invariants of the kernel. The interface \<open>invariante_ker\<close> asks one obligation of each thread
  and gives the invariant in every reachable state; its first instance is the accounting of
  the processes and of the degree of multiprogramming.
\<close>

section \<open>Invariants of the threads\<close>

locale invariante_ker =
  fixes cm :: commons and mcfg :: memConfig and fcfg :: fsConfig and I :: "kernel \<Rightarrow> bool"
  assumes en_consola: "I k \<Longrightarrow> dictionary_get (pcbs k) p = None \<Longrightarrow> 0 < p \<Longrightarrow> int32_ok p \<Longrightarrow>
      gestionarNuevasConexiones p s k = Inr k' \<Longrightarrow> I k'"
    and al_admitir: "I k \<Longrightarrow> 0 < hayEspacioReady k \<Longrightarrow> gestionadorReady cm mcfg k = Some (Inr k') \<Longrightarrow> I k'"
    and al_despachar: "I k \<Longrightarrow> running k = Libre \<Longrightarrow> fifo_despachar k = Inr (k', bs) \<Longrightarrow> I k'"
    and al_volver: "I k \<Longrightarrow> running k = En_cpu p \<Longrightarrow> fifo_volver cm mcfg p s k = Some (Inr k') \<Longrightarrow> I k'"
    and de_cpu: "I k \<Longrightarrow> running k = En_cpu p \<Longrightarrow> atender_cpu (memoria_mod k) s = Inr (m', r, s') \<Longrightarrow> I (k\<lparr>memoria_mod := m'\<rparr>)"
    and al_compactar: "I k \<Longrightarrow> running k = Esperando_permiso p segID tam \<Longrightarrow> 0 < compaction_permission k \<Longrightarrow>
      seguir_compactacion cm mcfg p segID tam k = Some (Inr k') \<Longrightarrow> I k'"
    and en_archivos: "I k \<Longrightarrow> operarFS cm fcfg k = Inr k' \<Longrightarrow> I k'"
    and al_fin_io: "I k \<Longrightarrow> p \<in> set (en_io k) \<Longrightarrow> I (retenerPCB p k)"
    and al_terminar: "I k \<Longrightarrow> gestionadorExit cm mcfg k = Some (Inr k') \<Longrightarrow> I k'"
begin

lemma paso: "ker_paso cm mcfg fcfg k k' \<Longrightarrow> I k \<Longrightarrow> I k'"
  by (erule ker_pasoE)
    (auto intro: en_consola al_admitir al_despachar al_volver de_cpu al_compactar en_archivos al_fin_io al_terminar)

lemma alcanzable: "ker_alcanzable cm mcfg fcfg k0 k \<Longrightarrow> I k0 \<Longrightarrow> I k"
  by (induction rule: ker_alcanzable.induct) (auto intro: paso)

end

section \<open>The accounting of the processes\<close>

text \<open>
  The PCBs are in the places once each; those that are admitted are in the global list, the
  others in the queue of new processes; the semaphore has what is left of the degree.
\<close>

definition ker_inv :: "nat \<Rightarrow> kernel \<Rightarrow> bool" where
  "ker_inv grado k \<longleftrightarrow> dicts_ok k \<and> dict_ok (pcbs k) \<and> lugares k = mset (map fst (pcbs k)) \<and>
     mset (map fst (pcbs k)) = mset (global_PCB_list k) + mset (consolasNew k) \<and>
     length (global_PCB_list k) + hayEspacioReady k = grado"

lemma ker_invD:
  assumes "ker_inv grado k"
  shows "dicts_ok k" "dict_ok (pcbs k)" "lugares k = mset (map fst (pcbs k))"
    "mset (map fst (pcbs k)) = mset (global_PCB_list k) + mset (consolasNew k)"
    "length (global_PCB_list k) + hayEspacioReady k = grado"
  using assms by (simp_all add: ker_inv_def)

lemma ker_inv_inicial: "ker_inv grado (ker_inicial grado recursos m fs)"
  by (simp add: ker_inv_def dicts_ok_def colas_cubiertas_def ker_inicial_def lugares_def miembros_def)

text \<open>
  A thread that takes a process out of its place and lets an operation put it in another one:
  \<open>k1\<close> is the state without the process.
\<close>

definition sin_proceso :: "int \<Rightarrow> kernel \<Rightarrow> kernel \<Rightarrow> bool" where
  "sin_proceso p k k1 \<longleftrightarrow> (dicts_ok k \<longrightarrow> dicts_ok k1) \<and> lugares k = add_mset p (lugares k1) \<and>
     map fst (pcbs k1) = map fst (pcbs k) \<and> global_PCB_list k1 = global_PCB_list k \<and>
     consolasNew k1 = consolasNew k \<and> hayEspacioReady k1 = hayEspacioReady k"

lemma sin_mueve:
  assumes i: "ker_inv grado k" and s: "sin_proceso p k k1" and m: "mueve {#p#} k1 k'"
  shows "ker_inv grado k'"
proof -
  have l: "dicts_ok k'" "lugares k' = lugares k"
    using ker_invD(1) [OF i] s m by (simp_all add: sin_proceso_def mueve_def)
  have c: "map fst (pcbs k') = map fst (pcbs k)" "global_PCB_list k' = global_PCB_list k"
    "consolasNew k' = consolasNew k" "hayEspacioReady k' = hayEspacioReady k"
    using s m by (simp_all add: sin_proceso_def mueve_def)
  have "dict_ok (pcbs k')" using ker_invD(2) [OF i] c(1) by (simp add: dict_ok_def)
  then show ?thesis using ker_invD [OF i] l(1) unfolding ker_inv_def l(2) c by simp
qed

lemma sin_running:
  "running k = En_cpu p \<Longrightarrow> sin_proceso p k (k\<lparr>running := Libre\<rparr>)"
  "running k = Esperando_permiso p i t \<Longrightarrow> sin_proceso p k (k\<lparr>compaction_permission := c, running := Libre\<rparr>)"
  by (simp_all add: sin_proceso_def lugares_def dicts_ok_def colas_cubiertas_def)

lemma sin_blocked: "consolasBlocked k = n # ns \<Longrightarrow> sin_proceso (un_pcb n) k (k\<lparr>consolasBlocked := ns\<rparr>)"
  by (simp add: sin_proceso_def lugares_def dicts_ok_def colas_cubiertas_def)

lemma sin_io: "p \<in> set (en_io k) \<Longrightarrow> sin_proceso p k (k\<lparr>en_io := remove1 p (en_io k)\<rparr>)"
  by (simp add: sin_proceso_def lugares_def dicts_ok_def colas_cubiertas_def)

text \<open>\<open>readOp\<close> on each code that is a system call.\<close>

lemma readOp_codigos:
  "readOp cm mcfg (op_num YIELD) p ps k = Some (Inr (ready_al_final p k))"
  "readOp cm mcfg (op_num EXIT) p ps k = Some (Inr (k\<lparr>consolasExit := consolasExit k @ [p]\<rparr>))"
  "readOp cm mcfg (op_num WAIT) p ps k = Some (bind_res (parametro ps 0) (\<lambda>r. wait_recurso_lista cm r p k))"
  "readOp cm mcfg (op_num SIGNAL) p ps k = Some (bind_res (parametro ps 0) (\<lambda>r. signal_recurso_lista cm r p k))"
  "readOp cm mcfg (op_num I_O) p ps k = Some (bind_res (parametro ps 0) (\<lambda>t. Inr (ker_i_o t p k)))"
  "readOp cm mcfg (op_num ERROR) p ps k = Some (bind_res (parametro ps 0) (\<lambda>m. Inr (finalizar_con_error m p k)))"
  "readOp cm mcfg (op_num CREATE_SEGMENT) p ps k =
     (case bind_res (parametro ps 0) (\<lambda>i. bind_res (parametro ps 1) (\<lambda>t. Inr (atoi i, atoi t))) of
        Inl e \<Rightarrow> Some (Inl e) | Inr (i, t) \<Rightarrow> ker_create_segment cm mcfg p i t k)"
  "readOp cm mcfg (op_num DELETE_SEGMENT) p ps k =
     (case parametro ps 0 of
        Inl e \<Rightarrow> Some (Inl e)
      | Inr i \<Rightarrow> map_res (\<lambda>k'. Inr (ready_al_inicio p k')) (ker_delete_segment cm mcfg p (atoi i) k))"
  by (simp_all add: readOp_def es_operacion_de_FS_def)

lemma readOp_casos:
  assumes "readOp cm mcfg cod p ps k = Some (Inr k')"
  obtains (archivos) "es_operacion_de_FS cod" "k' = recieves_filesystem_petition cod p ps k"
    | (yield) "cod = op_num YIELD" "k' = ready_al_final p k"
    | (fin) "cod = op_num EXIT" "k' = k\<lparr>consolasExit := consolasExit k @ [p]\<rparr>"
    | (wait) r where "cod = op_num WAIT" "parametro ps 0 = Inr r" "wait_recurso_lista cm r p k = Inr k'"
    | (signal) r where "cod = op_num SIGNAL" "parametro ps 0 = Inr r" "signal_recurso_lista cm r p k = Inr k'"
    | (i_o) t where "cod = op_num I_O" "k' = ker_i_o t p k"
    | (error) m where "cod = op_num ERROR" "k' = finalizar_con_error m p k"
    | (crear) i t where "cod = op_num CREATE_SEGMENT" "ker_create_segment cm mcfg p i t k = Some (Inr k')"
    | (borrar) i k1 where "cod = op_num DELETE_SEGMENT" "ker_delete_segment cm mcfg p i k = Some (Inr k1)"
        "k' = ready_al_inicio p k1"
proof -
  consider "es_operacion_de_FS cod" | "cod = op_num YIELD" | "cod = op_num EXIT" | "cod = op_num WAIT"
    | "cod = op_num SIGNAL" | "cod = op_num I_O" | "cod = op_num ERROR" | "cod = op_num CREATE_SEGMENT"
    | "cod = op_num DELETE_SEGMENT"
    using assms unfolding readOp_def by (metis option.inject sum.distinct(1))
  then show thesis
  proof cases
    case 1
    then show ?thesis using that(1) assms by (simp add: readOp_def)
  next
    case 4
    then show ?thesis using that(4) assms by (auto simp: readOp_codigos bind_res_Inr_iff simp del: op_num.simps)
  next
    case 5
    then show ?thesis using that(5) assms by (auto simp: readOp_codigos bind_res_Inr_iff simp del: op_num.simps)
  next
    case 8
    then show ?thesis using that(8) assms
      by (auto simp: readOp_codigos bind_res_Inr_iff simp del: op_num.simps split: sum.splits)
  next
    case 9
    then show ?thesis using that(9) assms
      by (auto simp: readOp_codigos map_res_Some simp del: op_num.simps split: sum.splits)
  qed (use that(2,3,6,7) assms in \<open>auto simp: readOp_codigos bind_res_Inr_iff simp del: op_num.simps\<close>)
qed

lemma mueve_readOp:
  assumes "readOp cm mcfg cod p ps k = Some (Inr k')" "running k = Libre"
  shows "mueve {#p#} k k'"
  using assms(1)
proof (cases rule: readOp_casos)
  case archivos
  then show ?thesis
    by (simp add: recieves_filesystem_petition_def Let_def mueve_def lugares_def dicts_ok_def colas_cubiertas_def)
next
  case (i_o t)
  then show ?thesis by (simp add: ker_i_o_def mueve_def lugares_def dicts_ok_def colas_cubiertas_def)
next
  case (borrar i k1)
  then show ?thesis by (auto simp: ker_delete_segment_def map_res_Some intro!: mueve_mas dest: mueve_pedir_tabla(1))
qed (use assms(2) in \<open>auto intro: mueve_wait mueve_signal mueve_create_segment\<close>)

lemma recibir_PCB_mueve:
  assumes "recibir_PCB cm p s k = Inr (cod, ps, k')"
  shows "mueve {#} k k'" "running k' = running k"
  using assms mueve_pcb by (auto simp: recibir_PCB_def bind_res_Inr_iff split: if_splits)

section \<open>Each thread keeps the accounting\<close>

lemma conexion_casos:
  assumes "gestionarNuevasConexiones p s k = Inr k'"
  obtains (otro) bs where "k' = enviar_consola p bs k"
    | (cierre) bs bs' where "k' = enviar_consola p bs' (enviar_consola p bs k)"
    | (programa) bs b where "pcb_tablaArchivos b = []" "k' = (enviar_consola p bs k)\<lparr>pcbs := dictionary_put (pcbs (enviar_consola p bs k)) p b,
        consolasNew := consolasNew (enviar_consola p bs k) @ [p]\<rparr>"
proof -
  obtain h s1 c s2 where r: "recv_int s = Inr (h, s1)" "recibir_operacion s1 = Inr (c, s2)"
    using assms by (auto simp: gestionarNuevasConexiones_def bind_res_Inr_iff Let_def)
  let ?bs = "enviar_int (if h = 1 then 1 else -1)"
  show thesis
  proof (cases "c = op_num PAQUETE")
    case True
    obtain vs s3 ins where v: "recibir_paquete s2 = Inr (vs, s3)" "leer_c_strs vs = Inr ins"
      using assms r True by (auto simp: gestionarNuevasConexiones_def bind_res_Inr_iff Let_def simp del: op_num.simps)
    show thesis
      by (rule programa [of "\<lparr>pcb_instrucciones = ins, pcb_program_counter = 0,
            pcb_registros = replicate CANTIDAD_REGISTROS_CPU ''0000'', pcb_tablaSegmentos = [],
            pcb_tablaArchivos = []\<rparr>" ?bs])
        (use assms r True v in \<open>simp_all add: gestionarNuevasConexiones_def Let_def del: op_num.simps\<close>)
  next
    case False
    then have "k' = enviar_consola p ?bs k \<or> k' = enviar_consola p (enviar_int (-1)) (enviar_consola p ?bs k)"
      using assms r by (simp add: gestionarNuevasConexiones_def Let_def del: op_num.simps split: if_split_asm)
    then show thesis using otro cierre by blast
  qed
qed

lemma inv_consola:
  assumes i: "ker_inv grado k" and n: "dictionary_get (pcbs k) p = None"
    and g: "gestionarNuevasConexiones p s k = Inr k'"
  shows "ker_inv grado k'"
proof -
  have c: "ker_inv grado (enviar_consola p bs k1)" if "ker_inv grado k1" for bs k1
    using that by (simp add: enviar_consola_def ker_inv_def lugares_def dicts_ok_def colas_cubiertas_def)
  have a: "ker_inv grado (k1\<lparr>pcbs := dictionary_put (pcbs k1) p b, consolasNew := consolasNew k1 @ [p]\<rparr>)"
    if "ker_inv grado k1" "dictionary_get (pcbs k1) p = None" for k1 b
    using that by (simp add: ker_inv_def lugares_def dicts_ok_def colas_cubiertas_def) (simp add: dictionary_put_new)
  from g show ?thesis
  proof (cases rule: conexion_casos)
    case (programa bs b)
    then show ?thesis using a [OF c [OF i], of bs b] n by (simp add: enviar_consola_def)
  qed (simp_all add: c i)
qed

lemma inv_admitir:
  assumes i: "ker_inv grado k" and h: "0 < hayEspacioReady k" and g: "gestionadorReady cm mcfg k = Some (Inr k')"
  shows "ker_inv grado k'"
proof -
  obtain p ps where n: "consolasNew k = p # ps" using g by (cases "consolasNew k") (auto simp: gestionadorReady_def)
  let ?k0 = "k\<lparr>consolasNew := ps, hayEspacioReady := hayEspacioReady k - 1\<rparr>"
  obtain k1 flag where k1: "pedir_tabla cm mcfg (send_newsegment_petition p 0 0) p ?k0 = Some (Inr (k1, flag))"
    and k': "k' = (ready_al_final p k1)\<lparr>global_PCB_list := global_PCB_list k1 @ [p]\<rparr>"
    using g n by (auto simp: gestionadorReady_def pedirTablaSegmentosInicial_def map_res_Some Let_def ready_al_final_def)
  have m: "mueve {#p#} ?k0 (ready_al_final p k1)"
    using mueve_pedir_tabla(1) [OF k1] by (rule mueve_mas)
  have 0: "dicts_ok ?k0" "lugares k = add_mset p (lugares ?k0)"
    using ker_invD(1) [OF i] n by (simp_all add: lugares_def dicts_ok_def colas_cubiertas_def)
  have g: "dicts_ok (x\<lparr>global_PCB_list := l\<rparr>) = dicts_ok x" "lugares (x\<lparr>global_PCB_list := l\<rparr>) = lugares x" for x l
    by (simp_all add: lugares_def dicts_ok_def colas_cubiertas_def)
  have f: "dicts_ok k'" "lugares k' = lugares k"
    using m 0 unfolding mueve_def k' g by simp_all
  have c: "map fst (pcbs k') = map fst (pcbs k)" "global_PCB_list k' = global_PCB_list k @ [p]" "consolasNew k' = ps"
    "hayEspacioReady k' = hayEspacioReady k - 1"
    using m unfolding mueve_def k' by (simp_all add: ready_al_final_def)
  have "dict_ok (pcbs k')" using ker_invD(2) [OF i] c(1) by (simp add: dict_ok_def)
  then show ?thesis using ker_invD [OF i] h n f(1) unfolding ker_inv_def f(2) c by simp
qed

lemma inv_despachar:
  assumes "ker_inv grado k" "running k = Libre" "fifo_despachar k = Inr (k', bs)"
  shows "ker_inv grado k'"
  using assms
  by (cases "consolasReady k")
    (auto simp: fifo_despachar_def bind_res_Inr_iff ker_inv_def lugares_def dicts_ok_def colas_cubiertas_def)

lemma inv_volver:
  assumes i: "ker_inv grado k" and r: "running k = En_cpu p" and v: "fifo_volver cm mcfg p s k = Some (Inr k')"
  shows "ker_inv grado k'"
proof -
  obtain cod ps k1 where k1: "recibir_PCB cm p s (k\<lparr>running := Libre\<rparr>) = Inr (cod, ps, k1)" "readOp cm mcfg cod p ps k1 = Some (Inr k')"
    using v by (cases "recibir_PCB cm p s (k\<lparr>running := Libre\<rparr>)") (auto simp: fifo_volver_def)
  from k1(2) have "mueve {#p#} k1 k'" by (rule mueve_readOp) (simp add: recibir_PCB_mueve(2) [OF k1(1)])
  then show ?thesis
    by (intro sin_mueve [OF i sin_running(1) [OF r]] mueve_luego [OF recibir_PCB_mueve(1) [OF k1(1)]])
qed

lemma inv_compactar:
  assumes i: "ker_inv grado k" and r: "running k = Esperando_permiso p segID tam"
    and v: "seguir_compactacion cm mcfg p segID tam k = Some (Inr k')"
  shows "ker_inv grado k'"
proof -
  let ?k0 = "k\<lparr>compaction_permission := compaction_permission k - 1, running := Libre\<rparr>"
  obtain x where x: "compactar_memoria cm mcfg ?k0 = Some x"
    using v by (cases "compactar_memoria cm mcfg ?k0") (auto simp: seguir_compactacion_def)
  then obtain k1 where k1: "compactar_memoria cm mcfg ?k0 = Some (Inr k1)" "ker_create_segment cm mcfg p segID tam k1 = Some (Inr k')"
    using v by (cases x) (auto simp: seguir_compactacion_def)
  note m = mueve_compactar [OF k1(1)]
  show ?thesis
    by (rule sin_mueve [OF i sin_running(2) [OF r] mueve_luego [OF m(1) mueve_create_segment [OF k1(2)]]])
      (simp add: m(2))
qed

lemma inv_archivos:
  assumes i: "ker_inv grado k" and o: "operarFS cm fcfg k = Inr k'"
  shows "ker_inv grado k'"
proof -
  obtain n ns k1 where n: "consolasBlocked k = n # ns"
    and k1: "operar_nodo cm fcfg n (k\<lparr>consolasBlocked := ns\<rparr>) = Inr k1" "k' = dar_permiso k1"
    using o by (auto simp: operarFS_def bind_res_Inr_iff split: list.splits)
  have "mueve {#un_pcb n#} (k\<lparr>consolasBlocked := ns\<rparr>) k'"
    using mueve_operar_nodo [OF k1(1)] by (auto simp: k1(2) dar_permiso_def)
  then show ?thesis by (rule sin_mueve [OF i sin_blocked [OF n]])
qed

lemma inv_fin_io: "ker_inv grado k \<Longrightarrow> p \<in> set (en_io k) \<Longrightarrow> ker_inv grado (retenerPCB p k)"
  unfolding retenerPCB_def using sin_mueve [OF _ sin_io mueve_ready(1)] .

text \<open>
  The end of a process: its PCB goes, its place goes, and so does its entry in the global list,
  which it has because it is not new.
\<close>

lemma exit_casos:
  assumes "gestionadorExit cm mcfg k = Some (Inr k')"
  obtains p ps b k1 resp k2 k3 where "consolasExit k = p # ps" "pcb_de k p = Inr b"
    "pedir_memoria cm mcfg (enviar_mensaje_razon (op_num EXIT) (string_itoa cm p))
       (k\<lparr>consolasExit := ps, global_PCB_list := remove1 p (global_PCB_list k)\<rparr>) = Some (Inr (k1, resp))"
    "liberarRecursosDelProceso (string_itoa cm p) k1 = Inr k2" "cerrar_archivos (pcb_tablaArchivos b) k2 = Inr k3"
    "k' = k3\<lparr>a_consolas := a_consolas k3 @ [(p, enviar_int (op_num EXIT))], pcbs := dictionary_remove (pcbs k3) p,
       hayEspacioReady := hayEspacioReady k3 + 1\<rparr>"
proof -
  obtain p ps where p: "consolasExit k = p # ps" using assms by (cases "consolasExit k") (auto simp: gestionadorExit_def)
  moreover obtain b where "pcb_de k p = Inr b" using assms p by (cases "pcb_de k p") (auto simp: gestionadorExit_def)
  ultimately show thesis using assms that
    by (auto simp: gestionadorExit_def map_res_Some bind_res_Inr_iff cerrarArchivosDelProceso_def enviar_consola_def Let_def)
qed

lemma claves_remove: "map fst (dictionary_remove d p) = filter (\<lambda>x. x \<noteq> p) (map fst d)"
  by (induction d) (auto simp: dictionary_remove_def)

lemma mset_filter_distinct:
  "distinct xs \<Longrightarrow> p \<in> set xs \<Longrightarrow> add_mset p (mset (filter (\<lambda>x. x \<noteq> p) xs)) = mset xs"
proof (induction xs)
  case (Cons x xs)
  then show ?case by (cases "x = p") (auto simp del: mset_filter intro!: arg_cong [of _ _ mset] filter_True)
qed simp

lemma una_vez:
  assumes "distinct xs" "mset xs = add_mset p M"
  shows "p \<notin># M"
proof
  assume "p \<in># M"
  then have "1 < count (mset xs) p" unfolding assms(2) by simp
  then show False using assms(1) by (simp add: distinct_count_atmost_1 split: if_splits)
qed

lemma inv_terminar:
  assumes i: "ker_inv grado k" and g: "gestionadorExit cm mcfg k = Some (Inr k')"
  shows "ker_inv grado k'"
  using g
proof (cases rule: exit_casos)
  case (1 p ps b k1 resp k2 k3)
  let ?k0 = "k\<lparr>consolasExit := ps, global_PCB_list := remove1 p (global_PCB_list k)\<rparr>"
  have m: "mueve {#} ?k0 k3"
    by (intro mueve_luego [OF mueve_pedir_memoria(1) [OF 1(3)]] mueve_luego [OF mueve_liberar_proceso [OF 1(4)]]
        mueve_cerrar_archivos [OF 1(5)])
  have 0: "dicts_ok ?k0" "lugares k = add_mset p (lugares ?k0)"
    using ker_invD(1) [OF i] 1(1) by (simp_all add: lugares_def dicts_ok_def colas_cubiertas_def)
  have k': "dicts_ok k' = dicts_ok k3" "lugares k' = lugares k3" "map fst (pcbs k') = filter (\<lambda>x. x \<noteq> p) (map fst (pcbs k3))"
    "global_PCB_list k' = global_PCB_list k3" "consolasNew k' = consolasNew k3" "hayEspacioReady k' = hayEspacioReady k3 + 1"
    by (simp_all add: 1(6) lugares_def dicts_ok_def colas_cubiertas_def claves_remove)
  have l: "lugares k = add_mset p (lugares k')" "dicts_ok k'"
    using m 0 k'(1,2) by (auto simp: mueve_def)
  have c: "map fst (pcbs k') = filter (\<lambda>x. x \<noteq> p) (map fst (pcbs k))" "global_PCB_list k' = remove1 p (global_PCB_list k)"
    "consolasNew k' = consolasNew k" "hayEspacioReady k' = hayEspacioReady k + 1"
    using m k' by (simp_all add: mueve_def)
  have d: "distinct (map fst (pcbs k))" using ker_invD(2) [OF i] by (simp add: dict_ok_def)
  have ps: "p \<in># mset (map fst (pcbs k))" using l(1) ker_invD(3) [OF i] by (metis union_single_eq_member)
  have f: "add_mset p (mset (filter (\<lambda>x. x \<noteq> p) (map fst (pcbs k)))) = mset (map fst (pcbs k))"
    using d ps by (intro mset_filter_distinct) simp_all
  have "p \<notin> set (consolasNew k)"
    using una_vez [OF d, of p "lugares k'"] ker_invD(3) [OF i] l(1) c(3) by (auto simp: lugares_def)
  then have g: "p \<in> set (global_PCB_list k)"
    using ps unfolding ker_invD(4) [OF i] by simp
  have "dict_ok (pcbs k')" using d c(1) by (simp add: dict_ok_def)
  moreover have "lugares k' = mset (map fst (pcbs k'))" using l(1) f ker_invD(3) [OF i] unfolding c(1) by simp
  moreover have "mset (map fst (pcbs k')) = mset (global_PCB_list k') + mset (consolasNew k')"
  proof -
    have r: "mset (global_PCB_list k) = add_mset p (mset (remove1 p (global_PCB_list k)))" using g by simp
    show ?thesis using f unfolding c ker_invD(4) [OF i] r by (simp del: mset_remove1 mset_filter mset_map)
  qed
  moreover have "length (global_PCB_list k') + hayEspacioReady k' = grado"
    using ker_invD(5) [OF i] g unfolding c by (simp add: length_remove1) (use length_pos_if_in_set in fastforce)
  ultimately show ?thesis using l(2) by (simp add: ker_inv_def)
qed

lemma inv_cpu: "ker_inv grado k \<Longrightarrow> ker_inv grado (k\<lparr>memoria_mod := m\<rparr>)"
  by (simp add: ker_inv_def lugares_def dicts_ok_def colas_cubiertas_def)

interpretation contabilidad: invariante_ker cm mcfg fcfg "ker_inv grado" for cm mcfg fcfg grado
  by unfold_locales
    (auto intro: inv_consola inv_admitir inv_despachar inv_volver inv_compactar inv_archivos inv_fin_io inv_terminar inv_cpu)

lemma ker_inv_alcanzable:
  "ker_alcanzable cm mcfg fcfg (ker_inicial grado recursos m fs) k \<Longrightarrow> ker_inv grado k"
  by (rule contabilidad.alcanzable [OF _ ker_inv_inicial])

end
