(* ===== verification/Ker_Recursos.thy ===== *)
theory Ker_Recursos
  imports Ker_Invariante
begin

text \<open>
  The resources of \<open>WAIT\<close> and \<open>SIGNAL\<close> (\<open>wait_recurso_lista\<close>, \<open>signal_recurso_lista\<close>,
  \<open>liberarRecursosDelProceso\<close>): no process waits for a resource that has a free instance, and
  free instances, instances held and processes waiting balance. The interface
  \<open>contrato_base\<close> and those that extend it say what the handlers do to a part of the state,
  from what the elementary changes do to it.
\<close>

section \<open>Two handlers of files from their results\<close>

lemma liberar_archivo_casos:
  assumes "liberar_archivo i k = Inr k'"
  obtains (libera) d where "descriptor_de k i = Inr d" "dictionary_get (diccionario_colas_archivos k) (file_name d) = Some []"
      "k' = k\<lparr>GDT := remove1 i (GDT k), diccionario_colas_archivos := dictionary_remove (diccionario_colas_archivos k) (file_name d),
        descriptores := (descriptores k)[i := None]\<rparr>"
    | (pasa) d q qs where "descriptor_de k i = Inr d" "dictionary_get (diccionario_colas_archivos k) (file_name d) = Some (q # qs)"
      "k' = ready_al_final q (k\<lparr>diccionario_colas_archivos := dictionary_put (diccionario_colas_archivos k) (file_name d) qs\<rparr>)"
proof -
  obtain d q where d: "descriptor_de k i = Inr d" "dictionary_get (diccionario_colas_archivos k) (file_name d) = Some q"
    using assms by (auto simp: liberar_archivo_def cola_de_archivo_def bind_res_Inr_iff split: option.splits)
  then show thesis using that assms by (cases q) (auto simp: liberar_archivo_def cola_de_archivo_def)
qed

lemma f_open_casos:
  assumes o: "process_f_open cm fcfg params p k = Inr k'"
  obtains (nuevo) name k2 k3 where "parametro params 0 = Inr name" "buscar_descriptor k name (GDT k) = Inr None"
      "pedir_fs cm fcfg (consulting_file_system name) (k\<lparr>diccionario_colas_archivos := dictionary_put (diccionario_colas_archivos k) name [],
         descriptores := descriptores k @ [Some \<lparr>file_name = name, pointer = 0\<rparr>]\<rparr>) = Inr (k2, 1)"
      "cambiar_pcb p (\<lambda>b. b\<lparr>pcb_tablaArchivos := length (descriptores k) # pcb_tablaArchivos b\<rparr>)
         (k2\<lparr>GDT := GDT k2 @ [length (descriptores k)]\<rparr>) = Inr k3" "k' = ready_al_inicio p k3"
    | (abierto) name i k1 q where "parametro params 0 = Inr name" "buscar_descriptor k name (GDT k) = Inr (Some i)"
      "cambiar_pcb p (\<lambda>b. b\<lparr>pcb_tablaArchivos := i # pcb_tablaArchivos b\<rparr>) k = Inr k1"
      "dictionary_get (diccionario_colas_archivos k1) name = Some q"
      "k' = k1\<lparr>diccionario_colas_archivos := dictionary_put (diccionario_colas_archivos k1) name (q @ [p])\<rparr>"
proof -
  obtain name encontrado where n: "parametro params 0 = Inr name" "buscar_descriptor k name (GDT k) = Inr encontrado"
    using o by (auto simp: process_f_open_def bind_res_Inr_iff)
  show thesis
  proof (cases encontrado)
    case None
    then show thesis using o n that(1) by (auto simp: process_f_open_def Let_def bind_res_Inr_iff split: if_splits)
  next
    case (Some i)
    then show thesis using o n that(2)
      by (auto simp: process_f_open_def cola_de_archivo_def bind_res_Inr_iff split: option.splits)
  qed
qed

section \<open>Contracts of the handlers\<close>

text \<open>
  \<open>R p k k'\<close> is a relation between the states before and after an operation with the process \<open>p\<close>
  in hand. From one obligation for each elementary change, the handlers keep it: other processes
  may only become ready, and \<open>p\<close> goes anywhere.
\<close>

locale contrato_base =
  fixes R :: "int \<Rightarrow> kernel \<Rightarrow> kernel \<Rightarrow> bool"
  assumes refl: "R p k k"
    and trans: "R p k k1 \<Longrightarrow> R p k1 k2 \<Longrightarrow> R p k k2"
    and en_tabla: "cambiar_pcb q (\<lambda>b. b\<lparr>pcb_tablaSegmentos := t\<rparr>) k = Inr k' \<Longrightarrow> R p k k'"
    and en_ready: "R p k (ready_al_final q k)" "R p k (ready_al_inicio q k)"
    and en_exit: "R p k (k\<lparr>consolasExit := consolasExit k @ [p]\<rparr>)"
    and en_consola: "R p k (k\<lparr>a_consolas := a\<rparr>)"
    and en_pedido: "R p k (k\<lparr>compaction_required := c\<rparr>)"
    and en_permiso: "R p k (k\<lparr>compaction_permission := n\<rparr>)"
begin

lemma ready: "R p k k1 \<Longrightarrow> R p k (ready_al_final q k1)" "R p k k1 \<Longrightarrow> R p k (ready_al_inicio q k1)"
  by (auto intro: trans en_ready)

lemma error: "R p k k1 \<Longrightarrow> R p k (finalizar_con_error m p k1)"
  unfolding finalizar_con_error_def enviar_consola_def Let_def
  by (rule trans [OF trans [OF trans [OF _ en_consola] en_consola] en_exit])

lemma tablas: "actualizar_tablas ts k = Inr k' \<Longrightarrow> R p k k'"
proof (induction ts k rule: actualizar_tablas.induct)
  case (2 PID t ts k)
  then show ?case by (auto simp: bind_res_Inr_iff split: if_splits intro: trans [OF en_tabla])
qed (simp add: refl)

lemma pide: "R p k (pide_compactacion k)"
  by (auto simp: pide_compactacion_def Let_def intro: trans [OF en_pedido en_permiso] en_pedido)

end

text \<open>The calls to the memory module keep it when it does not speak of the memory.\<close>

locale contrato_ker = contrato_base +
  assumes en_memoria: "R p k (k\<lparr>memoria_mod := m\<rparr>)"
    and en_hilo: "R p k (k\<lparr>running := Libre\<rparr>)" "R p k (k\<lparr>running := Esperando_permiso p segID tam\<rparr>)"
begin

lemma pedir: "pedir_memoria cm mcfg bs k = Some (Inr (k', r)) \<Longrightarrow> R p k k'"
  by (auto simp: pedir_memoria_def bind_res_Inr_iff intro: en_memoria)

lemma tabla: "pedir_tabla cm mcfg bs q k = Some (Inr (k', flag)) \<Longrightarrow> R p k k'"
  by (auto simp: pedir_tabla_def map_res_Some bind_res_Inr_iff intro: trans [OF pedir en_tabla])

lemma compactar: "compactar_memoria cm mcfg k = Some (Inr k') \<Longrightarrow> R p k k'"
  by (auto simp: compactar_memoria_def map_res_Some recibir_tablas_compactadas_def bind_res_Inr_iff
      intro: trans [OF pedir tablas])

lemma crear_ind:
  assumes "ker_create_segment cm mcfg p segID tam k = Some r"
  shows "\<forall>k'. r = Inr k' \<longrightarrow> R p k k'"
  using assms
proof (rule ker_create_segment.raw_induct [where P = "\<lambda>cm mcfg p segID tam k r. \<forall>k'. r = Inr k' \<longrightarrow> R p k k'", rotated],
    goal_cases)
  case (1 F cm mcfg p segID tam k r)
  show ?case
  proof (intro allI impI)
    fix k' assume r: "r = Inr k'"
    from 1(2) [unfolded r] show "R p k k'"
    proof (cases rule: create_segment_casos)
      case (espera k1)
      then show ?thesis using trans [OF trans [OF tabla en_pedido] en_hilo(2)] by simp
    next
      case (compacta k1 k3)
      then show ?thesis using trans [OF trans [OF trans [OF tabla pide] compactar]] 1(1) by blast
    qed (auto intro: ready error tabla)
  qed
qed

lemma crear: "ker_create_segment cm mcfg p segID tam k = Some (Inr k') \<Longrightarrow> R p k k'"
  using crear_ind by blast

lemma seguir:
  assumes "seguir_compactacion cm mcfg p segID tam k = Some (Inr k')"
  shows "R p k k'"
proof -
  let ?k0 = "k\<lparr>compaction_permission := compaction_permission k - 1, running := Libre\<rparr>"
  obtain x where x: "compactar_memoria cm mcfg ?k0 = Some x"
    using assms by (cases "compactar_memoria cm mcfg ?k0") (auto simp: seguir_compactacion_def)
  then obtain k1 where "compactar_memoria cm mcfg ?k0 = Some (Inr k1)" "ker_create_segment cm mcfg p segID tam k1 = Some (Inr k')"
    using assms by (cases x) (auto simp: seguir_compactacion_def)
  then show ?thesis using trans [OF trans [OF trans [OF en_permiso en_hilo(1)] compactar] crear] by blast
qed

end

text \<open>
  The calls on files keep it when it does not speak of the tables of files. Nobody enters the
  queue of a file but the process in hand.
\<close>

lemma miembros_put_sub: "set_mset (miembros (dictionary_put d n q)) \<subseteq> set q \<union> set_mset (miembros d)"
  using set_dictionary_put [of d n q] by (auto simp: miembros_def)

lemma miembros_remove_sub: "set_mset (miembros (dictionary_remove d n)) \<subseteq> set_mset (miembros d)"
  by (induction d) (auto simp: miembros_def dictionary_remove_def)

lemma miembros_get: "dictionary_get d n = Some q \<Longrightarrow> set q \<subseteq> set_mset (miembros d)"
  by (auto simp: miembros_def dictionary_get_def dest!: map_of_SomeD)

locale contrato_archivos = contrato_base +
  assumes en_fs: "pedir_fs cm fcfg bs k = Inr (k', r) \<Longrightarrow> R p k k'"
    and en_pcb: "cambiar_pcb q g k = Inr k' \<Longrightarrow> R p k k'"
    and en_descriptores: "R p k (k\<lparr>descriptores := ds\<rparr>)"
    and en_GDT: "R p k (k\<lparr>GDT := is\<rparr>)"
    and en_colas: "set_mset (miembros d) \<subseteq> insert p (set_mset (miembros (diccionario_colas_archivos k))) \<Longrightarrow>
      R p k (k\<lparr>diccionario_colas_archivos := d\<rparr>)"
    and en_bloqueadores: "R p k (k\<lparr>compactionBlockers := n\<rparr>)"
    and en_bloqueados: "consolasBlocked k = nodo # ns \<Longrightarrow> R p k (k\<lparr>consolasBlocked := ns\<rparr>)"
begin

lemma liberar: "liberar_archivo i k = Inr k' \<Longrightarrow> R p k k'"
proof (erule liberar_archivo_casos)
  fix d assume "k' = k\<lparr>GDT := remove1 i (GDT k), diccionario_colas_archivos := dictionary_remove (diccionario_colas_archivos k) (file_name d),
      descriptores := (descriptores k)[i := None]\<rparr>"
  moreover have "R p (k\<lparr>GDT := remove1 i (GDT k)\<rparr>) (k\<lparr>GDT := remove1 i (GDT k),
      diccionario_colas_archivos := dictionary_remove (diccionario_colas_archivos k) (file_name d)\<rparr>)"
    by (rule en_colas) (use miembros_remove_sub [of "diccionario_colas_archivos k" "file_name d"] in auto)
  ultimately show "R p k k'" using trans [OF trans [OF en_GDT] en_descriptores] by simp
next
  fix d q qs assume q: "dictionary_get (diccionario_colas_archivos k) (file_name d) = Some (q # qs)"
    and k': "k' = ready_al_final q (k\<lparr>diccionario_colas_archivos := dictionary_put (diccionario_colas_archivos k) (file_name d) qs\<rparr>)"
  show "R p k k'" unfolding k'
    by (intro ready en_colas) (use miembros_put_sub [of "diccionario_colas_archivos k" "file_name d" qs] miembros_get [OF q] in auto)
qed

lemma cerrar: "cerrar_archivos is k = Inr k' \<Longrightarrow> R p k k'"
  by (induction "is" arbitrary: k) (auto simp: bind_res_Inr_iff intro: refl trans [OF liberar])

lemma f_close: "process_f_close ps p k = Inr k' \<Longrightarrow> R p k k'"
  by (auto simp: process_f_close_def bind_res_Inr_iff split: option.splits
      intro: error refl trans [OF ready(1) [OF en_pcb] liberar])

lemma f_open:
  assumes "process_f_open cm fcfg ps p k = Inr k'"
  shows "R p k k'"
  using assms
proof (cases rule: f_open_casos)
  case (nuevo name k2 k3)
  have "R p k (k\<lparr>diccionario_colas_archivos := dictionary_put (diccionario_colas_archivos k) name []\<rparr>)"
    by (rule en_colas) (use miembros_put_sub [of "diccionario_colas_archivos k" name "[]"] in auto)
  then have "R p k k2" using trans [OF trans [OF _ en_descriptores] en_fs] nuevo(3) by fastforce
  then show ?thesis using trans [OF trans [OF _ en_GDT] en_pcb] nuevo(4,5) by (auto intro: ready)
next
  case (abierto name i k1 q)
  have "R p k1 k'" unfolding abierto(5)
    by (rule en_colas) (use miembros_put_sub [of "diccionario_colas_archivos k1" name "q @ [p]"] miembros_get [OF abierto(4)] in auto)
  then show ?thesis by (rule trans [OF en_pcb [OF abierto(3)]])
qed

lemma nodo:
  assumes "operar_nodo cm fcfg n k = Inr k'"
  shows "R (un_pcb n) k k'"
proof -
  have t: "R p k k'" if "f_truncate_process cm fcfg ps p k = Inr k'" for ps p k k'
    using that by (auto simp: f_truncate_process_def bind_res_Inr_iff intro!: ready error dest: en_fs)
  have s: "R p k k'" if "process_fseek ps p k = Inr k'" for ps p k k'
    using that by (auto simp: process_fseek_def bind_res_Inr_iff split: option.splits intro!: ready en_descriptores)
  have a: "R p k k'" if "process_fs_acceso c cm fcfg ps p k = Inr k'" for c ps p k k'
    using that by (auto simp: process_fs_acceso_def bind_res_Inr_iff split: option.splits intro!: ready dest: en_fs)
  show ?thesis
    using assms by (auto simp: operar_nodo_def Let_def process_fwrite_def process_fread_def bind_res_Inr_iff
        simp del: op_num.simps split: if_splits intro: f_open f_close t s trans [OF a en_bloqueadores])
qed

lemma operar:
  assumes "operarFS cm fcfg k = Inr k'" "consolasBlocked k = n # ns"
  shows "R (un_pcb n) k k'"
proof -
  obtain k1 where k1: "operar_nodo cm fcfg n (k\<lparr>consolasBlocked := ns\<rparr>) = Inr k1" "k' = dar_permiso k1"
    using assms by (auto simp: operarFS_def bind_res_Inr_iff)
  have "R (un_pcb n) k1 k'" by (auto simp: k1(2) dar_permiso_def intro: trans [OF en_permiso en_pedido] refl)
  then show ?thesis by (rule trans [OF trans [OF en_bloqueados [OF assms(2)] nodo [OF k1(1)]]])
qed

lemma operar_alguno: "operarFS cm fcfg k = Inr k' \<Longrightarrow> R (un_pcb (hd (consolasBlocked k))) k k'"
  using operar by (cases "consolasBlocked k") (simp_all add: operarFS_def)

lemma recibir: "recibir_PCB cm q s k = Inr (cod, ps, k') \<Longrightarrow> R p k k'"
  by (auto simp: recibir_PCB_def bind_res_Inr_iff split: if_splits intro: en_pcb)

end

text \<open>Both, when it speaks of neither.\<close>

locale contrato_completo = contrato_ker + contrato_archivos

text \<open>The three dictionaries of the resources do not change there.\<close>

definition dic_recursos :: "kernel \<Rightarrow> (string, int) dict \<times> (string, int list) dict \<times> (string, string list option) dict" where
  "dic_recursos k = (recursosDisponibles k, recursosEnUso k, recursos_por_proceso k)"

interpretation marco_recursos: contrato_completo "\<lambda>_ k k'. dic_recursos k' = dic_recursos k"
  by unfold_locales (auto simp: dic_recursos_def cambiar_pcb_def pedir_fs_def bind_res_Inr_iff ready_al_final_def ready_al_inicio_def)

section \<open>Instances free, held and waited for\<close>

definition instancias_libres :: "kernel \<Rightarrow> string \<Rightarrow> int" where
  "instancias_libres k r = (case dictionary_get (recursosDisponibles k) r of None \<Rightarrow> 0 | Some n \<Rightarrow> n)"

definition esperan :: "kernel \<Rightarrow> string \<Rightarrow> nat" where
  "esperan k r = length (cola_o_nada (recursosEnUso k) r)"

definition tomados :: "string list option option \<Rightarrow> string \<Rightarrow> int" where
  "tomados l r = (case l of Some (Some rs) \<Rightarrow> int (count_list rs r) | _ \<Rightarrow> 0)"

definition en_poder :: "(string, string list option) dict \<Rightarrow> string \<Rightarrow> int" where
  "en_poder d r = sum_list (map (\<lambda>(_, l). tomados (Some l) r) d)"

definition saldo :: "kernel \<Rightarrow> string \<Rightarrow> int" where
  "saldo k r = instancias_libres k r + en_poder (recursos_por_proceso k) r - int (esperan k r)"

definition recursos_ok :: "kernel \<Rightarrow> bool" where
  "recursos_ok k \<longleftrightarrow> dict_ok (recursos_por_proceso k) \<and>
     (\<forall>r. 0 \<le> instancias_libres k r \<and> (0 < esperan k r \<longrightarrow> instancias_libres k r = 0) \<and> dictionary_get (recursosEnUso k) r \<noteq> Some [])"

lemma tomados_simps [simp]: "tomados None r = 0" "tomados (Some None) r = 0" "tomados (Some (Some rs)) r = int (count_list rs r)"
  by (simp_all add: tomados_def)

lemma en_poder_put:
  assumes "dict_ok d"
  shows "en_poder (dictionary_put d P l) r = en_poder d r - tomados (dictionary_get d P) r + tomados (Some l) r"
proof (cases "dictionary_get d P")
  case None
  then show ?thesis by (simp add: en_poder_def dictionary_put_new)
next
  case (Some l0)
  from dictionary_split [OF assms Some] obtain pre post where "d = pre @ (P, l0) # post"
    "\<forall>w. dictionary_put d P w = pre @ (P, w) # post" by metis
  then show ?thesis using Some by (simp add: en_poder_def)
qed

lemma tomados_remove1: "int (count_list (remove1 x xs) y) = int (count_list xs y) - (if x = y \<and> x \<in> set xs then 1 else 0)"
  by (induction xs) auto

lemma recursos_okD:
  assumes "recursos_ok k"
  shows "dict_ok (recursos_por_proceso k)" "0 \<le> instancias_libres k r" "0 < esperan k r \<Longrightarrow> instancias_libres k r = 0"
    "dictionary_get (recursosEnUso k) r \<noteq> Some []"
  using assms by (simp_all add: recursos_ok_def)

lemma recursos_okI:
  assumes "dict_ok (recursos_por_proceso k)" "\<And>r. 0 \<le> instancias_libres k r" "\<And>r. 0 < esperan k r \<Longrightarrow> instancias_libres k r = 0"
    "\<And>r. dictionary_get (recursosEnUso k) r \<noteq> Some []"
  shows "recursos_ok k"
  using assms by (simp add: recursos_ok_def)

text \<open>What the primitive operations do to the balance.\<close>

lemma registrar_saldo:
  assumes ok: "recursos_ok k" and r: "registrarRecursosDelProceso cm r p k = Inr k'"
  shows "recursos_ok k' \<and> recursosDisponibles k' = recursosDisponibles k \<and> recursosEnUso k' = recursosEnUso k \<and>
    saldo k' x = saldo k x + (if x = r then 1 else 0)"
proof -
  have "\<exists>rs. k' = k\<lparr>recursos_por_proceso := dictionary_put (recursos_por_proceso k) (string_itoa cm p) (Some (rs @ [r]))\<rparr> \<and>
      tomados (dictionary_get (recursos_por_proceso k) (string_itoa cm p)) x = int (count_list rs x)"
    using r by (auto simp: registrarRecursosDelProceso_def Let_def split: if_splits option.splits intro: exI [of _ "[]"])
  then obtain rs where k': "k' = k\<lparr>recursos_por_proceso := dictionary_put (recursos_por_proceso k) (string_itoa cm p) (Some (rs @ [r]))\<rparr>"
    and t: "tomados (dictionary_get (recursos_por_proceso k) (string_itoa cm p)) x = int (count_list rs x)" by blast
  have "recursos_ok k'" using ok by (simp add: recursos_ok_def k' instancias_libres_def esperan_def)
  moreover have "saldo k' x = saldo k x + (if x = r then 1 else 0)"
    using recursos_okD(1) [OF ok] by (simp add: saldo_def k' instancias_libres_def esperan_def en_poder_put t)
  ultimately show ?thesis by (simp add: k')
qed

lemma quitar_saldo:
  assumes ok: "recursos_ok k" and r: "quitarRecursoDelProceso cm r p k = Inr k'"
  obtains rs where "dictionary_get (recursos_por_proceso k) (string_itoa cm p) = Some (Some rs)" "recursos_ok k'"
    "saldo k' x = saldo k x - (if x = r \<and> r \<in> set rs then 1 else 0)"
proof -
  obtain rs where rs: "dictionary_get (recursos_por_proceso k) (string_itoa cm p) = Some (Some rs)"
    and k': "k' = k\<lparr>recursos_por_proceso := dictionary_put (recursos_por_proceso k) (string_itoa cm p) (Some (remove1 r rs))\<rparr>"
    using r by (auto simp: quitarRecursoDelProceso_def split: option.splits)
  have "recursos_ok k'" using ok by (simp add: recursos_ok_def k' instancias_libres_def esperan_def)
  moreover have "saldo k' x = saldo k x - (if x = r \<and> r \<in> set rs then 1 else 0)"
    using recursos_okD(1) [OF ok] by (auto simp: saldo_def k' instancias_libres_def esperan_def en_poder_put rs tomados_remove1 simp del: count_list_remove1)
  ultimately show thesis using that rs by blast
qed

lemma liberar_saldo:
  assumes ok: "recursos_ok k" and l: "liberar_recurso_y_actualizar_ready r k = Inr k'"
  shows "recursos_ok k' \<and> recursos_por_proceso k' = recursos_por_proceso k \<and> saldo k' x = saldo k x + (if x = r then 1 else 0)"
proof -
  obtain n where n: "dictionary_get (recursosDisponibles k) r = Some n"
    using l by (auto simp: liberar_recurso_y_actualizar_ready_def split: option.splits)
  then have ln: "instancias_libres k r = n" by (simp add: instancias_libres_def)
  show ?thesis
  proof (cases "dictionary_get (recursosEnUso k) r")
    case None
    then have k': "k' = k\<lparr>recursosDisponibles := dictionary_put (recursosDisponibles k) r (n + 1)\<rparr>"
      using l n by (simp add: liberar_recurso_y_actualizar_ready_def)
    then show ?thesis using ok None ln recursos_okD(2) [OF ok, of r]
      by (auto simp: recursos_ok_def saldo_def instancias_libres_def esperan_def cola_o_nada_def)
  next
    case (Some q)
    then obtain y ys where q: "q = y # ys" using recursos_okD(4) [OF ok] by (cases q) auto
    then have k': "k' = ready_al_final y (k\<lparr>recursosEnUso := if ys = [] then dictionary_remove (recursosEnUso k) r
        else dictionary_put (recursosEnUso k) r ys\<rparr>)"
      using l n Some by (simp add: liberar_recurso_y_actualizar_ready_def)
    have lib: "instancias_libres k' = instancias_libres k" by (rule ext) (simp add: k' instancias_libres_def ready_al_final_def)
    have esp: "int (esperan k' x) = int (esperan k x) - (if x = r then 1 else 0)" for x
      by (simp add: k' esperan_def cola_o_nada_def ready_al_final_def Some q)
    have le: "0 < esperan k z" if "0 < esperan k' z" for z
      using that esp [of z] by (simp split: if_splits)
    have "dictionary_get (recursosEnUso k') z \<noteq> Some []" for z
      using recursos_okD(4) [OF ok, of z] by (simp add: k' ready_al_final_def)
    moreover have "dict_ok (recursos_por_proceso k')"
      using recursos_okD(1) [OF ok] by (simp add: k' ready_al_final_def)
    ultimately have "recursos_ok k'"
      using recursos_okD(2,3) [OF ok] le by (simp add: recursos_ok_def lib)
    moreover have "recursos_por_proceso k' = recursos_por_proceso k" by (simp add: k' ready_al_final_def)
    ultimately show ?thesis using esp by (simp add: saldo_def lib)
  qed
qed

section \<open>The handlers and the balance\<close>

definition mejora :: "kernel \<Rightarrow> kernel \<Rightarrow> bool" where
  "mejora k k' \<longleftrightarrow> (recursos_ok k \<longrightarrow> recursos_ok k' \<and> (\<forall>x. saldo k x \<le> saldo k' x))"

lemma recursos_ok_marco: "dic_recursos k' = dic_recursos k \<Longrightarrow> recursos_ok k' = recursos_ok k"
  by (simp add: dic_recursos_def recursos_ok_def instancias_libres_def esperan_def)

lemma saldo_marco: "dic_recursos k' = dic_recursos k \<Longrightarrow> saldo k' x = saldo k x"
  by (simp add: dic_recursos_def saldo_def instancias_libres_def esperan_def)

lemma mejora_marco: "dic_recursos k' = dic_recursos k \<Longrightarrow> mejora k k'"
  by (simp only: mejora_def recursos_ok_marco [of k' k] saldo_marco [of k' k]) simp

lemma mejora_trans: "mejora k k1 \<Longrightarrow> mejora k1 k2 \<Longrightarrow> mejora k k2"
  unfolding mejora_def by (meson order_trans)

lemma wait_saldo:
  assumes ok: "recursos_ok k" and w: "wait_recurso_lista cm r p k = Inr k'"
  shows "recursos_ok k' \<and> saldo k' x = saldo k x"
proof (cases "dictionary_get (recursosDisponibles k) r")
  case None
  then have d: "dic_recursos k' = dic_recursos k"
    using w by (auto simp: wait_recurso_lista_def intro!: marco_recursos.error)
  show ?thesis using ok unfolding recursos_ok_marco [OF d] saldo_marco [OF d] by simp
next
  case (Some n)
  obtain k1 where k1: "registrarRecursosDelProceso cm r p k = Inr k1"
    using w Some by (auto simp: wait_recurso_lista_def bind_res_Inr_iff)
  have ok1: "recursos_ok k1" and n: "instancias_libres k1 r = n"
    and s: "saldo k1 x = saldo k x + (if x = r then 1 else 0)"
    using registrar_saldo [OF ok k1, of x] Some by (simp_all add: instancias_libres_def)
  show ?thesis
  proof (cases "1 \<le> n")
    case True
    then have k': "k' = ready_al_inicio p (k1\<lparr>recursosDisponibles := dictionary_put (recursosDisponibles k1) r (n - 1)\<rparr>)"
      using w Some k1 by (simp add: wait_recurso_lista_def)
    have f: "instancias_libres k' y = instancias_libres k1 y - (if y = r then 1 else 0)" "esperan k' y = esperan k1 y"
      "recursosEnUso k' = recursosEnUso k1" "recursos_por_proceso k' = recursos_por_proceso k1" for y
      using n by (simp_all add: k' ready_al_inicio_def instancias_libres_def esperan_def)
    have "recursos_ok k'"
      using recursos_okD [OF ok1] n True by (intro recursos_okI) (auto simp: f)
    then show ?thesis using s by (simp add: saldo_def f)
  next
    case False
    then have k': "k' = k1\<lparr>recursosEnUso := dictionary_put (recursosEnUso k1) r (cola_o_nada (recursosEnUso k1) r @ [p])\<rparr>"
      using w Some k1 by (simp add: wait_recurso_lista_def)
    have f: "instancias_libres k' y = instancias_libres k1 y" "esperan k' y = esperan k1 y + (if y = r then 1 else 0)"
      "recursos_por_proceso k' = recursos_por_proceso k1"
      "dictionary_get (recursosEnUso k') y = (if y = r then Some (cola_o_nada (recursosEnUso k1) r @ [p])
         else dictionary_get (recursosEnUso k1) y)" for y
      by (simp_all add: k' instancias_libres_def esperan_def cola_o_nada_def)
    have "instancias_libres k1 r = 0" using recursos_okD(2) [OF ok1, of r] n False by simp
    then have "recursos_ok k'"
      using recursos_okD [OF ok1] by (intro recursos_okI) (auto simp: f split: if_splits)
    then show ?thesis using s by (auto simp: saldo_def f)
  qed
qed

lemma signal_saldo:
  assumes ok: "recursos_ok k" and g: "signal_recurso_lista cm r p k = Inr k'"
  shows "recursos_ok k' \<and> saldo k' x = saldo k x + (if x = r \<and> dictionary_get (recursosDisponibles k) r \<noteq> None \<and>
     tomados (dictionary_get (recursos_por_proceso k) (string_itoa cm p)) r = 0 then 1 else 0)"
proof (cases "dictionary_get (recursosDisponibles k) r")
  case None
  then have d: "dic_recursos k' = dic_recursos k"
    using g by (auto simp: signal_recurso_lista_def dictionary_has_key_get intro!: marco_recursos.error)
  show ?thesis using ok None unfolding recursos_ok_marco [OF d] saldo_marco [OF d] by simp
next
  case (Some n)
  then obtain k1 where k1: "quitarRecursoDelProceso cm r p k = Inr k1"
    "liberar_recurso_y_actualizar_ready r (ready_al_inicio p k1) = Inr k'"
    using g by (auto simp: signal_recurso_lista_def dictionary_has_key_get bind_res_Inr_iff)
  obtain rs where rs: "dictionary_get (recursos_por_proceso k) (string_itoa cm p) = Some (Some rs)" "recursos_ok k1"
    "saldo k1 x = saldo k x - (if x = r \<and> r \<in> set rs then 1 else 0)"
    by (rule quitar_saldo [OF ok k1(1)])
  have d: "dic_recursos (ready_al_inicio p k1) = dic_recursos k1" by (rule marco_recursos.ready) simp
  have "recursos_ok (ready_al_inicio p k1)" "saldo (ready_al_inicio p k1) x = saldo k1 x"
    using rs(2) by (simp_all add: recursos_ok_marco [OF d] saldo_marco [OF d])
  then show ?thesis using liberar_saldo [OF _ k1(2), of x] rs Some by (auto simp: count_list_0_iff)
qed

lemma liberar_recursos_saldo:
  assumes "recursos_ok k" "liberar_recursos rs k = Inr k'"
  shows "recursos_ok k' \<and> recursos_por_proceso k' = recursos_por_proceso k \<and> saldo k' x = saldo k x + int (count_list rs x)"
  using assms
proof (induction rs arbitrary: k)
  case (Cons r rs)
  then obtain k1 where "liberar_recurso_y_actualizar_ready r k = Inr k1" "liberar_recursos rs k1 = Inr k'"
    by (auto simp: bind_res_Inr_iff)
  then show ?case using Cons.IH [of k1] liberar_saldo [OF Cons.prems(1), of r k1] by auto
qed simp

lemma liberar_proceso_saldo:
  assumes ok: "recursos_ok k" and l: "liberarRecursosDelProceso P k = Inr k'"
  shows "recursos_ok k' \<and> saldo k' x = saldo k x"
proof -
  consider "k' = k" | r rs k1 where "dictionary_get (recursos_por_proceso k) P = Some (Some (r # rs))"
    "liberar_recursos (r # rs) k = Inr k1" "k' = k1\<lparr>recursos_por_proceso := dictionary_put (recursos_por_proceso k1) P None\<rparr>"
    using l by (auto simp: liberarRecursosDelProceso_def bind_res_Inr_iff simp del: liberar_recursos.simps
        split: option.splits list.splits)
  then show ?thesis
  proof cases
    case 2
    note s = liberar_recursos_saldo [OF ok 2(2)]
    have k1: "recursos_ok k1" using s by blast
    have "instancias_libres k' = instancias_libres k1" "esperan k' = esperan k1" "recursosEnUso k' = recursosEnUso k1"
      by (auto simp: 2(3) instancias_libres_def esperan_def)
    then have "recursos_ok k'" using recursos_okD [OF k1] by (intro recursos_okI) (simp_all add: 2(3))
    moreover have "saldo k' x = saldo k1 x - int (count_list (r # rs) x)"
      using s 2(1) recursos_okD(1) [of k1]
      by (simp add: 2(3) saldo_def instancias_libres_def esperan_def en_poder_put)
    ultimately show ?thesis using s by simp
  qed (simp add: ok)
qed

lemma dic_recursos_despachar: "fifo_despachar k = Inr (k', bs) \<Longrightarrow> dic_recursos k' = dic_recursos k"
  by (cases "consolasReady k") (auto simp: fifo_despachar_def bind_res_Inr_iff dic_recursos_def)

lemma dic_recursos_conexion: "gestionarNuevasConexiones p s k = Inr k' \<Longrightarrow> dic_recursos k' = dic_recursos k"
  by (erule conexion_casos) (simp_all add: enviar_consola_def dic_recursos_def)

lemma dic_recursos_admitir:
  assumes "gestionadorReady cm mcfg k = Some (Inr k')"
  shows "dic_recursos k' = dic_recursos k"
proof -
  obtain p ps where "consolasNew k = p # ps" using assms by (cases "consolasNew k") (auto simp: gestionadorReady_def)
  then obtain k1 flag where "pedir_tabla cm mcfg (send_newsegment_petition p 0 0) p
      (k\<lparr>consolasNew := ps, hayEspacioReady := hayEspacioReady k - 1\<rparr>) = Some (Inr (k1, flag))"
    "k' = (ready_al_final p k1)\<lparr>global_PCB_list := global_PCB_list k1 @ [p]\<rparr>"
    using assms by (auto simp: gestionadorReady_def pedirTablaSegmentosInicial_def map_res_Some Let_def ready_al_final_def)
  then show ?thesis using marco_recursos.tabla by (fastforce simp: dic_recursos_def ready_al_final_def)
qed

text \<open>
  A relation between the dictionaries of the resources before and after: one obligation for each
  operation that changes them gives it for every thread.
\<close>

locale contrato_recursos =
  fixes Q :: "kernel \<Rightarrow> kernel \<Rightarrow> bool"
  assumes marco: "dic_recursos k' = dic_recursos k \<Longrightarrow> Q k k'"
    and trans: "Q k k1 \<Longrightarrow> Q k1 k2 \<Longrightarrow> Q k k2"
    and al_wait: "wait_recurso_lista cm r p k = Inr k' \<Longrightarrow> Q k k'"
    and al_signal: "signal_recurso_lista cm r p k = Inr k' \<Longrightarrow> Q k k'"
    and al_liberar: "liberarRecursosDelProceso P k = Inr k' \<Longrightarrow> Q k k'"
begin

lemma readOp:
  assumes "readOp cm mcfg cod p ps k = Some (Inr k')"
  shows "Q k k'"
  using assms
proof (cases rule: readOp_casos)
  case (crear i t)
  then show ?thesis by (intro marco marco_recursos.crear)
next
  case (borrar i k1)
  then show ?thesis
    by (auto simp: ker_delete_segment_def map_res_Some intro!: marco marco_recursos.ready dest: marco_recursos.tabla)
next
  case (error m)
  then show ?thesis by (simp add: marco marco_recursos.error)
next
  case yield
  then show ?thesis by (simp add: marco marco_recursos.ready)
qed (auto intro: al_wait al_signal simp: marco dic_recursos_def recieves_filesystem_petition_def ker_i_o_def Let_def)

lemma volver:
  assumes "fifo_volver cm mcfg p s k = Some (Inr k')"
  shows "Q k k'"
proof -
  obtain cod ps k1 where k1: "recibir_PCB cm p s (k\<lparr>running := Libre\<rparr>) = Inr (cod, ps, k1)" "readOp cm mcfg cod p ps k1 = Some (Inr k')"
    using assms by (cases "recibir_PCB cm p s (k\<lparr>running := Libre\<rparr>)") (auto simp: fifo_volver_def)
  have "Q k k1" using marco_recursos.recibir [OF k1(1)] by (intro marco) (simp add: dic_recursos_def)
  then show ?thesis using readOp [OF k1(2)] by (rule trans)
qed

lemma terminar:
  assumes "gestionadorExit cm mcfg k = Some (Inr k')"
  shows "Q k k'"
  using assms
proof (cases rule: exit_casos)
  case (1 p ps b k1 resp k2 k3)
  have "Q k k1" using marco_recursos.pedir [OF 1(3)] by (intro marco) (simp add: dic_recursos_def)
  moreover have "Q k1 k2" by (rule al_liberar [OF 1(4)])
  moreover have "Q k2 k'" using marco_recursos.cerrar [OF 1(5)] by (intro marco) (simp add: 1(6) dic_recursos_def)
  ultimately show ?thesis by (blast intro: trans)
qed

lemma paso: "ker_paso cm mcfg fcfg k k' \<Longrightarrow> Q k k'"
  by (erule ker_pasoE)
    (auto intro: volver terminar marco dic_recursos_conexion dic_recursos_admitir dic_recursos_despachar
      marco_recursos.seguir marco_recursos.operar_alguno, simp_all add: marco retenerPCB_def ready_al_final_def dic_recursos_def)

lemma alcanzable: "ker_alcanzable cm mcfg fcfg k0 k \<Longrightarrow> Q k0 k"
  by (induction rule: ker_alcanzable.induct) (auto intro: marco trans paso)

end

lemma mejora_operaciones:
  "wait_recurso_lista cm r p k = Inr k' \<Longrightarrow> mejora k k'" "signal_recurso_lista cm r p k = Inr k' \<Longrightarrow> mejora k k'"
  "liberarRecursosDelProceso P k = Inr k' \<Longrightarrow> mejora k k'"
proof -
  show "wait_recurso_lista cm r p k = Inr k' \<Longrightarrow> mejora k k'" using wait_saldo by (auto simp: mejora_def)
  show "signal_recurso_lista cm r p k = Inr k' \<Longrightarrow> mejora k k'" using signal_saldo by (auto simp: mejora_def)
  show "liberarRecursosDelProceso P k = Inr k' \<Longrightarrow> mejora k k'" using liberar_proceso_saldo by (auto simp: mejora_def)
qed

interpretation mejora: contrato_recursos mejora
  by unfold_locales (fact mejora_marco mejora_trans mejora_operaciones)+

section \<open>Every reachable state\<close>

text \<open>\<open>tot\<close> is the balance at the start: no instance is lost.\<close>

definition recursos_inv :: "(string \<Rightarrow> int) \<Rightarrow> kernel \<Rightarrow> bool" where
  "recursos_inv tot k \<longleftrightarrow> recursos_ok k \<and> (\<forall>r. tot r \<le> saldo k r)"

lemma recursos_inv_mejora: "recursos_inv tot k \<Longrightarrow> mejora k k' \<Longrightarrow> recursos_inv tot k'"
  unfolding recursos_inv_def mejora_def by (meson order_trans)

interpretation recursos_ker: invariante_ker cm mcfg fcfg "recursos_inv tot" for cm mcfg fcfg tot
proof unfold_locales
  fix k p assume i: "recursos_inv tot k"
  have "mejora k (retenerPCB p k)" by (simp add: mejora_marco retenerPCB_def ready_al_final_def dic_recursos_def)
  with i show "recursos_inv tot (retenerPCB p k)" by (rule recursos_inv_mejora)
next
  fix k m assume "recursos_inv tot k"
  then show "recursos_inv tot (k\<lparr>memoria_mod := m\<rparr>)" by (rule recursos_inv_mejora) (simp add: mejora_marco dic_recursos_def)
qed (blast intro: recursos_inv_mejora mejora_marco dic_recursos_conexion dic_recursos_admitir dic_recursos_despachar
    marco_recursos.seguir marco_recursos.operar_alguno mejora.volver mejora.terminar)+

definition recursos_iniciales_ok :: "(string, int) dict \<Rightarrow> bool" where
  "recursos_iniciales_ok d \<longleftrightarrow> (\<forall>(r, n) \<in> set d. 0 \<le> n)"

lemma recursos_inv_inicial:
  assumes "recursos_iniciales_ok d"
  shows "recursos_inv (\<lambda>r. case dictionary_get d r of None \<Rightarrow> 0 | Some n \<Rightarrow> n) (ker_inicial grado d m fs)"
proof -
  have "0 \<le> n" if "dictionary_get d r = Some n" for r n
    using that assms by (auto simp: recursos_iniciales_ok_def dictionary_get_def dest: map_of_SomeD)
  then show ?thesis
    by (auto simp: recursos_inv_def recursos_ok_def instancias_libres_def esperan_def cola_o_nada_def saldo_def en_poder_def ker_inicial_def
        split: option.split)
qed

end
