(* ===== verification/Ker_Archivos.thy ===== *)
theory Ker_Archivos
  imports Ker_Recursos
begin

text \<open>
  The table of open files (\<open>process_f_open\<close>, \<open>process_f_close\<close>, \<open>liberar_archivo\<close>,
  \<open>cerrarArchivosDelProceso\<close>): a descriptor is freed when its last holder closes it and not
  before, and the processes that hold it beyond the first wait in the queue of the file.
\<close>

section \<open>Holders and queues\<close>

definition referencias :: "kernel \<Rightarrow> nat multiset" where
  "referencias k = mset (concat (map (\<lambda>x. pcb_tablaArchivos (snd x)) (pcbs k)))"

definition nombre_de :: "descriptor option list \<Rightarrow> nat \<Rightarrow> string" where
  "nombre_de ds i = file_name (the (ds ! i))"

definition archivos_ok :: "nat multiset \<Rightarrow> descriptor option list \<Rightarrow> nat list \<Rightarrow> (string, int list) dict \<Rightarrow> bool" where
  "archivos_ok M ds g c \<longleftrightarrow> distinct g \<and> (\<forall>i \<in> set g. i < length ds \<and> ds ! i \<noteq> None) \<and>
     distinct (map (nombre_de ds) g) \<and> (\<forall>n. dictionary_get c n \<noteq> None \<longleftrightarrow> n \<in> nombre_de ds ` set g) \<and>
     (\<forall>i. count M i = (if i \<in> set g then Suc (length (cola_o_nada c (nombre_de ds i))) else 0))"

lemma archivos_okD:
  assumes "archivos_ok M ds g c"
  shows "distinct g" "i \<in> set g \<Longrightarrow> i < length ds \<and> ds ! i \<noteq> None" "distinct (map (nombre_de ds) g)"
    "dictionary_get c n \<noteq> None \<longleftrightarrow> n \<in> nombre_de ds ` set g"
    "count M i = (if i \<in> set g then Suc (length (cola_o_nada c (nombre_de ds i))) else 0)"
  using assms unfolding archivos_ok_def by blast+

lemma nombre_inj:
  assumes "archivos_ok M ds g c" "i \<in> set g" "j \<in> set g"
  shows "nombre_de ds i = nombre_de ds j \<longleftrightarrow> i = j"
  using archivos_okD(3) [OF assms(1)] assms(2,3) by (auto simp: distinct_map dest: inj_onD)

lemma archivos_ok_en_tabla: "archivos_ok M ds g c \<Longrightarrow> i \<in># M \<Longrightarrow> i \<in> set g"
  using archivos_okD(5) [of M ds g c i] by (metis count_eq_zero_iff)

text \<open>One more holder waits, one holder leaves to the next, the last one leaves.\<close>

lemma archivos_ok_espera:
  assumes ok: "archivos_ok M ds g c" and i: "i \<in> set g"
  shows "archivos_ok (add_mset i M) ds g (dictionary_put c (nombre_de ds i) (cola_o_nada c (nombre_de ds i) @ [p]))"
  using archivos_okD [OF ok] i nombre_inj [OF ok _ i] unfolding archivos_ok_def by (auto simp: cola_o_nada_def)

lemma archivos_ok_pasa:
  assumes ok: "archivos_ok (add_mset i M) ds g c" and q: "dictionary_get c (nombre_de ds i) = Some (x # xs)"
  shows "archivos_ok M ds g (dictionary_put c (nombre_de ds i) xs)"
proof -
  have i: "i \<in> set g" using archivos_ok_en_tabla [OF ok, of i] by simp
  have "count M j = (if j \<in> set g then Suc (length (cola_o_nada (dictionary_put c (nombre_de ds i) xs) (nombre_de ds j))) else 0)" for j
    using archivos_okD(5) [OF ok, of j] q i nombre_inj [OF ok i, of j] by (auto simp: cola_o_nada_def split: if_splits)
  then show ?thesis using archivos_okD [OF ok] i unfolding archivos_ok_def by auto
qed

lemma archivos_ok_libera:
  assumes ok: "archivos_ok (add_mset i M) ds g c" and q: "dictionary_get c (nombre_de ds i) = Some []"
  shows "archivos_ok M (ds[i := None]) (remove1 i g) (dictionary_remove c (nombre_de ds i))"
proof -
  note D = archivos_okD [OF ok]
  have i: "i \<in> set g" using archivos_ok_en_tabla [OF ok, of i] by simp
  have g: "set (remove1 i g) = set g - {i}" using D(1) by simp
  have n: "nombre_de (ds[i := None]) j = nombre_de ds j" if "j \<in> set g - {i}" for j
    using that by (simp add: nombre_de_def)
  then have ns: "map (nombre_de (ds[i := None])) (remove1 i g) = map (nombre_de ds) (remove1 i g)"
    unfolding map_eq_conv g by blast
  have "distinct (map (nombre_de ds) (remove1 i g))"
    using D(1,3) by (auto simp: distinct_map inj_on_def)
  moreover have "dictionary_get (dictionary_remove c (nombre_de ds i)) m \<noteq> None \<longleftrightarrow> m \<in> nombre_de (ds[i := None]) ` set (remove1 i g)" for m
  proof -
    have "nombre_de (ds[i := None]) ` set (remove1 i g) = nombre_de ds ` (set g - {i})"
      unfolding g using n by (intro image_cong) auto
    also have "\<dots> = nombre_de ds ` set g - {nombre_de ds i}"
      using nombre_inj [OF ok _ i] by auto
    finally show ?thesis using D(4) [of m] by auto
  qed
  moreover have "count M j = (if j \<in> set (remove1 i g) then Suc (length (cola_o_nada (dictionary_remove c (nombre_de ds i)) (nombre_de (ds[i := None]) j))) else 0)" for j
    using D(5) [of j] q i n [of j] nombre_inj [OF ok i, of j] unfolding g by (auto simp: cola_o_nada_def split: if_splits)
  ultimately show ?thesis using D(1,2) unfolding archivos_ok_def ns g by (auto simp: nth_list_update)
qed

lemma archivos_ok_nuevo:
  assumes ok: "archivos_ok M ds g c" and n: "n \<notin> nombre_de ds ` set g"
  shows "archivos_ok (add_mset (length ds) M) (ds @ [Some \<lparr>file_name = n, pointer = 0\<rparr>]) (g @ [length ds]) (dictionary_put c n [])"
proof -
  note D = archivos_okD [OF ok]
  let ?ds = "ds @ [Some \<lparr>file_name = n, pointer = 0\<rparr>]"
  have l: "length ds \<notin> set g" using D(2) by blast
  have e: "nombre_de ?ds j = nombre_de ds j" if "j \<in> set g" for j
    using D(2) [OF that] by (simp add: nombre_de_def nth_append)
  have m: "nombre_de ?ds (length ds) = n" by (simp add: nombre_de_def)
  have img: "nombre_de ?ds ` set g = nombre_de ds ` set g" using e by (intro image_cong) auto
  have mp: "map (nombre_de ?ds) g = map (nombre_de ds) g" using e by simp
  have "distinct (map (nombre_de ?ds) (g @ [length ds]))" unfolding map_append mp using D(3) n by (simp add: m)
  moreover have "count (add_mset (length ds) M) j = (if j \<in> set (g @ [length ds])
      then Suc (length (cola_o_nada (dictionary_put c n []) (nombre_de ?ds j))) else 0)" for j
  proof (cases "j \<in> set g")
    case True
    then have "nombre_de ds j \<noteq> n" "j \<noteq> length ds" using n l by auto
    then show ?thesis using D(5) [of j] True by (simp add: e cola_o_nada_def)
  next
    case False
    then show ?thesis using D(5) [of j] by (auto simp: m cola_o_nada_def)
  qed
  ultimately show ?thesis using D(1,2,4) l unfolding archivos_ok_def
    by (auto simp: img m nth_append intro: less_SucI)
qed

section \<open>The handlers\<close>

definition archivos_con :: "nat multiset \<Rightarrow> kernel \<Rightarrow> bool" where
  "archivos_con M k \<longleftrightarrow> archivos_ok M (descriptores k) (GDT k) (diccionario_colas_archivos k)"

lemma referencias_pcb:
  assumes "dict_ok (pcbs k)" "pcb_de k p = Inr b" "cambiar_pcb p f k = Inr k'"
  shows "referencias k' + mset (pcb_tablaArchivos b) = referencias k + mset (pcb_tablaArchivos (f b))"
    "archivos_con M k' = archivos_con M k"
proof -
  have g: "dictionary_get (pcbs k) p = Some b" using assms(2) by (auto simp: pcb_de_def split: option.splits)
  from dictionary_split [OF assms(1) g] obtain pre post where "pcbs k = pre @ (p, b) # post"
    "\<forall>w. dictionary_put (pcbs k) p w = pre @ (p, w) # post" by metis
  then show "referencias k' + mset (pcb_tablaArchivos b) = referencias k + mset (pcb_tablaArchivos (f b))"
    using assms(2,3) by (auto simp: cambiar_pcb_def referencias_def)
  show "archivos_con M k' = archivos_con M k"
    using assms(2,3) by (auto simp: cambiar_pcb_def archivos_con_def)
qed

lemma descriptor_de_ok: "archivos_con M k \<Longrightarrow> i \<in> set (GDT k) \<Longrightarrow> \<exists>d. descriptor_de k i = Inr d \<and> file_name d = nombre_de (descriptores k) i"
  unfolding archivos_con_def using archivos_okD(2) [of M "descriptores k" "GDT k" "diccionario_colas_archivos k" i]
  by (auto simp: descriptor_de_def nombre_de_def)

lemma liberar_archivo_ok:
  assumes ok: "archivos_con (add_mset i M) k"
  shows "\<exists>k'. liberar_archivo i k = Inr k' \<and> archivos_con M k' \<and> pcbs k' = pcbs k"
proof -
  note ok' = ok [unfolded archivos_con_def]
  have i: "i \<in> set (GDT k)" using archivos_ok_en_tabla [OF ok'] by simp
  then obtain d where d: "descriptor_de k i = Inr d" "file_name d = nombre_de (descriptores k) i"
    using descriptor_de_ok [OF ok] by blast
  obtain q where q: "dictionary_get (diccionario_colas_archivos k) (nombre_de (descriptores k) i) = Some q"
    using archivos_okD(4) [OF ok'] i by blast
  show ?thesis
  proof (cases q)
    case Nil
    then show ?thesis using archivos_ok_libera [OF ok'] d q
      by (simp add: liberar_archivo_def cola_de_archivo_def archivos_con_def)
  next
    case (Cons x xs)
    then show ?thesis using archivos_ok_pasa [OF ok'] d q
      by (simp add: liberar_archivo_def cola_de_archivo_def archivos_con_def ready_al_final_def)
  qed
qed

lemma cerrar_archivos_ok:
  "archivos_con (mset is + M) k \<Longrightarrow> \<exists>k'. cerrar_archivos is k = Inr k' \<and> archivos_con M k' \<and> pcbs k' = pcbs k"
proof (induction "is" arbitrary: k)
  case (Cons i "is")
  then obtain k1 where "liberar_archivo i k = Inr k1" "archivos_con (mset is + M) k1" "pcbs k1 = pcbs k"
    using liberar_archivo_ok [of i "mset is + M" k] by auto
  then show ?case using Cons.IH [of k1] by auto
qed simp

text \<open>The invariant, and its frame: the holders are counted in the tables of the PCBs.\<close>

definition archivos_inv :: "kernel \<Rightarrow> bool" where
  "archivos_inv k \<longleftrightarrow> dict_ok (pcbs k) \<and> archivos_con (referencias k) k"

definition dic_archivos :: "kernel \<Rightarrow> descriptor option list \<times> nat list \<times> (string, int list) dict \<times> (int \<times> nat list) list" where
  "dic_archivos k = (descriptores k, GDT k, diccionario_colas_archivos k, map (\<lambda>x. (fst x, pcb_tablaArchivos (snd x))) (pcbs k))"

lemma archivos_marco:
  assumes "dic_archivos k' = dic_archivos k" "archivos_inv k"
  shows "archivos_inv k'"
proof -
  have t: "map (\<lambda>x. (fst x, pcb_tablaArchivos (snd x))) (pcbs k') = map (\<lambda>x. (fst x, pcb_tablaArchivos (snd x))) (pcbs k)"
    using assms(1) by (simp add: dic_archivos_def)
  have "map fst (pcbs k') = map fst (pcbs k)" using arg_cong [OF t, of "map fst"] by (simp add: comp_def)
  moreover have "referencias k' = referencias k"
    using arg_cong [OF t, of "\<lambda>l. mset (concat (map snd l))"] by (simp add: referencias_def comp_def)
  ultimately show ?thesis using assms by (simp add: archivos_inv_def archivos_con_def dic_archivos_def dict_ok_def)
qed

lemma map_put:
  assumes "dictionary_get d p = Some b" "h (p, b') = h (p, b)"
  shows "map h (dictionary_put d p b') = map h d"
  using assms by (induction d) (auto simp: dictionary_get_def dictionary_put_def split: if_splits)

lemma dic_archivos_pcb:
  assumes "cambiar_pcb p f k = Inr k'" "\<And>b. pcb_tablaArchivos (f b) = pcb_tablaArchivos b"
  shows "dic_archivos k' = dic_archivos k"
  using assms by (auto simp: cambiar_pcb_def pcb_de_def dic_archivos_def bind_res_Inr_iff map_put split: option.splits)

interpretation marco_archivos: contrato_ker "\<lambda>_ k k'. dic_archivos k' = dic_archivos k"
proof unfold_locales
  fix p t k k' assume "cambiar_pcb p (\<lambda>b. b\<lparr>pcb_tablaSegmentos := t\<rparr>) k = Inr k'"
  then show "dic_archivos k' = dic_archivos k" by (rule dic_archivos_pcb) simp
qed (simp_all add: dic_archivos_def ready_al_final_def ready_al_inicio_def)

lemma dic_archivos_fs: "pedir_fs cm fcfg bs k = Inr (k', r) \<Longrightarrow> dic_archivos k' = dic_archivos k"
  by (auto simp: pedir_fs_def bind_res_Inr_iff dic_archivos_def)

lemma archivos_f_close:
  assumes i: "archivos_inv k" and c: "process_f_close ps p k = Inr k'"
  shows "archivos_inv k'"
proof -
  obtain name b e where e: "pcb_de k p = Inr b" "buscar_descriptor k name (pcb_tablaArchivos b) = Inr e" "parametro ps 0 = Inr name"
    using c by (auto simp: process_f_close_def bind_res_Inr_iff)
  show ?thesis
  proof (cases e)
    case None
    then have "dic_archivos k' = dic_archivos k"
      using c e by (auto simp: process_f_close_def intro!: marco_archivos.error)
    then show ?thesis using i by (rule archivos_marco)
  next
    case (Some j)
    have j: "j \<in> set (pcb_tablaArchivos b)" using buscar_descriptor_Some e(2) Some by blast
    obtain k1 where k1: "cambiar_pcb p (\<lambda>b. b\<lparr>pcb_tablaArchivos := remove1 j (pcb_tablaArchivos b)\<rparr>) k = Inr k1"
      "liberar_archivo j (ready_al_final p k1) = Inr k'"
      using c e Some by (auto simp: process_f_close_def bind_res_Inr_iff)
    have d: "dict_ok (pcbs k)" "archivos_con (referencias k) k" using i by (simp_all add: archivos_inv_def)
    have "mset (pcb_tablaArchivos b) = add_mset j (mset (remove1 j (pcb_tablaArchivos b)))" using j by simp
    then have r: "referencias k = add_mset j (referencias k1)"
      using referencias_pcb(1) [OF d(1) e(1) k1(1)] by (simp del: mset_remove1)
    have "archivos_con (add_mset j (referencias k1)) (ready_al_final p k1)"
      using d(2) referencias_pcb(2) [OF d(1) e(1) k1(1)] by (simp add: r archivos_con_def ready_al_final_def)
    from liberar_archivo_ok [OF this] k1(2) have "archivos_con (referencias k1) k'" "pcbs k' = pcbs k1"
      by (auto simp: ready_al_final_def)
    moreover have "dict_ok (pcbs k1)" using mueve_pcb(1) [OF k1(1)] d(1) by (simp add: mueve_def dict_ok_def)
    ultimately show ?thesis by (simp add: archivos_inv_def referencias_def)
  qed
qed

lemma archivos_f_open:
  assumes i: "archivos_inv k" and o: "process_f_open cm fcfg ps p k = Inr k'"
  shows "archivos_inv k'"
proof -
  have d: "dict_ok (pcbs k)" "archivos_con (referencias k) k" using i by (simp_all add: archivos_inv_def)
  note ok = d(2) [unfolded archivos_con_def]
  from o show ?thesis
  proof (cases rule: f_open_casos)
    case (nuevo name k2 k3)
    let ?i = "length (descriptores k)" and ?k2 = "k2\<lparr>GDT := GDT k2 @ [length (descriptores k)]\<rparr>"
    have n: "name \<notin> nombre_de (descriptores k) ` set (GDT k)"
      using buscar_descriptor_None [OF nuevo(2)] descriptor_de_ok [OF d(2)] by fastforce
    have k2: "descriptores k2 = descriptores k @ [Some \<lparr>file_name = name, pointer = 0\<rparr>]" "GDT k2 = GDT k"
      "diccionario_colas_archivos k2 = dictionary_put (diccionario_colas_archivos k) name []" "pcbs k2 = pcbs k"
      using nuevo(3) by (auto simp: pedir_fs_def bind_res_Inr_iff)
    have con: "archivos_con (add_mset ?i (referencias k)) ?k2"
      using archivos_ok_nuevo [OF ok n] by (simp add: archivos_con_def k2)
    obtain b where b: "pcb_de ?k2 p = Inr b" using nuevo(4) by (auto simp: cambiar_pcb_def bind_res_Inr_iff)
    have dk: "dict_ok (pcbs ?k2)" using d(1) by (simp add: k2)
    have "referencias ?k2 = referencias k" by (simp add: referencias_def k2)
    then have "referencias k3 = add_mset ?i (referencias k)"
      using referencias_pcb(1) [OF dk b nuevo(4)] by simp
    moreover have "dict_ok (pcbs k3)" using mueve_pcb(1) [OF nuevo(4)] dk by (simp add: mueve_def dict_ok_def)
    ultimately have "archivos_inv k3" using con referencias_pcb(2) [OF dk b nuevo(4)] by (simp add: archivos_inv_def)
    then show ?thesis by (rule archivos_marco [rotated]) (simp add: nuevo(5) dic_archivos_def ready_al_inicio_def)
  next
    case (abierto name j k1 q)
    have j: "j \<in> set (GDT k)" and jn: "nombre_de (descriptores k) j = name"
      using buscar_descriptor_Some [OF abierto(2)] descriptor_de_ok [OF d(2)] by fastforce+
    obtain b where b: "pcb_de k p = Inr b" using abierto(3) by (auto simp: cambiar_pcb_def bind_res_Inr_iff)
    have r: "referencias k1 = add_mset j (referencias k)"
      using referencias_pcb(1) [OF d(1) b abierto(3)] by simp
    have k1: "descriptores k1 = descriptores k" "GDT k1 = GDT k" "diccionario_colas_archivos k1 = diccionario_colas_archivos k"
      using abierto(3) by (auto simp: cambiar_pcb_def bind_res_Inr_iff)
    have "archivos_con (referencias k1) k'"
      using archivos_ok_espera [OF ok j, of p] abierto(4) unfolding r by (simp add: archivos_con_def abierto(5) k1 jn cola_o_nada_def)
    moreover have "dict_ok (pcbs k1)" using mueve_pcb(1) [OF abierto(3)] d(1) by (simp add: mueve_def dict_ok_def)
    ultimately show ?thesis by (simp add: archivos_inv_def abierto(5) referencias_def)
  qed
qed

lemma archivos_fseek:
  assumes i: "archivos_inv k" and f: "process_fseek ps p k = Inr k'"
  shows "archivos_inv k'"
proof -
  obtain j x where k': "k' = ready_al_inicio p (k\<lparr>descriptores := (descriptores k)[j := map_option (\<lambda>d. d\<lparr>pointer := x\<rparr>) (descriptores k ! j)]\<rparr>)"
    using f by (auto simp: process_fseek_def bind_res_Inr_iff split: option.splits)
  let ?ds = "(descriptores k)[j := map_option (\<lambda>d. d\<lparr>pointer := x\<rparr>) (descriptores k ! j)]"
  have a: "?ds ! h \<noteq> None \<longleftrightarrow> descriptores k ! h \<noteq> None" if "h < length (descriptores k)" for h
    using that by (cases "h = j") simp_all
  have n: "nombre_de ?ds h = nombre_de (descriptores k) h" if "h < length (descriptores k)" "descriptores k ! h \<noteq> None" for h
    using that by (cases "h = j") (auto simp: nombre_de_def)
  have "archivos_ok M ?ds (GDT k) c" if ok: "archivos_ok M (descriptores k) (GDT k) c" for M c
  proof -
    have e: "nombre_de ?ds h = nombre_de (descriptores k) h" if "h \<in> set (GDT k)" for h
      using archivos_okD(2) [OF ok that] n by blast
    then have m: "map (nombre_de ?ds) (GDT k) = map (nombre_de (descriptores k)) (GDT k)"
      "nombre_de ?ds ` set (GDT k) = nombre_de (descriptores k) ` set (GDT k)"
      by (auto intro: image_cong)
    show ?thesis using archivos_okD [OF ok] e a unfolding archivos_ok_def m by simp
  qed
  then show ?thesis using i by (simp add: archivos_inv_def archivos_con_def referencias_def k' ready_al_inicio_def)
qed

lemma archivos_nodo:
  assumes i: "archivos_inv k" and o: "operar_nodo cm fcfg n k = Inr k'"
  shows "archivos_inv k'"
proof -
  have t: "dic_archivos k' = dic_archivos k" if "f_truncate_process cm fcfg ps p k = Inr k'" for ps p k k'
    using that by (auto simp: f_truncate_process_def bind_res_Inr_iff intro!: marco_archivos.ready marco_archivos.error dest: dic_archivos_fs)
  have a: "archivos_inv (k1\<lparr>compactionBlockers := c\<rparr>)" if "process_fs_acceso cod cm fcfg ps p k = Inr k1" for cod ps p k1 c
  proof -
    have "dic_archivos k1 = dic_archivos k"
      using that by (auto simp: process_fs_acceso_def bind_res_Inr_iff split: option.splits intro!: marco_archivos.ready dest: dic_archivos_fs)
    then show ?thesis by (intro archivos_marco [OF _ i]) (simp add: dic_archivos_def)
  qed
  show ?thesis
    using o by (auto simp: operar_nodo_def Let_def process_fwrite_def process_fread_def bind_res_Inr_iff simp del: op_num.simps
        split: if_splits intro: archivos_f_open [OF i] archivos_f_close [OF i] archivos_fseek [OF i] archivos_marco [OF t i] a)
qed

section \<open>Every reachable state\<close>

text \<open>The calls on resources leave the files alone.\<close>

lemma dic_archivos_registrar: "registrarRecursosDelProceso cm r p k = Inr k' \<Longrightarrow> dic_archivos k' = dic_archivos k"
  by (auto simp: registrarRecursosDelProceso_def Let_def dic_archivos_def split: if_splits option.splits)

lemma dic_archivos_liberar:
  "liberar_recurso_y_actualizar_ready r k = Inr k' \<Longrightarrow> dic_archivos k' = dic_archivos k"
  by (auto simp: liberar_recurso_y_actualizar_ready_def ready_al_final_def dic_archivos_def split: option.splits list.splits)

lemma dic_archivos_wait:
  assumes "wait_recurso_lista cm r p k = Inr k'"
  shows "dic_archivos k' = dic_archivos k"
proof (cases "dictionary_get (recursosDisponibles k) r")
  case None
  then show ?thesis using assms by (auto simp: wait_recurso_lista_def intro: marco_archivos.error)
next
  case (Some n)
  then obtain k1 where k1: "registrarRecursosDelProceso cm r p k = Inr k1"
    using assms by (auto simp: wait_recurso_lista_def bind_res_Inr_iff)
  then show ?thesis using assms Some dic_archivos_registrar [OF k1]
    by (auto simp: wait_recurso_lista_def ready_al_inicio_def dic_archivos_def split: if_splits)
qed

lemma dic_archivos_signal:
  assumes "signal_recurso_lista cm r p k = Inr k'"
  shows "dic_archivos k' = dic_archivos k"
proof (cases "dictionary_has_key (recursosDisponibles k) r")
  case True
  then obtain k1 where k1: "quitarRecursoDelProceso cm r p k = Inr k1"
    "liberar_recurso_y_actualizar_ready r (ready_al_inicio p k1) = Inr k'"
    using assms by (auto simp: signal_recurso_lista_def bind_res_Inr_iff)
  have "dic_archivos k1 = dic_archivos k"
    using k1(1) by (auto simp: quitarRecursoDelProceso_def dic_archivos_def split: option.splits)
  then show ?thesis using dic_archivos_liberar [OF k1(2)] by (simp add: ready_al_inicio_def dic_archivos_def)
next
  case False
  then show ?thesis using assms by (auto simp: signal_recurso_lista_def intro: marco_archivos.error)
qed

lemma dic_archivos_liberar_recursos: "liberar_recursos rs k = Inr k' \<Longrightarrow> dic_archivos k' = dic_archivos k"
  by (induction rs arbitrary: k) (auto simp: bind_res_Inr_iff dest: dic_archivos_liberar)

lemma dic_archivos_liberar_proceso:
  assumes "liberarRecursosDelProceso P k = Inr k'"
  shows "dic_archivos k' = dic_archivos k"
proof -
  consider "k' = k" | rs k1 where "liberar_recursos rs k = Inr k1"
    "k' = k1\<lparr>recursos_por_proceso := dictionary_put (recursos_por_proceso k1) P None\<rparr>"
    using assms by (auto simp: liberarRecursosDelProceso_def bind_res_Inr_iff simp del: liberar_recursos.simps
        split: option.splits list.splits)
  then show ?thesis by cases (auto simp: dic_archivos_def dest: dic_archivos_liberar_recursos)
qed

lemma archivos_readOp:
  assumes "readOp cm mcfg cod p ps k = Some (Inr k')"
  shows "dic_archivos k' = dic_archivos k"
  using assms
proof (cases rule: readOp_casos)
  case (wait r)
  then show ?thesis by (intro dic_archivos_wait)
next
  case (signal r)
  then show ?thesis by (intro dic_archivos_signal)
next
  case (crear i t)
  then show ?thesis by (intro marco_archivos.crear)
next
  case (borrar i k1)
  then show ?thesis by (auto simp: ker_delete_segment_def map_res_Some intro!: marco_archivos.ready dest: marco_archivos.tabla)
next
  case (error m)
  then show ?thesis by (simp add: marco_archivos.error)
next
  case yield
  then show ?thesis by (simp add: marco_archivos.ready)
qed (simp_all add: dic_archivos_def recieves_filesystem_petition_def ker_i_o_def Let_def)

lemma archivos_volver:
  assumes i: "archivos_inv k" and v: "fifo_volver cm mcfg p s k = Some (Inr k')"
  shows "archivos_inv k'"
proof -
  obtain cod ps k1 where k1: "recibir_PCB cm p s (k\<lparr>running := Libre\<rparr>) = Inr (cod, ps, k1)" "readOp cm mcfg cod p ps k1 = Some (Inr k')"
    using v by (cases "recibir_PCB cm p s (k\<lparr>running := Libre\<rparr>)") (auto simp: fifo_volver_def)
  obtain f where f: "cambiar_pcb p f (k\<lparr>running := Libre\<rparr>) = Inr k1" "\<And>b. pcb_tablaArchivos (f b) = pcb_tablaArchivos b"
    using k1(1) by (fastforce simp: recibir_PCB_def bind_res_Inr_iff split: if_splits)
  have "dic_archivos k' = dic_archivos k"
    using archivos_readOp [OF k1(2)] dic_archivos_pcb [OF f] by (simp add: dic_archivos_def)
  then show ?thesis using i by (rule archivos_marco)
qed

lemma referencias_remove:
  assumes "dict_ok (pcbs k)" "pcb_de k p = Inr b"
  shows "referencias k = mset (pcb_tablaArchivos b) + mset (concat (map (\<lambda>x. pcb_tablaArchivos (snd x)) (dictionary_remove (pcbs k) p)))"
proof -
  have "dictionary_get (pcbs k) p = Some b" using assms(2) by (auto simp: pcb_de_def split: option.splits)
  from dictionary_split [OF assms(1) this] obtain pre post where
    "pcbs k = pre @ (p, b) # post" "dictionary_remove (pcbs k) p = pre @ post" by metis
  then show ?thesis by (simp add: referencias_def)
qed

lemma tablas_remove:
  "concat (map (\<lambda>x. pcb_tablaArchivos (snd x)) (dictionary_remove d p))
     = concat (map snd (filter (\<lambda>y. fst y \<noteq> p) (map (\<lambda>x. (fst x, pcb_tablaArchivos (snd x))) d)))"
  by (induction d) (auto simp: dictionary_remove_def)

lemma archivos_terminar:
  assumes i: "archivos_inv k" and g: "gestionadorExit cm mcfg k = Some (Inr k')"
  shows "archivos_inv k'"
  using g
proof (cases rule: exit_casos)
  case (1 p ps b k1 resp k2 k3)
  let ?k0 = "k\<lparr>consolasExit := ps, global_PCB_list := remove1 p (global_PCB_list k)\<rparr>"
  have m: "dic_archivos k2 = dic_archivos k"
    using marco_archivos.pedir [OF 1(3)] dic_archivos_liberar_proceso [OF 1(4)] by (simp add: dic_archivos_def)
  then have t: "map (\<lambda>x. (fst x, pcb_tablaArchivos (snd x))) (pcbs k2) = map (\<lambda>x. (fst x, pcb_tablaArchivos (snd x))) (pcbs k)"
    by (simp add: dic_archivos_def)
  let ?M = "mset (concat (map (\<lambda>x. pcb_tablaArchivos (snd x)) (dictionary_remove (pcbs k) p)))"
  have d: "dict_ok (pcbs k)" using i by (simp add: archivos_inv_def)
  have "archivos_con (referencias k) k" using i by (simp add: archivos_inv_def)
  then have "archivos_con (mset (pcb_tablaArchivos b) + ?M) k2"
    using m unfolding referencias_remove [OF d 1(2)] by (simp add: archivos_con_def dic_archivos_def)
  from cerrar_archivos_ok [OF this] 1(5) have k3: "archivos_con ?M k3" "pcbs k3 = pcbs k2" by auto
  have "dict_ok (pcbs k2)" using archivos_marco [OF m i] by (simp add: archivos_inv_def)
  moreover have "referencias k' = ?M"
    unfolding referencias_def 1(6) using k3(2) t by (simp add: tablas_remove)
  ultimately show ?thesis using k3 by (simp add: archivos_inv_def archivos_con_def 1(6))
qed

lemma archivos_conexion:
  assumes i: "archivos_inv k" and n: "dictionary_get (pcbs k) p = None" and g: "gestionarNuevasConexiones p s k = Inr k'"
  shows "archivos_inv k'"
proof -
  have d: "dict_ok (pcbs k)" "archivos_con (referencias k) k" using i by (simp_all add: archivos_inv_def)
  from g show ?thesis
  proof (cases rule: conexion_casos)
    case (programa bs b)
    have "pcbs k' = pcbs k @ [(p, b)]"
      using dictionary_put_new [OF n, of b] by (simp add: programa(2) enviar_consola_def)
    moreover from this have "referencias k' = referencias k" by (simp add: referencias_def programa(1))
    moreover have "dict_ok (pcbs k')" using d(1) by (simp add: programa(2) enviar_consola_def)
    ultimately show ?thesis using d(2) by (simp add: archivos_inv_def archivos_con_def programa(2) enviar_consola_def)
  qed (auto intro!: archivos_marco [OF _ i] simp: enviar_consola_def dic_archivos_def)
qed

lemma dic_archivos_admitir:
  assumes "gestionadorReady cm mcfg k = Some (Inr k')"
  shows "dic_archivos k' = dic_archivos k"
proof -
  obtain p ps where "consolasNew k = p # ps" using assms by (cases "consolasNew k") (auto simp: gestionadorReady_def)
  then obtain k1 flag where k1: "pedir_tabla cm mcfg (send_newsegment_petition p 0 0) p
      (k\<lparr>consolasNew := ps, hayEspacioReady := hayEspacioReady k - 1\<rparr>) = Some (Inr (k1, flag))"
    "k' = (ready_al_final p k1)\<lparr>global_PCB_list := global_PCB_list k1 @ [p]\<rparr>"
    using assms by (auto simp: gestionadorReady_def pedirTablaSegmentosInicial_def map_res_Some Let_def ready_al_final_def)
  show ?thesis using marco_archivos.tabla [OF k1(1)] by (simp add: k1(2) dic_archivos_def ready_al_final_def)
qed

interpretation archivos_ker: invariante_ker cm mcfg fcfg archivos_inv for cm mcfg fcfg
proof unfold_locales
  fix k k' bs assume i: "archivos_inv k" and g: "fifo_despachar k = Inr (k', bs)"
  have "dic_archivos k' = dic_archivos k"
    using g by (cases "consolasReady k") (auto simp: fifo_despachar_def bind_res_Inr_iff dic_archivos_def)
  then show "archivos_inv k'" using i by (rule archivos_marco)
next
  fix k p assume i: "archivos_inv k"
  show "archivos_inv (retenerPCB p k)"
    by (rule archivos_marco [OF _ i]) (simp add: retenerPCB_def ready_al_final_def dic_archivos_def)
next
  fix k m assume i: "archivos_inv k"
  show "archivos_inv (k\<lparr>memoria_mod := m\<rparr>)" by (rule archivos_marco [OF _ i]) (simp add: dic_archivos_def)
next
  fix k k' assume i: "archivos_inv k" and o: "operarFS cm fcfg k = Inr k'"
  obtain n ns k1 where n: "operar_nodo cm fcfg n (k\<lparr>consolasBlocked := ns\<rparr>) = Inr k1" "k' = dar_permiso k1"
    using o by (auto simp: operarFS_def bind_res_Inr_iff split: list.splits)
  have "archivos_inv (k\<lparr>consolasBlocked := ns\<rparr>)" by (rule archivos_marco [OF _ i]) (simp add: dic_archivos_def)
  from archivos_nodo [OF this n(1)] show "archivos_inv k'"
    by (rule archivos_marco [rotated]) (simp add: n(2) dar_permiso_def dic_archivos_def)
next
  fix k k' p segID tam assume i: "archivos_inv k" and g: "seguir_compactacion cm mcfg p segID tam k = Some (Inr k')"
  show "archivos_inv k'" by (rule archivos_marco [OF marco_archivos.seguir [OF g] i])
next
  fix k k' assume i: "archivos_inv k" and g: "gestionadorReady cm mcfg k = Some (Inr k')"
  show "archivos_inv k'" by (rule archivos_marco [OF dic_archivos_admitir [OF g] i])
qed (blast intro: archivos_conexion archivos_volver archivos_terminar)+

lemma archivos_inv_inicial: "archivos_inv (ker_inicial grado recursos m fs)"
  by (simp add: archivos_inv_def archivos_con_def archivos_ok_def referencias_def ker_inicial_def)

lemma archivos_inv_alcanzable:
  "ker_alcanzable cm mcfg fcfg (ker_inicial grado recursos m fs) k \<Longrightarrow> archivos_inv k"
  by (rule archivos_ker.alcanzable [OF _ archivos_inv_inicial])

end
