(* ===== verification/Ker_Propiedades.thy ===== *)
theory Ker_Propiedades
  imports Ker_Archivos Fs_Propiedades
begin

text \<open>
  A run of the kernel that reaches the states of the witnesses, the degree of
  multiprogramming in every reachable state, and what \<open>SIGNAL\<close> does to the balance of
  instances. The invariants that hold with both schedulers are in \<open>Ker_Hrrn_Propiedades\<close>.
\<close>

section \<open>A run of the kernel\<close>

text \<open>A process arrives, is admitted, goes to the CPU and comes back with a \<open>WAIT\<close> that is granted.\<close>

definition seg0_ej :: segmento where
  "seg0_ej = \<lparr>seg_ID = 0, seg_base = 0, seg_limite = 8\<rparr>"

definition pcb_ej :: "int \<Rightarrow> segmento list \<Rightarrow> pcb" where
  "pcb_ej pc ss = \<lparr>pcb_instrucciones = [''EXIT''], pcb_program_counter = pc,
     pcb_registros = replicate 12 ''0000'', pcb_tablaSegmentos = ss, pcb_tablaArchivos = []\<rparr>"

definition ker0 :: kernel where
  "ker0 = ker_inicial 2 [(''R'', 1)] \<lparr>user_space = replicate 40 (CHR '' ''), huecos_libres = [\<lparr>h_pos = 8, h_size = 32\<rparr>],
     segmentos = [Some seg0_ej], tabla_inicial = [0], diccionario_tablas = []\<rparr> fs_ej"

definition programa_ej :: "byte list" where
  "programa_ej = enviar_int 1 @ enviar_paquete (foldl agregar_cadena crear_paquete [''EXIT''])"

definition vuelta_ej :: "op_code \<Rightarrow> string list \<Rightarrow> byte list" where
  "vuelta_ej cod ps = paquete_contexto ((contexto_de 5 (pcb_ej 1 [seg0_ej]))\<lparr>parametros := ps\<rparr>) (op_num cod)"

definition ker1 :: kernel where
  "ker1 = ker0\<lparr>pcbs := [(5, pcb_ej 0 [])], consolasNew := [5], a_consolas := [(5, enviar_int 1)]\<rparr>"

definition ker2 :: kernel where
  "ker2 = ker1\<lparr>pcbs := [(5, pcb_ej 0 [seg0_ej])], consolasNew := [], consolasReady := [5], global_PCB_list := [5],
     hayEspacioReady := 1, memoria_mod := (memoria_mod ker0)\<lparr>diccionario_tablas := [(''5'', [0])]\<rparr>\<rparr>"

definition ker3 :: kernel where
  "ker3 = ker2\<lparr>consolasReady := [], running := En_cpu 5\<rparr>"

definition ker4 :: kernel where
  "ker4 = ker3\<lparr>pcbs := [(5, pcb_ej 1 [seg0_ej])], consolasReady := [5], running := Libre,
     recursosDisponibles := [(''R'', 0)], recursos_por_proceso := [(''5'', Some [''R''])]\<rparr>"

lemma ker_llega: "gestionarNuevasConexiones 5 programa_ej ker0 = Inr ker1"
  by code_simp

lemma ker_admite: "gestionadorReady commons_ej cfg_ej ker1 = Some (Inr ker2)"
  by code_simp

lemma ker_despacha: "\<exists>bs. fifo_despachar ker2 = Inr (ker3, bs)"
  by (simp add: fifo_despachar_def enviar_PCB_def pcb_de_def dictionary_get_def ker2_def ker3_def)

lemma ker_vuelve: "fifo_volver commons_ej cfg_ej 5 (vuelta_ej WAIT [''R'']) ker3 = Some (Inr ker4)"
  by code_simp

text \<open>Back from the CPU with \<open>F_OPEN\<close> of a file of the file system instead, which is then opened.\<close>

definition ker5 :: kernel where
  "ker5 = ker3\<lparr>pcbs := [(5, pcb_ej 1 [seg0_ej])], running := Libre, consolasBlocked :=
     [\<lparr>un_pcb = 5, nodo_parametros = [''a''], nodo_cod_op = op_num F_OPEN, impide_compactacion = False\<rparr>]\<rparr>"

definition ker6 :: kernel where
  "ker6 = ker5\<lparr>pcbs := [(5, (pcb_ej 1 [seg0_ej])\<lparr>pcb_tablaArchivos := [0]\<rparr>)], consolasBlocked := [], consolasReady := [5],
     descriptores := [Some \<lparr>file_name = ''a'', pointer = 0\<rparr>], GDT := [0], diccionario_colas_archivos := [(''a'', [])]\<rparr>"

lemma ker_pide_abrir: "fifo_volver commons_ej cfg_ej 5 (vuelta_ej F_OPEN [''a'']) ker3 = Some (Inr ker5)"
  by code_simp

lemma ker_abre: "operarFS commons_ej fscfg_ej ker5 = Inr ker6"
  by code_simp

lemma ker2_alcanzable: "ker_alcanzable commons_ej cfg_ej fscfg_ej ker0 ker2"
proof -
  have "ker_paso commons_ej cfg_ej fscfg_ej ker0 ker1"
    by (rule ker_paso.consola [OF _ _ _ ker_llega]) (simp_all add: ker0_def ker_inicial_def)
  moreover have "ker_paso commons_ej cfg_ej fscfg_ej ker1 ker2"
    by (rule ker_paso.admitir [OF _ _ ker_admite]) (simp_all add: ker1_def ker0_def ker_inicial_def)
  ultimately show ?thesis by (blast intro: ker_alcanzable.intros)
qed

lemma ker4_alcanzable: "ker_alcanzable commons_ej cfg_ej fscfg_ej ker0 ker4"
proof -
  obtain bs where "fifo_despachar ker2 = Inr (ker3, bs)" using ker_despacha by blast
  then have "ker_paso commons_ej cfg_ej fscfg_ej ker2 ker3"
    by (rule ker_paso.despachar [rotated 2]) (simp_all add: ker2_def ker1_def ker0_def ker_inicial_def)
  moreover have "ker_paso commons_ej cfg_ej fscfg_ej ker3 ker4"
    by (rule ker_paso.volver [OF _ ker_vuelve]) (simp add: ker3_def)
  ultimately show ?thesis using ker2_alcanzable by (blast intro: ker_alcanzable.intros)
qed

section \<open>The degree of multiprogramming\<close>

text \<open>
  C24. The degree of multiprogramming is never exceeded: the processes outside the queue of new
  ones, with the value of the semaphore \<open>hayEspacioReady\<close>, are exactly the configured degree,
  and the global list has them all.
\<close>

theorem grado_multiprogramacion:
  assumes "ker_alcanzable cm mcfg fcfg (ker_inicial grado recursos m fs) k"
  shows "size (lugares k - mset (consolasNew k)) + hayEspacioReady k = grado \<and>
    mset (global_PCB_list k) = lugares k - mset (consolasNew k)"
  using ker_invD(3-5) [OF ker_inv_alcanzable [OF assms]] by simp

theorem grado_multiprogramacion_witness:
  "size (lugares ker2 - mset (consolasNew ker2)) + hayEspacioReady ker2 = 2 \<and>
    mset (global_PCB_list ker2) = lugares ker2 - mset (consolasNew ker2)"
  by (rule grado_multiprogramacion [OF ker2_alcanzable [unfolded ker0_def]])

section \<open>Resources\<close>

text \<open>
  C34. \<open>SIGNAL\<close> gives back exactly what its process holds: the balance of every resource is
  kept when the process had an instance, but a \<open>SIGNAL\<close> of a resource that it does not hold
  creates an instance out of nothing.
\<close>

theorem signal_resultado:
  assumes "recursos_ok k" "signal_recurso_lista cm r p k = Inr k'"
  shows "recursos_ok k' \<and> (\<forall>x. saldo k' x = saldo k x + (if x = r \<and> dictionary_get (recursosDisponibles k) r \<noteq> None \<and>
     tomados (dictionary_get (recursos_por_proceso k) (string_itoa cm p)) r = 0 then 1 else 0))"
  using signal_saldo [OF assms] by blast

theorem signal_resultado_witness:
  "\<exists>k'. signal_recurso_lista commons_ej ''R'' 5 (ker4\<lparr>recursos_por_proceso := [(''5'', Some [''S''])]\<rparr>) = Inr k' \<and>
     recursos_ok k' \<and> saldo k' ''R'' = saldo (ker4\<lparr>recursos_por_proceso := [(''5'', Some [''S''])]\<rparr>) ''R'' + 1"
proof -
  let ?k = "ker4\<lparr>recursos_por_proceso := [(''5'', Some [''S''])]\<rparr>"
  have i: "string_itoa commons_ej 5 = ''5''" by code_simp
  have ok: "recursos_ok ?k"
    by (auto simp: recursos_ok_def dict_ok_def instancias_libres_def esperan_def cola_o_nada_def dictionary_get_def
        ker4_def ker3_def ker2_def ker1_def ker0_def ker_inicial_def)
  obtain k' where k': "signal_recurso_lista commons_ej ''R'' 5 ?k = Inr k'"
    by (simp add: signal_recurso_lista_def quitarRecursoDelProceso_def liberar_recurso_y_actualizar_ready_def
        ready_al_inicio_def i dictionary_has_key_get dictionary_get_def
        ker4_def ker3_def ker2_def ker1_def ker0_def ker_inicial_def)
  show ?thesis using signal_resultado [OF ok k'] k'
    by (auto simp: i dictionary_get_def ker4_def ker3_def ker2_def ker1_def ker0_def ker_inicial_def)
qed

section \<open>Open files\<close>

lemma ker3_alcanzable: "ker_alcanzable commons_ej cfg_ej fscfg_ej ker0 ker3"
proof -
  obtain bs where "fifo_despachar ker2 = Inr (ker3, bs)" using ker_despacha by blast
  then have "ker_paso commons_ej cfg_ej fscfg_ej ker2 ker3"
    by (rule ker_paso.despachar [rotated 2]) (simp_all add: ker2_def ker1_def ker0_def ker_inicial_def)
  then show ?thesis using ker2_alcanzable by (blast intro: ker_alcanzable.intros)
qed

lemma ker6_alcanzable: "ker_alcanzable commons_ej cfg_ej fscfg_ej ker0 ker6"
proof -
  have "ker_paso commons_ej cfg_ej fscfg_ej ker3 ker5"
    by (rule ker_paso.volver [OF _ ker_pide_abrir]) (simp add: ker3_def)
  moreover have "ker_paso commons_ej cfg_ej fscfg_ej ker5 ker6"
    by (rule ker_paso.archivos [OF _ ker_abre]) (simp add: ker5_def)
  ultimately show ?thesis using ker3_alcanzable by (blast intro: ker_alcanzable.intros)
qed

end
