(* ===== verification/Retardos.thy ===== *)
theory Retardos
  imports Prelude
begin

text \<open>
  The delays of the modules: the argument each gives to \<open>nanosleep\<close> (\<open>retardo\<close> of
  \<open>FileSystem/src/filesys.h\<close>, the end of \<open>set\<close> in \<open>cpu/src/cpu.h\<close>, \<open>memory_delay\<close> of
  \<open>Memoria/src/memoria.h\<close>, \<open>retenerPCB\<close> of \<open>Kernel/src/kernel.h\<close>). Every one of them ignores the
  result of the call.
\<close>

record timespec =
  tv_sec :: int
  tv_nsec :: int

text \<open>\<open>nanosleep\<close> fails at once unless the nanoseconds are less than a second.\<close>

definition nanosleep_acepta :: "timespec \<Rightarrow> bool" where
  "nanosleep_acepta ts \<longleftrightarrow> 0 \<le> tv_sec ts \<and> 0 \<le> tv_nsec ts \<and> tv_nsec ts < 1000000000"

definition nanosegundos :: "timespec \<Rightarrow> int" where
  "nanosegundos ts = tv_sec ts * 1000000000 + tv_nsec ts"

text \<open>A product of type \<open>int\<close>, as the machine does it.\<close>

definition por32 :: "int \<Rightarrow> int \<Rightarrow> int" where
  "por32 a b = (a * b + 2147483648) mod 4294967296 - 2147483648"

definition retardo :: "int \<Rightarrow> timespec" where
  "retardo sleep_time = \<lparr>tv_sec = sleep_time sdiv 1000, tv_nsec = por32 (sleep_time smod 1000) 1000000\<rparr>"

definition memory_delay :: "int \<Rightarrow> timespec" where
  "memory_delay tiempo_milisegundos =
     \<lparr>tv_sec = tiempo_milisegundos sdiv 1000, tv_nsec = por32 tiempo_milisegundos 1000000\<rparr>"

definition retencion :: "int \<Rightarrow> timespec" where
  "retencion time = \<lparr>tv_sec = time, tv_nsec = 0\<rparr>"

lemma sdiv_positivo:
  "0 \<le> (n :: int) \<Longrightarrow> n sdiv 1000 = n div 1000" "0 \<le> n \<Longrightarrow> n smod 1000 = n mod 1000"
  by (cases "n = 0"; simp add: signed_divide_int_def signed_modulo_int_def sgn_if)+

lemma por32_igual: "int32_ok (a * b) \<Longrightarrow> por32 a b = a * b"
  by (simp add: por32_def int32_ok_def)

text \<open>Nanoseconds that wrapped around never give the milliseconds back.\<close>

lemma por32_millon:
  assumes n: "0 \<le> n" "int32_ok n" and e: "por32 n 1000000 = n mod 1000 * 1000000"
  shows "n < 1000"
proof -
  define q where "q = n div 1000"
  have nq: "n = 1000 * q + n mod 1000" by (simp add: q_def)
  have c: "(n * 1000000 + 2147483648) mod 4294967296 = (n mod 1000 * 1000000 + 2147483648) mod 4294967296"
  proof -
    have "0 \<le> n mod 1000" "n mod 1000 < 1000" by simp_all
    then have "n mod 1000 * 1000000 + 2147483648 = (n mod 1000 * 1000000 + 2147483648) mod 4294967296"
      by (intro mod_pos_pos_trivial [symmetric]) linarith+
    then show ?thesis using e by (simp add: por32_def)
  qed
  have "4294967296 dvd n * 1000000 - n mod 1000 * 1000000"
    using mod_eq_dvd_iff [THEN iffD1, OF c] by (simp only: add_diff_cancel_right)
  moreover have "n * 1000000 - n mod 1000 * 1000000 = 512 * (q * 1953125)" by (subst (1) nq) simp
  ultimately have "512 * 8388608 dvd 512 * (q * 1953125)" by simp
  then have "8388608 dvd q * 1953125" by (subst (asm) dvd_mult_cancel_left) simp
  moreover have "coprime (8388608 :: int) 1953125"
  proof -
    have "coprime ((2 :: int) ^ 23) (5 ^ 9)" by (subst coprime_power_left_iff, subst coprime_power_right_iff) simp
    then show ?thesis by simp
  qed
  ultimately have "8388608 dvd q" by (simp add: coprime_dvd_mult_left_iff)
  moreover have "0 \<le> q" "q < 8388608" using n by (auto simp: q_def int32_ok_def)
  ultimately have "q = 0" using zdvd_imp_le [of 8388608 q] by linarith
  then show ?thesis using nq by linarith
qed

text \<open>
  The delays of the CPU and of the file system are the configured milliseconds, and those
  of \<open>I/O\<close> the seconds of the instruction. The delay of the memory module is the configured one
  only below one second: from there on \<open>nanosleep\<close> rejects it or sleeps another time.
\<close>

lemma retardos:
  assumes "0 \<le> n" "int32_ok n"
  shows "nanosleep_acepta (retardo n) \<and> nanosegundos (retardo n) = n * 1000000 \<and>
    nanosleep_acepta (retencion n) \<and> nanosegundos (retencion n) = n * 1000000000 \<and>
    (nanosleep_acepta (memory_delay n) \<and> nanosegundos (memory_delay n) = n * 1000000 \<longleftrightarrow> n < 1000)"
proof -
  have m: "0 \<le> n mod 1000" "n mod 1000 < 1000" by simp_all
  then have p: "por32 (n mod 1000) 1000000 = n mod 1000 * 1000000" by (intro por32_igual) (simp only: int32_ok_def, linarith)
  have d: "n div 1000 * 1000000000 + n mod 1000 * 1000000 = n * 1000000"
    using div_mult_mod_eq [of n 1000] by linarith
  have "n < 1000" if "nanosegundos (memory_delay n) = n * 1000000"
    using por32_millon [OF assms] that d by (simp add: nanosegundos_def memory_delay_def sdiv_positivo assms(1))
  moreover have "nanosleep_acepta (memory_delay n) \<and> nanosegundos (memory_delay n) = n * 1000000" if "n < 1000"
    using that assms(1) por32_igual [of n 1000000]
    by (simp add: nanosleep_acepta_def nanosegundos_def memory_delay_def sdiv_positivo int32_ok_def)
  ultimately show ?thesis
    using assms(1) m d by (auto simp: nanosleep_acepta_def nanosegundos_def retardo_def retencion_def sdiv_positivo p)
qed

lemma retardos_witness:
  "nanosleep_acepta (retardo 1000) \<and> nanosegundos (retardo 1000) = 1000000000 \<and> nanosleep_acepta (retencion 1000) \<and>
    (nanosleep_acepta (memory_delay 1000) \<and> nanosegundos (memory_delay 1000) = 1000000000 \<longleftrightarrow> 1000 < (1000 :: int))"
  using retardos [of 1000] by (simp del: less_irrefl)

end
