(* ===== verification/Ker_Hrrn.thy ===== *)
theory Ker_Hrrn
  imports Ker_Hilos Retardos
begin

text \<open>
  The HRRN scheduler of the kernel (\<open>hrrnListSort\<close>, \<open>hrrnRunning\<close> of \<open>Kernel/src/kernel.h\<close>) and
  what the other threads write for it: the estimate of the next burst, the time of arrival at
  the ready queue and the flag \<open>replanificar\<close>. They are in a \<open>plan\<close> beside the kernel state,
  because no other operation reads them. A step reads the clock once: \<open>ahora\<close> is an argument.
  A step is an iteration of a thread, as in \<open>Ker_Hilos\<close>, and iterations do not overlap.

  The arithmetic of \<open>double\<close> is an argument too, so what is proved holds for every rounding;
  \<open>list_sort\<close> of so-commons threads the writes of its comparator.
\<close>

section \<open>The state of the scheduler\<close>

record 'f flotantes =
  f_entero :: "64 word \<Rightarrow> 'f"
  f_mas :: "'f \<Rightarrow> 'f \<Rightarrow> 'f"
  f_menos :: "'f \<Rightarrow> 'f \<Rightarrow> 'f"
  f_por :: "'f \<Rightarrow> 'f \<Rightarrow> 'f"
  f_sobre :: "'f \<Rightarrow> 'f \<Rightarrow> 'f"
  f_menor :: "'f \<Rightarrow> 'f \<Rightarrow> bool"
  f_igual :: "'f \<Rightarrow> 'f \<Rightarrow> bool"
  f_centesimo :: 'f

record 'f kerConfig =
  ESTIMACION_INICIAL :: 'f
  HRRN_ALFA :: 'f

text \<open>
  Where the thread is: at the start of \<open>while(1)\<close>, at the wait before the sort, at the
  condition of \<open>while(!replanificar)\<close>, or at the wait before it takes a process.
\<close>

datatype fase = Replanifica | Ordena | Mira | Toma

record 'f plan =
  est_prox_rafaga :: "int \<Rightarrow> 'f"
  tiempo_Llegada_Ready :: "int \<Rightarrow> timespec"
  est_prox_rafaga_backup :: 'f
  replanificar :: bool
  realEjecutado :: "64 word"
  start_cpu :: timespec
  en_fase :: fase

type_synonym 's list_sort = "('s \<Rightarrow> int \<Rightarrow> int \<Rightarrow> bool \<times> 's) \<Rightarrow> 's \<Rightarrow> int list \<Rightarrow> int list \<times> 's"

section \<open>Sorting the ready queue\<close>

text \<open>A difference of two readings in milliseconds, stored in a \<open>uint64_t\<close>.\<close>

definition milisegundos :: "timespec \<Rightarrow> timespec \<Rightarrow> 64 word" where
  "milisegundos a b = word_of_int ((tv_sec a - tv_sec b) * 1000 + (tv_nsec a - tv_nsec b) sdiv 1000000)"

definition tasa :: "'f flotantes \<Rightarrow> timespec \<Rightarrow> 'f plan \<Rightarrow> int \<Rightarrow> 'f" where
  "tasa F ahora pl p = f_mas F (f_entero F 1)
     (f_sobre F (f_entero F (milisegundos ahora (tiempo_Llegada_Ready pl p))) (est_prox_rafaga pl p))"

definition restaurar :: "'f flotantes \<Rightarrow> int \<Rightarrow> 'f plan \<Rightarrow> 'f plan" where
  "restaurar F p pl = (if f_igual F (est_prox_rafaga pl p) (f_centesimo F)
     then pl\<lparr>est_prox_rafaga := (est_prox_rafaga pl)(p := est_prox_rafaga_backup pl)\<rparr> else pl)"

text \<open>The comparator, with the estimates it writes.\<close>

definition maximum :: "'f flotantes \<Rightarrow> timespec \<Rightarrow> 'f plan \<Rightarrow> int \<Rightarrow> int \<Rightarrow> bool \<times> 'f plan" where
  "maximum F ahora pl pcb1 pcb2 =
     (f_menor F (tasa F ahora pl pcb2) (tasa F ahora pl pcb1), restaurar F pcb2 (restaurar F pcb1 pl))"

definition hrrnListSort ::
    "'f flotantes \<Rightarrow> 'f plan list_sort \<Rightarrow> timespec \<Rightarrow> kernel \<Rightarrow> 'f plan \<Rightarrow> kernel \<times> 'f plan" where
  "hrrnListSort F ls ahora k pl =
     (case ls (maximum F ahora) pl (consolasReady k) of (q, pl') \<Rightarrow> (k\<lparr>consolasReady := q\<rparr>, pl'))"

section \<open>What the operations write for the scheduler\<close>

definition estimarProximaRafaga :: "'f flotantes \<Rightarrow> 'f kerConfig \<Rightarrow> int \<Rightarrow> 'f plan \<Rightarrow> 'f plan" where
  "estimarProximaRafaga F kcfg p pl =
     (let alfa = HRRN_ALFA kcfg
      in pl\<lparr>est_prox_rafaga := (est_prox_rafaga pl)(p :=
           f_mas F (f_por F alfa (f_entero F (realEjecutado pl)))
             (f_por F (f_menos F (f_entero F 1) alfa) (est_prox_rafaga pl p)))\<rparr>)"

definition llega :: "int \<Rightarrow> timespec \<Rightarrow> 'f plan \<Rightarrow> 'f plan" where
  "llega p ahora pl = pl\<lparr>tiempo_Llegada_Ready := (tiempo_Llegada_Ready pl)(p := ahora)\<rparr>"

text \<open>A process that comes back from the file system gets an estimate meant to put it first.\<close>

definition adelantar :: "'f flotantes \<Rightarrow> int \<Rightarrow> timespec \<Rightarrow> 'f plan \<Rightarrow> 'f plan" where
  "adelantar F p ahora pl = llega p ahora (pl\<lparr>est_prox_rafaga_backup := est_prox_rafaga pl p,
     est_prox_rafaga := (est_prox_rafaga pl)(p := f_centesimo F)\<rparr>)"

text \<open>The process that \<open>liberar_recurso_y_actualizar_ready\<close> wakes.\<close>

definition plan_despertar :: "string \<Rightarrow> timespec \<Rightarrow> kernel \<Rightarrow> 'f plan \<Rightarrow> 'f plan" where
  "plan_despertar recurso ahora k pl =
     (case dictionary_get (recursosEnUso k) recurso of Some (q # _) \<Rightarrow> llega q ahora pl | _ \<Rightarrow> pl)"

fun plan_liberar_recursos :: "string list \<Rightarrow> timespec \<Rightarrow> kernel \<Rightarrow> 'f plan \<Rightarrow> 'f plan" where
  "plan_liberar_recursos [] ahora k pl = pl"
| "plan_liberar_recursos (r # rs) ahora k pl =
     (case liberar_recurso_y_actualizar_ready r k of
        Inl _ \<Rightarrow> pl
      | Inr k' \<Rightarrow> plan_liberar_recursos rs ahora k' (plan_despertar r ahora k pl))"

definition plan_liberar_archivo :: "nat \<Rightarrow> timespec \<Rightarrow> kernel \<Rightarrow> 'f plan \<Rightarrow> 'f plan" where
  "plan_liberar_archivo i ahora k pl =
     (case bind_res (descriptor_de k i) (\<lambda>d. cola_de_archivo k (file_name d)) of
        Inr (q # _) \<Rightarrow> llega q ahora (pl\<lparr>replanificar := False\<rparr>)
      | _ \<Rightarrow> pl)"

fun plan_cerrar_archivos :: "nat list \<Rightarrow> timespec \<Rightarrow> kernel \<Rightarrow> 'f plan \<Rightarrow> 'f plan" where
  "plan_cerrar_archivos [] ahora k pl = pl"
| "plan_cerrar_archivos (i # is) ahora k pl =
     (case liberar_archivo i k of
        Inl _ \<Rightarrow> pl
      | Inr k' \<Rightarrow> plan_cerrar_archivos is ahora k' (plan_liberar_archivo i ahora k pl))"

text \<open>\<open>create_segment\<close> asks for a new sort when it ends the process.\<close>

definition plan_crear :: "kernel \<Rightarrow> kernel \<Rightarrow> 'f plan \<Rightarrow> 'f plan" where
  "plan_crear k k' pl = (if consolasExit k' \<noteq> consolasExit k then pl\<lparr>replanificar := True\<rparr> else pl)"

text \<open>\<open>readOp\<close> from \<open>k\<close> to \<open>k'\<close>.\<close>

definition plan_readOp :: "int \<Rightarrow> int \<Rightarrow> string list \<Rightarrow> timespec \<Rightarrow> kernel \<Rightarrow> kernel \<Rightarrow> 'f plan \<Rightarrow> 'f plan" where
  "plan_readOp cod_op p params ahora k k' pl =
     (if es_operacion_de_FS cod_op \<or> cod_op = op_num EXIT \<or> cod_op = op_num I_O \<or> cod_op = op_num ERROR
      then pl\<lparr>replanificar := True\<rparr>
      else if cod_op = op_num YIELD then llega p ahora (pl\<lparr>replanificar := True\<rparr>)
      else if cod_op = op_num SIGNAL then
        (case params of
           r # _ \<Rightarrow> if dictionary_has_key (recursosDisponibles k) r then plan_despertar r ahora k pl else pl
         | [] \<Rightarrow> pl)
      else if cod_op = op_num CREATE_SEGMENT then plan_crear k k' pl
      else pl)"

text \<open>One operation of \<open>operarFS\<close> from \<open>k\<close> to \<open>k'\<close>.\<close>

definition plan_operar_nodo ::
    "'f flotantes \<Rightarrow> blockedNode \<Rightarrow> timespec \<Rightarrow> kernel \<Rightarrow> kernel \<Rightarrow> 'f plan \<Rightarrow> 'f plan" where
  "plan_operar_nodo F n ahora k k' pl =
     (let p = un_pcb n; cod = nodo_cod_op n; name = (case nodo_parametros n of [] \<Rightarrow> [] | w # _ \<Rightarrow> w)
      in if cod = op_num F_OPEN then
           (case buscar_descriptor k name (GDT k) of Inr None \<Rightarrow> adelantar F p ahora pl | _ \<Rightarrow> pl)
         else if cod = op_num F_CLOSE then
           (case bind_res (pcb_de k p) (\<lambda>b. buscar_descriptor k name (pcb_tablaArchivos b)) of
              Inr None \<Rightarrow> pl\<lparr>replanificar := True\<rparr>
            | Inr (Some i) \<Rightarrow> plan_liberar_archivo i ahora k (adelantar F p ahora pl)
            | Inl _ \<Rightarrow> pl)
         else if cod = op_num F_TRUNCATE \<and> consolasExit k' \<noteq> consolasExit k then pl\<lparr>replanificar := True\<rparr>
         else adelantar F p ahora pl)"

definition plan_exit :: "commons \<Rightarrow> timespec \<Rightarrow> kernel \<Rightarrow> 'f plan \<Rightarrow> 'f plan" where
  "plan_exit cm ahora k pl =
     (case consolasExit k of
        [] \<Rightarrow> pl
      | p # _ \<Rightarrow>
          let rs = (case dictionary_get (recursos_por_proceso k) (string_itoa cm p) of Some (Some rs) \<Rightarrow> rs | _ \<Rightarrow> []);
              pl1 = plan_liberar_recursos rs ahora k pl
          in case (pcb_de k p, liberar_recursos rs k) of
               (Inr b, Inr k1) \<Rightarrow> plan_cerrar_archivos (pcb_tablaArchivos b) ahora k1 pl1
             | _ \<Rightarrow> pl1)"

section \<open>The kernel with HRRN as a transition system\<close>

definition plan_inicial :: "'f \<Rightarrow> (int \<Rightarrow> 'f) \<Rightarrow> (int \<Rightarrow> timespec) \<Rightarrow> timespec \<Rightarrow> 'f plan" where
  "plan_inicial respaldo basura_est basura_llegada basura_start =
     \<lparr>est_prox_rafaga = basura_est, tiempo_Llegada_Ready = basura_llegada, est_prox_rafaga_backup = respaldo,
      replanificar = False, realEjecutado = 0, start_cpu = basura_start, en_fase = Replanifica\<rparr>"

inductive hrrn_paso ::
    "'f flotantes \<Rightarrow> 'f kerConfig \<Rightarrow> 'f plan list_sort \<Rightarrow> commons \<Rightarrow> memConfig \<Rightarrow> fsConfig
     \<Rightarrow> kernel \<times> 'f plan \<Rightarrow> kernel \<times> 'f plan \<Rightarrow> bool"
  for F kcfg ls cm mcfg fcfg where
  hr_consola: "dictionary_get (pcbs k) p = None \<Longrightarrow> 0 < p \<Longrightarrow> int32_ok p \<Longrightarrow>
    gestionarNuevasConexiones p s k = Inr k' \<Longrightarrow>
    hrrn_paso F kcfg ls cm mcfg fcfg (k, pl) (k', if dictionary_has_key (pcbs k') p
      then pl\<lparr>est_prox_rafaga := (est_prox_rafaga pl)(p := ESTIMACION_INICIAL kcfg)\<rparr> else pl)"
| hr_admitir: "consolasNew k = p # ps \<Longrightarrow> 0 < hayEspacioReady k \<Longrightarrow>
    gestionadorReady cm mcfg k = Some (Inr k') \<Longrightarrow>
    hrrn_paso F kcfg ls cm mcfg fcfg (k, pl) (k', llega p ahora pl)"
| hr_replanifica: "en_fase pl = Replanifica \<Longrightarrow>
    hrrn_paso F kcfg ls cm mcfg fcfg (k, pl) (k, pl\<lparr>replanificar := False, en_fase := Ordena\<rparr>)"
| hr_ordena: "en_fase pl = Ordena \<Longrightarrow> consolasReady k \<noteq> [] \<Longrightarrow> hrrnListSort F ls ahora k pl = (k', pl') \<Longrightarrow>
    hrrn_paso F kcfg ls cm mcfg fcfg (k, pl) (k', pl'\<lparr>realEjecutado := 0, en_fase := Mira\<rparr>)"
| hr_mira: "en_fase pl = Mira \<Longrightarrow> running k = Libre \<Longrightarrow>
    hrrn_paso F kcfg ls cm mcfg fcfg (k, pl) (k, pl\<lparr>en_fase := if replanificar pl then Replanifica else Toma\<rparr>)"
| hr_despacha: "en_fase pl = Toma \<Longrightarrow> running k = Libre \<Longrightarrow> consolasReady k \<noteq> [] \<Longrightarrow>
    fifo_despachar k = Inr (k', bs) \<Longrightarrow>
    hrrn_paso F kcfg ls cm mcfg fcfg (k, pl) (k', pl\<lparr>start_cpu := ahora, en_fase := Mira\<rparr>)"
| hr_vuelve: "running k = En_cpu p \<Longrightarrow> recibir_PCB cm p s (k\<lparr>running := Libre\<rparr>) = Inr (cod_op, params, k1) \<Longrightarrow>
    readOp cm mcfg cod_op p params k1 = Some (Inr k') \<Longrightarrow>
    hrrn_paso F kcfg ls cm mcfg fcfg (k, pl) (k', plan_readOp cod_op p params ahora k1 k'
      (estimarProximaRafaga F kcfg p (pl\<lparr>realEjecutado := realEjecutado pl + milisegundos ahora (start_cpu pl)\<rparr>)))"
| hr_cpu: "running k = En_cpu p \<Longrightarrow> atender_cpu (memoria_mod k) s = Inr (m', r, s') \<Longrightarrow>
    hrrn_paso F kcfg ls cm mcfg fcfg (k, pl) (k\<lparr>memoria_mod := m'\<rparr>, pl)"
| hr_compacta: "running k = Esperando_permiso p segID tam \<Longrightarrow> 0 < compaction_permission k \<Longrightarrow>
    seguir_compactacion cm mcfg p segID tam k = Some (Inr k') \<Longrightarrow>
    hrrn_paso F kcfg ls cm mcfg fcfg (k, pl) (k', plan_crear k k' pl)"
| hr_archivos: "consolasBlocked k = n # ns \<Longrightarrow> operarFS cm fcfg k = Inr k' \<Longrightarrow>
    hrrn_paso F kcfg ls cm mcfg fcfg (k, pl) (k', plan_operar_nodo F n ahora (k\<lparr>consolasBlocked := ns\<rparr>) k' pl)"
| hr_fin_io: "p \<in> set (en_io k) \<Longrightarrow>
    hrrn_paso F kcfg ls cm mcfg fcfg (k, pl) (retenerPCB p k, llega p ahora pl)"
| hr_termina: "consolasExit k \<noteq> [] \<Longrightarrow> gestionadorExit cm mcfg k = Some (Inr k') \<Longrightarrow>
    hrrn_paso F kcfg ls cm mcfg fcfg (k, pl) (k', plan_exit cm ahora k pl)"

inductive hrrn_alcanzable ::
    "'f flotantes \<Rightarrow> 'f kerConfig \<Rightarrow> 'f plan list_sort \<Rightarrow> commons \<Rightarrow> memConfig \<Rightarrow> fsConfig
     \<Rightarrow> kernel \<times> 'f plan \<Rightarrow> kernel \<times> 'f plan \<Rightarrow> bool"
  for F kcfg ls cm mcfg fcfg s0 where
  hr_inicio: "hrrn_alcanzable F kcfg ls cm mcfg fcfg s0 s0"
| hr_paso: "hrrn_alcanzable F kcfg ls cm mcfg fcfg s0 s \<Longrightarrow> hrrn_paso F kcfg ls cm mcfg fcfg s s' \<Longrightarrow>
    hrrn_alcanzable F kcfg ls cm mcfg fcfg s0 s'"

end
