(* ===== verification/Ker_Hrrn_Propiedades.thy ===== *)
theory Ker_Hrrn_Propiedades
  imports Ker_Propiedades Ker_Hrrn Complex_Main
begin

text \<open>
  What the HRRN scheduler promises. Every step of the kernel with HRRN is a step of the kernel
  of \<open>Ker_Hilos\<close>, a sort of the ready queue or invisible to the kernel, so the invariants of the
  kernel that do not depend on the order of the ready queue hold with either scheduler: every
  process in one place, the balance of instances, the table of open files. The order of the
  queue is that of the response ratios when no estimate is marked; what a mark does is
  stated apart.
\<close>

section \<open>The sort of so-commons\<close>

text \<open>
  \<open>list_sort\<close> permutes the list, and orders it when the comparator is a strict weak order on its
  elements that writes nothing.
\<close>

definition orden_estricto :: "('a \<Rightarrow> 'a \<Rightarrow> bool) \<Rightarrow> 'a set \<Rightarrow> bool" where
  "orden_estricto antes A \<longleftrightarrow> (\<forall>a \<in> A. \<forall>b \<in> A. antes a b \<longrightarrow> \<not> antes b a) \<and>
     (\<forall>a \<in> A. \<forall>b \<in> A. \<forall>c \<in> A. antes a c \<longrightarrow> antes a b \<or> antes b c)"

definition list_sort_ok :: "'s list_sort \<Rightarrow> bool" where
  "list_sort_ok ls \<longleftrightarrow> (\<forall>cmp s xs. mset (fst (ls cmp s xs)) = mset xs \<and>
     ((\<forall>a \<in> set xs. \<forall>b \<in> set xs. snd (cmp s a b) = s) \<and> orden_estricto (\<lambda>a b. fst (cmp s a b)) (set xs) \<longrightarrow>
        snd (ls cmp s xs) = s \<and> sorted_wrt (\<lambda>a b. \<not> fst (cmp s b a)) (fst (ls cmp s xs))))"

text \<open>Insertion with such a comparator is one.\<close>

fun insertar :: "('s \<Rightarrow> 'a \<Rightarrow> 'a \<Rightarrow> bool \<times> 's) \<Rightarrow> 's \<Rightarrow> 'a \<Rightarrow> 'a list \<Rightarrow> 'a list \<times> 's" where
  "insertar cmp s x [] = ([x], s)"
| "insertar cmp s x (y # ys) = (case cmp s y x of
     (True, s') \<Rightarrow> (case insertar cmp s' x ys of (zs, s'') \<Rightarrow> (y # zs, s''))
   | (False, s') \<Rightarrow> (x # y # ys, s'))"

fun por_insercion :: "('s \<Rightarrow> 'a \<Rightarrow> 'a \<Rightarrow> bool \<times> 's) \<Rightarrow> 's \<Rightarrow> 'a list \<Rightarrow> 'a list \<times> 's" where
  "por_insercion cmp s [] = ([], s)"
| "por_insercion cmp s (x # xs) = (case por_insercion cmp s xs of (ys, s') \<Rightarrow> insertar cmp s' x ys)"

lemma mset_insertar: "mset (fst (insertar cmp s x ys)) = add_mset x (mset ys)"
  by (induction ys arbitrary: s) (simp_all add: case_prod_beta split: bool.split)

lemma mset_por_insercion: "mset (fst (por_insercion cmp s xs)) = mset xs"
  by (induction xs) (auto simp: mset_insertar case_prod_beta)

lemma insertar_ordenado:
  assumes "\<forall>a \<in> insert x (set ys). \<forall>b \<in> insert x (set ys). snd (cmp s a b) = s"
    and o: "orden_estricto (\<lambda>a b. fst (cmp s a b)) (insert x (set ys))"
    and "sorted_wrt (\<lambda>a b. \<not> fst (cmp s b a)) ys"
  shows "snd (insertar cmp s x ys) = s \<and> sorted_wrt (\<lambda>a b. \<not> fst (cmp s b a)) (fst (insertar cmp s x ys))"
  using assms
proof (induction ys)
  case (Cons y ys)
  have sub: "orden_estricto (\<lambda>a b. fst (cmp s a b)) (insert x (set ys))"
    using Cons.prems(2) by (simp add: orden_estricto_def)
  have c: "cmp s y x = (fst (cmp s y x), s)" using Cons.prems(1) by (metis insertCI list.set_intros(1) prod.collapse)
  show ?case
  proof (cases "fst (cmp s y x)")
    case True
    have i: "snd (insertar cmp s x ys) = s \<and> sorted_wrt (\<lambda>a b. \<not> fst (cmp s b a)) (fst (insertar cmp s x ys))"
      by (rule Cons.IH [OF _ sub]) (use Cons.prems in auto)
    have "set (fst (insertar cmp s x ys)) = insert x (set ys)"
      using mset_insertar [of cmp s x ys] by (metis list.set_map mset_eq_setD set_mset_add_mset_insert set_mset_mset)
    moreover have "\<not> fst (cmp s x y)" using Cons.prems(2) True by (simp add: orden_estricto_def)
    ultimately have "\<forall>z \<in> set (fst (insertar cmp s x ys)). \<not> fst (cmp s z y)" using Cons.prems(3) by simp
    then show ?thesis using True c i by (simp add: case_prod_beta)
  next
    case False
    have "\<not> fst (cmp s z x)" if z: "z \<in> set ys" for z
    proof
      assume "fst (cmp s z x)"
      then have "fst (cmp s z y) \<or> fst (cmp s y x)" using Cons.prems(2) z by (simp add: orden_estricto_def)
      then show False using Cons.prems(3) False z by simp
    qed
    then show ?thesis using False c Cons.prems(3) by (cases "cmp s y x") auto
  qed
qed simp

lemma por_insercion_ordenado:
  assumes "\<forall>a \<in> set xs. \<forall>b \<in> set xs. snd (cmp s a b) = s" "orden_estricto (\<lambda>a b. fst (cmp s a b)) (set xs)"
  shows "snd (por_insercion cmp s xs) = s \<and> sorted_wrt (\<lambda>a b. \<not> fst (cmp s b a)) (fst (por_insercion cmp s xs))"
  using assms
proof (induction xs)
  case (Cons x xs)
  have "orden_estricto (\<lambda>a b. fst (cmp s a b)) (set xs)" using Cons.prems(2) by (simp add: orden_estricto_def)
  then have i: "snd (por_insercion cmp s xs) = s" "sorted_wrt (\<lambda>a b. \<not> fst (cmp s b a)) (fst (por_insercion cmp s xs))"
    using Cons by simp_all
  have e: "set (fst (por_insercion cmp s xs)) = set xs" by (rule mset_eq_setD [OF mset_por_insercion])
  show ?case
    using insertar_ordenado [of x "fst (por_insercion cmp s xs)" cmp s] Cons.prems i by (simp add: case_prod_beta e)
qed simp

lemma por_insercion_ok: "list_sort_ok por_insercion"
  by (simp add: list_sort_ok_def mset_por_insercion por_insercion_ordenado)

section \<open>The kernel does not see the scheduler\<close>

text \<open>An invariant of the threads that does not depend on the order of the ready queue.\<close>

lemma hrrn_paso_ker:
  assumes "hrrn_paso F kcfg ls cm mcfg fcfg s s'" and ls: "list_sort_ok ls"
  shows "ker_paso cm mcfg fcfg (fst s) (fst s') \<or>
    (\<exists>q. mset q = mset (consolasReady (fst s)) \<and> fst s' = (fst s)\<lparr>consolasReady := q\<rparr>)"
  using assms(1)
proof (cases rule: hrrn_paso.cases)
  case (hr_vuelve k p bs cod_op params k1 k' pl ahora)
  then have "fifo_volver cm mcfg p bs k = Some (Inr k')" by (simp add: fifo_volver_def)
  with hr_vuelve show ?thesis by (auto intro: ker_paso.volver)
next
  case (hr_ordena pl k ahora k' pl')
  then have "mset (consolasReady k') = mset (consolasReady k)" "k' = k\<lparr>consolasReady := consolasReady k'\<rparr>"
    using ls by (auto simp: hrrnListSort_def list_sort_ok_def split: prod.splits) (metis fst_conv)
  with hr_ordena show ?thesis by (intro disjI2 exI [of _ "consolasReady k'"]) simp
next
  case (hr_admitir k p ps k' pl ahora)
  then have "ker_paso cm mcfg fcfg k k'" by (intro ker_paso.admitir) simp_all
  then show ?thesis by (simp add: hr_admitir)
next
  case (hr_archivos k n ns k' pl ahora)
  then have "ker_paso cm mcfg fcfg k k'" by (intro ker_paso.archivos) simp_all
  then show ?thesis by (simp add: hr_archivos)
next
  case (hr_replanifica pl k)
  then show ?thesis by (intro disjI2 exI [of _ "consolasReady k"]) simp
next
  case (hr_mira pl k)
  then show ?thesis by (intro disjI2 exI [of _ "consolasReady k"]) simp
next
  case (hr_consola k p s0 k' pl)
  then show ?thesis by (simp add: ker_paso.consola)
next
  case (hr_despacha pl k k' bs ahora)
  then show ?thesis by (simp add: ker_paso.despachar)
next
  case (hr_compacta k p segID tam k' pl)
  then show ?thesis by (simp add: ker_paso.compactar)
next
  case (hr_cpu k p s m' r s' pl)
  then show ?thesis by (simp add: ker_paso.cpu)
next
  case (hr_fin_io p k ahora pl)
  then show ?thesis by (simp add: ker_paso.fin_io)
next
  case (hr_termina k k' ahora pl)
  then show ?thesis by (simp add: ker_paso.terminar)
qed

locale invariante_sin_orden = invariante_ker +
  assumes al_ordenar: "I k \<Longrightarrow> mset q = mset (consolasReady k) \<Longrightarrow> I (k\<lparr>consolasReady := q\<rparr>)"
begin

lemma conserva_paso:
  "hrrn_paso F kcfg ls cm mcfg fcfg s s' \<Longrightarrow> list_sort_ok ls \<Longrightarrow> I (fst s) \<Longrightarrow> I (fst s')"
  using hrrn_paso_ker paso al_ordenar by metis

lemma hrrn_alcanzable:
  "hrrn_alcanzable F kcfg ls cm mcfg fcfg s0 s \<Longrightarrow> list_sort_ok ls \<Longrightarrow> I (fst s0) \<Longrightarrow> I (fst s)"
  by (induction rule: hrrn_alcanzable.induct) (auto intro: conserva_paso)

end

interpretation contabilidad_hrrn: invariante_sin_orden cm mcfg fcfg "ker_inv grado" for cm mcfg fcfg grado
  by unfold_locales (simp add: ker_inv_def lugares_def dicts_ok_def colas_cubiertas_def)


interpretation archivos_hrrn: invariante_sin_orden cm mcfg fcfg archivos_inv for cm mcfg fcfg
  by unfold_locales (erule archivos_marco [rotated], simp add: dic_archivos_def)

section \<open>A run with HRRN\<close>

text \<open>Exact arithmetic in place of \<open>double\<close>, for the runs.\<close>

definition racionales :: "rat flotantes" where
  "racionales = \<lparr>f_entero = \<lambda>w. of_int (uint w), f_mas = (+), f_menos = (-), f_por = (*), f_sobre = (/),
     f_menor = (<), f_igual = (=), f_centesimo = 1 / 100\<rparr>"

lemma racionales_simps [simp]:
  "f_entero racionales w = of_int (uint w)" "f_mas racionales = (+)" "f_menos racionales = (-)"
  "f_por racionales = (*)" "f_sobre racionales = (/)" "f_menor racionales = (<)" "f_igual racionales = (=)"
  "f_centesimo racionales = 1 / 100"
  by (simp_all add: racionales_def)

lemma orden_racionales: "orden_estricto (\<lambda>a b. f_menor racionales (t b) (t a)) A"
  by (auto simp: orden_estricto_def)

definition kcfg_ej :: "rat kerConfig" where
  "kcfg_ej = \<lparr>ESTIMACION_INICIAL = 10, HRRN_ALFA = 1 / 2\<rparr>"

definition cero :: timespec where
  "cero = \<lparr>tv_sec = 0, tv_nsec = 0\<rparr>"

definition plan0 :: "rat plan" where
  "plan0 = plan_inicial 0 (\<lambda>_. 0) (\<lambda>_. cero) cero"

definition plan2 :: "rat plan" where
  "plan2 = llega 5 cero (plan0\<lparr>est_prox_rafaga := (\<lambda>_. 0)(5 := 10)\<rparr>)"

lemma hrrn_ej:
  "hrrn_alcanzable racionales kcfg_ej por_insercion commons_ej cfg_ej fscfg_ej (ker0, plan0) (ker2, plan2)"
proof -
  let ?R = "hrrn_alcanzable racionales kcfg_ej por_insercion commons_ej cfg_ej fscfg_ej (ker0, plan0)"
  have "?R (ker1, plan0\<lparr>est_prox_rafaga := (\<lambda>_. 0)(5 := 10)\<rparr>)"
    using hr_paso [OF hr_inicio hr_consola [OF _ _ _ ker_llega, of racionales kcfg_ej por_insercion commons_ej cfg_ej fscfg_ej plan0]]
    by (simp add: ker1_def ker0_def ker_inicial_def dictionary_get_def dictionary_has_key_get int32_ok_def kcfg_ej_def
        plan0_def plan_inicial_def)
  then show ?thesis
    unfolding plan2_def
    by (rule hr_paso [OF _ hr_admitir [OF _ _ ker_admite]]) (simp_all add: ker1_def ker0_def ker_inicial_def)
qed

section \<open>The invariants, with either scheduler\<close>

text \<open>
  C1. In every state the kernel can reach with FIFO or with HRRN by iterations of its threads
  that do not overlap, each receiver taking its own socket, whatever the consoles, the CPU and
  the other modules send: every process that has a PCB is in exactly one place, one of the
  queues, the queue of a resource or of a file, a timer of \<open>I/O\<close>, or the short-term scheduler,
  and every process of the ready queue has a PCB. No iteration loses a process or puts it in two
  queues. \<open>Ker_Carreras\<close> and \<open>Ker_Acepta\<close> have what overlapping ones do.
\<close>

theorem procesos_en_un_lugar:
  assumes "ker_alcanzable cm mcfg fcfg (ker_inicial grado recursos m fs) k \<or>
    list_sort_ok ls \<and> hrrn_alcanzable F kcfg ls cm mcfg fcfg (ker_inicial grado recursos m fs, pl0) (k, pl)"
  shows "distinct (map fst (pcbs k)) \<and> lugares k = mset (map fst (pcbs k)) \<and>
    (\<forall>p. count (lugares k) p = (if p \<in> set (map fst (pcbs k)) then 1 else 0)) \<and>
    list_all (\<lambda>p. es_ok (pcb_de k p)) (consolasReady k)"
proof -
  have i: "ker_inv grado k"
    using assms contabilidad_hrrn.hrrn_alcanzable [of F kcfg ls cm mcfg fcfg _ "(k, pl)"]
    by (auto intro: ker_inv_alcanzable simp: ker_inv_inicial)
  have d: "distinct (map fst (pcbs k))" using ker_invD(2) [OF i] by (simp add: dict_ok_def)
  have "set (consolasReady k) \<subseteq> set_mset (lugares k)" by (auto simp: lugares_def)
  then have "set (consolasReady k) \<subseteq> set (map fst (pcbs k))" by (simp add: ker_invD(3) [OF i])
  then have "list_all (\<lambda>p. es_ok (pcb_de k p)) (consolasReady k)"
    by (auto simp: list_all_iff pcb_de_def dictionary_get_def es_ok_def map_of_eq_None_iff image_iff split: option.split)
  then show ?thesis using ker_invD(3) [OF i] d by (simp add: distinct_count_atmost_1 del: mset_map)
qed

theorem procesos_en_un_lugar_witness:
  "(distinct (map fst (pcbs ker4)) \<and> lugares ker4 = mset (map fst (pcbs ker4))) \<and>
    (distinct (map fst (pcbs ker2)) \<and> lugares ker2 = mset (map fst (pcbs ker2)))"
  using procesos_en_un_lugar [OF disjI1 [OF ker4_alcanzable [unfolded ker0_def]]]
    procesos_en_un_lugar [OF disjI2 [OF conjI [OF por_insercion_ok hrrn_ej [unfolded ker0_def]]]] by blast



text \<open>
  C21. In every state reachable with FIFO or with HRRN by iterations of the threads that do not
  overlap, the table of open files is well typed: a descriptor is in the
  tables of exactly one process more than there are in the queue of its file (and of none once
  it is freed), so every descriptor of a process that is alive can be used, a search in the
  global table never meets a freed one, and the end of the process closes all of its files. The
  code does not keep the iterations on files apart: \<open>Ker_Carreras\<close> has what an \<open>F_OPEN\<close> in the
  middle of the end of a process does.
\<close>

theorem archivos_bien_contados:
  assumes "ker_alcanzable cm mcfg fcfg (ker_inicial grado recursos m fs) k \<or>
      list_sort_ok ls \<and> hrrn_alcanzable F kcfg ls cm mcfg fcfg (ker_inicial grado recursos m fs, pl0) (k, pl)"
    and "pcb_de k p = Inr b"
  shows "count (referencias k) i = (if i \<in> set (GDT k)
      then Suc (length (cola_o_nada (diccionario_colas_archivos k) (nombre_de (descriptores k) i))) else 0) \<and>
    list_all (\<lambda>i. es_ok (descriptor_de k i)) (pcb_tablaArchivos b) \<and>
    es_ok (buscar_descriptor k name (GDT k)) \<and> es_ok (cerrarArchivosDelProceso b k)"
proof -
  have "archivos_inv k"
    using assms(1) archivos_inv_alcanzable archivos_hrrn.hrrn_alcanzable [of F kcfg ls cm mcfg fcfg _ "(k, pl)"]
    by (auto simp: archivos_inv_inicial)
  then have i: "dict_ok (pcbs k)" "archivos_con (referencias k) k" by (simp_all add: archivos_inv_def)
  note ok = i(2) [unfolded archivos_con_def]
  obtain M where M: "referencias k = mset (pcb_tablaArchivos b) + M" using referencias_remove [OF i(1) assms(2)] by blast
  have "es_ok (buscar_descriptor k name is)" if "set is \<subseteq> set (GDT k)" for "is"
    using that descriptor_de_ok [OF i(2)] by (induction "is") (fastforce simp: es_ok_iff)+
  moreover have "list_all (\<lambda>i. es_ok (descriptor_de k i)) (pcb_tablaArchivos b)"
    using archivos_ok_en_tabla [OF ok] descriptor_de_ok [OF i(2)] by (fastforce simp: M list_all_iff es_ok_iff)
  moreover have "es_ok (cerrarArchivosDelProceso b k)"
    using cerrar_archivos_ok [of "pcb_tablaArchivos b" M k] i(2) by (auto simp: M cerrarArchivosDelProceso_def es_ok_iff)
  ultimately show ?thesis using archivos_okD(5) [OF ok] by simp
qed

theorem archivos_bien_contados_witness:
  "count (referencias ker6) 0 = (if 0 \<in> set (GDT ker6)
      then Suc (length (cola_o_nada (diccionario_colas_archivos ker6) (nombre_de (descriptores ker6) 0))) else 0) \<and>
    list_all (\<lambda>i. es_ok (descriptor_de ker6 i)) [0] \<and>
    es_ok (buscar_descriptor ker6 ''a'' (GDT ker6)) \<and>
    es_ok (cerrarArchivosDelProceso ((pcb_ej 1 [seg0_ej])\<lparr>pcb_tablaArchivos := [0]\<rparr>) ker6)"
  using archivos_bien_contados [OF disjI1 [OF ker6_alcanzable [unfolded ker0_def]], of 5 "(pcb_ej 1 [seg0_ej])\<lparr>pcb_tablaArchivos := [0]\<rparr>" 0 "''a''"]
  by (simp add: pcb_de_def ker6_def dictionary_get_def)

section \<open>The order of the ready queue\<close>

text \<open>
  With any arithmetic: no process is ahead of one whose computed ratio is greater, when the
  computed ratios are comparable.
\<close>

lemma hrrn_orden_general:
  assumes ls: "list_sort_ok ls"
    and marca: "\<forall>p \<in> set (consolasReady k). \<not> f_igual F (est_prox_rafaga pl p) (f_centesimo F)"
    and o: "orden_estricto (\<lambda>p p'. f_menor F (tasa F ahora pl p') (tasa F ahora pl p)) (set (consolasReady k))"
  shows "\<exists>q. hrrnListSort F ls ahora k pl = (k\<lparr>consolasReady := q\<rparr>, pl) \<and> mset q = mset (consolasReady k) \<and>
    sorted_wrt (\<lambda>p p'. \<not> f_menor F (tasa F ahora pl p) (tasa F ahora pl p')) q"
proof -
  let ?l = "ls (maximum F ahora) pl (consolasReady k)"
  have "\<forall>a \<in> set (consolasReady k). \<forall>b \<in> set (consolasReady k). snd (maximum F ahora pl a b) = pl"
    using marca by (simp add: maximum_def restaurar_def)
  moreover have "orden_estricto (\<lambda>a b. fst (maximum F ahora pl a b)) (set (consolasReady k))"
    using o by (simp add: maximum_def)
  ultimately have "mset (fst ?l) = mset (consolasReady k)" "snd ?l = pl"
    "sorted_wrt (\<lambda>a b. \<not> fst (maximum F ahora pl b a)) (fst ?l)"
    using ls unfolding list_sort_ok_def by blast+
  then show ?thesis
    by (cases "ls (maximum F ahora) pl (consolasReady k)") (auto simp: hrrnListSort_def maximum_def)
qed

text \<open>The milliseconds a process has waited, as an integer; the code keeps them in a \<open>uint64_t\<close>.\<close>

definition espera :: "timespec \<Rightarrow> 'f plan \<Rightarrow> int \<Rightarrow> int" where
  "espera ahora pl p = (tv_sec ahora - tv_sec (tiempo_Llegada_Ready pl p)) * 1000
     + (tv_nsec ahora - tv_nsec (tiempo_Llegada_Ready pl p)) sdiv 1000000"

lemma espera_exacta:
  assumes "0 \<le> espera ahora pl p" "espera ahora pl p < 2 ^ 64"
  shows "uint (milisegundos ahora (tiempo_Llegada_Ready pl p)) = espera ahora pl p"
  using assms unfolding milisegundos_def espera_def [symmetric] by (simp add: uint_word_of_int take_bit_int_eq_self)

text \<open>
  C25. The highest response ratio goes next. When no process of the ready queue has the marked
  estimate, the estimates are positive and no process came to the queue after the reading of
  the clock, the sort changes nothing but the order of the queue, and with exact arithmetic the
  quotient of the milliseconds a process has waited by its estimate never grows along it: of two
  processes with one estimate the one that has waited more is ahead, and of two that have waited
  the same the one with the smaller estimate.
\<close>

theorem hrrn_orden:
  assumes ls: "list_sort_ok ls"
    and e: "\<forall>p \<in> set (consolasReady k). 0 < est_prox_rafaga pl p \<and> est_prox_rafaga pl p \<noteq> 1 / 100"
    and w: "\<forall>p \<in> set (consolasReady k). 0 \<le> espera ahora pl p \<and> espera ahora pl p < 2 ^ 64"
  shows "\<exists>q. hrrnListSort racionales ls ahora k pl = (k\<lparr>consolasReady := q\<rparr>, pl) \<and> mset q = mset (consolasReady k) \<and>
    sorted_wrt (\<lambda>p p'. of_int (espera ahora pl p') / est_prox_rafaga pl p' \<le> of_int (espera ahora pl p) / est_prox_rafaga pl p) q \<and>
    sorted_wrt (\<lambda>p p'. (est_prox_rafaga pl p = est_prox_rafaga pl p' \<longrightarrow> espera ahora pl p' \<le> espera ahora pl p) \<and>
      (espera ahora pl p = espera ahora pl p' \<and> 0 < espera ahora pl p \<longrightarrow> est_prox_rafaga pl p \<le> est_prox_rafaga pl p')) q"
proof -
  let ?c = "\<lambda>p. of_int (espera ahora pl p) / est_prox_rafaga pl p"
  obtain q where q: "hrrnListSort racionales ls ahora k pl = (k\<lparr>consolasReady := q\<rparr>, pl)" "mset q = mset (consolasReady k)"
    "sorted_wrt (\<lambda>p p'. \<not> f_menor racionales (tasa racionales ahora pl p) (tasa racionales ahora pl p')) q"
    using hrrn_orden_general [OF ls _ orden_racionales, of k pl ahora] e by auto
  have s: "set q = set (consolasReady k)" using q(2) mset_eq_setD by blast
  have ta: "tasa racionales ahora pl p = 1 + ?c p" if "p \<in> set q" for p
    using w that s espera_exacta [of ahora pl p] by (simp add: tasa_def)
  have c: "sorted_wrt (\<lambda>p p'. ?c p' \<le> ?c p) q"
    by (rule sorted_wrt_mono_rel [OF _ q(3)]) (simp add: ta not_less)
  moreover have "sorted_wrt (\<lambda>p p'. (est_prox_rafaga pl p = est_prox_rafaga pl p' \<longrightarrow> espera ahora pl p' \<le> espera ahora pl p) \<and>
      (espera ahora pl p = espera ahora pl p' \<and> 0 < espera ahora pl p \<longrightarrow> est_prox_rafaga pl p \<le> est_prox_rafaga pl p')) q"
  proof (rule sorted_wrt_mono_rel [OF _ c])
    fix p p' assume p: "p \<in> set q" "p' \<in> set q" and le: "?c p' \<le> ?c p"
    have pos: "0 < est_prox_rafaga pl p" "0 < est_prox_rafaga pl p'" using e p s by auto
    show "(est_prox_rafaga pl p = est_prox_rafaga pl p' \<longrightarrow> espera ahora pl p' \<le> espera ahora pl p) \<and>
      (espera ahora pl p = espera ahora pl p' \<and> 0 < espera ahora pl p \<longrightarrow> est_prox_rafaga pl p \<le> est_prox_rafaga pl p')"
      using le pos by (auto simp: divide_le_cancel frac_le_eq field_simps)
  qed
  ultimately show ?thesis using q(1,2) by blast
qed

definition ker_tres :: kernel where
  "ker_tres = ker2\<lparr>consolasReady := [5, 6, 7]\<rparr>"

definition plan_tres :: "rat plan" where
  "plan_tres = plan0\<lparr>est_prox_rafaga := (\<lambda>p. 20 - 2 * of_int p)\<rparr>"

theorem hrrn_orden_witness:
  "\<exists>q. hrrnListSort racionales por_insercion \<lparr>tv_sec = 1, tv_nsec = 0\<rparr> ker_tres plan_tres = (ker_tres\<lparr>consolasReady := q\<rparr>, plan_tres) \<and>
    mset q = {#5, 6, 7#} \<and> hd q = 7"
proof -
  let ?t = "\<lparr>tv_sec = 1, tv_nsec = 0\<rparr>"
  have r: "consolasReady ker_tres = [5, 6, 7]" by (simp add: ker_tres_def)
  have e: "espera ?t plan_tres p = 1000" for p
    by (simp add: espera_def plan_tres_def plan0_def plan_inicial_def cero_def)
  have est: "est_prox_rafaga plan_tres = (\<lambda>p. 20 - 2 * of_int p)" by (simp add: plan_tres_def)
  obtain q where q: "hrrnListSort racionales por_insercion ?t ker_tres plan_tres = (ker_tres\<lparr>consolasReady := q\<rparr>, plan_tres)"
    "mset q = {#5, 6, 7#}"
    "sorted_wrt (\<lambda>p p'. of_int 1000 / est_prox_rafaga plan_tres p' \<le> (of_int 1000 :: rat) / est_prox_rafaga plan_tres p) q"
    using hrrn_orden [OF por_insercion_ok, of ker_tres plan_tres ?t] unfolding r e est by auto
  have "hd q = 7"
  proof (cases q)
    case (Cons a q')
    have "a \<in> {5, 6, 7}" "7 \<in> set q"
      using mset_eq_setD [of q "[5, 6, 7]"] q(2) Cons by auto
    then show ?thesis using q(3) Cons by (auto simp: est)
  qed (use q(2) in simp)
  then show ?thesis using q(1,2) by blast
qed

lemma cociente_positivo: "0 < w \<Longrightarrow> 0 < e \<Longrightarrow> (0 :: rat) < of_int (uint w) / e"
  by (simp add: word_less_def del: of_int_uint)

text \<open>
  What the mark of a process that comes back from the file system does, with exact
  arithmetic: it goes before another process exactly when the other one has waited, in
  estimates, less than a hundred times the milliseconds since it came back. So within the first
  millisecond it goes before nobody, and behind everyone who has waited; later it does go first,
  which is what it is for. The sort gives its estimate back to it; but when two processes come
  back between two sorts, the first one is left with the estimate of the second.
\<close>

lemma hrrn_marca:
  assumes "p \<noteq> q"
  shows "(fst (maximum racionales ahora (adelantar racionales p t pl) p q) \<longleftrightarrow>
      of_int (uint (milisegundos ahora (tiempo_Llegada_Ready pl q))) / est_prox_rafaga pl q < 100 * of_int (uint (milisegundos ahora t))) \<and>
    (fst (maximum racionales ahora (adelantar racionales p t pl) q p) \<longleftrightarrow>
      100 * of_int (uint (milisegundos ahora t)) < of_int (uint (milisegundos ahora (tiempo_Llegada_Ready pl q))) / est_prox_rafaga pl q) \<and>
    (milisegundos ahora t = 0 \<longrightarrow> 0 < milisegundos ahora (tiempo_Llegada_Ready pl q) \<longrightarrow> 0 < est_prox_rafaga pl q \<longrightarrow>
      fst (maximum racionales ahora (adelantar racionales p t pl) q p)) \<and>
    (est_prox_rafaga pl q \<noteq> 1 / 100 \<longrightarrow>
      est_prox_rafaga (snd (maximum racionales ahora (adelantar racionales p t pl) p q)) = est_prox_rafaga pl) \<and>
    est_prox_rafaga (snd (maximum racionales ahora (adelantar racionales q t' (adelantar racionales p t pl)) p q))
      = (est_prox_rafaga pl)(p := est_prox_rafaga pl q)"
  using assms cociente_positivo [of "milisegundos ahora (tiempo_Llegada_Ready pl q)" "est_prox_rafaga pl q"]
  by (auto simp: maximum_def tasa_def adelantar_def llega_def restaurar_def fun_eq_iff)

lemma hrrn_marca_witness:
  "\<not> fst (maximum racionales \<lparr>tv_sec = 1, tv_nsec = 0\<rparr> (adelantar racionales 5 \<lparr>tv_sec = 1, tv_nsec = 0\<rparr> plan_tres) 5 7) \<and>
    fst (maximum racionales \<lparr>tv_sec = 1, tv_nsec = 0\<rparr> (adelantar racionales 5 \<lparr>tv_sec = 1, tv_nsec = 0\<rparr> plan_tres) 7 5)"
  using hrrn_marca [of 5 7 "\<lparr>tv_sec = 1, tv_nsec = 0\<rparr>" "\<lparr>tv_sec = 1, tv_nsec = 0\<rparr>" plan_tres]
  by (simp add: milisegundos_def plan_tres_def plan0_def plan_inicial_def cero_def)

end
