(* ===== verification/Arranque.thy ===== *)
theory Arranque
  imports Ker_Hrrn_Propiedades Fs_Arranque Mem_Conexiones
begin

text \<open>
  The start of the modules: what each reads from its configuration file (\<open>liftConfig\<close>,
  \<open>cargarConfigData\<close>, \<open>cargarConfigFS\<close>, \<open>leer_superbloque\<close>), the resources of the kernel, and
  the handshakes of the five \<open>main\<close> functions. A configuration is the dictionary \<open>config_create\<close>
  makes of the file; the readers of so-commons for lists and for \<open>double\<close> are arguments.
\<close>

section \<open>Configuration\<close>

type_synonym config = "(string, string) dict"

text \<open>\<open>config_get_string_value\<close> is \<open>dictionary_get\<close>: NULL for a missing key, which is stored as it is.\<close>

definition config_get_int_value :: "config \<Rightarrow> string \<Rightarrow> int res" where
  "config_get_int_value config clave = bind_res (config_valor config clave) (\<lambda>v. Inr (atoi v))"

record 'f lectores =
  lee_arreglo :: "string \<Rightarrow> string list"
  lee_double :: "string \<Rightarrow> 'f"
  de_long :: "int \<Rightarrow> 'f"

record 'f kerConfigCompleta = "'f kerConfig" +
  ALGORITMO_PLANIFICACION :: "string option"
  GRADO_MAX_MULTIPROGRAMACION :: int
  RECURSOS :: "string list"
  INSTANCIAS_RECURSOS :: "string list"

definition liftConfig :: "'f lectores \<Rightarrow> config \<Rightarrow> 'f kerConfigCompleta res" where
  "liftConfig L config =
     bind_res (config_get_int_value config ''ESTIMACION_INICIAL'') (\<lambda>estimacion.
     bind_res (config_get_int_value config ''GRADO_MAX_MULTIPROGRAMACION'') (\<lambda>grado.
     bind_res (config_valor config ''HRRN_ALFA'') (\<lambda>alfa.
     bind_res (config_valor config ''RECURSOS'') (\<lambda>recursos.
     bind_res (config_valor config ''INSTANCIAS_RECURSOS'') (\<lambda>instancias.
       Inr \<lparr>ESTIMACION_INICIAL = de_long L estimacion, HRRN_ALFA = lee_double L alfa,
            ALGORITMO_PLANIFICACION = dictionary_get config ''ALGORITMO_PLANIFICACION'',
            GRADO_MAX_MULTIPROGRAMACION = grado, RECURSOS = lee_arreglo L recursos,
            INSTANCIAS_RECURSOS = lee_arreglo L instancias\<rparr>)))))"

record memConfigCompleta = memConfig +
  CANT_SEGMENTOS :: int
  RETARDO_MEMORIA :: int
  RETARDO_COMPACTACION :: int

text \<open>\<open>ALGORITMO_ASIGNACION\<close> is looked up in a dictionary by every creation, so a missing one is a NULL key.\<close>

definition mem_cargarConfigData :: "config \<Rightarrow> memConfigCompleta res" where
  "mem_cargarConfigData config =
     bind_res (config_valor config ''ALGORITMO_ASIGNACION'') (\<lambda>algoritmo.
     bind_res (config_get_int_value config ''CANT_SEGMENTOS'') (\<lambda>cant.
     bind_res (config_get_int_value config ''RETARDO_COMPACTACION'') (\<lambda>retardo_c.
     bind_res (config_get_int_value config ''RETARDO_MEMORIA'') (\<lambda>retardo_m.
     bind_res (config_get_int_value config ''TAM_MEMORIA'') (\<lambda>tam.
     bind_res (config_get_int_value config ''TAM_SEGMENTO_0'') (\<lambda>tam0.
       Inr \<lparr>TAM_MEMORIA = tam, TAM_SEGMENTO_0 = tam0, ALGORITMO_ASIGNACION = algoritmo,
            CANT_SEGMENTOS = cant, RETARDO_MEMORIA = retardo_m, RETARDO_COMPACTACION = retardo_c\<rparr>))))))"

record cpuConfigCompleta = cpuConfig +
  RETARDO_INSTRUCCION :: int

definition cpu_cargarConfigData :: "config \<Rightarrow> cpuConfigCompleta res" where
  "cpu_cargarConfigData config =
     bind_res (config_get_int_value config ''TAM_MAX_SEGMENTO'') (\<lambda>tam.
     bind_res (config_get_int_value config ''RETARDO_INSTRUCCION'') (\<lambda>retardo_i.
       Inr \<lparr>TAM_MAX_SEGMENTO = tam, RETARDO_INSTRUCCION = retardo_i\<rparr>))"

definition leer_superbloque :: "config \<Rightarrow> (int \<times> int) res" where
  "leer_superbloque config =
     bind_res (config_get_int_value config ''BLOCK_SIZE'') (\<lambda>tam.
     bind_res (config_get_int_value config ''BLOCK_COUNT'') (\<lambda>cant. Inr (tam, cant)))"

text \<open>The directory of the FCBs and the delay, with the size of a block of the superblock.\<close>

definition cargarConfigFS :: "bool \<Rightarrow> config \<Rightarrow> config \<Rightarrow> (fsConfig \<times> int) res" where
  "cargarConfigFS guarda config superbloque =
     bind_res (config_valor config ''PATH_FCB'') (\<lambda>path.
     bind_res (config_get_int_value config ''RETARDO_ACCESO_BLOQUE'') (\<lambda>retardo_b.
     bind_res (leer_superbloque superbloque) (\<lambda>(tam, _).
       Inr (\<lparr>block_size = tam, PATH_FCB = path, config_save_ok = guarda\<rparr>, retardo_b))))"

section \<open>The resources\<close>

definition instancias_de :: "(string \<times> string) list \<Rightarrow> string \<Rightarrow> int option" where
  "instancias_de rs r = map_option atoi (map_of (rev rs) r)"

lemma init_count_recursos_resultado:
  "init_count_recursos rs d = (if list_all (\<lambda>(n, _). length n < 8) rs
     then Inr (foldl (\<lambda>d (n, i). dictionary_put d n (atoi i)) d rs) else Inl Fuera_de_rango)"
  by (induction rs arbitrary: d) auto

lemma recursos_foldl:
  "dictionary_get (foldl (\<lambda>d (n, i). dictionary_put d n (atoi i)) d rs) r
   = (case instancias_de rs r of None \<Rightarrow> dictionary_get d r | Some i \<Rightarrow> Some i)"
  by (induction rs arbitrary: d) (auto simp: instancias_de_def map_add_def split: option.split)

lemma dict_ok_recursos: "dict_ok d \<Longrightarrow> dict_ok (foldl (\<lambda>d (n, i). dictionary_put d n (atoi i)) d rs)"
  by (induction rs arbitrary: d) auto

text \<open>
  The loop over both arrays; the one of the instances ends with a NULL, which is converted
  when it is the shorter one.
\<close>

definition arranque_recursos :: "('f, 'z) kerConfigCompleta_scheme \<Rightarrow> (string, int) dict res" where
  "arranque_recursos c = bind_res (init_count_recursos (zip (RECURSOS c) (INSTANCIAS_RECURSOS c)) [])
     (\<lambda>d. if length (INSTANCIAS_RECURSOS c) < length (RECURSOS c) then Inl Puntero_nulo else Inr d)"

text \<open>The kernel before its first step; \<open>sem_init\<close> fails on a negative degree.\<close>

definition ker_arrancar :: "'f lectores \<Rightarrow> config \<Rightarrow> memoria \<Rightarrow> filesys \<Rightarrow> kernel res" where
  "ker_arrancar L config m fs = bind_res (liftConfig L config) (\<lambda>c. bind_res (arranque_recursos c) (\<lambda>d.
     if GRADO_MAX_MULTIPROGRAMACION c < 0 then Inl Sin_inicializar
     else Inr (ker_inicial (nat (GRADO_MAX_MULTIPROGRAMACION c)) d m fs)))"

text \<open>
  The resources of the kernel are the configured ones, each with its number of instances,
  and the accounting of resources starts well; but a name of eight characters or more is
  copied outside its block.
\<close>

lemma recursos_configurados:
  assumes "list_all (\<lambda>i. 0 \<le> atoi i) (map snd rs)"
  shows "case init_count_recursos rs [] of
      Inl e \<Rightarrow> e = Fuera_de_rango \<and> list_ex (\<lambda>(n, _). 8 \<le> length n) rs
    | Inr d \<Rightarrow> list_all (\<lambda>(n, _). length n < 8) rs \<and> dict_ok d \<and> recursos_iniciales_ok d \<and>
        (\<forall>r. dictionary_get d r = instancias_de rs r)"
proof (cases "list_all (\<lambda>(n, _). length n < 8) rs")
  case True
  let ?d = "foldl (\<lambda>d (n, i). dictionary_put d n (atoi i)) [] rs"
  have ok: "dict_ok ?d"
    by (rule dict_ok_recursos) simp
  have g: "dictionary_get ?d r = instancias_de rs r" for r
    unfolding recursos_foldl by (simp add: dictionary_get_def split: option.split)
  have "0 \<le> n" if "(r, n) \<in> set ?d" for r n
  proof -
    have "dictionary_get ?d r = Some n" using ok that by (simp add: dictionary_get_def dict_ok_def)
    then obtain i where i: "map_of (rev rs) r = Some i" "n = atoi i" unfolding g by (auto simp: instancias_de_def)
    then have "(r, i) \<in> set rs" using map_of_SomeD [of "rev rs" r i] by simp
    then show ?thesis using assms i(2) by (auto simp: list_all_iff)
  qed
  then show ?thesis using True ok g by (auto simp: init_count_recursos_resultado recursos_iniciales_ok_def)
next
  case False
  then show ?thesis by (force simp: init_count_recursos_resultado list_all_iff list_ex_iff not_less)
qed

lemma recursos_configurados_witness:
  "(\<forall>r. map_of [(''DISCO'', 1)] r = instancias_de [(''DISCO'', ''1'')] r) \<and>
    init_count_recursos [(''DISCO'', ''1''), (''IMPRESORA'', ''1''), (''SCANNER'', ''1'')] [] = Inl Fuera_de_rango"
proof -
  have "atoi ''1'' = 1" by code_simp
  then show ?thesis
    using recursos_configurados [of "[(''DISCO'', ''1'')]"]
      recursos_configurados [of "[(''DISCO'', ''1''), (''IMPRESORA'', ''1''), (''SCANNER'', ''1'')]"]
    by (auto simp: dictionary_get_def dictionary_put_def split: sum.splits)
qed

section \<open>Handshakes\<close>

text \<open>The client of the memory module: what it sends, and what is left on its socket.\<close>

definition identificarse :: "modulo \<Rightarrow> byte list \<Rightarrow> (byte list \<times> byte list) res" where
  "identificarse m s = bind_res (recv_int s) (\<lambda>(respuesta, queda).
     if respuesta = 1 then Inr (enviarIdentidad m, queda) else Inl Salida)"

definition send_handshake :: "byte list \<Rightarrow> (byte list \<times> byte list) res" where
  "send_handshake s = bind_res (recv_int s) (\<lambda>(respuesta, queda).
     if respuesta = -1 then Inl Salida else Inr (enviar_int 1, queda))"

text \<open>The CPU goes on whatever the kernel sent; the file system ends.\<close>

definition cpu_handshake :: "byte list \<Rightarrow> (byte list \<times> byte list) res" where
  "cpu_handshake s = bind_res (recv_int s) (\<lambda>(handshake, queda).
     Inr (enviar_int (if handshake = 1 then 1 else -1), queda))"

definition fs_handshake :: "byte list \<Rightarrow> (byte list \<times> byte list) res" where
  "fs_handshake s = bind_res (recv_int s) (\<lambda>(handshake, queda).
     if handshake = 1 then Inr (enviar_int handshake, queda) else Inl Salida)"

text \<open>The bytes the memory module sent to a socket.\<close>

definition respuestas_a :: "int \<Rightarrow> conexiones \<Rightarrow> byte list" where
  "respuestas_a s c = concat (map (\<lambda>(s', r). if s' = s then enviar_int r else []) (respuestas c))"

lemma respuestas_a_una:
  "distinct (map fst xs) \<Longrightarrow> (s, m) \<in> set xs \<Longrightarrow>
    concat (map (\<lambda>(s', r). if s' = s then enviar_int r else []) (map (\<lambda>x. (fst x, 1)) xs)) = enviar_int 1"
proof (induction xs)
  case (Cons x xs)
  have z: "concat (map (\<lambda>(s', r). if s' = s then enviar_int r else []) (map (\<lambda>x. (fst x, 1)) xs)) = []"
    if "s \<notin> fst ` set xs" using that by (auto simp: concat_eq_Nil_conv)
  show ?case
  proof (cases "fst x = s")
    case True
    then have "s \<notin> fst ` set xs" using Cons.prems(1) by auto
    then show ?thesis using True z by (simp add: case_prod_beta)
  next
    case False
    then show ?thesis using Cons by (auto simp: case_prod_beta)
  qed
qed simp

text \<open>
  C26. The start ends: in whatever order the kernel, the CPU and the file system connect, the
  memory module serves the three and no more, each one gets the answer it waits for and
  nothing else, and the handshakes of the kernel with the CPU and the file system succeed.
\<close>

theorem arranque_completo:
  assumes "mset (map snd cs) = {#Kernel, CPU, FileSystem#}" "distinct (map fst cs)"
  shows "\<exists>c. manejarConexionesIniciales (map (\<lambda>(s, m). (s, enviarIdentidad m)) cs @ otros) conexiones_iniciales = Inr (c, True) \<and>
    list_all (\<lambda>(s, m). identificarse m (respuestas_a s c) = Inr (enviarIdentidad m, [])) cs \<and>
    (\<exists>rta. send_handshake rta = Inr (enviar_int 1, []) \<and> cpu_handshake (enviar_int 1) = Inr (rta, [])) \<and>
    (\<exists>rta. send_handshake rta = Inr (enviar_int 1, []) \<and> fs_handshake (enviar_int 1) = Inr (rta, []))"
proof -
  have "length cs = 3" using arg_cong [OF assms(1), of size] by simp
  then obtain e1 e2 e3 where cs: "cs = [e1, e2] @ [e3]" by (auto simp: length_Suc_conv numeral_eq_Suc)
  have s: "snd ` set cs = {Kernel, CPU, FileSystem}"
    using arg_cong [OF assms(1), of set_mset] by simp
  have d: "distinct (map snd cs)"
    by (rule mset_eq_imp_distinct_iff [THEN iffD2, of _ "[Kernel, CPU, FileSystem]"]) (use assms(1) in simp_all)
  have falta: "\<not> {Kernel, CPU, FileSystem} \<subseteq> snd ` set [e1, e2]"
  proof
    assume f: "{Kernel, CPU, FileSystem} \<subseteq> snd ` set [e1, e2]"
    have "snd e3 \<in> {Kernel, CPU, FileSystem}" unfolding s [symmetric] by (simp add: cs)
    then have "snd e3 \<in> {snd e1, snd e2}" using f by (metis image_insert image_empty list.set subsetD)
    then show False using d by (auto simp: cs)
  qed
  have "\<forall>e \<in> set cs. esperado (snd e)"
  proof
    fix e assume "e \<in> set cs"
    then have "snd e \<in> {Kernel, CPU, FileSystem}" using s by blast
    then show "esperado (snd e)" by (auto simp: esperado_def)
  qed
  then obtain c where c: "manejarConexionesIniciales (map (\<lambda>(s, m). (s, enviarIdentidad m)) cs @ otros) conexiones_iniciales = Inr (c, True)"
    "respuestas c = map (\<lambda>x. (fst x, 1)) cs"
    using conexiones_completas [of "[e1, e2]" e3 otros] s falta unfolding cs by auto
  have i: "recv_int (enviar_int 1) = Inr (1, [])" using recv_int_enc [of 1 "[]"] by (simp add: enviar_int_def)
  have "identificarse m (respuestas_a s c) = Inr (enviarIdentidad m, [])" if "(s, m) \<in> set cs" for s m
    using respuestas_a_una [OF assms(2) that] i by (simp add: respuestas_a_def c(2) identificarse_def)
  then have "list_all (\<lambda>(s, m). identificarse m (respuestas_a s c) = Inr (enviarIdentidad m, [])) cs"
    by (auto simp: list_all_iff)
  then show ?thesis using c(1) i by (auto simp: send_handshake_def cpu_handshake_def fs_handshake_def)
qed

theorem arranque_completo_witness:
  "\<exists>c. manejarConexionesIniciales (map (\<lambda>(s, m). (s, enviarIdentidad m)) [(4, FileSystem), (5, CPU), (6, Kernel)] @ []) conexiones_iniciales = Inr (c, True) \<and>
    list_all (\<lambda>(s, m). identificarse m (respuestas_a s c) = Inr (enviarIdentidad m, [])) [(4, FileSystem), (5, CPU), (6, Kernel)]"
  using arranque_completo [of "[(4, FileSystem), (5, CPU), (6, Kernel)]" "[]"] by (auto simp: add_mset_commute)

end
