(* ===== verification/Ker_Pedidos.thy ===== *)
theory Ker_Pedidos
  imports Ker_Propiedades
begin

text \<open>
  The kernel and the file system, end to end: the requests of the kernel
  (\<open>consulting_file_system\<close>, \<open>truncate_petition\<close>, \<open>send_freadwrite_petition\<close>) are parsed by
  \<open>manejarConexionesFS\<close> as the operation that was asked for, and the system calls of a process
  have the effect of that operation on its file.
\<close>

section \<open>Requests read back\<close>

definition nombre_ok :: "string \<Rightarrow> bool" where
  "nombre_ok s \<longleftrightarrow> es_c_str s \<and> int32_ok (int (length s) + 17)"

lemma leer_nombre_enc [simp]:
  assumes "nombre_ok s"
  shows "leer_nombre (enc_bloque s @ rest) = Inr (s, rest)"
proof -
  have "leer_c_str (bloque_de s) = Inr s"
    using assms by (simp add: leer_c_str_def nombre_ok_def) (simp add: bloque_de_def)
  moreover have "cadena_ok s" using assms by (simp add: nombre_ok_def cadena_ok_def int32_ok_def)
  ultimately show ?thesis by (simp add: leer_nombre_def cod_cadena.ida_vuelta)
qed

lemma pedido_bytes:
  "enviar_paquete (anexar (crear_paquete_contexto c) b) = enc_int c @ enc_int (int (length b)) @ b"
  by (simp add: enviar_paquete_def wire_simps) (simp add: crear_paquete_contexto_def)

lemma length_enc_bloque [simp]: "length (enc_bloque s) = length s + 5"
  by (simp add: enc_bloque_def)

lemma recibir_buffer_pedido:
  "int32_ok (int (length b)) \<Longrightarrow> recibir_buffer (enc_int (int (length b)) @ b @ rest) = Inr (b, rest)"
  using recibir_buffer_enc [of b rest] by simp

lemma abrir_atendido:
  assumes "nombre_ok name"
  shows "fs_atender cm cfg fs m (consulting_file_system name) =
    bind_res (crearOAbrirArchivo cm cfg name fs) (\<lambda>(fs', r). Inr (fs', m, r, []))"
proof -
  have c: "consulting_file_system name = enc_int (op_num F_OPEN) @ enc_int (int (length (enc_bloque name))) @ enc_bloque name"
    by (simp add: consulting_file_system_def pedido_bytes enc_bloque_def)
  have l: "int32_ok (int (length (enc_bloque name)))" using assms by (simp add: nombre_ok_def int32_ok_def)
  show ?thesis using assms recibir_buffer_pedido [OF l, of "[]"] leer_nombre_enc [OF assms, of "[]"]
    by (simp add: fs_atender_def c recv_open_petition_def del: op_num.simps)
qed

lemma truncar_atendido:
  assumes "nombre_ok name" "int32_ok tam"
  shows "fs_atender cm cfg fs m (truncate_petition name tam) =
    bind_res (truncarArchivo cm cfg name (word_of_int tam) fs) (\<lambda>(fs', r). Inr (fs', m, r, []))"
proof -
  let ?b = "enc_bloque name @ enc_int tam"
  have c: "truncate_petition name tam = enc_int (op_num F_TRUNCATE) @ enc_int (int (length ?b)) @ ?b"
    by (simp add: truncate_petition_def pedido_bytes enc_bloque_def)
  have l: "int32_ok (int (length ?b))" using assms by (simp add: nombre_ok_def int32_ok_def)
  have i: "leer_int (enc_int tam) = Inr (tam, [])" using leer_int_enc [OF assms(2), of "[]"] by simp
  show ?thesis using assms recibir_buffer_pedido [OF l, of "[]"]
    by (simp add: fs_atender_def c recv_truncate_petition_def i del: op_num.simps)
qed

lemma acceso_atendido:
  assumes "nombre_ok name" "int32_ok a" "int32_ok n" "int32_ok p"
  shows "fs_atender cm cfg fs m (send_freadwrite_petition name a n p F_WRITE) =
      bind_res (escribirArchivo cfg name a n p fs m) (\<lambda>(fs', m', r). Inr (fs', m', r, []))"
    "fs_atender cm cfg fs m (send_freadwrite_petition name a n p F_READ) =
      bind_res (leerArchivo cfg name a n p fs m) (\<lambda>(fs', m', r). Inr (fs', m', r, []))"
proof -
  let ?b = "enc_bloque name @ enc_int a @ enc_int n @ enc_int p"
  have c: "send_freadwrite_petition name a n p cod = enc_int (op_num cod) @ enc_int (int (length ?b)) @ ?b" for cod
    by (simp add: send_freadwrite_petition_def pedido_bytes enc_bloque_def)
  have l: "int32_ok (int (length ?b))" using assms by (simp add: nombre_ok_def int32_ok_def)
  have i: "leer_int (enc_int p) = Inr (p, [])" using leer_int_enc [OF assms(4), of "[]"] by simp
  have r: "recv_readwrite_petition (enc_int (int (length ?b)) @ ?b) = Inr ((name, a, n, p), [])"
    using assms recibir_buffer_pedido [OF l, of "[]"] by (simp add: recv_readwrite_petition_def i)
  show "fs_atender cm cfg fs m (send_freadwrite_petition name a n p F_WRITE) =
      bind_res (escribirArchivo cfg name a n p fs m) (\<lambda>(fs', m', r). Inr (fs', m', r, []))"
    "fs_atender cm cfg fs m (send_freadwrite_petition name a n p F_READ) =
      bind_res (leerArchivo cfg name a n p fs m) (\<lambda>(fs', m', r). Inr (fs', m', r, []))"
    unfolding fs_atender_def c using r by simp_all
qed

section \<open>A write of a process, end to end\<close>

text \<open>
  C9. \<open>F_WRITE\<close> of a process, through the three modules, when the range of the file ends
  before the last byte of one of its blocks and the bytes of the memory are inside it: the bytes
  at its physical address of the memory module replace the bytes of its file at the pointer of
  the descriptor; the file keeps its length and blocks, the other files, the memory and the
  descriptors are as before, and the process is the next one to run. A range that reaches the
  last byte of its block is another matter, in \<open>Fs_Propiedades\<close>.
\<close>

theorem f_write_de_punta_a_punta:
  assumes i: "buscar_descriptor k name (GDT k) = Inr (Some i)" "descriptor_de k i = Inr d" "pointer d = int p"
    and args: "atoi dir = realAddr" "atoi cant = int n" "nombre_ok name" "int32_ok (int p)"
    and ok: "fs_ok cfg (fs_mod k)" and f: "encontrarFCB (fs_mod k) name = Some j"
    and b: "p div nat (block_size cfg) < length (datos_de cfg (fs_mod k) j)" "p mod nat (block_size cfg) + n < nat (block_size cfg)"
    and m: "mem_ok mcfg (memoria_mod k)" "0 \<le> realAddr" "realAddr + int n \<le> TAM_MEMORIA mcfg"
  shows "\<exists>fs' bs. process_fwrite cm cfg [name, dir, cant] q k = Inr (ready_al_inicio q (k\<lparr>fs_mod := fs'\<rparr>)) \<and>
    mem_leer (memoria_mod k) realAddr (int n) = Inr bs \<and> fs_ok cfg fs' \<and> intacto cfg j (fs_mod k) fs' \<and>
    contenido_archivo cfg fs' j = take p (contenido_archivo cfg (fs_mod k) j) @ bs @ drop (p + n) (contenido_archivo cfg (fs_mod k) j)"
proof -
  obtain fs' bs where w: "escribirArchivo cfg name realAddr (int n) (int p) (fs_mod k) (memoria_mod k) = Inr (fs', memoria_mod k, enviar_int 1)"
    "mem_leer (memoria_mod k) realAddr (int n) = Inr bs" "fs_ok cfg fs'" "intacto cfg j (fs_mod k) fs'"
    "contenido_archivo cfg fs' j = take p (contenido_archivo cfg (fs_mod k) j) @ bs @ drop (p + n) (contenido_archivo cfg (fs_mod k) j)"
    using escribir_archivo_ok [OF ok f b m] by blast
  have "int32_ok realAddr" "int32_ok (int n)" using m mem_okD(7) [OF m(1)] by (simp_all add: int32_ok_def)
  then have "fs_atender cm cfg (fs_mod k) (memoria_mod k) (send_freadwrite_petition name realAddr (int n) (int p) F_WRITE)
      = Inr (fs', memoria_mod k, enviar_int 1, [])"
    using acceso_atendido(1) [OF args(3) _ _ args(4)] w(1) by simp
  moreover have "recv_int (enviar_int 1) = Inr (1, [])" using recv_int_enc [of 1 "[]"] by (simp add: enviar_int_def)
  ultimately have "process_fwrite cm cfg [name, dir, cant] q k = Inr (ready_al_inicio q (k\<lparr>fs_mod := fs'\<rparr>))"
    using i args(1,2) by (simp add: process_fwrite_def process_fs_acceso_def parametro_def pedir_fs_def)
  then show ?thesis using w(2-) by blast
qed

definition ker_escribe :: kernel where
  "ker_escribe = ker6\<lparr>memoria_mod := mem_ej 10, descriptores := [Some \<lparr>file_name = ''a'', pointer = 20\<rparr>]\<rparr>"

theorem f_write_de_punta_a_punta_witness:
  "\<exists>fs' bs. process_fwrite commons_ej fscfg_ej [''a'', ''12'', ''10''] 5 ker_escribe
      = Inr (ready_al_inicio 5 (ker_escribe\<lparr>fs_mod := fs'\<rparr>)) \<and>
    mem_leer (memoria_mod ker_escribe) 12 (int 10) = Inr bs \<and> fs_ok fscfg_ej fs' \<and> intacto fscfg_ej 0 (fs_mod ker_escribe) fs' \<and>
    contenido_archivo fscfg_ej fs' 0 = take 20 (contenido_archivo fscfg_ej (fs_mod ker_escribe) 0) @ bs
      @ drop (20 + 10) (contenido_archivo fscfg_ej (fs_mod ker_escribe) 0)"
proof -
  have d: "datos_de fscfg_ej fs_ej 0 = [0, 2, 3]" by code_simp
  have k: "fs_mod ker_escribe = fs_ej" "memoria_mod ker_escribe = mem_ej 10" "GDT ker_escribe = [0]"
    "descriptores ker_escribe = [Some \<lparr>file_name = ''a'', pointer = 20\<rparr>]"
    by (simp_all add: ker_escribe_def ker6_def ker5_def ker3_def ker2_def ker1_def ker0_def ker_inicial_def)
  have a: "atoi ''12'' = 12" "atoi ''10'' = int 10" by code_simp+
  show ?thesis
    unfolding k(1,2)
    by (rule f_write_de_punta_a_punta [where k = ker_escribe and i = 0 and d = "\<lparr>file_name = ''a'', pointer = 20\<rparr>" and mcfg = cfg_ej,
          unfolded k(1,2), OF _ _ _ a _ _ fs_ej_ok fs_ej_bloques(8) _ _ mem_ej_ok])
      (simp_all add: d k descriptor_de_def nombre_ok_def es_c_str_def, simp_all add: fscfg_ej_def cfg_ej_def)
qed

end
