(* ===== verification/Ker_Segmentos.thy ===== *)
theory Ker_Segmentos
  imports Ker_Propiedades
begin

text \<open>
  The kernel and the memory module, end to end: the segment tables of the PCBs are those of the
  memory module, and \<open>create_segment\<close> keeps them so, through the compaction it may ask for.
\<close>

section \<open>The tables on both sides\<close>

definition tablas_iguales :: "commons \<Rightarrow> memConfig \<Rightarrow> kernel \<Rightarrow> bool" where
  "tablas_iguales cm mcfg k \<longleftrightarrow> mem_ok mcfg (memoria_mod k) \<and> (\<forall>p \<in> set (global_PCB_list k). int32_ok p) \<and>
     distinct (global_PCB_list k) \<and>
     mset (map fst (diccionario_tablas (memoria_mod k))) = mset (map (string_itoa cm) (global_PCB_list k)) \<and>
     (\<forall>p \<in> set (global_PCB_list k). \<exists>b. dictionary_get (pcbs k) p = Some b \<and>
        pcb_tablaSegmentos b = tabla_de (memoria_mod k) (string_itoa cm p))"

text \<open>One entry of the packet of a compaction.\<close>

definition entrada_ok :: "int \<times> segmento list \<Rightarrow> bool" where
  "entrada_ok e \<longleftrightarrow> int32_ok (fst e) \<and> tabla_ok (snd e)"

lemma tabla_ok_longitud: "tabla_ok t \<Longrightarrow> int32_ok (int (length t))"
  by (simp add: tabla_ok_def int32_ok_def)

interpretation cod_entrada: codificador enc_entrada leer_tabla_pid "\<lambda>e. e" entrada_ok
  by unfold_locales
    (auto simp: enc_entrada_def leer_tabla_pid_def entrada_ok_def tabla_ok_longitud tabla_ok_def)

lemma actualizar_ok:
  assumes "\<forall>(p, t) \<in> set ts. p \<in> set (global_PCB_list k) \<and> t = F p"
    and "\<forall>p \<in> set (global_PCB_list k). dictionary_get (pcbs k) p \<noteq> None"
  shows "\<exists>d. actualizar_tablas ts k = Inr (k\<lparr>pcbs := d\<rparr>) \<and>
    (\<forall>q. dictionary_get d q = map_option (\<lambda>b. if q \<in> fst ` set ts then b\<lparr>pcb_tablaSegmentos := F q\<rparr> else b)
       (dictionary_get (pcbs k) q))"
  using assms
proof (induction ts arbitrary: k)
  case Nil
  then show ?case by (intro exI [of _ "pcbs k"]) (simp add: option.map_ident)
next
  case (Cons e ts)
  obtain p where e: "e = (p, F p)" using Cons.prems(1) by (cases e) auto
  obtain b where b: "dictionary_get (pcbs k) p = Some b" "p \<in> set (global_PCB_list k)" using Cons.prems e by fastforce
  let ?k = "k\<lparr>pcbs := dictionary_put (pcbs k) p (b\<lparr>pcb_tablaSegmentos := F p\<rparr>)\<rparr>"
  have pr: "\<forall>(p, t) \<in> set ts. p \<in> set (global_PCB_list ?k) \<and> t = F p"
    "\<forall>q \<in> set (global_PCB_list ?k). dictionary_get (pcbs ?k) q \<noteq> None"
    using Cons.prems by simp_all
  obtain d where d: "actualizar_tablas ts ?k = Inr (?k\<lparr>pcbs := d\<rparr>)"
    "\<forall>q. dictionary_get d q = map_option (\<lambda>b. if q \<in> fst ` set ts then b\<lparr>pcb_tablaSegmentos := F q\<rparr> else b)
       (dictionary_get (pcbs ?k) q)"
    using Cons.IH [OF pr] by auto
  have "dictionary_get d q = map_option (\<lambda>b. if q \<in> fst ` set (e # ts) then b\<lparr>pcb_tablaSegmentos := F q\<rparr> else b)
       (dictionary_get (pcbs k) q)" for q
    using d(2) b by (auto simp: e)
  moreover have "actualizar_tablas (e # ts) k = Inr (k\<lparr>pcbs := d\<rparr>)"
    using d(1) b by (simp add: e cambiar_pcb_def pcb_de_def)
  ultimately show ?case by blast
qed

section \<open>The answer of a compaction fits in a packet\<close>

lemma longitud_entrada: "length (enc_entrada e) = 8 + 12 * length (snd e)"
  by (simp add: enc_entrada_def wire_simps)

lemma suma_tablas:
  assumes ok: "mem_ok mcfg m"
  shows "int (sum_list (map (\<lambda>k. length (tabla_de m k)) (map fst (diccionario_tablas m))))
    \<le> int (length (diccionario_tablas m)) + TAM_MEMORIA mcfg"
proof -
  note D = mem_okD [OF ok]
  let ?d = "diccionario_tablas m"
  have "sum_list (map (\<lambda>k. length (tabla_de m k)) (map fst ?d)) = sum_list (map (\<lambda>e. length (snd e)) ?d)"
  proof -
    have "length (tabla_de m (fst e)) = length (snd e)" if e: "e \<in> set ?d" for e
    proof -
      have "map_of ?d (fst e) = Some (snd e)"
        using tablas_ok_dict [OF D(6)] e by (intro map_of_is_SomeI) (simp_all add: dict_ok_def)
      then show ?thesis unfolding tabla_de_def dictionary_get_def by simp
    qed
    then show ?thesis by (simp add: comp_def cong: map_cong)
  qed
  also have "\<dots> = length ?d + sum_list (map (\<lambda>e. length (tl (snd e))) ?d)"
  proof -
    have "sum_list (map (\<lambda>e. length (snd e)) d) = length d + sum_list (map (\<lambda>e. length (tl (snd e))) d)"
      if "\<forall>t \<in> snd ` set d. \<exists>r. t = 0 # r" for d :: "(string \<times> nat list) list"
      using that by (induction d) auto
    then show ?thesis using D(6) by (simp add: tablas_ok_def)
  qed
  also have "sum_list (map (\<lambda>e. length (tl (snd e))) ?d) = size (propias ?d)"
    by (simp add: propias_def length_concat comp_def)
  also have "\<dots> = card (vivos (segmentos m))" using D(6) by (simp add: tablas_ok_def size_mset_set)
  finally have s: "sum_list (map (\<lambda>k. length (tabla_de m k)) (map fst ?d)) = length ?d + card (vivos (segmentos m))" .
  have "card (vivos (segmentos m)) \<le> card {a. a < length (segmentos m) \<and> segmentos m ! a \<noteq> None}"
    by (intro card_mono) (auto simp: vivos_def)
  also have "\<dots> = length (filter (\<lambda>o'. o' \<noteq> None) (segmentos m))" by (simp add: length_filter_conv_card)
  finally have "int (card (vivos (segmentos m))) \<le> ocupado (segmentos m)"
    using vivos_ocupado [of "segmentos m"] D(3) by (auto simp: segmentos_ok_def)
  moreover have "0 \<le> suma h_size (huecos_libres m)"
    using huecos_okD(1) [OF D(2)] by (intro suma_nonneg) (blast intro: less_imp_le)
  moreover have "suma h_size (huecos_libres m) + ocupado (segmentos m) = TAM_MEMORIA mcfg"
    using D(1) by (intro particion_total [OF D(4,2,3)]) simp
  ultimately show ?thesis using s by simp
qed

section \<open>Compaction, seen from the kernel\<close>

text \<open>The free space, the number of tables and the sizes the packets have room for.\<close>

definition cabe_paquete :: "memConfig \<Rightarrow> kernel \<Rightarrow> bool" where
  "cabe_paquete mcfg k \<longleftrightarrow> TAM_MEMORIA mcfg \<le> 178956969 \<and>
     20 * int (length (global_PCB_list k)) + 12 * TAM_MEMORIA mcfg + 4 < 2147483648"

lemma suma_mset: "mset xs = mset ys \<Longrightarrow> sum_list (map f xs) = sum_list (map f ys)"
  for f :: "'a \<Rightarrow> nat"
  by (simp flip: sum_mset_sum_list)

lemma paquete_tablas:
  assumes ok: "mem_ok mcfg m" and ks: "mset ks = mset (map fst (diccionario_tablas m))"
    and i: "\<forall>s \<in> set ks. int32_ok (atoi s)" and T: "TAM_MEMORIA mcfg \<le> 178956969"
    and c: "20 * int (length ks) + 12 * TAM_MEMORIA mcfg + 4 < 2147483648"
  defines "ts \<equiv> map (\<lambda>k. (atoi k, tabla_de m k)) ks"
  defines "b \<equiv> enc_int (int (length ts)) @ concat (map enc_entrada ts)"
  shows "leer_contada leer_tabla_pid b = Inr (ts, [])" "int32_ok (int (length b))"
proof -
  have "length (diccionario_tablas m) = length ks" using arg_cong [OF ks, of size] by simp
  then have "int (sum_list (map (\<lambda>k. length (tabla_de m k)) ks)) \<le> int (length ks) + TAM_MEMORIA mcfg"
    using suma_tablas [OF ok] suma_mset [OF ks, of "\<lambda>k. length (tabla_de m k)"] by simp
  moreover have "length b = 4 + 8 * length ks + 12 * sum_list (map (\<lambda>k. length (tabla_de m k)) ks)"
    by (simp add: b_def ts_def length_concat comp_def longitud_entrada sum_list_addf sum_list_const_mult sum_list_triv)
  ultimately show "int32_ok (int (length b))" using c by (simp add: int32_ok_def)
  have "\<forall>e \<in> set ts. entrada_ok e" using i tabla_de_ok [OF ok T] by (auto simp: ts_def entrada_ok_def)
  moreover have "int32_ok (int (length ts))" using c mem_okD(1) [OF ok] by (simp add: ts_def int32_ok_def)
  ultimately show "leer_contada leer_tabla_pid b = Inr (ts, [])"
    using cod_entrada.contada_ida_vuelta [of ts "[]"] by (simp add: b_def list.map_ident)
qed

text \<open>What a call to the memory module leaves as it was.\<close>

definition mismo_kernel :: "kernel \<Rightarrow> kernel \<Rightarrow> bool" where
  "mismo_kernel k k' \<longleftrightarrow> (\<exists>m d. k' = k\<lparr>memoria_mod := m, pcbs := d\<rparr>)"

lemma iguales_PID:
  assumes t: "tablas_iguales cm mcfg k" and s: "s \<in> set (map fst (diccionario_tablas (memoria_mod k)))" and cm: "commons_ok cm"
  shows "atoi s \<in> set (global_PCB_list k) \<and> s = string_itoa cm (atoi s) \<and> int32_ok (atoi s)"
proof -
  have "set (map fst (diccionario_tablas (memoria_mod k))) = set (map (string_itoa cm) (global_PCB_list k))"
    using t unfolding tablas_iguales_def by (metis mset_eq_setD)
  then obtain p where p: "p \<in> set (global_PCB_list k)" "s = string_itoa cm p" using s by auto
  then have "int32_ok p" using t by (simp add: tablas_iguales_def)
  then show ?thesis using p atoi_string_itoa [OF cm] by simp
qed

lemma compactar_kernel_ok:
  assumes cm: "commons_ok cm" and t: "tablas_iguales cm mcfg k" and c: "cabe_paquete mcfg k"
    and hs: "huecos_libres (memoria_mod k) \<noteq> []"
  obtains k' where "compactar_memoria cm mcfg k = Some (Inr k')" "tablas_iguales cm mcfg k'" "mismo_kernel k k'"
    "huecos_libres (memoria_mod k') = [\<lparr>h_pos = TAM_MEMORIA mcfg - suma_huecos (huecos_libres (memoria_mod k)),
       h_size = suma_huecos (huecos_libres (memoria_mod k))\<rparr>]"
    "\<forall>s. map (\<lambda>x. (seg_ID x, seg_limite x)) (tabla_de (memoria_mod k') s)
      = map (\<lambda>x. (seg_ID x, seg_limite x)) (tabla_de (memoria_mod k) s)"
    "diccionario_tablas (memoria_mod k') = diccionario_tablas (memoria_mod k)"
proof -
  let ?m = "memoria_mod k" and ?G = "global_PCB_list k"
  have ok: "mem_ok mcfg ?m" using t by (simp add: tablas_iguales_def)
  obtain m' ks where m': "compactar_segmentos cm ?m = Some (Inr (m',
      let b = enc_int (int (length ks)) @ concat (map (\<lambda>k. enc_entrada (atoi k, tabla_de m' k)) ks)
      in enc_int (op_num PAQUETE) @ enc_int (int (length b)) @ b))"
    "mem_ok mcfg m'" "mset ks = mset (map fst (diccionario_tablas ?m))"
    "diccionario_tablas m' = diccionario_tablas ?m" "perfil (segmentos m') = perfil (segmentos ?m)"
    "huecos_libres m' = [\<lparr>h_pos = TAM_MEMORIA mcfg - suma h_size (huecos_libres ?m), h_size = suma h_size (huecos_libres ?m)\<rparr>]"
    by (rule compactar_segmentos_ok [OF cm ok hs])
  let ?ts = "map (\<lambda>k. (atoi k, tabla_de m' k)) ks"
  let ?b = "enc_int (int (length ?ts)) @ concat (map enc_entrada ?ts)"
  have G: "mset ks = mset (map (string_itoa cm) ?G)" using t m'(3) by (simp add: tablas_iguales_def)
  have l: "length ks = length ?G" using arg_cong [OF G, of size] by simp
  have sk: "set ks = set (map fst (diccionario_tablas ?m))" using m'(3) mset_eq_setD by blast
  have "leer_contada leer_tabla_pid ?b = Inr (?ts, [])" and largo: "int32_ok (int (length ?b))"
    using paquete_tablas [OF m'(2) m'(3) [folded m'(4)], unfolded sk] iguales_PID [OF t _ cm] c l
    by (simp_all add: cabe_paquete_def)
  then have lee: "leer_contada leer_tabla_pid (?b @ []) = Inr (?ts, [])" by simp
  have mem_atiende: "pedir_memoria cm mcfg (enviar_int (op_num COMPACTION)) k
      = Some (Inr (k\<lparr>memoria_mod := m'\<rparr>, enc_int (op_num PAQUETE) @ enc_int (int (length ?b)) @ ?b))"
    using atender_compactar [of cm mcfg ?m "[]"] m'(1) by (simp add: pedir_memoria_def comp_def)
  have G': "set ks = string_itoa cm ` set ?G" using mset_eq_setD [OF G] by simp
  have i32: "int32_ok p" if "p \<in> set ?G" for p using t that by (simp add: tablas_iguales_def)
  have fs: "fst ` set ?ts = set ?G"
    using atoi_string_itoa [OF cm i32] by (force simp: G' image_image)
  let ?k1 = "k\<lparr>memoria_mod := m'\<rparr>"
  have "\<forall>(p, t) \<in> set ?ts. p \<in> set (global_PCB_list ?k1) \<and> t = tabla_de m' (string_itoa cm p)"
    using iguales_PID [OF t _ cm] by (auto simp: sk)
  moreover have "\<forall>p \<in> set (global_PCB_list ?k1). dictionary_get (pcbs ?k1) p \<noteq> None"
    using t by (fastforce simp: tablas_iguales_def)
  ultimately obtain d where d: "actualizar_tablas ?ts ?k1 = Inr (?k1\<lparr>pcbs := d\<rparr>)"
    "\<forall>q. dictionary_get d q = map_option (\<lambda>b. if q \<in> fst ` set ?ts then b\<lparr>pcb_tablaSegmentos := tabla_de m' (string_itoa cm q)\<rparr> else b)
       (dictionary_get (pcbs ?k1) q)"
    using actualizar_ok [of ?ts ?k1 "\<lambda>p. tabla_de m' (string_itoa cm p)"] by blast
  have "recibir_tablas_compactadas (enc_int (op_num PAQUETE) @ enc_int (int (length ?b)) @ ?b) ?k1 = Inr (?k1\<lparr>pcbs := d\<rparr>)"
    using recibir_buffer_enc [of ?b "[]"] largo lee d(1) by (simp add: recibir_tablas_compactadas_def del: op_num.simps)
  then have "compactar_memoria cm mcfg k = Some (Inr (?k1\<lparr>pcbs := d\<rparr>))"
    using mem_atiende by (simp add: compactar_memoria_def map_res_def)
  moreover have "tablas_iguales cm mcfg (?k1\<lparr>pcbs := d\<rparr>)"
    using t m'(2,4) d(2) unfolding fs tablas_iguales_def by auto
  moreover have "mismo_kernel k (?k1\<lparr>pcbs := d\<rparr>)" unfolding mismo_kernel_def by blast
  ultimately show thesis
    using that m'(4,6) perfil_tabla [OF ok m'(5,4)] by (simp add: suma_huecos_suma)
qed

section \<open>One request of \<open>create_segment\<close>\<close>

lemma mem_create_claves:
  assumes "mem_create_segment cm cfg m c segID tam = Inr (m', r)" "dictionary_get (diccionario_tablas m) c = Some t"
  shows "map fst (diccionario_tablas m') = map fst (diccionario_tablas m)"
proof -
  obtain m1 t1 ret where a: "calloc_segment cm cfg m t segID tam = Inr (m1, t1, ret)"
    "m' = m1\<lparr>diccionario_tablas := dictionary_put (diccionario_tablas m1) c t1\<rparr>"
    using assms by (auto simp: mem_create_segment_def bind_res_Inr_iff)
  have "diccionario_tablas m1 = diccionario_tablas m"
    using a(1) by (auto simp: calloc_segment_def allocate_segment_def bind_res_Inr_iff Let_def case_prod_beta
        split: option.splits if_splits)
  then show ?thesis using assms(2) by (simp add: a(2) claves_put)
qed

lemma mismo_kernelD:
  assumes "mismo_kernel k k'"
  shows "consolasReady k' = consolasReady k" "consolasExit k' = consolasExit k" "global_PCB_list k' = global_PCB_list k"
    "compactionBlockers k' = compactionBlockers k" "compaction_permission k' = compaction_permission k"
  using assms by (auto simp: mismo_kernel_def)

lemma mismo_kernel_luego: "mismo_kernel k k1 \<Longrightarrow> mismo_kernel k1 k2 \<Longrightarrow> mismo_kernel k k2"
  unfolding mismo_kernel_def by force


lemma tablas_iguales_marco:
  "memoria_mod k' = memoria_mod k \<Longrightarrow> pcbs k' = pcbs k \<Longrightarrow> global_PCB_list k' = global_PCB_list k \<Longrightarrow>
    tablas_iguales cm mcfg k \<Longrightarrow> tablas_iguales cm mcfg k'"
  by (simp add: tablas_iguales_def)

lemma pedir_tabla_ok:
  assumes cm: "commons_ok cm" and t: "tablas_iguales cm mcfg k" and T: "TAM_MEMORIA mcfg \<le> 178956969"
    and p: "p \<in> set (global_PCB_list k)" and i: "int32_ok segID" "int32_ok tam" "int32_ok flag"
    and c: "mem_create_segment cm mcfg (memoria_mod k) (string_itoa cm p) segID tam
      = Inr (m', send_tabla_segmentos (tabla_de m' (string_itoa cm p)) flag)" "mem_ok mcfg m'"
    and otros: "\<forall>s. s \<noteq> string_itoa cm p \<longrightarrow> tabla_de m' s = tabla_de (memoria_mod k) s"
  obtains k1 where "pedir_tabla cm mcfg (send_newsegment_petition p segID tam) p k = Some (Inr (k1, flag))"
    "tablas_iguales cm mcfg k1" "mismo_kernel k k1" "memoria_mod k1 = m'"
proof -
  let ?s = "string_itoa cm p" and ?m = "memoria_mod k"
  have ip: "int32_ok p" using t p by (simp add: tablas_iguales_def)
  have "set (map fst (diccionario_tablas ?m)) = set (map (string_itoa cm) (global_PCB_list k))"
    using t unfolding tablas_iguales_def by (metis mset_eq_setD)
  then have "?s \<in> set (map fst (diccionario_tablas ?m))" using p by simp
  then obtain tt where tt: "dictionary_get (diccionario_tablas ?m) ?s = Some tt"
    by (metis dictionary_get_def map_of_eq_None_iff not_None_eq set_map)
  have a: "atender_kernel cm mcfg ?m (send_newsegment_petition p segID tam)
      = Some (Inr (m', send_tabla_segmentos (tabla_de m' ?s) flag, []))"
    using atender_crear [OF ip i(1,2), of cm mcfg ?m "[]"] c(1) by simp
  have r: "recv_tabla_segmentos (send_tabla_segmentos (tabla_de m' ?s) flag) = Inr ((flag, tabla_de m' ?s), [])"
    using recv_tabla_ok [OF tabla_de_ok [OF c(2) T] i(3), of ?s "[]"] by simp
  obtain b where b: "dictionary_get (pcbs k) p = Some b" using t p by (auto simp: tablas_iguales_def)
  let ?k1 = "k\<lparr>memoria_mod := m', pcbs := dictionary_put (pcbs k) p (b\<lparr>pcb_tablaSegmentos := tabla_de m' ?s\<rparr>)\<rparr>"
  have "pedir_tabla cm mcfg (send_newsegment_petition p segID tam) p k = Some (Inr (?k1, flag))"
    using a r b by (simp add: pedir_tabla_def pedir_memoria_def map_res_def cambiar_pcb_def pcb_de_def)
  moreover have "tablas_iguales cm mcfg ?k1"
    using t c(2) mem_create_claves [OF c(1) tt] otros string_itoa_inj [OF cm _ ip] unfolding tablas_iguales_def by auto
  moreover have "mismo_kernel k ?k1" unfolding mismo_kernel_def by blast
  ultimately show thesis using that [of ?k1] by simp
qed

lemma ker_create_pasos:
  assumes p: "pedir_tabla cm mcfg (send_newsegment_petition p segID tam) p k = Some (Inr (k1, flag))"
  shows "flag = 0 \<Longrightarrow> ker_create_segment cm mcfg p segID tam k = Some (Inr (ready_al_inicio p k1))"
    "flag = -1 \<Longrightarrow> ker_create_segment cm mcfg p segID tam k = Some (Inr (finalizar_con_error ''Out of Memory'' p k1))"
    "flag = 1 \<Longrightarrow> compactionBlockers k1 \<le> 0 \<or> 0 < compaction_permission k1 \<Longrightarrow>
      compactar_memoria cm mcfg (pide_compactacion k1) = Some (Inr k2) \<Longrightarrow>
      ker_create_segment cm mcfg p segID tam k = ker_create_segment cm mcfg p segID tam k2"
proof -
  note s = ker_create_segment.simps [of cm mcfg p segID tam k, unfolded p]
  show "flag = 0 \<Longrightarrow> ker_create_segment cm mcfg p segID tam k = Some (Inr (ready_al_inicio p k1))"
    "flag = -1 \<Longrightarrow> ker_create_segment cm mcfg p segID tam k = Some (Inr (finalizar_con_error ''Out of Memory'' p k1))"
    by (simp_all add: s)
  assume f: "flag = 1" "compactionBlockers k1 \<le> 0 \<or> 0 < compaction_permission k1"
    "compactar_memoria cm mcfg (pide_compactacion k1) = Some (Inr k2)"
  have "\<not> (compactionBlockers k1 > 0 \<and> compaction_permission k1 = 0)" using f(2) by auto
  then show "ker_create_segment cm mcfg p segID tam k = ker_create_segment cm mcfg p segID tam k2"
    using f(1,3) by (auto simp: s pide_compactacion_def Let_def)
qed

lemma ker_create_espera:
  assumes "pedir_tabla cm mcfg (send_newsegment_petition p segID tam) p k = Some (Inr (k1, 1))"
    and "0 < compactionBlockers k1" "compaction_permission k1 = 0"
  shows "ker_create_segment cm mcfg p segID tam k
    = Some (Inr (k1\<lparr>compaction_required := True, running := Esperando_permiso p segID tam\<rparr>))"
  using assms by (simp add: ker_create_segment.simps [of cm mcfg p segID tam k])

text \<open>The segments of a process without the bases, which a compaction may change.\<close>

definition forma :: "memoria \<Rightarrow> string \<Rightarrow> (int \<times> int) list" where
  "forma m s = map (\<lambda>x. (seg_ID x, seg_limite x)) (tabla_de m s)"

lemma crear_una_vez:
  assumes cm: "commons_ok cm" and alg: "algoritmo_ok (ALGORITMO_ASIGNACION mcfg)"
    and t: "tablas_iguales cm mcfg k" and T: "TAM_MEMORIA mcfg \<le> 178956969"
    and p: "p \<in> set (global_PCB_list k)" and i: "int32_ok segID" "int32_ok tam" "0 < tam"
  obtains (cabe) k1 h where "pedir_tabla cm mcfg (send_newsegment_petition p segID tam) p k = Some (Inr (k1, 0))"
      "tablas_iguales cm mcfg k1" "mismo_kernel k k1" "h \<in> set (huecos_libres (memoria_mod k))" "tam \<le> h_size h"
      "forma (memoria_mod k1) (string_itoa cm p) = forma (memoria_mod k) (string_itoa cm p) @ [(segID, tam)]"
      "\<forall>s. s \<noteq> string_itoa cm p \<longrightarrow> forma (memoria_mod k1) s = forma (memoria_mod k) s"
    | (no_cabe) k1 where "pedir_tabla cm mcfg (send_newsegment_petition p segID tam) p k = Some (Inr (k1,
        if tam \<le> suma_huecos (huecos_libres (memoria_mod k)) then 1 else -1))"
      "\<forall>h \<in> set (huecos_libres (memoria_mod k)). h_size h < tam"
      "tablas_iguales cm mcfg k1" "mismo_kernel k k1" "huecos_libres (memoria_mod k1) = huecos_libres (memoria_mod k)"
      "tabla_de (memoria_mod k1) = tabla_de (memoria_mod k)"
proof -
  let ?s = "string_itoa cm p" and ?m = "memoria_mod k"
  have ok: "mem_ok mcfg ?m" using t by (simp add: tablas_iguales_def)
  have "set (map fst (diccionario_tablas ?m)) = set (map (string_itoa cm) (global_PCB_list k))"
    using t unfolding tablas_iguales_def by (metis mset_eq_setD)
  then have "?s \<in> set (map fst (diccionario_tablas ?m))" using p by simp
  then obtain tt where tt: "dictionary_get (diccionario_tablas ?m) ?s = Some tt"
    by (metis dictionary_get_def map_of_eq_None_iff not_None_eq set_map)
  note pide = pedir_tabla_ok [OF cm t T p i(1,2)]
  have falla: thesis if h: "\<forall>h \<in> set (huecos_libres ?m). h_size h < tam"
    and c: "calloc_segment cm mcfg ?m tt segID tam = Inr (?m, tt, if tam \<le> suma_huecos (huecos_libres ?m) then 1 else -1)"
  proof -
    let ?f = "if tam \<le> suma_huecos (huecos_libres ?m) then 1 else - 1 :: int"
    obtain m' where m': "mem_create_segment cm mcfg ?m ?s segID tam = Inr (m', send_tabla_segmentos (tabla_de m' ?s) ?f)"
      "mem_ok mcfg m'" "huecos_libres m' = huecos_libres ?m" "tabla_de m' = tabla_de ?m"
      by (rule mem_create_sin_hueco [OF ok tt c])
    have f: "int32_ok ?f" by simp
    obtain k1 where "pedir_tabla cm mcfg (send_newsegment_petition p segID tam) p k = Some (Inr (k1, ?f))"
      "tablas_iguales cm mcfg k1" "mismo_kernel k k1" "memoria_mod k1 = m'"
      by (rule pide [OF f m'(1,2)]) (simp_all add: m'(4))
    then show thesis using no_cabe h m'(3,4) by simp
  qed
  show thesis
  proof (cases rule: calloc_casos [OF cm alg, of ?m tam tt segID])
    case (1 j)
    obtain m' where m': "mem_create_segment cm mcfg ?m ?s segID tam = Inr (m', send_tabla_segmentos (tabla_de m' ?s) 0)"
      "mem_ok mcfg m'" "tabla_de m' ?s = tabla_de ?m ?s @
         [\<lparr>seg_ID = segID, seg_base = h_pos (huecos_libres ?m ! j), seg_limite = tam\<rparr>]"
      "\<forall>k. k \<noteq> ?s \<longrightarrow> tabla_de m' k = tabla_de ?m k"
      by (rule mem_create_creado [OF cm ok tt i(1,3) 1(1,2,4)])
    have z: "int32_ok 0" by simp
    obtain k1 where "pedir_tabla cm mcfg (send_newsegment_petition p segID tam) p k = Some (Inr (k1, 0))"
      "tablas_iguales cm mcfg k1" "mismo_kernel k k1" "memoria_mod k1 = m'"
      by (rule pide [OF z m'(1,2,4)])
    then show thesis using cabe [OF _ _ _ nth_mem [OF 1(1)] 1(2)] m'(3,4) by (simp add: forma_def)
  qed (use falla in \<open>simp_all add: suma_huecos_suma\<close>)
qed

section \<open>\<open>create_segment\<close>, end to end\<close>

text \<open>The answer 1 of the memory module: a compaction, and then the request is granted.\<close>

lemma tras_compactar:
  assumes cm: "commons_ok cm" and alg: "algoritmo_ok (ALGORITMO_ASIGNACION mcfg)"
    and t: "tablas_iguales cm mcfg k1" and c: "cabe_paquete mcfg k1" and p: "p \<in> set (global_PCB_list k1)"
    and i: "int32_ok segID" "int32_ok tam" "0 < tam"
    and pide: "pedir_tabla cm mcfg (send_newsegment_petition p segID tam) p k = Some (Inr (k1, 1))"
    and permiso: "compactionBlockers k1 \<le> 0 \<or> 0 < compaction_permission k1"
    and le: "tam \<le> suma_huecos (huecos_libres (memoria_mod k1))"
  shows "\<exists>k2 k3. compactar_memoria cm mcfg (pide_compactacion k1) = Some (Inr k2) \<and>
    pedir_tabla cm mcfg (send_newsegment_petition p segID tam) p k2 = Some (Inr (k3, 0)) \<and>
    ker_create_segment cm mcfg p segID tam k = Some (Inr (ready_al_inicio p k3)) \<and>
    tablas_iguales cm mcfg (ready_al_inicio p k3) \<and> mismo_kernel (pide_compactacion k1) k3 \<and>
    forma (memoria_mod k3) (string_itoa cm p) = forma (memoria_mod k1) (string_itoa cm p) @ [(segID, tam)] \<and>
    (\<forall>s. s \<noteq> string_itoa cm p \<longrightarrow> forma (memoria_mod k3) s = forma (memoria_mod k1) s)"
proof -
  let ?k2 = "pide_compactacion k1"
  have m2: "memoria_mod ?k2 = memoria_mod k1" "pcbs ?k2 = pcbs k1" "global_PCB_list ?k2 = global_PCB_list k1"
    "consolasReady ?k2 = consolasReady k1" "consolasExit ?k2 = consolasExit k1"
    by (simp_all add: pide_compactacion_def Let_def)
  have t2: "tablas_iguales cm mcfg ?k2" by (rule tablas_iguales_marco [OF m2(1-3) t])
  have c2: "cabe_paquete mcfg ?k2" using c by (simp add: cabe_paquete_def m2)
  have h2: "huecos_libres (memoria_mod ?k2) \<noteq> []" using le i(3) by (auto simp: m2 suma_huecos_suma)
  obtain k3 where k3: "compactar_memoria cm mcfg ?k2 = Some (Inr k3)" "tablas_iguales cm mcfg k3" "mismo_kernel ?k2 k3"
    "huecos_libres (memoria_mod k3) = [\<lparr>h_pos = TAM_MEMORIA mcfg - suma_huecos (huecos_libres (memoria_mod ?k2)),
       h_size = suma_huecos (huecos_libres (memoria_mod ?k2))\<rparr>]"
    "\<forall>s. map (\<lambda>x. (seg_ID x, seg_limite x)) (tabla_de (memoria_mod k3) s)
      = map (\<lambda>x. (seg_ID x, seg_limite x)) (tabla_de (memoria_mod ?k2) s)"
    by (rule compactar_kernel_ok [OF cm t2 c2 h2])
  have f3: "forma (memoria_mod k3) s = forma (memoria_mod k1) s" for s using k3(5) by (simp add: forma_def m2)
  have T: "TAM_MEMORIA mcfg \<le> 178956969" using c by (simp add: cabe_paquete_def)
  have p3: "p \<in> set (global_PCB_list k3)" using p by (simp add: mismo_kernelD [OF k3(3)] m2)
  note una = crear_una_vez [OF cm alg k3(2) T p3 i]
  from una show ?thesis
  proof cases
    case (1 k4 h)
    have "ker_create_segment cm mcfg p segID tam k = Some (Inr (ready_al_inicio p k4))"
      unfolding ker_create_pasos(3) [OF pide HOL.refl permiso k3(1)] by (rule ker_create_pasos(1) [OF 1(1) HOL.refl])
    moreover have "tablas_iguales cm mcfg (ready_al_inicio p k4)"
      by (rule tablas_iguales_marco [OF _ _ _ 1(2)]) (simp_all add: ready_al_inicio_def)
    ultimately show ?thesis using k3(1) 1(1,6,7) f3 mismo_kernel_luego [OF k3(3) 1(3)] by auto
  next
    case 2
    then show ?thesis using k3(4) le by (simp add: m2)
  qed
qed

text \<open>
  C7. \<open>CREATE_SEGMENT\<close> of a positive size, through the kernel and the memory module, from
  tables that agree. When some hole is large enough the first request is granted and the
  process runs next, with the new segment at the end of its table. When all the free bytes are
  too few it ends with an error. Otherwise the answer is 1: with reads or writes of files
  pending and no permission left the thread waits, with nothing created; if not, it compacts,
  asks again, and that second request is granted. In every case the tables the kernel keeps in
  the PCBs, those of the processes that a compaction moved included, are the tables of the
  memory module, and no other process gains or loses a segment.
\<close>

theorem crear_segmento_de_punta_a_punta:
  assumes cm: "commons_ok cm" and alg: "algoritmo_ok (ALGORITMO_ASIGNACION mcfg)"
    and t: "tablas_iguales cm mcfg k" and c: "cabe_paquete mcfg k"
    and p: "p \<in> set (global_PCB_list k)" and i: "int32_ok segID" "int32_ok tam" "0 < tam"
  shows "\<exists>k1 flag k'. pedir_tabla cm mcfg (send_newsegment_petition p segID tam) p k = Some (Inr (k1, flag)) \<and>
    mismo_kernel k k1 \<and> ker_create_segment cm mcfg p segID tam k = Some (Inr k') \<and> tablas_iguales cm mcfg k' \<and>
    (\<forall>s. s \<noteq> string_itoa cm p \<longrightarrow> forma (memoria_mod k') s = forma (memoria_mod k) s) \<and>
    (if \<exists>h \<in> set (huecos_libres (memoria_mod k)). tam \<le> h_size h then
       flag = 0 \<and> k' = ready_al_inicio p k1 \<and>
       forma (memoria_mod k') (string_itoa cm p) = forma (memoria_mod k) (string_itoa cm p) @ [(segID, tam)]
     else if suma_huecos (huecos_libres (memoria_mod k)) < tam then
       flag = -1 \<and> k' = finalizar_con_error ''Out of Memory'' p k1 \<and>
       forma (memoria_mod k') (string_itoa cm p) = forma (memoria_mod k) (string_itoa cm p)
     else if 0 < compactionBlockers k \<and> compaction_permission k = 0 then
       flag = 1 \<and> k' = k1\<lparr>compaction_required := True, running := Esperando_permiso p segID tam\<rparr> \<and>
       forma (memoria_mod k') (string_itoa cm p) = forma (memoria_mod k) (string_itoa cm p)
     else
       flag = 1 \<and> (\<exists>k2 k3. compactar_memoria cm mcfg (pide_compactacion k1) = Some (Inr k2) \<and>
         pedir_tabla cm mcfg (send_newsegment_petition p segID tam) p k2 = Some (Inr (k3, 0)) \<and>
         mismo_kernel (pide_compactacion k1) k3 \<and> k' = ready_al_inicio p k3) \<and>
       forma (memoria_mod k') (string_itoa cm p) = forma (memoria_mod k) (string_itoa cm p) @ [(segID, tam)])"
proof -
  have T: "TAM_MEMORIA mcfg \<le> 178956969" using c by (simp add: cabe_paquete_def)
  let ?H = "huecos_libres (memoria_mod k)"
  show ?thesis
  proof (cases rule: crear_una_vez [OF cm alg t T p i])
    case (1 k1 h)
    moreover have "tablas_iguales cm mcfg (ready_al_inicio p k1)"
      by (rule tablas_iguales_marco [OF _ _ _ 1(2)]) (simp_all add: ready_al_inicio_def)
    moreover have "\<exists>h \<in> set ?H. tam \<le> h_size h" using 1(4,5) by blast
    ultimately show ?thesis using ker_create_pasos(1) [OF 1(1)] 1(3)
      by (intro exI [of _ k1] exI [of _ "0 :: int"] exI [of _ "ready_al_inicio p k1"]) (simp add: ready_al_inicio_def)
  next
    case (2 k1)
    have h: "\<not> (\<exists>h \<in> set ?H. tam \<le> h_size h)" using 2(2) by (simp add: not_le)
    have f: "forma (memoria_mod k1) = forma (memoria_mod k)" by (simp add: forma_def 2(6) fun_eq_iff)
    note bl = mismo_kernelD [OF 2(4)]
    consider (poco) "suma_huecos ?H < tam"
      | (espera) "\<not> suma_huecos ?H < tam" "0 < compactionBlockers k \<and> compaction_permission k = 0"
      | (compacta) "\<not> suma_huecos ?H < tam" "\<not> (0 < compactionBlockers k \<and> compaction_permission k = 0)" by blast
    then show ?thesis
    proof cases
      case poco
      have "tablas_iguales cm mcfg (finalizar_con_error ''Out of Memory'' p k1)"
        by (rule tablas_iguales_marco [OF _ _ _ 2(3)]) (simp_all add: finalizar_con_error_def enviar_consola_def Let_def)
      then show ?thesis using ker_create_pasos(2) [OF 2(1)] 2(1,4) poco f h
        by (intro exI [of _ k1] exI [of _ "-1 :: int"] exI [of _ "finalizar_con_error ''Out of Memory'' p k1"])
          (simp add: finalizar_con_error_def enviar_consola_def Let_def)
    next
      case espera
      let ?k = "k1\<lparr>compaction_required := True, running := Esperando_permiso p segID tam\<rparr>"
      have pt: "pedir_tabla cm mcfg (send_newsegment_petition p segID tam) p k = Some (Inr (k1, 1))" using 2(1) espera(1) by simp
      have "tablas_iguales cm mcfg ?k" by (rule tablas_iguales_marco [OF _ _ _ 2(3)]) simp_all
      then show ?thesis using ker_create_espera [OF pt] pt 2(4) espera f h bl
        by (intro exI [of _ k1] exI [of _ "1 :: int"] exI [of _ ?k]) simp
    next
      case compacta
      have pt: "pedir_tabla cm mcfg (send_newsegment_petition p segID tam) p k = Some (Inr (k1, 1))" using 2(1) compacta(1) by simp
      have q: "cabe_paquete mcfg k1" "p \<in> set (global_PCB_list k1)" "compactionBlockers k1 \<le> 0 \<or> 0 < compaction_permission k1"
        "tam \<le> suma_huecos (huecos_libres (memoria_mod k1))"
        using c p compacta bl by (auto simp: cabe_paquete_def 2(5))
      from tras_compactar [OF cm alg 2(3) q(1,2) i pt q(3,4)] obtain k2 k3 where
        k: "compactar_memoria cm mcfg (pide_compactacion k1) = Some (Inr k2)"
          "pedir_tabla cm mcfg (send_newsegment_petition p segID tam) p k2 = Some (Inr (k3, 0))"
          "ker_create_segment cm mcfg p segID tam k = Some (Inr (ready_al_inicio p k3))"
          "tablas_iguales cm mcfg (ready_al_inicio p k3)" "mismo_kernel (pide_compactacion k1) k3"
          "forma (memoria_mod k3) (string_itoa cm p) = forma (memoria_mod k1) (string_itoa cm p) @ [(segID, tam)]"
          "\<forall>s. s \<noteq> string_itoa cm p \<longrightarrow> forma (memoria_mod k3) s = forma (memoria_mod k1) s"
        by blast
      have m: "memoria_mod (ready_al_inicio p k3) = memoria_mod k3" by (simp add: ready_al_inicio_def)
      show ?thesis unfolding if_not_P [OF h] if_not_P [OF compacta(1)] if_not_P [OF compacta(2)]
        using pt 2(4) k f m
        by (intro exI [of _ k1] exI [of _ "1 :: int"] exI [of _ "ready_al_inicio p k3"]) auto
    qed
  qed
qed

definition ker_crea :: kernel where
  "ker_crea = ker2\<lparr>pcbs := [(7, pcb_ej 0 (tabla_de (mem_ej 10) ''7''))], consolasReady := [], global_PCB_list := [7],
     memoria_mod := mem_ej 10\<rparr>"

lemma ker_crea_ok:
  "tablas_iguales commons_ej cfg_ej ker_crea" "cabe_paquete cfg_ej ker_crea" "7 \<in> set (global_PCB_list ker_crea)"
  "consolasReady ker_crea = []" "memoria_mod ker_crea = mem_ej 10" "consolasExit ker_crea = []"
  "compactionBlockers ker_crea = 0" "compaction_permission ker_crea = 0"
proof -
  note d = ker_crea_def ker2_def ker1_def ker0_def ker_inicial_def
  show "cabe_paquete cfg_ej ker_crea" "7 \<in> set (global_PCB_list ker_crea)" "consolasReady ker_crea = []"
    "memoria_mod ker_crea = mem_ej 10" "consolasExit ker_crea = []" "compactionBlockers ker_crea = 0"
    "compaction_permission ker_crea = 0"
    by (simp_all add: cabe_paquete_def cfg_ej_def d)
  show "tablas_iguales commons_ej cfg_ej ker_crea"
    using mem_ej_ok [of 10] by (simp add: tablas_iguales_def d dictionary_get_def string_itoa_ej pcb_ej_def)
      (simp add: mem_ej_def)
qed

lemma mem_ej_huecos: "suma_huecos [\<lparr>h_pos = 8, h_size = 4\<rparr>, \<lparr>h_pos = 22, h_size = 18\<rparr>] = 22" "huecos_libres (mem_ej 10) = [\<lparr>h_pos = 8, h_size = 4\<rparr>, \<lparr>h_pos = 22, h_size = 18\<rparr>]"
  by code_simp+

theorem crear_segmento_de_punta_a_punta_witness:
  "\<exists>k1 k2 k3. pedir_tabla commons_ej cfg_ej (send_newsegment_petition 7 2 20) 7 ker_crea = Some (Inr (k1, 1)) \<and>
    compactar_memoria commons_ej cfg_ej (pide_compactacion k1) = Some (Inr k2) \<and>
    pedir_tabla commons_ej cfg_ej (send_newsegment_petition 7 2 20) 7 k2 = Some (Inr (k3, 0)) \<and>
    ker_create_segment commons_ej cfg_ej 7 2 20 ker_crea = Some (Inr (ready_al_inicio 7 k3)) \<and>
    tablas_iguales commons_ej cfg_ej (ready_al_inicio 7 k3) \<and>
    forma (memoria_mod k3) ''7'' = forma (mem_ej 10) ''7'' @ [(2, 20)]"
proof -
  have m: "memoria_mod (ready_al_inicio 7 k3) = memoria_mod k3" for k3 by (simp add: ready_al_inicio_def)
  show ?thesis
    using crear_segmento_de_punta_a_punta [OF commons_ej_ok cfg_ej_ok(2) ker_crea_ok(1-3), of 2 20]
    by (auto simp: ker_crea_ok mem_ej_huecos string_itoa_ej m)
qed

section \<open>The gate of a compaction\<close>

text \<open>
  C23. A creation that needs a compaction waits exactly when reads or writes of files are
  pending and no permission is left. A compaction that did not have to wait leaves its
  request standing, so the file system thread gives a permission that nobody waits for; with
  such a permission a later creation compacts the memory while reads or writes are pending.
\<close>

theorem permiso_de_compactacion:
  assumes cm: "commons_ok cm" and alg: "algoritmo_ok (ALGORITMO_ASIGNACION mcfg)"
    and t: "tablas_iguales cm mcfg k" and c: "cabe_paquete mcfg k"
    and p: "p \<in> set (global_PCB_list k)" and i: "int32_ok segID" "int32_ok tam" "0 < tam"
    and no_cabe: "\<forall>h \<in> set (huecos_libres (memoria_mod k)). h_size h < tam" "tam \<le> suma_huecos (huecos_libres (memoria_mod k))"
  shows "\<exists>k'. ker_create_segment cm mcfg p segID tam k = Some (Inr k') \<and> compaction_required k' \<and>
    consolasBlocked k' = consolasBlocked k \<and> compactionBlockers k' = compactionBlockers k \<and>
    (if 0 < compactionBlockers k \<and> compaction_permission k = 0 then
       running k' = Esperando_permiso p segID tam \<and> consolasReady k' = consolasReady k \<and>
       tabla_de (memoria_mod k') = tabla_de (memoria_mod k)
     else
       running k' = running k \<and> consolasReady k' = p # consolasReady k \<and>
       forma (memoria_mod k') (string_itoa cm p) = forma (memoria_mod k) (string_itoa cm p) @ [(segID, tam)] \<and>
       compaction_permission (dar_permiso k') =
         (if 0 < compactionBlockers k then compaction_permission k - 1
          else if compactionBlockers k = 0 then compaction_permission k + 1 else compaction_permission k))"
proof -
  have T: "TAM_MEMORIA mcfg \<le> 178956969" using c by (simp add: cabe_paquete_def)
  show ?thesis
  proof (cases rule: crear_una_vez [OF cm alg t T p i])
    case (1 k1 h)
    then show ?thesis using no_cabe(1) by fastforce
  next
    case (2 k1)
    have f: "forma (memoria_mod k1) = forma (memoria_mod k)" by (simp add: forma_def 2(6) fun_eq_iff)
    obtain m d where k1: "k1 = k\<lparr>memoria_mod := m, pcbs := d\<rparr>" using 2(4) by (auto simp: mismo_kernel_def)
    show ?thesis
    proof (cases "0 < compactionBlockers k \<and> compaction_permission k = 0")
      case True
      then show ?thesis using ker_create_espera [OF 2(1) [unfolded if_P [OF no_cabe(2)]]] 2(6) by (simp add: k1)
    next
      case False
      have pt: "pedir_tabla cm mcfg (send_newsegment_petition p segID tam) p k = Some (Inr (k1, 1))" using 2(1) no_cabe(2) by simp
      have q: "cabe_paquete mcfg k1" "p \<in> set (global_PCB_list k1)" "compactionBlockers k1 \<le> 0 \<or> 0 < compaction_permission k1"
        "tam \<le> suma_huecos (huecos_libres (memoria_mod k1))"
        using c p False no_cabe(2) mismo_kernelD [OF 2(4)] by (auto simp: cabe_paquete_def 2(5))
      obtain k3 where k': "ker_create_segment cm mcfg p segID tam k = Some (Inr (ready_al_inicio p k3))"
        "mismo_kernel (pide_compactacion k1) k3"
        "forma (memoria_mod k3) (string_itoa cm p) = forma (memoria_mod k) (string_itoa cm p) @ [(segID, tam)]"
        using tras_compactar [OF cm alg 2(3) q(1,2) i pt q(3,4)] f by auto
      then show ?thesis using False
        by (cases "0 < compactionBlockers k") (auto simp: mismo_kernel_def k1 ready_al_inicio_def pide_compactacion_def dar_permiso_def Let_def)
    qed
  qed
qed

text \<open>A write of process 8 is pending, and a permission is left of an earlier compaction.\<close>

definition ker_pendiente :: kernel where
  "ker_pendiente = recieves_filesystem_petition (op_num F_WRITE) 8 [''a'', ''12'', ''10''] (ker_crea\<lparr>compaction_permission := 1\<rparr>)"

lemma ker_pendiente_ok:
  "memoria_mod ker_pendiente = mem_ej 10" "compactionBlockers ker_pendiente = 1"
  "map un_pcb (consolasBlocked ker_pendiente) = [8]" "consolasReady ker_pendiente = []"
  "compaction_permission ker_pendiente = 1" "7 \<in> set (global_PCB_list ker_pendiente)"
  "tablas_iguales commons_ej cfg_ej ker_pendiente" "cabe_paquete cfg_ej ker_pendiente"
proof -
  have b: "consolasBlocked ker_crea = []"
    by (simp add: ker_crea_def ker2_def ker1_def ker0_def ker_inicial_def)
  show "memoria_mod ker_pendiente = mem_ej 10" "compactionBlockers ker_pendiente = 1"
    "map un_pcb (consolasBlocked ker_pendiente) = [8]" "consolasReady ker_pendiente = []"
    "compaction_permission ker_pendiente = 1" "7 \<in> set (global_PCB_list ker_pendiente)"
    "tablas_iguales commons_ej cfg_ej ker_pendiente" "cabe_paquete cfg_ej ker_pendiente"
    using ker_crea_ok(1,2)
    by (simp_all add: ker_pendiente_def recieves_filesystem_petition_def ker_crea_ok b tablas_iguales_def cabe_paquete_def)
qed

theorem permiso_de_compactacion_witness:
  "\<exists>k'. ker_create_segment commons_ej cfg_ej 7 2 20 ker_pendiente = Some (Inr k') \<and>
    compactionBlockers k' = 1 \<and> map un_pcb (consolasBlocked k') = [8] \<and> consolasReady k' = [7] \<and>
    forma (memoria_mod k') ''7'' = forma (mem_ej 10) ''7'' @ [(2, 20)]"
  using permiso_de_compactacion [OF commons_ej_ok cfg_ej_ok(2) ker_pendiente_ok(7,8,6), of 2 20]
  by (auto simp: ker_pendiente_ok mem_ej_huecos string_itoa_ej)

end
