(* ===== verification/Ker_Socket.thy ===== *)
theory Ker_Socket
  imports Mem_Propiedades
begin

text \<open>
  The threads of the kernel that share the socket of the memory module: the long-term scheduler
  (\<open>pedirTablaSegmentosInicial\<close>), the short-term one (\<open>create_segment\<close>, \<open>delete_segment\<close>) and
  the one that ends processes (\<open>gestionadorExit\<close>), with the service loop of the module. The
  first two hold \<open>mutexMemoria\<close> while they send a request, release it, and hold it again while
  they read the answer. Each of these sections, and each iteration of the service loop, is one
  step, in any interleaving. A compaction, whose messages take no mutex, is not a request here.
\<close>

section \<open>The threads and the socket\<close>

datatype hilo_mem = Largo | Corto | Fin

text \<open>Requests answered with a table, and the others the kernel makes here.\<close>

fun espera_tabla :: "peticion \<Rightarrow> bool" where
  "espera_tabla (Crear _ _ _) = True"
| "espera_tabla (Borrar _ _) = True"
| "espera_tabla _ = False"

fun de_kernel :: "peticion \<Rightarrow> bool" where
  "de_kernel (Terminar _) = True"
| "de_kernel p = espera_tabla p"

fun PID_de :: "peticion \<Rightarrow> int" where
  "PID_de (Crear PID _ _) = PID"
| "PID_de (Borrar PID _) = PID"
| "PID_de (Terminar PID) = PID"
| "PID_de _ = 0"

fun bytes_pedido :: "commons \<Rightarrow> peticion \<Rightarrow> byte list" where
  "bytes_pedido cm (Crear PID segID tam) = send_newsegment_petition PID segID tam"
| "bytes_pedido cm (Borrar PID segID) = send_deletesegment_petition PID segID"
| "bytes_pedido cm (Terminar PID) = enviar_mensaje_razon (op_num EXIT) (string_itoa cm PID)"
| "bytes_pedido cm _ = []"

text \<open>
  The bytes under way in each direction, the request each thread waits for, and the table of
  each PCB. \<open>enviados\<close> and \<open>leidos\<close> record the requests sent and the answers read.
\<close>

record enlace =
  a_memoria :: "byte list"
  de_memoria :: "byte list"
  mem_modulo :: memoria
  en_espera :: "hilo_mem \<Rightarrow> peticion option"
  tabla_pcb :: "int \<Rightarrow> segmento list"
  enviados :: "(hilo_mem \<times> peticion) list"
  leidos :: "(hilo_mem \<times> peticion \<times> int \<times> segmento list) list"

definition enlace_inicial :: "memoria \<Rightarrow> (int \<Rightarrow> segmento list) \<Rightarrow> enlace" where
  "enlace_inicial m tablas = \<lparr>a_memoria = [], de_memoria = [], mem_modulo = m, en_espera = (\<lambda>_. None),
     tabla_pcb = tablas, enviados = [], leidos = []\<rparr>"

definition pedir :: "commons \<Rightarrow> hilo_mem \<Rightarrow> peticion \<Rightarrow> enlace \<Rightarrow> enlace" where
  "pedir cm h p e = e\<lparr>a_memoria := a_memoria e @ bytes_pedido cm p, enviados := enviados e @ [(h, p)],
     en_espera := (en_espera e)(h := if espera_tabla p then Some p else None)\<rparr>"

definition leer_respuesta :: "hilo_mem \<Rightarrow> peticion \<Rightarrow> enlace \<Rightarrow> enlace res" where
  "leer_respuesta h p e = bind_res (recv_tabla_segmentos (de_memoria e)) (\<lambda>((flag, tabla), resto).
     Inr (e\<lparr>de_memoria := resto, en_espera := (en_espera e)(h := None),
            tabla_pcb := (tabla_pcb e)(PID_de p := tabla), leidos := leidos e @ [(h, p, flag, tabla)]\<rparr>))"

definition servir :: "commons \<Rightarrow> memConfig \<Rightarrow> enlace \<Rightarrow> enlace res option" where
  "servir cm cfg e = map_option (\<lambda>r. bind_res r (\<lambda>(m', resp, resto).
       Inr (e\<lparr>a_memoria := resto, de_memoria := de_memoria e @ resp, mem_modulo := m'\<rparr>)))
     (atender_kernel cm cfg (mem_modulo e) (a_memoria e))"

text \<open>
  With \<open>entero\<close>, a thread would hold the mutex from its request until it has read the answer;
  the code is the case without.
\<close>

inductive enlace_paso :: "commons \<Rightarrow> memConfig \<Rightarrow> bool \<Rightarrow> enlace \<Rightarrow> enlace \<Rightarrow> bool"
  for cm cfg entero where
  pide: "h \<noteq> Fin \<Longrightarrow> en_espera e h = None \<Longrightarrow> entero \<longrightarrow> (\<forall>h'. en_espera e h' = None) \<Longrightarrow> espera_tabla p \<Longrightarrow>
    enlace_paso cm cfg entero e (pedir cm h p e)"
| avisa_fin: "enlace_paso cm cfg entero e (pedir cm Fin (Terminar PID) e)"
| sirve: "a_memoria e \<noteq> [] \<Longrightarrow> servir cm cfg e = Some (Inr e') \<Longrightarrow> enlace_paso cm cfg entero e e'"
| lee: "en_espera e h = Some p \<Longrightarrow> leer_respuesta h p e = Inr e' \<Longrightarrow> enlace_paso cm cfg entero e e'"

inductive enlace_alcanzable :: "commons \<Rightarrow> memConfig \<Rightarrow> bool \<Rightarrow> enlace \<Rightarrow> enlace \<Rightarrow> bool"
  for cm cfg entero e0 where
  enl_inicio: "enlace_alcanzable cm cfg entero e0 e0"
| enl_paso: "enlace_alcanzable cm cfg entero e0 e \<Longrightarrow> enlace_paso cm cfg entero e e' \<Longrightarrow>
    enlace_alcanzable cm cfg entero e0 e'"

section \<open>The requests one after another\<close>

text \<open>
  The reference: the module serves the requests in a sequence, and the answer to a process is
  the flag of the request and the table of that process.
\<close>

definition un_pedido :: "commons \<Rightarrow> memConfig \<Rightarrow> memoria \<Rightarrow> peticion \<Rightarrow> memoria \<times> (int \<times> segmento list) list" where
  "un_pedido cm cfg m p = (case atender cm cfg m p [] of
     Some (Inr (m', r, _)) \<Rightarrow> (m', if espera_tabla p
       then case recibir_operacion r of Inr (flag, _) \<Rightarrow> [(flag, tabla_de m' (string_itoa cm (PID_de p)))] | Inl _ \<Rightarrow> []
       else [])
   | _ \<Rightarrow> (m, []))"

fun en_serie :: "commons \<Rightarrow> memConfig \<Rightarrow> memoria \<Rightarrow> peticion list \<Rightarrow> memoria \<times> (int \<times> segmento list) list" where
  "en_serie cm cfg m [] = (m, [])"
| "en_serie cm cfg m (p # ps) = (case un_pedido cm cfg m p of (m1, xs) \<Rightarrow>
     case en_serie cm cfg m1 ps of (m2, ys) \<Rightarrow> (m2, xs @ ys))"

text \<open>Each request is permitted where it is served.\<close>

fun en_regla :: "commons \<Rightarrow> memConfig \<Rightarrow> memoria \<Rightarrow> peticion list \<Rightarrow> bool" where
  "en_regla cm cfg m [] \<longleftrightarrow> True"
| "en_regla cm cfg m (p # ps) \<longleftrightarrow> permitida cm cfg m p \<and> en_regla cm cfg (fst (un_pedido cm cfg m p)) ps"

lemma en_serie_append:
  "en_serie cm cfg m (ps @ qs) = (fst (en_serie cm cfg (fst (en_serie cm cfg m ps)) qs),
     snd (en_serie cm cfg m ps) @ snd (en_serie cm cfg (fst (en_serie cm cfg m ps)) qs))"
  by (induction ps arbitrary: m) (simp_all add: case_prod_beta)

lemma en_regla_append:
  "en_regla cm cfg m (ps @ qs) \<longleftrightarrow> en_regla cm cfg m ps \<and> en_regla cm cfg (fst (en_serie cm cfg m ps)) qs"
  by (induction ps arbitrary: m) (simp_all add: case_prod_beta)

lemma espera_de_kernel: "espera_tabla p \<Longrightarrow> de_kernel p"
  by (cases p) simp_all

lemma bytes_pedido_atender:
  "de_kernel p \<Longrightarrow> atender_kernel cm cfg m (bytes_pedido cm p @ resto) = atender cm cfg m p resto"
  by (cases p) simp_all

text \<open>A frame: the bytes of one answer, read whole whatever follows them.\<close>

definition trama :: "byte list \<Rightarrow> int \<times> segmento list \<Rightarrow> bool" where
  "trama r x \<longleftrightarrow> (\<forall>resto. recv_tabla_segmentos (r @ resto) = Inr (x, resto))"

text \<open>A configuration the module can run with, and whose tables fit in a packet.\<close>

definition servicio_ok :: "commons \<Rightarrow> memConfig \<Rightarrow> bool" where
  "servicio_ok cm cfg \<longleftrightarrow> commons_ok cm \<and> algoritmo_ok (ALGORITMO_ASIGNACION cfg) \<and> TAM_MEMORIA cfg \<le> 178956969"

lemma trama_tabla:
  assumes "TAM_MEMORIA cfg \<le> 178956969" "mem_ok cfg m" "int32_ok flag"
  shows "trama (send_tabla_segmentos (tabla_de m s) flag) (flag, tabla_de m s)"
  using recv_tabla_ok [OF tabla_de_ok [OF assms(2,1)] assms(3)] by (simp add: trama_def)

lemma responde_tabla:
  assumes a: "\<forall>resto. atender cm cfg m p resto = Some (Inr (m', send_tabla_segmentos (tabla_de m' (string_itoa cm (PID_de p))) flag, resto))"
    and c: "TAM_MEMORIA cfg \<le> 178956969" "mem_ok cfg m'" "int32_ok flag" "espera_tabla p"
  shows "un_pedido cm cfg m p = (m', [(flag, tabla_de m' (string_itoa cm (PID_de p)))])"
    "trama (send_tabla_segmentos (tabla_de m' (string_itoa cm (PID_de p))) flag) (flag, tabla_de m' (string_itoa cm (PID_de p)))"
  using trama_tabla [OF c(1-3)] c(3,4) by (simp_all add: un_pedido_def a send_tabla_bytes)

lemma servido:
  assumes srv: "servicio_ok cm cfg" and ok: "mem_ok cfg m" and p: "permitida cm cfg m p" "de_kernel p"
  obtains m' r xs where "\<forall>resto. atender cm cfg m p resto = Some (Inr (m', r, resto))"
    "un_pedido cm cfg m p = (m', xs)" "mem_ok cfg m'"
    "if espera_tabla p then \<exists>x. xs = [x] \<and> trama r x \<and> snd x = tabla_de m' (string_itoa cm (PID_de p)) else xs = [] \<and> r = []"
proof -
  have cm: "commons_ok cm" and alg: "algoritmo_ok (ALGORITMO_ASIGNACION cfg)" and T: "TAM_MEMORIA cfg \<le> 178956969"
    using srv by (simp_all add: servicio_ok_def)
  show thesis
  proof (cases p)
    case (Crear PID segID tam)
    then have i: "int32_ok PID" "int32_ok segID" "int32_ok tam" using p(1) by simp_all
    obtain m' flag where c: "mem_create_segment cm cfg m (string_itoa cm PID) segID tam
        = Inr (m', send_tabla_segmentos (tabla_de m' (string_itoa cm PID)) flag)" "mem_ok cfg m'" "int32_ok flag"
      by (rule crear_responde [OF cm alg ok p(1) [unfolded Crear]])
    have a: "atender cm cfg m p resto
        = Some (Inr (m', send_tabla_segmentos (tabla_de m' (string_itoa cm (PID_de p))) flag, resto))" for resto
      using c(1) by (simp only: Crear atender_crear [OF i]) simp
    show thesis using responde_tabla [OF allI [OF a] T c(2,3)] by (intro that [OF allI [OF a] _ c(2)]) (auto simp: Crear)
  next
    case (Borrar PID segID)
    then have i: "int32_ok PID" "int32_ok segID" using p(1) by simp_all
    obtain m' where c: "mem_delete_segment m (string_itoa cm PID) segID
        = Inr (m', send_tabla_segmentos (tabla_de m' (string_itoa cm PID)) 0)" "mem_ok cfg m'"
      by (rule borrar_responde [OF ok p(1) [unfolded Borrar]])
    have a: "atender cm cfg m p resto
        = Some (Inr (m', send_tabla_segmentos (tabla_de m' (string_itoa cm (PID_de p))) 0, resto))" for resto
      using c(1) by (simp only: Borrar atender_borrar [OF i]) simp
    show thesis using responde_tabla [OF allI [OF a] T c(2)] by (intro that [OF allI [OF a] _ c(2)]) (auto simp: Borrar)
  next
    case (Terminar PID)
    then have t: "int32_ok PID" "cadena_ok (string_itoa cm PID)" using p(1) by simp_all
    obtain ta where ta: "dictionary_get (diccionario_tablas m) (string_itoa cm PID) = Some ta"
      using p(1) Terminar by (cases "dictionary_get (diccionario_tablas m) (string_itoa cm PID)") simp_all
    obtain m' where m': "mem_exit m (string_itoa cm PID) = Inr m'" "mem_ok cfg m'"
      by (rule mem_exit_ok [OF ok ta], rule that)
    have a: "atender cm cfg m p resto = Some (Inr (m', [], resto))" for resto
      using m'(1) by (simp only: Terminar atender_terminar [OF cm t]) simp
    show thesis by (rule that [OF allI [OF a] _ m'(2), of "[]"]) (simp_all add: un_pedido_def a, simp_all add: Terminar)
  qed (use p(2) in simp_all)
qed

section \<open>The answers come in the order of the requests\<close>

definition en_cola_mem :: "enlace \<Rightarrow> (hilo_mem \<times> peticion) list" where
  "en_cola_mem e = concat (map (\<lambda>h. case en_espera e h of None \<Rightarrow> [] | Some p \<Rightarrow> [(h, p)]) [Largo, Corto, Fin])"

definition quien :: "hilo_mem \<times> peticion \<times> int \<times> segmento list \<Rightarrow> hilo_mem \<times> peticion" where
  "quien l = (fst l, fst (snd l))"

definition respuesta :: "hilo_mem \<times> peticion \<times> int \<times> segmento list \<Rightarrow> int \<times> segmento list" where
  "respuesta l = snd (snd l)"

lemma quien_respuesta_simps [simp]: "quien (h, p, x) = (h, p)" "respuesta (h, p, x) = x"
  by (simp_all add: quien_def respuesta_def)

text \<open>
  \<open>serv\<close> are the requests served, \<open>pend\<close> those on their way; \<open>resp\<close> are the answers on their
  way back, each a frame of \<open>rs\<close>. There is a thread waiting for each of the two.
\<close>

definition enlace_ok ::
    "commons \<Rightarrow> memConfig \<Rightarrow> memoria \<Rightarrow> enlace \<Rightarrow> peticion list \<Rightarrow> peticion list \<Rightarrow> byte list list
     \<Rightarrow> (int \<times> segmento list) list \<Rightarrow> bool" where
  "enlace_ok cm cfg m0 e serv pend rs resp \<longleftrightarrow>
     map snd (enviados e) = serv @ pend \<and> (\<forall>p \<in> set (serv @ pend). de_kernel p) \<and>
     a_memoria e = concat (map (bytes_pedido cm) pend) \<and>
     en_serie cm cfg m0 serv = (mem_modulo e, map respuesta (leidos e) @ resp) \<and>
     de_memoria e = concat rs \<and> list_all2 trama rs resp \<and> mem_ok cfg (mem_modulo e) \<and>
     length (en_cola_mem e) = length (filter espera_tabla pend) + length resp \<and> en_espera e Fin = None"

text \<open>With the mutex held throughout, requests and answers alternate.\<close>

definition por_turnos :: "enlace \<Rightarrow> bool" where
  "por_turnos e \<longleftrightarrow> filter (espera_tabla \<circ> snd) (enviados e) = map quien (leidos e) @ en_cola_mem e \<and> length (en_cola_mem e) \<le> 1"

lemma en_cola_actualiza [simp]:
  "en_cola_mem (e\<lparr>a_memoria := x\<rparr>) = en_cola_mem e" "en_cola_mem (e\<lparr>de_memoria := y\<rparr>) = en_cola_mem e"
  "en_cola_mem (e\<lparr>mem_modulo := m\<rparr>) = en_cola_mem e"
  by (simp_all add: en_cola_mem_def)

lemma en_cola_nadie: "\<forall>h. en_espera e h = None \<Longrightarrow> en_cola_mem e = []"
  by (simp add: en_cola_mem_def)

lemma en_cola_pide:
  assumes "en_espera e h = None" "h \<noteq> Fin" "espera_tabla p"
  shows "length (en_cola_mem (pedir cm h p e)) = Suc (length (en_cola_mem e))"
    "\<forall>h'. en_espera e h' = None \<Longrightarrow> en_cola_mem (pedir cm h p e) = [(h, p)]"
  using assms by (cases h; simp add: en_cola_mem_def pedir_def split: option.splits)+

lemma en_cola_alguien: "en_espera e h = Some p \<Longrightarrow> (h, p) \<in> set (en_cola_mem e)"
  by (cases h) (auto simp: en_cola_mem_def)

lemma en_cola_lee:
  assumes "en_espera e h = Some p" "en_espera e' = (en_espera e)(h := None)"
  shows "length (en_cola_mem e) = Suc (length (en_cola_mem e'))"
  using assms by (cases h) (simp_all add: en_cola_mem_def split: option.splits)

lemma bytes_pedido_no_vacio: "de_kernel p \<Longrightarrow> bytes_pedido cm p \<noteq> []"
  by (cases p) (simp_all add: send_newsegment_petition_def send_deletesegment_petition_def enviar_mensaje_razon_bytes
      enviar_paquete_def serializar_paquete_def wire_simps)

lemma sin_bytes: "\<exists>x. recv_tabla_segmentos [] = Inl x"
  by (simp add: recv_tabla_segmentos_def recibir_operacion_def recibir_buffer_def recv_int_def leer_int_def)

lemma trama_no_vacia: "\<not> trama [] x"
  using sin_bytes unfolding trama_def by (metis append_Nil sum.distinct(1))

lemma enlace_ok_inicio: "mem_ok cfg m0 \<Longrightarrow> enlace_ok cm cfg m0 (enlace_inicial m0 tp) [] [] [] []"
  by (simp add: enlace_ok_def enlace_inicial_def en_cola_mem_def)

lemma enlace_ok_pide:
  assumes ok: "enlace_ok cm cfg m0 e serv pend rs resp" and h: "en_espera e h = None" "h \<noteq> Fin" "espera_tabla p"
  shows "enlace_ok cm cfg m0 (pedir cm h p e) serv (pend @ [p]) rs resp"
proof -
  have "de_kernel p" using h(3) by (rule espera_de_kernel)
  moreover have "length (en_cola_mem (pedir cm h p e)) = Suc (length (en_cola_mem e))" by (rule en_cola_pide [OF h])
  ultimately show ?thesis using ok h(2,3) by (simp add: enlace_ok_def) (simp add: pedir_def)
qed

lemma enlace_ok_fin:
  assumes ok: "enlace_ok cm cfg m0 e serv pend rs resp"
  shows "enlace_ok cm cfg m0 (pedir cm Fin (Terminar PID) e) serv (pend @ [Terminar PID]) rs resp"
  using ok by (auto simp: enlace_ok_def pedir_def en_cola_mem_def)

lemma pendiente:
  assumes ok: "enlace_ok cm cfg m0 e serv pend rs resp" and a: "a_memoria e \<noteq> []"
    and regla: "en_regla cm cfg m0 (map snd (enviados e))"
  obtains p ps where "pend = p # ps" "de_kernel p" "permitida cm cfg (mem_modulo e) p"
    "a_memoria e = bytes_pedido cm p @ concat (map (bytes_pedido cm) ps)"
  using assms by (cases pend) (simp_all add: enlace_ok_def en_regla_append)

lemma enlace_sirve:
  assumes srv: "servicio_ok cm cfg" and ok: "enlace_ok cm cfg m0 e serv pend rs resp" and a: "a_memoria e \<noteq> []"
    and regla: "en_regla cm cfg m0 (map snd (enviados e))"
  obtains e' serv' pend' rs' resp' where "servir cm cfg e = Some (Inr e')" "enlace_ok cm cfg m0 e' serv' pend' rs' resp'"
proof -
  obtain p ps where p: "pend = p # ps" "de_kernel p" "permitida cm cfg (mem_modulo e) p"
    "a_memoria e = bytes_pedido cm p @ concat (map (bytes_pedido cm) ps)"
    by (rule pendiente [OF ok a regla])
  have m: "mem_ok cfg (mem_modulo e)" using ok by (simp add: enlace_ok_def)
  obtain m' r xs where s: "\<forall>resto. atender cm cfg (mem_modulo e) p resto = Some (Inr (m', r, resto))"
    "un_pedido cm cfg (mem_modulo e) p = (m', xs)" "mem_ok cfg m'"
    "if espera_tabla p then \<exists>x. xs = [x] \<and> trama r x \<and> snd x = tabla_de m' (string_itoa cm (PID_de p)) else xs = [] \<and> r = []"
    by (rule servido [OF srv m p(3,2)])
  let ?e = "e\<lparr>a_memoria := concat (map (bytes_pedido cm) ps), de_memoria := de_memoria e @ r, mem_modulo := m'\<rparr>"
  have e': "servir cm cfg e = Some (Inr ?e)" using s(1) by (simp add: servir_def p(4) bytes_pedido_atender [OF p(2)])
  have en: "en_serie cm cfg m0 (serv @ [p]) = (m', map respuesta (leidos e) @ resp @ xs)"
    using ok s(2) by (simp add: enlace_ok_def en_serie_append)
  show thesis
  proof (cases "espera_tabla p")
    case True
    then obtain x where x: "xs = [x]" "trama r x" using s(4) by auto
    have "enlace_ok cm cfg m0 ?e (serv @ [p]) ps (rs @ [r]) (resp @ [x])"
      using ok p(1) en x True s(3) by (simp add: enlace_ok_def list_all2_appendI)
    then show thesis by (rule that [OF e'])
  next
    case False
    then have "enlace_ok cm cfg m0 ?e (serv @ [p]) ps rs resp"
      using ok p(1) en s(3,4) by (simp add: enlace_ok_def)
    then show thesis by (rule that [OF e'])
  qed
qed

lemma enlace_lee:
  assumes ok: "enlace_ok cm cfg m0 e serv pend rs resp" and a: "de_memoria e \<noteq> []" and h: "en_espera e h = Some p"
  obtains e' r rs' x resp' where "leer_respuesta h p e = Inr e'" "rs = r # rs'" "resp = x # resp'"
    "enlace_ok cm cfg m0 e' serv pend rs' resp'" "enviados e' = enviados e" "leidos e' = leidos e @ [(h, p, x)]"
    "en_espera e' = (en_espera e)(h := None)" "tabla_pcb e' = (tabla_pcb e)(PID_de p := snd x)"
proof -
  have l: "list_all2 trama rs resp" and d: "de_memoria e = concat rs" using ok by (simp_all add: enlace_ok_def)
  obtain r rs' x resp' where rs: "rs = r # rs'" "resp = x # resp'" "trama r x" "list_all2 trama rs' resp'"
    using a d l by (cases rs) (auto simp: list_all2_Cons1)
  let ?e = "e\<lparr>de_memoria := concat rs', en_espera := (en_espera e)(h := None),
     tabla_pcb := (tabla_pcb e)(PID_de p := snd x), leidos := leidos e @ [(h, p, x)]\<rparr>"
  have "leer_respuesta h p e = Inr ?e" using rs(3) by (cases x) (simp add: leer_respuesta_def d rs(1) trama_def)
  moreover have "enlace_ok cm cfg m0 ?e serv pend rs' resp'"
    using ok rs en_cola_lee [OF h, of ?e] by (simp add: enlace_ok_def)
  ultimately show thesis using rs(1,2) by (intro that [of ?e]) simp_all
qed

lemma enlace_ok_paso:
  assumes srv: "servicio_ok cm cfg" and ok: "enlace_ok cm cfg m0 e serv pend rs resp"
    and s: "enlace_paso cm cfg entero e e'" and regla: "en_regla cm cfg m0 (map snd (enviados e'))"
  shows "\<exists>serv' pend' rs' resp'. enlace_ok cm cfg m0 e' serv' pend' rs' resp'"
  using s
proof (cases rule: enlace_paso.cases)
  case (pide h p)
  then show ?thesis using enlace_ok_pide [OF ok] by blast
next
  case (avisa_fin PID)
  then show ?thesis using enlace_ok_fin [OF ok] by blast
next
  case sirve
  then have "enviados e' = enviados e" by (auto simp: servir_def bind_res_Inr_iff)
  with regla have r: "en_regla cm cfg m0 (map snd (enviados e))" by simp
  show ?thesis by (rule enlace_sirve [OF srv ok sirve(1) r]) (use sirve(2) in auto)
next
  case (lee h p)
  have "de_memoria e \<noteq> []" using lee(2) sin_bytes by (auto simp: leer_respuesta_def)
  from enlace_lee [OF ok this lee(1)] show ?thesis using lee(2) by (metis sum.inject(2))
qed

lemma enviados_paso: "enlace_paso cm cfg entero e e' \<Longrightarrow> \<exists>es. enviados e' = enviados e @ es"
  by (cases rule: enlace_paso.cases) (auto simp: pedir_def servir_def leer_respuesta_def bind_res_Inr_iff)

lemma enlace_ok_alcanzable:
  assumes "enlace_alcanzable cm cfg entero (enlace_inicial m0 tp) e" "servicio_ok cm cfg" "mem_ok cfg m0"
    and "en_regla cm cfg m0 (map snd (enviados e))"
  shows "\<exists>serv pend rs resp. enlace_ok cm cfg m0 e serv pend rs resp"
  using assms
proof induction
  case enl_inicio
  then show ?case using enlace_ok_inicio by blast
next
  case (enl_paso e e')
  obtain es where es: "enviados e' = enviados e @ es" using enviados_paso [OF enl_paso.hyps(2)] by blast
  then have "en_regla cm cfg m0 (map snd (enviados e))" using enl_paso.prems(3) by (simp add: en_regla_append)
  then show ?case using enl_paso enlace_ok_paso [OF enl_paso.prems(1) _ enl_paso.hyps(2)] by blast
qed

lemma por_turnos_inicio: "por_turnos (enlace_inicial m0 tp)"
  by (simp add: por_turnos_def enlace_inicial_def en_cola_mem_def)

lemma por_turnos_paso:
  assumes s: "enlace_paso cm cfg True e e'" and ok: "por_turnos e" and fin: "en_espera e Fin = None"
  shows "por_turnos e' \<and> en_espera e' Fin = None"
  using s
proof (cases rule: enlace_paso.cases)
  case (pide h p)
  then have n: "\<forall>h'. en_espera e h' = None" by simp
  show ?thesis
    using ok en_cola_nadie [OF n] en_cola_pide(2) [OF pide(3,2,5) n] pide fin
    by (simp add: por_turnos_def) (simp add: pedir_def)
next
  case (avisa_fin PID)
  then show ?thesis using ok fin by (simp add: por_turnos_def pedir_def en_cola_mem_def)
next
  case sirve
  then show ?thesis using ok fin by (auto simp: por_turnos_def servir_def bind_res_Inr_iff)
next
  case (lee h p)
  obtain x where e': "enviados e' = enviados e" "leidos e' = leidos e @ [(h, p, x)]" "en_espera e' = (en_espera e)(h := None)"
    using lee(2) by (auto simp: leer_respuesta_def bind_res_Inr_iff)
  have l: "length (en_cola_mem e) = Suc (length (en_cola_mem e'))" by (rule en_cola_lee [OF lee(1) e'(3)])
  then have "en_cola_mem e' = []" "en_cola_mem e = [(h, p)]"
    using ok en_cola_alguien [OF lee(1)] by (auto simp: por_turnos_def length_Suc_conv)
  then show ?thesis using ok fin by (simp add: por_turnos_def e')
qed

lemma por_turnos_alcanzable:
  assumes "enlace_alcanzable cm cfg True (enlace_inicial m0 tp) e"
  shows "por_turnos e \<and> en_espera e Fin = None"
  using assms
proof induction
  case enl_inicio
  then show ?case using por_turnos_inicio by (simp add: enlace_inicial_def)
qed (use por_turnos_paso in blast)

text \<open>An answer read by a thread that is the table of its own process after its own request.\<close>

definition propia :: "commons \<Rightarrow> memConfig \<Rightarrow> memoria \<Rightarrow> peticion list \<Rightarrow> peticion \<Rightarrow> int \<times> segmento list \<Rightarrow> bool" where
  "propia cm cfg m0 ps p x \<longleftrightarrow> (\<exists>antes luego. ps = antes @ p # luego \<and>
     snd x = tabla_de (fst (en_serie cm cfg m0 (antes @ [p]))) (string_itoa cm (PID_de p)))"

lemma propia_Cons:
  assumes "propia cm cfg (fst (un_pedido cm cfg m q)) ps p x"
  shows "propia cm cfg m (q # ps) p x"
proof -
  obtain antes luego where a: "ps = antes @ p # luego"
    "snd x = tabla_de (fst (en_serie cm cfg (fst (un_pedido cm cfg m q)) (antes @ [p]))) (string_itoa cm (PID_de p))"
    using assms by (auto simp: propia_def)
  show ?thesis unfolding propia_def
    by (rule exI [of _ "q # antes"], rule exI [of _ luego]) (simp add: a case_prod_beta)
qed

lemma propia_append: "propia cm cfg m ps p x \<Longrightarrow> propia cm cfg m (ps @ qs) p x"
  unfolding propia_def by (metis append.assoc append_Cons)

lemma un_pedido_servido:
  assumes "servicio_ok cm cfg" "mem_ok cfg m" "permitida cm cfg m p" "de_kernel p"
  shows "mem_ok cfg (fst (un_pedido cm cfg m p))"
    and "espera_tabla p \<Longrightarrow> \<exists>x. snd (un_pedido cm cfg m p) = [x] \<and> snd x = tabla_de (fst (un_pedido cm cfg m p)) (string_itoa cm (PID_de p))"
    and "\<not> espera_tabla p \<Longrightarrow> snd (un_pedido cm cfg m p) = []"
  by (rule servido [OF assms], force)+

lemma en_serie_propia:
  assumes "servicio_ok cm cfg" "mem_ok cfg m" "en_regla cm cfg m ps" "\<forall>p \<in> set ps. de_kernel p"
  shows "list_all2 (propia cm cfg m ps) (filter espera_tabla ps) (snd (en_serie cm cfg m ps))"
  using assms
proof (induction ps arbitrary: m)
  case (Cons p ps)
  let ?u = "un_pedido cm cfg m p"
  have p: "permitida cm cfg m p" "de_kernel p" using Cons.prems by simp_all
  note u = un_pedido_servido [OF Cons.prems(1,2) p]
  have "list_all2 (propia cm cfg (fst ?u) ps) (filter espera_tabla ps) (snd (en_serie cm cfg (fst ?u) ps))"
    using Cons u(1) by simp
  then have l: "list_all2 (propia cm cfg m (p # ps)) (filter espera_tabla ps) (snd (en_serie cm cfg (fst ?u) ps))"
    by (rule list_all2_mono) (rule propia_Cons)
  show ?case
  proof (cases "espera_tabla p")
    case True
    then obtain x where x: "snd ?u = [x]" "snd x = tabla_de (fst ?u) (string_itoa cm (PID_de p))" using u(2) by blast
    have "propia cm cfg m (p # ps) p x" unfolding propia_def
      by (rule exI [of _ "[]"]) (simp add: x case_prod_beta)
    then show ?thesis using l True x(1) by (simp add: case_prod_beta)
  next
    case False
    then show ?thesis using l u(3) by (simp add: case_prod_beta)
  qed
qed simp

text \<open>A run in which the second thread reads first.\<close>

lemma cruce_posible:
  assumes srv: "servicio_ok cm cfg" and ok: "mem_ok cfg m0" and regla: "en_regla cm cfg m0 [p, q]"
    and pq: "espera_tabla p" "espera_tabla q" "PID_de p \<noteq> PID_de q"
  shows "\<exists>e. enlace_alcanzable cm cfg False (enlace_inicial m0 tablas) e \<and> en_espera e = (\<lambda>_. None) \<and>
    a_memoria e = [] \<and> de_memoria e = [] \<and> enviados e = [(Largo, p), (Corto, q)] \<and> map quien (leidos e) = [(Corto, q), (Largo, p)] \<and>
    mem_modulo e = fst (en_serie cm cfg m0 [p, q]) \<and>
    tabla_pcb e (PID_de p) = tabla_de (mem_modulo e) (string_itoa cm (PID_de q)) \<and>
    tabla_pcb e (PID_de q) = tabla_de (fst (en_serie cm cfg m0 [p])) (string_itoa cm (PID_de p))"
proof -
  have k: "de_kernel p" "de_kernel q" using pq by (simp_all add: espera_de_kernel)
  obtain m1 r1 xs1 where s1: "\<forall>resto. atender cm cfg m0 p resto = Some (Inr (m1, r1, resto))"
    "un_pedido cm cfg m0 p = (m1, xs1)" "mem_ok cfg m1"
    "if espera_tabla p then \<exists>x. xs1 = [x] \<and> trama r1 x \<and> snd x = tabla_de m1 (string_itoa cm (PID_de p)) else xs1 = [] \<and> r1 = []"
    by (rule servido [OF srv ok _ k(1)]) (use regla in simp)
  obtain m2 r2 xs2 where s2: "\<forall>resto. atender cm cfg m1 q resto = Some (Inr (m2, r2, resto))"
    "un_pedido cm cfg m1 q = (m2, xs2)" "mem_ok cfg m2"
    "if espera_tabla q then \<exists>x. xs2 = [x] \<and> trama r2 x \<and> snd x = tabla_de m2 (string_itoa cm (PID_de q)) else xs2 = [] \<and> r2 = []"
    by (rule servido [OF srv s1(3) _ k(2)]) (use regla s1(2) in simp)
  obtain x y where x: "trama r1 x" "snd x = tabla_de m1 (string_itoa cm (PID_de p))"
    and y: "trama r2 y" "snd y = tabla_de m2 (string_itoa cm (PID_de q))"
    using s1(4) s2(4) pq by auto
  define e0 where "e0 = enlace_inicial m0 tablas"
  define e2 where "e2 = pedir cm Corto q (pedir cm Largo p e0)"
  define e4 where "e4 = e2\<lparr>a_memoria := [], de_memoria := r1 @ r2, mem_modulo := m2\<rparr>"
  define e6 where "e6 = e4\<lparr>de_memoria := [], en_espera := (\<lambda>_. None), leidos := [(Corto, q, x), (Largo, p, y)],
     tabla_pcb := (tablas(PID_de q := snd x))(PID_de p := snd y)\<rparr>"
  let ?paso = "enlace_paso cm cfg False"
  have p0: "enlace_alcanzable cm cfg False e0 e0" by (rule enl_inicio)
  have p1: "?paso e0 (pedir cm Largo p e0)" by (rule pide) (simp_all add: e0_def enlace_inicial_def pq)
  have p2: "?paso (pedir cm Largo p e0) e2"
    unfolding e2_def by (rule pide) (simp_all add: e0_def enlace_inicial_def pedir_def pq)
  let ?e3 = "e2\<lparr>a_memoria := bytes_pedido cm q, de_memoria := r1, mem_modulo := m1\<rparr>"
  have p3: "?paso e2 ?e3"
    by (rule sirve) (simp_all add: e2_def e0_def enlace_inicial_def pedir_def servir_def s1(1)
        bytes_pedido_atender [OF k(1)] bytes_pedido_no_vacio [OF k(1)])
  have p4: "?paso ?e3 e4"
    using bytes_pedido_atender [OF k(2), of cm cfg m1 "[]"]
    by (intro sirve) (simp_all add: e4_def e2_def e0_def enlace_inicial_def pedir_def servir_def s2(1)
        bytes_pedido_no_vacio [OF k(2)])
  let ?e5 = "e4\<lparr>de_memoria := r2, en_espera := (\<lambda>_. None)(Largo := Some p), leidos := [(Corto, q, x)],
     tabla_pcb := tablas(PID_de q := snd x)\<rparr>"
  have p5: "?paso e4 ?e5"
    using x(1) by (intro lee [of _ Corto q]) (simp_all add: case_prod_beta e4_def e2_def e0_def enlace_inicial_def pedir_def
        leer_respuesta_def trama_def pq fun_eq_iff)
  have p6: "?paso ?e5 e6"
    using y(1) [unfolded trama_def, rule_format, of "[]"]
    by (intro lee [of _ Largo p]) (simp_all add: case_prod_beta e6_def e4_def e2_def e0_def enlace_inicial_def pedir_def
        leer_respuesta_def pq fun_eq_iff)
  have "enlace_alcanzable cm cfg False e0 e6"
    by (rule enl_paso [OF enl_paso [OF enl_paso [OF enl_paso [OF enl_paso [OF enl_paso [OF p0 p1] p2] p3] p4] p5] p6])
  then show ?thesis
    by (intro exI [of _ e6]) (simp add: e6_def e4_def e2_def e0_def enlace_inicial_def pedir_def s1(2) s2(2) x(2) y(2) pq(3) [symmetric])
qed

text \<open>A new process, 8, and a creation for process 7 of the small memory.\<close>

abbreviation cruce :: "peticion list" where
  "cruce \<equiv> [Crear 8 0 0, Crear 7 2 4]"

lemma cruce_en_serie:
  "en_regla commons_ej cfg_ej (mem_ej 10) cruce"
  "tabla_de (fst (en_serie commons_ej cfg_ej (mem_ej 10) [Crear 8 0 0])) (string_itoa commons_ej 8)
    = [\<lparr>seg_ID = 0, seg_base = 0, seg_limite = 8\<rparr>]"
  "tabla_de (fst (en_serie commons_ej cfg_ej (mem_ej 10) cruce)) (string_itoa commons_ej 7)
    = [\<lparr>seg_ID = 0, seg_base = 0, seg_limite = 8\<rparr>, \<lparr>seg_ID = 1, seg_base = 12, seg_limite = 10\<rparr>,
       \<lparr>seg_ID = 2, seg_base = 8, seg_limite = 4\<rparr>]"
  by code_simp+

lemma mem_ej_10: "mem_ok cfg_ej (mem_ej 10)"
  by (rule mem_ej_ok) simp_all

lemma servicio_ej: "servicio_ok commons_ej cfg_ej"
  using commons_ej_ok cfg_ej_ok by (simp add: servicio_ok_def)

text \<open>
  C27. The answers of the memory module reach the kernel in the order of the requests that wait
  for a table, whichever threads sent them and whichever read them. A thread that waits has its
  request or an answer on the socket, the module can serve what it is sent, and a thread that
  waits can read what is sent back. If the mutex were held from the request to its answer, each
  thread would read the table of the process it asked for.
\<close>

theorem respuestas_en_orden:
  assumes srv: "servicio_ok cm cfg" and ok: "mem_ok cfg m0"
    and a: "enlace_alcanzable cm cfg entero (enlace_inicial m0 tablas) e"
    and regla: "en_regla cm cfg m0 (map snd (enviados e))"
  shows "map respuesta (leidos e) = take (length (leidos e)) (snd (en_serie cm cfg m0 (map snd (enviados e)))) \<and>
    (en_espera e h = Some p \<longrightarrow> a_memoria e \<noteq> [] \<or> de_memoria e \<noteq> []) \<and>
    (a_memoria e \<noteq> [] \<longrightarrow> (\<exists>e'. servir cm cfg e = Some (Inr e'))) \<and>
    (en_espera e h = Some p \<and> de_memoria e \<noteq> [] \<longrightarrow> (\<exists>e'. leer_respuesta h p e = Inr e')) \<and>
    (entero \<longrightarrow> (\<forall>l \<in> set (leidos e). propia cm cfg m0 (map snd (enviados e)) (snd (quien l)) (respuesta l)))"
proof -
  let ?ps = "map snd (enviados e)"
  obtain serv pend rs resp where i: "enlace_ok cm cfg m0 e serv pend rs resp"
    using enlace_ok_alcanzable [OF a srv ok regla] by blast
  have ps: "?ps = serv @ pend" "\<forall>p \<in> set ?ps. de_kernel p" and en: "snd (en_serie cm cfg m0 serv) = map respuesta (leidos e) @ resp"
    and m: "length (en_cola_mem e) = length (filter espera_tabla pend) + length resp"
    and d: "a_memoria e = concat (map (bytes_pedido cm) pend)" "de_memoria e = concat rs" "list_all2 trama rs resp"
    using i by (simp_all add: enlace_ok_def)
  have todos: "snd (en_serie cm cfg m0 ?ps) = map respuesta (leidos e) @ resp @ snd (en_serie cm cfg (fst (en_serie cm cfg m0 serv)) pend)"
    by (simp add: ps(1) en_serie_append en)
  have "a_memoria e \<noteq> [] \<or> de_memoria e \<noteq> []" if h: "en_espera e h = Some p"
  proof (cases "filter espera_tabla pend")
    case Nil
    then have "resp \<noteq> []" using m en_cola_alguien [OF h] by auto
    then show ?thesis using d(2,3) trama_no_vacia by (cases rs; cases resp) auto
  next
    case (Cons q qs)
    then have "q \<in> set pend" by (metis filter_is_subset list.set_intros(1) subsetD)
    then show ?thesis using ps bytes_pedido_no_vacio [of q cm] by (auto simp: d(1))
  qed
  moreover have "map respuesta (leidos e) = take (length (leidos e)) (snd (en_serie cm cfg m0 ?ps))"
    by (simp add: todos)
  moreover have "\<forall>l \<in> set (leidos e). propia cm cfg m0 ?ps (snd (quien l)) (respuesta l)" if "entero"
  proof -
    have t: "filter (espera_tabla \<circ> snd) (enviados e) = map quien (leidos e) @ en_cola_mem e"
      using por_turnos_alcanzable a that by (simp add: por_turnos_def)
    have "filter espera_tabla ?ps = map (snd \<circ> quien) (leidos e) @ map snd (en_cola_mem e)"
      by (simp add: filter_map t)
    then have "list_all2 (propia cm cfg m0 ?ps) (map (snd \<circ> quien) (leidos e)) (map respuesta (leidos e))"
      using en_serie_propia [OF srv ok regla ps(2)] by (simp add: todos list_all2_append)
    then show ?thesis by (simp add: list_all2_conv_all_nth) (metis in_set_conv_nth)
  qed
  ultimately show ?thesis using enlace_sirve [OF srv i _ regla] enlace_lee [OF i] by metis
qed

theorem respuestas_en_orden_witness:
  "\<exists>e. enlace_alcanzable commons_ej cfg_ej False (enlace_inicial (mem_ej 10) (\<lambda>_. [])) e \<and>
    map quien (leidos e) = [(Corto, Crear 7 2 4), (Largo, Crear 8 0 0)] \<and>
    map respuesta (leidos e) = snd (en_serie commons_ej cfg_ej (mem_ej 10) cruce)"
proof -
  obtain e where e: "enlace_alcanzable commons_ej cfg_ej False (enlace_inicial (mem_ej 10) (\<lambda>_. [])) e"
    "enviados e = [(Largo, Crear 8 0 0), (Corto, Crear 7 2 4)]" "map quien (leidos e) = [(Corto, Crear 7 2 4), (Largo, Crear 8 0 0)]"
    using cruce_posible [OF servicio_ej mem_ej_10 cruce_en_serie(1), of "\<lambda>_. []"] by auto
  have ps: "map snd (enviados e) = cruce" by (simp add: e(2))
  have "length (leidos e) = 2" using arg_cong [OF e(3), of length] by simp
  moreover have "length (snd (en_serie commons_ej cfg_ej (mem_ej 10) cruce)) = 2" by code_simp
  moreover have "map respuesta (leidos e) = take (length (leidos e)) (snd (en_serie commons_ej cfg_ej (mem_ej 10) cruce))"
    using respuestas_en_orden [OF servicio_ej mem_ej_10 e(1), THEN conjunct1, unfolded ps, OF cruce_en_serie(1)] .
  ultimately have "map respuesta (leidos e) = snd (en_serie commons_ej cfg_ej (mem_ej 10) cruce)"
    by (simp only: take_all order_refl)
  with e(1,3) show ?thesis by (intro exI [of _ e] conjI)
qed

text \<open>
  C28. As the code releases the mutex in between, two threads that ask for the tables of two
  processes can read each other's answer: then each PCB keeps the table of the other process,
  with both requests served and nothing left on the socket.
\<close>

theorem respuestas_cruzadas:
  assumes srv: "servicio_ok cm cfg" and ok: "mem_ok cfg m0" and regla: "en_regla cm cfg m0 [p, q]"
    and pq: "espera_tabla p" "espera_tabla q" "PID_de p \<noteq> PID_de q"
  shows "\<exists>e. enlace_alcanzable cm cfg False (enlace_inicial m0 tablas) e \<and> en_espera e = (\<lambda>_. None) \<and>
    a_memoria e = [] \<and> de_memoria e = [] \<and> enviados e = [(Largo, p), (Corto, q)] \<and> map quien (leidos e) = [(Corto, q), (Largo, p)] \<and>
    mem_modulo e = fst (en_serie cm cfg m0 [p, q]) \<and>
    tabla_pcb e (PID_de p) = tabla_de (mem_modulo e) (string_itoa cm (PID_de q)) \<and>
    tabla_pcb e (PID_de q) = tabla_de (fst (en_serie cm cfg m0 [p])) (string_itoa cm (PID_de p))"
  by (rule cruce_posible [OF assms])

text \<open>Process 8 gets the segments of process 7, and process 7 loses them.\<close>

theorem respuestas_cruzadas_witness:
  "\<exists>e. enlace_alcanzable commons_ej cfg_ej False (enlace_inicial (mem_ej 10) (\<lambda>_. [])) e \<and> en_espera e = (\<lambda>_. None) \<and>
    tabla_pcb e 7 = [\<lparr>seg_ID = 0, seg_base = 0, seg_limite = 8\<rparr>] \<and>
    tabla_pcb e 8 = [\<lparr>seg_ID = 0, seg_base = 0, seg_limite = 8\<rparr>, \<lparr>seg_ID = 1, seg_base = 12, seg_limite = 10\<rparr>,
       \<lparr>seg_ID = 2, seg_base = 8, seg_limite = 4\<rparr>]"
  using respuestas_cruzadas [OF servicio_ej mem_ej_10 cruce_en_serie(1), of "\<lambda>_. []"]
  by (simp del: en_serie.simps) (metis PID_de.simps(1) cruce_en_serie(2,3))

end
