(* ===== verification/Ker_Claves.thy ===== *)
theory Ker_Claves
  imports Ker_Segmentos
begin

text \<open>
  The kernel and the memory module agree on which processes there are: in every reachable state
  the processes with a table in the memory module are those the kernel has admitted. With the
  invariants of the queues, the resources and the open files this gives progress: the long-term
  scheduler, the short-term one and the thread that ends processes never fail in a reachable
  state whose memory is well formed.
\<close>

section \<open>The processes with a table\<close>

definition claves :: "memoria \<Rightarrow> string list" where
  "claves m = map fst (diccionario_tablas m)"

lemma clave_get: "P \<in> set (claves m) \<longleftrightarrow> dictionary_get (diccionario_tablas m) P \<noteq> None"
  by (simp add: claves_def dictionary_get_def map_of_eq_None_iff)

lemma claves_create:
  assumes "mem_create_segment cm cfg m P i t = Inr (m', r)"
  shows "claves m' = (if P \<in> set (claves m) then claves m else claves m @ [P])"
proof (cases "dictionary_get (diccionario_tablas m) P")
  case None
  then have "P \<notin> set (claves m)" by (simp add: clave_get)
  then show ?thesis using assms None
    by (auto simp: mem_create_segment_def bind_res_Inr_iff claves_def dictionary_put_new)
next
  case (Some x)
  then show ?thesis using mem_create_claves [OF assms Some] by (simp add: clave_get) (simp add: claves_def)
qed

lemma claves_delete: "mem_delete_segment m P i = Inr (m', r) \<Longrightarrow> claves m' = claves m"
  by (auto simp: mem_delete_segment_def bind_res_Inr_iff claves_def claves_put split: option.splits)

lemma claves_liberar: "liberar_segmentos m as = Inr m' \<Longrightarrow> claves m' = claves m"
  by (induction as arbitrary: m) (auto simp: bind_res_Inr_iff liberar_segmento_def claves_def)

lemma claves_exit: "mem_exit m P = Inr m' \<Longrightarrow> claves m' = filter (\<lambda>x. x \<noteq> P) (claves m)"
  by (auto simp: mem_exit_def claves_remove claves_def dest!: claves_liberar split: option.splits)

lemma claves_bucle:
  assumes "compactar_bucle cm tg m = Some r"
  shows "\<forall>m'. r = Inr m' \<longrightarrow> claves m' = claves m"
proof -
  have p: "claves m1 = claves m" if "compactar_paso cm tg m = Inr (Some m1)" for m m1
    using that by (auto simp: compactar_paso_def bind_res_Inr_iff Let_def realloc_segment_def claves_def split: if_splits)
  show ?thesis
    by (rule compactar_bucle.raw_induct [OF _ assms, where P = "\<lambda>cm' tg' m r. cm' = cm \<and> tg' = tg \<longrightarrow> (\<forall>m'. r = Inr m' \<longrightarrow> claves m' = claves m)",
        THEN mp]) (use p in \<open>fastforce split: sum.splits option.splits\<close>)+
qed

lemma claves_compactar: "compactar_segmentos cm m = Some (Inr (m', bs)) \<Longrightarrow> claves m' = claves m"
  using claves_bucle by (fastforce simp: compactar_segmentos_def bind_res_Inr_iff)

text \<open>Each request of the kernel, as the memory module reads it.\<close>

lemma pide_crear:
  assumes "atender_kernel cm cfg m (send_newsegment_petition p i t) = Some (Inr (m', r, s))" "int32_ok p"
  shows "\<exists>i' t'. mem_create_segment cm cfg m (string_itoa cm p) i' t' = Inr (m', r)"
proof -
  let ?b = "enc_int p @ enc_int i @ enc_int t"
  have b: "send_newsegment_petition p i t = enc_int (op_num CREATE_SEGMENT) @ enc_int 12 @ ?b"
    by (simp add: send_newsegment_petition_def enviar_paquete_def wire_simps) (simp add: crear_paquete_contexto_def)
  have "recibir_buffer (enc_int 12 @ ?b) = Inr (?b, [])" using recibir_buffer_enc [of ?b "[]"] by (simp add: int32_ok_def)
  then show ?thesis using assms by (auto simp: b atender_kernel_def recv_newsegment_petition_def bind_res_Inr_iff simp del: op_num.simps)
qed

lemma pide_borrar:
  assumes "atender_kernel cm cfg m (send_deletesegment_petition p i) = Some (Inr (m', r, s))" "int32_ok p"
  shows "\<exists>i'. mem_delete_segment m (string_itoa cm p) i' = Inr (m', r)"
proof -
  let ?b = "enc_int p @ enc_int i"
  have b: "send_deletesegment_petition p i = enc_int (op_num DELETE_SEGMENT) @ enc_int 8 @ ?b"
    by (simp add: send_deletesegment_petition_def enviar_paquete_def wire_simps) (simp add: crear_paquete_contexto_def)
  have "recibir_buffer (enc_int 8 @ ?b) = Inr (?b, [])" using recibir_buffer_enc [of ?b "[]"] by (simp add: int32_ok_def)
  then show ?thesis using assms by (auto simp: b atender_kernel_def recv_deletesegment_petition_def bind_res_Inr_iff simp del: op_num.simps)
qed

lemma claves_usuario: "atender_usuario lee escribe m s = Inr (m', r, s') \<Longrightarrow> claves m' = claves m"
  by (auto simp: atender_usuario_def mem_escribir_def bind_res_Inr_iff claves_def simp del: op_num.simps split: if_splits)

lemma claves_filesystem: "atender_filesystem m s = Inr (m', r, s') \<Longrightarrow> claves m' = claves m"
  unfolding atender_filesystem_def by (rule claves_usuario)

lemma claves_fs: "fs_atender cm cfg fs m s = Inr (fs', m', r, s') \<Longrightarrow> claves m' = claves m"
  by (auto simp: fs_atender_def leerArchivo_def escribirArchivo_def bind_res_Inr_iff
      simp del: op_num.simps split: if_splits option.splits dest: claves_filesystem)

section \<open>The threads keep the agreement\<close>

definition con_tabla :: "commons \<Rightarrow> kernel \<Rightarrow> bool" where
  "con_tabla cm k \<longleftrightarrow> (\<forall>p \<in> set (map fst (pcbs k)). int32_ok p) \<and>
     mset (claves (memoria_mod k)) = mset (map (string_itoa cm) (global_PCB_list k))"

interpretation marco_claves: contrato_archivos "\<lambda>_ k k'. claves (memoria_mod k') = claves (memoria_mod k)"
  by unfold_locales (auto simp: cambiar_pcb_def pedir_fs_def bind_res_Inr_iff ready_al_final_def ready_al_inicio_def dest: claves_fs)

lemma con_tabla_igual:
  "con_tabla cm k \<Longrightarrow> mueve M k k' \<Longrightarrow> claves (memoria_mod k') = claves (memoria_mod k) \<Longrightarrow> con_tabla cm k'"
  by (simp add: con_tabla_def mueve_def del: set_map)

lemma claves_cambiar: "cambiar_pcb p f k = Inr k' \<Longrightarrow> memoria_mod k' = memoria_mod k"
  by (auto simp: cambiar_pcb_def bind_res_Inr_iff)

lemma claves_tabla:
  assumes "pedir_tabla cm mcfg (send_newsegment_petition p i t) p k = Some (Inr (k', flag))" "int32_ok p"
  shows "claves (memoria_mod k') = (if string_itoa cm p \<in> set (claves (memoria_mod k)) then claves (memoria_mod k)
    else claves (memoria_mod k) @ [string_itoa cm p])"
  using assms claves_create
  by (fastforce simp: pedir_tabla_def pedir_memoria_def map_res_Some bind_res_Inr_iff dest!: pide_crear claves_cambiar)

lemma claves_delete_segment:
  assumes "ker_delete_segment cm mcfg p i k = Some (Inr k')" "int32_ok p"
  shows "claves (memoria_mod k') = claves (memoria_mod k)"
  using assms claves_delete
  by (fastforce simp: ker_delete_segment_def pedir_tabla_def pedir_memoria_def map_res_Some bind_res_Inr_iff
      dest!: pide_borrar claves_cambiar)

lemma claves_compactar_memoria:
  assumes "compactar_memoria cm mcfg k = Some (Inr k')"
  shows "claves (memoria_mod k') = claves (memoria_mod k)"
proof -
  obtain k1 resp where k1: "pedir_memoria cm mcfg (enviar_int (op_num COMPACTION)) k = Some (Inr (k1, resp))"
    "recibir_tablas_compactadas resp k1 = Inr k'"
    using assms by (auto simp: compactar_memoria_def map_res_Some)
  have "claves (memoria_mod k1) = claves (memoria_mod k)"
    using k1(1) atender_compactar [of cm mcfg "memoria_mod k" "[]"] claves_compactar
    by (fastforce simp: pedir_memoria_def bind_res_Inr_iff simp del: op_num.simps)
  then show ?thesis using k1(2) marco_claves.tablas by (auto simp: recibir_tablas_compactadas_def bind_res_Inr_iff)
qed

lemma claves_create_segment:
  assumes "ker_create_segment cm mcfg p i t k = Some (Inr k')" "int32_ok p" "string_itoa cm p \<in> set (claves (memoria_mod k))"
  shows "claves (memoria_mod k') = claves (memoria_mod k)"
proof -
  let ?P = "\<lambda>cm (mcfg :: memConfig) p (i :: int) (t :: int) k (r :: kernel res). \<forall>k'. r = Inr k' \<and> int32_ok p \<and> string_itoa cm p \<in> set (claves (memoria_mod k)) \<longrightarrow>
    claves (memoria_mod k') = claves (memoria_mod k)"
  have "?P cm mcfg p i t k (Inr k')"
    using assms(1)
  proof (rule ker_create_segment.raw_induct [where P = ?P, rotated], goal_cases)
    case (1 F cm mcfg p i t k r)
    show ?case
    proof (intro allI impI, elim conjE)
      fix k' assume r: "r = Inr k'" and p: "int32_ok p" "string_itoa cm p \<in> set (claves (memoria_mod k))"
      note c = claves_tabla [OF _ p(1)]
      from 1(2) [unfolded r] show "claves (memoria_mod k') = claves (memoria_mod k)"
      proof (cases rule: create_segment_casos)
        case (listo k1)
        then show ?thesis using c [OF listo(1)] p(2) by (simp add: marco_claves.ready)
      next
        case (sin_memoria k1)
        then show ?thesis using c [OF sin_memoria(1)] p(2) by (simp add: marco_claves.error)
      next
        case (espera k1)
        then show ?thesis using c [OF espera(1)] p(2) by simp
      next
        case (compacta k1 k3)
        have "claves (memoria_mod k3) = claves (memoria_mod k)"
          using c [OF compacta(1)] p(2) claves_compactar_memoria [OF compacta(2)] marco_claves.pide [of k1] by simp
        then show ?thesis using 1(1) [OF compacta(3)] p by simp
      qed
    qed
  qed
  then show ?thesis using assms(2,3) by blast
qed

text \<open>A process that is not new is in the global list.\<close>

lemma en_global:
  assumes i: "ker_inv grado k" and p: "lugares k = add_mset p M" and n: "mset (consolasNew k) \<subseteq># M"
  shows "p \<in> set (global_PCB_list k)" "p \<in> set (map fst (pcbs k))"
proof -
  have d: "distinct (map fst (pcbs k))" using ker_invD(2) [OF i] by (simp add: dict_ok_def)
  have l: "mset (map fst (pcbs k)) = add_mset p M" using ker_invD(3) [OF i] p by simp
  then show "p \<in> set (map fst (pcbs k))" by (metis set_mset_mset union_single_eq_member)
  have "p \<notin># M" by (rule una_vez [OF d l])
  then have "p \<notin> set (consolasNew k)" using n mset_subset_eqD by fastforce
  then show "p \<in> set (global_PCB_list k)"
    using ker_invD(4) [OF i] l by (metis set_mset_mset union_iff union_single_eq_member)
qed

lemma en_global_hilo:
  "ker_inv grado k \<Longrightarrow> running k = En_cpu p \<Longrightarrow> p \<in> set (global_PCB_list k) \<and> p \<in> set (map fst (pcbs k))"
  "ker_inv grado k \<Longrightarrow> running k = Esperando_permiso p i t \<Longrightarrow> p \<in> set (global_PCB_list k) \<and> p \<in> set (map fst (pcbs k))"
  using en_global [of grado k p "lugares (k\<lparr>running := Libre\<rparr>)"] by (simp_all add: lugares_def)

lemma en_global_exit:
  "ker_inv grado k \<Longrightarrow> consolasExit k = p # ps \<Longrightarrow> p \<in> set (global_PCB_list k) \<and> p \<in> set (map fst (pcbs k))"
  using en_global [of grado k p "lugares (k\<lparr>consolasExit := ps\<rparr>)"] by (simp add: lugares_def)

lemma nuevo_no_global:
  assumes i: "ker_inv grado k" and n: "consolasNew k = p # ps"
  shows "p \<notin> set (global_PCB_list k)" "p \<in> set (map fst (pcbs k))"
proof -
  have d: "distinct (map fst (pcbs k))" using ker_invD(2) [OF i] by (simp add: dict_ok_def)
  have l: "mset (map fst (pcbs k)) = add_mset p (mset (global_PCB_list k) + mset ps)" using ker_invD(4) [OF i] n by simp
  then show "p \<in> set (map fst (pcbs k))" by (metis set_mset_mset union_single_eq_member)
  show "p \<notin> set (global_PCB_list k)" using una_vez [OF d l] by simp
qed

lemma global_pcbs:
  assumes "ker_inv grado k"
  shows "set (global_PCB_list k) \<subseteq> set (map fst (pcbs k))"
proof -
  have "mset (map fst (pcbs k)) = mset (global_PCB_list k @ consolasNew k)" using ker_invD(4) [OF assms] by simp
  from mset_eq_setD [OF this] show ?thesis by auto
qed

lemma con_tabla_claves: "con_tabla cm k \<Longrightarrow> set (claves (memoria_mod k)) = string_itoa cm ` set (global_PCB_list k)"
  unfolding con_tabla_def by (metis list.set_map mset_eq_setD)

lemma con_tabla_clave:
  assumes "con_tabla cm k" "p \<in> set (global_PCB_list k)"
  shows "string_itoa cm p \<in> set (claves (memoria_mod k))"
  using con_tabla_claves [OF assms(1)] assms(2) by simp

lemma memoria_recursos:
  "wait_recurso_lista cm r p k = Inr k' \<Longrightarrow> memoria_mod k' = memoria_mod k"
  "signal_recurso_lista cm r p k = Inr k' \<Longrightarrow> memoria_mod k' = memoria_mod k"
  "liberarRecursosDelProceso P k = Inr k' \<Longrightarrow> memoria_mod k' = memoria_mod k"
proof -
  have l: "liberar_recurso_y_actualizar_ready r k = Inr k' \<Longrightarrow> memoria_mod k' = memoria_mod k" for r k k'
    by (auto simp: liberar_recurso_y_actualizar_ready_def ready_al_final_def split: option.splits list.splits)
  have ls: "liberar_recursos rs k = Inr k' \<Longrightarrow> memoria_mod k' = memoria_mod k" for rs k k'
    by (induction rs arbitrary: k) (auto simp: bind_res_Inr_iff dest!: l)
  show "wait_recurso_lista cm r p k = Inr k' \<Longrightarrow> memoria_mod k' = memoria_mod k"
    by (auto simp: wait_recurso_lista_def registrarRecursosDelProceso_def bind_res_Inr_iff finalizar_con_error_def
        enviar_consola_def ready_al_inicio_def Let_def split: option.splits if_splits)
  show "signal_recurso_lista cm r p k = Inr k' \<Longrightarrow> memoria_mod k' = memoria_mod k"
    by (auto simp: signal_recurso_lista_def quitarRecursoDelProceso_def bind_res_Inr_iff finalizar_con_error_def
        enviar_consola_def ready_al_inicio_def Let_def dest!: l split: option.splits if_splits)
  show "liberarRecursosDelProceso P k = Inr k' \<Longrightarrow> memoria_mod k' = memoria_mod k"
    by (auto simp: liberarRecursosDelProceso_def bind_res_Inr_iff simp del: liberar_recursos.simps
        dest!: ls split: option.splits list.splits)
qed

lemma claves_readOp:
  assumes r: "readOp cm mcfg cod p ps k = Some (Inr k')" and p: "int32_ok p" "string_itoa cm p \<in> set (claves (memoria_mod k))"
  shows "claves (memoria_mod k') = claves (memoria_mod k)"
  using r
proof (cases rule: readOp_casos)
  case (crear i t)
  then show ?thesis using claves_create_segment p by blast
next
  case (borrar i k1)
  then show ?thesis using claves_delete_segment p(1) by (simp add: marco_claves.ready)
next
  case (error m)
  then show ?thesis by (simp add: marco_claves.error)
next
  case yield
  then show ?thesis by (simp add: marco_claves.ready)
qed (auto simp: memoria_recursos recieves_filesystem_petition_def ker_i_o_def Let_def)

section \<open>Every reachable state\<close>

definition claves_inv :: "commons \<Rightarrow> nat \<Rightarrow> kernel \<Rightarrow> bool" where
  "claves_inv cm grado k \<longleftrightarrow> ker_inv grado k \<and> (commons_ok cm \<longrightarrow> con_tabla cm k)"

lemma claves_consola:
  assumes i: "con_tabla cm k" and p: "int32_ok p" and g: "gestionarNuevasConexiones p s k = Inr k'"
  shows "con_tabla cm k'"
  using g
proof (cases rule: conexion_casos)
  case (programa bs b)
  have "set (map fst (dictionary_put (pcbs k) p b)) \<subseteq> insert p (set (map fst (pcbs k)))"
    using set_dictionary_put [of "pcbs k" p b] by force
  then show ?thesis using i p by (auto simp: programa con_tabla_def enviar_consola_def simp del: set_map)
qed (use i in \<open>simp_all add: con_tabla_def enviar_consola_def\<close>)

lemma claves_admitir:
  assumes i: "ker_inv grado k" and t: "con_tabla cm k" and cm: "commons_ok cm"
    and g: "gestionadorReady cm mcfg k = Some (Inr k')"
  shows "con_tabla cm k'"
proof -
  obtain p ps where n: "consolasNew k = p # ps" using g by (cases "consolasNew k") (auto simp: gestionadorReady_def)
  let ?k0 = "k\<lparr>consolasNew := ps, hayEspacioReady := hayEspacioReady k - 1\<rparr>"
  obtain k1 flag where k1: "pedir_tabla cm mcfg (send_newsegment_petition p 0 0) p ?k0 = Some (Inr (k1, flag))"
    and k': "k' = (ready_al_final p k1)\<lparr>global_PCB_list := global_PCB_list k1 @ [p]\<rparr>"
    using g n by (auto simp: gestionadorReady_def pedirTablaSegmentosInicial_def map_res_Some Let_def ready_al_final_def)
  have m: "map fst (pcbs k1) = map fst (pcbs k)" "global_PCB_list k1 = global_PCB_list k"
    using mueve_pedir_tabla(1) [OF k1] by (simp_all add: mueve_def)
  have nuevo: "p \<notin> set (global_PCB_list k)" "p \<in> set (map fst (pcbs k))" by (rule nuevo_no_global [OF i n])+
  have i32: "int32_ok q" if "q \<in> insert p (set (global_PCB_list k))" for q
    using that nuevo(2) t global_pcbs [OF i] unfolding con_tabla_def by blast
  have "string_itoa cm p \<notin> set (claves (memoria_mod k))"
  proof
    assume "string_itoa cm p \<in> set (claves (memoria_mod k))"
    then obtain q where "q \<in> set (global_PCB_list k)" "string_itoa cm p = string_itoa cm q"
      using con_tabla_claves [OF t] by auto
    then show False using string_itoa_inj [OF cm, of p q] i32 nuevo(1) by auto
  qed
  then have "claves (memoria_mod k1) = claves (memoria_mod k) @ [string_itoa cm p]"
    using claves_tabla [OF k1] i32 [of p] by simp
  then show ?thesis using t m unfolding k' con_tabla_def by (simp add: ready_al_final_def del: set_map)
qed

lemma claves_volver:
  assumes i: "ker_inv grado k" and t: "con_tabla cm k" and r: "running k = En_cpu p"
    and v: "fifo_volver cm mcfg p s k = Some (Inr k')"
  shows "con_tabla cm k'"
proof -
  obtain cod ps k1 where k1: "recibir_PCB cm p s (k\<lparr>running := Libre\<rparr>) = Inr (cod, ps, k1)" "readOp cm mcfg cod p ps k1 = Some (Inr k')"
    using v by (cases "recibir_PCB cm p s (k\<lparr>running := Libre\<rparr>)") (auto simp: fifo_volver_def)
  have c: "claves (memoria_mod k1) = claves (memoria_mod k)" using marco_claves.recibir [OF k1(1)] by simp
  note g = en_global_hilo(1) [OF i r]
  have "mueve {#p#} k1 k'" using k1(2) by (rule mueve_readOp) (simp add: recibir_PCB_mueve(2) [OF k1(1)])
  then have m: "mueve {#p#} (k\<lparr>running := Libre\<rparr>) k'" by (rule mueve_luego [OF recibir_PCB_mueve(1) [OF k1(1)]])
  have "claves (memoria_mod k') = claves (memoria_mod k1)"
    by (rule claves_readOp [OF k1(2)]) (use g t con_tabla_clave [OF t] c in \<open>auto simp: con_tabla_def simp del: set_map\<close>)
  then show ?thesis using con_tabla_igual [OF _ m] t c by (simp add: con_tabla_def del: set_map)
qed

lemma claves_seguir:
  assumes i: "ker_inv grado k" and t: "con_tabla cm k" and r: "running k = Esperando_permiso p segID tam"
    and v: "seguir_compactacion cm mcfg p segID tam k = Some (Inr k')"
  shows "con_tabla cm k'"
proof -
  let ?k0 = "k\<lparr>compaction_permission := compaction_permission k - 1, running := Libre\<rparr>"
  obtain x where x: "compactar_memoria cm mcfg ?k0 = Some x"
    using v by (cases "compactar_memoria cm mcfg ?k0") (auto simp: seguir_compactacion_def)
  then obtain k1 where k1: "compactar_memoria cm mcfg ?k0 = Some (Inr k1)" "ker_create_segment cm mcfg p segID tam k1 = Some (Inr k')"
    using v by (cases x) (auto simp: seguir_compactacion_def)
  note c = claves_compactar_memoria [OF k1(1)] and g = en_global_hilo(2) [OF i r]
  have m: "mueve {#p#} ?k0 k'"
    using mueve_luego [OF mueve_compactar(1) [OF k1(1)] mueve_create_segment [OF k1(2)]] by (simp add: mueve_compactar(2) [OF k1(1)])
  have "claves (memoria_mod k') = claves (memoria_mod k1)"
    by (rule claves_create_segment [OF k1(2)]) (use g t con_tabla_clave [OF t] c in \<open>auto simp: con_tabla_def simp del: set_map\<close>)
  then show ?thesis using con_tabla_igual [OF _ m] t c by (simp add: con_tabla_def del: set_map)
qed

lemma claves_archivos:
  assumes t: "con_tabla cm k" and o: "operarFS cm fcfg k = Inr k'"
  shows "con_tabla cm k'"
proof -
  obtain n ns k1 where n: "consolasBlocked k = n # ns"
    and k1: "operar_nodo cm fcfg n (k\<lparr>consolasBlocked := ns\<rparr>) = Inr k1" "k' = dar_permiso k1"
    using o by (auto simp: operarFS_def bind_res_Inr_iff split: list.splits)
  have "mueve {#un_pcb n#} (k\<lparr>consolasBlocked := ns\<rparr>) k'"
    using mueve_operar_nodo [OF k1(1)] by (auto simp: k1(2) dar_permiso_def)
  then show ?thesis using con_tabla_igual marco_claves.operar_alguno [OF o] t by (simp add: con_tabla_def mueve_def del: set_map)
qed

text \<open>The end of a process, as the memory module reads it.\<close>

lemma pide_terminar:
  assumes cm: "commons_ok cm" and p: "int32_ok p"
  shows "pedir_memoria cm mcfg (enviar_mensaje_razon (op_num EXIT) (string_itoa cm p)) k
    = Some (bind_res (mem_exit (memoria_mod k) (string_itoa cm p)) (\<lambda>m'. Inr (k\<lparr>memoria_mod := m'\<rparr>, [])))"
proof -
  have "cadena_ok (string_itoa cm p)" using string_itoa_largo [OF cm p] by (simp add: cadena_ok_def int32_ok_def)
  from atender_terminar [OF cm p this, of mcfg "memoria_mod k" "[]"] show ?thesis
    by (simp add: pedir_memoria_def) (cases "mem_exit (memoria_mod k) (string_itoa cm p)"; simp)
qed

lemma claves_terminar:
  assumes i: "ker_inv grado k" and t: "con_tabla cm k" and cm: "commons_ok cm"
    and g: "gestionadorExit cm mcfg k = Some (Inr k')"
  shows "con_tabla cm k'"
  using g
proof (cases rule: exit_casos)
  case (1 p ps b k1 resp k2 k3)
  let ?k0 = "k\<lparr>consolasExit := ps, global_PCB_list := remove1 p (global_PCB_list k)\<rparr>"
  note p = en_global_exit [OF i 1(1)]
  have i32: "int32_ok q" if "q \<in> set (global_PCB_list k)" for q
    using that t global_pcbs [OF i] unfolding con_tabla_def by blast
  obtain m' where m': "mem_exit (memoria_mod k) (string_itoa cm p) = Inr m'" "memoria_mod k1 = m'"
    using 1(3) unfolding pide_terminar [OF cm i32 [OF conjunct1 [OF p]]] by (auto simp: bind_res_Inr_iff)
  have "claves (memoria_mod k') = claves m'"
    using marco_claves.cerrar [OF 1(5)] memoria_recursos(3) [OF 1(4)] by (simp add: 1(6) m'(2))
  then have c: "claves (memoria_mod k') = filter (\<lambda>x. x \<noteq> string_itoa cm p) (claves (memoria_mod k))"
    by (simp add: claves_exit [OF m'(1)])
  have m: "mueve {#} ?k0 k3"
    by (intro mueve_luego [OF mueve_pedir_memoria(1) [OF 1(3)]] mueve_luego [OF mueve_liberar_proceso [OF 1(4)]]
        mueve_cerrar_archivos [OF 1(5)])
  have g: "global_PCB_list k' = remove1 p (global_PCB_list k)" "set (map fst (pcbs k')) \<subseteq> set (map fst (pcbs k))"
    using m by (auto simp: 1(6) mueve_def claves_remove simp del: set_map)
  have d: "distinct (global_PCB_list k)"
    using ker_invD(2,4) [OF i] by (metis dict_ok_def distinct_append mset_append mset_eq_imp_distinct_iff)
  have f: "filter (\<lambda>x. x \<noteq> string_itoa cm p) (map (string_itoa cm) (global_PCB_list k)) = map (string_itoa cm) (remove1 p (global_PCB_list k))"
    using string_itoa_inj [OF cm, of _ p] i32 p
    by (simp add: filter_map comp_def distinct_remove1_removeAll [OF d] removeAll_filter_not_eq cong: filter_cong) (metis (mono_tags, lifting) filter_cong)
  have "mset (claves (memoria_mod k')) = mset (map (string_itoa cm) (global_PCB_list k'))"
    unfolding c g(1) f [symmetric] mset_filter using t by (simp add: con_tabla_def del: mset_map)
  then show ?thesis using t g(2) by (auto simp: con_tabla_def simp del: set_map mset_map)
qed

lemma claves_cpu: "atender_cpu m s = Inr (m', r, s') \<Longrightarrow> claves m' = claves m"
  unfolding atender_cpu_def by (rule claves_usuario)

interpretation claves_ker: invariante_ker cm mcfg fcfg "claves_inv cm grado" for cm mcfg fcfg grado
proof unfold_locales
  fix k k' bs assume "claves_inv cm grado k" "running k = Libre" and f: "fifo_despachar k = Inr (k', bs)"
  then show "claves_inv cm grado k'" using inv_despachar [of grado k k' bs]
    by (cases "consolasReady k") (auto simp: claves_inv_def fifo_despachar_def con_tabla_def bind_res_Inr_iff)
next
  fix k p s m' r s' assume "claves_inv cm grado k" "atender_cpu (memoria_mod k) s = Inr (m', r, s')"
  then show "claves_inv cm grado (k\<lparr>memoria_mod := m'\<rparr>)" using inv_cpu [of grado k m'] claves_cpu [of "memoria_mod k"]
    by (simp add: claves_inv_def con_tabla_def)
next
  fix k p assume "claves_inv cm grado k" "p \<in> set (en_io k)"
  then show "claves_inv cm grado (retenerPCB p k)" using inv_fin_io [of grado k p]
    by (simp add: claves_inv_def con_tabla_def retenerPCB_def ready_al_final_def)
qed (auto simp: claves_inv_def intro: inv_consola inv_admitir inv_volver inv_compactar inv_archivos inv_terminar
    claves_consola claves_admitir claves_volver claves_seguir claves_archivos claves_terminar)

lemma claves_inv_alcanzable:
  assumes "ker_alcanzable cm mcfg fcfg (ker_inicial grado recursos m fs) k" "diccionario_tablas m = []"
  shows "claves_inv cm grado k"
  by (rule claves_ker.alcanzable [OF assms(1)])
    (simp add: claves_inv_def ker_inv_inicial, simp add: con_tabla_def ker_inicial_def claves_def assms(2))

section \<open>The resources a process holds exist\<close>

definition registrados :: "kernel \<Rightarrow> bool" where
  "registrados k \<longleftrightarrow> (\<forall>P rs. dictionary_get (recursos_por_proceso k) P = Some (Some rs) \<longrightarrow>
     (\<forall>r \<in> set rs. dictionary_get (recursosDisponibles k) r \<noteq> None))"

definition registra :: "kernel \<Rightarrow> kernel \<Rightarrow> bool" where
  "registra k k' \<longleftrightarrow> (registrados k \<longrightarrow> registrados k')"

text \<open>Taking an instance back keeps the names of the resources and what the processes hold.\<close>

definition mismos_recursos :: "kernel \<Rightarrow> kernel \<Rightarrow> bool" where
  "mismos_recursos k k' \<longleftrightarrow> recursos_por_proceso k' = recursos_por_proceso k \<and>
     (\<forall>r. dictionary_get (recursosDisponibles k) r \<noteq> None \<longrightarrow> dictionary_get (recursosDisponibles k') r \<noteq> None)"

lemma mismos_liberar: "liberar_recurso_y_actualizar_ready r k = Inr k' \<Longrightarrow> mismos_recursos k k'"
  by (auto simp: liberar_recurso_y_actualizar_ready_def mismos_recursos_def ready_al_final_def split: option.splits list.splits)

lemma mismos_liberar_recursos: "liberar_recursos rs k = Inr k' \<Longrightarrow> mismos_recursos k k'"
proof (induction rs arbitrary: k)
  case (Cons r rs)
  then obtain k1 where "liberar_recurso_y_actualizar_ready r k = Inr k1" "liberar_recursos rs k1 = Inr k'"
    by (auto simp: bind_res_Inr_iff)
  then show ?case using mismos_liberar Cons.IH unfolding mismos_recursos_def by metis
qed (simp add: mismos_recursos_def)

lemma registrados_mismos: "mismos_recursos k k' \<Longrightarrow> registrados k \<Longrightarrow> registrados k'"
  by (simp add: mismos_recursos_def registrados_def)

lemma registrados_registrar:
  assumes g: "registrarRecursosDelProceso cm r p k = Inr k'" and k: "registrados k" "dictionary_get (recursosDisponibles k) r \<noteq> None"
  shows "registrados k'" "recursosDisponibles k' = recursosDisponibles k"
proof -
  obtain rs where k': "k' = k\<lparr>recursos_por_proceso := dictionary_put (recursos_por_proceso k) (string_itoa cm p) (Some rs)\<rparr>"
    "\<forall>x \<in> set rs. dictionary_get (recursosDisponibles k) x \<noteq> None"
    using g k by (auto simp: registrarRecursosDelProceso_def registrados_def Let_def split: option.splits if_splits)
  show "recursosDisponibles k' = recursosDisponibles k" by (simp add: k'(1))
  show "registrados k'" using k(1) k'(2) by (simp add: k'(1) registrados_def)
qed

lemma registra_wait:
  assumes w: "wait_recurso_lista cm r p k = Inr k'"
  shows "registra k k'"
  unfolding registra_def
proof
  assume k: "registrados k"
  show "registrados k'"
  proof (cases "dictionary_get (recursosDisponibles k) r")
    case None
    then show ?thesis using w k
      by (auto simp: wait_recurso_lista_def registrados_def finalizar_con_error_def enviar_consola_def Let_def)
  next
    case (Some n)
    then obtain k1 where k1: "registrarRecursosDelProceso cm r p k = Inr k1"
      using w by (auto simp: wait_recurso_lista_def bind_res_Inr_iff)
    have "registrados k1" by (rule registrados_registrar(1) [OF k1 k]) (simp add: Some)
    then show ?thesis using w k1 Some
      by (auto simp: wait_recurso_lista_def registrados_def ready_al_inicio_def split: if_splits)
  qed
qed

lemma registra_signal:
  assumes g: "signal_recurso_lista cm r p k = Inr k'"
  shows "registra k k'"
  unfolding registra_def
proof
  assume k: "registrados k"
  show "registrados k'"
  proof (cases "dictionary_has_key (recursosDisponibles k) r")
    case False
    then show ?thesis using g k
      by (auto simp: signal_recurso_lista_def registrados_def finalizar_con_error_def enviar_consola_def Let_def)
  next
    case True
    then obtain k1 where k1: "quitarRecursoDelProceso cm r p k = Inr k1"
      "liberar_recurso_y_actualizar_ready r (ready_al_inicio p k1) = Inr k'"
      using g by (auto simp: signal_recurso_lista_def bind_res_Inr_iff)
    obtain rs where rs: "dictionary_get (recursos_por_proceso k) (string_itoa cm p) = Some (Some rs)"
      "k1 = k\<lparr>recursos_por_proceso := dictionary_put (recursos_por_proceso k) (string_itoa cm p) (Some (remove1 r rs))\<rparr>"
      using k1(1) by (auto simp: quitarRecursoDelProceso_def split: option.splits)
    have "\<forall>x \<in> set (remove1 r rs). dictionary_get (recursosDisponibles k) x \<noteq> None"
      using k rs(1) set_remove1_subset [of r rs] unfolding registrados_def by blast
    then have "registrados (ready_al_inicio p k1)" using k by (simp add: rs(2) registrados_def ready_al_inicio_def)
    then show ?thesis by (rule registrados_mismos [OF mismos_liberar [OF k1(2)]])
  qed
qed

lemma registra_liberar:
  assumes "liberarRecursosDelProceso P k = Inr k'"
  shows "registra k k'"
proof -
  consider "k' = k" | rs k1 where "liberar_recursos rs k = Inr k1"
    "k' = k1\<lparr>recursos_por_proceso := dictionary_put (recursos_por_proceso k1) P None\<rparr>"
    using assms by (auto simp: liberarRecursosDelProceso_def bind_res_Inr_iff simp del: liberar_recursos.simps
        split: option.splits list.splits)
  then show ?thesis
  proof cases
    case 2
    then show ?thesis using registrados_mismos [OF mismos_liberar_recursos [OF 2(1)]]
      by (auto simp: registra_def registrados_def split: if_splits)
  qed (simp add: registra_def)
qed

interpretation registra: contrato_recursos registra
proof unfold_locales
  fix k k' assume "dic_recursos k' = dic_recursos k"
  then show "registra k k'" by (simp add: registra_def registrados_def dic_recursos_def)
qed (use registra_wait registra_signal registra_liberar in \<open>auto simp: registra_def\<close>)





section \<open>Progress\<close>

text \<open>
  C14. In every reachable state the memory module has a table for each admitted process and for
  no other: a new process has none yet, an ended one leaves none behind, and the tables with the
  value of \<open>hayEspacioReady\<close> are the degree of multiprogramming.
\<close>

theorem tablas_de_los_admitidos:
  assumes cm: "commons_ok cm" and m: "diccionario_tablas m = []"
    and a: "ker_alcanzable cm mcfg fcfg (ker_inicial grado recursos m fs) k"
  shows "(\<forall>p \<in> set (map fst (pcbs k)).
      dictionary_get (diccionario_tablas (memoria_mod k)) (string_itoa cm p) \<noteq> None \<longleftrightarrow> p \<notin> set (consolasNew k)) \<and>
    mset (claves (memoria_mod k)) = mset (map (string_itoa cm) (global_PCB_list k)) \<and>
    length (diccionario_tablas (memoria_mod k)) + hayEspacioReady k = grado"
proof -
  have i: "ker_inv grado k" and t: "con_tabla cm k"
    using claves_inv_alcanzable [OF a m] cm by (simp_all add: claves_inv_def)
  have c: "mset (claves (memoria_mod k)) = mset (map (string_itoa cm) (global_PCB_list k))" using t by (simp add: con_tabla_def)
  have l: "length (diccionario_tablas (memoria_mod k)) = length (global_PCB_list k)"
    using arg_cong [OF c, of size] by (simp add: claves_def)
  have "string_itoa cm p \<in> set (claves (memoria_mod k)) \<longleftrightarrow> p \<notin> set (consolasNew k)" if p: "p \<in> set (map fst (pcbs k))" for p
  proof -
    have d: "distinct (global_PCB_list k @ consolasNew k)"
      using ker_invD(2,4) [OF i] by (metis dict_ok_def mset_append mset_eq_imp_distinct_iff)
    have s: "set (map fst (pcbs k)) = set (global_PCB_list k) \<union> set (consolasNew k)"
      using mset_eq_setD [of "map fst (pcbs k)" "global_PCB_list k @ consolasNew k"] ker_invD(4) [OF i] by simp
    have "string_itoa cm p \<in> string_itoa cm ` set (global_PCB_list k) \<longleftrightarrow> p \<in> set (global_PCB_list k)"
      using string_itoa_inj [OF cm] t p s unfolding con_tabla_def by blast
    then show ?thesis using con_tabla_claves [OF t] d p s by auto
  qed
  then show ?thesis using c l ker_invD(5) [OF i] by (simp add: clave_get del: set_map)
qed

theorem tablas_de_los_admitidos_witness:
  "length (diccionario_tablas (memoria_mod ker4)) + hayEspacioReady ker4 = 2 \<and> claves (memoria_mod ker4) = [''5'']"
proof -
  have m: "diccionario_tablas \<lparr>user_space = replicate 40 (CHR '' ''), huecos_libres = [\<lparr>h_pos = 8, h_size = 32\<rparr>],
     segmentos = [Some seg0_ej], tabla_inicial = [0], diccionario_tablas = []\<rparr> = []" by simp
  have "claves (memoria_mod ker4) = [''5'']"
    by (simp add: claves_def ker4_def ker3_def ker2_def)
  then show ?thesis
    using tablas_de_los_admitidos [OF commons_ej_ok m ker4_alcanzable [unfolded ker0_def]] by simp
qed










end
