(* ===== verification/Ker_Diagrama.thy ===== *)
theory Ker_Diagrama
  imports Ker_Hrrn_Propiedades
begin

text \<open>
  The kernel implements the diagram of five states: new, ready, running, blocked and ended. The
  state of a process is read off the queues of the kernel, and every step of every thread moves
  every process along an arrow of the diagram or leaves it where it is.
\<close>

section \<open>The diagram\<close>

datatype estado = Ninguno | Nuevo | Listo | Ejecutando | Bloqueado | Terminado

text \<open>
  An operation on files that fails ends a process that is blocked; a PID is the socket of a
  console, and there is no process before it connects and after it was ended.
\<close>

inductive flecha :: "estado \<Rightarrow> estado \<Rightarrow> bool" where
  "flecha e e"
| "flecha Ninguno Nuevo"
| "flecha Nuevo Listo"
| "flecha Listo Ejecutando"
| "flecha Ejecutando Listo"
| "flecha Ejecutando Bloqueado"
| "flecha Ejecutando Terminado"
| "flecha Bloqueado Listo"
| "flecha Bloqueado Terminado"
| "flecha Terminado Ninguno"

declare flecha.intros [simp, intro]

definition bloqueados :: "kernel \<Rightarrow> int multiset" where
  "bloqueados k = mset (map un_pcb (consolasBlocked k)) + mset (en_io k)
     + miembros (recursosEnUso k) + miembros (diccionario_colas_archivos k)"

definition estado :: "kernel \<Rightarrow> int \<Rightarrow> estado" where
  "estado k p =
     (if p \<in> set (consolasNew k) then Nuevo
      else if p \<in> set (consolasReady k) then Listo
      else if p \<in># en_hilo (running k) then Ejecutando
      else if p \<in># bloqueados k then Bloqueado
      else if p \<in> set (consolasExit k) then Terminado
      else Ninguno)"

lemma lugares_estados: "lugares k = mset (consolasNew k) + mset (consolasReady k) + mset (consolasExit k)
    + en_hilo (running k) + bloqueados k"
  by (simp add: lugares_def bloqueados_def)

text \<open>With one place for each process, the state says which one it is.\<close>

definition en_un_lugar :: "kernel \<Rightarrow> bool" where
  "en_un_lugar k \<longleftrightarrow> (\<forall>p. count (lugares k) p \<le> 1)"

lemma en_un_lugar_disjuntos:
  assumes "en_un_lugar k"
  shows "p \<in> set (consolasNew k) \<Longrightarrow> p \<notin> set (consolasReady k) \<and> p \<notin> set (consolasExit k) \<and> p \<notin># en_hilo (running k) \<and> p \<notin># bloqueados k"
    and "p \<in> set (consolasReady k) \<Longrightarrow> p \<notin> set (consolasExit k) \<and> p \<notin># en_hilo (running k) \<and> p \<notin># bloqueados k"
    and "p \<in> set (consolasExit k) \<Longrightarrow> p \<notin># en_hilo (running k) \<and> p \<notin># bloqueados k"
    and "p \<in># en_hilo (running k) \<Longrightarrow> p \<notin># bloqueados k"
proof -
  have c: "count (mset (consolasNew k)) p + count (mset (consolasReady k)) p + count (mset (consolasExit k)) p
      + count (en_hilo (running k)) p + count (bloqueados k) p \<le> 1"
    using assms unfolding en_un_lugar_def lugares_estados by (metis count_union)
  have n: "x \<in># M \<longleftrightarrow> 0 < count M x" for x and M :: "int multiset" by (simp add: count_greater_zero_iff)
  have l: "x \<in> set xs \<longleftrightarrow> 0 < count (mset xs) x" for x and xs :: "int list" by (simp add: count_greater_zero_iff)
  show "p \<in> set (consolasNew k) \<Longrightarrow> p \<notin> set (consolasReady k) \<and> p \<notin> set (consolasExit k) \<and> p \<notin># en_hilo (running k) \<and> p \<notin># bloqueados k"
    "p \<in> set (consolasReady k) \<Longrightarrow> p \<notin> set (consolasExit k) \<and> p \<notin># en_hilo (running k) \<and> p \<notin># bloqueados k"
    "p \<in> set (consolasExit k) \<Longrightarrow> p \<notin># en_hilo (running k) \<and> p \<notin># bloqueados k"
    "p \<in># en_hilo (running k) \<Longrightarrow> p \<notin># bloqueados k"
    using c unfolding l n by linarith+
qed

lemma estado_lugares: "estado k p = Ninguno \<longleftrightarrow> p \<notin># lugares k"
  by (auto simp: estado_def lugares_estados)

lemma estado_casos:
  assumes "en_un_lugar k"
  shows "estado k p = Nuevo \<longleftrightarrow> p \<in> set (consolasNew k)" "estado k p = Listo \<longleftrightarrow> p \<in> set (consolasReady k)"
    "estado k p = Ejecutando \<longleftrightarrow> p \<in># en_hilo (running k)" "estado k p = Bloqueado \<longleftrightarrow> p \<in># bloqueados k"
    "estado k p = Terminado \<longleftrightarrow> p \<in> set (consolasExit k)"
  using en_un_lugar_disjuntos [OF assms, of p] by (auto simp: estado_def)

lemma en_un_lugar_inv: "ker_inv grado k \<Longrightarrow> en_un_lugar k"
  using ker_invD(2,3) by (fastforce simp: en_un_lugar_def dict_ok_def distinct_count_atmost_1 simp del: mset_map)

section \<open>An operation with a process in hand\<close>

text \<open>
  The other processes stay where they are or become ready, and nobody becomes new; the PCBs
  are the same.
\<close>

definition ajenos :: "int \<Rightarrow> kernel \<Rightarrow> kernel \<Rightarrow> bool" where
  "ajenos p k k' \<longleftrightarrow> (\<forall>q. q \<noteq> p \<longrightarrow> (q \<in> set (consolasNew k') \<longleftrightarrow> q \<in> set (consolasNew k)) \<and>
     (q \<in> set (consolasReady k) \<longrightarrow> q \<in> set (consolasReady k')) \<and>
     (q \<in> set (consolasExit k') \<longleftrightarrow> q \<in> set (consolasExit k)) \<and>
     (q \<in># bloqueados k' \<longrightarrow> q \<in># bloqueados k) \<and> (q \<in># en_hilo (running k') \<longrightarrow> q \<in># en_hilo (running k)))"

definition respeta :: "int \<Rightarrow> kernel \<Rightarrow> kernel \<Rightarrow> bool" where
  "respeta p k k' \<longleftrightarrow> map fst (pcbs k') = map fst (pcbs k) \<and> set (consolasNew k') \<subseteq> set (consolasNew k) \<and> ajenos p k k'"

lemmas respeta_defs = respeta_def ajenos_def bloqueados_def

lemma respeta_uso:
  assumes "set_mset (miembros d) \<subseteq> insert p (set_mset (miembros (recursosEnUso k)))"
  shows "respeta p k (k\<lparr>recursosEnUso := d\<rparr>)"
  using assms by (auto simp: respeta_defs)

lemma respeta_cambiar: "cambiar_pcb q g k = Inr k' \<Longrightarrow> respeta p k k'"
  by (auto simp: respeta_defs cambiar_pcb_def bind_res_Inr_iff pcb_de_def claves_put split: option.splits)

interpretation respeta: contrato_completo respeta
proof unfold_locales
  fix p n ns and k :: kernel assume "consolasBlocked k = n # ns"
  then show "respeta p k (k\<lparr>consolasBlocked := ns\<rparr>)" by (auto simp: respeta_defs)
next
  fix p and k :: kernel and d :: "(string, int list) dict"
  assume "set_mset (miembros d) \<subseteq> insert p (set_mset (miembros (diccionario_colas_archivos k)))"
  then show "respeta p k (k\<lparr>diccionario_colas_archivos := d\<rparr>)" by (auto simp: respeta_defs)
next
  fix p and k k1 k2 :: kernel assume "respeta p k k1" "respeta p k1 k2"
  then show "respeta p k k2" unfolding respeta_def ajenos_def by (metis subset_trans)
qed (simp_all add: respeta_cambiar, auto simp: respeta_defs pedir_fs_def bind_res_Inr_iff ready_al_final_def ready_al_inicio_def)

lemma respeta_campos:
  "respeta p k (k\<lparr>recursosDisponibles := r\<rparr>)" "respeta p k (k\<lparr>recursos_por_proceso := rp\<rparr>)"
  "respeta p k (k\<lparr>global_PCB_list := l\<rparr>)" "respeta p k (k\<lparr>hayEspacioReady := h\<rparr>)"
  by (simp_all add: respeta_defs)

lemma cola_sub: "set (cola_o_nada d n) \<subseteq> set_mset (miembros d)"
  by (cases "dictionary_get d n") (simp_all add: cola_o_nada_def miembros_get)

lemma respeta_liberar_recurso:
  assumes "liberar_recurso_y_actualizar_ready r k = Inr k'"
  shows "respeta p k k'"
proof (cases "dictionary_get (recursosEnUso k) r")
  case None
  then show ?thesis using assms
    by (auto simp: liberar_recurso_y_actualizar_ready_def respeta_campos split: option.splits)
next
  case (Some q)
  obtain x xs where q: "q = x # xs" and k': "k' = ready_al_final x (k\<lparr>recursosEnUso :=
      if xs = [] then dictionary_remove (recursosEnUso k) r else dictionary_put (recursosEnUso k) r xs\<rparr>)"
    using assms Some by (auto simp: liberar_recurso_y_actualizar_ready_def split: option.splits list.splits)
  show ?thesis unfolding k'
    by (intro respeta.ready respeta_uso)
      (use miembros_put_sub [of "recursosEnUso k" r xs] miembros_remove_sub [of "recursosEnUso k" r]
        miembros_get [OF Some] q in auto)
qed

lemma respeta_registrar: "registrarRecursosDelProceso cm r q k = Inr k' \<Longrightarrow> respeta p k k'"
  by (auto simp: registrarRecursosDelProceso_def Let_def respeta_campos split: if_splits option.splits)

lemma respeta_quitar: "quitarRecursoDelProceso cm r q k = Inr k' \<Longrightarrow> respeta p k k'"
  by (auto simp: quitarRecursoDelProceso_def respeta_campos respeta.refl split: option.splits)

lemma respeta_wait:
  assumes "wait_recurso_lista cm r p k = Inr k'"
  shows "respeta p k k'"
proof (cases "dictionary_get (recursosDisponibles k) r")
  case None
  then show ?thesis using assms by (auto simp: wait_recurso_lista_def respeta.error respeta.refl)
next
  case (Some n)
  obtain k1 where k1: "registrarRecursosDelProceso cm r p k = Inr k1"
    using assms Some by (auto simp: wait_recurso_lista_def bind_res_Inr_iff)
  have "respeta p k1 k'"
  proof (cases "1 \<le> n")
    case True
    then have "k' = ready_al_inicio p (k1\<lparr>recursosDisponibles := dictionary_put (recursosDisponibles k1) r (n - 1)\<rparr>)"
      using assms Some k1 by (simp add: wait_recurso_lista_def)
    then show ?thesis by (simp add: respeta.ready respeta_campos)
  next
    case False
    then have "k' = k1\<lparr>recursosEnUso := dictionary_put (recursosEnUso k1) r (cola_o_nada (recursosEnUso k1) r @ [p])\<rparr>"
      using assms Some k1 by (simp add: wait_recurso_lista_def)
    then show ?thesis
      using respeta_uso [of "dictionary_put (recursosEnUso k1) r (cola_o_nada (recursosEnUso k1) r @ [p])" p k1]
        miembros_put_sub [of "recursosEnUso k1" r "cola_o_nada (recursosEnUso k1) r @ [p]"] cola_sub [of "recursosEnUso k1" r]
      by auto
  qed
  then show ?thesis by (rule respeta.trans [OF respeta_registrar [OF k1]])
qed

lemma respeta_signal: "signal_recurso_lista cm r p k = Inr k' \<Longrightarrow> respeta p k k'"
  by (auto simp: signal_recurso_lista_def bind_res_Inr_iff split: if_splits intro: respeta.error respeta.refl
      respeta.trans [OF respeta.ready(2) [OF respeta_quitar] respeta_liberar_recurso])

lemma respeta_liberar_recursos: "liberar_recursos rs k = Inr k' \<Longrightarrow> respeta p k k'"
  by (induction rs arbitrary: k)
    (auto simp: bind_res_Inr_iff respeta.refl intro: respeta.trans [OF respeta_liberar_recurso])

lemma respeta_liberar_proceso: "liberarRecursosDelProceso c k = Inr k' \<Longrightarrow> respeta p k k'"
  by (auto simp: liberarRecursosDelProceso_def bind_res_Inr_iff respeta.refl simp del: liberar_recursos.simps
      split: option.splits list.splits intro: respeta_liberar_recursos respeta.trans [OF respeta_liberar_recursos respeta_campos(2)])

lemma respeta_readOp:
  assumes "readOp cm mcfg cod p ps k = Some (Inr k')"
  shows "respeta p k k'"
  using assms
proof (cases rule: readOp_casos)
  case archivos
  then show ?thesis by (auto simp: recieves_filesystem_petition_def Let_def respeta_defs)
next
  case (i_o t)
  then show ?thesis by (auto simp: ker_i_o_def respeta_defs)
next
  case (borrar i k1)
  then show ?thesis by (auto simp: ker_delete_segment_def map_res_Some intro!: respeta.ready dest: respeta.tabla)
qed (auto intro: respeta_wait respeta_signal respeta.crear respeta.ready respeta.refl respeta.error respeta.en_exit)


lemma respeta_volver:
  assumes "fifo_volver cm mcfg p s k = Some (Inr k')"
  shows "respeta p k k'"
proof -
  obtain cod ps k1 where k1: "recibir_PCB cm p s (k\<lparr>running := Libre\<rparr>) = Inr (cod, ps, k1)" "readOp cm mcfg cod p ps k1 = Some (Inr k')"
    using assms by (cases "recibir_PCB cm p s (k\<lparr>running := Libre\<rparr>)") (auto simp: fifo_volver_def)
  show ?thesis
    by (rule respeta.trans [OF respeta.trans [OF respeta.en_hilo(1) respeta.recibir [OF k1(1)]] respeta_readOp [OF k1(2)]])
qed

section \<open>The other processes\<close>

lemma otros:
  assumes a: "ajenos p k k'" and u: "en_un_lugar k" "en_un_lugar k'" and q: "q \<noteq> p"
    and l: "q \<in># lugares k' \<longleftrightarrow> q \<in># lugares k" and r: "q \<in># en_hilo (running k) \<longrightarrow> q \<in># en_hilo (running k')"
  shows "estado k' q = estado k q \<or> estado k q = Bloqueado \<and> estado k' q = Listo"
proof (cases "estado k q")
  case Ninguno
  then have "estado k' q = Ninguno" using l estado_lugares by metis
  then show ?thesis using Ninguno by simp
next
  case Bloqueado
  then have "q \<in># bloqueados k" by (simp add: estado_casos(4) [OF u(1)])
  then have "q \<notin> set (consolasNew k)" "q \<notin> set (consolasExit k)" "q \<notin># en_hilo (running k)"
    using en_un_lugar_disjuntos [OF u(1), of q] by auto
  then have "q \<notin> set (consolasNew k')" "q \<notin> set (consolasExit k')" "q \<notin># en_hilo (running k')"
    using a q by (auto simp: ajenos_def)
  moreover have "estado k' q \<noteq> Ninguno" using l Bloqueado estado_lugares by (metis estado.distinct(7))
  ultimately show ?thesis using Bloqueado by (auto simp: estado_def split: if_splits)
qed (use a q r estado_casos [OF u(1), of q] estado_casos [OF u(2), of q] in \<open>auto simp: ajenos_def\<close>)

section \<open>The kernel follows the diagram\<close>

text \<open>One process goes along an arrow of the diagram; others may only be woken up.\<close>

definition paso_del_diagrama :: "(int \<Rightarrow> estado) \<Rightarrow> (int \<Rightarrow> estado) \<Rightarrow> bool" where
  "paso_del_diagrama e e' \<longleftrightarrow> (\<exists>p. flecha (e p) (e' p) \<and>
     (\<forall>q. q \<noteq> p \<longrightarrow> e' q = e q \<or> e q = Bloqueado \<and> e' q = Listo))"

lemma en_diagrama:
  assumes a: "ajenos p k k'" and i: "ker_inv grado k" "ker_inv grado k'"
    and l: "\<And>q. q \<noteq> p \<Longrightarrow> q \<in> set (map fst (pcbs k')) \<longleftrightarrow> q \<in> set (map fst (pcbs k))"
    and r: "\<And>q. q \<noteq> p \<Longrightarrow> q \<in># en_hilo (running k) \<longrightarrow> q \<in># en_hilo (running k')"
    and f: "flecha (estado k p) (estado k' p)"
  shows "paso_del_diagrama (estado k) (estado k')"
proof -
  have "q \<in># lugares k' \<longleftrightarrow> q \<in># lugares k" if "q \<noteq> p" for q
    using l [OF that] by (simp add: ker_invD(3) [OF i(1)] ker_invD(3) [OF i(2)])
  then have "estado k' q = estado k q \<or> estado k q = Bloqueado \<and> estado k' q = Listo" if "q \<noteq> p" for q
    using that by (intro otros [OF a en_un_lugar_inv [OF i(1)] en_un_lugar_inv [OF i(2)] that _ r])
  then show ?thesis using f by (auto simp: paso_del_diagrama_def)
qed


lemma propio:
  assumes r: "respeta p k k'" and i: "ker_inv grado k" "ker_inv grado k'" and e: "estado k p \<notin> {Ninguno, Nuevo}"
  shows "estado k' p \<in> {Listo, Ejecutando, Bloqueado, Terminado}"
proof -
  have "p \<in># lugares k" using e estado_lugares by blast
  then have "p \<in># lugares k'" using r by (simp add: ker_invD(3) [OF i(1)] ker_invD(3) [OF i(2)] respeta_def)
  then have n: "estado k' p \<noteq> Ninguno" using estado_lugares by blast
  have "p \<notin> set (consolasNew k)" using e by (simp add: estado_casos(1) [OF en_un_lugar_inv [OF i(1)], symmetric])
  then have "estado k' p \<noteq> Nuevo"
    using r estado_casos(1) [OF en_un_lugar_inv [OF i(2)]] by (auto simp: respeta_def)
  with n show ?thesis by (cases "estado k' p") auto
qed

lemma respeta_en_diagrama:
  assumes r: "respeta p k k'" and i: "ker_inv grado k" "ker_inv grado k'" and e: "estado k p \<notin> {Ninguno, Nuevo}"
    and h: "\<And>q. q \<noteq> p \<Longrightarrow> q \<in># en_hilo (running k) \<longrightarrow> q \<in># en_hilo (running k')"
    and f: "\<And>e'. e' \<in> {Listo, Ejecutando, Bloqueado, Terminado} \<Longrightarrow> estado k' p = e' \<Longrightarrow> flecha (estado k p) e'"
  shows "paso_del_diagrama (estado k) (estado k')"
  by (rule en_diagrama [where p = p, OF _ i _ h]) (use r propio [OF r i e] f in \<open>auto simp: respeta_def\<close>)

lemma diagrama_consola:
  assumes i: "ker_inv grado k" and n: "dictionary_get (pcbs k) p = None" and g: "gestionarNuevasConexiones p s k = Inr k'"
  shows "paso_del_diagrama (estado k) (estado k')"
proof -
  have p: "p \<notin> set (map fst (pcbs k))" using n by (simp add: dictionary_get_def map_of_eq_None_iff)
  then have e: "estado k p = Ninguno" by (simp add: estado_lugares ker_invD(3) [OF i])
  from g show ?thesis
  proof (cases rule: conexion_casos)
    case (programa bs b)
    have "flecha (estado k p) (estado k' p)" unfolding e programa(2) by (simp add: estado_def)
    then show ?thesis
      by (intro en_diagrama [where p = p, OF _ i inv_consola [OF i n g]])
        (auto simp: programa(2) enviar_consola_def ajenos_def bloqueados_def dictionary_put_new [OF n])
  qed (auto simp: paso_del_diagrama_def estado_def enviar_consola_def bloqueados_def)
qed

lemma diagrama_admitir:
  assumes i: "ker_inv grado k" and h: "0 < hayEspacioReady k" and g: "gestionadorReady cm mcfg k = Some (Inr k')"
  shows "paso_del_diagrama (estado k) (estado k')"
proof -
  note i' = inv_admitir [OF i h g]
  obtain p ps where n: "consolasNew k = p # ps" using g by (cases "consolasNew k") (auto simp: gestionadorReady_def)
  let ?k0 = "k\<lparr>consolasNew := ps, hayEspacioReady := hayEspacioReady k - 1\<rparr>"
  obtain k1 flag where k1: "pedir_tabla cm mcfg (send_newsegment_petition p 0 0) p ?k0 = Some (Inr (k1, flag))"
    and k': "k' = (ready_al_final p k1)\<lparr>global_PCB_list := global_PCB_list k1 @ [p]\<rparr>"
    using g n by (auto simp: gestionadorReady_def pedirTablaSegmentosInicial_def map_res_Some Let_def ready_al_final_def)
  have r: "respeta p ?k0 k'" unfolding k' by (intro respeta.trans [OF respeta.ready(1) [OF respeta.tabla [OF k1]] respeta_campos(3)])
  have "estado k p = Nuevo" by (simp add: estado_casos [OF en_un_lugar_inv [OF i]] n)
  moreover have "estado k' p = Listo"
    by (rule iffD2 [OF estado_casos(2) [OF en_un_lugar_inv [OF i']]]) (simp add: k' ready_al_final_def)
  moreover have "running k' = running k" using mueve_pedir_tabla(2) [OF k1] by (simp add: k' ready_al_final_def)
  moreover have "ajenos p k k'" using r n by (auto simp: respeta_defs)
  ultimately show ?thesis using r by (intro en_diagrama [where p = p, OF _ i i']) (auto simp: respeta_def)
qed

lemma diagrama_despachar:
  assumes i: "ker_inv grado k" and l: "running k = Libre" and g: "fifo_despachar k = Inr (k', bs)"
  shows "paso_del_diagrama (estado k) (estado k')"
proof -
  note i' = inv_despachar [OF i l g]
  obtain p ps where p: "consolasReady k = p # ps" "k' = k\<lparr>consolasReady := ps, running := En_cpu p\<rparr>"
    using g by (auto simp: fifo_despachar_def bind_res_Inr_iff split: list.splits)
  have "estado k p = Listo" by (simp add: estado_casos [OF en_un_lugar_inv [OF i]] p(1))
  moreover have "estado k' p = Ejecutando"
    by (rule iffD2 [OF estado_casos(3) [OF en_un_lugar_inv [OF i']]]) (simp add: p(2))
  ultimately show ?thesis by (intro en_diagrama [where p = p, OF _ i i']) (auto simp: p l ajenos_def bloqueados_def)
qed

lemma diagrama_hilo:
  assumes i: "ker_inv grado k" "ker_inv grado k'" and h: "en_hilo (running k) = {#p#}" and r: "respeta p k k'"
  shows "paso_del_diagrama (estado k) (estado k')"
proof -
  have "estado k p = Ejecutando" by (simp add: estado_casos [OF en_un_lugar_inv [OF i(1)]] h)
  then show ?thesis by (intro respeta_en_diagrama [OF r i]) (auto simp: h)
qed

text \<open>The thread of the files leaves the thread of the scheduler as it is.\<close>

interpretation marco_running: contrato_archivos "\<lambda>_ k k'. running k' = running k"
  by unfold_locales (auto simp: cambiar_pcb_def pedir_fs_def bind_res_Inr_iff ready_al_final_def ready_al_inicio_def)

lemma diagrama_archivos:
  assumes i: "ker_inv grado k" and g: "operarFS cm fcfg k = Inr k'"
  shows "paso_del_diagrama (estado k) (estado k')"
proof -
  note i' = inv_archivos [OF i g]
  obtain n ns where n: "consolasBlocked k = n # ns" using g by (cases "consolasBlocked k") (simp_all add: operarFS_def)
  have h: "running k' = running k" by (rule marco_running.operar [OF g n])
  have e: "estado k (un_pcb n) = Bloqueado" by (simp add: estado_casos [OF en_un_lugar_inv [OF i]] n bloqueados_def)
  then have "un_pcb n \<notin># en_hilo (running k)" using en_un_lugar_disjuntos(4) [OF en_un_lugar_inv [OF i]]
    by (auto simp: estado_casos(4) [OF en_un_lugar_inv [OF i]])
  then have "estado k' (un_pcb n) \<noteq> Ejecutando" by (simp add: estado_casos [OF en_un_lugar_inv [OF i']] h)
  then show ?thesis by (intro respeta_en_diagrama [OF respeta.operar [OF g n] i i']) (auto simp: e h)
qed

lemma diagrama_fin_io:
  assumes i: "ker_inv grado k" and p: "p \<in> set (en_io k)"
  shows "paso_del_diagrama (estado k) (estado (retenerPCB p k))"
proof -
  note i' = inv_fin_io [OF i p]
  have "estado k p = Bloqueado" using p by (simp add: estado_casos [OF en_un_lugar_inv [OF i]] bloqueados_def)
  moreover have "estado (retenerPCB p k) p = Listo"
    by (rule iffD2 [OF estado_casos(2) [OF en_un_lugar_inv [OF i']]]) (simp add: retenerPCB_def ready_al_final_def)
  ultimately show ?thesis
    by (intro en_diagrama [where p = p, OF _ i i'])
      (auto simp: retenerPCB_def ready_al_final_def ajenos_def bloqueados_def dest: in_diffD)
qed


lemma running_liberar:
  assumes "liberarRecursosDelProceso c k = Inr k'"
  shows "running k' = running k"
proof -
  have u: "running k' = running k" if "liberar_recurso_y_actualizar_ready r k = Inr k'" for r k k'
    using that by (auto simp: liberar_recurso_y_actualizar_ready_def ready_al_final_def split: option.splits list.splits if_splits)
  have "running k' = running k" if "liberar_recursos rs k = Inr k'" for rs k k'
    using that by (induction rs arbitrary: k) (auto simp: bind_res_Inr_iff dest!: u)
  then show ?thesis using assms
    by (auto simp: liberarRecursosDelProceso_def bind_res_Inr_iff simp del: liberar_recursos.simps split: option.splits list.splits)
qed

lemma diagrama_terminar:
  assumes i: "ker_inv grado k" and g: "gestionadorExit cm mcfg k = Some (Inr k')"
  shows "paso_del_diagrama (estado k) (estado k')"
proof -
  note i' = inv_terminar [OF i g]
  from g show ?thesis
  proof (cases rule: exit_casos)
    case (1 p ps b k1 resp k2 k3)
    have r: "respeta p (k\<lparr>consolasExit := ps, global_PCB_list := remove1 p (global_PCB_list k)\<rparr>) k3"
      by (rule respeta.trans [OF respeta.trans [OF respeta.pedir [OF 1(3)] respeta_liberar_proceso [OF 1(4)]] respeta.cerrar [OF 1(5)]])
    have h: "running k' = running k"
      using mueve_pedir_memoria(2) [OF 1(3)] running_liberar [OF 1(4)] marco_running.cerrar [OF 1(5)] by (simp add: 1(6))
    have "p \<notin> set (map fst (pcbs k'))" by (simp add: 1(6) claves_remove del: set_map)
    then have "p \<notin># lugares k'" unfolding ker_invD(3) [OF i'] by (simp del: set_map mset_map)
    moreover have "estado k p = Terminado" by (simp add: estado_casos [OF en_un_lugar_inv [OF i]] 1(1))
    moreover from calculation have "estado k' p = Ninguno" by (simp add: estado_lugares)
    moreover have "set (map fst (pcbs k')) = set (map fst (pcbs k)) - {p}"
      using r by (auto simp: 1(6) claves_remove respeta_def simp del: set_map)
    moreover have "ajenos p k k'" using r by (simp add: respeta_defs 1(1) 1(6))
    ultimately show ?thesis by (intro en_diagrama [where p = p, OF _ i i']) (auto simp: h simp del: set_map)
  qed
qed

lemma diagrama_paso:
  assumes "ker_paso cm mcfg fcfg k k'" and i: "ker_inv grado k"
  shows "paso_del_diagrama (estado k) (estado k')"
  using assms(1)
proof (cases rule: ker_paso.cases)
  case (volver p s)
  show ?thesis using diagrama_hilo [OF i inv_volver [OF i volver(1,2)] _ respeta_volver [OF volver(2)]] volver(1) by simp
next
  case (compactar p segID tam)
  show ?thesis using diagrama_hilo [OF i inv_compactar [OF i compactar(1,3)] _ respeta.seguir [OF compactar(3)]] compactar(1) by simp
next
  case (cpu p s m' r s')
  have "estado k' = estado k" by (simp add: fun_eq_iff cpu(1) estado_def bloqueados_def)
  then show ?thesis by (simp add: paso_del_diagrama_def)
qed (use i in \<open>auto intro: diagrama_consola diagrama_admitir diagrama_despachar diagrama_archivos diagrama_fin_io diagrama_terminar\<close>)

text \<open>HRRN sorts the ready queue, which moves nobody.\<close>

lemma diagrama_orden: "mset q = mset (consolasReady k) \<Longrightarrow> estado (k\<lparr>consolasReady := q\<rparr>) = estado k"
  using set_mset_mset by (fastforce simp: estado_def bloqueados_def dest: mset_eq_setD)

lemma diagrama_hrrn:
  assumes "hrrn_paso F kcfg ls cm mcfg fcfg s s'" "list_sort_ok ls" "ker_inv grado (fst s)"
  shows "paso_del_diagrama (estado (fst s)) (estado (fst s'))"
  using hrrn_paso_ker [OF assms(1,2)] diagrama_paso [OF _ assms(3)] diagrama_orden [of _ "fst s"]
  by (auto simp: paso_del_diagrama_def)

text \<open>
  C2. With either algorithm, every step of a thread of the kernel moves one process along an arrow of the
  diagram of five states, and the other processes stay in their state or are woken up from
  blocked to ready; a process has a state exactly when it has a PCB, and at most one is executing.
\<close>

theorem diagrama_de_estados:
  assumes "ker_alcanzable cm mcfg fcfg (ker_inicial grado recursos m fs) k \<and> ker_paso cm mcfg fcfg k k' \<or>
    list_sort_ok ls \<and> hrrn_alcanzable F kcfg ls cm mcfg fcfg (ker_inicial grado recursos m fs, pl0) (k, pl) \<and>
    hrrn_paso F kcfg ls cm mcfg fcfg (k, pl) (k', pl')"
  shows "paso_del_diagrama (estado k) (estado k') \<and> (estado k p = Ninguno \<longleftrightarrow> p \<notin> set (map fst (pcbs k))) \<and>
    (estado k p = Ejecutando \<and> estado k q = Ejecutando \<longrightarrow> p = q)"
proof -
  have i: "ker_inv grado k"
    using assms contabilidad.alcanzable contabilidad_hrrn.hrrn_alcanzable ker_inv_inicial by fastforce
  then have "paso_del_diagrama (estado k) (estado k')" using assms diagrama_paso diagrama_hrrn by fastforce
  moreover have "p \<in># en_hilo h \<Longrightarrow> q \<in># en_hilo h \<Longrightarrow> p = q" for h by (cases h) auto
  moreover have "estado k p = Ninguno \<longleftrightarrow> p \<notin> set (map fst (pcbs k))"
    unfolding estado_lugares ker_invD(3) [OF i] by (simp del: set_map mset_map)
  ultimately show ?thesis unfolding estado_casos [OF en_un_lugar_inv [OF i]] by blast
qed

theorem diagrama_de_estados_witness:
  "paso_del_diagrama (estado ker2) (estado ker3) \<and> estado ker2 5 = Listo \<and> estado ker3 5 = Ejecutando"
proof -
  obtain bs where "fifo_despachar ker2 = Inr (ker3, bs)" using ker_despacha by blast
  then have "ker_paso commons_ej cfg_ej fscfg_ej ker2 ker3"
    by (intro ker_paso.despachar) (simp_all add: ker2_def ker1_def ker0_def ker_inicial_def)
  then have "paso_del_diagrama (estado ker2) (estado ker3)"
    using diagrama_de_estados [of commons_ej cfg_ej fscfg_ej] ker2_alcanzable unfolding ker0_def by blast
  moreover have "estado ker2 5 = Listo" "estado ker3 5 = Ejecutando" by code_simp+
  ultimately show ?thesis by simp
qed

end
