(* ===== verification/Ker_Acepta.thy ===== *)
theory Ker_Acepta
  imports Con_Consola
begin

text \<open>
  The accepting loop of the kernel (\<open>main\<close>) and the receiver thread it starts for each console
  (\<open>gestionarNuevasConexiones\<close>). The thread is given the address of the variable
  \<open>socket_consola\<close> of the loop, and reads the variable again for each call on the socket: each
  of these readings is one step, in any interleaving with the loop and the other threads.
\<close>

section \<open>The loop and its threads\<close>

text \<open>What a receiver does next; after \<open>Toma_PID\<close> the PCB has its PID.\<close>

datatype receptor = Saluda | Pide_operacion | Pide_programa | Toma_PID "string list"
  | Encola int "string list" | Rechaza | Cierra | Termino

text \<open>
  The variable of the loop is in the same place in every iteration. \<open>entrada\<close> has what each
  console sends and was not read yet; \<open>aceptados\<close> records the sockets that \<open>accept\<close> returned,
  with all that their consoles send. A socket that was closed is not given out again.
\<close>

record altas =
  socket_consola :: int
  entrada :: "int \<Rightarrow> byte list"
  receptores :: "receptor list"
  en_new :: "(int \<times> pcb) list"
  a_socket :: "(int \<times> byte list) list"
  cerrados :: "int list"
  aceptados :: "(int \<times> byte list) list"

definition altas_vacias :: altas where
  "altas_vacias = \<lparr>socket_consola = 0, entrada = (\<lambda>_. []), receptores = [], en_new = [], a_socket = [],
     cerrados = [], aceptados = []\<rparr>"

definition aceptar :: "int \<Rightarrow> byte list \<Rightarrow> altas \<Rightarrow> altas" where
  "aceptar p s e = e\<lparr>socket_consola := p, entrada := (entrada e)(p := s),
     receptores := receptores e @ [Saluda], aceptados := aceptados e @ [(p, s)]\<rparr>"

definition pcb_nuevo :: "string list \<Rightarrow> pcb" where
  "pcb_nuevo instr = \<lparr>pcb_instrucciones = instr, pcb_program_counter = 0,
     pcb_registros = replicate CANTIDAD_REGISTROS_CPU ''0000'', pcb_tablaSegmentos = [], pcb_tablaArchivos = []\<rparr>"

text \<open>One step of a receiver that finds \<open>p\<close> in the variable.\<close>

fun receptor_paso :: "int \<Rightarrow> receptor \<Rightarrow> altas \<Rightarrow> (receptor \<times> altas) res" where
  "receptor_paso p Saluda e = bind_res (recv_int (entrada e p)) (\<lambda>(handshake, r).
     Inr (Pide_operacion, e\<lparr>entrada := (entrada e)(p := r),
       a_socket := a_socket e @ [(p, enviar_int (if handshake = 1 then 1 else -1))]\<rparr>))"
| "receptor_paso p Pide_operacion e = bind_res (recibir_operacion (entrada e p)) (\<lambda>(cod_op, r).
     Inr (if cod_op = op_num MENSAJE then Cierra else if cod_op = op_num PAQUETE then Pide_programa
          else if cod_op = -1 then Rechaza else Termino, e\<lparr>entrada := (entrada e)(p := r)\<rparr>))"
| "receptor_paso p Pide_programa e = bind_res (recibir_paquete (entrada e p)) (\<lambda>(valores, r).
     bind_res (leer_c_strs valores) (\<lambda>instr. Inr (Toma_PID instr, e\<lparr>entrada := (entrada e)(p := r)\<rparr>)))"
| "receptor_paso p (Toma_PID instr) e = Inr (Encola p instr, e)"
| "receptor_paso p (Encola PID instr) e = Inr (Termino, e\<lparr>en_new := en_new e @ [(PID, pcb_nuevo instr)]\<rparr>)"
| "receptor_paso p Rechaza e = Inr (Cierra, e\<lparr>a_socket := a_socket e @ [(p, enviar_int (-1))]\<rparr>)"
| "receptor_paso p Cierra e = Inr (Termino, e\<lparr>cerrados := cerrados e @ [p]\<rparr>)"
| "receptor_paso p Termino e = Inr (Termino, e)"

text \<open>
  In the runs with \<open>propio\<close> every thread finds the socket it was started for in the variable,
  as when it ends before the next console connects; nothing in the code enforces it.
\<close>

inductive alta_paso :: "bool \<Rightarrow> altas \<Rightarrow> altas \<Rightarrow> bool" for propio where
  llega: "p \<notin> set (map fst (aceptados e)) \<Longrightarrow> alta_paso propio e (aceptar p s e)"
| avanza: "i < length (receptores e) \<Longrightarrow> receptores e ! i \<noteq> Termino \<Longrightarrow>
    propio \<longrightarrow> socket_consola e = fst (aceptados e ! i) \<Longrightarrow>
    receptor_paso (socket_consola e) (receptores e ! i) e = Inr (f, e') \<Longrightarrow>
    alta_paso propio e (e'\<lparr>receptores := (receptores e)[i := f]\<rparr>)"

inductive alta_alcanzable :: "bool \<Rightarrow> altas \<Rightarrow> bool" for propio where
  alta_inicio: "alta_alcanzable propio altas_vacias"
| alta_sigue: "alta_alcanzable propio e \<Longrightarrow> alta_paso propio e e' \<Longrightarrow> alta_alcanzable propio e'"

section \<open>What is left of a thread\<close>

text \<open>The changes made so far for the console \<open>p\<close>, in the kernel, and those still to come.\<close>

definition de_consola :: "int \<Rightarrow> altas \<Rightarrow> kernel \<Rightarrow> kernel" where
  "de_consola p e k = k\<lparr>a_consolas := a_consolas k @ filter (\<lambda>x. fst x = p) (a_socket e),
     pcbs := foldl (\<lambda>d (q, b). dictionary_put d q b) (pcbs k) (filter (\<lambda>x. fst x = p) (en_new e)),
     consolasNew := consolasNew k @ map fst (filter (\<lambda>x. fst x = p) (en_new e))\<rparr>"

definition agregar_nuevo :: "int \<Rightarrow> string list \<Rightarrow> kernel \<Rightarrow> kernel" where
  "agregar_nuevo p instr k = k\<lparr>pcbs := dictionary_put (pcbs k) p (pcb_nuevo instr), consolasNew := consolasNew k @ [p]\<rparr>"

fun completar :: "receptor \<Rightarrow> int \<Rightarrow> byte list \<Rightarrow> kernel \<Rightarrow> kernel res" where
  "completar Saluda p r k = gestionarNuevasConexiones p r k"
| "completar Pide_operacion p r k = bind_res (recibir_operacion r) (\<lambda>(cod_op, r').
     if cod_op = op_num PAQUETE then bind_res (recibir_paquete r') (\<lambda>(valores, _). bind_res (leer_c_strs valores) (\<lambda>instr.
       Inr (agregar_nuevo p instr k)))
     else if cod_op = -1 then Inr (enviar_consola p (enviar_int (-1)) k) else Inr k)"
| "completar Pide_programa p r k = bind_res (recibir_paquete r) (\<lambda>(valores, _). bind_res (leer_c_strs valores) (\<lambda>instr.
     Inr (agregar_nuevo p instr k)))"
| "completar (Toma_PID instr) p r k = Inr (agregar_nuevo p instr k)"
| "completar (Encola PID instr) p r k = Inr (agregar_nuevo PID instr k)"
| "completar Rechaza p r k = Inr (enviar_consola p (enviar_int (-1)) k)"
| "completar Cierra p r k = Inr k"
| "completar Termino p r k = Inr k"

lemma de_consola_envia:
  "de_consola p (e\<lparr>a_socket := a_socket e @ [(p, bs)]\<rparr>) k = enviar_consola p bs (de_consola p e k)"
  "de_consola p (e\<lparr>entrada := x, a_socket := a_socket e @ [(p, bs)]\<rparr>) k = enviar_consola p bs (de_consola p e k)"
  "de_consola p (e\<lparr>en_new := en_new e @ [(p, pcb_nuevo instr)]\<rparr>) k = agregar_nuevo p instr (de_consola p e k)"
  by (simp_all add: de_consola_def enviar_consola_def agregar_nuevo_def)

lemma de_consola_campos [simp]:
  "de_consola p (e\<lparr>entrada := x\<rparr>) = de_consola p e" "de_consola p (e\<lparr>cerrados := c\<rparr>) = de_consola p e"
  "de_consola p (e\<lparr>receptores := rs\<rparr>) = de_consola p e" "de_consola p (aceptar q s e) = de_consola p e"
  by (simp_all add: fun_eq_iff de_consola_def aceptar_def)

lemma completar_saluda:
  "completar Saluda p r k = bind_res (recv_int r) (\<lambda>(h, r').
     completar Pide_operacion p r' (enviar_consola p (enviar_int (if h = 1 then 1 else -1)) k))"
  unfolding completar.simps gestionarNuevasConexiones_def agregar_nuevo_def pcb_nuevo_def Let_def ..

text \<open>A step of a thread on its own socket is part of what is left of it, and touches nothing of the others.\<close>

lemma receptor_completa:
  assumes "receptor_paso p f e = Inr (f', e')" "\<forall>q instr. f = Encola q instr \<longrightarrow> q = p"
  shows "completar f p (entrada e p) (de_consola p e k) = completar f' p (entrada e' p) (de_consola p e' k) \<and>
    (\<forall>q instr. f' = Encola q instr \<longrightarrow> q = p)"
proof (cases f)
  case Saluda
  show ?thesis using assms(1) unfolding Saluda completar_saluda
    by (auto simp: bind_res_Inr_iff de_consola_envia simp del: completar.simps op_num.simps)
next
  case Pide_operacion
  then obtain cod r where c: "recibir_operacion (entrada e p) = Inr (cod, r)" using assms(1) by (auto simp: bind_res_Inr_iff)
  then have "f' = (if cod = op_num MENSAJE then Cierra else if cod = op_num PAQUETE then Pide_programa
      else if cod = -1 then Rechaza else Termino)" "e' = e\<lparr>entrada := (entrada e)(p := r)\<rparr>"
    using assms(1) Pide_operacion by (simp_all del: op_num.simps)
  then show ?thesis using c Pide_operacion by simp
next
  case Pide_programa
  then show ?thesis using assms(1) by (auto simp: bind_res_Inr_iff)
qed (use assms in \<open>auto simp: de_consola_envia\<close>)

lemma receptor_ajeno:
  assumes "receptor_paso p f e = Inr (f', e')" "\<forall>q instr. f = Encola q instr \<longrightarrow> q = p" "q \<noteq> p"
  shows "entrada e' q = entrada e q" "de_consola q e' = de_consola q e"
proof -
  have "entrada e' q = entrada e q \<and> de_consola q e' = de_consola q e"
  proof (cases f)
    case Pide_operacion
    then show ?thesis using assms(1,3) by (auto simp: bind_res_Inr_iff)
  qed (use assms in \<open>auto simp: bind_res_Inr_iff fun_eq_iff de_consola_def\<close>)
  then show "entrada e' q = entrada e q" "de_consola q e' = de_consola q e" by simp_all
qed

section \<open>Threads that find their own socket\<close>

definition hilo_en_regla :: "altas \<Rightarrow> nat \<Rightarrow> bool" where
  "hilo_en_regla e i \<longleftrightarrow> (let (p, s) = aceptados e ! i; f = receptores e ! i in
     (\<forall>k. gestionarNuevasConexiones p s k = completar f p (entrada e p) (de_consola p e k)) \<and>
     (\<forall>q instr. f = Encola q instr \<longrightarrow> q = p))"

definition altas_en_regla :: "altas \<Rightarrow> bool" where
  "altas_en_regla e \<longleftrightarrow> length (receptores e) = length (aceptados e) \<and> distinct (map fst (aceptados e)) \<and>
     fst ` set (en_new e) \<subseteq> fst ` set (aceptados e) \<and> fst ` set (a_socket e) \<subseteq> fst ` set (aceptados e) \<and>
     (\<forall>i < length (aceptados e). hilo_en_regla e i)"

lemma altas_en_reglaD:
  assumes "altas_en_regla e"
  shows "fst ` set (en_new e) \<subseteq> fst ` set (aceptados e)" "fst ` set (a_socket e) \<subseteq> fst ` set (aceptados e)"
  using assms by (simp_all add: altas_en_regla_def)

lemma receptor_campos:
  assumes "receptor_paso p f e = Inr (f', e')" "\<forall>q instr. f = Encola q instr \<longrightarrow> q = p"
  shows "receptores e' = receptores e \<and> aceptados e' = aceptados e \<and>
    fst ` set (en_new e') \<subseteq> insert p (fst ` set (en_new e)) \<and> fst ` set (a_socket e') \<subseteq> insert p (fst ` set (a_socket e))"
proof (cases f)
  case Pide_operacion
  then show ?thesis using assms(1) by (auto simp: bind_res_Inr_iff)
qed (use assms in \<open>auto simp: bind_res_Inr_iff\<close>)

lemma en_regla_llega:
  assumes r: "altas_en_regla e" and p: "p \<notin> set (map fst (aceptados e))"
  shows "altas_en_regla (aceptar p s e)"
proof -
  have l: "length (receptores e) = length (aceptados e)" using r by (simp add: altas_en_regla_def)
  have "filter (\<lambda>x. fst x = p) (en_new e) = []" "filter (\<lambda>x. fst x = p) (a_socket e) = []"
    using r p by (auto simp: altas_en_regla_def filter_empty_conv)
  then have n: "de_consola p e k = k" for k by (simp add: de_consola_def)
  have "hilo_en_regla (aceptar p s e) i" if i: "i < Suc (length (aceptados e))" for i
  proof (cases "i = length (aceptados e)")
    case True
    then show ?thesis using l n by (simp add: hilo_en_regla_def) (simp add: aceptar_def Let_def nth_append)
  next
    case False
    then have i': "i < length (aceptados e)" using i by simp
    then have "fst (aceptados e ! i) \<in> set (map fst (aceptados e))" by simp
    then have "fst (aceptados e ! i) \<noteq> p" using p by metis
    then show ?thesis using r i' l
      by (auto simp: altas_en_regla_def hilo_en_regla_def Let_def split: prod.splits) (auto simp: aceptar_def nth_append)
  qed
  then show ?thesis using r p by (auto simp: altas_en_regla_def aceptar_def)
qed

lemma en_regla_avanza:
  assumes r: "altas_en_regla e" and i: "i < length (receptores e)" and p: "p = fst (aceptados e ! i)"
    and f: "receptor_paso p (receptores e ! i) e = Inr (f, e')"
  shows "altas_en_regla (e'\<lparr>receptores := (receptores e)[i := f]\<rparr>)"
proof -
  have l: "length (receptores e) = length (aceptados e)" and d: "distinct (map fst (aceptados e))"
    using r by (simp_all add: altas_en_regla_def)
  obtain s where s: "aceptados e ! i = (p, s)" using p by (cases "aceptados e ! i") simp
  have "hilo_en_regla e i" using r i l by (simp add: altas_en_regla_def)
  then have q: "\<forall>q instr. receptores e ! i = Encola q instr \<longrightarrow> q = p"
    and g: "\<forall>k. gestionarNuevasConexiones p s k = completar (receptores e ! i) p (entrada e p) (de_consola p e k)"
    by (simp_all add: hilo_en_regla_def s Let_def)
  have c: "receptores e' = receptores e \<and> aceptados e' = aceptados e \<and>
      fst ` set (en_new e') \<subseteq> insert p (fst ` set (en_new e)) \<and> fst ` set (a_socket e') \<subseteq> insert p (fst ` set (a_socket e))"
    by (rule receptor_campos [OF f q])
  have "hilo_en_regla (e'\<lparr>receptores := (receptores e)[i := f]\<rparr>) j" if j: "j < length (aceptados e)" for j
  proof (cases "j = i")
    case True
    then show ?thesis using g receptor_completa [OF f q] i s c by (auto simp: hilo_en_regla_def)
  next
    case False
    then have n: "fst (aceptados e ! j) \<noteq> p" using d i j l p by (auto simp: distinct_conv_nth)
    have "hilo_en_regla e j" using r j by (simp add: altas_en_regla_def)
    then show ?thesis using n False c
      by (auto simp: hilo_en_regla_def Let_def receptor_ajeno [OF f q] split: prod.splits)
  qed
  moreover have "p \<in> fst ` set (aceptados e)" using s i l by (metis fst_conv imageI nth_mem)
  then have "fst ` set (en_new e') \<subseteq> fst ` set (aceptados e)" "fst ` set (a_socket e') \<subseteq> fst ` set (aceptados e)"
    using r c by (blast dest: altas_en_reglaD)+
  ultimately show ?thesis using d c l by (simp add: altas_en_regla_def)
qed

lemma en_regla_alcanzable: "alta_alcanzable propio e \<Longrightarrow> propio \<Longrightarrow> altas_en_regla e"
proof (induction rule: alta_alcanzable.induct)
  case alta_inicio
  show ?case by (simp add: altas_en_regla_def altas_vacias_def)
next
  case (alta_sigue e e')
  then show ?case by (auto elim!: alta_paso.cases intro: en_regla_llega en_regla_avanza)
qed

section \<open>Programs\<close>

definition programa_ok :: "string list \<Rightarrow> bool" where
  "programa_ok ws \<longleftrightarrow> list_all es_c_str ws \<and> int32_ok (int (length (concat (map enc_bloque ws))))"

definition envio_programa :: "string list \<Rightarrow> byte list" where
  "envio_programa ws = enviar_int 1 @ paquete_instrucciones ws"

lemma avanza_en:
  assumes "alta_alcanzable propio e" "i < length (receptores e)" "receptores e ! i \<noteq> Termino"
    "propio \<longrightarrow> socket_consola e = fst (aceptados e ! i)"
    "receptor_paso (socket_consola e) (receptores e ! i) e = Inr (f, e1)"
  shows "alta_alcanzable propio (e1\<lparr>receptores := (receptores e)[i := f]\<rparr>)"
  by (rule alta_sigue [OF assms(1) avanza [OF assms(2-5)]])

text \<open>A receiver from its start until it has read the program, with its own socket in the variable.\<close>

lemma lee_programa:
  assumes a: "alta_alcanzable propio e" and i: "i < length (receptores e)" "receptores e ! i = Saluda"
    and v: "socket_consola e = p" "fst (aceptados e ! i) = p" "entrada e p = envio_programa ws" and w: "programa_ok ws"
  shows "alta_alcanzable propio (e\<lparr>entrada := (entrada e)(p := []), a_socket := a_socket e @ [(p, enviar_int 1)],
    receptores := (receptores e)[i := Toma_PID ws]\<rparr>)"
proof -
  obtain s2 where s2: "recv_int (enviar_int 1 @ paquete_instrucciones ws) = Inr (1, paquete_instrucciones ws)"
    "recibir_operacion (paquete_instrucciones ws) = Inr (op_num PAQUETE, s2)"
    "recibir_paquete s2 = Inr (map bloque_de ws, [])" "leer_c_strs (map bloque_de ws) = Inr ws"
    by (rule programa_recibido [of ws]) (use w in \<open>simp_all add: programa_ok_def list_all_iff\<close>)
  let ?e1 = "e\<lparr>entrada := (entrada e)(p := paquete_instrucciones ws), a_socket := a_socket e @ [(p, enviar_int 1)],
    receptores := (receptores e)[i := Pide_operacion]\<rparr>"
  let ?e2 = "?e1\<lparr>entrada := (entrada ?e1)(p := s2), receptores := (receptores ?e1)[i := Pide_programa]\<rparr>"
  have 1: "alta_alcanzable propio ?e1" by (rule avanza_en [OF a i(1)]) (use i v s2(1) in \<open>simp_all add: envio_programa_def\<close>)
  have 2: "alta_alcanzable propio ?e2" by (rule avanza_en [OF 1, of i]) (use i v s2(2) in simp_all)
  have "alta_alcanzable propio (?e2\<lparr>entrada := (entrada ?e2)(p := []), receptores := (receptores ?e2)[i := Toma_PID ws]\<rparr>)"
    by (rule avanza_en [OF 2, of i]) (use i v s2(3,4) in simp_all)
  then show ?thesis by (cases e) simp
qed

text \<open>From there on with any socket \<open>q\<close> in the variable.\<close>

lemma toma_y_encola:
  assumes a: "alta_alcanzable propio e" and i: "i < length (receptores e)" "receptores e ! i = Toma_PID ws"
    and v: "socket_consola e = q" "propio \<longrightarrow> fst (aceptados e ! i) = q"
  shows "alta_alcanzable propio (e\<lparr>en_new := en_new e @ [(q, pcb_nuevo ws)], receptores := (receptores e)[i := Termino]\<rparr>)"
proof -
  let ?e1 = "e\<lparr>receptores := (receptores e)[i := Encola q ws]\<rparr>"
  have 1: "alta_alcanzable propio ?e1" by (rule avanza_en [OF a i(1)]) (use i v in simp_all)
  have "alta_alcanzable propio (?e1\<lparr>en_new := en_new ?e1 @ [(q, pcb_nuevo ws)], receptores := (receptores ?e1)[i := Termino]\<rparr>)"
    by (rule avanza_en [OF 1, of i]) (use i v in simp_all)
  then show ?thesis by (cases e) simp
qed

section \<open>The two kinds of runs\<close>

text \<open>
  C29. A receiver that always finds its own socket in the variable of the loop does, whatever the
  interleaving with the loop and with the other receivers, exactly what
  \<open>gestionarNuevasConexiones\<close> does with its console in one go.
\<close>

theorem altas_propias:
  assumes "alta_alcanzable True e" "i < length (aceptados e)" "aceptados e ! i = (p, s)" "receptores e ! i = Termino"
  shows "gestionarNuevasConexiones p s k = Inr (de_consola p e k)"
proof -
  have "hilo_en_regla e i" using en_regla_alcanzable [OF assms(1)] assms(2) by (simp add: altas_en_regla_def)
  then show ?thesis by (simp add: hilo_en_regla_def assms(3,4))
qed

theorem altas_propias_witness:
  "\<exists>k'. gestionarNuevasConexiones 5 (envio_programa [''EXIT'']) ker_vacio = Inr k' \<and> consolasNew k' = [5] \<and>
    dictionary_get (pcbs k') 5 = Some (pcb_nuevo [''EXIT''])"
proof -
  let ?s = "envio_programa [''EXIT'']"
  let ?e1 = "aceptar 5 ?s altas_vacias"
  let ?e2 = "?e1\<lparr>entrada := (entrada ?e1)(5 := []), a_socket := [(5, enviar_int 1)], receptores := [Toma_PID [''EXIT'']]\<rparr>"
  let ?e3 = "?e2\<lparr>en_new := [(5, pcb_nuevo [''EXIT''])], receptores := [Termino]\<rparr>"
  note d = aceptar_def altas_vacias_def
  have "programa_ok [''EXIT'']" by code_simp
  moreover have "alta_alcanzable True ?e1" by (rule alta_sigue [OF alta_inicio llega]) (simp add: altas_vacias_def)
  ultimately have "alta_alcanzable True ?e2" using lee_programa [of True ?e1 0 5 "[''EXIT'']"] by (simp add: d)
  from toma_y_encola [OF this, of 0 "[''EXIT'']" 5] have "alta_alcanzable True ?e3" by (simp add: d)
  then have "gestionarNuevasConexiones 5 ?s ker_vacio = Inr (de_consola 5 ?e3 ker_vacio)"
    by (rule altas_propias [of _ 0]) (simp_all add: d)
  then show ?thesis by (auto simp: de_consola_def d ker_vacio_def ker_inicial_def)
qed

text \<open>
  C30. When a console connects after the receiver of another has read its program and before it
  has read the PID, the PCB of the first gets the PID of the second: there are two processes
  with one PID, and none for the first console, which waits for an answer for ever.
\<close>

theorem altas_cruzadas:
  assumes "p \<noteq> q" "programa_ok ws" "programa_ok vs"
  shows "\<exists>e. alta_alcanzable False e \<and> aceptados e = [(p, envio_programa ws), (q, envio_programa vs)] \<and>
    receptores e = [Termino, Termino] \<and> en_new e = [(q, pcb_nuevo ws), (q, pcb_nuevo vs)]"
proof -
  let ?e1 = "aceptar p (envio_programa ws) altas_vacias"
  let ?e2 = "?e1\<lparr>entrada := (entrada ?e1)(p := []), a_socket := [(p, enviar_int 1)], receptores := [Toma_PID ws]\<rparr>"
  let ?e3 = "aceptar q (envio_programa vs) ?e2"
  let ?e4 = "?e3\<lparr>en_new := [(q, pcb_nuevo ws)], receptores := [Termino, Saluda]\<rparr>"
  let ?e5 = "?e4\<lparr>entrada := (entrada ?e4)(q := []), a_socket := [(p, enviar_int 1), (q, enviar_int 1)],
    receptores := [Termino, Toma_PID vs]\<rparr>"
  let ?e6 = "?e5\<lparr>en_new := [(q, pcb_nuevo ws), (q, pcb_nuevo vs)], receptores := [Termino, Termino]\<rparr>"
  note d = aceptar_def altas_vacias_def
  have "alta_alcanzable False ?e1" by (rule alta_sigue [OF alta_inicio llega]) (simp add: altas_vacias_def)
  from lee_programa [OF this, of 0 p ws] assms(2) have "alta_alcanzable False ?e2" by (simp add: d)
  then have "alta_alcanzable False ?e3" by (rule alta_sigue [OF _ llega]) (use assms(1) in \<open>simp add: d\<close>)
  from toma_y_encola [OF this, of 0 ws q] have "alta_alcanzable False ?e4" by (simp add: d)
  from lee_programa [OF this, of 1 q vs] assms(3) have "alta_alcanzable False ?e5" by (simp add: d)
  from toma_y_encola [OF this, of 1 vs q] have "alta_alcanzable False ?e6" by (simp add: d)
  then show ?thesis by (intro exI [of _ ?e6]) (simp add: d)
qed

theorem altas_cruzadas_witness:
  "\<exists>e. alta_alcanzable False e \<and> aceptados e = [(5, envio_programa [''EXIT'']), (6, envio_programa [''YIELD'', ''EXIT''])] \<and>
    receptores e = [Termino, Termino] \<and> en_new e = [(6, pcb_nuevo [''EXIT'']), (6, pcb_nuevo [''YIELD'', ''EXIT''])]"
proof (rule altas_cruzadas)
  show "programa_ok [''EXIT'']" "programa_ok [''YIELD'', ''EXIT'']" by code_simp+
qed simp

end
