(* ===== verification/Cpu_Programas.thy ===== *)
theory Cpu_Programas
  imports Cpu_Propiedades
begin

text \<open>
  Programs that the CPU can run: every instruction has its operands, and the last one is
  \<open>EXIT\<close>. In the style of type soundness, such a program never stops the module: each
  instruction keeps the CPU ready for the next one or gives back one context that the kernel
  can read. The only fault left is the one of the blocks of 5 bytes that the registers are
  copied to, and there is none when \<open>malloc\<close> gives such a block 17 bytes (\<open>holgado\<close>).
\<close>

section \<open>Well-formed programs\<close>

definition palabra_ok :: "string \<Rightarrow> bool" where
  "palabra_ok w \<longleftrightarrow> w \<noteq> [] \<and> CHR '' '' \<notin> set w \<and> es_c_str w \<and> length w \<le> 255"

definition direccion_ok :: "string \<Rightarrow> bool" where
  "direccion_ok w \<longleftrightarrow> 0 \<le> atoi w \<and> int32_ok (atoi w)"

text \<open>The operands of the instruction of each number of \<open>diccionario_functionsId\<close>.\<close>

definition operandos_ok :: "nat \<Rightarrow> string list \<Rightarrow> bool" where
  "operandos_ok n ops \<longleftrightarrow>
     (if n = 6 then length ops = 2 \<and> registro_de (ops ! 0) \<noteq> None \<and> direccion_ok (ops ! 1)
      else if n = 7 then length ops = 2 \<and> direccion_ok (ops ! 0)
      else if n = 11 \<or> n = 12 then length ops = 3 \<and> direccion_ok (ops ! 1) \<and> int32_ok (atoi (ops ! 2))
      else length ops = (if n = 1 \<or> n = 2 then 0 else if n = 0 \<or> n = 10 \<or> n = 13 \<or> n = 14 then 2 else 1))"

definition instruccion_ok :: "string list \<Rightarrow> bool" where
  "instruccion_ok ts \<longleftrightarrow> ts \<noteq> [] \<and> list_all palabra_ok ts \<and>
     (case dictionary_get diccionario_functionsId (hd ts) of None \<Rightarrow> True | Some n \<Rightarrow> operandos_ok n (tl ts))"

definition programa_valido :: "string list list \<Rightarrow> bool" where
  "programa_valido prog \<longleftrightarrow> prog \<noteq> [] \<and> list_all instruccion_ok prog \<and> last prog = [''EXIT'']"

definition texto :: "string list list \<Rightarrow> string list" where
  "texto prog = map (unir (CHR '' '')) prog"

section \<open>Contexts the kernel can read\<close>

definition parametros_de :: "op_code \<Rightarrow> nat" where
  "parametros_de motivo =
     (if motivo = YIELD \<or> motivo = EXIT then 0
      else if motivo = F_SEEK \<or> motivo = F_TRUNCATE \<or> motivo = CREATE_SEGMENT then 2
      else if motivo = F_READ \<or> motivo = F_WRITE then 3 else 1)"

definition llamadas :: "op_code list" where
  "llamadas = [YIELD, EXIT, I_O, WAIT, SIGNAL, F_OPEN, F_CLOSE, F_SEEK, F_READ, F_WRITE, F_TRUNCATE,
     CREATE_SEGMENT, DELETE_SEGMENT, ERROR]"

definition parametro_ok :: "string \<Rightarrow> bool" where
  "parametro_ok p \<longleftrightarrow> es_c_str p \<and> length p \<le> 400"

definition regs_guardados_ok :: "string list \<Rightarrow> bool" where
  "regs_guardados_ok rs \<longleftrightarrow> length rs = 12 \<and> list_all (\<lambda>r. es_c_str r \<and> length r \<le> 16) rs"

definition regs_buenos :: "string list \<Rightarrow> bool" where
  "regs_buenos rs \<longleftrightarrow> regs_ok rs \<and> list_all es_c_str rs"

definition devuelto :: "cpu \<Rightarrow> byte list \<Rightarrow> bool" where
  "devuelto c bs \<longleftrightarrow> (\<exists>motivo \<in> set llamadas. bs = paquete_contexto (contexto c) (op_num motivo) \<and>
     length (parametros (contexto c)) = parametros_de motivo \<and> list_all parametro_ok (parametros (contexto c)) \<and>
     regs_guardados_ok (registros (contexto c)) \<and> (motivo \<noteq> ERROR \<longrightarrow> registros (contexto c) = lista_registros c))"

text \<open>
  The blocks for registers are made for the string \<open>"0000"\<close>, 5 bytes, and the code writes up to
  17 to them. Whether it fits depends on what \<open>malloc(5)\<close> gives.
\<close>

definition holgado :: "commons \<Rightarrow> bool" where
  "holgado cm \<longleftrightarrow> 17 \<le> malloc_util cm 5"

text \<open>Ready for the next instruction; the parameters are those of the instruction when it starts.\<close>

definition cpu_lista :: "commons \<Rightarrow> cpu \<Rightarrow> bool" where
  "cpu_lista cm c \<longleftrightarrow> regs_buenos (lista_registros c) \<and> regs_guardados_ok (registros (contexto c)) \<and>
     (holgado cm \<longrightarrow> list_all2 (\<lambda>cap r. length r + 1 \<le> cap) (caps c) inicializarRegistros) \<and> \<not> interrupted c"

text \<open>One fault is possible, and only on an allocator without room to spare.\<close>

definition bien :: "commons \<Rightarrow> memConfig \<Rightarrow> cpu \<Rightarrow> memoria \<Rightarrow> efecto \<Rightarrow> bool" where
  "bien cm mcfg c m r \<longleftrightarrow> r = Inl Fuera_de_rango \<and> \<not> holgado cm \<or> (\<exists>c' m' bs us. r = Inr (c', m', bs) \<and> mem_ok mcfg m' \<and> m' = m\<lparr>user_space := us\<rparr> \<and>
     regs_buenos (lista_registros c') \<and>
     (if interrupted c' then devuelto c' bs
      else bs = [] \<and> parametros (contexto c') = [] \<and> registros (contexto c') = registros (contexto c)))"

lemma regs_buenos_guardados: "regs_buenos rs \<Longrightarrow> regs_guardados_ok rs"
  unfolding regs_buenos_def regs_guardados_ok_def
  using regs_ok_length regs_ok_reg by (fastforce simp: list_all_length split: if_splits)

lemma cpu_lista_poner [simp]: "cpu_lista cm (poner_parametros ps c) = cpu_lista cm c"
  by (simp add: cpu_lista_def poner_parametros_def)

section \<open>System calls\<close>

lemma mismos_tamanios:
  assumes "regs_buenos rs" "list_all2 (\<lambda>cap r. length r + 1 \<le> cap) cs inicializarRegistros"
  shows "list_all2 (\<lambda>cap r. length r + 1 \<le> cap) cs rs"
proof -
  have "map length rs = map length inicializarRegistros"
    using assms(1) regs_ok_inicial unfolding regs_buenos_def regs_ok_def by metis
  then have "list_all2 (\<lambda>cap n. n + 1 \<le> cap) cs (map length rs)"
    using assms(2) by (simp add: list_all2_map2)
  then show ?thesis by (simp add: list_all2_map2)
qed

lemma guardar_casos:
  assumes "cpu_lista cm c"
  obtains "guardar_registros c = Inr (c\<lparr>contexto := (contexto c)\<lparr>registros := lista_registros c\<rparr>\<rparr>)"
    | "guardar_registros c = Inl Fuera_de_rango" "\<not> holgado cm"
  using assms mismos_tamanios [of "lista_registros c" "caps c"]
  by (cases "list_all2 (\<lambda>cap r. length r + 1 \<le> cap) (caps c) (lista_registros c)")
    (auto simp: cpu_lista_def guardar_registros_def cargarRegistrosContexto_def)

lemma mem_igual: "\<exists>us. m = m\<lparr>user_space := us\<rparr>"
  by (rule exI [of _ "user_space m"]) simp

lemma devolver_bien:
  assumes "cpu_lista cm c" "mem_ok mcfg m" "motivo \<in> set llamadas"
    and "\<And>c1. parametros (contexto c1) = parametros (contexto c) \<Longrightarrow> \<exists>ps. f c1 = poner_parametros ps c1 \<and>
      length ps = parametros_de motivo \<and> list_all parametro_ok ps"
  shows "bien cm mcfg c m (interrumpir (devolver motivo f c m))"
proof (cases rule: guardar_casos [OF assms(1)])
  case 1
  let ?c1 = "c\<lparr>contexto := (contexto c)\<lparr>registros := lista_registros c\<rparr>\<rparr>"
  obtain ps where ps: "f ?c1 = poner_parametros ps ?c1" "length ps = parametros_de motivo" "list_all parametro_ok ps"
    using assms(4) [of ?c1] by auto
  have "regs_buenos (lista_registros c)" using assms(1) by (simp add: cpu_lista_def)
  then show ?thesis using assms(2,3) ps mem_igual [of m] regs_buenos_guardados
    by (auto simp: bien_def devolver_def 1 enviar_contexto_def interrumpir_def devuelto_def
        poner_parametros_def simp del: op_num.simps)
next
  case 2
  then show ?thesis by (simp add: bien_def devolver_def interrumpir_def)
qed

section \<open>Errors\<close>

lemma error_bien:
  assumes "regs_buenos (lista_registros c1)" "regs_guardados_ok (registros (contexto c1))" "mem_ok mcfg m" "parametro_ok msj"
  shows "bien cm mcfg c m (exit_process_error msj c1 m)" "bien cm mcfg c m (interrumpir (exit_process_error msj c1 m))"
proof -
  have "ERROR \<in> set llamadas" "parametros_de ERROR = 1" by (simp_all add: llamadas_def parametros_de_def)
  then show "bien cm mcfg c m (exit_process_error msj c1 m)" "bien cm mcfg c m (interrumpir (exit_process_error msj c1 m))"
    using assms mem_igual [of m]
    by (auto simp: bien_def exit_process_error_def poner_parametros_def devuelto_def interrumpir_def Let_def
        simp del: op_num.simps intro!: bexI [of _ ERROR])
qed

lemma sdiv_int32: "int32_ok a \<Longrightarrow> 0 < b \<Longrightarrow> 0 \<le> a \<Longrightarrow> int32_ok (a sdiv b)"
  using zdiv_mono2 [of a 1 b] pos_imp_zdiv_nonneg_iff [of b a] by (simp add: int32_ok_def del: pos_imp_zdiv_nonneg_iff)

lemma smod_int32: "int32_ok b \<Longrightarrow> 0 < b \<Longrightarrow> 0 \<le> a \<Longrightarrow> int32_ok (a smod b)"
  using pos_mod_bound [of b a] pos_mod_sign [of b a] by (simp add: int32_ok_def del: pos_mod_bound pos_mod_sign)

lemma MMU_desp: "snd (MMU t tabla la n) = la smod t"
  by (simp add: MMU_def Let_def split: option.split)

lemma MMU_int32: "int32_ok (fst (MMU t tabla la n))"
  by (auto simp: MMU_def Let_def suma32_def int32_ok_def split: option.split)

lemma mensaje_ok:
  assumes "length instr \<le> 10" "es_c_str instr" "int32_ok a" "int32_ok b" "int32_ok d"
  shows "parametro_ok (mensaje_seg_fault instr a b d)"
proof -
  have "es_c_str (decimal x)" for x by (rule decimal_c_str)
  moreover have "length (decimal a) \<le> 11" "length (decimal b) \<le> 11" "length (decimal d) \<le> 11"
    using assms(3-5) by (auto intro: decimal_largo)
  ultimately show ?thesis using assms(1,2) by (simp add: parametro_ok_def mensaje_seg_fault_def es_c_str_def)
qed

lemma seg_fault_bien:
  assumes c: "cpu_lista cm c1" and m: "mem_ok mcfg m" and d: "direcciones_ok cfg mcfg 16" and i: "length instr \<le> 10" "es_c_str instr"
    and la: "direccion_ok la" and tam: "int32_ok tam" and desp: "desp = atoi la smod TAM_MAX_SEGMENTO cfg"
  shows "bien cm mcfg c m (seg_fault instr (TAM_MAX_SEGMENTO cfg) la desp tam c1 m)"
    "bien cm mcfg c m (interrumpir (seg_fault instr (TAM_MAX_SEGMENTO cfg) la desp tam c1 m))"
proof -
  have t: "0 < TAM_MAX_SEGMENTO cfg" "int32_ok (TAM_MAX_SEGMENTO cfg)"
    using d mem_okD(1,7) [OF m] by (simp_all add: direcciones_ok_def int32_ok_def)
  have "parametro_ok (mensaje_seg_fault instr (atoi la sdiv TAM_MAX_SEGMENTO cfg) desp tam)"
    unfolding desp using la t tam i by (intro mensaje_ok sdiv_int32 smod_int32) (simp_all add: direccion_ok_def)
  then show "bien cm mcfg c m (seg_fault instr (TAM_MAX_SEGMENTO cfg) la desp tam c1 m)"
    "bien cm mcfg c m (interrumpir (seg_fault instr (TAM_MAX_SEGMENTO cfg) la desp tam c1 m))"
    unfolding seg_fault_def using c m by (auto intro: error_bien simp: cpu_lista_def)
qed

section \<open>Files, registers and memory\<close>

lemma f_acceso_bien:
  assumes c: "cpu_lista cm c" and m: "mem_ok mcfg m" and d: "direcciones_ok cfg mcfg 16" and cm: "commons_ok cm"
    and mot: "motivo \<in> {F_READ, F_WRITE}" and n: "length n \<le> 10" "es_c_str n"
    and ops: "palabra_ok fn" "palabra_ok la" "palabra_ok bs" "direccion_ok la" "int32_ok (atoi bs)"
  shows "bien cm mcfg c m (interrumpir (f_acceso motivo n cm cfg fn la bs c m))"
proof (cases rule: guardar_casos [OF c])
  case 1
  let ?c1 = "c\<lparr>contexto := (contexto c)\<lparr>registros := lista_registros c\<rparr>\<rparr>"
  have c1: "cpu_lista cm ?c1" using c regs_buenos_guardados by (simp add: cpu_lista_def)
  obtain pa desp where mmu: "MMU (TAM_MAX_SEGMENTO cfg) (tablaSegmentos (contexto c)) (atoi la) (atoi bs) = (pa, desp)"
    by fastforce
  have pa: "int32_ok pa" "desp = atoi la smod TAM_MAX_SEGMENTO cfg"
    using MMU_int32 [of "TAM_MAX_SEGMENTO cfg"] MMU_desp [of "TAM_MAX_SEGMENTO cfg"] mmu by (metis fst_conv, metis snd_conv)
  show ?thesis
  proof (cases "pa = -1")
    case True
    then have "f_acceso motivo n cm cfg fn la bs c m = seg_fault n (TAM_MAX_SEGMENTO cfg) la desp (atoi bs) ?c1 m"
      using mmu by (simp add: f_acceso_def 1)
    then show ?thesis using seg_fault_bien(2) [OF c1 m d n ops(4,5) pa(2)] by simp
  next
    case False
    have "list_all parametro_ok [fn, string_itoa cm pa, bs]"
      using ops string_itoa_c_str [OF cm pa(1)] string_itoa_largo [OF cm pa(1)] by (auto simp: parametro_ok_def palabra_ok_def)
    moreover have "motivo \<in> set llamadas" "parametros_de motivo = 3"
      using mot by (auto simp: llamadas_def parametros_de_def)
    moreover have "regs_buenos (lista_registros c)" using c by (simp add: cpu_lista_def)
    ultimately show ?thesis using mmu False m mem_igual [of m] regs_buenos_guardados
      by (auto simp: bien_def f_acceso_def 1 enviar_contexto_def interrumpir_def poner_parametros_def
          devuelto_def simp del: op_num.simps)
  qed
next
  case 2
  then show ?thesis by (simp add: bien_def f_acceso_def interrumpir_def)
qed

lemma es_c_str_cargar: "es_c_str r \<Longrightarrow> es_c_str v \<Longrightarrow> es_c_str (cargar_valor r v)"
  by (auto simp: cargar_valor_def es_c_str_def dest: in_set_dropD)

lemma set_reg_bien:
  assumes "set_reg regs r v = Some (regs', x)" "regs_buenos regs" "es_c_str v"
  shows "regs_buenos regs'"
proof -
  obtain i where i: "registro_de r = Some i" "regs' = regs[i := cargar_valor (regs ! i) v]"
    using assms(1) by (auto simp: set_reg_def Let_def split: option.splits)
  have "i < length regs" using registro_de_less [OF i(1)] assms(2) regs_ok_length by (simp add: regs_buenos_def)
  then have "es_c_str (cargar_valor (regs ! i) v)"
    using assms(2,3) by (intro es_c_str_cargar) (simp_all add: regs_buenos_def list_all_length)
  then show ?thesis using assms(2) i(2) regs_ok_update
    by (auto simp: regs_buenos_def list_all_iff dest!: set_update_subset_insert [THEN subsetD])
qed

lemma set_bien:
  assumes c: "cpu_lista cm c" "parametros (contexto c) = []" and m: "mem_ok mcfg m" and p: "palabra_ok r" "palabra_ok v"
  shows "bien cm mcfg c m (ejecutar_set r v c m)"
proof (cases "set_reg (lista_registros c) r v")
  case None
  have "parametro_ok (''SET: No se encontr'' @ [CHR 0xC3, CHR 0xB3] @ '' el registro '' @ r)"
    using p(1) by (simp add: parametro_ok_def palabra_ok_def es_c_str_def)
  then show ?thesis using c m by (simp add: ejecutar_set_def None error_bien cpu_lista_def)
next
  case (Some x)
  obtain regs n where x: "x = (regs, n)" by fastforce
  have b: "regs_buenos regs" by (rule set_reg_bien [OF Some [unfolded x]]) (use c p in \<open>simp_all add: cpu_lista_def palabra_ok_def\<close>)
  have "parametro_ok (''SET: Overflow de registro '' @ r)" using p(1) by (simp add: parametro_ok_def palabra_ok_def es_c_str_def)
  then have "bien cm mcfg c m (exit_process_error (''SET: Overflow de registro '' @ r) (c\<lparr>lista_registros := regs\<rparr>) m)"
    using c m b by (intro error_bien) (simp_all add: cpu_lista_def)
  then show ?thesis using c m b mem_igual [of m] by (auto simp: ejecutar_set_def Some x bien_def cpu_lista_def)
qed

lemma reg_bueno:
  assumes "cpu_lista cm c" "registro_de r = Some i"
  shows "0 < length (lista_registros c ! i)" "length (lista_registros c ! i) \<le> 16"
  using regs_ok_reg [of "lista_registros c" i] registro_de_less [OF assms(2)] assms(1)
  by (auto simp: cpu_lista_def regs_buenos_def split: if_splits)

lemma es_c_str_c_str: "es_c_str (c_str b)"
  by (auto simp: es_c_str_def c_str_def dest: set_takeWhileD)

lemma MMU_rango:
  assumes "mem_ok mcfg m" "direcciones_ok cfg mcfg n" "0 \<le> la"
    "MMU (TAM_MAX_SEGMENTO cfg) (tabla_de m k) la n = (dir, desp)" "dir \<noteq> -1"
  shows "0 \<le> dir" "dir + n \<le> TAM_MEMORIA mcfg"
  by (rule MMU_en_memoria [OF assms], linarith)+

lemma mov_in_bien:
  assumes c: "cpu_lista cm c" "parametros (contexto c) = []" "tablaSegmentos (contexto c) = tabla_de m k"
    and m: "mem_ok mcfg m" and d: "direcciones_ok cfg mcfg 16"
    and r: "registro_de r \<noteq> None" and la: "direccion_ok la"
  shows "bien cm mcfg c m (mov_in cm cfg r la c m)"
proof -
  obtain i where i: "registro_de r = Some i" using r by blast
  let ?n = "int (length (lista_registros c ! i))"
  note n = reg_bueno [OF c(1) i]
  obtain pa desp where mmu: "MMU (TAM_MAX_SEGMENTO cfg) (tabla_de m k) (atoi la) ?n = (pa, desp)" by fastforce
  have desp: "desp = atoi la smod TAM_MAX_SEGMENTO cfg" using MMU_desp mmu by (metis snd_conv)
  show ?thesis
  proof (cases "pa = -1")
    case True
    have "int32_ok ?n" using n by (simp add: int32_ok_def)
    then have "bien cm mcfg c m (seg_fault ''MOV_IN'' (TAM_MAX_SEGMENTO cfg) la desp ?n c m)"
      by (intro seg_fault_bien [OF c(1) m d _ _ la _ desp]) (simp_all add: es_c_str_def)
    then show ?thesis using mmu True by (simp add: mov_in_def i c(3) Let_def)
  next
    case False
    have d': "direcciones_ok cfg mcfg ?n" using d n by (simp add: direcciones_ok_def)
    have la0: "0 \<le> atoi la" using la by (simp add: direccion_ok_def)
    note s = MMU_rango [OF m d' la0 mmu False]
    have i32: "int32_ok pa" "int32_ok ?n" using s mem_okD(7) [OF m] n by (simp_all add: int32_ok_def)
    obtain v where "mem_leer m pa ?n = Inr v"
      using s n mem_okD(1) [OF m] uspace.leer_ok_iff [of m pa ?n] by (auto simp: es_ok_iff)
    then have at: "atender_cpu m (send_movin_petition pa ?n) = Inr (m, v, [])"
      using i32 atender_usuario_lee [of pa ?n MOV_IN MOV_OUT m "[]"] by (simp add: envios_usuario)
    obtain regs x where x: "set_reg (lista_registros c) r (c_str (v @ [NUL])) = Some (regs, x)"
      by (auto simp: set_reg_def i Let_def)
    have "regs_buenos regs" by (rule set_reg_bien [OF x]) (use c in \<open>simp_all add: cpu_lista_def es_c_str_c_str\<close>)
    then show ?thesis using mmu False at x n(2) c m mem_igual [of m]
      by (auto simp: mov_in_def i c(3) Let_def bien_def cpu_lista_def holgado_def)
  qed
qed

lemma mov_out_bien:
  assumes c: "cpu_lista cm c" "parametros (contexto c) = []" "tablaSegmentos (contexto c) = tabla_de m k"
    and m: "mem_ok mcfg m" and d: "direcciones_ok cfg mcfg 16" and r: "palabra_ok r" and la: "direccion_ok la"
  shows "bien cm mcfg c m (mov_out cfg r la c m)"
proof (cases "registro_de r")
  case None
  have "parametro_ok (''MOV_OUT: No se encontr'' @ [CHR 0xC3, CHR 0xB3] @ '' el registro '' @ r)"
    using r by (simp add: parametro_ok_def palabra_ok_def es_c_str_def)
  then show ?thesis using c m by (simp add: mov_out_def None error_bien cpu_lista_def)
next
  case (Some i)
  let ?reg = "lista_registros c ! i"
  note n = reg_bueno [OF c(1) Some]
  obtain pa desp where mmu: "MMU (TAM_MAX_SEGMENTO cfg) (tabla_de m k) (atoi la) (int (length ?reg)) = (pa, desp)" by fastforce
  have desp: "desp = atoi la smod TAM_MAX_SEGMENTO cfg" using MMU_desp mmu by (metis snd_conv)
  show ?thesis
  proof (cases "pa = -1")
    case True
    have "int32_ok (int (length ?reg))" using n by (simp add: int32_ok_def)
    then have "bien cm mcfg c m (seg_fault ''MOV_OUT'' (TAM_MAX_SEGMENTO cfg) la desp (int (length ?reg)) c m)"
      by (intro seg_fault_bien [OF c(1) m d _ _ la _ desp]) (simp_all add: es_c_str_def)
    then show ?thesis using mmu True by (simp add: mov_out_def Some c(3) Let_def)
  next
    case False
    have d': "direcciones_ok cfg mcfg (int (length ?reg))" using d n by (simp add: direcciones_ok_def)
    have la0: "0 \<le> atoi la" using la by (simp add: direccion_ok_def)
    note s = MMU_rango [OF m d' la0 mmu False]
    obtain m' where m': "mem_escribir m pa ?reg = Inr m'" "mem_ok mcfg m'"
      "atender_cpu m (send_movout_petition pa ?reg (int (length ?reg))) = Inr (m', enviar_int 1, [])"
      by (rule atender_movout [OF m, of pa ?reg]) (use s n in auto)
    then have "mov_out cfg r la c m = Inr (c, m', [])" using mmu False recv_int_enc [of 1 "[]"]
      by (simp add: mov_out_def Some c(3) Let_def enviar_int_def)
    moreover have "\<exists>us. m' = m\<lparr>user_space := us\<rparr>" using m'(1) by (auto simp: mem_escribir_def bind_res_Inr_iff)
    ultimately show ?thesis using m'(2) c by (auto simp: bien_def cpu_lista_def)
  qed
qed

section \<open>The cycle\<close>

lemma poner_mismos: "poner_parametros (parametros (contexto c)) c = c"
  by (simp add: poner_parametros_def)

lemma syscalls_bien:
  assumes c: "cpu_lista cm c" "parametros (contexto c) = []" and m: "mem_ok mcfg m" and p: "palabra_ok a" "palabra_ok b"
  shows "bien cm mcfg c m (interrumpir (yield c m))" "bien cm mcfg c m (interrumpir (exit_process c m))"
    "bien cm mcfg c m (interrumpir (i_o a c m))" "bien cm mcfg c m (interrumpir (wait_process a c m))"
    "bien cm mcfg c m (interrumpir (signal_process a c m))" "bien cm mcfg c m (interrumpir (f_open a c m))"
    "bien cm mcfg c m (interrumpir (f_close a c m))" "bien cm mcfg c m (interrumpir (f_seek a b c m))"
    "bien cm mcfg c m (interrumpir (f_truncate a b c m))" "bien cm mcfg c m (interrumpir (cpu_create_segment a b c m))"
    "bien cm mcfg c m (interrumpir (cpu_delete_segment a c m))"
proof -
  have ab: "parametro_ok a" "parametro_ok b" using p by (simp_all add: parametro_ok_def palabra_ok_def)
  have "bien cm mcfg c m (interrumpir (devolver motivo (\<lambda>c. c) c m))" if "motivo \<in> {YIELD, EXIT}" for motivo
    by (rule devolver_bien [OF c(1) m])
      (use that c(2) poner_mismos in \<open>auto simp: llamadas_def parametros_de_def intro!: exI [of _ "[]"], metis+\<close>)
  moreover have "bien cm mcfg c m (interrumpir (devolver I_O (\<lambda>c. poner_parametros (parametros (contexto c) @ [a]) c) c m))"
    by (rule devolver_bien [OF c(1) m]) (use c(2) ab in \<open>auto simp: llamadas_def parametros_de_def\<close>)
  moreover have "bien cm mcfg c m (interrumpir (devolver motivo (poner_parametros ps) c m))"
    if "motivo \<in> set llamadas" "length ps = parametros_de motivo" "list_all parametro_ok ps" for motivo ps
    by (rule devolver_bien [OF c(1) m that(1)]) (use that in auto)
  ultimately show "bien cm mcfg c m (interrumpir (yield c m))" "bien cm mcfg c m (interrumpir (exit_process c m))"
    "bien cm mcfg c m (interrumpir (i_o a c m))" "bien cm mcfg c m (interrumpir (wait_process a c m))"
    "bien cm mcfg c m (interrumpir (signal_process a c m))" "bien cm mcfg c m (interrumpir (f_open a c m))"
    "bien cm mcfg c m (interrumpir (f_close a c m))" "bien cm mcfg c m (interrumpir (f_seek a b c m))"
    "bien cm mcfg c m (interrumpir (f_truncate a b c m))" "bien cm mcfg c m (interrumpir (cpu_create_segment a b c m))"
    "bien cm mcfg c m (interrumpir (cpu_delete_segment a c m))"
    using ab by (auto simp: syscall_defs llamadas_def parametros_de_def)
qed

lemma bien_poner [simp]: "bien cm mcfg (poner_parametros ps c) m r = bien cm mcfg c m r"
  by (simp add: bien_def poner_parametros_def)

lemma poner_campos [simp]:
  "parametros (contexto (poner_parametros ps c)) = ps" "poner_parametros ps (poner_parametros qs c) = poner_parametros ps c"
  "tablaSegmentos (contexto (poner_parametros ps c)) = tablaSegmentos (contexto c)"
  by (simp_all add: poner_parametros_def)

text \<open>The instruction \<open>n\<close> with its operands, which it takes from the parameters.\<close>

lemma ejecutar_bien:
  assumes c: "cpu_lista cm c" "parametros (contexto c) = ops" "tablaSegmentos (contexto c) = tabla_de m k"
    and m: "mem_ok mcfg m" and d: "direcciones_ok cfg mcfg 16" and cm: "commons_ok cm"
    and n: "n \<in> set (map snd diccionario_functionsId)" "operandos_ok n ops" "list_all palabra_ok ops"
  shows "bien cm mcfg c m (ejecutar cm cfg n c m)"
proof -
  let ?c = "poner_parametros [] c"
  have l: "cpu_lista cm ?c" "parametros (contexto ?c) = []" "tablaSegmentos (contexto ?c) = tabla_de m k" using c by simp_all
  have c0: "ops = [] \<Longrightarrow> c = ?c" using poner_mismos [of c] c(2) by simp
  have s: "palabra_ok ''a''" by (simp add: palabra_ok_def es_c_str_def)
  note sys = syscalls_bien [OF l(1,2) m, unfolded bien_poner]
  consider "n = 0 \<or> n = 6 \<or> n = 7 \<or> n = 10 \<or> n = 13 \<or> n = 14" | "n = 1 \<or> n = 2" | "n = 11 \<or> n = 12"
    | "n = 3 \<or> n = 4 \<or> n = 5 \<or> n = 8 \<or> n = 9 \<or> n = 15"
    using n(1) unfolding diccionario_functionsId_def by (simp only: list.map prod.sel list.set insert_iff empty_iff) blast
  then show ?thesis
  proof cases
    case 1
    then have "length ops = 2" using n(2) by (auto simp: operandos_ok_def)
    then obtain a b where ops: "ops = [a, b]" by (auto simp: length_Suc_conv numeral_2_eq_2)
    then have p: "palabra_ok a" "palabra_ok b" using n(3) by simp_all
    show ?thesis using 1
      by (elim disjE) (use n(2) sys(8-10) [OF p] set_bien [OF l(1,2) m p] mov_in_bien [OF l m d, of a b]
          mov_out_bien [OF l m d p(2), of a] in \<open>simp_all add: ejecutar_def con_parametro_def c(2) ops operandos_ok_def\<close>)
  next
    case 2
    then have "ops = []" using n(2) by (auto simp: operandos_ok_def)
    then show ?thesis using 2 sys(1,2) [OF s s] c0 by (auto simp: ejecutar_def)
  next
    case 3
    then have "length ops = 3" using n(2) by (auto simp: operandos_ok_def)
    then obtain f a b where ops: "ops = [f, a, b]" by (auto simp: length_Suc_conv numeral_3_eq_3)
    have o: "direccion_ok a" "int32_ok (atoi b)" "palabra_ok f" "palabra_ok a" "palabra_ok b"
      using 3 n(2,3) by (auto simp: operandos_ok_def ops)
    have "bien cm mcfg ?c m (interrumpir (f_acceso mot nm cm cfg f a b ?c m))"
      if "mot \<in> {F_READ, F_WRITE}" "length nm \<le> 10" "es_c_str nm" for mot nm
      by (rule f_acceso_bien [OF l(1) m d cm that o(3-5,1,2)])
    from this [of F_READ "''F_READ''"] this [of F_WRITE "''F_WRITE''"]
    have "bien cm mcfg c m (interrumpir (f_acceso F_READ ''F_READ'' cm cfg f a b ?c m))"
      "bien cm mcfg c m (interrumpir (f_acceso F_WRITE ''F_WRITE'' cm cfg f a b ?c m))"
      by (simp_all add: es_c_str_def)
    then show ?thesis using 3 by (auto simp: ejecutar_def con_parametro_def c(2) ops f_read_def f_write_def)
  next
    case 4
    then have "length ops = 1" using n(2) by (auto simp: operandos_ok_def)
    then obtain a where ops: "ops = [a]" by (auto simp: length_Suc_conv)
    then have p: "palabra_ok a" using n(3) by simp
    show ?thesis using 4
      by (elim disjE) (use sys(3-7,11) [OF p s] in \<open>simp_all add: ejecutar_def con_parametro_def c(2) ops\<close>)
  qed
qed

text \<open>
  One turn of the cycle: the CPU is ready for the next instruction, or it has given back a
  context; the instruction \<open>EXIT\<close> always gives it back.
\<close>

definition en_curso :: "commons \<Rightarrow> memConfig \<Rightarrow> string \<Rightarrow> string list list \<Rightarrow> cpu \<Rightarrow> memoria \<Rightarrow> bool" where
  "en_curso cm mcfg k prog c m \<longleftrightarrow> cpu_lista cm c \<and> parametros (contexto c) = [] \<and> tablaSegmentos (contexto c) = tabla_de m k \<and>
     mem_ok mcfg m \<and> instrucciones (contexto c) = texto prog \<and>
     0 \<le> program_counter (contexto c) \<and> program_counter (contexto c) < int (length prog)"

lemma unir_inj_ej: "unir (CHR '' '') [w] = w"
  by simp

lemma ciclo_bien:
  assumes e: "en_curso cm mcfg k prog c m" and pr: "programa_valido prog"
    and d: "direcciones_ok cfg mcfg 16" and cm: "commons_ok cm"
  shows "bien cm mcfg c m (ciclo cm cfg c m)"
    and "prog ! nat (program_counter (contexto c)) = [''EXIT''] \<Longrightarrow> ciclo cm cfg c m = Inr (c', m', bs) \<Longrightarrow>
      interrupted c' \<and> bs = paquete_contexto (contexto c') (op_num EXIT)"
proof -
  let ?pc = "program_counter (contexto c)"
  let ?ts = "prog ! nat ?pc"
  let ?c1 = "c\<lparr>contexto := (contexto c)\<lparr>program_counter := ?pc + 1\<rparr>\<rparr>"
  have pc: "nat ?pc < length prog" "0 \<le> ?pc" "?pc < int (length (instrucciones (contexto c)))"
    using e by (auto simp: en_curso_def texto_def)
  have f: "fetch c = Inr (unir (CHR '' '') ?ts, ?c1)" using e pc by (simp add: fetch_def Let_def en_curso_def texto_def)
  have i: "instruccion_ok ?ts" using pr pc(1) by (simp add: programa_valido_def list_all_length)
  then obtain tok ops where ts: "?ts = tok # ops" by (cases ?ts) (auto simp: instruccion_ok_def)
  have w: "list_all palabra_ok (tok # ops)" using i by (simp add: instruccion_ok_def ts)
  then have "string_split cm (unir (CHR '' '') ?ts) '' '' = tok # ops"
    using string_split_unir [OF cm, of ?ts] by (auto simp: ts palabra_ok_def list_all_iff)
  moreover have l: "cpu_lista cm ?c1" "parametros (contexto ?c1) = []" "tablaSegmentos (contexto ?c1) = tabla_de m k" "mem_ok mcfg m"
    using e by (simp_all add: en_curso_def cpu_lista_def)
  ultimately have r: "ciclo cm cfg c m = (case dictionary_get diccionario_functionsId tok of
      None \<Rightarrow> exit_process_error (''No se reconoci'' @ [CHR 0xC3, CHR 0xB3] @ '' la instrucci''
                 @ [CHR 0xC3, CHR 0xB3] @ ''n '' @ tok) (poner_parametros ops ?c1) m
    | Some n \<Rightarrow> ejecutar cm cfg n (poner_parametros ops ?c1) m)"
    by (simp add: ciclo_def f Let_def split: option.split)
  have b: "bien cm mcfg ?c1 m x = bien cm mcfg c m x" for x by (simp add: bien_def)
  show "bien cm mcfg c m (ciclo cm cfg c m)"
  proof (cases "dictionary_get diccionario_functionsId tok")
    case None
    have "parametro_ok (''No se reconoci'' @ [CHR 0xC3, CHR 0xB3] @ '' la instrucci'' @ [CHR 0xC3, CHR 0xB3] @ ''n '' @ tok)"
      using w by (simp add: parametro_ok_def palabra_ok_def es_c_str_def)
    then show ?thesis using l by (simp add: r None error_bien cpu_lista_def poner_parametros_def)
  next
    case (Some n)
    then have "n \<in> set (map snd diccionario_functionsId)" by (force simp: dictionary_get_def dest: map_of_SomeD)
    moreover have "operandos_ok n ops" "list_all palabra_ok ops" using i Some by (simp_all add: instruccion_ok_def ts)
    ultimately have "bien cm mcfg (poner_parametros ops ?c1) m (ejecutar cm cfg n (poner_parametros ops ?c1) m)"
      by (intro ejecutar_bien [OF _ _ _ l(4) d cm]) (use l in simp_all)
    then show ?thesis by (simp add: r Some b)
  qed
  show "interrupted c' \<and> bs = paquete_contexto (contexto c') (op_num EXIT)" if "?ts = [''EXIT'']" "ciclo cm cfg c m = Inr (c', m', bs)"
  proof -
    have "tok = ''EXIT''" using that(1) ts by simp
    then have "ciclo cm cfg c m = interrumpir (exit_process (poner_parametros ops ?c1) m)"
      by (simp add: r dictionary_get_def diccionario_functionsId_def ejecutar_def)
    then have "interrumpir (exit_process (poner_parametros ops ?c1) m) = Inr (c', m', bs)" using that(2) by metis
    then show ?thesis
      by (auto simp: interrumpir_def exit_process_def devolver_def enviar_contexto_def bind_res_Inr_iff simp del: op_num.simps)
  qed
qed

text \<open>What the whole loop gives.\<close>

definition turno_de_cpu :: "memConfig \<Rightarrow> cpu \<Rightarrow> memoria \<Rightarrow> cpu \<Rightarrow> memoria \<Rightarrow> byte list \<Rightarrow> bool" where
  "turno_de_cpu mcfg c m c' m' bs \<longleftrightarrow> interrupted c' \<and> devuelto c' bs \<and> regs_buenos (lista_registros c') \<and>
     mem_ok mcfg m' \<and> (\<exists>us. m' = m\<lparr>user_space := us\<rparr>) \<and> ctx_PID (contexto c') = ctx_PID (contexto c) \<and>
     instrucciones (contexto c') = instrucciones (contexto c) \<and> tablaSegmentos (contexto c') = tablaSegmentos (contexto c) \<and>
     program_counter (contexto c) < program_counter (contexto c') \<and>
     program_counter (contexto c') \<le> int (length (instrucciones (contexto c))) \<and>
     (program_counter (contexto c') < int (length (instrucciones (contexto c))) \<or>
       bs = paquete_contexto (contexto c') (op_num EXIT))"

lemma tabla_de_us: "tabla_de (m\<lparr>user_space := us\<rparr>) k = tabla_de m k"
  by (simp add: tabla_de_def split: option.split)

lemma bucle_bien:
  assumes "en_curso cm mcfg k prog c m" and pr: "programa_valido prog"
    and d: "direcciones_ok cfg mcfg 16" and cm: "commons_ok cm"
  shows "cpu_bucle cm cfg c m [] = Some (Inl Fuera_de_rango) \<and> \<not> holgado cm \<or>
    (\<exists>c' m' bs. cpu_bucle cm cfg c m [] = Some (Inr (c', m', bs)) \<and> turno_de_cpu mcfg c m c' m' bs)"
  using assms(1)
proof (induction "nat (int (length prog) - program_counter (contexto c))" arbitrary: c m rule: less_induct)
  case less
  let ?pc = "program_counter (contexto c)"
  have c: "cpu_lista cm c" "\<not> interrupted c" "instrucciones (contexto c) = texto prog" "tablaSegmentos (contexto c) = tabla_de m k"
    "0 \<le> ?pc" "?pc < int (length prog)"
    using less.prems by (simp_all add: en_curso_def cpu_lista_def)
  show ?case
  proof (cases "ciclo cm cfg c m = Inl Fuera_de_rango \<and> \<not> holgado cm")
    case True
    then show ?thesis by (simp add: cpu_bucle.simps c(2))
  next
    case no: False
    obtain c1 m1 bs us where r: "ciclo cm cfg c m = Inr (c1, m1, bs)" "mem_ok mcfg m1" "m1 = m\<lparr>user_space := us\<rparr>"
      "regs_buenos (lista_registros c1)" "if interrupted c1 then devuelto c1 bs
         else bs = [] \<and> parametros (contexto c1) = [] \<and> registros (contexto c1) = registros (contexto c)"
      using ciclo_bien(1) [OF less.prems pr d cm] no by (auto simp: bien_def)
    note o = ciclo_ok [OF c(2) r(1)]
    have u: "prog ! (length prog - 1) = [''EXIT'']" using pr by (metis last_conv_nth programa_valido_def)
    have fin: "?pc + 1 < int (length prog) \<or> interrupted c1 \<and> bs = paquete_contexto (contexto c1) (op_num EXIT)"
    proof (cases "nat ?pc = length prog - 1")
      case True
      then show ?thesis using ciclo_bien(2) [OF less.prems pr d cm _ r(1)] u by metis
    next
      case False
      then show ?thesis using c(5,6) by linarith
    qed
    show ?thesis
    proof (cases "interrupted c1")
      case True
      then have "cpu_bucle cm cfg c m [] = Some (Inr (c1, m1, bs))" by (simp add: cpu_bucle.simps c(2) r(1))
      moreover have "turno_de_cpu mcfg c m c1 m1 bs" using True r o c fin by (auto simp: turno_de_cpu_def texto_def)
      ultimately show ?thesis by blast
    next
      case False
      have pc: "?pc + 1 < int (length prog)" using fin False by blast
      have e: "en_curso cm mcfg k prog c1 m1"
        using less.prems r o pc False by (simp add: en_curso_def cpu_lista_def tabla_de_us)
      have b: "cpu_bucle cm cfg c m [] = cpu_bucle cm cfg c1 m1 []" using r(1,5) False by (simp add: cpu_bucle.simps [of _ _ c] c(2))
      have "turno_de_cpu mcfg c m c' m' bs'" if "turno_de_cpu mcfg c1 m1 c' m' bs'" for c' m' bs'
        using that o r(3) by (auto simp: turno_de_cpu_def)
      moreover have "nat (int (length prog) - program_counter (contexto c1)) < nat (int (length prog) - ?pc)" using o(4) c(6) by simp
      ultimately show ?thesis using less.hyps [OF _ e] unfolding b by blast
    qed
  qed
qed

end
