(* ===== verification/Ker_Turno.thy ===== *)
theory Ker_Turno
  imports Cpu_Programas Ker_Claves
begin

text \<open>
  A turn of a process through three modules: the scheduler of the kernel sends its context
  (\<open>enviar_PCB\<close>), the CPU loads it, runs the program against the memory module and sends a
  context back (\<open>cpu_atender\<close>), and the kernel reads it into the PCB (\<open>recibir_PCB\<close>). For a
  well-formed program the turn always ends, or one register does not fit in the 5 bytes that
  were asked for it (\<open>holgado\<close>); the next turn goes on where it ended; and it is an execution of the transition system of
  \<open>Ker_Hilos\<close>, the requests of the CPU one by one.
\<close>

section \<open>Processes that can run\<close>

text \<open>Registers of a PCB that the CPU loads whole: those it saved, or the \<open>"0000"\<close> of a new process.\<close>

definition registros_caben :: "string list \<Rightarrow> bool" where
  "registros_caben rs \<longleftrightarrow> list_all2 (\<lambda>v r. es_c_str v \<and> (length v = 4 \<or> length v = length r)) rs inicializarRegistros"

definition contexto_cabe :: "string list \<Rightarrow> segmento list \<Rightarrow> bool" where
  "contexto_cabe instr tabla \<longleftrightarrow> int (sum_list (map (\<lambda>s. length s + 5) instr)) + 12 * int (length tabla) + 4000 < 2147483648 \<and>
     list_all segmento_ok tabla"

definition pcb_enviable :: "string list list \<Rightarrow> int \<Rightarrow> pcb \<Rightarrow> bool" where
  "pcb_enviable prog p b \<longleftrightarrow> programa_valido prog \<and> pcb_instrucciones b = texto prog \<and>
     0 \<le> pcb_program_counter b \<and> pcb_program_counter b < int (length prog) \<and> registros_caben (pcb_registros b) \<and>
     contexto_cabe (texto prog) (pcb_tablaSegmentos b) \<and> int32_ok p"

definition pcb_listo :: "commons \<Rightarrow> memoria \<Rightarrow> string list list \<Rightarrow> int \<Rightarrow> pcb \<Rightarrow> bool" where
  "pcb_listo cm m prog p b \<longleftrightarrow> pcb_enviable prog p b \<and> pcb_tablaSegmentos b = tabla_de m (string_itoa cm p)"

lemma registros_caben_inicial: "registros_caben (replicate CANTIDAD_REGISTROS_CPU ''0000'')"
  by (simp add: registros_caben_def inicializarRegistros_def CANTIDAD_REGISTROS_CPU_def list_all2_conv_all_nth nth_append es_c_str_def)

lemma regs_ok_tamanios: "regs_ok rs \<Longrightarrow> regs_ok rs' \<Longrightarrow> i < 12 \<Longrightarrow> length (rs ! i) = length (rs' ! i)"
  using regs_ok_reg [of rs i] regs_ok_reg [of rs' i] by simp

lemma registros_cabenD:
  assumes "registros_caben rs"
  shows "length rs = 12" "i < 12 \<Longrightarrow> es_c_str (rs ! i) \<and> length (rs ! i) \<le> length (inicializarRegistros ! i) \<and>
    (length (rs ! i) = 4 \<or> length (rs ! i) = length (inicializarRegistros ! i))"
proof -
  show l: "length rs = 12"
    using assms regs_ok_length [OF regs_ok_inicial] by (auto simp: registros_caben_def dest: list_all2_lengthD)
  show "i < 12 \<Longrightarrow> es_c_str (rs ! i) \<and> length (rs ! i) \<le> length (inicializarRegistros ! i) \<and>
    (length (rs ! i) = 4 \<or> length (rs ! i) = length (inicializarRegistros ! i))"
    using assms l regs_ok_reg [OF regs_ok_inicial, of i] list_all2_nthD [of _ rs inicializarRegistros i]
    by (fastforce simp: registros_caben_def split: if_splits)
qed

lemma registros_caben_buenos:
  assumes "regs_buenos rs"
  shows "registros_caben rs"
proof -
  have r: "regs_ok rs" "list_all es_c_str rs" using assms by (simp_all add: regs_buenos_def)
  have "es_c_str (rs ! i) \<and> length (rs ! i) = length (inicializarRegistros ! i)" if "i < 12" for i
    using r that regs_ok_length [OF r(1)] regs_ok_tamanios [OF r(1) regs_ok_inicial that] by (simp add: list_all_length)
  then show ?thesis using regs_ok_length [OF r(1)] regs_ok_length [OF regs_ok_inicial]
    by (simp add: registros_caben_def list_all2_conv_all_nth)
qed

lemma registros_caben_guardados:
  assumes "registros_caben rs"
  shows "regs_guardados_ok rs"
proof -
  have "length (inicializarRegistros ! i) \<le> 16" if "i < 12" for i
    using regs_ok_reg [OF regs_ok_inicial that] by simp
  then show ?thesis using registros_cabenD [OF assms] order_trans
    by (fastforce simp: regs_guardados_ok_def list_all_length)
qed

section \<open>What the CPU loads\<close>

text \<open>The registers do not depend on what the last process left in the CPU.\<close>

definition registros_cargados :: "string list \<Rightarrow> string list" where
  "registros_cargados rs = map2 cargar_valor inicializarRegistros rs"

lemma cargar_ignora: "length r = length r' \<Longrightarrow> length v \<le> length r \<Longrightarrow> cargar_valor r v = cargar_valor r' v"
  by (simp add: cargar_valor_def)

lemma carga:
  assumes "regs_ok regs" "registros_caben rs"
  shows "cargarRegistros regs rs = Inr (registros_cargados rs)"
proof -
  have l: "length regs = 12" "length rs = 12" "length inicializarRegistros = 12"
    using assms(1) registros_cabenD(1) [OF assms(2)] by (simp_all add: regs_ok_length regs_ok_inicial)
  have "map2 cargar_valor regs rs = registros_cargados rs"
    unfolding registros_cargados_def
  proof (rule nth_equalityI)
    fix i assume "i < length (map2 cargar_valor regs rs)"
    then have i: "i < 12" using l by simp
    have "length (regs ! i) = length (inicializarRegistros ! i)" by (rule regs_ok_tamanios [OF assms(1) regs_ok_inicial i])
    moreover have "length (rs ! i) \<le> length (inicializarRegistros ! i)" using registros_cabenD(2) [OF assms(2) i] by simp
    ultimately show "map2 cargar_valor regs rs ! i = map2 cargar_valor inicializarRegistros rs ! i"
      using i l cargar_ignora [of "regs ! i" "inicializarRegistros ! i" "rs ! i"] by simp
  qed (use l in simp)
  then show ?thesis using cargarRegistros_ok [OF l(1,2)] by simp
qed

lemma cargados_buenos:
  assumes "registros_caben rs"
  shows "regs_buenos (registros_cargados rs)"
proof -
  have l: "length rs = 12" "length inicializarRegistros = 12"
    using registros_cabenD(1) [OF assms] by (simp_all add: regs_ok_length regs_ok_inicial)
  have "es_c_str (inicializarRegistros ! i)" if "i < 12" for i
  proof -
    have "list_all es_c_str inicializarRegistros" by code_simp
    then show ?thesis using that l by (simp add: list_all_length)
  qed
  then have "es_c_str (cargar_valor (inicializarRegistros ! i) (rs ! i))" if "i < 12" for i
    using registros_cabenD(2) [OF assms that] that by (intro es_c_str_cargar) simp_all
  then have "list_all es_c_str (registros_cargados rs)" using l by (simp add: registros_cargados_def list_all_length)
  moreover have "map length (registros_cargados rs) = map length inicializarRegistros"
    unfolding registros_cargados_def by (rule map2_cargar_valor_length) (simp add: l)
  then have "regs_ok (registros_cargados rs)" using regs_ok_inicial unfolding regs_ok_def by metis
  ultimately show ?thesis by (simp add: regs_buenos_def)
qed

lemma cargados_iguales:
  assumes "regs_buenos rs"
  shows "registros_cargados rs = rs"
  using cargarRegistros_restaura [OF regs_ok_inicial, of rs] carga [OF regs_ok_inicial registros_caben_buenos [OF assms]] assms
  by (simp add: regs_buenos_def)

section \<open>From the kernel to the CPU\<close>

lemma leer_c_strs_cadenas: "list_all es_c_str ws \<Longrightarrow> leer_c_strs (map bloque_de ws) = Inr ws"
  by (induction ws) (simp_all add: leer_c_str_def bloque_de_def, simp add: c_str_bloque_de [unfolded bloque_de_def])

text \<open>The CPU at the start of a turn.\<close>

definition cpu_de :: "commons \<Rightarrow> int \<Rightarrow> pcb \<Rightarrow> cpu" where
  "cpu_de cm p b = \<lparr>lista_registros = registros_cargados (pcb_registros b), contexto = contexto_de p b,
     caps = map (\<lambda>r. malloc_util cm (Suc (length r))) (pcb_registros b), interrupted = False\<rparr>"

lemma palabras_c_str:
  assumes "programa_valido prog"
  shows "list_all es_c_str (texto prog)"
proof -
  have "es_c_str (unir (CHR '' '') ws)" if "list_all palabra_ok ws" for ws
    using that by (induction "CHR '' ''" ws rule: unir.induct) (auto simp: palabra_ok_def es_c_str_def)
  then show ?thesis using assms by (auto simp: programa_valido_def texto_def instruccion_ok_def list_all_iff)
qed

lemma contexto_ok_de:
  assumes cabe: "contexto_cabe instr tabla" and c: "instrucciones c = instr" "tablaSegmentos c = tabla" "int32_ok (ctx_PID c)"
    and pc: "0 \<le> program_counter c" "program_counter c \<le> int (length instr)"
    and r: "regs_guardados_ok (registros c)" and ps: "length (parametros c) \<le> 3" "list_all parametro_ok (parametros c)"
  shows "contexto_ok c" "int32_ok (int (length (buffer_contexto c)))"
proof -
  have s: "length instr * 5 + sum_list (map length instr) = sum_list (map (\<lambda>s. length s + 5) instr)"
    by (induction instr) simp_all
  have i: "int (sum_list (map (\<lambda>s. length s + 5) instr)) + 12 * int (length tabla) + 4000 < 2147483648"
    using cabe by (simp add: contexto_cabe_def)
  have l: "length x + 5 \<le> sum_list (map (\<lambda>s. length s + 5) instr)" if "x \<in> set instr" for x
    using that by (intro member_le_sum_list) auto
  have rs: "length (registros c) = 12" "\<And>x. x \<in> set (registros c) \<Longrightarrow> length x \<le> 16"
    using r by (auto simp: regs_guardados_ok_def list_all_iff)
  have "sum_list (map (\<lambda>s. length s + 5) (registros c)) \<le> sum_list (map (\<lambda>_. 21) (registros c))"
    using rs(2) by (intro sum_list_mono) auto
  then have sr: "sum_list (map (\<lambda>s. length s + 5) (registros c)) \<le> 252" using rs(1) by (simp add: sum_list_triv)
  have "sum_list (map (\<lambda>s. length s + 5) (parametros c)) \<le> sum_list (map (\<lambda>_. 405) (parametros c))"
    using ps(2) by (intro sum_list_mono) (auto simp: list_all_iff parametro_ok_def)
  then have sp: "sum_list (map (\<lambda>s. length s + 5) (parametros c)) \<le> 1215" using ps(1) by (simp add: sum_list_triv)
  show "contexto_ok c"
    unfolding contexto_ok_def
  proof (intro conjI ballI)
    fix x assume x: "x \<in> set (instrucciones c) \<union> set (registros c) \<union> set (parametros c)"
    then show "cadena_ok x"
      using l [of x] i rs(2) ps(2) c by (auto simp: cadena_ok_def int32_ok_def list_all_iff parametro_ok_def) force+
  qed (use i s c pc rs ps(1) cabe in \<open>auto simp: int32_ok_def CANTIDAD_REGISTROS_CPU_def contexto_cabe_def list_all_iff\<close>)
  have "length (buffer_contexto c) = 4 + 4 + 4 + sum_list (map (\<lambda>s. length s + 5) instr) + 4 + 4 +
      sum_list (map (\<lambda>s. length s + 5) (registros c)) + 4 + sum_list (map (\<lambda>s. length s + 5) (parametros c)) + 4 + 12 * length tabla"
    by (simp add: buffer_contexto_def wire_simps c)
  then show "int32_ok (int (length (buffer_contexto c)))" using i sr sp by (simp add: int32_ok_def)
qed

lemma paquete_motivo:
  assumes "length (registros c) = 12" "paquete_contexto c (op_num a) = paquete_contexto c (op_num b)"
  shows "a = b"
proof -
  have "\<exists>s. recibir_operacion (paquete_contexto c (op_num x)) = Inr (op_num x, s)" for x
    using assms(1) by (simp add: paquete_contexto_bytes CANTIDAD_REGISTROS_CPU_def del: op_num.simps)
  from this [of a] this [of b] have "op_num a = op_num b" unfolding assms(2) by (metis Pair_inject sum.inject(2))
  then show ?thesis by (simp del: op_num.simps)
qed

lemma contexto_leido:
  assumes "contexto_ok c" "int32_ok (int (length (buffer_contexto c)))" "int32_ok motivo"
  obtains s1 s2 where "recibir_operacion (paquete_contexto c motivo) = Inr (motivo, s1)"
    "recibir_paquete_contexto s1 = Inr (c\<lparr>instrucciones := map bloque_de (instrucciones c),
       registros := map bloque_de (registros c), parametros := map bloque_de (parametros c)\<rparr>, s2)"
  using contexto_ida_vuelta [OF assms(1,3,2), of "[]"] by (auto simp: bind_res_Inr_iff)

lemma cpu_recibe:
  assumes b: "pcb_enviable prog p b" and r: "regs_ok regs"
  shows "cpu_atender cm cfg regs m (paquete_contexto (contexto_de p b) (op_num RUNNING)) = cpu_bucle cm cfg (cpu_de cm p b) m []"
proof -
  let ?c = "contexto_de p b"
  have g: "regs_guardados_ok (pcb_registros b)" "list_all es_c_str (texto prog)"
    using b registros_caben_guardados palabras_c_str by (simp_all add: pcb_enviable_def)
  have t: "contexto_cabe (texto prog) (pcb_tablaSegmentos b)" using b unfolding pcb_enviable_def by blast
  have f: "instrucciones ?c = texto prog" "tablaSegmentos ?c = pcb_tablaSegmentos b" "int32_ok (ctx_PID ?c)"
    "0 \<le> program_counter ?c" "program_counter ?c \<le> int (length (texto prog))" "regs_guardados_ok (registros ?c)"
    "length (parametros ?c) \<le> 3" "list_all parametro_ok (parametros ?c)"
    using b g(1) by (simp_all add: pcb_enviable_def contexto_de_def texto_def)
  note k = contexto_ok_de [OF t f]
  obtain s1 s2 where s: "recibir_operacion (paquete_contexto ?c (op_num RUNNING)) = Inr (op_num RUNNING, s1)"
    "recibir_paquete_contexto s1 = Inr (?c\<lparr>instrucciones := map bloque_de (instrucciones ?c),
       registros := map bloque_de (registros ?c), parametros := map bloque_de (parametros ?c)\<rparr>, s2)"
    by (rule contexto_leido [OF k int32_ok_op_num])
  have l: "leer_c_strs (map bloque_de (texto prog)) = Inr (texto prog)"
    "leer_c_strs (map bloque_de (pcb_registros b)) = Inr (pcb_registros b)"
    using g by (auto intro!: leer_c_strs_cadenas simp: regs_guardados_ok_def list_all_iff)
  have "cargarRegistros regs (pcb_registros b) = Inr (registros_cargados (pcb_registros b))"
    using carga [OF r] b by (simp add: pcb_enviable_def)
  then show ?thesis using s l b
    by (simp add: cpu_atender_def cargar_contexto_def contexto_de_def cpu_de_def o_def pcb_enviable_def del: op_num.simps)
qed

lemma cpu_de_en_curso:
  assumes b: "pcb_listo cm m prog p b" and m: "mem_ok mcfg m" and cm: "commons_ok cm"
  shows "en_curso cm mcfg (string_itoa cm p) prog (cpu_de cm p b) m"
proof -
  have r: "registros_caben (pcb_registros b)" using b by (simp add: pcb_listo_def pcb_enviable_def)
  have "length (inicializarRegistros ! i) + 1 \<le> malloc_util cm (Suc (length (pcb_registros b ! i)))" if i: "i < 12" "holgado cm" for i
  proof (cases "length (pcb_registros b ! i) = 4")
    case True
    then show ?thesis using regs_ok_reg [OF regs_ok_inicial i(1)] i(2) by (auto simp: holgado_def split: if_splits)
  next
    case False
    then show ?thesis using registros_cabenD(2) [OF r i(1)] malloc_util_le [OF cm, of "Suc (length (pcb_registros b ! i))"] by simp
  qed
  then have "holgado cm \<Longrightarrow> list_all2 (\<lambda>cap r. length r + 1 \<le> cap) (caps (cpu_de cm p b)) inicializarRegistros"
    using registros_cabenD(1) [OF r] regs_ok_length [OF regs_ok_inicial] by (simp add: cpu_de_def list_all2_conv_all_nth)
  then have "cpu_lista cm (cpu_de cm p b)"
    using cargados_buenos [OF r] registros_caben_guardados [OF r] by (simp add: cpu_lista_def) (simp add: cpu_de_def contexto_de_def)
  then show ?thesis using b m by (simp add: en_curso_def cpu_de_def contexto_de_def pcb_listo_def pcb_enviable_def)
qed

lemma bucle_yield:
  assumes cm: "commons_ok cm" "holgado cm" and e: "en_curso cm mcfg k prog c m"
    and y: "prog ! nat (program_counter (contexto c)) = [''YIELD'']"
  shows "\<exists>c' m'. cpu_bucle cm cfg c m [] = Some (Inr (c', m', paquete_contexto (contexto c') (op_num YIELD))) \<and>
    length (registros (contexto c')) = 12"
proof -
  let ?pc = "program_counter (contexto c)"
  let ?c1 = "c\<lparr>contexto := (contexto c)\<lparr>program_counter := ?pc + 1\<rparr>\<rparr>"
  let ?c2 = "poner_parametros [] ?c1"
  have "nat ?pc < length prog" using e by (auto simp: en_curso_def)
  then have "fetch c = Inr (''YIELD'', ?c1)" using e y by (simp add: fetch_def Let_def en_curso_def texto_def)
  moreover have "string_split cm ''YIELD'' '' '' = [''YIELD'']" using string_split_unir [OF cm(1), of "[''YIELD'']"] by simp
  moreover have "parametros (contexto c) = []" using e by (simp add: en_curso_def)
  ultimately have "ciclo cm cfg c m = interrumpir (yield ?c2 m)"
    by (simp add: ciclo_def Let_def dictionary_get_def diccionario_functionsId_def ejecutar_def)
  moreover have l: "cpu_lista cm ?c2" "\<not> interrupted c" "length (lista_registros c) = 12"
    using e regs_ok_length by (simp_all add: en_curso_def cpu_lista_def regs_buenos_def poner_parametros_def)
  moreover have "guardar_registros ?c2 = Inr (?c2\<lparr>contexto := (contexto ?c2)\<lparr>registros := lista_registros ?c2\<rparr>\<rparr>)"
    by (rule guardar_casos [OF l(1)]) (use cm(2) in simp_all)
  moreover have "interrupted x \<Longrightarrow> cpu_bucle cm cfg x m' bs = Some (Inr (x, m', bs))" for x m' bs
    by (simp add: cpu_bucle.simps)
  ultimately show ?thesis
    by (auto simp: cpu_bucle.simps [of _ _ c] yield_def devolver_def enviar_contexto_def interrumpir_def
        poner_parametros_def simp del: op_num.simps)
qed

section \<open>From the CPU to the kernel\<close>

text \<open>The PCB after the turn.\<close>

definition pcb_tras :: "cpu \<Rightarrow> pcb \<Rightarrow> pcb" where
  "pcb_tras c b = b\<lparr>pcb_program_counter := program_counter (contexto c), pcb_registros := registros (contexto c),
     pcb_tablaSegmentos := tablaSegmentos (contexto c)\<rparr>"

lemma kernel_recibe:
  assumes k: "contexto_ok (contexto c)" "int32_ok (int (length (buffer_contexto (contexto c))))"
    and g: "regs_guardados_ok (registros (contexto c))" "list_all parametro_ok (parametros (contexto c))"
    and b: "dictionary_get (pcbs k) p = Some b"
  shows "recibir_PCB cm p (paquete_contexto (contexto c) (op_num motivo)) k =
    (if \<exists>r \<in> set (registros (contexto c)). length r + 1 > malloc_util cm 5 then Inl Fuera_de_rango
     else Inr (op_num motivo, parametros (contexto c), k\<lparr>pcbs := dictionary_put (pcbs k) p (pcb_tras c b)\<rparr>))"
    "holgado cm \<Longrightarrow> \<not> (\<exists>r \<in> set (registros (contexto c)). length r + 1 > malloc_util cm 5)"
proof -
  obtain s1 s2 where s: "recibir_operacion (paquete_contexto (contexto c) (op_num motivo)) = Inr (op_num motivo, s1)"
    "recibir_paquete_contexto s1 = Inr (contexto c\<lparr>instrucciones := map bloque_de (instrucciones (contexto c)),
       registros := map bloque_de (registros (contexto c)), parametros := map bloque_de (parametros (contexto c))\<rparr>, s2)"
    by (rule contexto_leido [OF k int32_ok_op_num])
  have l: "leer_c_strs (map bloque_de (registros (contexto c))) = Inr (registros (contexto c))"
    "leer_c_strs (map bloque_de (parametros (contexto c))) = Inr (parametros (contexto c))"
    using g by (auto intro!: leer_c_strs_cadenas simp: regs_guardados_ok_def list_all_iff parametro_ok_def)
  show "recibir_PCB cm p (paquete_contexto (contexto c) (op_num motivo)) k =
    (if \<exists>r \<in> set (registros (contexto c)). length r + 1 > malloc_util cm 5 then Inl Fuera_de_rango
     else Inr (op_num motivo, parametros (contexto c), k\<lparr>pcbs := dictionary_put (pcbs k) p (pcb_tras c b)\<rparr>))"
    using s l b by (simp add: recibir_PCB_def cambiar_pcb_def pcb_de_def pcb_tras_def del: op_num.simps)
  show "\<not> (\<exists>r \<in> set (registros (contexto c)). length r + 1 > malloc_util cm 5)" if "holgado cm"
  proof
    assume "\<exists>r \<in> set (registros (contexto c)). length r + 1 > malloc_util cm 5"
    then obtain r where "r \<in> set (registros (contexto c))" "length r + 1 > malloc_util cm 5" by blast
    moreover from this have "length r \<le> 16" using g(1) by (simp add: regs_guardados_ok_def list_all_iff)
    ultimately show False using that by (simp add: holgado_def)
  qed
qed

section \<open>The turn\<close>

text \<open>The process leaves for the CPU, runs there and comes back: what \<open>readOp\<close> receives, the CPU and the kernel.\<close>

definition turno :: "commons \<Rightarrow> cpuConfig \<Rightarrow> string list \<Rightarrow> kernel \<Rightarrow> (int \<times> string list \<times> cpu \<times> kernel) res option" where
  "turno cm cfg regs k =
     (case fifo_despachar k of
        Inl e \<Rightarrow> Some (Inl e)
      | Inr (k1, bs) \<Rightarrow>
          map_option (\<lambda>r. bind_res r (\<lambda>(c', m', out).
              bind_res (recibir_PCB cm (hd (consolasReady k)) out (k1\<lparr>memoria_mod := m', running := Libre\<rparr>))
                (\<lambda>(cod_op, params, k2). Inr (cod_op, params, c', k2))))
            (cpu_atender cm cfg regs (memoria_mod k1) bs))"

definition por_correr :: "commons \<Rightarrow> memConfig \<Rightarrow> cpuConfig \<Rightarrow> string list list \<Rightarrow> int \<Rightarrow> pcb \<Rightarrow> int list \<Rightarrow> kernel \<Rightarrow> bool" where
  "por_correr cm mcfg cfg prog p b ps k \<longleftrightarrow> commons_ok cm \<and> direcciones_ok cfg mcfg 16 \<and>
     mem_ok mcfg (memoria_mod k) \<and> consolasReady k = p # ps \<and> dictionary_get (pcbs k) p = Some b \<and>
     pcb_listo cm (memoria_mod k) prog p b"

text \<open>What a turn does: the reason and its parameters, the CPU at its end, and the kernel.\<close>

definition turno_hecho :: "commons \<Rightarrow> memConfig \<Rightarrow> string list list \<Rightarrow> int \<Rightarrow> pcb \<Rightarrow> int list \<Rightarrow> kernel \<Rightarrow>
    op_code \<Rightarrow> cpu \<Rightarrow> kernel \<Rightarrow> bool" where
  "turno_hecho cm mcfg prog p b ps k motivo c' k2 \<longleftrightarrow> motivo \<in> set llamadas \<and>
     length (parametros (contexto c')) = parametros_de motivo \<and> list_all parametro_ok (parametros (contexto c')) \<and>
     mem_ok mcfg (memoria_mod k2) \<and> (\<exists>us. memoria_mod k2 = (memoria_mod k)\<lparr>user_space := us\<rparr>) \<and>
     k2 = k\<lparr>consolasReady := ps, memoria_mod := memoria_mod k2, running := Libre,
            pcbs := dictionary_put (pcbs k) p (pcb_tras c' b)\<rparr> \<and>
     pcb_program_counter b < pcb_program_counter (pcb_tras c' b) \<and>
     ctx_PID (contexto c') = p \<and> instrucciones (contexto c') = pcb_instrucciones b \<and>
     length (registros (contexto c')) = 12 \<and> regs_buenos (lista_registros c') \<and>
     (motivo \<notin> {ERROR, EXIT} \<longrightarrow> pcb_listo cm (memoria_mod k2) prog p (pcb_tras c' b) \<and>
        pcb_registros (pcb_tras c' b) = lista_registros c')"

lemma turno_bien:
  assumes h: "por_correr cm mcfg cfg prog p b ps k" and r: "regs_ok regs"
  obtains (desborde) "turno cm cfg regs k = Some (Inl Fuera_de_rango)" "\<not> holgado cm"
    | (hecho) motivo c' k2 where "turno cm cfg regs k = Some (Inr (op_num motivo, parametros (contexto c'), c', k2))"
      "turno_hecho cm mcfg prog p b ps k motivo c' k2"
      "cpu_bucle cm cfg (cpu_de cm p b) (memoria_mod k) [] =
         Some (Inr (c', memoria_mod k2, paquete_contexto (contexto c') (op_num motivo)))"
proof -
  let ?m = "memoria_mod k"
  have a: "commons_ok cm" "direcciones_ok cfg mcfg 16" "mem_ok mcfg ?m" "consolasReady k = p # ps"
    "dictionary_get (pcbs k) p = Some b" "pcb_listo cm ?m prog p b"
    using h by (simp_all add: por_correr_def)
  have b: "programa_valido prog" "pcb_instrucciones b = texto prog" "contexto_cabe (texto prog) (pcb_tablaSegmentos b)" "int32_ok p"
    "pcb_tablaSegmentos b = tabla_de ?m (string_itoa cm p)" "0 \<le> pcb_program_counter b"
    using a(6) unfolding pcb_listo_def pcb_enviable_def by blast+
  have env: "pcb_enviable prog p b" using a(6) by (simp add: pcb_listo_def)
  have tu: "turno cm cfg regs k = map_option (\<lambda>r. bind_res r (\<lambda>(c', m', out).
      bind_res (recibir_PCB cm p out (k\<lparr>consolasReady := ps, memoria_mod := m', running := Libre\<rparr>))
        (\<lambda>(cod_op, params, k2). Inr (cod_op, params, c', k2)))) (cpu_bucle cm cfg (cpu_de cm p b) ?m [])"
    using a(4,5) cpu_recibe [OF env r]
    by (simp add: turno_def fifo_despachar_def enviar_PCB_def pcb_de_def del: op_num.simps)
  consider "cpu_bucle cm cfg (cpu_de cm p b) ?m [] = Some (Inl Fuera_de_rango)" "\<not> holgado cm"
    | c' m' bs where "cpu_bucle cm cfg (cpu_de cm p b) ?m [] = Some (Inr (c', m', bs))" "turno_de_cpu mcfg (cpu_de cm p b) ?m c' m' bs"
    using bucle_bien [OF cpu_de_en_curso [OF a(6,3,1)] b(1) a(2,1)] by blast
  then show ?thesis
  proof cases
    case 1
    then show ?thesis by (intro desborde) (simp_all add: tu)
  next
    case (2 c' m' bs)
    let ?c = "contexto c'"
    have t': "devuelto c' bs" "regs_buenos (lista_registros c')" "mem_ok mcfg m'" "\<exists>us. m' = ?m\<lparr>user_space := us\<rparr>" "ctx_PID ?c = p"
      "instrucciones ?c = texto prog" "tablaSegmentos ?c = pcb_tablaSegmentos b" "pcb_program_counter b < program_counter ?c"
      "program_counter ?c \<le> int (length (texto prog))"
      "program_counter ?c < int (length (texto prog)) \<or> bs = paquete_contexto ?c (op_num EXIT)"
      using 2(2) b(2) by (simp_all add: turno_de_cpu_def cpu_de_def contexto_de_def)
    obtain motivo where mo: "motivo \<in> set llamadas" "bs = paquete_contexto ?c (op_num motivo)"
      "length (parametros ?c) = parametros_de motivo" "list_all parametro_ok (parametros ?c)" "regs_guardados_ok (registros ?c)"
      "motivo \<noteq> ERROR \<longrightarrow> registros ?c = lista_registros c'"
      using t'(1) unfolding devuelto_def by blast
    have l: "length (parametros ?c) \<le> 3" using mo(3) by (simp add: parametros_de_def split: if_splits)
    have pc: "0 \<le> program_counter ?c" using b(6) t'(8) by linarith
    note k = contexto_ok_de [OF b(3) t'(6,7) b(4) [folded t'(5)] pc t'(9) mo(5) l mo(4)]
    let ?k1 = "k\<lparr>consolasReady := ps, memoria_mod := m', running := Libre\<rparr>"
    let ?k2 = "?k1\<lparr>pcbs := dictionary_put (pcbs k) p (pcb_tras c' b)\<rparr>"
    have b': "dictionary_get (pcbs ?k1) p = Some b" using a(5) by simp
    note re = kernel_recibe(1) [OF k mo(5,4) b', where cm = cm and motivo = motivo, folded mo(2)]
      kernel_recibe(2) [OF k mo(5,4) b', where cm = cm]
    show ?thesis
    proof (cases "\<exists>r \<in> set (registros ?c). length r + 1 > malloc_util cm 5")
      case True
      then show ?thesis using re(2) by (intro desborde) (auto simp: tu 2(1) re(1))
    next
      case False
      then have r1: "turno cm cfg regs k = Some (Inr (op_num motivo, parametros ?c, c', ?k2))"
        by (simp add: tu 2(1) re(1) del: op_num.simps)
      have ex: "program_counter ?c < int (length prog)" if "motivo \<noteq> EXIT"
      proof (rule ccontr)
        assume "\<not> program_counter ?c < int (length prog)"
        then have "paquete_contexto ?c (op_num motivo) = paquete_contexto ?c (op_num EXIT)" using t'(10) mo(2) by (simp add: texto_def)
        then show False using that paquete_motivo mo(5) unfolding regs_guardados_ok_def by blast
      qed
      have "pcb_listo cm m' prog p (pcb_tras c' b)" if "motivo \<notin> {ERROR, EXIT}"
      proof -
        have "registros_caben (registros ?c)" using mo(6) that registros_caben_buenos [OF t'(2)] by simp
        moreover have "tabla_de m' (string_itoa cm p) = tabla_de ?m (string_itoa cm p)" using t'(4) tabla_de_us by metis
        ultimately show ?thesis using b(1-4) b(5) t'(7) pc ex that by (simp add: pcb_listo_def pcb_enviable_def pcb_tras_def)
      qed
      then have "turno_hecho cm mcfg prog p b ps k motivo c' ?k2"
        using mo t' b(2) by (simp add: turno_hecho_def pcb_tras_def regs_guardados_ok_def)
      moreover have "cpu_bucle cm cfg (cpu_de cm p b) ?m [] = Some (Inr (c', memoria_mod ?k2, paquete_contexto ?c (op_num motivo)))"
        using 2(1) mo(2) by simp
      ultimately show ?thesis using r1 by (intro hecho)
    qed
  qed
qed

lemma turno_yield:
  assumes h: "por_correr cm mcfg cfg prog p b ps k" and r: "regs_ok regs" and a: "holgado cm"
    and y: "prog ! nat (pcb_program_counter b) = [''YIELD'']"
  shows "\<exists>params c' k2. turno cm cfg regs k = Some (Inr (op_num YIELD, params, c', k2))"
proof (cases rule: turno_bien [OF h r])
  case (2 motivo c' k2)
  have l: "commons_ok cm" "en_curso cm mcfg (string_itoa cm p) prog (cpu_de cm p b) (memoria_mod k)"
    using h cpu_de_en_curso by (auto simp: por_correr_def)
  have "\<exists>c1 m1. cpu_bucle cm cfg (cpu_de cm p b) (memoria_mod k) [] =
      Some (Inr (c1, m1, paquete_contexto (contexto c1) (op_num YIELD))) \<and> length (registros (contexto c1)) = 12"
    by (rule bucle_yield [OF l(1) a l(2)]) (use y in \<open>simp add: cpu_de_def contexto_de_def\<close>)
  then have "motivo = YIELD" using 2(3) paquete_motivo by fastforce
  then show ?thesis using 2(1) by blast
qed (use a in simp)

text \<open>The CPU at the start of the next turn of a process that it gave back: only what is of a turn is new.\<close>

definition reanudada :: "commons \<Rightarrow> segmento list \<Rightarrow> cpu \<Rightarrow> cpu" where
  "reanudada cm tabla c = c\<lparr>contexto := (contexto c)\<lparr>parametros := [], tablaSegmentos := tabla\<rparr>,
     caps := map (\<lambda>r. malloc_util cm (Suc (length r))) (lista_registros c), interrupted := False\<rparr>"

lemma cpu_de_reanudada:
  assumes "regs_buenos (lista_registros c)" "registros (contexto c) = lista_registros c"
    and "ctx_PID (contexto c) = p" "instrucciones (contexto c) = pcb_instrucciones b"
  shows "cpu_de cm p ((pcb_tras c b)\<lparr>pcb_tablaSegmentos := tabla\<rparr>) = reanudada cm tabla c"
  using assms by (simp add: cpu_de_def reanudada_def pcb_tras_def contexto_de_def cargados_iguales)

section \<open>A turn is an execution of the kernel\<close>

text \<open>One instruction makes at most one request to the memory module.\<close>

definition un_pedido :: "memoria \<Rightarrow> efecto \<Rightarrow> bool" where
  "un_pedido m r \<longleftrightarrow> (\<forall>c' m' bs. r = Inr (c', m', bs) \<longrightarrow> m' = m \<or> (\<exists>s x s'. atender_cpu m s = Inr (m', x, s')))"

lemma un_pedido_devolver: "un_pedido m (devolver motivo f c m)"
  by (auto simp: un_pedido_def devolver_def enviar_contexto_def bind_res_Inr_iff)

lemma un_pedido_error: "un_pedido m (exit_process_error msj c m)"
  by (simp add: un_pedido_def exit_process_error_def Let_def)

lemma un_pedido_interrumpir: "un_pedido m r \<Longrightarrow> un_pedido m (interrumpir r)"
  by (auto simp: un_pedido_def interrumpir_def bind_res_Inr_iff)

lemma un_pedido_parametro: "(\<And>p c. un_pedido m (f p c)) \<Longrightarrow> un_pedido m (con_parametro c f)"
  by (simp add: con_parametro_def split: list.split) (simp add: un_pedido_def)

lemma un_pedido_bind: "(\<And>x. r = Inr x \<Longrightarrow> un_pedido m (f x)) \<Longrightarrow> un_pedido m (bind_res r f)"
  by (cases r) (simp_all add: un_pedido_def)

lemma un_pedido_directo:
  "un_pedido m (seg_fault i t la d n c m)" "un_pedido m (enviar_contexto motivo c m)" "un_pedido m (Inl e)" "un_pedido m (Inr (c, m, bs))"
  "atender_cpu m s = Inr (m', x, s') \<Longrightarrow> un_pedido m (Inr (c, m', bs))"
  by (auto simp: seg_fault_def un_pedido_error) (auto simp: un_pedido_def enviar_contexto_def)

lemma un_pedido_memoria:
  "un_pedido m (mov_in cm cfg r a c m)" "un_pedido m (mov_out cfg a r c m)" "un_pedido m (f_acceso motivo n cm cfg f a b c m)"
  by (auto simp: mov_in_def mov_out_def f_acceso_def Let_def split: option.split prod.split
      intro!: un_pedido_bind un_pedido_directo(1-4) un_pedido_error intro: un_pedido_directo(5))

lemma un_pedido_set: "un_pedido m (ejecutar_set r v c m)"
  using un_pedido_error by (auto simp: ejecutar_set_def split: option.split) (simp_all add: un_pedido_def)

lemma ciclo_un_pedido: "un_pedido m (ciclo cm cfg c m)"
proof -
  have n: "un_pedido m (Inl e)" for e by (simp add: un_pedido_def)
  have "un_pedido m (ejecutar cm cfg n c m)" for n c
    unfolding ejecutar_def syscall_defs f_read_def f_write_def
    by (auto intro!: un_pedido_interrumpir un_pedido_parametro un_pedido_devolver un_pedido_memoria un_pedido_set n)
  then show ?thesis using n un_pedido_error
    by (auto simp: ciclo_def Let_def bind_res_def split: sum.split list.split option.split)
qed

lemma alcanza_trans: "ker_alcanzable cm mcfg fcfg k k1 \<Longrightarrow> ker_alcanzable cm mcfg fcfg k0 k \<Longrightarrow> ker_alcanzable cm mcfg fcfg k0 k1"
  by (induction rule: ker_alcanzable.induct) (auto intro: ker_alcanzable.paso)

lemma bucle_alcanza:
  assumes "cpu_bucle cm cfg c (memoria_mod k) bs0 = Some (Inr (c', m', bs))" "running k = En_cpu p"
  shows "ker_alcanzable cm mcfg fcfg k (k\<lparr>memoria_mod := m'\<rparr>)"
  using assms
proof (induction "nat (int (length (instrucciones (contexto c))) - program_counter (contexto c))" arbitrary: c k bs0 rule: less_induct)
  case less
  show ?case
  proof (cases "interrupted c")
    case True
    then have "memoria_mod k = m'" using less.prems(1) by (simp add: cpu_bucle.simps)
    then show ?thesis using ker_alcanzable.inicio [of cm mcfg fcfg k] by auto
  next
    case False
    then obtain c1 m1 b1 where r: "ciclo cm cfg c (memoria_mod k) = Inr (c1, m1, b1)"
      "cpu_bucle cm cfg c1 m1 (bs0 @ b1) = Some (Inr (c', m', bs))"
      using less.prems(1) by (subst (asm) cpu_bucle.simps) (auto split: sum.splits)
    note o = ciclo_ok(1-4) [OF False r(1)]
    let ?k = "k\<lparr>memoria_mod := m1\<rparr>"
    have "ker_alcanzable cm mcfg fcfg k ?k"
    proof (cases "m1 = memoria_mod k")
      case True
      then show ?thesis using ker_alcanzable.inicio by simp
    next
      case False
      then have "ker_paso cm mcfg fcfg k ?k"
        using ciclo_un_pedido r(1) less.prems(2) unfolding un_pedido_def by (blast intro: ker_paso.cpu)
      then show ?thesis by (blast intro: ker_alcanzable.intros)
    qed
    moreover have r2: "cpu_bucle cm cfg c1 (memoria_mod ?k) (bs0 @ b1) = Some (Inr (c', m', bs))" using r(2) by simp
    have "ker_alcanzable cm mcfg fcfg ?k (?k\<lparr>memoria_mod := m'\<rparr>)"
      by (rule less.hyps [OF _ r2]) (use o less.prems(2) in simp_all)
    ultimately show ?thesis using alcanza_trans by fastforce
  qed
qed

section \<open>Properties of a turn\<close>

text \<open>
  C3. A whole turn of a process with a well-formed program (every instruction has its operands,
  addresses are not negative, the last one is \<open>EXIT\<close>) and a PCB that can be sent: the kernel
  takes it from the head of the ready queue and sends its context, the CPU loads it, runs it
  against the memory module, and the kernel reads what it sends back. The turn always ends. The
  only fault there can be is that a register does not fit in the block of 5 bytes that was asked
  for it, and none if \<open>malloc\<close> gives it 17. Otherwise the kernel gets a system call, or an error,
  with as many parameters as its handler takes; only the bytes of the memory, the PCB of the
  process, the ready queue and the CPU have changed; the program has advanced, and unless it
  ended or failed its PCB can be sent again.
\<close>

theorem turno_completo:
  assumes "por_correr cm mcfg cfg prog p b ps k" "regs_ok regs"
  shows "turno cm cfg regs k = Some (Inl Fuera_de_rango) \<and> malloc_util cm 5 < 17 \<or>
   (\<exists>motivo c' k2. turno cm cfg regs k = Some (Inr (op_num motivo, parametros (contexto c'), c', k2)) \<and>
    motivo \<in> set llamadas \<and> length (parametros (contexto c')) = parametros_de motivo \<and>
    mem_ok mcfg (memoria_mod k2) \<and> (\<exists>us. memoria_mod k2 = (memoria_mod k)\<lparr>user_space := us\<rparr>) \<and>
    k2 = k\<lparr>consolasReady := ps, memoria_mod := memoria_mod k2, running := Libre,
           pcbs := dictionary_put (pcbs k) p (pcb_tras c' b)\<rparr> \<and>
    pcb_program_counter b < pcb_program_counter (pcb_tras c' b) \<and>
    (motivo \<notin> {ERROR, EXIT} \<longrightarrow> pcb_listo cm (memoria_mod k2) prog p (pcb_tras c' b)))"
proof (cases rule: turno_bien [OF assms])
  case 1
  then show ?thesis by (simp add: holgado_def)
next
  case (2 motivo c' k2)
  then show ?thesis using 2(2) [unfolded turno_hecho_def] by blast
qed

text \<open>
  C4. A context switch keeps what is of the process. When a process with a well-formed program
  and a PCB that can be sent has had a turn that ended with a system call, and it is sent again,
  whatever the other processes left in the registers and in the memory, and with whatever table
  of segments the kernel has given it meanwhile (if it fits in a packet), the CPU goes on from the
  registers, the instruction and the program it had at the end of the previous turn.
\<close>

theorem cambio_de_contexto:
  assumes "por_correr cm mcfg cfg prog p b ps k" "regs_ok regs"
    and "turno cm cfg regs k = Some (Inr (cod_op, params, c', k2))" "cod_op \<notin> {op_num ERROR, op_num EXIT}"
    and "regs_ok regs2" "contexto_cabe (texto prog) tabla"
  shows "\<exists>b2. dictionary_get (pcbs k2) p = Some b2 \<and>
    cpu_atender cm cfg regs2 m (paquete_contexto (contexto_de p (b2\<lparr>pcb_tablaSegmentos := tabla\<rparr>)) (op_num RUNNING)) =
    cpu_bucle cm cfg (reanudada cm tabla c') m []"
proof -
  obtain motivo where t: "cod_op = op_num motivo" "turno_hecho cm mcfg prog p b ps k motivo c' k2"
    by (rule turno_bien [OF assms(1,2)]) (use assms(3) in auto)
  let ?b = "(pcb_tras c' b)\<lparr>pcb_tablaSegmentos := tabla\<rparr>"
  have m: "motivo \<notin> {ERROR, EXIT}" using assms(4) t(1) by auto
  have h: "pcb_listo cm (memoria_mod k2) prog p (pcb_tras c' b)" "regs_buenos (lista_registros c')"
    "pcb_registros (pcb_tras c' b) = lista_registros c'"
    "ctx_PID (contexto c') = p" "instrucciones (contexto c') = pcb_instrucciones b"
    "k2 = k\<lparr>consolasReady := ps, memoria_mod := memoria_mod k2, running := Libre,
           pcbs := dictionary_put (pcbs k) p (pcb_tras c' b)\<rparr>"
    using t(2) m unfolding turno_hecho_def by blast+
  have g: "registros (contexto c') = lista_registros c'" using h(3) by (simp add: pcb_tras_def)
  have "pcb_enviable prog p ?b" using h(1) assms(6) by (simp add: pcb_listo_def pcb_enviable_def)
  then have "cpu_atender cm cfg regs2 m (paquete_contexto (contexto_de p ?b) (op_num RUNNING)) =
      cpu_bucle cm cfg (reanudada cm tabla c') m []"
    using cpu_recibe assms(5) cpu_de_reanudada [OF h(2) g h(4,5)] by metis
  moreover have "dictionary_get (pcbs k2) p = Some (pcb_tras c' b)" by (subst h(6)) simp
  ultimately show ?thesis by blast
qed

text \<open>
  The turn, with the serving of the system call after it, is an execution of the kernel's
  transition system: the process leaves, the CPU makes its requests to the memory module one by
  one, and the process comes back. So the invariants of the reachable states hold after it.
\<close>

lemma turno_es_ejecucion:
  assumes "running k = Libre" "turno cm cfg regs k = Some (Inr (cod_op, params, c', k2))"
    and "readOp cm mcfg cod_op p params k2 = Some (Inr k3)" "consolasReady k = p # ps"
  shows "ker_alcanzable cm mcfg fcfg k k3"
proof -
  obtain k1 bs where d: "fifo_despachar k = Inr (k1, bs)" using assms(2) by (auto simp: turno_def split: sum.splits)
  have k1: "running k1 = En_cpu p" using d assms(4) by (auto simp: fifo_despachar_def bind_res_Inr_iff)
  obtain c m' out where c: "cpu_bucle cm cfg c (memoria_mod k1) [] = Some (Inr (c', m', out))"
    and r: "recibir_PCB cm p out (k1\<lparr>memoria_mod := m', running := Libre\<rparr>) = Inr (cod_op, params, k2)"
    using assms(2,4) by (auto simp: turno_def d cpu_atender_def bind_res_Inr_iff split: sum.splits)
  have "ker_alcanzable cm mcfg fcfg k k1"
    by (rule ker_alcanzable.paso [OF ker_alcanzable.inicio ker_paso.despachar [OF assms(1) _ d]]) (simp add: assms(4))
  then have "ker_alcanzable cm mcfg fcfg k (k1\<lparr>memoria_mod := m'\<rparr>)"
    by (rule alcanza_trans [OF bucle_alcanza [OF c k1]])
  moreover have "ker_paso cm mcfg fcfg (k1\<lparr>memoria_mod := m'\<rparr>) k3"
    by (rule ker_paso.volver [where p = p and s = out]) (use k1 r assms(3) in \<open>simp_all add: fifo_volver_def\<close>)
  ultimately show ?thesis by (rule ker_alcanzable.paso)
qed

section \<open>A concrete turn\<close>

definition prog_ej :: "string list list" where
  "prog_ej = [[''YIELD''], [''SET'', ''AX'', ''HOLA''], [''MOV_OUT'', ''128'', ''AX''], [''EXIT'']]"

definition pcb_turno_ej :: pcb where
  "pcb_turno_ej = (pcb_ej 0 (tabla_de (mem_ej 10) ''7''))\<lparr>pcb_instrucciones := texto prog_ej\<rparr>"

definition ker_turno_ej :: kernel where
  "ker_turno_ej = (ker_inicial 2 [] (mem_ej 10) fs_ej)\<lparr>consolasReady := [7], pcbs := [(7, pcb_turno_ej)]\<rparr>"

definition commons_amplia :: commons where
  "commons_amplia = commons_ej\<lparr>malloc_util := \<lambda>n. max 24 n\<rparr>"

lemma commons_amplia_ok: "commons_ok commons_amplia" "holgado commons_amplia"
  using commons_ej_ok by (simp_all add: commons_amplia_def commons_ok_def holgado_def less_max_iff_disj le_max_iff_disj)

lemma ej_por_correr: "por_correr commons_amplia cfg_ej cpu_cfg_ej prog_ej 7 pcb_turno_ej [] ker_turno_ej"
proof -
  have "mem_ok cfg_ej (mem_ej 10)" by (rule mem_ej_ok) simp_all
  moreover have "programa_valido prog_ej" by code_simp
  moreover have "registros_caben (pcb_registros pcb_turno_ej) \<and> contexto_cabe (texto prog_ej) (pcb_tablaSegmentos pcb_turno_ej) \<and>
     pcb_tablaSegmentos pcb_turno_ej = tabla_de (mem_ej 10) (string_itoa commons_amplia 7)" by code_simp
  ultimately show ?thesis using commons_amplia_ok
    by (simp add: por_correr_def pcb_listo_def pcb_enviable_def ker_turno_ej_def ker_inicial_def dictionary_get_def
        direcciones_ok_def cpu_cfg_ej_def cfg_ej_def, simp add: pcb_turno_ej_def pcb_ej_def prog_ej_def int32_ok_def)
qed

theorem turno_completo_witness:
  "turno commons_amplia cpu_cfg_ej inicializarRegistros ker_turno_ej = Some (Inl Fuera_de_rango) \<and> malloc_util commons_amplia 5 < 17 \<or>
   (\<exists>motivo c' k2. turno commons_amplia cpu_cfg_ej inicializarRegistros ker_turno_ej =
      Some (Inr (op_num motivo, parametros (contexto c'), c', k2)) \<and>
    motivo \<in> set llamadas \<and> length (parametros (contexto c')) = parametros_de motivo \<and>
    mem_ok cfg_ej (memoria_mod k2) \<and> (\<exists>us. memoria_mod k2 = (memoria_mod ker_turno_ej)\<lparr>user_space := us\<rparr>) \<and>
    k2 = ker_turno_ej\<lparr>consolasReady := [], memoria_mod := memoria_mod k2, running := Libre,
           pcbs := dictionary_put (pcbs ker_turno_ej) 7 (pcb_tras c' pcb_turno_ej)\<rparr> \<and>
    pcb_program_counter pcb_turno_ej < pcb_program_counter (pcb_tras c' pcb_turno_ej) \<and>
    (motivo \<notin> {ERROR, EXIT} \<longrightarrow> pcb_listo commons_amplia (memoria_mod k2) prog_ej 7 (pcb_tras c' pcb_turno_ej)))"
  by (rule turno_completo [OF ej_por_correr regs_ok_inicial])

lemma ej_turno:
  "\<exists>params c' k2. turno commons_amplia cpu_cfg_ej inicializarRegistros ker_turno_ej = Some (Inr (op_num YIELD, params, c', k2))"
proof (rule turno_yield [OF ej_por_correr regs_ok_inicial commons_amplia_ok(2)])
  have "nat (pcb_program_counter pcb_turno_ej) = 0" by (simp add: pcb_turno_ej_def pcb_ej_def)
  then show "prog_ej ! nat (pcb_program_counter pcb_turno_ej) = [''YIELD'']" by (simp add: prog_ej_def)
qed

theorem cambio_de_contexto_witness:
  "\<exists>cod_op params c' k2 b2. turno commons_amplia cpu_cfg_ej inicializarRegistros ker_turno_ej =
      Some (Inr (cod_op, params, c', k2)) \<and> dictionary_get (pcbs k2) 7 = Some b2 \<and>
    cpu_atender commons_amplia cpu_cfg_ej (map (\<lambda>r. replicate (length r) (CHR ''x'')) inicializarRegistros) (mem_ej 10)
      (paquete_contexto (contexto_de 7 (b2\<lparr>pcb_tablaSegmentos := []\<rparr>)) (op_num RUNNING)) =
    cpu_bucle commons_amplia cpu_cfg_ej (reanudada commons_amplia [] c') (mem_ej 10) []"
proof -
  obtain cod_op params c' k2 where t: "turno commons_amplia cpu_cfg_ej inicializarRegistros ker_turno_ej =
      Some (Inr (cod_op, params, c', k2))" "cod_op = op_num YIELD"
    using ej_turno by blast
  have "regs_ok (map (\<lambda>r. replicate (length r) (CHR ''x'')) inicializarRegistros)" "contexto_cabe (texto prog_ej) []" by code_simp+
  moreover have "cod_op \<notin> {op_num ERROR, op_num EXIT}" using t(2) by simp
  ultimately show ?thesis using cambio_de_contexto [OF ej_por_correr regs_ok_inicial t(1)] t(1) by blast
qed

lemma turno_es_ejecucion_witness:
  "\<exists>params c' k2. turno commons_amplia cpu_cfg_ej inicializarRegistros ker_turno_ej = Some (Inr (op_num YIELD, params, c', k2)) \<and>
    ker_alcanzable commons_amplia cfg_ej fscfg_ej ker_turno_ej (ready_al_final 7 k2)"
proof -
  obtain params c' k2 where t: "turno commons_amplia cpu_cfg_ej inicializarRegistros ker_turno_ej =
      Some (Inr (op_num YIELD, params, c', k2))"
    using ej_turno by blast
  have k: "running ker_turno_ej = Libre" "consolasReady ker_turno_ej = 7 # []" by (simp_all add: ker_turno_ej_def ker_inicial_def)
  have "readOp commons_amplia cfg_ej (op_num YIELD) 7 params k2 = Some (Inr (ready_al_final 7 k2))"
    by (simp add: readOp_def es_operacion_de_FS_def)
  then show ?thesis using t turno_es_ejecucion [OF k(1) t _ k(2)] by blast
qed

end
