(* ===== verification/Ker_Computo.thy ===== *)
theory Ker_Computo
  imports Ker_Turno
begin

text \<open>
  Processes that compute: their programs set registers, move data to and from the memory, give
  the CPU up with \<open>YIELD\<close> and end. With FIFO every one of them is executed to its end, whatever
  the others in the queue do, in at most as many turns as instructions are left to all of them,
  if the registers fit in the blocks that are made for them.
\<close>

section \<open>Programs that compute\<close>

definition calcula :: "string list list \<Rightarrow> bool" where
  "calcula prog \<longleftrightarrow> programa_valido prog \<and>
     list_all (\<lambda>ts. dictionary_get diccionario_functionsId (hd ts) \<in> {None, Some 0, Some 1, Some 2, Some 6, Some 7}) prog"

definition motivos_calculo :: "op_code set" where
  "motivos_calculo = {YIELD, EXIT, ERROR}"

definition sale_bien :: "efecto \<Rightarrow> bool" where
  "sale_bien r \<longleftrightarrow> (\<forall>c' m' bs. r = Inr (c', m', bs) \<longrightarrow>
     bs = [] \<or> (\<exists>motivo \<in> motivos_calculo. bs = paquete_contexto (contexto c') (op_num motivo)))"

lemma sale_bien_reglas:
  "sale_bien (Inl e)" "sale_bien (Inr (c, m, []))" "sale_bien (exit_process_error msj c m)"
  "motivo \<in> motivos_calculo \<Longrightarrow> sale_bien (devolver motivo f c m)" "sale_bien r \<Longrightarrow> sale_bien (interrumpir r)"
  by (auto simp: sale_bien_def motivos_calculo_def exit_process_error_def devolver_def enviar_contexto_def interrumpir_def
      Let_def bind_res_Inr_iff simp del: op_num.simps)

lemma sale_bien_parametro: "(\<And>p c. sale_bien (f p c)) \<Longrightarrow> sale_bien (con_parametro c f)"
  by (simp add: con_parametro_def sale_bien_reglas split: list.split)

lemma sale_bien_bind: "(\<And>x. r = Inr x \<Longrightarrow> sale_bien (f x)) \<Longrightarrow> sale_bien (bind_res r f)"
  by (cases r) (simp_all add: sale_bien_reglas)

lemma sale_bien_instruccion:
  "sale_bien (mov_in cm cfg r a c m)" "sale_bien (mov_out cfg a r c m)" "sale_bien (ejecutar_set r v c m)"
  by (auto simp: mov_in_def mov_out_def ejecutar_set_def Let_def seg_fault_def split: option.split prod.split
      intro!: sale_bien_bind sale_bien_reglas)

lemma ejecutar_sale:
  assumes "n \<in> {0, 1, 2, 6, 7}"
  shows "sale_bien (ejecutar cm cfg n c m)"
  using assms by (auto simp: ejecutar_def syscall_defs motivos_calculo_def
      intro!: sale_bien_reglas(4,5) sale_bien_parametro sale_bien_instruccion)

lemma ciclo_sale:
  assumes pr: "calcula prog" and cm: "commons_ok cm" and i: "instrucciones (contexto c) = texto prog"
  shows "sale_bien (ciclo cm cfg c m)"
proof (cases "fetch c")
  case (Inl e)
  then show ?thesis by (simp add: ciclo_def sale_bien_reglas)
next
  case (Inr x)
  let ?ts = "prog ! nat (program_counter (contexto c))"
  have pc: "nat (program_counter (contexto c)) < length prog" and x: "fst x = unir (CHR '' '') ?ts"
    using Inr i by (auto simp: fetch_def Let_def texto_def split: if_splits)
  have ok: "instruccion_ok ?ts" "dictionary_get diccionario_functionsId (hd ?ts) \<in> {None, Some 0, Some 1, Some 2, Some 6, Some 7}"
    using pr pc by (simp_all add: calcula_def programa_valido_def list_all_length)
  then obtain tok ops where ts: "?ts = tok # ops" by (cases ?ts) (auto simp: instruccion_ok_def)
  have "string_split cm (unir (CHR '' '') ?ts) '' '' = tok # ops"
    using string_split_unir [OF cm, of ?ts] ok(1) by (auto simp: ts instruccion_ok_def palabra_ok_def list_all_iff)
  then show ?thesis using ok(2) x
    by (cases x) (auto simp: ciclo_def Inr ts Let_def split: option.split intro!: sale_bien_reglas(3) ejecutar_sale)
qed

lemma bucle_sale:
  assumes pr: "calcula prog" and cm: "commons_ok cm"
    and "instrucciones (contexto c) = texto prog" "\<not> interrupted c" "cpu_bucle cm cfg c m [] = Some (Inr (c', m', bs))"
  shows "\<exists>motivo \<in> motivos_calculo. bs = paquete_contexto (contexto c') (op_num motivo)"
  using assms(3-5)
proof (induction "nat (int (length (instrucciones (contexto c))) - program_counter (contexto c))" arbitrary: c m rule: less_induct)
  case less
  obtain c1 m1 b1 where r: "ciclo cm cfg c m = Inr (c1, m1, b1)" "cpu_bucle cm cfg c1 m1 b1 = Some (Inr (c', m', bs))"
    using less.prems(2,3) by (subst (asm) cpu_bucle.simps) (auto split: sum.splits)
  note o = ciclo_ok [OF less.prems(2) r(1)]
  show ?case
  proof (cases "interrupted c1")
    case True
    then have "c1 = c'" "b1 = bs" using r(2) by (simp_all add: cpu_bucle.simps [of _ _ c1])
    moreover have "b1 \<noteq> []" using o(9) True paquete_contexto_no_vacio by (auto simp: un_contexto_def simp del: op_num.simps)
    ultimately show ?thesis using ciclo_sale [OF pr cm less.prems(1), of cfg m] r(1) unfolding sale_bien_def by blast
  next
    case False
    then have "b1 = []" using o(9) by (simp add: un_contexto_def)
    then show ?thesis using less.hyps [of c1 m1] o(1-4) less.prems(1) r(2) False by simp
  qed
qed

lemma turno_calculo:
  assumes h: "por_correr cm mcfg cfg prog p b ps k" and r: "regs_ok regs" and pr: "calcula prog"
  obtains (desborde) "turno cm cfg regs k = Some (Inl Fuera_de_rango)" "\<not> holgado cm"
    | (hecho) motivo c' k2 where "turno cm cfg regs k = Some (Inr (op_num motivo, parametros (contexto c'), c', k2))"
      "turno_hecho cm mcfg prog p b ps k motivo c' k2" "motivo \<in> motivos_calculo"
proof (cases rule: turno_bien [OF h r])
  case 1
  then show ?thesis by (rule desborde)
next
  case (2 motivo c' k2)
  have i: "instrucciones (contexto (cpu_de cm p b)) = texto prog" "\<not> interrupted (cpu_de cm p b)" "commons_ok cm"
    using h by (simp_all add: por_correr_def pcb_listo_def pcb_enviable_def cpu_de_def contexto_de_def)
  have "length (registros (contexto c')) = 12" using 2(2) by (simp add: turno_hecho_def)
  then have "motivo \<in> motivos_calculo" using bucle_sale [OF pr i(3,1,2) 2(3)] paquete_motivo by blast
  with 2(1,2) show ?thesis by (rule hecho)
qed

section \<open>The queue\<close>

text \<open>\<open>progs\<close> gives the program of each process; the processes at the ready queue can run.\<close>

definition listos :: "commons \<Rightarrow> memConfig \<Rightarrow> cpuConfig \<Rightarrow> (int \<Rightarrow> string list list) \<Rightarrow> kernel \<Rightarrow> bool" where
  "listos cm mcfg cfg progs k \<longleftrightarrow> commons_ok cm \<and> direcciones_ok cfg mcfg 16 \<and>
     mem_ok mcfg (memoria_mod k) \<and> running k = Libre \<and> distinct (consolasReady k) \<and>
     (\<forall>p \<in> set (consolasReady k). calcula (progs p) \<and>
        (\<exists>b. dictionary_get (pcbs k) p = Some b \<and> pcb_listo cm (memoria_mod k) (progs p) p b))"

text \<open>The instructions that are left to the processes of the queue.\<close>

definition resto :: "(int \<Rightarrow> string list list) \<Rightarrow> kernel \<Rightarrow> int \<Rightarrow> nat" where
  "resto progs k p = length (progs p) - nat (pcb_program_counter (the (dictionary_get (pcbs k) p)))"

definition falta :: "(int \<Rightarrow> string list list) \<Rightarrow> kernel \<Rightarrow> nat" where
  "falta progs k = sum_list (map (resto progs k) (consolasReady k))"

lemma pcb_listo_us: "pcb_listo cm (m\<lparr>user_space := us\<rparr>) prog p b = pcb_listo cm m prog p b"
  by (simp add: pcb_listo_def tabla_de_us)

lemma listosD:
  assumes "listos cm mcfg cfg progs k" "consolasReady k = p # ps"
  obtains b where "por_correr cm mcfg cfg (progs p) p b ps k" "calcula (progs p)" "running k = Libre"
  using assms by (auto simp: listos_def por_correr_def)

section \<open>Turns one after the other\<close>

text \<open>
  The loop of the short-term scheduler with the CPU of the source: each turn starts with the
  registers that the previous one left in the CPU, and ends with the serving of the call.
\<close>

definition turno_atendido :: "commons \<Rightarrow> memConfig \<Rightarrow> cpuConfig \<Rightarrow> string list \<Rightarrow> kernel \<Rightarrow> (string list \<times> kernel) res option" where
  "turno_atendido cm mcfg cfg regs k =
     (case turno cm cfg regs k of
        None \<Rightarrow> None
      | Some (Inl e) \<Rightarrow> Some (Inl e)
      | Some (Inr (cod_op, params, c', k2)) \<Rightarrow>
          map_res (\<lambda>k3. Inr (lista_registros c', k3)) (readOp cm mcfg cod_op (hd (consolasReady k)) params k2))"

fun turnos :: "commons \<Rightarrow> memConfig \<Rightarrow> cpuConfig \<Rightarrow> nat \<Rightarrow> string list \<Rightarrow> kernel \<Rightarrow> (string list \<times> kernel) res option" where
  "turnos cm mcfg cfg 0 regs k = Some (Inr (regs, k))"
| "turnos cm mcfg cfg (Suc n) regs k =
     (if consolasReady k = [] then Some (Inr (regs, k))
      else case turno_atendido cm mcfg cfg regs k of
             Some (Inr (regs', k')) \<Rightarrow> turnos cm mcfg cfg n regs' k'
           | r \<Rightarrow> r)"

text \<open>What the serving of these calls does, up to the consoles.\<close>

definition sigue :: "int \<Rightarrow> op_code \<Rightarrow> kernel \<Rightarrow> kernel \<Rightarrow> bool" where
  "sigue p motivo k2 k' \<longleftrightarrow> running k' = running k2 \<and> memoria_mod k' = memoria_mod k2 \<and> pcbs k' = pcbs k2 \<and>
     consolasReady k' = (if motivo \<in> {EXIT, ERROR} then consolasReady k2 else consolasReady k2 @ [p]) \<and>
     consolasExit k' = (if motivo \<in> {EXIT, ERROR} then consolasExit k2 @ [p] else consolasExit k2)"

lemma calculo_atendido:
  assumes "motivo \<in> motivos_calculo" "length params = parametros_de motivo"
  obtains k' where "readOp cm mcfg (op_num motivo) p params k2 = Some (Inr k')" "sigue p motivo k2 k'"
proof -
  consider "motivo = YIELD" | "motivo = EXIT" | "motivo = ERROR" using assms(1) by (auto simp: motivos_calculo_def)
  then have "\<exists>k'. readOp cm mcfg (op_num motivo) p params k2 = Some (Inr k') \<and> sigue p motivo k2 k'"
  proof cases
    case 3
    then have "params \<noteq> []" using assms(2) by (auto simp: parametros_de_def)
    with 3 show ?thesis
      by (simp add: readOp_def es_operacion_de_FS_def sigue_def parametro_def finalizar_con_error_def enviar_consola_def Let_def)
  qed (simp_all add: readOp_def es_operacion_de_FS_def sigue_def ready_al_final_def)
  then show ?thesis using that by blast
qed

lemma paso_de_la_cola:
  assumes l: "listos cm mcfg cfg progs k" and q: "consolasReady k = p # ps" and regs: "regs_ok regs"
  obtains (desborde) "turno_atendido cm mcfg cfg regs k = Some (Inl Fuera_de_rango)" "\<not> holgado cm"
  | (hecho) regs' k' where "turno_atendido cm mcfg cfg regs k = Some (Inr (regs', k'))" "regs_ok regs'"
    "ker_alcanzable cm mcfg fcfg k k'" "listos cm mcfg cfg progs k'" "falta progs k' < falta progs k"
    "consolasReady k' = ps @ [p] \<and> consolasExit k' = consolasExit k \<or> consolasReady k' = ps \<and> consolasExit k' = consolasExit k @ [p]"
proof -
  obtain b where h: "por_correr cm mcfg cfg (progs p) p b ps k" "calcula (progs p)" "running k = Libre" by (rule listosD [OF l q])
  show ?thesis
  proof (cases rule: turno_calculo [OF h(1) regs h(2)])
    case 1
    then show ?thesis by (intro desborde) (simp_all add: turno_atendido_def)
  next
    case t: (2 motivo c' k2)
    have d: "length (parametros (contexto c')) = parametros_de motivo" "mem_ok mcfg (memoria_mod k2)"
      "\<exists>us. memoria_mod k2 = (memoria_mod k)\<lparr>user_space := us\<rparr>" "regs_buenos (lista_registros c')"
      "k2 = k\<lparr>consolasReady := ps, memoria_mod := memoria_mod k2, running := Libre, pcbs := dictionary_put (pcbs k) p (pcb_tras c' b)\<rparr>"
      "pcb_program_counter b < pcb_program_counter (pcb_tras c' b)"
      "motivo \<notin> {ERROR, EXIT} \<longrightarrow> pcb_listo cm (memoria_mod k2) (progs p) p (pcb_tras c' b)"
      using t(2) unfolding turno_hecho_def by blast+
    have k2: "consolasReady k2 = ps" "running k2 = Libre" "consolasExit k2 = consolasExit k"
      "pcbs k2 = dictionary_put (pcbs k) p (pcb_tras c' b)"
      by (subst d(5), simp)+
    obtain k' where r: "readOp cm mcfg (op_num motivo) p (parametros (contexto c')) k2 = Some (Inr k')" and s: "sigue p motivo k2 k'"
      by (rule calculo_atendido [OF t(3) d(1)])
    have u: "pcb_listo cm (memoria_mod k2) pr x y = pcb_listo cm (memoria_mod k) pr x y" for pr x y
      using d(3) pcb_listo_us by metis
    have dist: "p \<notin> set ps" "distinct ps" using l q by (simp_all add: listos_def)
    have c: "running k' = Libre" "memoria_mod k' = memoria_mod k2" "pcbs k' = dictionary_put (pcbs k) p (pcb_tras c' b)"
      "consolasReady k' = (if motivo \<in> {EXIT, ERROR} then ps else ps @ [p])"
      "consolasExit k' = (if motivo \<in> {EXIT, ERROR} then consolasExit k @ [p] else consolasExit k)"
      using s k2 by (simp_all add: sigue_def)
    show ?thesis
    proof (rule hecho)
      show "turno_atendido cm mcfg cfg regs k = Some (Inr (lista_registros c', k'))"
        using t(1) r q by (simp add: turno_atendido_def map_res_def del: op_num.simps)
      show "regs_ok (lista_registros c')" using d(4) by (simp add: regs_buenos_def)
      show "ker_alcanzable cm mcfg fcfg k k'" by (rule turno_es_ejecucion [OF h(3) t(1) r q])
      show "listos cm mcfg cfg progs k'" using l q d(2,7) c dist u h(2) by (auto simp: listos_def)
      have "sum_list (map (resto progs k') ps) = sum_list (map (resto progs k) ps)"
        by (rule arg_cong [where f = sum_list]) (use dist c(3) in \<open>auto simp: resto_def\<close>)
      moreover have "dictionary_get (pcbs k) p = Some b" "0 \<le> pcb_program_counter b" "nat (pcb_program_counter b) < length (progs p)"
        using h(1) by (auto simp: por_correr_def pcb_listo_def pcb_enviable_def)
      then have "resto progs k' p < resto progs k p" using c(3) d(6) by (simp add: resto_def)
      ultimately show "falta progs k' < falta progs k" using q c(4) by (auto simp: falta_def)
      show "consolasReady k' = ps @ [p] \<and> consolasExit k' = consolasExit k \<or> consolasReady k' = ps \<and> consolasExit k' = consolasExit k @ [p]"
        using c(4,5) by simp
    qed
  qed
qed

lemma cola_termina:
  assumes "listos cm mcfg cfg progs k" "regs_ok regs" "falta progs k \<le> n"
  shows "turnos cm mcfg cfg n regs k = Some (Inl Fuera_de_rango) \<and> \<not> holgado cm \<or>
   (\<exists>regs' k' fin. turnos cm mcfg cfg n regs k = Some (Inr (regs', k')) \<and> ker_alcanzable cm mcfg fcfg k k' \<and>
    running k' = Libre \<and> consolasReady k' = [] \<and> consolasExit k' = consolasExit k @ fin \<and> mset fin = mset (consolasReady k))"
  using assms
proof (induction n arbitrary: k regs)
  case (0 k)
  have "consolasReady k = []"
  proof (rule ccontr)
    assume "consolasReady k \<noteq> []"
    then obtain p ps where q: "consolasReady k = p # ps" by (cases "consolasReady k") auto
    then obtain b where "por_correr cm mcfg cfg (progs p) p b ps k" using listosD [OF 0(1)] by metis
    then have "0 < resto progs k p" by (auto simp: por_correr_def pcb_listo_def pcb_enviable_def resto_def)
    then show False using 0(3) q by (simp add: falta_def)
  qed
  then show ?case using 0(1) ker_alcanzable.inicio by (simp add: listos_def)
next
  case (Suc n k)
  show ?case
  proof (cases "consolasReady k")
    case Nil
    then show ?thesis using Suc.prems(1) ker_alcanzable.inicio by (simp add: listos_def)
  next
    case (Cons p ps)
    show ?thesis
    proof (cases rule: paso_de_la_cola [OF Suc.prems(1) Cons Suc.prems(2), where fcfg = fcfg])
      case 1
      then show ?thesis by (simp add: Cons)
    next
      case (2 regs1 k1)
      have n: "turnos cm mcfg cfg (Suc n) regs k = turnos cm mcfg cfg n regs1 k1" by (simp add: Cons 2(1))
      have "falta progs k1 \<le> n" using 2(5) Suc.prems(3) by simp
      note IH = Suc.IH [OF 2(4,2) this]
      have "\<exists>fin. consolasExit k' = consolasExit k @ fin \<and> mset fin = mset (consolasReady k)"
        if "consolasExit k' = consolasExit k1 @ fin" "mset fin = mset (consolasReady k1)" for k' fin
        using 2(6) that Cons by (elim disjE) (auto intro: exI [of _ "p # fin"])
      then show ?thesis unfolding n using IH alcanza_trans [OF _ 2(3)] by blast
    qed
  qed
qed

section \<open>Every process ends\<close>

text \<open>
  C5. With FIFO and the CPU of the source, when every process of the ready queue computes (its
  well-formed program sets registers, moves data to and from the memory, yields and exits), the
  loop of the short-term scheduler runs them all to their end, in at most as many turns as
  instructions are left to them together: the queue is empty, the CPU is free and each process
  is once in the queue of the exit thread, whatever errors the programs make on the way. The
  only fault there can be is that a register does not fit in the block of 5 bytes that was asked
  for it, and none if \<open>malloc\<close> gives it 17. The run is an execution of the transition system of
  the kernel, so its invariants hold after it.
\<close>

theorem procesos_terminan:
  assumes "listos cm mcfg cfg progs k" "regs_ok regs" "falta progs k \<le> n"
  shows "turnos cm mcfg cfg n regs k = Some (Inl Fuera_de_rango) \<and> malloc_util cm 5 < 17 \<or>
   (\<exists>regs' k' fin. turnos cm mcfg cfg n regs k = Some (Inr (regs', k')) \<and> ker_alcanzable cm mcfg fcfg k k' \<and>
    running k' = Libre \<and> consolasReady k' = [] \<and> consolasExit k' = consolasExit k @ fin \<and> mset fin = mset (consolasReady k))"
  using cola_termina [OF assms] by (simp add: holgado_def not_le)

text \<open>Two processes with the same program, and a table of segments for one of them.\<close>

definition ker_cola_ej :: kernel where
  "ker_cola_ej = ker_turno_ej\<lparr>consolasReady := [7, 8], pcbs := [(7, pcb_turno_ej), (8, pcb_turno_ej\<lparr>pcb_tablaSegmentos := []\<rparr>)]\<rparr>"

lemma ej_listos: "listos commons_amplia cfg_ej cpu_cfg_ej (\<lambda>_. prog_ej) ker_cola_ej" "falta (\<lambda>_. prog_ej) ker_cola_ej \<le> 8"
proof -
  have "calcula prog_ej" by code_simp
  moreover have l: "pcb_listo commons_amplia (mem_ej 10) prog_ej 7 pcb_turno_ej"
    using ej_por_correr by (simp add: por_correr_def ker_turno_ej_def ker_inicial_def)
  moreover have "tabla_de (mem_ej 10) (string_itoa commons_amplia 8) = []" "contexto_cabe (texto prog_ej) []" by code_simp+
  then have "pcb_listo commons_amplia (mem_ej 10) prog_ej 8 (pcb_turno_ej\<lparr>pcb_tablaSegmentos := []\<rparr>)"
    using l by (simp add: pcb_listo_def pcb_enviable_def int32_ok_def)
  ultimately show "listos commons_amplia cfg_ej cpu_cfg_ej (\<lambda>_. prog_ej) ker_cola_ej" using ej_por_correr
    by (simp add: listos_def por_correr_def ker_cola_ej_def ker_turno_ej_def ker_inicial_def dictionary_get_def)
  show "falta (\<lambda>_. prog_ej) ker_cola_ej \<le> 8"
    by (simp add: falta_def resto_def ker_cola_ej_def prog_ej_def)
qed

theorem procesos_terminan_witness:
  "turnos commons_amplia cfg_ej cpu_cfg_ej 8 inicializarRegistros ker_cola_ej = Some (Inl Fuera_de_rango) \<and> malloc_util commons_amplia 5 < 17 \<or>
   (\<exists>regs' k' fin. turnos commons_amplia cfg_ej cpu_cfg_ej 8 inicializarRegistros ker_cola_ej = Some (Inr (regs', k')) \<and>
    ker_alcanzable commons_amplia cfg_ej fscfg_ej ker_cola_ej k' \<and> running k' = Libre \<and> consolasReady k' = [] \<and>
    consolasExit k' = consolasExit ker_cola_ej @ fin \<and> mset fin = mset (consolasReady ker_cola_ej))"
  by (rule procesos_terminan [OF ej_listos(1) regs_ok_inicial ej_listos(2)])

end
