(* ===== verification/Secciones.thy ===== *)
theory Secciones
  imports Prelude
begin

text \<open>
  Two threads over a shared state, each one a program counter and a step that may fail. With
  \<open>excl\<close> a thread moves only while the other one is not between its first and its last step,
  as if one mutex were held around both; without it the steps of the two may come in any order.
  The locale \<open>seccion\<close> says that the steps of a thread, run alone, do what one function does in
  one go, and \<open>dos_secciones\<close> concludes that with exclusion the two threads do what their
  functions do in one of the two orders.
\<close>

section \<open>Interleavings\<close>

inductive entrelaza ::
    "bool \<Rightarrow> ('a \<Rightarrow> 's \<Rightarrow> ('a \<times> 's) res) \<Rightarrow> 'a \<Rightarrow> 'a \<Rightarrow> ('b \<Rightarrow> 's \<Rightarrow> ('b \<times> 's) res) \<Rightarrow> 'b \<Rightarrow> 'b \<Rightarrow>
      'a \<times> 'b \<times> 's \<Rightarrow> 'a \<times> 'b \<times> 's \<Rightarrow> bool"
  for excl p1 i1 f1 p2 i2 f2 where
  uno: "a \<noteq> f1 \<Longrightarrow> excl \<longrightarrow> b = i2 \<or> b = f2 \<Longrightarrow> p1 a s = Inr (a', s') \<Longrightarrow>
    entrelaza excl p1 i1 f1 p2 i2 f2 (a, b, s) (a', b, s')"
| dos: "b \<noteq> f2 \<Longrightarrow> excl \<longrightarrow> a = i1 \<or> a = f1 \<Longrightarrow> p2 b s = Inr (b', s') \<Longrightarrow>
    entrelaza excl p1 i1 f1 p2 i2 f2 (a, b, s) (a, b', s')"

text \<open>The next step of one of the two threads, one that is allowed to move, fails.\<close>

definition falla_entrelazado ::
    "bool \<Rightarrow> ('a \<Rightarrow> 's \<Rightarrow> ('a \<times> 's) res) \<Rightarrow> 'a \<Rightarrow> 'a \<Rightarrow> ('b \<Rightarrow> 's \<Rightarrow> ('b \<times> 's) res) \<Rightarrow> 'b \<Rightarrow> 'b \<Rightarrow>
      'a \<times> 'b \<times> 's \<Rightarrow> fault \<Rightarrow> bool" where
  "falla_entrelazado excl p1 i1 f1 p2 i2 f2 c e = (case c of (a, b, s) \<Rightarrow>
     a \<noteq> f1 \<and> (excl \<longrightarrow> b = i2 \<or> b = f2) \<and> p1 a s = Inl e \<or>
     b \<noteq> f2 \<and> (excl \<longrightarrow> a = i1 \<or> a = f1) \<and> p2 b s = Inl e)"

text \<open>The run of a schedule, without exclusion: \<open>True\<close> for the first thread, which stays where it is once it has ended.\<close>

fun corre :: "('a \<Rightarrow> 's \<Rightarrow> ('a \<times> 's) res) \<Rightarrow> 'a \<Rightarrow> ('b \<Rightarrow> 's \<Rightarrow> ('b \<times> 's) res) \<Rightarrow> 'b \<Rightarrow> bool list \<Rightarrow>
    'a \<times> 'b \<times> 's \<Rightarrow> ('a \<times> 'b \<times> 's) res" where
  "corre p1 f1 p2 f2 [] c = Inr c"
| "corre p1 f1 p2 f2 (True # t) (a, b, s) =
     (if a = f1 then corre p1 f1 p2 f2 t (a, b, s)
      else bind_res (p1 a s) (\<lambda>(a', s'). corre p1 f1 p2 f2 t (a', b, s')))"
| "corre p1 f1 p2 f2 (False # t) (a, b, s) =
     (if b = f2 then corre p1 f1 p2 f2 t (a, b, s)
      else bind_res (p2 b s) (\<lambda>(b', s'). corre p1 f1 p2 f2 t (a, b', s')))"

lemma corre_entrelaza:
  "corre p1 f1 p2 f2 t c = Inr c' \<Longrightarrow> (entrelaza False p1 i1 f1 p2 i2 f2)\<^sup>*\<^sup>* c c'"
proof (induction p1 f1 p2 f2 t c rule: corre.induct)
  case (2 p1 f1 p2 f2 t a b s)
  show ?case
  proof (cases "a = f1")
    case False
    then obtain a' s' where p: "p1 a s = Inr (a', s')" "corre p1 f1 p2 f2 t (a', b, s') = Inr c'"
      using 2(3) by (auto simp: bind_res_Inr_iff)
    have "entrelaza False p1 i1 f1 p2 i2 f2 (a, b, s) (a', b, s')" using False p(1) by (intro entrelaza.uno) simp_all
    then show ?thesis using 2(2) [OF False, of a' s'] p by (auto intro: converse_rtranclp_into_rtranclp)
  qed (use 2 in simp)
next
  case (3 p1 f1 p2 f2 t a b s)
  show ?case
  proof (cases "b = f2")
    case False
    then obtain b' s' where p: "p2 b s = Inr (b', s')" "corre p1 f1 p2 f2 t (a, b', s') = Inr c'"
      using 3(3) by (auto simp: bind_res_Inr_iff)
    have "entrelaza False p1 i1 f1 p2 i2 f2 (a, b, s) (a, b', s')" using False p(1) by (intro entrelaza.dos) simp_all
    then show ?thesis using 3(2) [OF False, of b' s'] p by (auto intro: converse_rtranclp_into_rtranclp)
  qed (use 3 in simp)
qed simp

inductive_cases entrelazaE: "entrelaza excl p1 i1 f1 p2 i2 f2 (a, b, s) c"

section \<open>A section of one thread\<close>

text \<open>\<open>resto pc\<close> is what is left to do at \<open>pc\<close>; \<open>medida\<close> bounds the steps that are left.\<close>

locale seccion =
  fixes paso :: "'pc \<Rightarrow> 's \<Rightarrow> ('pc \<times> 's) res" and ini fin :: 'pc and atomico :: "'s \<Rightarrow> 's res"
    and resto :: "'pc \<Rightarrow> 's \<Rightarrow> 's res" and medida :: "'pc \<Rightarrow> 's \<Rightarrow> nat"
  assumes ini_fin: "ini \<noteq> fin"
    and resto_ini: "resto ini s = atomico s"
    and resto_fin: "resto fin s = Inr s"
    and resto_paso: "pc \<noteq> fin \<Longrightarrow> resto pc s = bind_res (paso pc s) (\<lambda>(pc', s'). resto pc' s')"
    and no_vuelve: "paso pc s = Inr (pc', s') \<Longrightarrow> pc' \<noteq> ini"
    and medida_baja: "pc \<noteq> fin \<Longrightarrow> paso pc s = Inr (pc', s') \<Longrightarrow> medida pc' s' < medida pc s"
begin

lemma resto_Inr: "pc \<noteq> fin \<Longrightarrow> paso pc s = Inr (pc', s') \<Longrightarrow> resto pc' s' = resto pc s"
  by (simp add: resto_paso [of pc s])

lemma resto_Inl: "pc \<noteq> fin \<Longrightarrow> paso pc s = Inl e \<Longrightarrow> resto pc s = Inl e"
  by (simp add: resto_paso [of pc s])

end

section \<open>Two sections\<close>

locale dos_secciones = uno: seccion p1 i1 f1 at1 r1 m1 + dos: seccion p2 i2 f2 at2 r2 m2
  for p1 :: "'a \<Rightarrow> 's \<Rightarrow> ('a \<times> 's) res" and i1 f1 at1 r1 m1
    and p2 :: "'b \<Rightarrow> 's \<Rightarrow> ('b \<times> 's) res" and i2 f2 at2 r2 m2
begin

text \<open>With exclusion, what has been done and what is left, from any point of a run.\<close>

lemma orden:
  assumes "(entrelaza True p1 i1 f1 p2 i2 f2)\<^sup>*\<^sup>* (i1, i2, s0) (a, b, s)"
  shows "a = i1 \<and> b = i2 \<and> s = s0 \<or>
    a \<noteq> i1 \<and> b = i2 \<and> at1 s0 = r1 a s \<or> a = i1 \<and> b \<noteq> i2 \<and> at2 s0 = r2 b s \<or>
    (\<exists>s1. at1 s0 = Inr s1 \<and> a = f1 \<and> b \<noteq> i2 \<and> at2 s1 = r2 b s) \<or>
    (\<exists>s1. at2 s0 = Inr s1 \<and> b = f2 \<and> a \<noteq> i1 \<and> at1 s1 = r1 a s)"
  using assms
proof (induction "(a, b, s)" arbitrary: a b s rule: rtranclp_induct)
  case base
  then show ?case by simp
next
  case (step c)
  obtain a0 b0 t where c: "c = (a0, b0, t)" by (cases c)
  note IH = step.hyps(3) [OF c]
  consider (uno) "a0 \<noteq> f1" "b0 = i2 \<or> b0 = f2" "p1 a0 t = Inr (a, s)" "b = b0"
    | (dos) "b0 \<noteq> f2" "a0 = i1 \<or> a0 = f1" "p2 b0 t = Inr (b, s)" "a = a0"
    using step.hyps(2) by (auto simp: c elim: entrelazaE)
  then show ?case
  proof cases
    case 1: uno
    then have r: "r1 a s = r1 a0 t" "a \<noteq> i1" using uno.resto_Inr uno.no_vuelve by auto
    show ?thesis using IH 1 r uno.ini_fin dos.ini_fin uno.resto_ini dos.resto_fin by auto
  next
    case 2: dos
    then have r: "r2 b s = r2 b0 t" "b \<noteq> i2" using dos.resto_Inr dos.no_vuelve by auto
    show ?thesis using IH 2 r uno.ini_fin dos.ini_fin dos.resto_ini uno.resto_fin by auto
  qed
qed

lemma terminados:
  assumes "(entrelaza True p1 i1 f1 p2 i2 f2)\<^sup>*\<^sup>* (i1, i2, s0) (f1, f2, s)"
  shows "bind_res (at1 s0) at2 = Inr s \<or> bind_res (at2 s0) at1 = Inr s"
  using orden [OF assms] uno.ini_fin dos.ini_fin uno.resto_fin dos.resto_fin by auto

lemma fallas:
  assumes "(entrelaza True p1 i1 f1 p2 i2 f2)\<^sup>*\<^sup>* (i1, i2, s0) c"
    and "falla_entrelazado True p1 i1 f1 p2 i2 f2 c e"
  shows "bind_res (at1 s0) at2 = Inl e \<or> bind_res (at2 s0) at1 = Inl e"
proof -
  obtain a b s where c: "c = (a, b, s)" by (cases c)
  note O = orden [OF assms(1) [unfolded c]]
  from assms(2) consider "a \<noteq> f1" "b = i2 \<or> b = f2" "p1 a s = Inl e" | "b \<noteq> f2" "a = i1 \<or> a = f1" "p2 b s = Inl e"
    by (auto simp: c falla_entrelazado_def)
  then show ?thesis
  proof cases
    case 1
    then have "r1 a s = Inl e" by (simp add: uno.resto_Inl)
    then show ?thesis using O 1 uno.ini_fin dos.ini_fin uno.resto_ini dos.resto_fin by auto
  next
    case 2
    then have "r2 b s = Inl e" by (simp add: dos.resto_Inl)
    then show ?thesis using O 2 uno.ini_fin dos.ini_fin dos.resto_ini uno.resto_fin by auto
  qed
qed

text \<open>Nobody waits forever: a run that has not ended goes on to its end, or fails.\<close>

lemma sola_uno:
  "b = i2 \<or> b = f2 \<Longrightarrow> \<exists>a' s'. (entrelaza True p1 i1 f1 p2 i2 f2)\<^sup>*\<^sup>* (a, b, s) (a', b, s') \<and> (a' = f1 \<or> (a' \<noteq> f1 \<and> (\<exists>e. p1 a' s' = Inl e)))"
proof (induction "m1 a s" arbitrary: a s rule: less_induct)
  case less
  show ?case
  proof (cases "a = f1 \<or> (\<exists>e. p1 a s = Inl e)")
    case False
    then obtain a1 s1 where p: "a \<noteq> f1" "p1 a s = Inr (a1, s1)" by (cases "p1 a s") auto
    then have "entrelaza True p1 i1 f1 p2 i2 f2 (a, b, s) (a1, b, s1)" using less.prems by (intro entrelaza.uno) auto
    moreover obtain a' s' where "(entrelaza True p1 i1 f1 p2 i2 f2)\<^sup>*\<^sup>* (a1, b, s1) (a', b, s')"
      "a' = f1 \<or> (a' \<noteq> f1 \<and> (\<exists>e. p1 a' s' = Inl e))" using less.hyps [OF uno.medida_baja [OF p] less.prems] by blast
    ultimately show ?thesis using converse_rtranclp_into_rtranclp [of "entrelaza True p1 i1 f1 p2 i2 f2"] by blast
  qed blast
qed

lemma sola_dos:
  "a = i1 \<or> a = f1 \<Longrightarrow> \<exists>b' s'. (entrelaza True p1 i1 f1 p2 i2 f2)\<^sup>*\<^sup>* (a, b, s) (a, b', s') \<and> (b' = f2 \<or> (b' \<noteq> f2 \<and> (\<exists>e. p2 b' s' = Inl e)))"
proof (induction "m2 b s" arbitrary: b s rule: less_induct)
  case less
  show ?case
  proof (cases "b = f2 \<or> (\<exists>e. p2 b s = Inl e)")
    case False
    then obtain b1 s1 where p: "b \<noteq> f2" "p2 b s = Inr (b1, s1)" by (cases "p2 b s") auto
    then have "entrelaza True p1 i1 f1 p2 i2 f2 (a, b, s) (a, b1, s1)" using less.prems by (intro entrelaza.dos) auto
    moreover obtain b' s' where "(entrelaza True p1 i1 f1 p2 i2 f2)\<^sup>*\<^sup>* (a, b1, s1) (a, b', s')"
      "b' = f2 \<or> (b' \<noteq> f2 \<and> (\<exists>e. p2 b' s' = Inl e))" using less.hyps [OF dos.medida_baja [OF p] less.prems] by blast
    ultimately show ?thesis using converse_rtranclp_into_rtranclp [of "entrelaza True p1 i1 f1 p2 i2 f2"] by blast
  qed blast
qed

lemma llega:
  assumes "(entrelaza True p1 i1 f1 p2 i2 f2)\<^sup>*\<^sup>* (i1, i2, s0) c"
  shows "\<exists>c'. (entrelaza True p1 i1 f1 p2 i2 f2)\<^sup>*\<^sup>* c c' \<and>
    ((\<exists>s. c' = (f1, f2, s)) \<or> (\<exists>e. falla_entrelazado True p1 i1 f1 p2 i2 f2 c' e))"
proof -
  obtain a b s where c: "c = (a, b, s)" by (cases c)
  let ?bien = "\<lambda>c'. (\<exists>s. c' = (f1, f2, s)) \<or> (\<exists>e. falla_entrelazado True p1 i1 f1 p2 i2 f2 c' e)"
  have fin1: "\<exists>c'. (entrelaza True p1 i1 f1 p2 i2 f2)\<^sup>*\<^sup>* (f1, b, s) c' \<and> ?bien c'" for b s
    using sola_dos [of f1 b s] by (fastforce simp: falla_entrelazado_def)
  have fin2: "\<exists>c'. (entrelaza True p1 i1 f1 p2 i2 f2)\<^sup>*\<^sup>* (a, f2, s) c' \<and> ?bien c'" for a s
    using sola_uno [of f2 a s] by (fastforce simp: falla_entrelazado_def)
  have "a = f1 \<or> b = f2 \<or> b = i2 \<or> a = i1" using orden [OF assms [unfolded c]] by blast
  then show ?thesis
  proof (elim disjE)
    assume b: "b = i2"
    obtain a' s' where r: "(entrelaza True p1 i1 f1 p2 i2 f2)\<^sup>*\<^sup>* (a, b, s) (a', b, s')"
      "a' = f1 \<or> (a' \<noteq> f1 \<and> (\<exists>e. p1 a' s' = Inl e))" using sola_uno [of b a s] b by blast
    then show ?thesis using fin1 [of b s'] b unfolding c
      by (auto simp: falla_entrelazado_def intro: rtranclp_trans)
  next
    assume a: "a = i1"
    obtain b' s' where r: "(entrelaza True p1 i1 f1 p2 i2 f2)\<^sup>*\<^sup>* (a, b, s) (a, b', s')"
      "b' = f2 \<or> (b' \<noteq> f2 \<and> (\<exists>e. p2 b' s' = Inl e))" using sola_dos [of a b s] a by blast
    then show ?thesis using fin2 [of a s'] a unfolding c
      by (auto simp: falla_entrelazado_def intro: rtranclp_trans)
  qed (use fin1 fin2 c in auto)
qed

end

end
