(* ===== verification/Ker_Carreras.thy ===== *)
theory Ker_Carreras
  imports Ker_Propiedades Secciones
begin

text \<open>
  Two places where the kernel shares structures between threads with no mutex, statement by
  statement. \<open>wait_recurso_lista\<close>, in the short-term scheduler, and \<open>liberarRecursosDelProceso\<close>,
  in the thread that ends processes, share \<open>recursosDisponibles\<close> and \<open>recursosEnUso\<close>;
  \<open>process_f_open\<close>, in the thread of the file system, and \<open>liberar_archivo\<close>, in the thread that
  ends processes, share \<open>GDT\<close>, the descriptors and \<open>diccionario_colas_archivos\<close>. Each of the
  four, alone, does what its definition in \<open>Ker_Estado\<close> or \<open>Ker_Servicios\<close> does in one go. Two of
  them that exclude each other do it in one of the two orders, which is what the transition
  system of \<open>Ker_Hilos\<close> has; the code, where they do not, has runs that no order explains.

  A lookup in a dictionary and a change of one list, dictionary or counter are one step each.
\<close>

section \<open>\<open>WAIT\<close>\<close>

datatype pc_wait = W_inicio | W_lee | W_resta | W_ready | W_cola | W_busca | W_agrega | W_crea | W_fin

text \<open>
  The test of \<open>*instancias\<close> and the change are apart, and so are finding the queue of the resource and
  adding to it. Only this thread makes queues: one that is no longer in the dictionary was destroyed.
\<close>

fun paso_wait :: "commons \<Rightarrow> string \<Rightarrow> int \<Rightarrow> pc_wait \<Rightarrow> kernel \<Rightarrow> (pc_wait \<times> kernel) res" where
  "paso_wait cm recurso p W_inicio k =
     (if dictionary_has_key (recursosDisponibles k) recurso
      then bind_res (registrarRecursosDelProceso cm recurso p k) (\<lambda>k1. Inr (W_lee, k1))
      else Inr (W_fin, finalizar_con_error (''WAIT: '' @ recurso @ '' inexistente'') p k))"
| "paso_wait cm recurso p W_lee k =
     (case dictionary_get (recursosDisponibles k) recurso of
        None \<Rightarrow> Inl Puntero_nulo
      | Some instancias \<Rightarrow> Inr (if instancias \<ge> 1 then W_resta else W_cola, k))"
| "paso_wait cm recurso p W_resta k =
     (case dictionary_get (recursosDisponibles k) recurso of
        None \<Rightarrow> Inl Puntero_nulo
      | Some instancias \<Rightarrow>
          Inr (W_ready, k\<lparr>recursosDisponibles := dictionary_put (recursosDisponibles k) recurso (instancias - 1)\<rparr>))"
| "paso_wait cm recurso p W_ready k = Inr (W_fin, ready_al_inicio p k)"
| "paso_wait cm recurso p W_cola k =
     Inr (if dictionary_has_key (recursosEnUso k) recurso then W_busca else W_crea, k)"
| "paso_wait cm recurso p W_busca k =
     (case dictionary_get (recursosEnUso k) recurso of None \<Rightarrow> Inl Puntero_nulo | Some _ \<Rightarrow> Inr (W_agrega, k))"
| "paso_wait cm recurso p W_agrega k =
     (case dictionary_get (recursosEnUso k) recurso of
        None \<Rightarrow> Inl Liberado
      | Some cola \<Rightarrow> Inr (W_fin, k\<lparr>recursosEnUso := dictionary_put (recursosEnUso k) recurso (cola @ [p])\<rparr>))"
| "paso_wait cm recurso p W_crea k =
     Inr (W_fin, k\<lparr>recursosEnUso := dictionary_put (recursosEnUso k) recurso [p]\<rparr>)"
| "paso_wait cm recurso p W_fin k = Inr (W_fin, k)"

text \<open>What is left to do at each point.\<close>

fun resto_wait :: "commons \<Rightarrow> string \<Rightarrow> int \<Rightarrow> pc_wait \<Rightarrow> kernel \<Rightarrow> kernel res" where
  "resto_wait cm recurso p W_inicio k = wait_recurso_lista cm recurso p k"
| "resto_wait cm recurso p W_lee k =
     (case dictionary_get (recursosDisponibles k) recurso of
        None \<Rightarrow> Inl Puntero_nulo
      | Some instancias \<Rightarrow> Inr (if instancias \<ge> 1 then
            ready_al_inicio p (k\<lparr>recursosDisponibles := dictionary_put (recursosDisponibles k) recurso (instancias - 1)\<rparr>)
          else k\<lparr>recursosEnUso := dictionary_put (recursosEnUso k) recurso (cola_o_nada (recursosEnUso k) recurso @ [p])\<rparr>))"
| "resto_wait cm recurso p W_cola k =
     Inr (k\<lparr>recursosEnUso := dictionary_put (recursosEnUso k) recurso (cola_o_nada (recursosEnUso k) recurso @ [p])\<rparr>)"
| "resto_wait cm recurso p W_resta k =
     (case dictionary_get (recursosDisponibles k) recurso of
        None \<Rightarrow> Inl Puntero_nulo
      | Some instancias \<Rightarrow>
          Inr (ready_al_inicio p (k\<lparr>recursosDisponibles := dictionary_put (recursosDisponibles k) recurso (instancias - 1)\<rparr>)))"
| "resto_wait cm recurso p W_busca k =
     (case dictionary_get (recursosEnUso k) recurso of
        None \<Rightarrow> Inl Puntero_nulo
      | Some cola \<Rightarrow> Inr (k\<lparr>recursosEnUso := dictionary_put (recursosEnUso k) recurso (cola @ [p])\<rparr>))"
| "resto_wait cm recurso p pc k =
     (if pc = W_fin then Inr k else bind_res (paso_wait cm recurso p pc k) (\<lambda>(_, k'). Inr k'))"

fun medida_wait :: "pc_wait \<Rightarrow> nat" where
  "medida_wait W_inicio = 5"
| "medida_wait W_lee = 4"
| "medida_wait W_cola = 3"
| "medida_wait W_resta = 2"
| "medida_wait W_busca = 2"
| "medida_wait W_fin = 0"
| "medida_wait _ = 1"

lemma registrar_marco:
  "registrarRecursosDelProceso cm r p k = Inr k' \<Longrightarrow>
    (\<exists>d. k' = k\<lparr>recursos_por_proceso := d\<rparr> \<and>
      (\<forall>q. q \<noteq> string_itoa cm p \<longrightarrow> dictionary_get d q = dictionary_get (recursos_por_proceso k) q))"
  by (auto simp: registrarRecursosDelProceso_def Let_def split: if_splits option.splits)

interpretation sec_wait: seccion "paso_wait cm recurso p" W_inicio W_fin "wait_recurso_lista cm recurso p"
    "resto_wait cm recurso p" "\<lambda>pc k. medida_wait pc" for cm recurso p
proof
  fix pc k
  assume "pc \<noteq> W_fin"
  then show "resto_wait cm recurso p pc k = bind_res (paso_wait cm recurso p pc k) (\<lambda>(pc', k'). resto_wait cm recurso p pc' k')"
  proof (cases pc)
    case W_inicio
    show ?thesis unfolding W_inicio
      by (cases "registrarRecursosDelProceso cm recurso p k")
        (auto simp: wait_recurso_lista_def dictionary_has_key_get split: option.splits dest!: registrar_marco)
  qed (auto simp: dictionary_has_key_get cola_o_nada_def split: option.splits)
next
  fix pc k pc' k'
  assume "paso_wait cm recurso p pc k = Inr (pc', k')"
  then show "pc' \<noteq> W_inicio"
    by (cases pc) (auto simp: bind_res_Inr_iff split: if_splits option.splits)
next
  fix pc k pc' k'
  assume "pc \<noteq> W_fin" "paso_wait cm recurso p pc k = Inr (pc', k')"
  then show "medida_wait pc' < medida_wait pc"
    by (cases pc) (auto simp: bind_res_Inr_iff split: if_splits option.splits)
qed simp_all

section \<open>The resources of a process that ends\<close>

datatype pc_liberar = L_inicio | L_bucle "string list" | L_saca string "string list" | L_mira string "string list"
  | L_borra string "string list" | L_suma string "string list" | L_fin

text \<open>
  The names in the program counter are those still in the list of the process, which no other
  thread touches. The size of the queue is looked at after its head is in the ready queue.
\<close>

fun paso_liberar :: "string \<Rightarrow> pc_liberar \<Rightarrow> kernel \<Rightarrow> (pc_liberar \<times> kernel) res" where
  "paso_liberar PIDchar L_inicio k =
     (case dictionary_get (recursos_por_proceso k) PIDchar of
        None \<Rightarrow> Inr (L_fin, k)
      | Some None \<Rightarrow> Inl Liberado
      | Some (Some rs) \<Rightarrow> Inr (if rs = [] then L_fin else L_bucle rs, k))"
| "paso_liberar PIDchar (L_bucle []) k =
     Inr (L_fin, k\<lparr>recursos_por_proceso := dictionary_put (recursos_por_proceso k) PIDchar None\<rparr>)"
| "paso_liberar PIDchar (L_bucle (r # rs)) k =
     (if dictionary_get (recursosDisponibles k) r = None then Inl Puntero_nulo
      else Inr (if dictionary_has_key (recursosEnUso k) r then L_saca r rs else L_suma r rs, k))"
| "paso_liberar PIDchar (L_saca r rs) k =
     (case dictionary_get (recursosEnUso k) r of
        None \<Rightarrow> Inl Puntero_nulo
      | Some [] \<Rightarrow> Inl Puntero_nulo
      | Some (q # qs) \<Rightarrow> Inr (L_mira r rs, ready_al_final q (k\<lparr>recursosEnUso := dictionary_put (recursosEnUso k) r qs\<rparr>)))"
| "paso_liberar PIDchar (L_mira r rs) k =
     (case dictionary_get (recursosEnUso k) r of
        None \<Rightarrow> Inl Liberado
      | Some cola \<Rightarrow> Inr (if cola = [] then L_borra r rs else L_bucle rs, k))"
| "paso_liberar PIDchar (L_borra r rs) k = Inr (L_bucle rs, k\<lparr>recursosEnUso := dictionary_remove (recursosEnUso k) r\<rparr>)"
| "paso_liberar PIDchar (L_suma r rs) k =
     (case dictionary_get (recursosDisponibles k) r of
        None \<Rightarrow> Inl Puntero_nulo
      | Some instancias \<Rightarrow> Inr (L_bucle rs, k\<lparr>recursosDisponibles := dictionary_put (recursosDisponibles k) r (instancias + 1)\<rparr>))"
| "paso_liberar PIDchar L_fin k = Inr (L_fin, k)"

definition resto_bucle :: "string \<Rightarrow> string list \<Rightarrow> kernel \<Rightarrow> kernel res" where
  "resto_bucle PIDchar rs k = bind_res (liberar_recursos rs k) (\<lambda>k1.
     Inr (k1\<lparr>recursos_por_proceso := dictionary_put (recursos_por_proceso k1) PIDchar None\<rparr>))"

fun resto_liberar :: "string \<Rightarrow> pc_liberar \<Rightarrow> kernel \<Rightarrow> kernel res" where
  "resto_liberar PIDchar L_inicio k = liberarRecursosDelProceso PIDchar k"
| "resto_liberar PIDchar (L_bucle rs) k = resto_bucle PIDchar rs k"
| "resto_liberar PIDchar (L_saca r rs) k =
     (case dictionary_get (recursosEnUso k) r of
        None \<Rightarrow> Inl Puntero_nulo
      | Some [] \<Rightarrow> Inl Puntero_nulo
      | Some (q # qs) \<Rightarrow> resto_bucle PIDchar rs (ready_al_final q (k\<lparr>recursosEnUso :=
            if qs = [] then dictionary_remove (recursosEnUso k) r else dictionary_put (recursosEnUso k) r qs\<rparr>)))"
| "resto_liberar PIDchar (L_mira r rs) k =
     (case dictionary_get (recursosEnUso k) r of
        None \<Rightarrow> Inl Liberado
      | Some cola \<Rightarrow> resto_bucle PIDchar rs (if cola = [] then k\<lparr>recursosEnUso := dictionary_remove (recursosEnUso k) r\<rparr> else k))"
| "resto_liberar PIDchar pc k =
     (if pc = L_fin then Inr k
      else bind_res (paso_liberar PIDchar pc k) (\<lambda>(pc', k'). case pc' of L_bucle rs \<Rightarrow> resto_bucle PIDchar rs k' | _ \<Rightarrow> Inr k'))"

fun medida_liberar :: "string \<Rightarrow> pc_liberar \<Rightarrow> kernel \<Rightarrow> nat" where
  "medida_liberar PIDchar L_inicio k =
     (case dictionary_get (recursos_por_proceso k) PIDchar of Some (Some rs) \<Rightarrow> 4 * length rs + 2 | _ \<Rightarrow> 1)"
| "medida_liberar PIDchar (L_bucle rs) k = 4 * length rs + 1"
| "medida_liberar PIDchar (L_saca r rs) k = 4 * length rs + 4"
| "medida_liberar PIDchar (L_mira r rs) k = 4 * length rs + 3"
| "medida_liberar PIDchar (L_borra r rs) k = 4 * length rs + 2"
| "medida_liberar PIDchar (L_suma r rs) k = 4 * length rs + 2"
| "medida_liberar PIDchar L_fin k = 0"

lemma remove_put_same: "dictionary_remove (dictionary_put d n v) n = dictionary_remove d n"
  unfolding dictionary_remove_def dictionary_put_def by (induction d) auto

lemma ready_al_final_EnUso:
  "(ready_al_final q (k\<lparr>recursosEnUso := d\<rparr>))\<lparr>recursosEnUso := e\<rparr> = ready_al_final q (k\<lparr>recursosEnUso := e\<rparr>)"
  by (cases k) (simp add: ready_al_final_def)

lemma recursosEnUso_ready [simp]: "recursosEnUso (ready_al_final q k) = recursosEnUso k"
  by (simp add: ready_al_final_def)

lemma liberar_uno:
  "liberar_recurso_y_actualizar_ready r k =
     (if dictionary_get (recursosDisponibles k) r = None then Inl Puntero_nulo
      else case dictionary_get (recursosEnUso k) r of
        Some [] \<Rightarrow> Inl Puntero_nulo
      | Some (q # qs) \<Rightarrow> Inr (ready_al_final q (k\<lparr>recursosEnUso :=
          if qs = [] then dictionary_remove (recursosEnUso k) r else dictionary_put (recursosEnUso k) r qs\<rparr>))
      | None \<Rightarrow> Inr (k\<lparr>recursosDisponibles :=
          dictionary_put (recursosDisponibles k) r (the (dictionary_get (recursosDisponibles k) r) + 1)\<rparr>))"
  by (auto simp: liberar_recurso_y_actualizar_ready_def split: option.splits list.splits)

interpretation sec_liberar: seccion "paso_liberar PIDchar" L_inicio L_fin "liberarRecursosDelProceso PIDchar"
    "resto_liberar PIDchar" "medida_liberar PIDchar" for PIDchar
proof
  fix pc k
  assume "pc \<noteq> L_fin"
  then show "resto_liberar PIDchar pc k = bind_res (paso_liberar PIDchar pc k) (\<lambda>(pc', k'). resto_liberar PIDchar pc' k')"
  proof (cases pc)
    case L_inicio
    then show ?thesis
      by (auto simp: liberarRecursosDelProceso_def resto_bucle_def split: option.splits list.splits)
  next
    case (L_bucle rs)
    then show ?thesis
      by (cases rs) (auto simp: resto_bucle_def liberar_uno dictionary_has_key_get split: option.splits list.splits)
  next
    case (L_saca r rs)
    then show ?thesis
      by (auto simp: ready_al_final_EnUso remove_put_same split: option.splits list.splits)
  qed (auto split: option.splits)
next
  fix pc k pc' k'
  assume "paso_liberar PIDchar pc k = Inr (pc', k')"
  then show "pc' \<noteq> L_inicio"
    by (cases "(PIDchar, pc, k)" rule: paso_liberar.cases) (auto split: if_splits option.splits list.splits)
next
  fix pc k pc' k'
  assume "pc \<noteq> L_fin" "paso_liberar PIDchar pc k = Inr (pc', k')"
  then show "medida_liberar PIDchar pc' k' < medida_liberar PIDchar pc k"
    by (cases "(PIDchar, pc, k)" rule: paso_liberar.cases) (auto split: if_splits option.splits list.splits)
qed simp_all

section \<open>\<open>WAIT\<close> beside the end of a process\<close>

interpretation wait_fin: dos_secciones "paso_wait cm recurso p" W_inicio W_fin "wait_recurso_lista cm recurso p"
    "resto_wait cm recurso p" "\<lambda>pc k. medida_wait pc"
    "paso_liberar PIDchar" L_inicio L_fin "liberarRecursosDelProceso PIDchar" "resto_liberar PIDchar" "medida_liberar PIDchar"
  for cm recurso p PIDchar
  by unfold_locales

text \<open>One step of each thread, and any run of the two.\<close>

abbreviation wait_y_fin :: "bool \<Rightarrow> commons \<Rightarrow> string \<Rightarrow> int \<Rightarrow> string \<Rightarrow>
    pc_wait \<times> pc_liberar \<times> kernel \<Rightarrow> pc_wait \<times> pc_liberar \<times> kernel \<Rightarrow> bool" where
  "wait_y_fin excl cm recurso p PIDchar \<equiv>
     (entrelaza excl (paso_wait cm recurso p) W_inicio W_fin (paso_liberar PIDchar) L_inicio L_fin)\<^sup>*\<^sup>*"

lemma carrera_instancia:
  assumes d: "dictionary_get (recursosDisponibles k) r = Some 0" and u: "dictionary_get (recursosEnUso k) r = None"
    and q: "dictionary_get (recursos_por_proceso k) PIDchar = Some (Some [r])" and p: "string_itoa cm p \<noteq> PIDchar"
    and g: "registrarRecursosDelProceso cm r p k = Inr k1"
  shows "\<exists>k'. wait_y_fin False cm r p PIDchar (W_inicio, L_inicio, k) (W_fin, L_fin, k') \<and>
    dictionary_get (recursosDisponibles k') r = Some 1 \<and> dictionary_get (recursosEnUso k') r = Some [p]"
proof -
  obtain e where k1: "k1 = k\<lparr>recursos_por_proceso := e\<rparr>" "dictionary_get e PIDchar = Some (Some [r])"
    using registrar_marco [OF g] q p by auto
  have "\<exists>k'. corre (paso_wait cm r p) W_fin (paso_liberar PIDchar) L_fin
      [True, True, False, False, False, False, True, True] (W_inicio, L_inicio, k) = Inr (W_fin, L_fin, k') \<and>
    dictionary_get (recursosDisponibles k') r = Some 1 \<and> dictionary_get (recursosEnUso k') r = Some [p]"
    by (simp add: g d u k1 dictionary_has_key_get)
  then show ?thesis by (elim exE conjE) (intro exI conjI corre_entrelaza)
qed

text \<open>The only process of a queue leaves it, and another one is added to the queue that is then thrown away.\<close>

lemma carrera_cola:
  assumes d: "dictionary_get (recursosDisponibles k) r = Some 0" and u: "dictionary_get (recursosEnUso k) r = Some [z]"
    and q: "dictionary_get (recursos_por_proceso k) PIDchar = Some (Some [r])" and p: "string_itoa cm p \<noteq> PIDchar"
    and g: "registrarRecursosDelProceso cm r p k = Inr k1" and ok: "dict_ok (recursosEnUso k)"
  shows "\<exists>k'. wait_y_fin False cm r p PIDchar (W_inicio, L_inicio, k) (W_fin, L_fin, k') \<and> lugares k' = lugares k"
    "\<exists>c. wait_y_fin False cm r p PIDchar (W_inicio, L_inicio, k) c \<and>
      falla_entrelazado False (paso_wait cm r p) W_inicio W_fin (paso_liberar PIDchar) L_inicio L_fin c Liberado"
proof -
  obtain e where k1: "k1 = k\<lparr>recursos_por_proceso := e\<rparr>" "dictionary_get e PIDchar = Some (Some [r])"
    using registrar_marco [OF g] q p by auto
  have "miembros (dictionary_remove (recursosEnUso k) r) + {#z#} = miembros (recursosEnUso k)"
    using miembros_remove [OF ok, of r] u by (simp add: cola_o_nada_def)
  then have m: "add_mset z (miembros (dictionary_remove (recursosEnUso k) r)) = miembros (recursosEnUso k)" by simp
  have "\<exists>k'. corre (paso_wait cm r p) W_fin (paso_liberar PIDchar) L_fin
      [True, True, False, False, False, False, True, True, True, False, False] (W_inicio, L_inicio, k) = Inr (W_fin, L_fin, k') \<and>
    lugares k' = lugares k"
    by (simp add: g d u k1 dictionary_has_key_get remove_put_same)
      (simp add: lugares_def ready_al_final_def remove_put_same m [symmetric])
  then show "\<exists>k'. wait_y_fin False cm r p PIDchar (W_inicio, L_inicio, k) (W_fin, L_fin, k') \<and> lugares k' = lugares k"
    by (elim exE conjE) (intro exI conjI corre_entrelaza)
  have "\<exists>k'. corre (paso_wait cm r p) W_fin (paso_liberar PIDchar) L_fin
      [True, True, True, True, False, False, False, False, False] (W_inicio, L_inicio, k) = Inr (W_agrega, L_bucle [], k') \<and>
    paso_wait cm r p W_agrega k' = Inl Liberado"
    by (simp add: g d u k1 dictionary_has_key_get remove_put_same)
  then show "\<exists>c. wait_y_fin False cm r p PIDchar (W_inicio, L_inicio, k) c \<and>
      falla_entrelazado False (paso_wait cm r p) W_inicio W_fin (paso_liberar PIDchar) L_inicio L_fin c Liberado"
    by (elim exE conjE) (intro exI conjI, rule corre_entrelaza, assumption, simp add: falla_entrelazado_def)
qed

text \<open>
  C12. \<open>WAIT\<close> of a process \<open>p\<close> in the scheduler beside the end of another process in the exit
  thread, statement by statement. If the two excluded each other, every run would go on to its
  end or to a fault, and the outcome, fault or not, would be that of the two calls in one of
  the two orders. The code has no mutex there: when the process that ends holds the only
  instance of the resource and nobody waits for it, a run ends with \<open>p\<close> waiting and the
  instance free; when one process waits for it, a run loses \<open>p\<close>, which is in no queue at the
  end, and another one adds \<open>p\<close> to a list that was destroyed.
\<close>

theorem recursos_dos_hilos:
  "(\<forall>c. wait_y_fin True cm r p PIDchar (W_inicio, L_inicio, k) c \<longrightarrow>
      (\<exists>c'. wait_y_fin True cm r p PIDchar c c' \<and> ((\<exists>k'. c' = (W_fin, L_fin, k')) \<or>
        (\<exists>e. falla_entrelazado True (paso_wait cm r p) W_inicio W_fin (paso_liberar PIDchar) L_inicio L_fin c' e))) \<and>
      (\<forall>k'. c = (W_fin, L_fin, k') \<longrightarrow>
        bind_res (wait_recurso_lista cm r p k) (liberarRecursosDelProceso PIDchar) = Inr k' \<or>
        bind_res (liberarRecursosDelProceso PIDchar k) (wait_recurso_lista cm r p) = Inr k') \<and>
      (\<forall>e. falla_entrelazado True (paso_wait cm r p) W_inicio W_fin (paso_liberar PIDchar) L_inicio L_fin c e \<longrightarrow>
        bind_res (wait_recurso_lista cm r p k) (liberarRecursosDelProceso PIDchar) = Inl e \<or>
        bind_res (liberarRecursosDelProceso PIDchar k) (wait_recurso_lista cm r p) = Inl e)) \<and>
    (dictionary_get (recursosDisponibles k) r = Some 0 \<and> dict_ok (recursosEnUso k) \<and> string_itoa cm p \<noteq> PIDchar \<and>
      dictionary_get (recursos_por_proceso k) PIDchar = Some (Some [r]) \<and> es_ok (registrarRecursosDelProceso cm r p k) \<longrightarrow>
      (dictionary_get (recursosEnUso k) r = None \<longrightarrow>
        (\<exists>k'. wait_y_fin False cm r p PIDchar (W_inicio, L_inicio, k) (W_fin, L_fin, k') \<and>
          dictionary_get (recursosDisponibles k') r = Some 1 \<and> dictionary_get (recursosEnUso k') r = Some [p])) \<and>
      (\<forall>z. dictionary_get (recursosEnUso k) r = Some [z] \<longrightarrow>
        (\<exists>k'. wait_y_fin False cm r p PIDchar (W_inicio, L_inicio, k) (W_fin, L_fin, k') \<and> lugares k' = lugares k) \<and>
        (\<exists>c. wait_y_fin False cm r p PIDchar (W_inicio, L_inicio, k) c \<and>
          falla_entrelazado False (paso_wait cm r p) W_inicio W_fin (paso_liberar PIDchar) L_inicio L_fin c Liberado)))"
proof (intro conjI allI impI)
  fix c
  assume c: "wait_y_fin True cm r p PIDchar (W_inicio, L_inicio, k) c"
  from wait_fin.llega [OF c] show "\<exists>c'. wait_y_fin True cm r p PIDchar c c' \<and> ((\<exists>k'. c' = (W_fin, L_fin, k')) \<or>
      (\<exists>e. falla_entrelazado True (paso_wait cm r p) W_inicio W_fin (paso_liberar PIDchar) L_inicio L_fin c' e))" .
  show "bind_res (wait_recurso_lista cm r p k) (liberarRecursosDelProceso PIDchar) = Inr k' \<or>
      bind_res (liberarRecursosDelProceso PIDchar k) (wait_recurso_lista cm r p) = Inr k'" if "c = (W_fin, L_fin, k')" for k'
    by (rule wait_fin.terminados [OF c [unfolded that]])
  show "bind_res (wait_recurso_lista cm r p k) (liberarRecursosDelProceso PIDchar) = Inl e \<or>
      bind_res (liberarRecursosDelProceso PIDchar k) (wait_recurso_lista cm r p) = Inl e"
    if "falla_entrelazado True (paso_wait cm r p) W_inicio W_fin (paso_liberar PIDchar) L_inicio L_fin c e" for e
    by (rule wait_fin.fallas [OF c that])
next
  assume h: "dictionary_get (recursosDisponibles k) r = Some 0 \<and> dict_ok (recursosEnUso k) \<and> string_itoa cm p \<noteq> PIDchar \<and>
      dictionary_get (recursos_por_proceso k) PIDchar = Some (Some [r]) \<and> es_ok (registrarRecursosDelProceso cm r p k)"
  then obtain k1 where g: "registrarRecursosDelProceso cm r p k = Inr k1" by (auto simp: es_ok_iff)
  show "\<exists>k'. wait_y_fin False cm r p PIDchar (W_inicio, L_inicio, k) (W_fin, L_fin, k') \<and>
      dictionary_get (recursosDisponibles k') r = Some 1 \<and> dictionary_get (recursosEnUso k') r = Some [p]"
    if "dictionary_get (recursosEnUso k) r = None"
    using carrera_instancia [OF _ that _ _ g] h by simp
  fix z
  assume z: "dictionary_get (recursosEnUso k) r = Some [z]"
  show "\<exists>k'. wait_y_fin False cm r p PIDchar (W_inicio, L_inicio, k) (W_fin, L_fin, k') \<and> lugares k' = lugares k"
    "\<exists>c. wait_y_fin False cm r p PIDchar (W_inicio, L_inicio, k) c \<and>
      falla_entrelazado False (paso_wait cm r p) W_inicio W_fin (paso_liberar PIDchar) L_inicio L_fin c Liberado"
    using carrera_cola [OF _ z _ _ g] h by simp_all
qed

text \<open>Process 7 ends with the only \<open>R\<close>, and 5 makes a \<open>WAIT\<close>: nobody waits, or 6 does.\<close>

definition ker_carrera :: "(string, int list) dict \<Rightarrow> kernel" where
  "ker_carrera enUso = (ker_inicial 4 [(''R'', 0)] (mem_ej 10) fs_ej)\<lparr>recursosEnUso := enUso,
     recursos_por_proceso := [(''7'', Some [''R''])]\<rparr>"

theorem recursos_dos_hilos_witness:
  "(\<exists>k'. wait_y_fin False commons_ej ''R'' 5 ''7'' (W_inicio, L_inicio, ker_carrera []) (W_fin, L_fin, k') \<and>
      dictionary_get (recursosDisponibles k') ''R'' = Some 1 \<and> dictionary_get (recursosEnUso k') ''R'' = Some [5]) \<and>
    (\<exists>k'. wait_y_fin False commons_ej ''R'' 5 ''7'' (W_inicio, L_inicio, ker_carrera [(''R'', [6])]) (W_fin, L_fin, k') \<and>
      lugares k' = {#6#})"
proof -
  have i: "string_itoa commons_ej 5 = ''5''" by code_simp
  have r: "es_ok (registrarRecursosDelProceso commons_ej ''R'' 5 (ker_carrera d))" for d
    by (simp add: registrarRecursosDelProceso_def ker_carrera_def ker_inicial_def i dictionary_get_def)
  have l: "lugares (ker_carrera [(''R'', [6])]) = {#6#}"
    by (simp add: lugares_def ker_carrera_def ker_inicial_def miembros_def)
  have c: "dictionary_get (recursosDisponibles (ker_carrera d)) ''R'' = Some 0" "recursosEnUso (ker_carrera d) = d"
    "dictionary_get (recursos_por_proceso (ker_carrera d)) ''7'' = Some (Some [''R''])" "string_itoa commons_ej 5 \<noteq> ''7''" for d
    by (simp_all add: ker_carrera_def ker_inicial_def i dictionary_get_def)
  show ?thesis
    using recursos_dos_hilos [of commons_ej "''R''" 5 "''7''" "ker_carrera []"]
      recursos_dos_hilos [of commons_ej "''R''" 5 "''7''" "ker_carrera [(''R'', [6])]"] r c l
    by (simp add: dict_ok_def) (simp add: dictionary_get_def)
qed

section \<open>\<open>F_OPEN\<close> beside the end of a process with open files\<close>

datatype pc_abrir = A_inicio | A_crea | A_consulta nat | A_agrega nat | A_anota nat | A_ready
  | A_tabla nat | A_cola | A_espera | A_fin

text \<open>The file system answers the request of the opening thread in one step.\<close>

fun paso_abrir :: "commons \<Rightarrow> fsConfig \<Rightarrow> string \<Rightarrow> int \<Rightarrow> pc_abrir \<Rightarrow> kernel \<Rightarrow> (pc_abrir \<times> kernel) res" where
  "paso_abrir cm fcfg name p A_inicio k = bind_res (buscar_descriptor k name (GDT k)) (\<lambda>encontrado.
     Inr (case encontrado of None \<Rightarrow> A_crea | Some i \<Rightarrow> A_tabla i, k))"
| "paso_abrir cm fcfg name p A_crea k = Inr (A_consulta (length (descriptores k)),
     k\<lparr>diccionario_colas_archivos := dictionary_put (diccionario_colas_archivos k) name [],
       descriptores := descriptores k @ [Some \<lparr>file_name = name, pointer = 0\<rparr>]\<rparr>)"
| "paso_abrir cm fcfg name p (A_consulta i) k =
     bind_res (pedir_fs cm fcfg (consulting_file_system name) k) (\<lambda>(k', answer).
       if answer \<noteq> 1 then Inl Salida else Inr (A_agrega i, k'))"
| "paso_abrir cm fcfg name p (A_agrega i) k = Inr (A_anota i, k\<lparr>GDT := GDT k @ [i]\<rparr>)"
| "paso_abrir cm fcfg name p (A_anota i) k =
     bind_res (cambiar_pcb p (\<lambda>b. b\<lparr>pcb_tablaArchivos := i # pcb_tablaArchivos b\<rparr>) k) (\<lambda>k'. Inr (A_ready, k'))"
| "paso_abrir cm fcfg name p A_ready k = Inr (A_fin, ready_al_inicio p k)"
| "paso_abrir cm fcfg name p (A_tabla i) k =
     bind_res (cambiar_pcb p (\<lambda>b. b\<lparr>pcb_tablaArchivos := i # pcb_tablaArchivos b\<rparr>) k) (\<lambda>k'. Inr (A_cola, k'))"
| "paso_abrir cm fcfg name p A_cola k = bind_res (cola_de_archivo k name) (\<lambda>_. Inr (A_espera, k))"
| "paso_abrir cm fcfg name p A_espera k =
     (case dictionary_get (diccionario_colas_archivos k) name of
        None \<Rightarrow> Inl Liberado
      | Some cola \<Rightarrow>
          Inr (A_fin, k\<lparr>diccionario_colas_archivos := dictionary_put (diccionario_colas_archivos k) name (cola @ [p])\<rparr>))"
| "paso_abrir cm fcfg name p A_fin k = Inr (A_fin, k)"

fun medida_abrir :: "pc_abrir \<Rightarrow> nat" where
  "medida_abrir A_inicio = 6"
| "medida_abrir A_crea = 5"
| "medida_abrir (A_consulta i) = 4"
| "medida_abrir (A_agrega i) = 3"
| "medida_abrir (A_anota i) = 2"
| "medida_abrir (A_tabla i) = 3"
| "medida_abrir A_cola = 2"
| "medida_abrir A_fin = 0"
| "medida_abrir _ = 1"

function (sequential) resto_abrir :: "commons \<Rightarrow> fsConfig \<Rightarrow> string \<Rightarrow> int \<Rightarrow> pc_abrir \<Rightarrow> kernel \<Rightarrow> kernel res" where
  "resto_abrir cm fcfg name p A_inicio k = process_f_open cm fcfg [name] p k"
| "resto_abrir cm fcfg name p (A_agrega i) k =
     bind_res (cambiar_pcb p (\<lambda>b. b\<lparr>pcb_tablaArchivos := i # pcb_tablaArchivos b\<rparr>) (k\<lparr>GDT := GDT k @ [i]\<rparr>))
       (\<lambda>k'. Inr (ready_al_inicio p k'))"
| "resto_abrir cm fcfg name p (A_consulta i) k =
     bind_res (pedir_fs cm fcfg (consulting_file_system name) k) (\<lambda>(k', answer).
       if answer \<noteq> 1 then Inl Salida else resto_abrir cm fcfg name p (A_agrega i) k')"
| "resto_abrir cm fcfg name p A_crea k = resto_abrir cm fcfg name p (A_consulta (length (descriptores k)))
     (k\<lparr>diccionario_colas_archivos := dictionary_put (diccionario_colas_archivos k) name [],
        descriptores := descriptores k @ [Some \<lparr>file_name = name, pointer = 0\<rparr>]\<rparr>)"
| "resto_abrir cm fcfg name p (A_anota i) k =
     bind_res (cambiar_pcb p (\<lambda>b. b\<lparr>pcb_tablaArchivos := i # pcb_tablaArchivos b\<rparr>) k) (\<lambda>k'. Inr (ready_al_inicio p k'))"
| "resto_abrir cm fcfg name p A_cola k = bind_res (cola_de_archivo k name) (\<lambda>cola.
     Inr (k\<lparr>diccionario_colas_archivos := dictionary_put (diccionario_colas_archivos k) name (cola @ [p])\<rparr>))"
| "resto_abrir cm fcfg name p (A_tabla i) k =
     bind_res (cambiar_pcb p (\<lambda>b. b\<lparr>pcb_tablaArchivos := i # pcb_tablaArchivos b\<rparr>) k) (resto_abrir cm fcfg name p A_cola)"
| "resto_abrir cm fcfg name p pc k =
     (if pc = A_fin then Inr k else bind_res (paso_abrir cm fcfg name p pc k) (\<lambda>(_, k'). Inr k'))"
  by pat_completeness auto
termination by (relation "measure (\<lambda>(cm, fcfg, name, p, pc, k). medida_abrir pc)") simp_all

lemma resto_abrir_A_cola: "resto_abrir cm fcfg name p A_cola = (\<lambda>k. bind_res (cola_de_archivo k name) (\<lambda>cola.
     Inr (k\<lparr>diccionario_colas_archivos := dictionary_put (diccionario_colas_archivos k) name (cola @ [p])\<rparr>)))"
  by (simp add: fun_eq_iff)

interpretation sec_abrir: seccion "paso_abrir cm fcfg name p" A_inicio A_fin "process_f_open cm fcfg [name] p"
    "resto_abrir cm fcfg name p" "\<lambda>pc k. medida_abrir pc" for cm fcfg name p
proof
  fix pc k
  assume "pc \<noteq> A_fin"
  then show "resto_abrir cm fcfg name p pc k = bind_res (paso_abrir cm fcfg name p pc k) (\<lambda>(pc', k'). resto_abrir cm fcfg name p pc' k')"
  proof (cases pc)
    case A_inicio
    show ?thesis unfolding A_inicio
      by (cases "buscar_descriptor k name (GDT k)")
        (simp_all add: process_f_open_def parametro_def Let_def resto_abrir_A_cola split: option.splits cong: if_cong)
  next
    case (A_consulta i)
    then show ?thesis by (cases "pedir_fs cm fcfg (consulting_file_system name) k") auto
  next
    case A_cola
    then show ?thesis by (auto simp: cola_de_archivo_def split: option.splits)
  next
    case (A_tabla i)
    then show ?thesis by (cases "cambiar_pcb p (\<lambda>b. b\<lparr>pcb_tablaArchivos := i # pcb_tablaArchivos b\<rparr>) k") simp_all
  next
    case (A_anota i)
    then show ?thesis by (cases "cambiar_pcb p (\<lambda>b. b\<lparr>pcb_tablaArchivos := i # pcb_tablaArchivos b\<rparr>) k") simp_all
  qed (auto split: option.splits)
next
  fix pc k pc' k'
  assume "paso_abrir cm fcfg name p pc k = Inr (pc', k')"
  then show "pc' \<noteq> A_inicio"
    by (cases pc) (auto simp: bind_res_Inr_iff split: if_splits option.splits)
next
  fix pc k pc' k'
  assume "pc \<noteq> A_fin" "paso_abrir cm fcfg name p pc k = Inr (pc', k')"
  then show "medida_abrir pc' < medida_abrir pc"
    by (cases pc) (auto simp: bind_res_Inr_iff split: if_splits option.splits)
qed simp_all

datatype pc_cerrar = C_inicio | C_quita string | C_borra string | C_libera | C_saca string | C_fin

text \<open>\<open>list_is_empty\<close> of the queue of the file comes before everything that is freed.\<close>

fun paso_cerrar :: "nat \<Rightarrow> pc_cerrar \<Rightarrow> kernel \<Rightarrow> (pc_cerrar \<times> kernel) res" where
  "paso_cerrar i C_inicio k = bind_res (descriptor_de k i) (\<lambda>d. bind_res (cola_de_archivo k (file_name d)) (\<lambda>cola.
     Inr (if cola = [] then C_quita (file_name d) else C_saca (file_name d), k)))"
| "paso_cerrar i (C_quita name) k = Inr (C_borra name, k\<lparr>GDT := remove1 i (GDT k)\<rparr>)"
| "paso_cerrar i (C_borra name) k =
     Inr (C_libera, k\<lparr>diccionario_colas_archivos := dictionary_remove (diccionario_colas_archivos k) name\<rparr>)"
| "paso_cerrar i C_libera k = Inr (C_fin, k\<lparr>descriptores := (descriptores k)[i := None]\<rparr>)"
| "paso_cerrar i (C_saca name) k =
     (case dictionary_get (diccionario_colas_archivos k) name of
        None \<Rightarrow> Inl Liberado
      | Some [] \<Rightarrow> Inl Puntero_nulo
      | Some (q # qs) \<Rightarrow> Inr (C_fin, ready_al_final q (k\<lparr>diccionario_colas_archivos :=
            dictionary_put (diccionario_colas_archivos k) name qs\<rparr>)))"
| "paso_cerrar i C_fin k = Inr (C_fin, k)"

fun medida_cerrar :: "pc_cerrar \<Rightarrow> nat" where
  "medida_cerrar C_inicio = 4"
| "medida_cerrar (C_quita name) = 3"
| "medida_cerrar (C_borra name) = 2"
| "medida_cerrar C_fin = 0"
| "medida_cerrar _ = 1"

function (sequential) resto_cerrar :: "nat \<Rightarrow> pc_cerrar \<Rightarrow> kernel \<Rightarrow> kernel res" where
  "resto_cerrar i C_inicio k = liberar_archivo i k"
| "resto_cerrar i C_libera k = Inr (k\<lparr>descriptores := (descriptores k)[i := None]\<rparr>)"
| "resto_cerrar i (C_borra name) k =
     resto_cerrar i C_libera (k\<lparr>diccionario_colas_archivos := dictionary_remove (diccionario_colas_archivos k) name\<rparr>)"
| "resto_cerrar i (C_quita name) k = resto_cerrar i (C_borra name) (k\<lparr>GDT := remove1 i (GDT k)\<rparr>)"
| "resto_cerrar i pc k = (if pc = C_fin then Inr k else bind_res (paso_cerrar i pc k) (\<lambda>(_, k'). Inr k'))"
  by pat_completeness auto
termination by (relation "measure (\<lambda>(i, pc, k). medida_cerrar pc)") simp_all

interpretation sec_cerrar: seccion "paso_cerrar i" C_inicio C_fin "liberar_archivo i" "resto_cerrar i"
    "\<lambda>pc k. medida_cerrar pc" for i
proof
  fix pc k
  assume "pc \<noteq> C_fin"
  then show "resto_cerrar i pc k = bind_res (paso_cerrar i pc k) (\<lambda>(pc', k'). resto_cerrar i pc' k')"
  proof (cases pc)
    case C_inicio
    then show ?thesis
      by (auto simp: liberar_archivo_def cola_de_archivo_def descriptor_de_def split: option.splits list.splits)
  qed (auto split: option.splits list.splits)
next
  fix pc k pc' k'
  assume "paso_cerrar i pc k = Inr (pc', k')"
  then show "pc' \<noteq> C_inicio"
    by (cases pc) (auto simp: bind_res_Inr_iff split: if_splits option.splits list.splits)
next
  fix pc k pc' k'
  assume "pc \<noteq> C_fin" "paso_cerrar i pc k = Inr (pc', k')"
  then show "medida_cerrar pc' < medida_cerrar pc"
    by (cases pc) (auto simp: bind_res_Inr_iff split: if_splits option.splits list.splits)
qed simp_all

interpretation abrir_fin: dos_secciones "paso_abrir cm fcfg name p" A_inicio A_fin "process_f_open cm fcfg [name] p"
    "resto_abrir cm fcfg name p" "\<lambda>pc k. medida_abrir pc"
    "paso_cerrar i" C_inicio C_fin "liberar_archivo i" "resto_cerrar i" "\<lambda>pc k. medida_cerrar pc"
  for cm fcfg name p i
  by unfold_locales

abbreviation abrir_y_fin :: "bool \<Rightarrow> commons \<Rightarrow> fsConfig \<Rightarrow> string \<Rightarrow> int \<Rightarrow> nat \<Rightarrow>
    pc_abrir \<times> pc_cerrar \<times> kernel \<Rightarrow> pc_abrir \<times> pc_cerrar \<times> kernel \<Rightarrow> bool" where
  "abrir_y_fin excl cm fcfg name p i \<equiv>
     (entrelaza excl (paso_abrir cm fcfg name p) A_inicio A_fin (paso_cerrar i) C_inicio C_fin)\<^sup>*\<^sup>*"

lemma cambiar_pcb_marco:
  "cambiar_pcb p f k = Inr k' \<Longrightarrow> \<exists>b. dictionary_get (pcbs k) p = Some b \<and> k' = k\<lparr>pcbs := dictionary_put (pcbs k) p (f b)\<rparr>"
  by (auto simp: cambiar_pcb_def pcb_de_def bind_res_Inr_iff split: option.splits)

lemma carrera_archivo:
  assumes i: "buscar_descriptor k name (GDT k) = Inr (Some i)" "descriptor_de k i = Inr d" "file_name d = name"
    and q: "dictionary_get (diccionario_colas_archivos k) name = Some []" and p: "dictionary_get (pcbs k) p = Some b"
    and ok: "dict_ok (diccionario_colas_archivos k)"
  shows "\<exists>k' b'. abrir_y_fin False cm fcfg name p i (A_inicio, C_inicio, k) (A_fin, C_fin, k') \<and> lugares k' = lugares k \<and>
      dictionary_get (pcbs k') p = Some b' \<and> i \<in> set (pcb_tablaArchivos b') \<and> descriptor_de k' i = Inl Liberado"
    "\<exists>c. abrir_y_fin False cm fcfg name p i (A_inicio, C_inicio, k) c \<and>
      falla_entrelazado False (paso_abrir cm fcfg name p) A_inicio A_fin (paso_cerrar i) C_inicio C_fin c Puntero_nulo"
proof -
  have "miembros (dictionary_remove (diccionario_colas_archivos k) name) + mset [] = miembros (diccionario_colas_archivos k)"
    using miembros_remove [OF ok, of name] q by (simp add: cola_o_nada_def)
  then have m: "miembros (dictionary_remove (diccionario_colas_archivos k) name) = miembros (diccionario_colas_archivos k)" by simp
  have "\<exists>k' b'. corre (paso_abrir cm fcfg name p) A_fin (paso_cerrar i) C_fin
      [True, False, True, True, True, False, False, False] (A_inicio, C_inicio, k) = Inr (A_fin, C_fin, k') \<and>
    lugares k' = lugares k \<and> dictionary_get (pcbs k') p = Some b' \<and> i \<in> set (pcb_tablaArchivos b') \<and>
    descriptor_de k' i = Inl Liberado"
    using i(3)
    by (simp add: i(1,2) q p cambiar_pcb_def pcb_de_def cola_de_archivo_def remove_put_same)
      (simp add: lugares_def m descriptor_de_def)
  then show "\<exists>k' b'. abrir_y_fin False cm fcfg name p i (A_inicio, C_inicio, k) (A_fin, C_fin, k') \<and> lugares k' = lugares k \<and>
      dictionary_get (pcbs k') p = Some b' \<and> i \<in> set (pcb_tablaArchivos b') \<and> descriptor_de k' i = Inl Liberado"
    by (elim exE conjE) (intro exI conjI corre_entrelaza)
  have "\<exists>k'. corre (paso_abrir cm fcfg name p) A_fin (paso_cerrar i) C_fin
      [True, False, False, False, True] (A_inicio, C_inicio, k) = Inr (A_cola, C_libera, k') \<and>
    paso_abrir cm fcfg name p A_cola k' = Inl Puntero_nulo"
    using i(3) by (simp add: i(1,2) q p cambiar_pcb_def pcb_de_def cola_de_archivo_def)
  then show "\<exists>c. abrir_y_fin False cm fcfg name p i (A_inicio, C_inicio, k) c \<and>
      falla_entrelazado False (paso_abrir cm fcfg name p) A_inicio A_fin (paso_cerrar i) C_inicio C_fin c Puntero_nulo"
    by (elim exE conjE) (intro exI conjI, rule corre_entrelaza, assumption, simp add: falla_entrelazado_def)
qed

text \<open>
  C13. \<open>F_OPEN\<close> of a file in the thread of the file system beside the close of a file in the
  exit thread, statement by statement. If the two excluded each other, every run would go on to
  its end or to a fault, and the outcome would be that of the two calls in one of the two
  orders. The code has no mutex there: when the process that ends is the only one with the
  file open, a run ends with the other process in no queue and with a freed descriptor in its
  table, and another one adds to a queue that is no longer there.
\<close>

theorem archivos_dos_hilos:
  "(\<forall>c. abrir_y_fin True cm fcfg name p i (A_inicio, C_inicio, k) c \<longrightarrow>
      (\<exists>c'. abrir_y_fin True cm fcfg name p i c c' \<and> ((\<exists>k'. c' = (A_fin, C_fin, k')) \<or>
        (\<exists>e. falla_entrelazado True (paso_abrir cm fcfg name p) A_inicio A_fin (paso_cerrar i) C_inicio C_fin c' e))) \<and>
      (\<forall>k'. c = (A_fin, C_fin, k') \<longrightarrow>
        bind_res (process_f_open cm fcfg [name] p k) (liberar_archivo i) = Inr k' \<or>
        bind_res (liberar_archivo i k) (process_f_open cm fcfg [name] p) = Inr k') \<and>
      (\<forall>e. falla_entrelazado True (paso_abrir cm fcfg name p) A_inicio A_fin (paso_cerrar i) C_inicio C_fin c e \<longrightarrow>
        bind_res (process_f_open cm fcfg [name] p k) (liberar_archivo i) = Inl e \<or>
        bind_res (liberar_archivo i k) (process_f_open cm fcfg [name] p) = Inl e)) \<and>
    (buscar_descriptor k name (GDT k) = Inr (Some i) \<and> map_sum id file_name (descriptor_de k i) = Inr name \<and>
      dictionary_get (diccionario_colas_archivos k) name = Some [] \<and> dictionary_has_key (pcbs k) p \<and>
      dict_ok (diccionario_colas_archivos k) \<longrightarrow>
      (\<exists>k' b'. abrir_y_fin False cm fcfg name p i (A_inicio, C_inicio, k) (A_fin, C_fin, k') \<and> lugares k' = lugares k \<and>
        dictionary_get (pcbs k') p = Some b' \<and> i \<in> set (pcb_tablaArchivos b') \<and> descriptor_de k' i = Inl Liberado) \<and>
      (\<exists>c. abrir_y_fin False cm fcfg name p i (A_inicio, C_inicio, k) c \<and>
        falla_entrelazado False (paso_abrir cm fcfg name p) A_inicio A_fin (paso_cerrar i) C_inicio C_fin c Puntero_nulo))"
proof (rule conjI, intro allI impI)
  fix c
  assume c: "abrir_y_fin True cm fcfg name p i (A_inicio, C_inicio, k) c"
  show "(\<exists>c'. abrir_y_fin True cm fcfg name p i c c' \<and> ((\<exists>k'. c' = (A_fin, C_fin, k')) \<or>
        (\<exists>e. falla_entrelazado True (paso_abrir cm fcfg name p) A_inicio A_fin (paso_cerrar i) C_inicio C_fin c' e))) \<and>
      (\<forall>k'. c = (A_fin, C_fin, k') \<longrightarrow>
        bind_res (process_f_open cm fcfg [name] p k) (liberar_archivo i) = Inr k' \<or>
        bind_res (liberar_archivo i k) (process_f_open cm fcfg [name] p) = Inr k') \<and>
      (\<forall>e. falla_entrelazado True (paso_abrir cm fcfg name p) A_inicio A_fin (paso_cerrar i) C_inicio C_fin c e \<longrightarrow>
        bind_res (process_f_open cm fcfg [name] p k) (liberar_archivo i) = Inl e \<or>
        bind_res (liberar_archivo i k) (process_f_open cm fcfg [name] p) = Inl e)"
    using abrir_fin.llega [OF c] abrir_fin.terminados abrir_fin.fallas [OF c] c by blast
next
  show "buscar_descriptor k name (GDT k) = Inr (Some i) \<and> map_sum id file_name (descriptor_de k i) = Inr name \<and>
      dictionary_get (diccionario_colas_archivos k) name = Some [] \<and> dictionary_has_key (pcbs k) p \<and>
      dict_ok (diccionario_colas_archivos k) \<longrightarrow>
      (\<exists>k' b'. abrir_y_fin False cm fcfg name p i (A_inicio, C_inicio, k) (A_fin, C_fin, k') \<and> lugares k' = lugares k \<and>
        dictionary_get (pcbs k') p = Some b' \<and> i \<in> set (pcb_tablaArchivos b') \<and> descriptor_de k' i = Inl Liberado) \<and>
      (\<exists>c. abrir_y_fin False cm fcfg name p i (A_inicio, C_inicio, k) c \<and>
        falla_entrelazado False (paso_abrir cm fcfg name p) A_inicio A_fin (paso_cerrar i) C_inicio C_fin c Puntero_nulo)"
    (is "?h \<longrightarrow> ?c")
  proof
    assume h: ?h
    obtain d where d: "descriptor_de k i = Inr d" "file_name d = name" using h by (cases "descriptor_de k i") auto
    obtain b where b: "dictionary_get (pcbs k) p = Some b" using h by (auto simp: dictionary_has_key_get)
    from h have h': "buscar_descriptor k name (GDT k) = Inr (Some i)" "dictionary_get (diccionario_colas_archivos k) name = Some []"
      "dict_ok (diccionario_colas_archivos k)" by blast+
    show ?c using carrera_archivo [OF h'(1) d h'(2) b h'(3)] by blast
  qed
qed

text \<open>Process 7 has the file \<open>a\<close> open and ends, and 5 opens it.\<close>

definition ker_carrera_archivo :: kernel where
  "ker_carrera_archivo = (ker_inicial 4 [] (mem_ej 10) fs_ej)\<lparr>pcbs := [(5, pcb_ej 1 [seg0_ej])], global_PCB_list := [5, 7],
     descriptores := [Some \<lparr>file_name = ''a'', pointer = 0\<rparr>], GDT := [0], diccionario_colas_archivos := [(''a'', [])]\<rparr>"

theorem archivos_dos_hilos_witness:
  "\<exists>k' b'. abrir_y_fin False commons_ej fscfg_ej ''a'' 5 0 (A_inicio, C_inicio, ker_carrera_archivo) (A_fin, C_fin, k') \<and>
    lugares k' = {#} \<and> dictionary_get (pcbs k') 5 = Some b' \<and> 0 \<in> set (pcb_tablaArchivos b') \<and> descriptor_de k' 0 = Inl Liberado"
proof -
  have k: "buscar_descriptor ker_carrera_archivo ''a'' (GDT ker_carrera_archivo) = Inr (Some 0)"
    "map_sum id file_name (descriptor_de ker_carrera_archivo 0) = Inr ''a''"
    "dictionary_get (diccionario_colas_archivos ker_carrera_archivo) ''a'' = Some []"
    "dictionary_has_key (pcbs ker_carrera_archivo) 5" "dict_ok (diccionario_colas_archivos ker_carrera_archivo)"
    "lugares ker_carrera_archivo = {#}"
    by (simp_all add: ker_carrera_archivo_def ker_inicial_def descriptor_de_def dictionary_get_def dictionary_has_key_def
        dict_ok_def lugares_def miembros_def)
  show ?thesis
    using archivos_dos_hilos [of commons_ej fscfg_ej "''a''" 5 0 ker_carrera_archivo] k by simp
qed

end
