(* ===== verification/Spec2Isabelle.thy ===== *)
theory Spec2Isabelle
  imports Cpu_Propiedades Fs_Propiedades Fs_Arranque Mem_Recepcion Mem_Ideal Con_Consola Arranque Ker_Pedidos Ker_Segmentos Ker_Socket Ker_Claves
    Ker_Diagrama Ker_Acepta Ker_Computo Ker_Carreras
begin

text \<open>
  A verification library of UnixOS-Simulation, a simulation of an operating system as five
  processes that talk over sockets: the kernel (\<open>src/Kernel\<close>), the memory module
  (\<open>src/Memoria\<close>), the CPU (\<open>src/cpu\<close>), the file system (\<open>src/FileSystem\<close>) and any number of
  consoles (\<open>src/Consola\<close>), over a shared library of messages (\<open>src/ganSOsLibrary\<close>).

  A console sends a program to the kernel. The kernel makes a PCB, admits it up to a degree of
  multiprogramming, gets its segment table from the memory module and sends its context to the
  CPU, which runs it, reads and writes registers through the memory module, and sends the
  context back with the system call that interrupted it. The kernel serves the call: \<open>WAIT\<close> and
  \<open>SIGNAL\<close>, \<open>I/O\<close>, segments (with compaction of the memory), files (through the file system,
  which moves bytes between its blocks and the memory module), or the end of the process.

  \<^bold>\<open>Shared ground.\<close> \<open>Prelude\<close> has the type of results that may fail, C strings, \<open>atoi\<close> and
  the list operations; \<open>Bytes\<close> the reads and writes of a block of bytes, as a locale
  \<open>area_bytes\<close> whose laws the user space of the memory module and the block file of the file
  system provide; \<open>Commons\<close> the containers of so-commons; \<open>Secciones\<close>
  two threads over one state, the section of one of them as a locale (\<open>seccion\<close>) and two of
  them (\<open>dos_secciones\<close>).

  \<^bold>\<open>Messages\<close> (\<open>funciones.c\<close>, \<open>header.h\<close>). \<open>Paquete\<close> has every builder and reader, down to
  the bytes, with the names of the C functions; \<open>Paquete_Leyes\<close> shows that readers give back
  what builders wrote and leave the rest of the socket (locale \<open>codificador\<close>, one
  interpretation per kind of element).

  \<^bold>\<open>Memory module\<close> (\<open>memoria.h\<close>, \<open>memoria.c\<close>). \<open>Mem_Huecos\<close>: the free list and the three
  policies (locale \<open>politica\<close>). \<open>Mem_Segmentos\<close>: state, creation, deletion, end of a process.
  \<open>Mem_Compactacion\<close>: the loop of \<open>compactar_segmentos\<close>. \<open>Mem_Servidor\<close>: the three service
  loops, one request each. \<open>Mem_Invariante\<close>, \<open>Mem_Operaciones\<close>: holes and live segments
  partition the addresses, and every operation keeps that. \<open>Mem_Propiedades\<close>: what the loops
  answer. \<open>Mem_Ideal\<close>: compaction equals a reference that is one \<open>map\<close>. \<open>Mem_Conexiones\<close>,
  \<open>Mem_Recepcion\<close>: the start, as a loop over clients and as two threads with semaphores that
  implement it.

  \<^bold>\<open>CPU\<close> (\<open>cpu.h\<close>, \<open>cpu.c\<close>). \<open>Cpu_Registros\<close>: registers, \<open>set\<close>, \<open>MMU\<close>. \<open>Cpu_Ciclo\<close>: one
  function per instruction, fetch, decode and execute, \<open>while(!interrupted)\<close>. \<open>Cpu_Leyes\<close> and
  \<open>Cpu_Propiedades\<close>: the cycle ends with one context, a program stays in its segments.
  \<open>Cpu_Programas\<close>: the programs whose instructions have their operands and that end with
  \<open>EXIT\<close>, and, as progress and preservation, that the CPU does not stop on one of them, unless
  a register does not fit in its block of 5 bytes, and gives back a context whose parameters are
  those of the system call.

  \<^bold>\<open>File system\<close> (\<open>filesys.h\<close>, \<open>filesys.c\<close>). \<open>Fs_Bloques\<close>: blocks, bitmap, FCBs and the
  four requests. \<open>Fs_Invariante\<close>, \<open>Fs_Truncar\<close>: each used block belongs to one file.
  \<open>Fs_Archivos\<close>: the abstract file and how reads and writes refine it. \<open>Fs_Propiedades\<close>: what a
  request does. \<open>Fs_Arranque\<close>: the files on disk, the start, and that a restart finds them.

  \<^bold>\<open>Kernel\<close> (\<open>kernel.h\<close>, \<open>kernel.c\<close>). \<open>Ker_Estado\<close>: PCBs, queues and resources.
  \<open>Ker_Servicios\<close>: what it asks of the memory module and of the file system, composed with
  their service loops. \<open>Ker_Hilos\<close>: one iteration of each thread, and the kernel with FIFO as a
  transition system. \<open>Ker_Hrrn\<close>: the same with HRRN. \<open>Ker_Lugares\<close>, \<open>Ker_Invariante\<close>: every
  process is in one place (locale \<open>invariante_ker\<close>: one obligation per thread).
  \<open>Ker_Recursos\<close>: the balance of instances (locales \<open>contrato_base\<close>, \<open>contrato_ker\<close>,
  \<open>contrato_archivos\<close>: what an operation that does not concern a part of the state does to it;
  \<open>contrato_recursos\<close>: one obligation per operation on resources). \<open>Ker_Archivos\<close>: the table
  of open files. \<open>Ker_Propiedades\<close>, \<open>Ker_Hrrn_Propiedades\<close>: these in every reachable state,
  with either scheduler (locale \<open>invariante_sin_orden\<close>, which extends \<open>invariante_ker\<close> to
  HRRN), and the order of the ready queue with HRRN. \<open>Ker_Carreras\<close>: the iterations that share
  resources or files, statement by statement (\<open>WAIT\<close>, the resources of a process that ends,
  \<open>F_OPEN\<close>, the close of a file); in mutual exclusion two of them do what their iterations do
  in one of the two orders, and without it, as in the code, they do not. \<open>Ker_Diagrama\<close>:
  the abstract machine of the processes, the diagram of five states, and that every step of
  either scheduler and of every other thread is a step of it. \<open>Ker_Segmentos\<close>,
  \<open>Ker_Pedidos\<close>: \<open>CREATE_SEGMENT\<close> and \<open>F_WRITE\<close> from end to end. \<open>Ker_Socket\<close>: the threads
  that share the socket of the memory module, with a request, its service and the reading of
  its answer as separate steps in any interleaving: the answers keep the order of the requests,
  but the code lets a thread read the answer of another. \<open>Ker_Claves\<close>: the memory module has
  tables for the admitted processes only, in every reachable state, and from there that an
  iteration of the threads that admit, dispatch and end processes does not fail. \<open>Ker_Acepta\<close>: the accepting
  loop and the receivers of the consoles, call by call: they do what the one step of
  \<open>Ker_Hilos\<close> says when they find their own socket in the variable of the loop, and give two
  processes the same PID when they do not. \<open>Ker_Turno\<close>: a turn of a process through kernel,
  CPU and memory module (\<open>turno\<close>, the composition of \<open>fifo_despachar\<close>, \<open>cpu_atender\<close> and
  \<open>recibir_PCB\<close>): for a well-formed program it always ends, the next turn goes on from where it
  ended, and the turn is an execution of the transition system of \<open>Ker_Hilos\<close>. \<open>Ker_Computo\<close>: turn after
  turn (\<open>turnos\<close>), every process of a ready queue of processes that compute reaches its end.

  \<^bold>\<open>Console, delays, start.\<close> \<open>Con_Consola\<close>: the program from its file to the kernel and the
  verdict back. \<open>Retardos\<close>: the arguments of \<open>nanosleep\<close>. \<open>Arranque\<close>: configurations,
  resources and handshakes.
\<close>

text \<open>
  \<^bold>\<open>How C is modelled.\<close> A function that may stop the module, or do something undefined, has a
  result of type \<open>fault + 'a\<close>. Reading or writing outside a block, NULL, freed and
  uninitialised memory, \<open>exit(1)\<close> and a socket that closes are the faults. Nothing is assumed
  absent: the theorems that exclude a fault prove it. An \<open>int\<close> is an HOL \<open>int\<close>, with
  \<open>int32_ok\<close> where it goes over a socket and the wrap-around written out where the code
  overflows (\<open>suma32\<close>, \<open>por32\<close>); \<open>uint32_t\<close> and \<open>uint64_t\<close> are words. Shared mutable
  structures are stores: a \<open>Segmento*\<close> is an index in \<open>segmentos\<close>, a \<open>Descriptor*\<close> one in
  \<open>descriptores\<close>, a PCB pointer is the PID, and a freed entry is \<open>None\<close> or absent. The capacity
  of a block of \<open>malloc\<close> is kept where the code writes more than it allocated. Copies of NUL
  terminated strings that read beyond the NUL are taken to read what the heap has there, which
  no result depends on.

  A socket is the list of bytes sent and not yet read. In the transition systems of the kernel
  (\<open>ker_paso\<close>, \<open>hrrn_paso\<close>) one iteration of a thread is one step, the requests to another
  module are answered inside the step by that module's own loop, and the receiver of a console
  has read its own socket. What is proved of their reachable states is therefore about runs
  whose iterations do not overlap. The code does not impose that: it has mutexes for the queues
  of the states, but none for \<open>recursosDisponibles\<close>, \<open>recursosEnUso\<close>,
  \<open>recursos_por_proceso\<close>, \<open>GDT\<close>, the descriptors, \<open>diccionario_colas_archivos\<close> and
  \<open>global_PCB_list\<close>. \<open>Ker_Carreras\<close> takes the iterations on resources and on files apart, shows
  that mutual exclusion would be enough for two of them, and has the runs of the code that break
  the invariants. In those transition systems what the consoles
  send is arbitrary, and so is the CPU: while a process is in it, it may make any request to
  the memory module, and it may send back any context. The invariants of the reachable states
  hold under all of these; \<open>Ker_Turno\<close> has the turns with the CPU of the source. The two schedulers have
  finer steps: a process leaves for the CPU and comes back in two, and a creation that needs a
  compaction stops at \<open>sem_wait(&compaction_permission)\<close>. \<open>Mem_Recepcion\<close> has one step per
  operation on a semaphore or on the list. In \<open>Ker_Hilos\<close> a request to the memory module and
  its answer are one step; \<open>Ker_Socket\<close> splits them, shows what may go wrong, and that
  holding \<open>mutexMemoria\<close> from the request to the answer would give each thread its own;
  \<open>Ker_Acepta\<close> splits the connection of a console in the same way.

  \<^bold>\<open>Parameters.\<close> so-commons is not in the repository: what a choice of it can change (ties in a
  minimum, the order of a dictionary, \<open>string_itoa\<close>, \<open>string_split\<close>) is the record \<open>commons\<close>, with
  the bytes that \<open>malloc(n)\<close> really gives (\<open>malloc_util\<close>, at least \<open>n\<close>), since the code writes
  more than it asked for in places; its
  documented behaviour the hypothesis \<open>commons_ok\<close>, and \<open>commons_ej\<close> satisfies it. \<open>list_sort\<close>
  is an argument with \<open>list_sort_ok\<close>, satisfied by \<open>por_insercion\<close>. The arithmetic of \<open>double\<close>
  is an argument of the HRRN definitions, so that what is proved of them holds with any
  rounding; the order of \<open>readdir\<close>, uninitialised fields and readings of the clock are too.

  \<^bold>\<open>Loops.\<close> Those over a list are structural. \<open>compactar_bucle\<close>, \<open>cpu_bucle\<close> and
  \<open>ker_create_segment\<close> are \<open>partial_function (option)\<close>, for which it is proved that they
  return: the sum of the bases of the segments falls in each compaction step, the program
  counter reaches the end of the program, and one compaction is enough for a creation.

  \<^bold>\<open>What the lemmas show.\<close> Safety and accounting in every reachable state of the memory module
  and of the kernel with either scheduler, and that its threads go on; the exact result of the requests of each module,
  errors included; refinement of an abstract file, of the abstract memory
  and of the diagram of the processes; round trips of
  messages, registers, programs and of a disk across a restart; the end of every loop; and a
  concrete run, or a hypothesis that cannot be dropped, for each flaw the manifest reports.
  Bounds on sizes (\<open>cabe_paquete\<close>, \<open>TAM_MEMORIA < 2^31\<close>, \<open>cadena_ok\<close>) are those of the 32-bit
  lengths on the wire.

  \<^bold>\<open>Not modelled.\<close> Log lines and what only builds them; the names of files read from the
  terminal; the calls of the operating system that open sockets; the semaphores of the kernel's
  queues (a wait is a step that is not enabled); the scripts and programs run by hand; functions no module calls
  (\<open>select_socketCalling\<close>, \<open>paquete\<close>, \<open>server_recieves\<close>, \<open>saludar\<close>).

  \<^bold>\<open>Not shown.\<close> That any ready process is executed in the end: with both schedulers some calls
  put the process first in the queue again, and the code bounds them by nothing.
  \<open>Ker_Computo\<close> shows it with FIFO for processes that only compute, yield and exit; \<open>falta\<close>, the
  instructions they have left, is a bound on the turns, so the fuel of \<open>turnos\<close> is enough. The
  turns of \<open>Ker_Turno\<close> may end with one fault, a register that does not fit in its block, when
  \<open>malloc(5)\<close> gives less than 17 bytes (\<open>holgado\<close> excludes it); that the code writes past
  those blocks is a property too, in \<open>Cpu_Propiedades\<close>. What overlapping iterations of three
  threads do, or of handlers other than those of \<open>Ker_Carreras\<close>, \<open>Ker_Socket\<close> and
  \<open>Ker_Acepta\<close>; what the memory module does after a creation with a size that is not
  positive, which it accepts. The turn of the HRRN scheduler uses the same
  \<open>enviar_PCB\<close> and \<open>recibir_PCB\<close> and is not stated apart.
\<close>

end
